(* ===== verification/Prelude.thy ===== *)
theory Prelude
  imports Main "HOL-Library.Word" "HOL-Library.AList" "HOL-Library.Multiset" "HOL-Library.Sublist"
begin

text \<open>
  The vocabulary every component of the development shares: the lemma collections, Go's
  error values and results, Go maps with string keys as association lists, and the parts of
  Go's \<open>strings\<close>, \<open>strconv\<close> and \<open>fmt\<close> packages that the operator and the instance code call.
  Strings are byte strings (\<open>char list\<close>); case mapping and white space are those of the ASCII
  range, the only characters the code compares them on.
\<close>

named_theorems go_string \<open>evaluation of the string functions\<close>
named_theorems go_map \<open>lookup and update laws of Go maps\<close>

section \<open>Errors and results\<close>

text \<open>
  An \<open>error\<close> value of the code: made by \<open>errors.New\<close> or a plain \<open>fmt.Errorf\<close>, returned by
  the Kubernetes API with a reason, returned by \<open>strconv\<close>, returned by the file system (an
  \<open>*os.PathError\<close> with its path and cause: the operating system's \<open>ENOENT\<close>, the package's value
  \<open>os.ErrNotExist\<close> that in-memory file systems use, or another), or
  wrapped with a prefix by \<open>fmt.Errorf("prefix: %w", err)\<close> or \<open>errors.Wrap\<close>.
\<close>

datatype api_reason = ReasonNotFound | ReasonAlreadyExists | ReasonConflict | ReasonOther

datatype num_error = ErrSyntax | ErrRange

datatype path_cause = ENOENT | ErrNotExist | OtherCause string

datatype go_error =
    Err string
  | ApiErr api_reason string
  | NumErr string string num_error
  | PathErr string path_cause
  | Wrap string go_error

type_synonym 'a result = "go_error + 'a"

fun Error :: "go_error \<Rightarrow> string" where
  "Error (Err s) = s"
| "Error (ApiErr r s) = s"
| "Error (NumErr f s k) = ''strconv.'' @ f @ '': parsing '' @ [CHR 0x22] @ s @ [CHR 0x22] @
     (case k of ErrSyntax \<Rightarrow> '': invalid syntax'' | ErrRange \<Rightarrow> '': value out of range'')"
| "Error (PathErr p c) = p @ '': '' @
     (case c of ENOENT \<Rightarrow> ''no such file or directory'' | ErrNotExist \<Rightarrow> ''file does not exist'' | OtherCause m \<Rightarrow> m)"
| "Error (Wrap p e) = p @ '': '' @ Error e"

text \<open>\<open>apierrs.IsNotFound\<close> looks through wrapped errors.\<close>

fun IsNotFound :: "go_error \<Rightarrow> bool" where
  "IsNotFound (ApiErr r s) = (r = ReasonNotFound)"
| "IsNotFound (Wrap p e) = IsNotFound e"
| "IsNotFound (Err s) = False"
| "IsNotFound (NumErr f s k) = False"
| "IsNotFound (PathErr p c) = False"

text \<open>\<open>os.IsNotExist\<close> does not look through wrapped errors.\<close>

fun IsNotExist :: "go_error \<Rightarrow> bool" where
  "IsNotExist (PathErr p c) = (c = ENOENT \<or> c = ErrNotExist)"
| "IsNotExist (Err s) = False"
| "IsNotExist (ApiErr r s) = False"
| "IsNotExist (NumErr f s k) = False"
| "IsNotExist (Wrap p e) = False"

section \<open>Go maps with string keys\<close>

text \<open>
  A \<open>map[string]T\<close> is an association list, so that a range over it can be written; a nil map
  is \<open>None\<close> where the code tests for it. \<open>map_make\<close> is the \<open>if m == nil { m = make(...) }\<close>
  that precedes every write, \<open>map_merge\<close> the loop that copies one map into another.
\<close>

type_synonym smap = "(string \<times> string) list"

definition map_make :: "('k \<times> 'v) list option \<Rightarrow> ('k \<times> 'v) list" where
  "map_make m = (case m of None \<Rightarrow> [] | Some xs \<Rightarrow> xs)"

fun map_merge :: "('k \<times> 'v) list \<Rightarrow> ('k \<times> 'v) list \<Rightarrow> ('k \<times> 'v) list" where
  "map_merge m [] = m"
| "map_merge m ((k, v) # kvs) = map_merge (AList.update k v m) kvs"

lemma map_make_Some [simp, go_map]: "map_make (Some m) = m"
  by (simp add: map_make_def)

lemma map_make_None [simp, go_map]: "map_make None = []"
  by (simp add: map_make_def)

lemma map_of_update [simp, go_map]: "map_of (AList.update k v m) = (map_of m)(k \<mapsto> v)"
  by (rule update_conv')

lemma map_of_merge [go_map]:
  "distinct (map fst kvs) \<Longrightarrow>
   map_of (map_merge m kvs) k = (case map_of kvs k of Some v \<Rightarrow> Some v | None \<Rightarrow> map_of m k)"
proof (induction m kvs rule: map_merge.induct)
  case (2 m k' v kvs)
  then have "map_of kvs k' = None" by (simp add: map_of_eq_None_iff)
  with 2 show ?case by (simp split: option.splits)
qed simp

lemma map_merge_keep:
  assumes "distinct (map fst kvs)" "(k, v) \<in> set kvs"
  shows "map_of (map_merge m kvs) k = Some v"
  using assms by (simp add: map_of_merge map_of_is_SomeI)

lemma map_merge_id: "(\<And>k v. (k, v) \<in> set kvs \<Longrightarrow> map_of m k = Some v) \<Longrightarrow> map_merge m kvs = m"
  by (induction m kvs rule: map_merge.induct) (simp_all add: update_triv)

lemma map_merge_idem [simp, go_map]:
  "distinct (map fst kvs) \<Longrightarrow> map_merge (map_merge m kvs) kvs = map_merge m kvs"
  by (rule map_merge_id) (rule map_merge_keep)

section \<open>Strings\<close>

definition code :: "char \<Rightarrow> nat" where
  "code c = of_char c"

definition lower_char :: "char \<Rightarrow> char" where
  "lower_char c = (if 65 \<le> code c \<and> code c \<le> 90 then char_of (code c + 32) else c)"

definition ToLower :: "string \<Rightarrow> string" where
  "ToLower s = map lower_char s"

definition is_space :: "char \<Rightarrow> bool" where
  "is_space c = (code c \<in> {9, 10, 11, 12, 13, 32})"

definition TrimSpace :: "string \<Rightarrow> string" where
  "TrimSpace s = rev (dropWhile is_space (rev (dropWhile is_space s)))"

definition HasPrefix :: "string \<Rightarrow> string \<Rightarrow> bool" where
  "HasPrefix s p = (take (length p) s = p)"

definition HasSuffix :: "string \<Rightarrow> string \<Rightarrow> bool" where
  "HasSuffix s p = (length p \<le> length s \<and> drop (length s - length p) s = p)"

definition TrimPrefix :: "string \<Rightarrow> string \<Rightarrow> string" where
  "TrimPrefix s p = (if HasPrefix s p then drop (length p) s else s)"

definition TrimSuffix :: "string \<Rightarrow> string \<Rightarrow> string" where
  "TrimSuffix s p = (if HasSuffix s p then take (length s - length p) s else s)"

text \<open>\<open>strings.Split\<close> at a one-byte separator: always at least one field.\<close>

fun Split :: "string \<Rightarrow> char \<Rightarrow> string list" where
  "Split [] sep = [[]]"
| "Split (c # cs) sep =
     (if c = sep then [] # Split cs sep
      else (case Split cs sep of [] \<Rightarrow> [[c]] | f # fs \<Rightarrow> (c # f) # fs))"

fun Join :: "string list \<Rightarrow> string \<Rightarrow> string" where
  "Join [] sep = []"
| "Join [s] sep = s"
| "Join (s # t # ts) sep = s @ sep @ Join (t # ts) sep"

lemma code_char_of [simp]: "n < 256 \<Longrightarrow> code (char_of n) = n"
  by (simp add: code_def)

lemma lower_char_idem [simp]: "lower_char (lower_char c) = lower_char c"
  by (simp add: lower_char_def)

lemma ToLower_idem [simp, go_string]: "ToLower (ToLower s) = ToLower s"
  by (simp add: ToLower_def o_def)

lemma length_ToLower [simp]: "length (ToLower s) = length s"
  by (simp add: ToLower_def)

lemma TrimSuffix_append [simp, go_string]: "TrimSuffix (s @ p) p = s"
  by (simp add: TrimSuffix_def HasSuffix_def)

lemma TrimPrefix_append [simp, go_string]: "TrimPrefix (p @ s) p = s"
  by (simp add: TrimPrefix_def HasPrefix_def)

lemma HasSuffix_append [simp, go_string]: "HasSuffix (s @ p) p"
  by (simp add: HasSuffix_def)

lemma HasSuffix_iff: "HasSuffix s p \<longleftrightarrow> (\<exists>q. s = q @ p)"
proof
  assume "HasSuffix s p"
  then have "s = take (length s - length p) s @ p"
    by (metis HasSuffix_def append_take_drop_id)
  then show "\<exists>q. s = q @ p" by blast
qed auto

lemma HasPrefix_iff: "HasPrefix s p \<longleftrightarrow> (\<exists>q. s = p @ q)"
  by (metis HasPrefix_def append_eq_conv_conj append_take_drop_id)

lemma Split_not_Nil [simp]: "Split s sep \<noteq> []"
  by (induction s sep rule: Split.induct) (auto split: list.splits)

lemma Join_Cons: "ts \<noteq> [] \<Longrightarrow> Join (s # ts) sep = s @ sep @ Join ts sep"
  by (cases ts) auto

lemma Join_Split [simp, go_string]: "Join (Split s sep) [sep] = s"
proof (induction s sep rule: Split.induct)
  case (2 c cs sep)
  then show ?case
    by (cases "Split cs sep"; cases "tl (Split cs sep)") (auto simp: Join_Cons)
qed simp

lemma Split_no_sep: "sep \<notin> set s \<Longrightarrow> Split s sep = [s]"
  by (induction s sep rule: Split.induct) auto

lemma Split_append_sep: "sep \<notin> set s \<Longrightarrow> Split (s @ sep # t) sep = s # Split t sep"
  by (induction s) auto

lemma Split_Join: "ts \<noteq> [] \<Longrightarrow> (\<forall>t\<in>set ts. sep \<notin> set t) \<Longrightarrow> Split (Join ts [sep]) sep = ts"
proof (induction ts)
  case (Cons t ts)
  then show ?case by (cases ts) (auto simp: Split_no_sep Split_append_sep)
qed simp

section \<open>Numbers as text\<close>

text \<open>\<open>strconv.Itoa\<close> and \<open>%d\<close>, \<open>strconv.ParseInt(s, 10, bits)\<close> and \<open>strconv.Atoi\<close>, \<open>strconv.ParseBool\<close>.\<close>

fun nat_digits :: "nat \<Rightarrow> string" where
  "nat_digits n = (if n < 10 then [char_of (48 + n)]
                   else nat_digits (n div 10) @ [char_of (48 + n mod 10)])"

declare nat_digits.simps [simp del]

definition Itoa :: "int \<Rightarrow> string" where
  "Itoa i = (if i < 0 then ''-'' @ nat_digits (nat (- i)) else nat_digits (nat i))"

definition is_digit :: "char \<Rightarrow> bool" where
  "is_digit c = (48 \<le> code c \<and> code c \<le> 57)"

definition digits_val :: "string \<Rightarrow> nat" where
  "digits_val s = foldl (\<lambda>acc c. 10 * acc + (code c - 48)) 0 s"

definition split_sign :: "string \<Rightarrow> bool \<times> string" where
  "split_sign s = (case s of
      [] \<Rightarrow> (False, [])
    | c # cs \<Rightarrow> (if c = CHR ''-'' then (True, cs) else if c = CHR ''+'' then (False, cs) else (False, s)))"

definition ParseInt :: "string \<Rightarrow> nat \<Rightarrow> string \<Rightarrow> int result" where
  "ParseInt fn bits s =
     (let (neg, ds) = split_sign s;
          v = (if neg then - int (digits_val ds) else int (digits_val ds))
      in if ds = [] \<or> \<not> list_all is_digit ds then Inl (NumErr fn s ErrSyntax)
         else if v < - (2 ^ (bits - 1)) \<or> v \<ge> 2 ^ (bits - 1) then Inl (NumErr fn s ErrRange)
         else Inr v)"

definition Atoi :: "string \<Rightarrow> int result" where
  "Atoi s = ParseInt ''Atoi'' 64 s"

definition ParseBool :: "string \<Rightarrow> bool result" where
  "ParseBool s =
     (if s \<in> {''1'', ''t'', ''T'', ''TRUE'', ''true'', ''True''} then Inr True
      else if s \<in> {''0'', ''f'', ''F'', ''FALSE'', ''false'', ''False''} then Inr False
      else Inl (NumErr ''ParseBool'' s ErrSyntax))"

definition SprintBool :: "bool \<Rightarrow> string" where
  "SprintBool b = (if b then ''true'' else ''false'')"

lemma nat_digits_not_Nil [simp]: "nat_digits n \<noteq> []"
  by (subst nat_digits.simps) simp

lemma nat_digits_is_digit: "list_all is_digit (nat_digits n)"
proof (induction n rule: nat_digits.induct)
  case (1 n)
  then show ?case by (subst nat_digits.simps) (auto, auto simp: is_digit_def)
qed

lemma digits_val_snoc: "digits_val (s @ [c]) = 10 * digits_val s + (code c - 48)"
  by (simp add: digits_val_def)

lemma digits_val_nat_digits [simp]: "digits_val (nat_digits n) = n"
proof (induction n rule: nat_digits.induct)
  case (1 n)
  then show ?case
    by (subst nat_digits.simps) (auto simp: digits_val_snoc, simp add: digits_val_def)
qed

lemma nat_digits_inj: "nat_digits m = nat_digits n \<longleftrightarrow> m = n"
  by (metis digits_val_nat_digits)

lemma split_sign_digits: "list_all is_digit s \<Longrightarrow> split_sign s = (False, s)"
  by (auto simp: split_sign_def is_digit_def code_def split: list.splits)

lemma is_digit_in_nat_digits: "c \<in> set (nat_digits n) \<Longrightarrow> is_digit c"
  using nat_digits_is_digit [of n] by (simp add: list_all_iff)

lemma ParseInt_Itoa [go_string]:
  assumes "- (2 ^ (bits - 1)) \<le> i" "i < 2 ^ (bits - 1)"
  shows "ParseInt fn bits (Itoa i) = Inr i"
proof (cases "i < 0")
  case True
  then have "split_sign (Itoa i) = (True, nat_digits (nat (- i)))"
    by (simp add: Itoa_def split_sign_def)
  with True assms show ?thesis
    by (simp add: ParseInt_def nat_digits_is_digit)
next
  case False
  then have "split_sign (Itoa i) = (False, nat_digits (nat i))"
    by (simp add: Itoa_def split_sign_digits nat_digits_is_digit)
  with False assms show ?thesis
    by (simp add: ParseInt_def nat_digits_is_digit)
qed

lemma ParseInt_range: "ParseInt fn bits s = Inr v \<Longrightarrow> - (2 ^ (bits - 1)) \<le> v \<and> v < 2 ^ (bits - 1)"
  by (auto simp: ParseInt_def Let_def split: prod.splits if_splits)

lemma Itoa_not_Nil [simp]: "Itoa i \<noteq> []"
  by (simp add: Itoa_def)

lemma Itoa_inj [simp]: "Itoa i = Itoa j \<longleftrightarrow> i = j"
proof
  assume "Itoa i = Itoa j"
  let ?b = "nat (\<bar>i\<bar> + \<bar>j\<bar>) + 1"
  have small: "\<bar>k\<bar> < 2 ^ (?b - 1)" if "\<bar>k\<bar> \<le> \<bar>i\<bar> + \<bar>j\<bar>" for k :: int
  proof -
    have "nat (\<bar>i\<bar> + \<bar>j\<bar>) < 2 ^ nat (\<bar>i\<bar> + \<bar>j\<bar>)" by (rule less_exp)
    then have "int (nat (\<bar>i\<bar> + \<bar>j\<bar>)) < 2 ^ nat (\<bar>i\<bar> + \<bar>j\<bar>)"
      by (metis of_nat_less_iff of_nat_numeral of_nat_power)
    then show ?thesis using that by simp
  qed
  have "ParseInt [] ?b (Itoa i) = Inr i" "ParseInt [] ?b (Itoa j) = Inr j"
    using small [of i] small [of j] by (auto intro!: ParseInt_Itoa simp: abs_less_iff)
  with \<open>Itoa i = Itoa j\<close> show "i = j" by simp
qed simp

lemma ParseBool_SprintBool [simp, go_string]: "ParseBool (SprintBool b) = Inr b"
  by (simp add: ParseBool_def SprintBool_def)

section \<open>Machine integers\<close>

text \<open>
  The API's \<open>int32\<close> fields are \<open>32 word\<close>s read with \<open>sint\<close>; Go's \<open>int\<close> (64 bits on every
  platform the images are built for) is an \<open>int\<close> whose increments go through \<open>wrap64\<close>.
\<close>

type_synonym int32 = "32 word"

definition wrap64 :: "int \<Rightarrow> int" where
  "wrap64 i = (i + 2 ^ 63) mod 2 ^ 64 - 2 ^ 63"

lemma wrap64_id [simp]: "- (2 ^ 63) \<le> i \<Longrightarrow> i < 2 ^ 63 \<Longrightarrow> wrap64 i = i"
  by (simp add: wrap64_def)

lemma sint32_range: "- (2 ^ 31) \<le> sint (w :: int32)" "sint (w :: int32) < 2 ^ 31"
  using sint_range_size [of w] by (simp_all add: word_size)

lemma Atoi_Itoa_int32 [simp, go_string]: "Atoi (Itoa (sint (w :: int32))) = Inr (sint w)"
  unfolding Atoi_def
  by (rule ParseInt_Itoa) (use sint32_range [of w] in auto)

lemma sint_int32_of_int: "- (2 ^ 31) \<le> k \<Longrightarrow> k < 2 ^ 31 \<Longrightarrow> sint (word_of_int k :: int32) = k"
  by (simp add: sint_sbintrunc' signed_take_bit_int_eq_self)

lemma sint_ParseInt32: "ParseInt fn 32 s = Inr k \<Longrightarrow> sint (word_of_int k :: int32) = k"
  using ParseInt_range [of fn 32 s k] by (simp add: sint_int32_of_int)

end
