(* ===== verification/Kube.thy ===== *)
theory Kube
  imports Prelude
begin

text \<open>
  The Kubernetes side of the operator, as its code sees it. The first part holds the fields of
  the API objects that the code reads or writes (\<open>k8s.io/api\<close> is data here: fields the code
  never touches are left out). The second part is the client: \<open>sigs.k8s.io/controller-runtime\<close>
  and the API server behind it are not part of the repository, so every operation of the client
  is a component of a record that the model's functions take as a parameter, over a server state
  of any type \<open>'s\<close>. A call goes through a wrapper that also appends it to the log of the
  world, so that the order of the calls can be stated.
\<close>

section \<open>API objects\<close>

text \<open>
  \<open>resource.Quantity\<close> is opaque: two Go structs are equal when the tokens are, and its methods
  \<open>Cmp\<close>, \<open>Sign\<close> and \<open>String\<close> are parameters. The zero struct is \<open>Quantity []\<close>.
\<close>

datatype Quantity = Quantity string

record quantity_ops =
  q_Cmp :: "Quantity \<Rightarrow> Quantity \<Rightarrow> int"
  q_Sign :: "Quantity \<Rightarrow> int"
  q_String :: "Quantity \<Rightarrow> string"

abbreviation ZeroQuantity :: Quantity where
  "ZeroQuantity \<equiv> Quantity []"

record ObjectMeta =
  Name :: string
  Namespace :: string
  Labels :: "smap option"
  OwnerReferences :: "string list"
  Finalizers :: "string list"
  DeletionTimestamp :: "nat option"

record EnvVar =
  env_Name :: string
  env_Value :: string
  env_SecretKeyRef :: "(string \<times> string) option"

record VolumeMount =
  vm_Name :: string
  vm_MountPath :: string

datatype VolumeSource =
    SecretVolume string int
  | ConfigMapVolume string int
  | HostPathVolume string string
  | DownwardAPIVolume "(string \<times> string) list" int

record Volume =
  vol_Name :: string
  vol_Source :: VolumeSource

datatype ProbeHandler = NoProbeHandler | TCPSocketAction int | ExecAction "string list"

record Probe =
  pr_Handler :: ProbeHandler
  pr_InitialDelaySeconds :: int
  pr_TimeoutSeconds :: int
  pr_PeriodSeconds :: int

type_synonym ResourceList = "(string \<times> Quantity) list"

record Container =
  c_Name :: string
  c_Args :: "string list"
  c_Command :: "string list"
  c_Image :: string
  c_ImagePullPolicy :: string
  c_Ports :: "(int \<times> string) list"
  c_ReadinessProbe :: "Probe option"
  c_Limits :: "ResourceList option"
  c_Requests :: "ResourceList option"
  c_Env :: "EnvVar list"
  c_VolumeMounts :: "VolumeMount list"

text \<open>A node or pod selector term: key, operator, values.\<close>

type_synonym Requirement = "string \<times> string \<times> string list"

record PodAffinityTerm =
  term_MatchExpressions :: "Requirement list"
  term_TopologyKey :: string

record Affinity =
  aff_NodeSelectorTerms :: "Requirement list list"
  aff_PodAntiAffinity :: "PodAffinityTerm list option"

record PodSpec =
  ps_Containers :: "Container list"
  ps_Volumes :: "Volume list"
  ps_NodeSelector :: "smap option"
  ps_ImagePullSecrets :: "string list"
  ps_DNSSearches :: "string list option"
  ps_Affinity :: "Affinity option"
  ps_ServiceAccountName :: string
  ps_RestartPolicy :: string

record PodTemplate =
  pt_Labels :: "smap option"
  pt_Spec :: PodSpec

record PersistentVolumeClaim =
  pvc_meta :: ObjectMeta
  pvc_StorageClassName :: "string option"
  pvc_AccessModes :: "string list"
  pvc_Limits :: ResourceList
  pvc_Requests :: ResourceList

record StatefulSet =
  ss_meta :: ObjectMeta
  ss_Replicas :: "int32 option"
  ss_Selector :: "smap option"
  ss_ServiceName :: string
  ss_PodManagementPolicy :: string
  ss_VolumeClaimTemplates :: "PersistentVolumeClaim list"
  ss_Template :: PodTemplate

record Deployment =
  d_meta :: ObjectMeta
  d_Replicas :: "int32 option"
  d_Selector :: "smap option"
  d_Template :: PodTemplate
  d_ReadyReplicas :: int32
  d_UnavailableReplicas :: int32
  d_UpdatedReplicas :: int32

record ConfigMap =
  cm_meta :: ObjectMeta
  cm_Data :: "smap option"

record Secret =
  sec_meta :: ObjectMeta
  sec_Data :: "smap option"
  sec_Type :: string

record ServicePort =
  sp_Name :: string
  sp_Port :: int32
  sp_Protocol :: string
  sp_TargetPort :: int

record Service =
  svc_meta :: ObjectMeta
  svc_Ports :: "ServicePort list"
  svc_Selector :: "smap option"
  svc_Type :: string
  svc_ClusterIP :: string
  svc_ExternalTrafficPolicy :: string
  svc_SessionAffinity :: string

record ServiceAccount =
  sa_meta :: ObjectMeta

record PolicyRule =
  Verbs :: "string list"
  APIGroups :: "string list"
  Resources :: "string list"
  ResourceNames :: "string list"

record Role =
  role_meta :: ObjectMeta
  Rules :: "PolicyRule list"

record Subject =
  subj_Kind :: string
  subj_APIGroup :: string
  subj_Name :: string
  subj_Namespace :: string

record RoleBinding =
  rb_meta :: ObjectMeta
  rb_Subjects :: "Subject list"
  rb_RoleRef :: "string \<times> string \<times> string"

record Job =
  job_meta :: ObjectMeta
  job_BackoffLimit :: "int option"
  job_Template :: PodTemplate
  job_Succeeded :: int32
  job_Failed :: int32

record Node =
  node_meta :: ObjectMeta

record Pod =
  pod_meta :: ObjectMeta
  pod_ClaimVolumes :: "string option list"

definition emptyMeta :: ObjectMeta where
  "emptyMeta = \<lparr>Name = [], Namespace = [], Labels = None, OwnerReferences = [], Finalizers = [],
     DeletionTimestamp = None\<rparr>"

definition objectMeta :: "string \<Rightarrow> string \<Rightarrow> ObjectMeta" where
  "objectMeta name ns = emptyMeta\<lparr>Name := name, Namespace := ns\<rparr>"

definition emptyContainer :: Container where
  "emptyContainer = \<lparr>c_Name = [], c_Args = [], c_Command = [], c_Image = [], c_ImagePullPolicy = [],
     c_Ports = [], c_ReadinessProbe = None, c_Limits = None, c_Requests = None, c_Env = [],
     c_VolumeMounts = []\<rparr>"

definition emptyProbe :: Probe where
  "emptyProbe = \<lparr>pr_Handler = NoProbeHandler, pr_InitialDelaySeconds = 0, pr_TimeoutSeconds = 0,
     pr_PeriodSeconds = 0\<rparr>"

definition emptyPodSpec :: PodSpec where
  "emptyPodSpec = \<lparr>ps_Containers = [], ps_Volumes = [], ps_NodeSelector = None,
     ps_ImagePullSecrets = [], ps_DNSSearches = None, ps_Affinity = None,
     ps_ServiceAccountName = [], ps_RestartPolicy = []\<rparr>"

definition emptyTemplate :: PodTemplate where
  "emptyTemplate = \<lparr>pt_Labels = None, pt_Spec = emptyPodSpec\<rparr>"

definition emptyPVC :: PersistentVolumeClaim where
  "emptyPVC = \<lparr>pvc_meta = emptyMeta, pvc_StorageClassName = None, pvc_AccessModes = [],
     pvc_Limits = [], pvc_Requests = []\<rparr>"

definition emptyPort :: ServicePort where
  "emptyPort = \<lparr>sp_Name = [], sp_Port = 0, sp_Protocol = [], sp_TargetPort = 0\<rparr>"

text \<open>Objects named by their metadata only, as the code builds them before \<open>CreateOrUpdate\<close>.\<close>

definition newStatefulSet :: "ObjectMeta \<Rightarrow> StatefulSet" where
  "newStatefulSet m = \<lparr>ss_meta = m, ss_Replicas = None, ss_Selector = None, ss_ServiceName = [],
     ss_PodManagementPolicy = [], ss_VolumeClaimTemplates = [], ss_Template = emptyTemplate\<rparr>"

definition newDeployment :: "ObjectMeta \<Rightarrow> Deployment" where
  "newDeployment m = \<lparr>d_meta = m, d_Replicas = None, d_Selector = None, d_Template = emptyTemplate,
     d_ReadyReplicas = 0, d_UnavailableReplicas = 0, d_UpdatedReplicas = 0\<rparr>"

definition newConfigMap :: "ObjectMeta \<Rightarrow> ConfigMap" where
  "newConfigMap m = \<lparr>cm_meta = m, cm_Data = None\<rparr>"

definition newSecret :: "ObjectMeta \<Rightarrow> Secret" where
  "newSecret m = \<lparr>sec_meta = m, sec_Data = None, sec_Type = []\<rparr>"

definition newService :: "ObjectMeta \<Rightarrow> Service" where
  "newService m = \<lparr>svc_meta = m, svc_Ports = [], svc_Selector = None, svc_Type = [],
     svc_ClusterIP = [], svc_ExternalTrafficPolicy = [], svc_SessionAffinity = []\<rparr>"

definition newServiceAccount :: "ObjectMeta \<Rightarrow> ServiceAccount" where
  "newServiceAccount m = \<lparr>sa_meta = m\<rparr>"

definition newRole :: "ObjectMeta \<Rightarrow> Role" where
  "newRole m = \<lparr>role_meta = m, Rules = []\<rparr>"

definition newRoleBinding :: "ObjectMeta \<Rightarrow> RoleBinding" where
  "newRoleBinding m = \<lparr>rb_meta = m, rb_Subjects = [], rb_RoleRef = ([], [], [])\<rparr>"

definition newJob :: Job where
  "newJob = \<lparr>job_meta = emptyMeta, job_BackoffLimit = None, job_Template = emptyTemplate,
     job_Succeeded = 0, job_Failed = 0\<rparr>"

lemmas empty_object_defs = emptyMeta_def objectMeta_def emptyContainer_def emptyProbe_def
  emptyPodSpec_def emptyTemplate_def emptyPVC_def emptyPort_def newStatefulSet_def
  newDeployment_def newConfigMap_def newSecret_def newService_def newServiceAccount_def
  newRole_def newRoleBinding_def newJob_def

section \<open>The client\<close>

datatype kind =
    KGreenplumCluster | KGreenplumPXFService | KConfigMap | KSecret | KService | KServiceAccount
  | KRole | KRoleBinding | KStatefulSet | KDeployment | KJob | KNode | KPVC | KPod
  | KCSR | KWebhookConfig | KCRD

datatype OperationResult = OpNone | OpCreated | OpUpdated

text \<open>
  The client's operations on one kind of object: \<open>Get\<close> takes the namespace and the name, \<open>List\<close>
  the namespace (empty for objects without one) and the labels to match, \<open>Patch\<close> the object
  and the base of \<open>client.MergeFrom\<close>; on success \<open>Create\<close> and \<open>Patch\<close> return the object as the
  server answered it, which is what the code's pointer holds afterwards.
\<close>

record ('s, 'a) resource_api =
  api_kind :: kind
  api_meta :: "'a \<Rightarrow> ObjectMeta"
  api_Get :: "string \<Rightarrow> string \<Rightarrow> 's \<Rightarrow> 'a result \<times> 's"
  api_List :: "string \<Rightarrow> smap \<Rightarrow> 's \<Rightarrow> 'a list result \<times> 's"
  api_Create :: "'a \<Rightarrow> 's \<Rightarrow> 'a result \<times> 's"
  api_Patch :: "'a \<Rightarrow> 'a \<Rightarrow> 's \<Rightarrow> 'a result \<times> 's"
  api_Delete :: "'a \<Rightarrow> 's \<Rightarrow> unit result \<times> 's"
  api_CreateOrUpdate ::
    "'a \<Rightarrow> ('a \<Rightarrow> 's \<Rightarrow> 'a result \<times> 's) \<Rightarrow> 's \<Rightarrow> (OperationResult \<times> 'a) result \<times> 's"

text \<open>What \<open>PodExecInterface.Execute\<close> leaves behind: its error, if any, and the two streams.\<close>

record exec_result =
  ex_err :: "go_error option"
  ex_stdout :: string
  ex_stderr :: string

type_synonym 's pod_exec = "string list \<Rightarrow> string \<Rightarrow> string \<Rightarrow> 's \<Rightarrow> exec_result \<times> 's"

text \<open>The calls that leave the program: those of the client, on the instance's side the commands it
  runs (program and arguments) and its operations on files (name and path), and calls into other
  libraries (operation and the name of what it acts on).\<close>

datatype api_call =
    GetCall kind string string
  | ListCall kind string
  | CreateCall kind string string
  | PatchCall kind string string
  | DeleteCall kind string string
  | CreateOrUpdateCall kind string string
  | ExecCall "string list" string string
  | CommandCall string "string list"
  | FileCall string string
  | LibraryCall string string

record 's world =
  server :: 's
  calls :: "api_call list"

type_synonym ('s, 'a) io = "'s world \<Rightarrow> 'a \<times> 's world"

definition perform :: "api_call \<Rightarrow> ('s \<Rightarrow> 'a \<times> 's) \<Rightarrow> ('s, 'a) io" where
  "perform c f w = (case f (server w) of (r, s) \<Rightarrow> (r, w\<lparr>server := s, calls := calls w @ [c]\<rparr>))"

definition Get :: "('s, 'a) resource_api \<Rightarrow> string \<Rightarrow> string \<Rightarrow> ('s, 'a result) io" where
  "Get R ns name = perform (GetCall (api_kind R) ns name) (api_Get R ns name)"

definition ListObjects :: "('s, 'a) resource_api \<Rightarrow> string \<Rightarrow> smap \<Rightarrow> ('s, 'a list result) io" where
  "ListObjects R ns lbls = perform (ListCall (api_kind R) ns) (api_List R ns lbls)"

definition Create :: "('s, 'a) resource_api \<Rightarrow> 'a \<Rightarrow> ('s, 'a result) io" where
  "Create R x = perform (CreateCall (api_kind R) (Namespace (api_meta R x)) (Name (api_meta R x)))
     (api_Create R x)"

definition Patch :: "('s, 'a) resource_api \<Rightarrow> 'a \<Rightarrow> 'a \<Rightarrow> ('s, 'a result) io" where
  "Patch R x base = perform (PatchCall (api_kind R) (Namespace (api_meta R x)) (Name (api_meta R x)))
     (api_Patch R x base)"

definition Delete :: "('s, 'a) resource_api \<Rightarrow> 'a \<Rightarrow> ('s, unit result) io" where
  "Delete R x = perform (DeleteCall (api_kind R) (Namespace (api_meta R x)) (Name (api_meta R x)))
     (api_Delete R x)"

definition CreateOrUpdate ::
  "('s, 'a) resource_api \<Rightarrow> 'a \<Rightarrow> ('a \<Rightarrow> 's \<Rightarrow> 'a result \<times> 's) \<Rightarrow> ('s, (OperationResult \<times> 'a) result) io"
where
  "CreateOrUpdate R x f =
     perform (CreateOrUpdateCall (api_kind R) (Namespace (api_meta R x)) (Name (api_meta R x)))
       (api_CreateOrUpdate R x f)"

definition Execute :: "'s pod_exec \<Rightarrow> string list \<Rightarrow> string \<Rightarrow> string \<Rightarrow> ('s, exec_result) io" where
  "Execute p cmd ns pod = perform (ExecCall cmd ns pod) (p cmd ns pod)"

named_theorems client_defs \<open>unfolding the client's wrappers\<close>
declare Get_def [client_defs] ListObjects_def [client_defs] Create_def [client_defs]
  Patch_def [client_defs] Delete_def [client_defs] CreateOrUpdate_def [client_defs]
  Execute_def [client_defs]

text \<open>Every call appends exactly itself to the log.\<close>

lemma calls_perform: "perform c f w = (r, w') \<Longrightarrow> calls w' = calls w @ [c]"
  by (auto simp: perform_def split: prod.splits)

lemma server_perform: "perform c f w = (r, w') \<Longrightarrow> f (server w) = (r, server w')"
  by (auto simp: perform_def split: prod.splits)

named_theorems call_log \<open>what each client call appends to the log\<close>

lemma calls_Get [call_log]: "Get R ns n w = (r, w') \<Longrightarrow> calls w' = calls w @ [GetCall (api_kind R) ns n]"
  unfolding Get_def by (rule calls_perform)

lemma calls_List [call_log]: "ListObjects R ns l w = (r, w') \<Longrightarrow> calls w' = calls w @ [ListCall (api_kind R) ns]"
  unfolding ListObjects_def by (rule calls_perform)

lemma calls_Create [call_log]:
  "Create R x w = (r, w') \<Longrightarrow>
   calls w' = calls w @ [CreateCall (api_kind R) (Namespace (api_meta R x)) (Name (api_meta R x))]"
  unfolding Create_def by (rule calls_perform)

lemma calls_Patch [call_log]:
  "Patch R x b w = (r, w') \<Longrightarrow>
   calls w' = calls w @ [PatchCall (api_kind R) (Namespace (api_meta R x)) (Name (api_meta R x))]"
  unfolding Patch_def by (rule calls_perform)

lemma calls_Delete [call_log]:
  "Delete R x w = (r, w') \<Longrightarrow>
   calls w' = calls w @ [DeleteCall (api_kind R) (Namespace (api_meta R x)) (Name (api_meta R x))]"
  unfolding Delete_def by (rule calls_perform)

lemma calls_CreateOrUpdate [call_log]:
  "CreateOrUpdate R x f w = (r, w') \<Longrightarrow>
   calls w' = calls w @ [CreateOrUpdateCall (api_kind R) (Namespace (api_meta R x)) (Name (api_meta R x))]"
  unfolding CreateOrUpdate_def by (rule calls_perform)

lemma calls_Execute [call_log]:
  "Execute p cmd ns pod w = (r, w') \<Longrightarrow> calls w' = calls w @ [ExecCall cmd ns pod]"
  unfolding Execute_def by (rule calls_perform)

text \<open>Which calls may change an object: used to state that a path writes nothing.\<close>

fun is_write :: "api_call \<Rightarrow> bool" where
  "is_write (GetCall k ns n) = False"
| "is_write (ListCall k ns) = False"
| "is_write (CreateCall k ns n) = True"
| "is_write (PatchCall k ns n) = True"
| "is_write (DeleteCall k ns n) = True"
| "is_write (CreateOrUpdateCall k ns n) = True"
| "is_write (ExecCall c ns p) = False"
| "is_write (CommandCall c args) = False"
| "is_write (FileCall f p) = False"
| "is_write (LibraryCall f a) = False"

end
