(* ===== verification/Greenplum_API.thy ===== *)
theory Greenplum_API
  imports Kube
begin

text \<open>
  The two custom resources of the operator (\<open>greenplum-operator/api\<close>): the structs of
  \<open>greenplumcluster_types.go\<close> and \<open>greenplumpxfservice_types.go\<close>, the validation rules their
  kubebuilder markers put into the CRD schema, and the normalisation of the yes/no fields
  (\<open>SetDefaultGreenplumClusterValues\<close>). An embedded struct is a record extension.
\<close>

section \<open>GreenplumCluster\<close>

definition AppName :: string where
  "AppName = ''greenplum''"

record GreenplumPodSpec =
  gp_Memory :: Quantity
  gp_CPU :: Quantity
  gp_StorageClassName :: string
  gp_Storage :: Quantity
  gp_WorkerSelector :: "smap option"
  gp_AntiAffinity :: string

record GreenplumMasterAndStandbySpec = GreenplumPodSpec +
  HostBasedAuthentication :: string
  Standby :: string

record GreenplumSegmentsSpec = GreenplumPodSpec +
  PrimarySegmentCount :: int32
  Mirrors :: string

record GreenplumPXFSpec =
  ServiceName :: string

record GreenplumClusterSpec =
  MasterAndStandby :: GreenplumMasterAndStandbySpec
  Segments :: GreenplumSegmentsSpec
  PXF :: GreenplumPXFSpec

text \<open>\<open>PhaseNone\<close> is the empty string of a status that was never written.\<close>

datatype GreenplumClusterPhase =
    PhaseNone | PhasePending | PhaseRunning | PhaseFailed | PhaseDeleting

record GreenplumClusterStatus =
  InstanceImage :: string
  OperatorVersion :: string
  Phase :: GreenplumClusterPhase

record GreenplumCluster =
  gc_meta :: ObjectMeta
  Spec :: GreenplumClusterSpec
  Status :: GreenplumClusterStatus

section \<open>GreenplumPXFService\<close>

definition PXFAppName :: string where
  "PXFAppName = ''greenplum-pxf''"

record S3Source =
  s3_Secret :: string
  s3_Bucket :: string
  s3_EndPoint :: string
  s3_Protocol :: string
  s3_Folder :: string

record GreenplumPXFConf =
  pxfconf_S3Source :: S3Source

record GreenplumPXFServiceSpec =
  pxf_Replicas :: int32
  pxf_CPU :: Quantity
  pxf_Memory :: Quantity
  pxf_WorkerSelector :: "smap option"
  PXFConf :: "GreenplumPXFConf option"

datatype GreenplumPXFServicePhase = PXFPhaseNone | PXFPhasePending | PXFPhaseDegraded | PXFPhaseRunning

record GreenplumPXFService =
  pxf_meta :: ObjectMeta
  pxf_Spec :: GreenplumPXFServiceSpec
  pxf_Phase :: GreenplumPXFServicePhase

section \<open>The CRD schema\<close>

text \<open>The pattern \<open>^(?:yes|Yes|YES|no|No|NO|)$\<close> of the yes/no fields, and the other markers.\<close>

definition yes_no_pattern :: "string \<Rightarrow> bool" where
  "yes_no_pattern s = (s \<in> {''yes'', ''Yes'', ''YES'', ''no'', ''No'', ''NO'', ''''})"

definition crd_valid_cluster :: "GreenplumClusterSpec \<Rightarrow> bool" where
  "crd_valid_cluster spec =
     (gp_StorageClassName (MasterAndStandby spec) \<noteq> [] \<and>
      gp_StorageClassName (Segments spec) \<noteq> [] \<and>
      yes_no_pattern (gp_AntiAffinity (MasterAndStandby spec)) \<and>
      yes_no_pattern (gp_AntiAffinity (Segments spec)) \<and>
      yes_no_pattern (Standby (MasterAndStandby spec)) \<and>
      yes_no_pattern (Mirrors (Segments spec)) \<and>
      1 \<le> sint (PrimarySegmentCount (Segments spec)) \<and>
      sint (PrimarySegmentCount (Segments spec)) \<le> 10000)"

section \<open>Normalisation\<close>

definition SetDefaultGreenplumClusterValues :: "GreenplumCluster \<Rightarrow> GreenplumCluster" where
  "SetDefaultGreenplumClusterValues gc =
     gc\<lparr>Spec := (Spec gc)
        \<lparr>MasterAndStandby := (MasterAndStandby (Spec gc))
            \<lparr>gp_AntiAffinity := ToLower (gp_AntiAffinity (MasterAndStandby (Spec gc))),
             Standby := ToLower (Standby (MasterAndStandby (Spec gc)))\<rparr>,
         Segments := (Segments (Spec gc))
            \<lparr>gp_AntiAffinity := ToLower (gp_AntiAffinity (Segments (Spec gc))),
             Mirrors := ToLower (Mirrors (Segments (Spec gc)))\<rparr>\<rparr>\<rparr>"

lemma SetDefault_simps [simp]:
  "gc_meta (SetDefaultGreenplumClusterValues gc) = gc_meta gc"
  "Status (SetDefaultGreenplumClusterValues gc) = Status gc"
  "PXF (Spec (SetDefaultGreenplumClusterValues gc)) = PXF (Spec gc)"
  "gp_AntiAffinity (MasterAndStandby (Spec (SetDefaultGreenplumClusterValues gc))) =
     ToLower (gp_AntiAffinity (MasterAndStandby (Spec gc)))"
  "gp_AntiAffinity (Segments (Spec (SetDefaultGreenplumClusterValues gc))) =
     ToLower (gp_AntiAffinity (Segments (Spec gc)))"
  "Standby (MasterAndStandby (Spec (SetDefaultGreenplumClusterValues gc))) =
     ToLower (Standby (MasterAndStandby (Spec gc)))"
  "Mirrors (Segments (Spec (SetDefaultGreenplumClusterValues gc))) =
     ToLower (Mirrors (Segments (Spec gc)))"
  "PrimarySegmentCount (Segments (Spec (SetDefaultGreenplumClusterValues gc))) =
     PrimarySegmentCount (Segments (Spec gc))"
  "gp_StorageClassName (MasterAndStandby (Spec (SetDefaultGreenplumClusterValues gc))) =
     gp_StorageClassName (MasterAndStandby (Spec gc))"
  "gp_StorageClassName (Segments (Spec (SetDefaultGreenplumClusterValues gc))) =
     gp_StorageClassName (Segments (Spec gc))"
  "gp_Storage (MasterAndStandby (Spec (SetDefaultGreenplumClusterValues gc))) =
     gp_Storage (MasterAndStandby (Spec gc))"
  "gp_Storage (Segments (Spec (SetDefaultGreenplumClusterValues gc))) =
     gp_Storage (Segments (Spec gc))"
  "gp_WorkerSelector (MasterAndStandby (Spec (SetDefaultGreenplumClusterValues gc))) =
     gp_WorkerSelector (MasterAndStandby (Spec gc))"
  "gp_WorkerSelector (Segments (Spec (SetDefaultGreenplumClusterValues gc))) =
     gp_WorkerSelector (Segments (Spec gc))"
  by (simp_all add: SetDefaultGreenplumClusterValues_def)

lemma SetDefault_idem [simp]:
  "SetDefaultGreenplumClusterValues (SetDefaultGreenplumClusterValues gc) = SetDefaultGreenplumClusterValues gc"
  by (simp add: SetDefaultGreenplumClusterValues_def)

text \<open>On values the schema admits, normalisation yields exactly \<open>yes\<close>, \<open>no\<close> or the empty string.\<close>

lemma ToLower_literals [simp, go_string]:
  "ToLower ''yes'' = ''yes''" "ToLower ''Yes'' = ''yes''" "ToLower ''YES'' = ''yes''"
  "ToLower ''no'' = ''no''" "ToLower ''No'' = ''no''" "ToLower ''NO'' = ''no''" "ToLower [] = []"
  by code_simp+

lemma ToLower_yes_no: "yes_no_pattern s \<Longrightarrow> ToLower s \<in> {''yes'', ''no'', ''''}"
  unfolding yes_no_pattern_def by (elim insertE) simp_all

lemma yes_no_pattern_ToLower: "yes_no_pattern s \<Longrightarrow> yes_no_pattern (ToLower s)"
  using ToLower_yes_no [of s] by (auto simp: yes_no_pattern_def)

lemma SetDefault_crd_valid:
  "crd_valid_cluster (Spec gc) \<Longrightarrow> crd_valid_cluster (Spec (SetDefaultGreenplumClusterValues gc))"
  by (simp add: crd_valid_cluster_def yes_no_pattern_ToLower)

end
