(* ===== verification/Modifier.thy ===== *)
theory Modifier
  imports Kube
begin

text \<open>
  The contract the reconcilers rely on. Each owned resource is written by
  \<open>ctrl.CreateOrUpdate\<close> with a callback that runs a \<open>Modify...\<close> function of the repository and
  then \<open>SetControllerReference\<close>. The reconcile loop settles only if that callback leaves an
  object it has already written as it is. The locale states what a \<open>Modify...\<close> function must
  promise for that (it keeps identity and owners, does not look at the owners, and is
  idempotent) and proves the callback idempotent once; the component theories interpret it for
  every \<open>Modify...\<close> function.
\<close>

text \<open>
  \<open>controllerutil.SetControllerReference\<close> is not part of the repository: it takes the owner's and
  the object's metadata and returns the object's new metadata or an error. What the code relies
  on: only the owner references change, and setting the same owner again changes nothing.
\<close>

type_synonym set_reference = "ObjectMeta \<Rightarrow> ObjectMeta \<Rightarrow> ObjectMeta result"

definition reference_laws :: "set_reference \<Rightarrow> bool" where
  "reference_laws ref \<longleftrightarrow>
     (\<forall>owner m m'. ref owner m = Inr m' \<longrightarrow>
        m'\<lparr>OwnerReferences := OwnerReferences m\<rparr> = m \<and> ref owner m' = Inr m')"

lemma reference_lawsD:
  assumes "reference_laws ref" "ref owner m = Inr m'"
  shows "m' = m\<lparr>OwnerReferences := OwnerReferences m'\<rparr>" "ref owner m' = Inr m'"
proof -
  from assms have eq: "m'\<lparr>OwnerReferences := OwnerReferences m\<rparr> = m" and "ref owner m' = Inr m'"
    unfolding reference_laws_def by blast+
  then show "ref owner m' = Inr m'" by simp
  have "m\<lparr>OwnerReferences := OwnerReferences m'\<rparr> =
      m'\<lparr>OwnerReferences := OwnerReferences m\<rparr>\<lparr>OwnerReferences := OwnerReferences m'\<rparr>"
    by (simp only: eq)
  then show "m' = m\<lparr>OwnerReferences := OwnerReferences m'\<rparr>" by simp
qed

text \<open>
  The callback of the reconcilers, for an object type with metadata accessors: run the
  modification, then set the owner.
\<close>

definition modify_and_own ::
  "set_reference \<Rightarrow> ObjectMeta \<Rightarrow> ('a \<Rightarrow> ObjectMeta) \<Rightarrow> (ObjectMeta \<Rightarrow> 'a \<Rightarrow> 'a) \<Rightarrow> ('a \<Rightarrow> 'a) \<Rightarrow> 'a \<Rightarrow> 'a result"
where
  "modify_and_own ref owner meta set_meta modify x =
     (case ref owner (meta (modify x)) of Inl e \<Rightarrow> Inl e | Inr m \<Rightarrow> Inr (set_meta m (modify x)))"

locale object_meta =
  fixes meta :: "'a \<Rightarrow> ObjectMeta"
    and set_meta :: "ObjectMeta \<Rightarrow> 'a \<Rightarrow> 'a"
  assumes meta_set: "meta (set_meta m x) = m"
    and set_meta_meta: "set_meta (meta x) x = x"
    and set_meta_set: "set_meta m (set_meta m' x) = set_meta m x"
begin

definition with_owners :: "string list \<Rightarrow> 'a \<Rightarrow> 'a" where
  "with_owners os x = set_meta ((meta x)\<lparr>OwnerReferences := os\<rparr>) x"

lemma meta_with_owners: "meta (with_owners os x) = (meta x)\<lparr>OwnerReferences := os\<rparr>"
  by (simp add: with_owners_def meta_set)

end

locale resource_modifier = object_meta +
  fixes modify :: "'a \<Rightarrow> 'a"
  assumes modify_idem: "modify (modify x) = modify x"
    and modify_identity: "Name (meta (modify x)) = Name (meta x)"
      "Namespace (meta (modify x)) = Namespace (meta x)"
    and modify_owners: "modify (set_meta ((meta x)\<lparr>OwnerReferences := os\<rparr>) x) =
      set_meta ((meta (modify x))\<lparr>OwnerReferences := os\<rparr>) (modify x)"
begin

text \<open>The callback leaves an object it wrote before as it is, so a second reconcile is a no-op.\<close>

lemma own_settles:
  assumes "reference_laws ref"
    and "modify_and_own ref owner meta set_meta modify x = Inr y"
  shows "modify_and_own ref owner meta set_meta modify y = Inr y"
proof -
  from assms(2) obtain m where ref: "ref owner (meta (modify x)) = Inr m"
    and y: "y = set_meta m (modify x)"
    by (auto simp: modify_and_own_def split: sum.splits)
  note m = reference_lawsD [OF assms(1) ref]
  have "modify y = set_meta m (modify x)"
    using modify_owners [where x = "modify x" and os = "OwnerReferences m"] m(1) by (simp add: y modify_idem)
  then show ?thesis
    by (simp add: modify_and_own_def y meta_set m(2) set_meta_set)
qed

lemma own_identity:
  assumes "reference_laws ref"
    and "modify_and_own ref owner meta set_meta modify x = Inr y"
  shows "Name (meta y) = Name (meta x) \<and> Namespace (meta y) = Namespace (meta x)"
proof -
  from assms(2) obtain m where ref: "ref owner (meta (modify x)) = Inr m"
    and y: "y = set_meta m (modify x)"
    by (auto simp: modify_and_own_def split: sum.splits)
  have "Name m = Name (meta (modify x))" "Namespace m = Namespace (meta (modify x))"
    using reference_lawsD(1) [OF assms(1) ref] by (metis ObjectMeta.select_convs ObjectMeta.surjective ObjectMeta.update_convs(4))+
  then show ?thesis by (simp add: y meta_set modify_identity)
qed

end

text \<open>The owner reference the API server's client library adds, as a concrete instance of the laws.\<close>

definition append_owner :: set_reference where
  "append_owner owner m =
     (if Name owner \<in> set (OwnerReferences m) then Inr m
      else Inr (m\<lparr>OwnerReferences := OwnerReferences m @ [Name owner]\<rparr>))"

lemma append_owner_laws: "reference_laws append_owner"
  by (auto simp: reference_laws_def append_owner_def split: if_splits)

end
