(* ===== verification/Resources.thy ===== *)
theory Resources
  imports Greenplum_API Modifier
begin

text \<open>
  The other resources the cluster reconciler owns: the config map, the SSH secret and its key
  generation, the two services, the role binding and the gpexpand job (\<open>configmap\<close>, \<open>sshkeygen\<close>,
  \<open>service\<close>, \<open>serviceaccount/role_binding.go\<close>, \<open>gpexpandjob\<close> under \<open>greenplum-operator/pkg\<close>).
  Each modification is shown to satisfy the contract \<open>resource_modifier\<close>.
\<close>

section \<open>Definitions\<close>

definition clusterLabels :: "string \<Rightarrow> smap" where
  "clusterLabels clusterName = [(''app'', AppName), (''greenplum-cluster'', clusterName)]"

definition addLabels :: "smap \<Rightarrow> ObjectMeta \<Rightarrow> ObjectMeta" where
  "addLabels lbls m = m\<lparr>Labels := Some (map_merge (map_make (Labels m)) lbls)\<rparr>"

subsection \<open>The config map\<close>

definition gucs :: string where
  "gucs = Join [''gp_resource_manager = group'', ''gp_resource_group_memory_limit = 1.0''] [CHR 0x0A]"

definition configData :: "GreenplumCluster \<Rightarrow> smap" where
  "configData cluster =
     [(''segmentCount'', Itoa (sint (PrimarySegmentCount (Segments (Spec cluster))))),
      (''standby'', SprintBool (Standby (MasterAndStandby (Spec cluster)) = ''yes'')),
      (''mirrors'', SprintBool (Mirrors (Segments (Spec cluster)) = ''yes'')),
      (''hostBasedAuthentication'', HostBasedAuthentication (MasterAndStandby (Spec cluster))),
      (''GUCs'', gucs),
      (''pxfServiceName'', ServiceName (PXF (Spec cluster)))]"

definition ModifyConfigMap :: "GreenplumCluster \<Rightarrow> ConfigMap \<Rightarrow> ConfigMap" where
  "ModifyConfigMap cluster config =
     config\<lparr>cm_meta := addLabels (clusterLabels (Name (gc_meta cluster))) (cm_meta config),
            cm_Data := Some (configData cluster)\<rparr>"

subsection \<open>The SSH secret\<close>

text \<open>
  \<open>SSHKeyGeneration\<close> and the encoders of \<open>crypto\<close> and \<open>x/crypto/ssh\<close> are parameters; the key
  generator draws randomness, so it acts on the server state.
\<close>

record 's ssh_key_generation =
  GeneratePrivateKey :: "nat \<Rightarrow> 's \<Rightarrow> string result \<times> 's"
  MarshalPKCS1PrivateKey :: "string \<Rightarrow> string"
  NewSSHPublicKey :: "string \<Rightarrow> string result"
  MarshalAuthorizedKey :: "string \<Rightarrow> string"
  EncodeToMemory :: "string \<Rightarrow> string \<Rightarrow> string"

definition RSAKeySize :: nat where
  "RSAKeySize = 4096"

definition GenerateKey :: "'s ssh_key_generation \<Rightarrow> 's \<Rightarrow> smap result \<times> 's" where
  "GenerateKey KeyGen s =
     (case GeneratePrivateKey KeyGen RSAKeySize s of
        (Inl err, s1) \<Rightarrow> (Inl err, s1)
      | (Inr privateKey, s1) \<Rightarrow>
          (let encodedPrivateKey = EncodeToMemory KeyGen ''RSA PRIVATE KEY''
                 (MarshalPKCS1PrivateKey KeyGen privateKey)
           in case NewSSHPublicKey KeyGen privateKey of
                Inl err \<Rightarrow> (Inl err, s1)
              | Inr publicRsaKey \<Rightarrow>
                  (Inr [(''id_rsa.pub'', MarshalAuthorizedKey KeyGen publicRsaKey),
                        (''id_rsa'', encodedPrivateKey)], s1)))"

definition ModifySecret :: "string \<Rightarrow> smap option \<Rightarrow> Secret \<Rightarrow> Secret" where
  "ModifySecret clusterName keyData secret =
     secret\<lparr>sec_Data := (if keyData \<noteq> None then keyData else sec_Data secret),
            sec_meta := addLabels (clusterLabels clusterName) (sec_meta secret),
            sec_Type := ''Opaque''\<rparr>"

subsection \<open>The services\<close>

definition sshServicePort :: "ServicePort \<Rightarrow> ServicePort" where
  "sshServicePort p = p\<lparr>sp_Port := 22, sp_Protocol := ''TCP'', sp_TargetPort := 22\<rparr>"

definition ModifyGreenplumAgentService :: "string \<Rightarrow> Service \<Rightarrow> Service" where
  "ModifyGreenplumAgentService clusterName agentService =
     agentService
       \<lparr>svc_meta := addLabels (clusterLabels clusterName) (svc_meta agentService),
        svc_Ports := (case svc_Ports agentService of
            [p] \<Rightarrow> [sshServicePort p] | _ \<Rightarrow> [sshServicePort emptyPort]),
        svc_Selector := Some (clusterLabels clusterName),
        svc_Type := ''ClusterIP'',
        svc_ClusterIP := ''None''\<rparr>"

definition is_psql_port :: "ServicePort \<Rightarrow> bool" where
  "is_psql_port p = (sp_Name p = ''psql'' \<or> sp_Port p = 5432 \<or> sp_TargetPort p = 5432)"

text \<open>The loop keeps the last port that matches.\<close>

fun find_psql :: "nat \<Rightarrow> ServicePort list \<Rightarrow> nat option \<Rightarrow> nat option" where
  "find_psql i [] found = found"
| "find_psql i (p # ps) found = find_psql (Suc i) ps (if is_psql_port p then Some i else found)"

definition psqlServicePort :: "ServicePort \<Rightarrow> ServicePort" where
  "psqlServicePort p =
     p\<lparr>sp_Name := ''psql'', sp_Port := 5432, sp_Protocol := ''TCP'', sp_TargetPort := 5432\<rparr>"

definition setPsqlPort :: "ServicePort list \<Rightarrow> ServicePort list" where
  "setPsqlPort ports =
     (case find_psql 0 ports None of
        None \<Rightarrow> ports @ [psqlServicePort emptyPort]
      | Some i \<Rightarrow> ports[i := psqlServicePort (ports ! i)])"

definition ModifyGreenplumService :: "string \<Rightarrow> Service \<Rightarrow> Service" where
  "ModifyGreenplumService clusterName greenplumService =
     greenplumService
       \<lparr>svc_meta := addLabels (clusterLabels clusterName) (svc_meta greenplumService),
        svc_Ports := setPsqlPort (svc_Ports greenplumService),
        svc_Selector := Some [(''statefulset.kubernetes.io/pod-name'', ''master-0'')],
        svc_Type := ''LoadBalancer'',
        svc_ExternalTrafficPolicy := ''Local'',
        svc_SessionAffinity := ''None''\<rparr>"

subsection \<open>The role binding\<close>

definition ModifyRoleBinding :: "RoleBinding \<Rightarrow> RoleBinding" where
  "ModifyRoleBinding roleBinding =
     roleBinding
       \<lparr>rb_meta := addLabels [(''app'', AppName)] (rb_meta roleBinding),
        rb_Subjects := [\<lparr>subj_Kind = ''ServiceAccount'', subj_APIGroup = '''',
          subj_Name = ''greenplum-system-pod'', subj_Namespace = Namespace (rb_meta roleBinding)\<rparr>],
        rb_RoleRef := (''rbac.authorization.k8s.io'', ''Role'', ''greenplum-system-pod'')\<rparr>"

subsection \<open>The gpexpand job\<close>

definition GenerateJob :: "string \<Rightarrow> string \<Rightarrow> int32 \<Rightarrow> Job" where
  "GenerateJob img hostname newSegCount =
     newJob
       \<lparr>job_BackoffLimit := Some 0,
        job_Template := emptyTemplate\<lparr>pt_Spec := emptyPodSpec
          \<lparr>ps_RestartPolicy := ''Never'',
           ps_Volumes := [\<lparr>vol_Name = ''ssh-key'', vol_Source = SecretVolume ''ssh-secrets'' 292\<rparr>],
           ps_ImagePullSecrets := [''regsecret''],
           ps_Containers := [emptyContainer
             \<lparr>c_Name := ''gpexpand'',
              c_Image := img,
              c_Command := [''/home/gpadmin/tools/gpexpand_job.sh''],
              c_Env := [\<lparr>env_Name = ''GPEXPAND_HOST'', env_Value = hostname, env_SecretKeyRef = None\<rparr>,
                        \<lparr>env_Name = ''NEW_SEG_COUNT'', env_Value = Itoa (sint newSegCount),
                         env_SecretKeyRef = None\<rparr>],
              c_ImagePullPolicy := ''IfNotPresent'',
              c_VolumeMounts := [\<lparr>vm_Name = ''ssh-key'', vm_MountPath = ''/etc/ssh-key''\<rparr>]\<rparr>]\<rparr>\<rparr>\<rparr>"

section \<open>Lemmas\<close>

lemma distinct_clusterLabels [simp]: "distinct (map fst (clusterLabels n))"
  by (simp add: clusterLabels_def)

lemma addLabels_simps [simp]:
  "Name (addLabels l m) = Name m" "Namespace (addLabels l m) = Namespace m"
  "OwnerReferences (addLabels l m) = OwnerReferences m" "Finalizers (addLabels l m) = Finalizers m"
  "DeletionTimestamp (addLabels l m) = DeletionTimestamp m"
  "Labels (addLabels l m) = Some (map_merge (map_make (Labels m)) l)"
  "addLabels l (m\<lparr>OwnerReferences := os\<rparr>) = (addLabels l m)\<lparr>OwnerReferences := os\<rparr>"
  by (simp_all add: addLabels_def)

lemma addLabels_idem [simp]: "distinct (map fst l) \<Longrightarrow> addLabels l (addLabels l m) = addLabels l m"
  by (simp add: addLabels_def)

lemma ModifyConfigMap_idem [simp]: "ModifyConfigMap gc (ModifyConfigMap gc c) = ModifyConfigMap gc c"
  by (simp add: ModifyConfigMap_def)

interpretation configmap_modifier: resource_modifier cm_meta "\<lambda>m c. c\<lparr>cm_meta := m\<rparr>"
  "ModifyConfigMap gc" for gc
  by unfold_locales (simp_all add: ModifyConfigMap_def)

text \<open>
  The secret's callback generates keys only when the secret has none: \<open>keep_keys\<close> is its
  modification once the key data is known.
\<close>

definition keep_keys :: "string \<Rightarrow> smap \<Rightarrow> Secret \<Rightarrow> Secret" where
  "keep_keys clusterName keys s = ModifySecret clusterName (if sec_Data s = None then Some keys else None) s"

interpretation secret_modifier: resource_modifier sec_meta "\<lambda>m s. s\<lparr>sec_meta := m\<rparr>"
  "keep_keys n keys" for n keys
  by unfold_locales (auto simp: keep_keys_def ModifySecret_def)

lemma sshServicePort_idem [simp]: "sshServicePort (sshServicePort p) = sshServicePort p"
  by (simp add: sshServicePort_def)

lemma ModifyGreenplumAgentService_idem [simp]:
  "ModifyGreenplumAgentService n (ModifyGreenplumAgentService n s) = ModifyGreenplumAgentService n s"
  by (auto simp: ModifyGreenplumAgentService_def split: list.splits)

interpretation agent_modifier: resource_modifier svc_meta "\<lambda>m s. s\<lparr>svc_meta := m\<rparr>"
  "ModifyGreenplumAgentService n" for n
proof unfold_locales
  fix os x
  show "ModifyGreenplumAgentService n (x\<lparr>svc_meta := (svc_meta x)\<lparr>OwnerReferences := os\<rparr>\<rparr>) =
      (ModifyGreenplumAgentService n x)
        \<lparr>svc_meta := (svc_meta (ModifyGreenplumAgentService n x))\<lparr>OwnerReferences := os\<rparr>\<rparr>"
    by (simp add: ModifyGreenplumAgentService_def)
qed (simp, simp, simp, simp, simp_all add: ModifyGreenplumAgentService_def)

text \<open>\<open>find_psql\<close> returns the last matching index, or what it was given when nothing matches.\<close>

lemma find_psql_last:
  "find_psql k ps found =
     (case rev (filter (\<lambda>i. is_psql_port (ps ! i)) [0..<length ps]) of
        [] \<Rightarrow> found | i # _ \<Rightarrow> Some (k + i))"
proof (induction k ps found rule: find_psql.induct)
  case (2 k p ps found)
  let ?sel = "filter (\<lambda>i. is_psql_port (ps ! i)) [0..<length ps]"
  have "[0..<length (p # ps)] = 0 # map Suc [0..<length ps]"
    by (simp del: upt_Suc add: upt_conv_Cons map_Suc_upt)
  then have split: "filter (\<lambda>i. is_psql_port ((p # ps) ! i)) [0..<length (p # ps)] =
      (if is_psql_port p then [0] else []) @ map Suc ?sel"
    by (simp del: upt_Suc add: filter_map o_def)
  show ?case
    unfolding split find_psql.simps(2) 2 by (cases "rev ?sel") (auto simp: rev_map)
qed simp

lemma find_psql_Some: "find_psql 0 ps None = Some i \<Longrightarrow> i < length ps \<and> is_psql_port (ps ! i)"
proof -
  let ?sel = "filter (\<lambda>i. is_psql_port (ps ! i)) [0..<length ps]"
  assume "find_psql 0 ps None = Some i"
  then obtain js where "rev ?sel = i # js" by (auto simp: find_psql_last split: list.splits)
  then have "i \<in> set ?sel" by (metis list.set_intros(1) set_rev)
  then show ?thesis by simp
qed

lemma psqlServicePort_simps [simp]:
  "psqlServicePort (psqlServicePort p) = psqlServicePort p" "is_psql_port (psqlServicePort p)"
  by (simp_all add: psqlServicePort_def is_psql_port_def)

lemma find_psql_update:
  assumes "find_psql 0 ps None = Some i"
  shows "find_psql 0 (ps[i := psqlServicePort (ps ! i)]) None = Some i"
proof -
  let ?ps = "ps[i := psqlServicePort (ps ! i)]"
  have "is_psql_port (?ps ! j) = is_psql_port (ps ! j)" if "j < length ps" for j
    using find_psql_Some [OF assms] that by (cases "j = i") simp_all
  then have "filter (\<lambda>j. is_psql_port (?ps ! j)) [0..<length ps] =
      filter (\<lambda>j. is_psql_port (ps ! j)) [0..<length ps]"
    by (auto intro: filter_cong)
  with assms show ?thesis by (simp add: find_psql_last)
qed

lemma find_psql_append:
  "is_psql_port p \<Longrightarrow> find_psql 0 (ps @ [p]) None = Some (length ps)"
  by (simp add: find_psql_last nth_append)

lemma setPsqlPort_idem [simp]: "setPsqlPort (setPsqlPort ps) = setPsqlPort ps"
proof (cases "find_psql 0 ps None")
  case None
  then show ?thesis by (simp add: setPsqlPort_def find_psql_append)
next
  case (Some i)
  with find_psql_Some [OF Some] show ?thesis
    by (simp add: setPsqlPort_def find_psql_update)
qed

text \<open>Whatever ports the service had, exactly one way in is guaranteed: a port named \<open>psql\<close> on 5432.\<close>

lemma setPsqlPort_open:
  "\<exists>p\<in>set (setPsqlPort ps). sp_Name p = ''psql'' \<and> sp_Port p = 5432 \<and> sp_TargetPort p = 5432"
proof (cases "find_psql 0 ps None")
  case None
  then show ?thesis by (simp add: setPsqlPort_def psqlServicePort_def)
next
  case (Some i)
  then have "psqlServicePort (ps ! i) \<in> set (setPsqlPort ps)"
    using find_psql_Some [OF Some] by (simp add: setPsqlPort_def set_update_memI)
  then show ?thesis by (rule rev_bexI) (simp add: psqlServicePort_def)
qed

lemma ModifyGreenplumService_idem [simp]:
  "ModifyGreenplumService n (ModifyGreenplumService n s) = ModifyGreenplumService n s"
  by (simp add: ModifyGreenplumService_def)

interpretation service_modifier: resource_modifier svc_meta "\<lambda>m s. s\<lparr>svc_meta := m\<rparr>"
  "ModifyGreenplumService n" for n
  by unfold_locales (simp_all add: ModifyGreenplumService_def)

interpretation serviceaccount_modifier: resource_modifier sa_meta "\<lambda>m s. s\<lparr>sa_meta := m\<rparr>" "\<lambda>s. s"
  by unfold_locales simp_all

interpretation rolebinding_modifier: resource_modifier rb_meta "\<lambda>m r. r\<lparr>rb_meta := m\<rparr>" ModifyRoleBinding
  by unfold_locales (simp_all add: ModifyRoleBinding_def)

end
