(* ===== verification/Rbac.thy ===== *)
theory Rbac
  imports Resources
begin

text \<open>
  The role of the Greenplum pods (\<open>greenplum-operator/pkg/serviceaccount/role.go\<close>): the rules the
  role already has are broken down, compacted, merged with the three the pods need, and sorted.
  \<open>BreakdownRule\<close>, \<open>CompactRules\<close> and the order of \<open>SortableRuleSlice\<close> come from kubectl and are
  parameters. The lemmas state what a rule list grants and show the merge to add exactly the
  permissions it is given.
\<close>

section \<open>Definitions\<close>

record rbac_lib =
  BreakdownRule :: "PolicyRule \<Rightarrow> PolicyRule list"
  CompactRules :: "PolicyRule list \<Rightarrow> PolicyRule list result"
  RuleLess :: "PolicyRule \<Rightarrow> PolicyRule \<Rightarrow> bool"

fun sliceContainsString :: "string list \<Rightarrow> string \<Rightarrow> bool" where
  "sliceContainsString [] s = False"
| "sliceContainsString (item # items) s = (if item = s then True else sliceContainsString items s)"

fun add_verbs :: "string list \<Rightarrow> string list \<Rightarrow> string list" where
  "add_verbs vs [] = vs"
| "add_verbs vs (verb # rest) =
     add_verbs (if sliceContainsString vs verb then vs else vs @ [verb]) rest"

text \<open>An index out of range panics; the comparison of \<open>Resources\<close> comes first.\<close>

definition index_panic :: go_error where
  "index_panic = Err ''runtime error: index out of range [0] with length 0''"

definition rule_matches :: "PolicyRule \<Rightarrow> PolicyRule \<Rightarrow> bool result" where
  "rule_matches existingRule addRule =
     (case (Resources existingRule, Resources addRule) of
        (r # _, a # _) \<Rightarrow>
          (if r \<noteq> a then Inr False
           else (case (APIGroups existingRule, APIGroups addRule) of
                   (g # _, h # _) \<Rightarrow> Inr (g = h \<and> ResourceNames existingRule = [])
                 | _ \<Rightarrow> Inl index_panic))
      | _ \<Rightarrow> Inl index_panic)"

text \<open>The inner loop: one existing rule against the rules to add, each with its \<open>found\<close> flag.\<close>

fun merge_rule ::
  "PolicyRule \<Rightarrow> (PolicyRule \<times> bool) list \<Rightarrow> (PolicyRule \<times> (PolicyRule \<times> bool) list) result"
where
  "merge_rule existingRule [] = Inr (existingRule, [])"
| "merge_rule existingRule ((addRule, found) # rest) =
     (case rule_matches existingRule addRule of
        Inl e \<Rightarrow> Inl e
      | Inr b \<Rightarrow>
          (case merge_rule
                  (if b then existingRule\<lparr>Verbs := add_verbs (Verbs existingRule) (Verbs addRule)\<rparr>
                   else existingRule) rest of
             Inl e \<Rightarrow> Inl e
           | Inr (r, rest') \<Rightarrow> Inr (r, (addRule, found \<or> b) # rest')))"

fun merge_existing ::
  "PolicyRule list \<Rightarrow> (PolicyRule \<times> bool) list \<Rightarrow> (PolicyRule list \<times> (PolicyRule \<times> bool) list) result"
where
  "merge_existing [] add = Inr ([], add)"
| "merge_existing (r # rs) add =
     (case merge_rule r add of
        Inl e \<Rightarrow> Inl e
      | Inr (r', add') \<Rightarrow>
          (case merge_existing rs add' of
             Inl e \<Rightarrow> Inl e
           | Inr (rs', add'') \<Rightarrow> Inr (r' # rs', add'')))"

definition mergePolicyRules :: "PolicyRule list \<Rightarrow> PolicyRule list \<Rightarrow> PolicyRule list result" where
  "mergePolicyRules existing add =
     (case merge_existing existing (map (\<lambda>a. (a, False)) add) of
        Inl e \<Rightarrow> Inl e
      | Inr (rs, flagged) \<Rightarrow> Inr (rs @ map fst (filter (\<lambda>(a, found). \<not> found) flagged)))"

text \<open>\<open>sort.Stable\<close>: the stable sort by the given order.\<close>

fun insert_stable :: "('a \<Rightarrow> 'a \<Rightarrow> bool) \<Rightarrow> 'a \<Rightarrow> 'a list \<Rightarrow> 'a list" where
  "insert_stable lt x [] = [x]"
| "insert_stable lt x (y # ys) = (if lt y x then y # insert_stable lt x ys else x # y # ys)"

definition sort_stable :: "('a \<Rightarrow> 'a \<Rightarrow> bool) \<Rightarrow> 'a list \<Rightarrow> 'a list" where
  "sort_stable lt xs = foldr (insert_stable lt) xs []"

definition podRules :: "PolicyRule list" where
  "podRules =
     [\<lparr>Verbs = [''get'', ''patch''], APIGroups = [''''], Resources = [''persistentvolumeclaims''],
       ResourceNames = []\<rparr>,
      \<lparr>Verbs = [''get''], APIGroups = [''''], Resources = [''pods''], ResourceNames = []\<rparr>,
      \<lparr>Verbs = [''list'', ''watch''], APIGroups = [''''], Resources = [''endpoints''], ResourceNames = []\<rparr>]"

definition modifyRules :: "rbac_lib \<Rightarrow> PolicyRule list \<Rightarrow> PolicyRule list result" where
  "modifyRules B rules =
     (case CompactRules B (concat (map (BreakdownRule B) rules)) of
        Inl err \<Rightarrow> Inl err
      | Inr compactRules \<Rightarrow>
          (case mergePolicyRules compactRules podRules of
             Inl e \<Rightarrow> Inl e
           | Inr merged \<Rightarrow> Inr (sort_stable (RuleLess B) merged)))"

definition ModifyRole :: "rbac_lib \<Rightarrow> Role \<Rightarrow> Role result" where
  "ModifyRole B role =
     (case modifyRules B (Rules role) of Inl e \<Rightarrow> Inl e | Inr rs \<Rightarrow> Inr (role\<lparr>Rules := rs\<rparr>))"

section \<open>What rules grant\<close>

definition grants :: "PolicyRule list \<Rightarrow> string \<Rightarrow> string \<Rightarrow> string \<Rightarrow> bool" where
  "grants rules grp resource verb \<longleftrightarrow>
     (\<exists>r\<in>set rules. grp \<in> set (APIGroups r) \<and> resource \<in> set (Resources r) \<and>
        verb \<in> set (Verbs r) \<and> ResourceNames r = [])"

text \<open>The shape of a compacted rule: one group, one resource.\<close>

definition simple_rule :: "PolicyRule \<Rightarrow> bool" where
  "simple_rule r \<longleftrightarrow> length (APIGroups r) = 1 \<and> length (Resources r) = 1"

text \<open>What the code relies on of kubectl: breaking down and compacting neither adds nor removes
  a permission, and yields rules with one group and one resource each.\<close>

definition rbac_laws :: "rbac_lib \<Rightarrow> bool" where
  "rbac_laws B \<longleftrightarrow>
     (\<forall>rules. \<exists>compact. CompactRules B (concat (map (BreakdownRule B) rules)) = Inr compact \<and>
        list_all simple_rule compact \<and>
        (\<forall>g res v. grants compact g res v \<longleftrightarrow> grants rules g res v))"

section \<open>Lemmas\<close>

lemma sliceContainsString_iff [simp]: "sliceContainsString xs s \<longleftrightarrow> s \<in> set xs"
  by (induction xs s rule: sliceContainsString.induct) auto

lemma set_add_verbs [simp]: "set (add_verbs vs as) = set vs \<union> set as"
  by (induction vs as rule: add_verbs.induct) auto

lemma set_insert_stable [simp]: "set (insert_stable lt x ys) = insert x (set ys)"
  by (induction ys) auto

lemma set_sort_stable [simp]: "set (sort_stable lt xs) = set xs"
  by (induction xs) (auto simp: sort_stable_def)

lemma grants_sort_stable [simp]: "grants (sort_stable lt rs) = grants rs"
  by (simp add: grants_def fun_eq_iff)

lemma grants_append: "grants (rs @ ss) g res v \<longleftrightarrow> grants rs g res v \<or> grants ss g res v"
  by (auto simp: grants_def)

lemma grants_Cons: "grants (r # rs) g res v \<longleftrightarrow> grants [r] g res v \<or> grants rs g res v"
  by (auto simp: grants_def)

lemma grants_iff_single: "grants rs g res v \<longleftrightarrow> (\<exists>a\<in>set rs. grants [a] g res v)"
  by (simp add: grants_def)

lemma grants_Nil [simp]: "\<not> grants [] g res v"
  by (simp add: grants_def)

lemma simple_rule_cases:
  assumes "simple_rule r"
  obtains g res where "APIGroups r = [g]" "Resources r = [res]"
  using assms by (auto simp: simple_rule_def length_Suc_conv)

lemma simple_rule_Verbs [simp]: "simple_rule (r\<lparr>Verbs := vs\<rparr>) = simple_rule r"
  by (simp add: simple_rule_def)

text \<open>On simple rules the indexing cannot panic, and a match means the same group and resource.\<close>

lemma rule_matches_simple:
  "simple_rule r \<Longrightarrow> simple_rule a \<Longrightarrow>
   rule_matches r a = Inr (Resources r = Resources a \<and> APIGroups r = APIGroups a \<and> ResourceNames r = [])"
  by (elim simple_rule_cases) (auto simp: rule_matches_def)

definition matches :: "PolicyRule \<Rightarrow> PolicyRule \<Rightarrow> bool" where
  "matches r a \<longleftrightarrow> Resources r = Resources a \<and> APIGroups r = APIGroups a \<and> ResourceNames r = []"

lemma matches_Verbs [simp]: "matches (r\<lparr>Verbs := vs\<rparr>) a = matches r a"
  by (simp add: matches_def)

text \<open>The inner loop on simple rules: the rule gets the verbs of every rule it matches.\<close>

lemma merge_rule_simple:
  "simple_rule r \<Longrightarrow> list_all (\<lambda>(a, f). simple_rule a) add \<Longrightarrow>
   \<exists>vs. merge_rule r add = Inr (r\<lparr>Verbs := vs\<rparr>, map (\<lambda>(a, f). (a, f \<or> matches r a)) add) \<and>
        set vs = set (Verbs r) \<union> (\<Union>(a, f)\<in>set add. if matches r a then set (Verbs a) else {})"
proof (induction add arbitrary: r)
  case Nil
  then show ?case by (intro exI [of _ "Verbs r"]) simp
next
  case (Cons af add)
  obtain a f where af: "af = (a, f)" by (cases af)
  let ?r = "if matches r a then r\<lparr>Verbs := add_verbs (Verbs r) (Verbs a)\<rparr> else r"
  have m: "rule_matches r a = Inr (matches r a)"
    using Cons.prems af by (simp add: rule_matches_simple matches_def)
  have "simple_rule ?r" "list_all (\<lambda>(a, f). simple_rule a) add" using Cons.prems by simp_all
  from Cons.IH [OF this] obtain vs where
    vs: "merge_rule ?r add = Inr (?r\<lparr>Verbs := vs\<rparr>, map (\<lambda>(a, f). (a, f \<or> matches ?r a)) add)"
      "set vs = set (Verbs ?r) \<union> (\<Union>(a, f)\<in>set add. if matches ?r a then set (Verbs a) else {})"
    by blast
  have same: "matches ?r = matches r" by (rule ext) simp
  have "merge_rule r (af # add) = Inr (r\<lparr>Verbs := vs\<rparr>, map (\<lambda>(a, f). (a, f \<or> matches r a)) (af # add))"
    using vs(1) same by (simp add: af m)
  moreover have "set vs = set (Verbs r) \<union> (\<Union>(a, f)\<in>set (af # add). if matches r a then set (Verbs a) else {})"
    using vs(2) same by (auto simp: af)
  ultimately show ?case by blast
qed

lemma grants_single: "grants [r] g res v \<longleftrightarrow>
   g \<in> set (APIGroups r) \<and> res \<in> set (Resources r) \<and> v \<in> set (Verbs r) \<and> ResourceNames r = []"
  by (simp add: grants_def)

text \<open>The outer loop: the merged rules grant what the rules granted and what each matched
  addition asks for; the flags record which additions were matched.\<close>

text \<open>A rule whose verbs were merged with those of the additions it matches.\<close>

lemma merged_verbs_grant:
  assumes "list_all (\<lambda>(a, f). simple_rule a \<and> ResourceNames a = []) add"
    and "set vs = set (Verbs r) \<union> (\<Union>(a, f)\<in>set add. if matches r a then set (Verbs a) else {})"
  shows "grants [r\<lparr>Verbs := vs\<rparr>] g res v \<longleftrightarrow> grants [r] g res v \<or>
      (\<exists>a\<in>fst ` set add. matches r a \<and> grants [a] g res v)"
proof -
  have mem: "v \<in> set vs \<longleftrightarrow> v \<in> set (Verbs r) \<or> (\<exists>a\<in>fst ` set add. matches r a \<and> v \<in> set (Verbs a))" for v
    unfolding assms(2) by (auto simp: case_prod_unfold split: if_splits)
  have same: "grants [a] g res v \<longleftrightarrow> g \<in> set (APIGroups r) \<and> res \<in> set (Resources r) \<and> v \<in> set (Verbs a)"
    if "a \<in> fst ` set add" "matches r a" for a
    using that assms(1) by (auto simp: grants_single matches_def list_all_iff)
  have "grants [r\<lparr>Verbs := vs\<rparr>] g res v \<longleftrightarrow> g \<in> set (APIGroups r) \<and> res \<in> set (Resources r) \<and>
      v \<in> set vs \<and> ResourceNames r = []"
    by (simp add: grants_single)
  moreover have "ResourceNames r = []" if "matches r a" for a
    using that by (simp add: matches_def)
  ultimately show ?thesis unfolding mem grants_single [of r] using same by blast
qed

lemma merge_existing_simple:
  "list_all simple_rule rs \<Longrightarrow> list_all (\<lambda>(a, f). simple_rule a \<and> ResourceNames a = []) add \<Longrightarrow>
   \<exists>rs'. merge_existing rs add =
       Inr (rs', map (\<lambda>(a, f). (a, f \<or> (\<exists>r\<in>set rs. matches r a))) add) \<and>
     list_all simple_rule rs' \<and>
     (\<forall>g res v. grants rs' g res v \<longleftrightarrow> grants rs g res v \<or>
        (\<exists>a\<in>fst ` set add. (\<exists>r\<in>set rs. matches r a) \<and> grants [a] g res v))"
proof (induction rs arbitrary: add)
  case Nil
  then show ?case by (intro exI [of _ "[]"]) (auto simp: case_prod_unfold)
next
  case (Cons r rs)
  let ?add = "map (\<lambda>(a, f). (a, f \<or> matches r a)) add"
  have simple: "simple_rule r" "list_all simple_rule rs" using Cons.prems by simp_all
  have "list_all (\<lambda>(a, f). simple_rule a) add"
    using Cons.prems(2) by (auto simp: list_all_iff)
  from merge_rule_simple [OF simple(1) this] obtain vs where
    vs: "merge_rule r add = Inr (r\<lparr>Verbs := vs\<rparr>, ?add)"
      "set vs = set (Verbs r) \<union> (\<Union>(a, f)\<in>set add. if matches r a then set (Verbs a) else {})"
    by blast
  have "list_all (\<lambda>(a, f). simple_rule a \<and> ResourceNames a = []) ?add"
    using Cons.prems(2) by (auto simp: list_all_iff)
  from Cons.IH [OF simple(2) this] obtain rs' where
    rs': "merge_existing rs ?add = Inr (rs', map (\<lambda>(a, f). (a, f \<or> (\<exists>r\<in>set rs. matches r a))) ?add)"
      "list_all simple_rule rs'"
      "\<And>g res v. grants rs' g res v \<longleftrightarrow> grants rs g res v \<or>
         (\<exists>a\<in>fst ` set ?add. (\<exists>r\<in>set rs. matches r a) \<and> grants [a] g res v)"
    by blast
  note first = merged_verbs_grant [OF Cons.prems(2) vs(2)]
  have keep: "fst ` set ?add = fst ` set add" by (force simp: image_iff)
  have "grants (r\<lparr>Verbs := vs\<rparr> # rs') g res v \<longleftrightarrow> grants (r # rs) g res v \<or>
      (\<exists>a\<in>fst ` set add. (\<exists>r\<in>set (r # rs). matches r a) \<and> grants [a] g res v)" for g res v
    unfolding grants_Cons [of "r\<lparr>Verbs := vs\<rparr>" rs'] grants_Cons [of r rs] first rs'(3) keep
    by (simp only: list.set bex_simps) blast
  moreover have "merge_existing (r # rs) add = Inr (r\<lparr>Verbs := vs\<rparr> # rs',
      map (\<lambda>(a, f). (a, f \<or> (\<exists>r\<in>set (r # rs). matches r a))) add)"
    using vs(1) rs'(1) by (auto simp: case_prod_unfold)
  ultimately show ?case using simple rs'(2) by (intro exI [of _ "r\<lparr>Verbs := vs\<rparr> # rs'"]) simp
qed

lemma mergePolicyRules_grants:
  assumes "list_all simple_rule rs" "list_all (\<lambda>a. simple_rule a \<and> ResourceNames a = []) add"
  shows "\<exists>out. mergePolicyRules rs add = Inr out \<and> list_all simple_rule out \<and>
    (\<forall>g res v. grants out g res v \<longleftrightarrow> grants rs g res v \<or> grants add g res v)"
proof -
  let ?add = "map (\<lambda>a. (a, False)) add"
  let ?new = "filter (\<lambda>a. \<not> (\<exists>r\<in>set rs. matches r a)) add"
  have "list_all (\<lambda>(a, f). simple_rule a \<and> ResourceNames a = []) ?add"
    using assms(2) by (simp add: list_all_iff)
  from merge_existing_simple [OF assms(1) this] obtain rs' where
    rs': "merge_existing rs ?add = Inr (rs', map (\<lambda>(a, f). (a, f \<or> (\<exists>r\<in>set rs. matches r a))) ?add)"
      "list_all simple_rule rs'"
      "\<And>g res v. grants rs' g res v \<longleftrightarrow> grants rs g res v \<or>
         (\<exists>a\<in>fst ` set ?add. (\<exists>r\<in>set rs. matches r a) \<and> grants [a] g res v)"
    by blast
  have out: "mergePolicyRules rs add = Inr (rs' @ ?new)"
    using rs'(1) by (simp add: mergePolicyRules_def filter_map o_def)
  have "grants (rs' @ ?new) g res v \<longleftrightarrow> grants rs g res v \<or> grants add g res v" for g res v
    unfolding grants_append rs'(3) grants_iff_single [of ?new] grants_iff_single [of add] by force
  then show ?thesis using out rs'(2) assms(2) by (auto simp: list_all_iff)
qed

lemma podRules_simple: "list_all (\<lambda>a. simple_rule a \<and> ResourceNames a = []) podRules"
  by (simp add: podRules_def simple_rule_def)

end
