(* ===== verification/Executor.thy ===== *)
theory Executor
  imports Kube
begin

text \<open>
  Commands run inside pods (\<open>greenplum-operator/pkg/executor\<close>): the probe that finds the active
  master, and the REST implementation of \<open>PodExecInterface\<close>, whose SPDY connection is a parameter.
\<close>

section \<open>Definitions\<close>

definition testIfPrimaryMasterCommand :: "string list" where
  "testIfPrimaryMasterCommand =
     [''/bin/bash'', ''-c'', ''--'',
      ''source /usr/local/greenplum-db/greenplum_path.sh && psql -U gpadmin -c '' @ [CHR 0x27] @
      ''select * from gp_segment_configuration'' @ [CHR 0x27]]"

definition GetCurrentActiveMaster :: "'s pod_exec \<Rightarrow> string \<Rightarrow> ('s, string) io" where
  "GetCurrentActiveMaster p namespace w =
     (case Execute p testIfPrimaryMasterCommand namespace ''master-0'' w of
        (r0, w0) \<Rightarrow>
          (if ex_err r0 = None then (''master-0'', w0)
           else (case Execute p testIfPrimaryMasterCommand namespace ''master-1'' w0 of
                   (r1, w1) \<Rightarrow> (if ex_err r1 = None then (''master-1'', w1) else ('''', w1)))))"

text \<open>The request of \<open>PodExecRESTClient.Executor\<close> and the stream on it.\<close>

record exec_request =
  req_method :: string
  req_resource :: string
  req_name :: string
  req_namespace :: string
  req_subresource :: string
  req_command :: "string list"
  req_stdin :: bool
  req_stdout :: bool
  req_stderr :: bool
  req_tty :: bool

definition execRequest :: "string \<Rightarrow> string \<Rightarrow> string list \<Rightarrow> exec_request" where
  "execRequest namespace podName command =
     \<lparr>req_method = ''POST'', req_resource = ''pods'', req_name = podName, req_namespace = namespace,
      req_subresource = ''exec'', req_command = command, req_stdin = False, req_stdout = True,
      req_stderr = True, req_tty = False\<rparr>"

text \<open>
  \<open>newExecutor\<close> is \<open>RemoteExecutorUpgrader.NewSPDYExecutor\<close> and \<open>stream\<close> the executor's \<open>Stream\<close>,
  both of client-go.
\<close>

definition PodExecRESTClient_Execute ::
  "(exec_request \<Rightarrow> 's \<Rightarrow> 'e result \<times> 's) \<Rightarrow> ('e \<Rightarrow> 's \<Rightarrow> exec_result \<times> 's) \<Rightarrow> 's pod_exec"
where
  "PodExecRESTClient_Execute newExecutor stream command namespace podName s =
     (case newExecutor (execRequest namespace podName command) s of
        (Inl err, s1) \<Rightarrow> (\<lparr>ex_err = Some err, ex_stdout = [], ex_stderr = []\<rparr>, s1)
      | (Inr remoteCommandExecutor, s1) \<Rightarrow> stream remoteCommandExecutor s1)"

section \<open>Lemmas\<close>

lemma GetCurrentActiveMaster_cases:
  assumes "GetCurrentActiveMaster p ns w = (am, w')"
  obtains "am = ''master-0''" "calls w' = calls w @ [ExecCall testIfPrimaryMasterCommand ns ''master-0'']"
  | "am = ''master-1''" "calls w' = calls w @ [ExecCall testIfPrimaryMasterCommand ns ''master-0'',
       ExecCall testIfPrimaryMasterCommand ns ''master-1'']"
  | "am = []" "calls w' = calls w @ [ExecCall testIfPrimaryMasterCommand ns ''master-0'',
       ExecCall testIfPrimaryMasterCommand ns ''master-1'']"
  using assms unfolding GetCurrentActiveMaster_def
  by (auto split: prod.splits if_splits dest!: calls_Execute)

text \<open>Running a command in a pod does not touch the objects of the API server.\<close>

definition exec_law :: "'s pod_exec \<Rightarrow> bool" where
  "exec_law p \<longleftrightarrow> (\<forall>cmd ns pod s. snd (p cmd ns pod s) = s)"

lemma exec_law_Execute:
  "exec_law p \<Longrightarrow> \<exists>w'. Execute p cmd ns pod w = (fst (p cmd ns pod (server w)), w') \<and> server w' = server w"
  unfolding exec_law_def Execute_def perform_def by (auto simp: case_prod_unfold)

lemma GetCurrentActiveMaster_quiet:
  assumes "exec_law p"
  obtains am w' where "GetCurrentActiveMaster p ns w = (am, w')" "server w' = server w"
    "am \<noteq> [] \<longrightarrow> ex_err (fst (p testIfPrimaryMasterCommand ns am (server w))) = None"
proof -
  let ?c = testIfPrimaryMasterCommand
  obtain w0 where e0: "Execute p ?c ns ''master-0'' w = (fst (p ?c ns ''master-0'' (server w)), w0)"
    "server w0 = server w" using exec_law_Execute [OF assms] by blast
  obtain w1 where e1: "Execute p ?c ns ''master-1'' w0 = (fst (p ?c ns ''master-1'' (server w)), w1)"
    "server w1 = server w" using exec_law_Execute [OF assms] e0(2) by metis
  show thesis
  proof (cases "ex_err (fst (p ?c ns ''master-0'' (server w))) = None")
    case True
    with e0 show thesis by (intro that [of "''master-0''" w0]) (simp_all add: GetCurrentActiveMaster_def)
  next
    case no0: False
    show thesis
    proof (cases "ex_err (fst (p ?c ns ''master-1'' (server w))) = None")
      case True
      with e0 e1 no0 show thesis
        by (intro that [of "''master-1''" w1]) (simp_all add: GetCurrentActiveMaster_def)
    next
      case False
      with e0 e1 no0 show thesis
        by (intro that [of "[]" w1]) (simp_all add: GetCurrentActiveMaster_def)
    qed
  qed
qed

end
