(* ===== verification/Cluster_Controller.thy ===== *)
theory Cluster_Controller
  imports Sset Rbac Executor
begin

text \<open>
  The reconciler of \<open>GreenplumCluster\<close> objects (\<open>greenplum-operator/controllers/greenplumcluster\<close>):
  the finalizer, the status, anti-affinity, expansion, the owned resources, and \<open>Reconcile\<close> itself,
  which composes them. The reconciler's fields are a record: the client's operations per kind of
  object, the pod executor, the key creator and the library functions it calls. A pointer argument
  that a method updates is passed in and returned.
\<close>

section \<open>Definitions\<close>

record 's GreenplumClusterReconciler =
  clusters :: "('s, GreenplumCluster) resource_api"
  configMaps :: "('s, ConfigMap) resource_api"
  secrets :: "('s, Secret) resource_api"
  services :: "('s, Service) resource_api"
  serviceAccounts :: "('s, ServiceAccount) resource_api"
  roles :: "('s, Role) resource_api"
  roleBindings :: "('s, RoleBinding) resource_api"
  statefulSets :: "('s, StatefulSet) resource_api"
  jobs :: "('s, Job) resource_api"
  nodes :: "('s, Node) resource_api"
  SSHCreator :: "'s \<Rightarrow> smap result \<times> 's"
  r_InstanceImage :: string
  r_OperatorImage :: string
  PodExec :: "'s pod_exec"
  SetControllerReference :: set_reference
  quantities :: quantity_ops
  rbac :: rbac_lib
  SemanticDeepEqual :: "GreenplumCluster \<Rightarrow> GreenplumCluster \<Rightarrow> bool"

definition StopClusterFinalizer :: string where
  "StopClusterFinalizer = ''stopcluster.greenplumcluster.pivotal.io''"

definition SupportedGreenplumMajorVersion :: string where
  "SupportedGreenplumMajorVersion = ''6''"

text \<open>A sequence of steps, each of which may end it with an error.\<close>

fun run_steps :: "('s, unit result) io list \<Rightarrow> ('s, unit result) io" where
  "run_steps [] w = (Inr (), w)"
| "run_steps (step # steps) w =
     (case step w of (Inl err, w1) \<Rightarrow> (Inl err, w1) | (Inr u, w1) \<Rightarrow> run_steps steps w1)"

subsection \<open>Status\<close>

definition setPhase :: "GreenplumClusterPhase \<Rightarrow> GreenplumCluster \<Rightarrow> GreenplumCluster" where
  "setPhase ph gc = gc\<lparr>Status := (Status gc)\<lparr>Phase := ph\<rparr>\<rparr>"

definition setStatus ::
  "'s GreenplumClusterReconciler \<Rightarrow> GreenplumCluster \<Rightarrow> GreenplumClusterPhase \<Rightarrow> ('s, GreenplumCluster) io"
where
  "setStatus r gc status w =
     (if Phase (Status gc) \<noteq> status
      then (case Patch (clusters r) (setPhase status gc) gc w of
              (Inl err, w1) \<Rightarrow> (setPhase status gc, w1)
            | (Inr gc', w1) \<Rightarrow> (gc', w1))
      else (gc, w))"

definition reconcileStatus ::
  "'s GreenplumClusterReconciler \<Rightarrow> GreenplumCluster \<Rightarrow> ('s, GreenplumCluster result) io"
where
  "reconcileStatus r gc w =
     (let st = (Status gc)\<lparr>OperatorVersion := r_OperatorImage r, InstanceImage := r_InstanceImage r\<rparr>;
          st' = (if Phase st = PhaseNone then st\<lparr>Phase := PhasePending\<rparr> else st);
          gc1 = gc\<lparr>Status := st'\<rparr>
      in if SemanticDeepEqual r gc1 gc then (Inr gc1, w)
         else (case Patch (clusters r) gc1 gc w of
                 (Inl err, w1) \<Rightarrow> (Inl (Wrap ''updating status'' err), w1)
               | (Inr gc2, w1) \<Rightarrow> (Inr gc2, w1)))"

subsection \<open>The finalizer\<close>

fun removeStringFromSlice :: "string list \<Rightarrow> string \<Rightarrow> string list" where
  "removeStringFromSlice [] s = []"
| "removeStringFromSlice (item # items) s =
     (if item = s then removeStringFromSlice items s else item # removeStringFromSlice items s)"

definition gpStopCommand :: "string list" where
  "gpStopCommand = [''/bin/bash'', ''-c'', ''--'',
     ''source /usr/local/greenplum-db/greenplum_path.sh && gpstop -aM immediate'']"

definition ensureGreenplumClusterStopped ::
  "'s GreenplumClusterReconciler \<Rightarrow> GreenplumCluster \<Rightarrow> string \<Rightarrow> 's world \<Rightarrow> 's world"
where
  "ensureGreenplumClusterStopped r gc activeMaster w =
     (if activeMaster \<noteq> ''''
      then snd (Execute (PodExec r) gpStopCommand (Namespace (gc_meta gc)) activeMaster w)
      else w)"

definition setFinalizers :: "string list \<Rightarrow> GreenplumCluster \<Rightarrow> GreenplumCluster" where
  "setFinalizers fs gc = gc\<lparr>gc_meta := (gc_meta gc)\<lparr>Finalizers := fs\<rparr>\<rparr>"

text \<open>Returns the error, the cluster and the active master as the method leaves them.\<close>

definition handleFinalizer ::
  "'s GreenplumClusterReconciler \<Rightarrow> GreenplumCluster \<Rightarrow> string \<Rightarrow>
   ('s, go_error option \<times> GreenplumCluster \<times> string) io"
where
  "handleFinalizer r gc activeMaster w =
     (if DeletionTimestamp (gc_meta gc) = None
      then (if \<not> sliceContainsString (Finalizers (gc_meta gc)) StopClusterFinalizer
            then (let gc1 = setFinalizers (Finalizers (gc_meta gc) @ [StopClusterFinalizer]) gc
                  in case Patch (clusters r) gc1 gc w of
                       (Inl err, w1) \<Rightarrow> ((Some (Wrap ''adding finalizer'' err), gc1, activeMaster), w1)
                     | (Inr gc2, w1) \<Rightarrow> ((None, gc2, activeMaster), w1))
            else ((None, gc, activeMaster), w))
      else (if sliceContainsString (Finalizers (gc_meta gc)) StopClusterFinalizer
            then (case setStatus r gc PhaseDeleting w of
                    (gc1, w1) \<Rightarrow>
                      (let w2 = ensureGreenplumClusterStopped r gc1 activeMaster w1;
                           gc2 = setFinalizers
                             (removeStringFromSlice (Finalizers (gc_meta gc1)) StopClusterFinalizer) gc1
                       in case Patch (clusters r) gc2 gc w2 of
                            (Inl err, w3) \<Rightarrow>
                              (if IsNotFound err then ((None, gc2, ''''), w3)
                               else ((Some (Wrap ''removing finalizer'' err), gc2, ''''), w3))
                          | (Inr gc3, w3) \<Rightarrow> ((None, gc3, ''''), w3)))
            else ((None, gc, activeMaster), w)))"

subsection \<open>Anti-affinity\<close>

definition AntiAffinityMismatchError :: "string \<Rightarrow> string \<Rightarrow> go_error" where
  "AntiAffinityMismatchError seg mas = Err
     (''master and segment antiAffinity must be the same value: segment antiAffinity is '' @ seg @
      '', and master antiAffinity is '' @ mas)"

definition NodeCountError :: "nat \<Rightarrow> nat \<Rightarrow> go_error" where
  "NodeCountError numMasterNodes numSegmentNodes = Err
     (''there must be at least two nodes available to both master and segments for anti-affinity: '' @
      ''the number of nodes available for master is '' @ Itoa (int numMasterNodes) @
      '' and for segment is '' @ Itoa (int numSegmentNodes))"

definition isAntiAffinityValid :: "GreenplumCluster \<Rightarrow> Node list \<Rightarrow> Node list \<Rightarrow> unit result" where
  "isAntiAffinityValid gc masterNodes segmentNodes =
     (let masterAntiAffinity = gp_AntiAffinity (MasterAndStandby (Spec gc));
          segAntiAffinity = gp_AntiAffinity (Segments (Spec gc))
      in if masterAntiAffinity \<noteq> segAntiAffinity
         then Inl (AntiAffinityMismatchError segAntiAffinity masterAntiAffinity)
         else if length masterNodes < 2 \<or> length segmentNodes < 2
         then Inl (NodeCountError (length masterNodes) (length segmentNodes))
         else Inr ())"

definition labelNode :: "string \<Rightarrow> string \<Rightarrow> Node \<Rightarrow> Node" where
  "labelNode key v node = node\<lparr>node_meta := (node_meta node)
     \<lparr>Labels := Some (AList.update key v (map_make (Labels (node_meta node))))\<rparr>\<rparr>"

fun labelAlternateNodes ::
  "'s GreenplumClusterReconciler \<Rightarrow> string \<Rightarrow> string \<Rightarrow> string \<Rightarrow> nat \<Rightarrow> Node list \<Rightarrow> ('s, unit result) io"
where
  "labelAlternateNodes r key evenVal oddVal i [] w = (Inr (), w)"
| "labelAlternateNodes r key evenVal oddVal i (node # rest) w =
     (let v = (if i mod 2 = 0 then evenVal else oddVal)
      in case Patch (nodes r) (labelNode key v node) node w of
           (Inl err, w1) \<Rightarrow>
             (Inl (Wrap (''failed to add label '' @ [CHR 0x27] @ key @ ''='' @ v @ [CHR 0x27] @
                '' to node '' @ [CHR 0x27] @ Name (node_meta node) @ [CHR 0x27]) err), w1)
         | (Inr n, w1) \<Rightarrow> labelAlternateNodes r key evenVal oddVal (Suc i) rest w1)"

definition masterNodeLabelKey :: "string \<Rightarrow> string" where
  "masterNodeLabelKey namespace = ''greenplum-affinity-'' @ namespace @ ''-master''"

definition segNodeLabelKey :: "string \<Rightarrow> string" where
  "segNodeLabelKey namespace = ''greenplum-affinity-'' @ namespace @ ''-segment''"

text \<open>The body of \<open>handleAntiAffinity\<close>, before its deferred prefix is put on the error.\<close>

definition handleAntiAffinity_body ::
  "'s GreenplumClusterReconciler \<Rightarrow> GreenplumCluster \<Rightarrow> ('s, unit result) io"
where
  "handleAntiAffinity_body r gc w =
     (if gp_AntiAffinity (MasterAndStandby (Spec gc)) = ''yes'' \<or>
         gp_AntiAffinity (Segments (Spec gc)) = ''yes''
      then (case ListObjects (nodes r) '''' (map_make (gp_WorkerSelector (MasterAndStandby (Spec gc)))) w of
         (Inl err, w1) \<Rightarrow> (Inl (Wrap ''master node worker selector list'' err), w1)
       | (Inr masterNodes, w1) \<Rightarrow>
           (case ListObjects (nodes r) '''' (map_make (gp_WorkerSelector (Segments (Spec gc)))) w1 of
              (Inl err, w2) \<Rightarrow> (Inl (Wrap ''segment node worker selector list'' err), w2)
            | (Inr segmentNodes, w2) \<Rightarrow>
                (case isAntiAffinityValid gc masterNodes segmentNodes of
                   Inl err \<Rightarrow> (Inl (Wrap (''instance '' @ Name (gc_meta gc) @
                                 '' does not meet requirements'') err), w2)
                 | Inr u \<Rightarrow>
                     (case labelAlternateNodes r (masterNodeLabelKey (Namespace (gc_meta gc)))
                             ''true'' ''true'' 0 masterNodes w2 of
                        (Inl err, w3) \<Rightarrow> (Inl err, w3)
                      | (Inr u, w3) \<Rightarrow>
                          labelAlternateNodes r (segNodeLabelKey (Namespace (gc_meta gc)))
                            ''a'' ''b'' 0 segmentNodes w3))))
      else (Inr (), w))"

definition handleAntiAffinity ::
  "'s GreenplumClusterReconciler \<Rightarrow> GreenplumCluster \<Rightarrow> ('s, unit result) io"
where
  "handleAntiAffinity r gc w =
     (case handleAntiAffinity_body r gc w of
        (Inl err, w1) \<Rightarrow> (Inl (Wrap ''antiAffinity'' err), w1)
      | (Inr u, w1) \<Rightarrow> (Inr u, w1))"

subsection \<open>Expansion\<close>

definition getSegmentCountCommand :: "string list" where
  "getSegmentCountCommand = [''/bin/bash'', ''-c'', ''--'',
     ''source /usr/local/greenplum-db/greenplum_path.sh && psql -t -U gpadmin -c '' @ [CHR 0x22] @
     ''SELECT COUNT(*) FROM gp_segment_configuration WHERE hostname LIKE '' @ [CHR 0x27] @
     ''segment-a%'' @ [CHR 0x27, CHR 0x22]]"

definition getCurrentSegmentCount ::
  "'s GreenplumClusterReconciler \<Rightarrow> string \<Rightarrow> string \<Rightarrow> ('s, int32 result) io"
where
  "getCurrentSegmentCount r namespace masterPodName w =
     (case Execute (PodExec r) getSegmentCountCommand namespace masterPodName w of
        (res, w1) \<Rightarrow>
          (case ex_err res of
             Some err \<Rightarrow> (Inl err, w1)
           | None \<Rightarrow>
               (case ParseInt ''ParseInt'' 32 (TrimSpace (ex_stdout res)) of
                  Inl err \<Rightarrow> (Inl err, w1)
                | Inr segCount \<Rightarrow> (Inr (word_of_int segCount), w1))))"

definition gpexpandJobName :: "GreenplumCluster \<Rightarrow> string" where
  "gpexpandJobName gc = Name (gc_meta gc) @ ''-gpexpand-job''"

text \<open>The end of \<open>handleExpand\<close>: build the job, own it, create it.\<close>

definition createExpandJob ::
  "'s GreenplumClusterReconciler \<Rightarrow> GreenplumCluster \<Rightarrow> string \<Rightarrow> ('s, unit result) io"
where
  "createExpandJob r gc activeMaster w =
     (let activeMasterFQDN = activeMaster @ ''.agent.'' @ Namespace (gc_meta gc) @ ''.svc.cluster.local'';
          job = (GenerateJob (r_InstanceImage r) activeMasterFQDN (PrimarySegmentCount (Segments (Spec gc))))
            \<lparr>job_meta := objectMeta (gpexpandJobName gc) (Namespace (gc_meta gc))\<rparr>
      in case SetControllerReference r (gc_meta gc) (job_meta job) of
           Inl err \<Rightarrow> (Inl err, w)
         | Inr m \<Rightarrow> (case Create (jobs r) (job\<lparr>job_meta := m\<rparr>) w of
                        (Inl err, w1) \<Rightarrow> (Inl err, w1)
                      | (Inr j, w1) \<Rightarrow> (Inr (), w1)))"

definition handleExpand ::
  "'s GreenplumClusterReconciler \<Rightarrow> GreenplumCluster \<Rightarrow> string \<Rightarrow> ('s, unit result) io"
where
  "handleExpand r gc activeMaster w =
     (case getCurrentSegmentCount r (Namespace (gc_meta gc)) activeMaster w of
        (Inl err, w1) \<Rightarrow> (Inl err, w1)
      | (Inr segmentCount, w1) \<Rightarrow>
          (if sint (PrimarySegmentCount (Segments (Spec gc))) \<le> sint segmentCount then (Inr (), w1)
           else (case Get (jobs r) (Namespace (gc_meta gc)) (gpexpandJobName gc) w1 of
                   (Inr existingJob, w2) \<Rightarrow>
                     (if sint (job_Succeeded existingJob) < 1 then (Inr (), w2)
                      else (case Delete (jobs r) existingJob w2 of
                              (Inl err, w3) \<Rightarrow> (Inl err, w3)
                            | (Inr u, w3) \<Rightarrow> createExpandJob r gc activeMaster w3))
                 | (Inl err, w2) \<Rightarrow>
                     (if \<not> IsNotFound err then (Inl err, w2)
                      else createExpandJob r gc activeMaster w2))))"

subsection \<open>The owned resources\<close>

definition owned ::
  "('s, 'a) resource_api \<Rightarrow> 'a \<Rightarrow> ('a \<Rightarrow> 's \<Rightarrow> 'a result \<times> 's) \<Rightarrow> ('s, unit result) io"
where
  "owned R obj f w =
     (case CreateOrUpdate R obj f w of
        (Inl err, w1) \<Rightarrow> (Inl err, w1)
      | (Inr res, w1) \<Rightarrow> (Inr (), w1))"

text \<open>The callbacks: a plain modification, the secret's, which may generate keys, and the role's.\<close>

definition mutate ::
  "'s GreenplumClusterReconciler \<Rightarrow> GreenplumCluster \<Rightarrow> ('a \<Rightarrow> ObjectMeta) \<Rightarrow>
   (ObjectMeta \<Rightarrow> 'a \<Rightarrow> 'a) \<Rightarrow> ('a \<Rightarrow> 'a) \<Rightarrow> 'a \<Rightarrow> 's \<Rightarrow> 'a result \<times> 's"
where
  "mutate r gc meta set_meta modify x s =
     (modify_and_own (SetControllerReference r) (gc_meta gc) meta set_meta modify x, s)"

definition mutateSecret ::
  "'s GreenplumClusterReconciler \<Rightarrow> GreenplumCluster \<Rightarrow> Secret \<Rightarrow> 's \<Rightarrow> Secret result \<times> 's"
where
  "mutateSecret r gc secret s =
     (case (if sec_Data secret = None
            then (case SSHCreator r s of
                    (Inl err, s1) \<Rightarrow> (Inl err, s1)
                  | (Inr keys, s1) \<Rightarrow> (Inr (Some keys), s1))
            else (Inr None, s)) of
        (Inl err, s1) \<Rightarrow> (Inl err, s1)
      | (Inr keyData, s1) \<Rightarrow>
          (modify_and_own (SetControllerReference r) (gc_meta gc) sec_meta (\<lambda>m x. x\<lparr>sec_meta := m\<rparr>)
             (ModifySecret (Name (gc_meta gc)) keyData) secret, s1))"

definition mutateRole ::
  "'s GreenplumClusterReconciler \<Rightarrow> GreenplumCluster \<Rightarrow> Role \<Rightarrow> 's \<Rightarrow> Role result \<times> 's"
where
  "mutateRole r gc role s =
     (case ModifyRole (rbac r) role of
        Inl err \<Rightarrow> (Inl err, s)
      | Inr role' \<Rightarrow>
          (modify_and_own (SetControllerReference r) (gc_meta gc) role_meta (\<lambda>m x. x\<lparr>role_meta := m\<rparr>)
             (\<lambda>x. x) role', s))"

definition ownedStatefulSet ::
  "'s GreenplumClusterReconciler \<Rightarrow> GreenplumCluster \<Rightarrow> StatefulSetType \<Rightarrow> string \<Rightarrow> ('s, unit result) io"
where
  "ownedStatefulSet r gc typ name =
     owned (statefulSets r) (newStatefulSet (objectMeta name (Namespace (gc_meta gc))))
       (mutate r gc ss_meta (\<lambda>m x. x\<lparr>ss_meta := m\<rparr>)
          (ModifyGreenplumStatefulSet (quantities r)
             (GenerateStatefulSetParams typ gc (r_InstanceImage r))))"

definition resourceSteps ::
  "'s GreenplumClusterReconciler \<Rightarrow> GreenplumCluster \<Rightarrow> ('s, unit result) io list"
where
  "resourceSteps r gc =
     (let ns = Namespace (gc_meta gc); gpName = Name (gc_meta gc)
      in
        [owned (configMaps r) (newConfigMap (objectMeta ''greenplum-config'' ns))
           (mutate r gc cm_meta (\<lambda>m x. x\<lparr>cm_meta := m\<rparr>) (ModifyConfigMap gc)),
         owned (secrets r) (newSecret (objectMeta ''ssh-secrets'' ns)) (mutateSecret r gc),
         owned (services r) (newService (objectMeta ''agent'' ns))
           (mutate r gc svc_meta (\<lambda>m x. x\<lparr>svc_meta := m\<rparr>) (ModifyGreenplumAgentService gpName)),
         owned (services r) (newService (objectMeta ''greenplum'' ns))
           (mutate r gc svc_meta (\<lambda>m x. x\<lparr>svc_meta := m\<rparr>) (ModifyGreenplumService gpName)),
         owned (serviceAccounts r) (newServiceAccount (objectMeta ''greenplum-system-pod'' ns))
           (mutate r gc sa_meta (\<lambda>m x. x\<lparr>sa_meta := m\<rparr>) (\<lambda>x. x)),
         owned (roles r) (newRole (objectMeta ''greenplum-system-pod'' ns)) (mutateRole r gc),
         owned (roleBindings r) (newRoleBinding (objectMeta ''greenplum-system-pod'' ns))
           (mutate r gc rb_meta (\<lambda>m x. x\<lparr>rb_meta := m\<rparr>) ModifyRoleBinding),
         ownedStatefulSet r gc TypeMaster ''master'',
         ownedStatefulSet r gc TypeSegmentA ''segment-a''] @
        (if Mirrors (Segments (Spec gc)) = ''yes''
         then [ownedStatefulSet r gc TypeSegmentB ''segment-b''] else []))"

definition createOrUpdateClusterResources ::
  "'s GreenplumClusterReconciler \<Rightarrow> GreenplumCluster \<Rightarrow> ('s, unit result) io"
where
  "createOrUpdateClusterResources r gc = run_steps (resourceSteps r gc)"

definition clusterExists ::
  "'s GreenplumClusterReconciler \<Rightarrow> GreenplumCluster \<Rightarrow> ('s, bool result) io"
where
  "clusterExists r gc w =
     (case ListObjects (statefulSets r) (Namespace (gc_meta gc))
             [(''greenplum-cluster'', Name (gc_meta gc))] w of
        (Inl err, w1) \<Rightarrow> (Inl err, w1)
      | (Inr ssets, w1) \<Rightarrow> (Inr (length ssets > 0), w1))"

subsection \<open>Reconcile\<close>

text \<open>
  A successful reconcile returns the number of seconds after which it asks to run again, 0 for
  not at all. \<open>reconcilePhases\<close> is the part of \<open>Reconcile\<close> after the resources are in place,
  \<open>reconcileResources\<close> the part after the finalizer.
\<close>

definition reconcilePhases ::
  "'s GreenplumClusterReconciler \<Rightarrow> GreenplumCluster \<Rightarrow> string \<Rightarrow> ('s, nat result) io"
where
  "reconcilePhases r gc activeMaster w =
     (case reconcileStatus r gc w of
        (Inl err, w1) \<Rightarrow> (Inl err, w1)
      | (Inr gc1, w1) \<Rightarrow>
          (case (if Phase (Status gc1) = PhasePending \<and> activeMaster \<noteq> ''''
                 then setStatus r gc1 PhaseRunning w1 else (gc1, w1)) of
             (gc2, w2) \<Rightarrow>
               (if activeMaster = '''' then (Inr 5, w2)
                else (case handleExpand r gc2 activeMaster w2 of
                        (Inl err, w3) \<Rightarrow> (Inl (Wrap ''unable to run gpexpand'' err), w3)
                      | (Inr u, w3) \<Rightarrow> (Inr 0, w3)))))"

definition reconcileResources ::
  "'s GreenplumClusterReconciler \<Rightarrow> GreenplumCluster \<Rightarrow> string \<Rightarrow> ('s, nat result) io"
where
  "reconcileResources r gc activeMaster w =
     (if InstanceImage (Status gc) \<noteq> '''' \<and> InstanceImage (Status gc) \<noteq> r_InstanceImage r
      then (Inr 0, w)
      else (case clusterExists r gc w of
              (Inl err, w1) \<Rightarrow>
                (Inl (Wrap ''unable to check if GreenplumCluster resources exist'' err), w1)
            | (Inr ex, w1) \<Rightarrow>
                (case (if \<not> ex then handleAntiAffinity r gc w1 else (Inr (), w1)) of
                   (Inl err, w2) \<Rightarrow> (Inl err, w2)
                 | (Inr u, w2) \<Rightarrow>
                     (case createOrUpdateClusterResources r gc w2 of
                        (Inl err, w3) \<Rightarrow> (Inl err, w3)
                      | (Inr u, w3) \<Rightarrow> reconcilePhases r gc activeMaster w3))))"

definition Reconcile ::
  "'s GreenplumClusterReconciler \<Rightarrow> string \<Rightarrow> string \<Rightarrow> ('s, nat result) io"
where
  "Reconcile r ns name w =
     (case Get (clusters r) ns name w of
        (Inl err, w1) \<Rightarrow>
          (if IsNotFound err then (Inr 0, w1)
           else (Inl (Wrap ''unable to fetch GreenplumCluster'' err), w1))
      | (Inr gc0, w1) \<Rightarrow>
          (let gc = SetDefaultGreenplumClusterValues gc0
           in case GetCurrentActiveMaster (PodExec r) (Namespace (gc_meta gc)) w1 of
                (activeMaster, w2) \<Rightarrow>
                  (case handleFinalizer r gc activeMaster w2 of
                     ((Some err, _, _), w3) \<Rightarrow> (Inl err, w3)
                   | ((None, gc1, activeMaster'), w3) \<Rightarrow> reconcileResources r gc1 activeMaster' w3)))"


section \<open>Lemmas\<close>

lemma removeStringFromSlice_filter: "removeStringFromSlice xs s = filter (\<lambda>x. x \<noteq> s) xs"
  by (induction xs s rule: removeStringFromSlice.induct) auto

lemma setPhase_simps [simp]:
  "gc_meta (setPhase p gc) = gc_meta gc" "Spec (setPhase p gc) = Spec gc"
  "Phase (Status (setPhase p gc)) = p"
  by (simp_all add: setPhase_def)

lemma setFinalizers_simps [simp]:
  "Spec (setFinalizers fs gc) = Spec gc" "Status (setFinalizers fs gc) = Status gc"
  "Finalizers (gc_meta (setFinalizers fs gc)) = fs" "Name (gc_meta (setFinalizers fs gc)) = Name (gc_meta gc)"
  "Namespace (gc_meta (setFinalizers fs gc)) = Namespace (gc_meta gc)"
  by (simp_all add: setFinalizers_def)

subsection \<open>The order of the calls\<close>

text \<open>A step that makes exactly one call, whatever its outcome.\<close>

definition logs :: "('s, 'a) io \<Rightarrow> api_call \<Rightarrow> bool" where
  "logs f c \<longleftrightarrow> (\<forall>w r w'. f w = (r, w') \<longrightarrow> calls w' = calls w @ [c])"

text \<open>A sequence of such steps logs a prefix of its calls, all of them when it succeeds.\<close>

lemma run_steps_calls:
  assumes "list_all2 logs steps cs" "run_steps steps w = (res, w')"
  shows "\<exists>n\<le>length cs. calls w' = calls w @ take n cs \<and> (res = Inr () \<longrightarrow> n = length cs) \<and>
    (cs \<noteq> [] \<longrightarrow> 0 < n)"
  using assms
proof (induction arbitrary: w rule: list_all2_induct)
  case Nil
  then show ?case by simp
next
  case (Cons step steps c cs)
  obtain r1 w1 where step: "step w = (r1, w1)" by (cases "step w")
  with Cons.hyps(1) have log: "calls w1 = calls w @ [c]" by (simp add: logs_def)
  show ?case
  proof (cases r1)
    case (Inl err)
    with Cons.prems step log show ?thesis by (intro exI [of _ 1]) auto
  next
    case (Inr u)
    with Cons.prems step have "run_steps steps w1 = (res, w')" by simp
    from Cons.IH [OF this] obtain n where
      "n \<le> length cs" "calls w' = calls w1 @ take n cs" "res = Inr () \<longrightarrow> n = length cs"
      by blast
    with log show ?thesis by (intro exI [of _ "Suc n"]) auto
  qed
qed

lemma run_steps_quiet:
  "(\<And>f. f \<in> set steps \<Longrightarrow> \<exists>w1. f w = (Inr (), w1) \<and> server w1 = server w) \<Longrightarrow>
   (\<And>f v. f \<in> set steps \<Longrightarrow> server v = server w \<Longrightarrow>
      \<exists>w1. f v = (Inr (), w1) \<and> server w1 = server w) \<Longrightarrow>
   \<exists>w'. run_steps steps w = (Inr (), w') \<and> server w' = server w"
proof (induction steps arbitrary: w)
  case (Cons f steps)
  from Cons.prems(1) [of f] obtain w1 where w1: "f w = (Inr (), w1)" "server w1 = server w" by auto
  have "\<exists>w'. run_steps steps w1 = (Inr (), w') \<and> server w' = server w1"
    by (rule Cons.IH) (use Cons.prems(2) w1(2) in auto)
  with w1 show ?case by auto
qed simp

lemma logs_owned:
  "logs (owned R obj f) (CreateOrUpdateCall (api_kind R) (Namespace (api_meta R obj)) (Name (api_meta R obj)))"
  by (auto simp: logs_def owned_def split: prod.splits sum.splits dest!: calls_CreateOrUpdate)

text \<open>Each component of the client works on the kind of object its type says.\<close>

definition typed_client :: "'s GreenplumClusterReconciler \<Rightarrow> bool" where
  "typed_client r \<longleftrightarrow>
     api_kind (clusters r) = KGreenplumCluster \<and> api_meta (clusters r) = gc_meta \<and>
     api_kind (configMaps r) = KConfigMap \<and> api_meta (configMaps r) = cm_meta \<and>
     api_kind (secrets r) = KSecret \<and> api_meta (secrets r) = sec_meta \<and>
     api_kind (services r) = KService \<and> api_meta (services r) = svc_meta \<and>
     api_kind (serviceAccounts r) = KServiceAccount \<and> api_meta (serviceAccounts r) = sa_meta \<and>
     api_kind (roles r) = KRole \<and> api_meta (roles r) = role_meta \<and>
     api_kind (roleBindings r) = KRoleBinding \<and> api_meta (roleBindings r) = rb_meta \<and>
     api_kind (statefulSets r) = KStatefulSet \<and> api_meta (statefulSets r) = ss_meta \<and>
     api_kind (jobs r) = KJob \<and> api_meta (jobs r) = job_meta \<and>
     api_kind (nodes r) = KNode \<and> api_meta (nodes r) = node_meta"

definition resourceCalls :: "GreenplumCluster \<Rightarrow> api_call list" where
  "resourceCalls gc =
     (let ns = Namespace (gc_meta gc)
      in [CreateOrUpdateCall KConfigMap ns ''greenplum-config'',
          CreateOrUpdateCall KSecret ns ''ssh-secrets'',
          CreateOrUpdateCall KService ns ''agent'',
          CreateOrUpdateCall KService ns ''greenplum'',
          CreateOrUpdateCall KServiceAccount ns ''greenplum-system-pod'',
          CreateOrUpdateCall KRole ns ''greenplum-system-pod'',
          CreateOrUpdateCall KRoleBinding ns ''greenplum-system-pod'',
          CreateOrUpdateCall KStatefulSet ns ''master'',
          CreateOrUpdateCall KStatefulSet ns ''segment-a''] @
         (if Mirrors (Segments (Spec gc)) = ''yes''
          then [CreateOrUpdateCall KStatefulSet ns ''segment-b''] else []))"

lemma objectMeta_simps [simp]: "Name (objectMeta n ns) = n" "Namespace (objectMeta n ns) = ns"
  by (simp_all add: objectMeta_def)

lemma new_meta_simps [simp]:
  "ss_meta (newStatefulSet m) = m" "cm_meta (newConfigMap m) = m" "sec_meta (newSecret m) = m"
  "svc_meta (newService m) = m" "sa_meta (newServiceAccount m) = m" "role_meta (newRole m) = m"
  "rb_meta (newRoleBinding m) = m" "d_meta (newDeployment m) = m"
  by (simp_all add: empty_object_defs)

lemma logs_owned_typed:
  assumes "api_kind R = k" "Namespace (api_meta R obj) = ns" "Name (api_meta R obj) = n"
  shows "logs (owned R obj f) (CreateOrUpdateCall k ns n)"
  using logs_owned [of R obj f] assms by simp

lemma resourceSteps_log:
  "typed_client r \<Longrightarrow> list_all2 logs (resourceSteps r gc) (resourceCalls gc)"
  by (simp add: resourceSteps_def resourceCalls_def Let_def ownedStatefulSet_def logs_owned_typed
        typed_client_def)

lemma createOrUpdate_calls:
  assumes "typed_client r" "createOrUpdateClusterResources r gc w = (res, w')"
  shows "\<exists>n\<le>length (resourceCalls gc). calls w' = calls w @ take n (resourceCalls gc) \<and>
    (res = Inr () \<longrightarrow> n = length (resourceCalls gc)) \<and> 0 < n"
  using run_steps_calls [OF resourceSteps_log [OF assms(1)]] assms(2)
  by (fastforce simp: createOrUpdateClusterResources_def resourceCalls_def Let_def)

subsection \<open>Settled resources\<close>

text \<open>
  What the code relies on of \<open>ctrl.CreateOrUpdate\<close>: when the object exists and the callback leaves
  it as it is, nothing is written and the call succeeds.
\<close>

definition unchanged_law :: "('s, 'a) resource_api \<Rightarrow> bool" where
  "unchanged_law R \<longleftrightarrow>
     (\<forall>x f s y. api_Get R (Namespace (api_meta R x)) (Name (api_meta R x)) s = (Inr y, s) \<longrightarrow>
        f y s = (Inr y, s) \<longrightarrow> api_CreateOrUpdate R x f s = (Inr (OpNone, y), s))"

text \<open>The store holds, under the name of \<open>x\<close>, an object that the callback returned.\<close>

definition written ::
  "('s, 'a) resource_api \<Rightarrow> 'a \<Rightarrow> ('a \<Rightarrow> 's \<Rightarrow> 'a result \<times> 's) \<Rightarrow> 's \<Rightarrow> bool"
where
  "written R x f s \<longleftrightarrow>
     (\<exists>y x0 s0 s1. api_Get R (Namespace (api_meta R x)) (Name (api_meta R x)) s = (Inr y, s) \<and>
        f x0 s0 = (Inr y, s1))"

text \<open>The store holds an object that the callback leaves as it is.\<close>

definition kept ::
  "('s, 'a) resource_api \<Rightarrow> 'a \<Rightarrow> ('a \<Rightarrow> 's \<Rightarrow> 'a result \<times> 's) \<Rightarrow> 's \<Rightarrow> bool"
where
  "kept R x f s \<longleftrightarrow>
     (\<exists>y. api_Get R (Namespace (api_meta R x)) (Name (api_meta R x)) s = (Inr y, s) \<and>
        f y s = (Inr y, s))"

text \<open>A callback that leaves its own results alone.\<close>

definition settles :: "('a \<Rightarrow> 's \<Rightarrow> 'a result \<times> 's) \<Rightarrow> bool" where
  "settles f \<longleftrightarrow> (\<forall>x s y s1 s2. f x s = (Inr y, s1) \<longrightarrow> f y s2 = (Inr y, s2))"

lemma written_kept: "settles f \<Longrightarrow> written R x f s \<Longrightarrow> kept R x f s"
  unfolding settles_def written_def kept_def by blast

lemma owned_kept:
  assumes "unchanged_law R" "kept R x f (server w)"
  shows "\<exists>w1. owned R x f w = (Inr (), w1) \<and> server w1 = server w"
proof -
  from assms(2) obtain y where
    "api_Get R (Namespace (api_meta R x)) (Name (api_meta R x)) (server w) = (Inr y, server w)"
    "f y (server w) = (Inr y, server w)"
    by (auto simp: kept_def)
  with assms(1) have "api_CreateOrUpdate R x f (server w) = (Inr (OpNone, y), server w)"
    by (simp add: unchanged_law_def)
  then show ?thesis by (simp add: owned_def CreateOrUpdate_def perform_def)
qed

lemma settles_mutate:
  assumes "\<And>x y. modify_and_own (SetControllerReference r) (gc_meta gc) meta set_meta modify x = Inr y \<Longrightarrow>
    modify_and_own (SetControllerReference r) (gc_meta gc) meta set_meta modify y = Inr y"
  shows "settles (mutate r gc meta set_meta modify)"
  using assms by (auto simp: settles_def mutate_def)

lemma modify_and_own_cong:
  "f x = g x \<Longrightarrow> modify_and_own ref o1 meta set_meta f x = modify_and_own ref o1 meta set_meta g x"
  by (simp add: modify_and_own_def cong: sum.case_cong)

lemma settles_mutateSecret:
  assumes "reference_laws (SetControllerReference r)"
  shows "settles (mutateSecret r gc)"
  unfolding settles_def
proof (intro allI impI)
  fix x s y s1 s2
  assume "mutateSecret r gc x s = (Inr y, s1)"
  then obtain keyData where
    own: "modify_and_own (SetControllerReference r) (gc_meta gc) sec_meta (\<lambda>m x. x\<lparr>sec_meta := m\<rparr>)
       (ModifySecret (Name (gc_meta gc)) keyData) x = Inr y"
    and keys: "keyData = None \<longrightarrow> sec_Data x \<noteq> None" "keyData \<noteq> None \<longrightarrow> sec_Data x = None"
    by (auto simp: mutateSecret_def split: if_splits prod.splits sum.splits)
  let ?keys = "case keyData of Some k \<Rightarrow> k | None \<Rightarrow> []"
  have kept: "ModifySecret (Name (gc_meta gc)) keyData x = keep_keys (Name (gc_meta gc)) ?keys x"
    using keys by (auto simp: keep_keys_def split: option.splits)
  have "modify_and_own (SetControllerReference r) (gc_meta gc) sec_meta (\<lambda>m x. x\<lparr>sec_meta := m\<rparr>)
       (keep_keys (Name (gc_meta gc)) ?keys) x = Inr y"
    by (rule trans [OF modify_and_own_cong own]) (simp only: kept)
  from secret_modifier.own_settles [OF assms this]
  have settled: "modify_and_own (SetControllerReference r) (gc_meta gc) sec_meta (\<lambda>m x. x\<lparr>sec_meta := m\<rparr>)
       (keep_keys (Name (gc_meta gc)) ?keys) y = Inr y" .
  have data: "sec_Data y \<noteq> None"
    using own keys by (auto simp: modify_and_own_def ModifySecret_def split: sum.splits)
  then have "keep_keys (Name (gc_meta gc)) ?keys y = ModifySecret (Name (gc_meta gc)) None y"
    by (auto simp: keep_keys_def)
  note same = this
  have "modify_and_own (SetControllerReference r) (gc_meta gc) sec_meta (\<lambda>m x. x\<lparr>sec_meta := m\<rparr>)
       (ModifySecret (Name (gc_meta gc)) None) y = Inr y"
    by (rule trans [OF modify_and_own_cong settled]) (simp only: same)
  with data show "mutateSecret r gc y s2 = (Inr y, s2)" by (auto simp: mutateSecret_def)
qed

lemma settles_statefulSet:
  "reference_laws (SetControllerReference r) \<Longrightarrow>
   settles (mutate r gc ss_meta (\<lambda>m x. x\<lparr>ss_meta := m\<rparr>) (ModifyGreenplumStatefulSet Q params))"
  by (intro settles_mutate sset_modifier.own_settles)

text \<open>Every owned object is in the store as its callback wrote it; the role is one its callback keeps.\<close>

definition writtenStatefulSet ::
  "'s GreenplumClusterReconciler \<Rightarrow> GreenplumCluster \<Rightarrow> StatefulSetType \<Rightarrow> string \<Rightarrow> 's \<Rightarrow> bool"
where
  "writtenStatefulSet r gc typ name s \<longleftrightarrow>
     written (statefulSets r) (newStatefulSet (objectMeta name (Namespace (gc_meta gc))))
       (mutate r gc ss_meta (\<lambda>m x. x\<lparr>ss_meta := m\<rparr>)
          (ModifyGreenplumStatefulSet (quantities r)
             (GenerateStatefulSetParams typ gc (r_InstanceImage r)))) s"

definition resourcesWritten :: "'s GreenplumClusterReconciler \<Rightarrow> GreenplumCluster \<Rightarrow> 's \<Rightarrow> bool" where
  "resourcesWritten r gc s \<longleftrightarrow>
     (let ns = Namespace (gc_meta gc); gpName = Name (gc_meta gc)
      in written (configMaps r) (newConfigMap (objectMeta ''greenplum-config'' ns))
           (mutate r gc cm_meta (\<lambda>m x. x\<lparr>cm_meta := m\<rparr>) (ModifyConfigMap gc)) s \<and>
         written (secrets r) (newSecret (objectMeta ''ssh-secrets'' ns)) (mutateSecret r gc) s \<and>
         written (services r) (newService (objectMeta ''agent'' ns))
           (mutate r gc svc_meta (\<lambda>m x. x\<lparr>svc_meta := m\<rparr>) (ModifyGreenplumAgentService gpName)) s \<and>
         written (services r) (newService (objectMeta ''greenplum'' ns))
           (mutate r gc svc_meta (\<lambda>m x. x\<lparr>svc_meta := m\<rparr>) (ModifyGreenplumService gpName)) s \<and>
         written (serviceAccounts r) (newServiceAccount (objectMeta ''greenplum-system-pod'' ns))
           (mutate r gc sa_meta (\<lambda>m x. x\<lparr>sa_meta := m\<rparr>) (\<lambda>x. x)) s \<and>
         kept (roles r) (newRole (objectMeta ''greenplum-system-pod'' ns)) (mutateRole r gc) s \<and>
         written (roleBindings r) (newRoleBinding (objectMeta ''greenplum-system-pod'' ns))
           (mutate r gc rb_meta (\<lambda>m x. x\<lparr>rb_meta := m\<rparr>) ModifyRoleBinding) s \<and>
         writtenStatefulSet r gc TypeMaster ''master'' s \<and>
         writtenStatefulSet r gc TypeSegmentA ''segment-a'' s \<and>
         (Mirrors (Segments (Spec gc)) = ''yes'' \<longrightarrow> writtenStatefulSet r gc TypeSegmentB ''segment-b'' s))"

definition unchanged_laws :: "'s GreenplumClusterReconciler \<Rightarrow> bool" where
  "unchanged_laws r \<longleftrightarrow>
     unchanged_law (configMaps r) \<and> unchanged_law (secrets r) \<and> unchanged_law (services r) \<and>
     unchanged_law (serviceAccounts r) \<and> unchanged_law (roles r) \<and> unchanged_law (roleBindings r) \<and>
     unchanged_law (statefulSets r)"

lemma resourceSteps_quiet:
  assumes "unchanged_laws r" "reference_laws (SetControllerReference r)"
    and "resourcesWritten r gc (server w)" "step \<in> set (resourceSteps r gc)"
  shows "\<exists>w1. step w = (Inr (), w1) \<and> server w1 = server w"
proof -
  note settle = settles_mutate [OF configmap_modifier.own_settles] settles_mutateSecret
    settles_mutate [OF agent_modifier.own_settles] settles_mutate [OF service_modifier.own_settles]
    settles_mutate [OF serviceaccount_modifier.own_settles]
    settles_mutate [OF rolebinding_modifier.own_settles] settles_statefulSet
  from assms(4) show ?thesis
    unfolding resourceSteps_def Let_def ownedStatefulSet_def
    by (auto split: if_splits intro!: owned_kept)
       (use assms(1-3) in \<open>simp_all add: unchanged_laws_def resourcesWritten_def writtenStatefulSet_def
          Let_def written_kept settle\<close>)
qed

lemma createOrUpdate_quiet:
  assumes "unchanged_laws r" "reference_laws (SetControllerReference r)"
    and "resourcesWritten r gc (server w)"
  shows "\<exists>w'. createOrUpdateClusterResources r gc w = (Inr (), w') \<and> server w' = server w"
  unfolding createOrUpdateClusterResources_def
  by (rule run_steps_quiet) (metis assms resourceSteps_quiet)+

end
