(* ===== verification/Demo_Server.thy ===== *)
theory Demo_Server
  imports Cluster_Controller
begin

text \<open>
  A concrete API server for the witnesses: one table of objects per kind, with the documented
  behaviour of each client operation (get, list by labels, create, merge patch, delete, create or
  update). It shows that the laws the theorems assume of the client can hold, and the witnesses
  run the reconcilers against it.
\<close>

section \<open>Definitions\<close>

definition named :: "('a \<Rightarrow> ObjectMeta) \<Rightarrow> string \<Rightarrow> string \<Rightarrow> 'a \<Rightarrow> bool" where
  "named meta ns n x = (Namespace (meta x) = ns \<and> Name (meta x) = n)"

definition has_labels :: "smap \<Rightarrow> ObjectMeta \<Rightarrow> bool" where
  "has_labels l m = list_all (\<lambda>(k, v). map_of (map_make (Labels m)) k = Some v) l"

definition not_found :: "string \<Rightarrow> go_error" where
  "not_found n = ApiErr ReasonNotFound (n @ '' not found'')"

text \<open>\<open>merge x base y\<close> is the stored object \<open>y\<close> with the difference between \<open>x\<close> and \<open>base\<close> applied.\<close>

definition table_api ::
  "kind \<Rightarrow> ('a \<Rightarrow> ObjectMeta) \<Rightarrow> ('s \<Rightarrow> 'a list) \<Rightarrow> ('a list \<Rightarrow> 's \<Rightarrow> 's) \<Rightarrow> ('a \<Rightarrow> 'a \<Rightarrow> 'a \<Rightarrow> 'a) \<Rightarrow>
   ('s, 'a) resource_api"
where
  "table_api k meta tab set_tab merge =
     \<lparr>api_kind = k,
      api_meta = meta,
      api_Get = (\<lambda>ns n s. (case find (named meta ns n) (tab s) of
          None \<Rightarrow> Inl (not_found n) | Some x \<Rightarrow> Inr x, s)),
      api_List = (\<lambda>ns l s.
          (Inr (filter (\<lambda>x. (ns = [] \<or> Namespace (meta x) = ns) \<and> has_labels l (meta x)) (tab s)), s)),
      api_Create = (\<lambda>x s. (case find (named meta (Namespace (meta x)) (Name (meta x))) (tab s) of
          Some y \<Rightarrow> (Inl (ApiErr ReasonAlreadyExists (Name (meta x))), s)
        | None \<Rightarrow> (Inr x, set_tab (tab s @ [x]) s))),
      api_Patch = (\<lambda>x base s. (case find (named meta (Namespace (meta x)) (Name (meta x))) (tab s) of
          None \<Rightarrow> (Inl (not_found (Name (meta x))), s)
        | Some y \<Rightarrow> (Inr (merge x base y),
            set_tab (map (\<lambda>z. if named meta (Namespace (meta x)) (Name (meta x)) z
                              then merge x base y else z) (tab s)) s))),
      api_Delete = (\<lambda>x s.
          (Inr (), set_tab (filter (\<lambda>z. \<not> named meta (Namespace (meta x)) (Name (meta x)) z) (tab s)) s)),
      api_CreateOrUpdate = (\<lambda>x f s. (case find (named meta (Namespace (meta x)) (Name (meta x))) (tab s) of
          None \<Rightarrow> (case f x s of
              (Inl e, s1) \<Rightarrow> (Inl e, s1)
            | (Inr y, s1) \<Rightarrow> (Inr (OpCreated, y), set_tab (tab s1 @ [y]) s1))
        | Some y \<Rightarrow> (case f y s of
              (Inl e, s1) \<Rightarrow> (Inl e, s1)
            | (Inr z, s1) \<Rightarrow>
                (if z = y then (Inr (OpNone, y), s1)
                 else (Inr (OpUpdated, z),
                   set_tab (map (\<lambda>u. if named meta (Namespace (meta x)) (Name (meta x)) u
                                     then z else u) (tab s1)) s1)))))\<rparr>"

record demo =
  t_clusters :: "GreenplumCluster list"
  t_configMaps :: "ConfigMap list"
  t_secrets :: "Secret list"
  t_services :: "Service list"
  t_serviceAccounts :: "ServiceAccount list"
  t_roles :: "Role list"
  t_roleBindings :: "RoleBinding list"
  t_statefulSets :: "StatefulSet list"
  t_jobs :: "Job list"
  t_nodes :: "Node list"

definition demo_empty :: demo where
  "demo_empty = \<lparr>t_clusters = [], t_configMaps = [], t_secrets = [], t_services = [],
     t_serviceAccounts = [], t_roles = [], t_roleBindings = [], t_statefulSets = [], t_jobs = [],
     t_nodes = []\<rparr>"

definition merge_cluster :: "GreenplumCluster \<Rightarrow> GreenplumCluster \<Rightarrow> GreenplumCluster \<Rightarrow> GreenplumCluster" where
  "merge_cluster x base y =
     \<lparr>gc_meta = (if gc_meta x = gc_meta base then gc_meta y else gc_meta x),
      Spec = (if Spec x = Spec base then Spec y else Spec x),
      Status = (if Status x = Status base then Status y else Status x)\<rparr>"

text \<open>The merge of labels: the entries in which \<open>x\<close> differs from \<open>base\<close> replace those of \<open>y\<close>.\<close>

definition merge_labels :: "smap \<Rightarrow> smap \<Rightarrow> smap \<Rightarrow> smap" where
  "merge_labels x base y =
     filter (\<lambda>(k, v). map_of x k \<noteq> map_of base k) x @ filter (\<lambda>(k, v). map_of x k = map_of base k) y"

definition merge_node :: "Node \<Rightarrow> Node \<Rightarrow> Node \<Rightarrow> Node" where
  "merge_node x base y = y\<lparr>node_meta := (node_meta y)
     \<lparr>Labels := Some (merge_labels (map_make (Labels (node_meta x))) (map_make (Labels (node_meta base)))
        (map_make (Labels (node_meta y))))\<rparr>\<rparr>"

definition demo_quantities :: quantity_ops where
  "demo_quantities = \<lparr>q_Cmp = (\<lambda>a b. if a = b then 0 else 1), q_Sign = (\<lambda>q. 1),
     q_String = (\<lambda>q. case q of Quantity s \<Rightarrow> s)\<rparr>"

definition demo_rbac :: rbac_lib where
  "demo_rbac =
     \<lparr>BreakdownRule = (\<lambda>r. concat (map (\<lambda>g. map (\<lambda>x. r\<lparr>APIGroups := [g], Resources := [x]\<rparr>)
        (Resources r)) (APIGroups r))),
      CompactRules = Inr, RuleLess = (\<lambda>r s. False)\<rparr>"

text \<open>A pod executor that answers on one pod only.\<close>

definition demo_exec :: "string \<Rightarrow> string \<Rightarrow> 's pod_exec" where
  "demo_exec pod out cmd ns p s =
     (if p = pod then \<lparr>ex_err = None, ex_stdout = out, ex_stderr = []\<rparr>
      else \<lparr>ex_err = Some (Err ''pod not reachable''), ex_stdout = [], ex_stderr = []\<rparr>, s)"

definition demo_reconciler :: "demo pod_exec \<Rightarrow> demo GreenplumClusterReconciler" where
  "demo_reconciler ex =
     \<lparr>clusters = table_api KGreenplumCluster gc_meta t_clusters (\<lambda>t s. s\<lparr>t_clusters := t\<rparr>) merge_cluster,
      configMaps = table_api KConfigMap cm_meta t_configMaps (\<lambda>t s. s\<lparr>t_configMaps := t\<rparr>) (\<lambda>x b y. x),
      secrets = table_api KSecret sec_meta t_secrets (\<lambda>t s. s\<lparr>t_secrets := t\<rparr>) (\<lambda>x b y. x),
      services = table_api KService svc_meta t_services (\<lambda>t s. s\<lparr>t_services := t\<rparr>) (\<lambda>x b y. x),
      serviceAccounts = table_api KServiceAccount sa_meta t_serviceAccounts
        (\<lambda>t s. s\<lparr>t_serviceAccounts := t\<rparr>) (\<lambda>x b y. x),
      roles = table_api KRole role_meta t_roles (\<lambda>t s. s\<lparr>t_roles := t\<rparr>) (\<lambda>x b y. x),
      roleBindings = table_api KRoleBinding rb_meta t_roleBindings (\<lambda>t s. s\<lparr>t_roleBindings := t\<rparr>) (\<lambda>x b y. x),
      statefulSets = table_api KStatefulSet ss_meta t_statefulSets (\<lambda>t s. s\<lparr>t_statefulSets := t\<rparr>) (\<lambda>x b y. x),
      jobs = table_api KJob job_meta t_jobs (\<lambda>t s. s\<lparr>t_jobs := t\<rparr>) (\<lambda>x b y. x),
      nodes = table_api KNode node_meta t_nodes (\<lambda>t s. s\<lparr>t_nodes := t\<rparr>) merge_node,
      SSHCreator = (\<lambda>s. (Inr [(''id_rsa.pub'', ''pub''), (''id_rsa'', ''priv'')], s)),
      r_InstanceImage = ''gp:1'',
      r_OperatorImage = ''op:1'',
      PodExec = ex,
      SetControllerReference = append_owner,
      quantities = demo_quantities,
      rbac = demo_rbac,
      SemanticDeepEqual = (=)\<rparr>"

definition demo_spec :: "string \<Rightarrow> string \<Rightarrow> string \<Rightarrow> int32 \<Rightarrow> GreenplumClusterSpec" where
  "demo_spec antiAffinity standby mirrors n =
     \<lparr>MasterAndStandby = \<lparr>gp_Memory = Quantity ''4Gi'', gp_CPU = Quantity ''2'',
        gp_StorageClassName = ''standard'', gp_Storage = Quantity ''1G'', gp_WorkerSelector = None,
        gp_AntiAffinity = antiAffinity, HostBasedAuthentication = [], Standby = standby\<rparr>,
      Segments = \<lparr>gp_Memory = Quantity ''4Gi'', gp_CPU = Quantity ''2'',
        gp_StorageClassName = ''standard'', gp_Storage = Quantity ''1G'', gp_WorkerSelector = None,
        gp_AntiAffinity = antiAffinity, PrimarySegmentCount = n, Mirrors = mirrors\<rparr>,
      PXF = \<lparr>ServiceName = ''pxf''\<rparr>\<rparr>"

definition demo_cluster :: "GreenplumClusterSpec \<Rightarrow> GreenplumCluster" where
  "demo_cluster spec =
     \<lparr>gc_meta = objectMeta ''gp'' ''ns'', Spec = spec,
      Status = \<lparr>InstanceImage = [], OperatorVersion = [], Phase = PhaseNone\<rparr>\<rparr>"

definition demo_world :: "demo \<Rightarrow> demo world" where
  "demo_world s = \<lparr>server = s, calls = []\<rparr>"

definition demo_node :: "string \<Rightarrow> Node" where
  "demo_node n = \<lparr>node_meta = objectMeta n ''''\<rparr>"

lemmas demo_defs = demo_empty_def merge_cluster_def merge_labels_def merge_node_def demo_quantities_def demo_rbac_def demo_exec_def
  demo_reconciler_def demo_spec_def demo_cluster_def demo_world_def demo_node_def

section \<open>Lemmas\<close>

lemma table_api_simps [simp]:
  "api_kind (table_api k m t st mg) = k" "api_meta (table_api k m t st mg) = m"
  by (simp_all add: table_api_def)

lemma table_api_unchanged: "unchanged_law (table_api k m t st mg)"
  by (auto simp: unchanged_law_def table_api_def split: option.splits)

text \<open>Looking an object up in a table that another one was written to.\<close>

lemma find_replace:
  "named meta ns n z \<Longrightarrow>
   find (named meta ns' n') (map (\<lambda>u. if named meta ns n u then z else u) xs) =
     (if ns' = ns \<and> n' = n then (if find (named meta ns n) xs = None then None else Some z)
      else find (named meta ns' n') xs)"
  by (induction xs) (auto simp: named_def)

lemma find_add:
  "named meta ns n z \<Longrightarrow> find (named meta ns n) xs = None \<Longrightarrow>
   find (named meta ns' n') (xs @ [z]) = (if ns' = ns \<and> n' = n then Some z else find (named meta ns' n') xs)"
  by (induction xs) (auto simp: named_def split: if_splits)

lemma find_named: "find (named m ns n) xs = Some y \<Longrightarrow> Namespace (m y) = ns \<and> Name (m y) = n"
  by (auto simp: find_Some_iff named_def)

lemma find_map_named:
  "find (named meta ns n) xs = Some y \<Longrightarrow> Namespace (meta z) = ns \<Longrightarrow> Name (meta z) = n \<Longrightarrow>
   find (named meta ns n) (map (\<lambda>u. if named meta ns n u then z else u) xs) = Some z"
  using find_replace [of meta ns n z ns n xs] by (simp add: named_def)

lemma find_append_named:
  "find (named meta ns n) xs = None \<Longrightarrow> Namespace (meta z) = ns \<Longrightarrow> Name (meta z) = n \<Longrightarrow>
   find (named meta ns n) (xs @ [z]) = Some z"
  using find_add [of meta ns n z xs ns n] by (simp add: named_def)

lemma demo_typed: "typed_client (demo_reconciler ex)"
  by (simp add: typed_client_def demo_reconciler_def)

lemma demo_unchanged: "unchanged_laws (demo_reconciler ex)"
  by (simp add: unchanged_laws_def demo_reconciler_def table_api_unchanged)

lemma demo_reference: "reference_laws (SetControllerReference (demo_reconciler ex))"
  by (simp add: demo_reconciler_def append_owner_laws)

text \<open>An executable form of \<open>kept\<close>, for the witnesses.\<close>

definition kept_check ::
  "('s, 'a) resource_api \<Rightarrow> 'a \<Rightarrow> ('a \<Rightarrow> 's \<Rightarrow> 'a result \<times> 's) \<Rightarrow> 's \<Rightarrow> bool"
where
  "kept_check R x f s =
     (case api_Get R (Namespace (api_meta R x)) (Name (api_meta R x)) s of
        (Inl e, s1) \<Rightarrow> False
      | (Inr y, s1) \<Rightarrow> s1 = s \<and> f y s = (Inr y, s))"

lemma kept_check_kept: "kept_check R x f s \<Longrightarrow> kept R x f s"
  by (auto simp: kept_check_def kept_def split: prod.splits sum.splits)

lemma kept_check_written: "kept_check R x f s \<Longrightarrow> written R x f s"
  unfolding written_def by (auto simp: kept_check_def split: prod.splits sum.splits)

end
