(* ===== verification/Cluster_Behaviour.thy ===== *)
theory Cluster_Behaviour
  imports Demo_Server
begin

text \<open>
  What the cluster reconciler does: which calls each part may make and in which order, when a
  gpexpand job is created, what deletion does, where anti-affinity puts the pods, and that a
  settled cluster is left alone. The last section holds the properties with their witnesses.
\<close>

section \<open>Bounding the calls\<close>

text \<open>\<open>extends S w w'\<close>: from \<open>w\<close> to \<open>w'\<close> only calls of the set \<open>S\<close> were made.\<close>

definition extends :: "api_call set \<Rightarrow> 's world \<Rightarrow> 's world \<Rightarrow> bool" where
  "extends S w w' \<longleftrightarrow> (\<exists>cs. calls w' = calls w @ cs \<and> set cs \<subseteq> S)"

lemma extends_refl [simp, intro]: "extends S w w"
  by (simp add: extends_def)

lemma extends_trans [trans]: "extends S w w1 \<Longrightarrow> extends S w1 w2 \<Longrightarrow> extends S w w2"
  by (force simp: extends_def)

lemma extends_call: "calls w' = calls w @ [c] \<Longrightarrow> c \<in> S \<Longrightarrow> extends S w w'"
  by (auto simp: extends_def)

lemma extends_mono: "extends S w w' \<Longrightarrow> S \<subseteq> T \<Longrightarrow> extends T w w'"
  by (auto simp: extends_def)

lemma extends_Patch: "Patch R x b w = (res, w') \<Longrightarrow> (\<And>ns n. PatchCall (api_kind R) ns n \<in> S) \<Longrightarrow> extends S w w'"
  using calls_Patch extends_call by metis

lemma extends_List: "ListObjects R ns l w = (res, w') \<Longrightarrow> ListCall (api_kind R) ns \<in> S \<Longrightarrow> extends S w w'"
  using calls_List extends_call by metis

lemma extends_Execute: "Execute p cmd ns pod w = (res, w') \<Longrightarrow> ExecCall cmd ns pod \<in> S \<Longrightarrow> extends S w w'"
  using calls_Execute extends_call by metis

lemma extends_Get: "Get R ns n w = (res, w') \<Longrightarrow> GetCall (api_kind R) ns n \<in> S \<Longrightarrow> extends S w w'"
  using calls_Get extends_call by metis

lemma extends_Create: "Create R x w = (res, w') \<Longrightarrow> (\<And>ns n. CreateCall (api_kind R) ns n \<in> S) \<Longrightarrow> extends S w w'"
  using calls_Create extends_call by metis

lemma extends_Delete: "Delete R x w = (res, w') \<Longrightarrow> (\<And>ns n. DeleteCall (api_kind R) ns n \<in> S) \<Longrightarrow> extends S w w'"
  using calls_Delete extends_call by metis

lemmas extends_intros = extends_Patch extends_List extends_Execute extends_Get extends_Create
  extends_Delete

text \<open>The calls the parts of the reconciler may make.\<close>

lemma GetCurrentActiveMaster_extends:
  assumes "GetCurrentActiveMaster p ns w = (am, w')" "\<And>c n pod. ExecCall c n pod \<in> S"
  shows "extends S w w'"
  by (rule GetCurrentActiveMaster_cases [OF assms(1)]) (auto simp: extends_def assms(2))

lemma setStatus_extends:
  assumes "setStatus r gc ph w = (gc', w')" "\<And>ns n. PatchCall (api_kind (clusters r)) ns n \<in> S"
  shows "extends S w w'"
  using assms by (auto simp: setStatus_def split: if_splits prod.splits sum.splits elim: extends_Patch)

lemma reconcileStatus_extends:
  assumes "reconcileStatus r gc w = (res, w')" "\<And>ns n. PatchCall (api_kind (clusters r)) ns n \<in> S"
  shows "extends S w w'"
  using assms by (auto simp: reconcileStatus_def Let_def split: if_splits prod.splits sum.splits elim: extends_Patch)

lemma ensureStopped_extends:
  assumes "\<And>c n pod. ExecCall c n pod \<in> S"
  shows "extends S w (ensureGreenplumClusterStopped r gc am w)"
proof (cases "Execute (PodExec r) gpStopCommand (Namespace (gc_meta gc)) am w")
  case (Pair res w')
  with assms show ?thesis
    by (auto simp: ensureGreenplumClusterStopped_def elim: extends_Execute)
qed

lemma handleFinalizer_extends:
  assumes "handleFinalizer r gc am w = (res, w')"
    and P: "\<And>ns n. PatchCall (api_kind (clusters r)) ns n \<in> S" "\<And>c n pod. ExecCall c n pod \<in> S"
  shows "extends S w w'"
proof (cases "DeletionTimestamp (gc_meta gc)")
  case None
  with assms show ?thesis
    by (auto simp: handleFinalizer_def Let_def split: if_splits prod.splits sum.splits elim: extends_Patch)
next
  case (Some t)
  obtain gc1 w1 where st: "setStatus r gc PhaseDeleting w = (gc1, w1)" by fastforce
  let ?w2 = "ensureGreenplumClusterStopped r gc1 am w1"
  have "extends S w ?w2"
    using setStatus_extends [OF st P(1)] ensureStopped_extends [OF P(2)] by (rule extends_trans)
  then show ?thesis
    using assms(1) Some st
    by (auto simp: handleFinalizer_def Let_def split: if_splits prod.splits sum.splits
          intro: extends_trans extends_Patch [OF _ P(1)])
qed

lemma labelAlternateNodes_extends:
  assumes "labelAlternateNodes r key e d i ns w = (res, w')"
    and P: "\<And>n m. PatchCall (api_kind (nodes r)) n m \<in> S"
  shows "extends S w w'"
  using assms
proof (induction r key e d i ns w rule: labelAlternateNodes.induct)
  case (2 r key e d i node rest w)
  let ?v = "if i mod 2 = 0 then e else d"
  obtain res1 w1 where p: "Patch (nodes r) (labelNode key ?v node) node w = (res1, w1)" by fastforce
  from p 2(3) have "extends S w w1" by (rule extends_Patch)
  with p 2 show ?case
    by (auto simp: Let_def split: sum.splits intro: extends_trans)
qed simp

lemma handleAntiAffinity_body_extends:
  assumes "handleAntiAffinity_body r gc w = (res, w')"
    and S: "\<And>n m. PatchCall (api_kind (nodes r)) n m \<in> S" "\<And>n. ListCall (api_kind (nodes r)) n \<in> S"
  shows "extends S w w'"
proof -
  let ?ms = "map_make (gp_WorkerSelector (MasterAndStandby (Spec gc)))"
  let ?ss = "map_make (gp_WorkerSelector (Segments (Spec gc)))"
  obtain r1 w1 where l1: "ListObjects (nodes r) [] ?ms w = (r1, w1)" by fastforce
  obtain r2 w2 where l2: "ListObjects (nodes r) [] ?ss w1 = (r2, w2)" by fastforce
  have e: "extends S w w1" "extends S w1 w2"
    using extends_List [OF l1 S(2)] extends_List [OF l2 S(2)] .
  show ?thesis
    using assms(1) e unfolding handleAntiAffinity_body_def l1
    by (auto simp: l2 split: if_splits sum.splits prod.splits
          intro: extends_trans dest!: labelAlternateNodes_extends [OF _ S(1)])
qed

lemma handleAntiAffinity_extends:
  assumes "handleAntiAffinity r gc w = (res, w')"
    and S: "\<And>n m. PatchCall (api_kind (nodes r)) n m \<in> S" "\<And>n. ListCall (api_kind (nodes r)) n \<in> S"
  shows "extends S w w'"
proof -
  obtain r1 w1 where b: "handleAntiAffinity_body r gc w = (r1, w1)" by fastforce
  have "w' = w1"
    using assms(1) unfolding handleAntiAffinity_def b by (simp split: sum.splits)
  with handleAntiAffinity_body_extends [OF b S] show ?thesis by simp
qed

lemma createExpandJob_extends:
  assumes "createExpandJob r gc am w = (res, w')" "\<And>n m. CreateCall (api_kind (jobs r)) n m \<in> S"
  shows "extends S w w'"
  using assms by (auto simp: createExpandJob_def Let_def split: prod.splits sum.splits elim: extends_Create)

lemma getCurrentSegmentCount_extends:
  assumes "getCurrentSegmentCount r ns am w = (res, w')" "\<And>c n pod. ExecCall c n pod \<in> S"
  shows "extends S w w'"
  using assms by (auto simp: getCurrentSegmentCount_def split: prod.splits option.splits sum.splits
      elim: extends_Execute)

lemma handleExpand_extends:
  assumes "handleExpand r gc am w = (res, w')"
    and S: "\<And>n m. CreateCall (api_kind (jobs r)) n m \<in> S" "\<And>n m. DeleteCall (api_kind (jobs r)) n m \<in> S"
      "\<And>n m. GetCall (api_kind (jobs r)) n m \<in> S" "\<And>c n pod. ExecCall c n pod \<in> S"
  shows "extends S w w'"
proof -
  obtain r1 w1 where c: "getCurrentSegmentCount r (Namespace (gc_meta gc)) am w = (r1, w1)" by fastforce
  obtain r2 w2 where g: "Get (jobs r) (Namespace (gc_meta gc)) (gpexpandJobName gc) w1 = (r2, w2)" by fastforce
  have e1: "extends S w w1" by (rule getCurrentSegmentCount_extends [OF c S(4)])
  have "extends S w1 w2" by (rule extends_Get [OF g S(3)])
  with e1 have e2: "extends S w w2" by (rule extends_trans)
  have d: "extends S w w3" if "Delete (jobs r) j w2 = (r3, w3)" for j r3 w3
    using extends_trans [OF e2 extends_Delete [OF that S(2)]] .
  show ?thesis
    using assms(1) e1 e2 d unfolding handleExpand_def c
    by (auto simp: g split: if_splits sum.splits prod.splits
          dest!: createExpandJob_extends [OF _ S(1)]) (blast intro: extends_trans)+
qed

lemma clusterExists_extends:
  assumes "clusterExists r gc w = (res, w')" "\<And>n. ListCall (api_kind (statefulSets r)) n \<in> S"
  shows "extends S w w'"
  using assms by (auto simp: clusterExists_def split: prod.splits sum.splits elim: extends_List)

lemma createOrUpdate_extends:
  assumes "typed_client r" "createOrUpdateClusterResources r gc w = (res, w')" "set (resourceCalls gc) \<subseteq> S"
  shows "extends S w w'"
  using createOrUpdate_calls [OF assms(1,2)] assms(3) by (auto simp: extends_def dest: in_set_takeD)

text \<open>The calls after the resources: cluster patches, commands, and the expansion job.\<close>

definition phaseCalls :: "api_call set" where
  "phaseCalls = {c. (\<exists>n m. c = PatchCall KGreenplumCluster n m) \<or> (\<exists>x n p. c = ExecCall x n p) \<or>
     (\<exists>n m. c = GetCall KJob n m \<or> c = CreateCall KJob n m \<or> c = DeleteCall KJob n m)}"

lemma reconcilePhases_extends:
  assumes "typed_client r" "reconcilePhases r gc am w = (res, w')"
  shows "extends phaseCalls w w'"
proof -
  have k: "api_kind (clusters r) = KGreenplumCluster" "api_kind (jobs r) = KJob"
    using assms(1) by (simp_all add: typed_client_def)
  obtain r1 w1 where st: "reconcileStatus r gc w = (r1, w1)" by fastforce
  have e1: "extends phaseCalls w w1"
    by (rule reconcileStatus_extends [OF st]) (simp add: phaseCalls_def k)
  show ?thesis
  proof (cases r1)
    case (Inl err)
    with assms(2) st e1 show ?thesis by (simp add: reconcilePhases_def)
  next
    case (Inr gc1)
    obtain gc2 w2 where run: "(if Phase (Status gc1) = PhasePending \<and> am \<noteq> ''''
        then setStatus r gc1 PhaseRunning w1 else (gc1, w1)) = (gc2, w2)" by fastforce
    then have "extends phaseCalls w1 w2"
      by (auto split: if_splits elim!: setStatus_extends simp: phaseCalls_def k)
    with e1 have e2: "extends phaseCalls w w2" by (rule extends_trans)
    have e3: "extends phaseCalls w2 w3" if "handleExpand r gc2 am w2 = (r3, w3)" for r3 w3
      by (rule handleExpand_extends [OF that]) (simp_all add: phaseCalls_def k)
    show ?thesis
      using assms(2) e2 unfolding reconcilePhases_def st Inr
      by (auto simp: run split: if_splits prod.splits sum.splits dest: e3 intro: extends_trans)
  qed
qed

definition affinityCalls :: "api_call set" where
  "affinityCalls = {c. \<exists>n m. c = PatchCall KNode n m \<or> c = ListCall KNode n \<or> c = ListCall KStatefulSet n}"

lemma reconcileResources_extends:
  assumes "typed_client r" "reconcileResources r gc am w = (res, w')"
  shows "extends (affinityCalls \<union> set (resourceCalls gc) \<union> phaseCalls) w w'" (is "extends ?S w w'")
proof -
  have k: "api_kind (nodes r) = KNode" "api_kind (statefulSets r) = KStatefulSet"
    using assms(1) by (simp_all add: typed_client_def)
  obtain r1 w1 where ex: "clusterExists r gc w = (r1, w1)" by fastforce
  have e1: "extends ?S w w1"
    by (rule clusterExists_extends [OF ex]) (simp add: affinityCalls_def k)
  obtain b where b: "b = (case r1 of Inl e \<Rightarrow> False | Inr x \<Rightarrow> x)" by simp
  obtain r2 w2 where aa: "(if \<not> b then handleAntiAffinity r gc w1 else (Inr (), w1)) = (r2, w2)" by fastforce
  then have "extends ?S w1 w2"
    by (auto split: if_splits elim!: handleAntiAffinity_extends simp: affinityCalls_def k)
  with e1 have e2: "extends ?S w w2" by (rule extends_trans)
  obtain r3 w3 where cr: "createOrUpdateClusterResources r gc w2 = (r3, w3)" by fastforce
  have "extends ?S w2 w3" by (rule createOrUpdate_extends [OF assms(1) cr]) auto
  with e2 have e3: "extends ?S w w3" by (rule extends_trans)
  have e4: "extends ?S w w4" if "reconcilePhases r gc am w3 = (r4, w4)" for r4 w4
    using extends_trans [OF e3 extends_mono [OF reconcilePhases_extends [OF assms(1) that]]] by auto
  show ?thesis
    using assms(2) e1 e2 e3 aa b unfolding reconcileResources_def ex
    by (auto simp: cr split: if_splits sum.splits prod.splits dest: e4)
qed

end
