(* ===== verification/Cluster_Properties.thy ===== *)
theory Cluster_Properties
  imports Cluster_Behaviour
begin

text \<open>
  The properties of the cluster reconciler: the order of its calls, a settled cluster is left
  alone, finalizer and deletion, the image guard, expansion, and the placement of pods by
  anti-affinity. Each property is followed by a witness on the server of \<open>Demo_Server\<close>.
\<close>

section \<open>The owned resources\<close>

text \<open>C1: The resources of a cluster are created or updated one after another in a fixed order
  (config map, secret, services, service account, role, role binding, stateful sets; segment-b only
  with mirrors); the calls made are a non-empty prefix of that sequence, and the whole of it when
  no step fails.\<close>

theorem createOrUpdate_in_order:
  assumes "typed_client r" "createOrUpdateClusterResources r gc w = (res, w')"
  shows "\<exists>n\<le>length (resourceCalls gc). calls w' = calls w @ take n (resourceCalls gc) \<and> 0 < n \<and>
    (res = Inr () \<longrightarrow> n = length (resourceCalls gc))"
  using createOrUpdate_calls [OF assms] by blast

definition demo_am0 :: "demo pod_exec" where
  "demo_am0 = demo_exec ''master-0'' ''2''"

definition demo_run :: "demo GreenplumClusterReconciler" where
  "demo_run = demo_reconciler demo_am0"

lemma demo_creates:
  "fst (createOrUpdateClusterResources demo_run (demo_cluster (demo_spec ''no'' ''yes'' ''yes'' 2))
     (demo_world demo_empty)) = Inr ()"
  by code_simp

theorem createOrUpdate_in_order_witness:
  "\<exists>w'. createOrUpdateClusterResources demo_run (demo_cluster (demo_spec ''no'' ''yes'' ''yes'' 2))
       (demo_world demo_empty) = (Inr (), w') \<and>
     calls w' = resourceCalls (demo_cluster (demo_spec ''no'' ''yes'' ''yes'' 2))"
proof -
  let ?gc = "demo_cluster (demo_spec ''no'' ''yes'' ''yes'' 2)"
  obtain w' where w': "createOrUpdateClusterResources demo_run ?gc (demo_world demo_empty) = (Inr (), w')"
    using demo_creates by (metis prod.collapse)
  from createOrUpdate_in_order [OF _ this] have "calls w' = resourceCalls ?gc"
    by (auto simp: demo_run_def demo_typed demo_world_def)
  with w' show ?thesis by blast
qed

section \<open>A settled cluster\<close>

text \<open>
  The server holds the cluster and everything the operator makes for it: the finalizer, the status
  of this operator's images, the resources as their callbacks wrote them, and as many segments as
  the spec asks for (or no master that answers).
\<close>

definition segments_reached :: "'s GreenplumClusterReconciler \<Rightarrow> GreenplumCluster \<Rightarrow> 's \<Rightarrow> string \<Rightarrow> bool" where
  "segments_reached r gc s pod \<longleftrightarrow>
     (case fst (PodExec r getSegmentCountCommand (Namespace (gc_meta gc)) pod s) of
        x \<Rightarrow> ex_err x = None \<and>
          (\<exists>k. ParseInt ''ParseInt'' 32 (TrimSpace (ex_stdout x)) = Inr k \<and>
             sint (PrimarySegmentCount (Segments (Spec gc))) \<le> sint (word_of_int k :: int32)))"

definition settled :: "'s GreenplumClusterReconciler \<Rightarrow> GreenplumCluster \<Rightarrow> 's \<Rightarrow> bool" where
  "settled r gc s \<longleftrightarrow>
     DeletionTimestamp (gc_meta gc) = None \<and>
     StopClusterFinalizer \<in> set (Finalizers (gc_meta gc)) \<and>
     Status gc = \<lparr>InstanceImage = r_InstanceImage r, OperatorVersion = r_OperatorImage r,
       Phase = PhaseRunning\<rparr> \<and>
     (\<exists>xs. api_List (statefulSets r) (Namespace (gc_meta gc))
        [(''greenplum-cluster'', Name (gc_meta gc))] s = (Inr xs, s) \<and> xs \<noteq> []) \<and>
     resourcesWritten r gc s \<and>
     (\<forall>pod. ex_err (fst (PodExec r testIfPrimaryMasterCommand (Namespace (gc_meta gc)) pod s)) = None \<longrightarrow>
        segments_reached r gc s pod)"

lemma handleExpand_reached:
  assumes "exec_law (PodExec r)" "segments_reached r gc (server w) am"
  shows "\<exists>w'. handleExpand r gc am w = (Inr (), w') \<and> server w' = server w"
proof -
  let ?c = getSegmentCountCommand and ?ns = "Namespace (gc_meta gc)"
  obtain w1 where e: "Execute (PodExec r) ?c ?ns am w = (fst (PodExec r ?c ?ns am (server w)), w1)"
    "server w1 = server w" using exec_law_Execute [OF assms(1)] by blast
  with assms(2) show ?thesis
    by (auto simp: segments_reached_def handleExpand_def getCurrentSegmentCount_def)
qed

lemma reconcilePhases_settled:
  assumes "exec_law (PodExec r)" "\<And>x. SemanticDeepEqual r x x" "settled r gc (server w)"
    and "am \<noteq> [] \<longrightarrow> ex_err (fst (PodExec r testIfPrimaryMasterCommand (Namespace (gc_meta gc)) am (server w))) = None"
  shows "\<exists>w'. reconcilePhases r gc am w = (Inr (if am = [] then 5 else 0), w') \<and> server w' = server w"
proof -
  have "(Status gc)\<lparr>OperatorVersion := r_OperatorImage r, InstanceImage := r_InstanceImage r\<rparr> = Status gc"
    and "Phase (Status gc) \<noteq> PhaseNone"
    using assms(3) by (simp_all add: settled_def)
  then have st: "reconcileStatus r gc w = (Inr gc, w)"
    using assms(2) by (simp add: reconcileStatus_def Let_def)
  have ph: "Phase (Status gc) = PhaseRunning" using assms(3) by (simp add: settled_def)
  show ?thesis
  proof (cases "am = []")
    case True
    with st ph show ?thesis by (simp add: reconcilePhases_def)
  next
    case False
    with assms have "segments_reached r gc (server w) am" by (simp add: settled_def)
    from handleExpand_reached [OF assms(1) this] False st ph show ?thesis
      by (auto simp: reconcilePhases_def)
  qed
qed

lemma reconcileResources_settled:
  assumes "exec_law (PodExec r)" "\<And>x. SemanticDeepEqual r x x" "settled r gc (server w)"
    and "unchanged_laws r" "reference_laws (SetControllerReference r)"
    and "am \<noteq> [] \<longrightarrow> ex_err (fst (PodExec r testIfPrimaryMasterCommand (Namespace (gc_meta gc)) am (server w))) = None"
  shows "\<exists>w'. reconcileResources r gc am w = (Inr (if am = [] then 5 else 0), w') \<and> server w' = server w"
proof -
  obtain w1 where ex: "clusterExists r gc w = (Inr True, w1)" "server w1 = server w"
    using assms(3) by (auto simp: settled_def clusterExists_def ListObjects_def perform_def)
  have "resourcesWritten r gc (server w1)" using assms(3) ex(2) by (simp add: settled_def)
  from createOrUpdate_quiet [OF assms(4,5) this] obtain w2 where
    w2: "createOrUpdateClusterResources r gc w1 = (Inr (), w2)" "server w2 = server w" using ex(2) by auto
  have im: "InstanceImage (Status gc) = r_InstanceImage r" using assms(3) by (simp add: settled_def)
  obtain w3 where "reconcilePhases r gc am w2 = (Inr (if am = [] then 5 else 0), w3)" "server w3 = server w2"
    using reconcilePhases_settled [of r gc w2 am] assms w2(2) by auto
  with ex w2 im show ?thesis by (auto simp: reconcileResources_def)
qed

lemma Reconcile_quiet:
  assumes "exec_law (PodExec r)" "\<And>x. SemanticDeepEqual r x x" "unchanged_laws r"
    and "reference_laws (SetControllerReference r)"
    and "api_Get (clusters r) ns name (server w) = (Inr gc, server w)"
    and "settled r (SetDefaultGreenplumClusterValues gc) (server w)"
  shows "\<exists>n w'. Reconcile r ns name w = (Inr n, w') \<and> server w' = server w"
proof -
  let ?gc = "SetDefaultGreenplumClusterValues gc"
  obtain w1 where g: "Get (clusters r) ns name w = (Inr gc, w1)" "server w1 = server w"
    using assms(5) by (simp add: Get_def perform_def)
  obtain am w2 where am: "GetCurrentActiveMaster (PodExec r) (Namespace (gc_meta gc)) w1 = (am, w2)"
    "server w2 = server w1"
    "am \<noteq> [] \<longrightarrow> ex_err (fst (PodExec r testIfPrimaryMasterCommand (Namespace (gc_meta gc)) am (server w1))) = None"
    by (rule GetCurrentActiveMaster_quiet [OF assms(1)])
  have fin: "handleFinalizer r ?gc am w2 = ((None, ?gc, am), w2)"
    using assms(6) by (simp add: settled_def handleFinalizer_def)
  obtain w3 where "reconcileResources r ?gc am w2 = (Inr (if am = [] then 5 else 0), w3)" "server w3 = server w2"
    using reconcileResources_settled [of r ?gc w2 am] assms am g(2) by auto
  with g am fin show ?thesis by (auto simp: Reconcile_def)
qed

text \<open>C3: Reconciling a settled cluster succeeds and leaves every object of the API server as it
  is: no generated name, label, reference or quantity is rewritten on the second pass, no key is
  generated again and no expansion is started.\<close>

theorem Reconcile_settled:
  assumes "exec_law (PodExec r)" "\<And>x. SemanticDeepEqual r x x" "unchanged_laws r"
    and "reference_laws (SetControllerReference r)"
    and "api_Get (clusters r) ns name (server w) = (Inr gc, server w)"
    and "settled r (SetDefaultGreenplumClusterValues gc) (server w)"
  shows "\<exists>n w'. Reconcile r ns name w = (Inr n, w') \<and> server w' = server w"
  by (rule Reconcile_quiet [OF assms])

text \<open>The settled state in the executable form of \<open>kept_check\<close>, for the witness.\<close>

definition demo_set :: "demo GreenplumClusterReconciler \<Rightarrow> GreenplumCluster \<Rightarrow> StatefulSetType \<Rightarrow> string \<Rightarrow> demo \<Rightarrow> bool" where
  "demo_set r gc typ name s =
     kept_check (statefulSets r) (newStatefulSet (objectMeta name (Namespace (gc_meta gc))))
       (mutate r gc ss_meta (\<lambda>m x. x\<lparr>ss_meta := m\<rparr>)
          (ModifyGreenplumStatefulSet (quantities r) (GenerateStatefulSetParams typ gc (r_InstanceImage r)))) s"

definition demo_kept :: "demo GreenplumClusterReconciler \<Rightarrow> GreenplumCluster \<Rightarrow> demo \<Rightarrow> bool" where
  "demo_kept r gc s =
     (let ns = Namespace (gc_meta gc); gpName = Name (gc_meta gc)
      in kept_check (configMaps r) (newConfigMap (objectMeta ''greenplum-config'' ns))
           (mutate r gc cm_meta (\<lambda>m x. x\<lparr>cm_meta := m\<rparr>) (ModifyConfigMap gc)) s \<and>
         kept_check (secrets r) (newSecret (objectMeta ''ssh-secrets'' ns)) (mutateSecret r gc) s \<and>
         kept_check (services r) (newService (objectMeta ''agent'' ns))
           (mutate r gc svc_meta (\<lambda>m x. x\<lparr>svc_meta := m\<rparr>) (ModifyGreenplumAgentService gpName)) s \<and>
         kept_check (services r) (newService (objectMeta ''greenplum'' ns))
           (mutate r gc svc_meta (\<lambda>m x. x\<lparr>svc_meta := m\<rparr>) (ModifyGreenplumService gpName)) s \<and>
         kept_check (serviceAccounts r) (newServiceAccount (objectMeta ''greenplum-system-pod'' ns))
           (mutate r gc sa_meta (\<lambda>m x. x\<lparr>sa_meta := m\<rparr>) (\<lambda>x. x)) s \<and>
         kept_check (roles r) (newRole (objectMeta ''greenplum-system-pod'' ns)) (mutateRole r gc) s \<and>
         kept_check (roleBindings r) (newRoleBinding (objectMeta ''greenplum-system-pod'' ns))
           (mutate r gc rb_meta (\<lambda>m x. x\<lparr>rb_meta := m\<rparr>) ModifyRoleBinding) s \<and>
         demo_set r gc TypeMaster ''master'' s \<and>
         demo_set r gc TypeSegmentA ''segment-a'' s \<and>
         (Mirrors (Segments (Spec gc)) = ''yes'' \<longrightarrow> demo_set r gc TypeSegmentB ''segment-b'' s))"

lemma demo_kept_written: "demo_kept r gc s \<Longrightarrow> resourcesWritten r gc s"
  by (simp add: demo_kept_def resourcesWritten_def Let_def demo_set_def writtenStatefulSet_def
        kept_check_kept kept_check_written)

definition demo_settled_cluster :: GreenplumCluster where
  "demo_settled_cluster = (demo_cluster (demo_spec ''no'' ''yes'' ''yes'' 2))
     \<lparr>gc_meta := (objectMeta ''gp'' ''ns'')\<lparr>Finalizers := [StopClusterFinalizer]\<rparr>,
      Status := \<lparr>InstanceImage = ''gp:1'', OperatorVersion = ''op:1'', Phase = PhaseRunning\<rparr>\<rparr>"

definition demo_settled :: demo where
  "demo_settled = server (snd (createOrUpdateClusterResources demo_run demo_settled_cluster
     (demo_world (demo_empty\<lparr>t_clusters := [demo_settled_cluster]\<rparr>))))"

lemma demo_settled_kept: "demo_kept demo_run demo_settled_cluster demo_settled"
  by code_simp

lemma demo_run_simps:
  "PodExec demo_run = demo_am0" "SemanticDeepEqual demo_run = (=)"
  "SetControllerReference demo_run = append_owner" "r_InstanceImage demo_run = ''gp:1''"
  "r_OperatorImage demo_run = ''op:1''"
  by (simp_all add: demo_run_def demo_reconciler_def)

lemma demo_am0_law: "exec_law demo_am0"
  by (simp add: exec_law_def demo_am0_def demo_exec_def)

lemma demo_am0_reached: "ex_err (fst (demo_am0 cmd ns pod s)) = None \<Longrightarrow> pod = ''master-0''"
  by (auto simp: demo_am0_def demo_exec_def split: if_splits)

lemma demo_settled_lists:
  "api_List (statefulSets demo_run) ''ns'' [(''greenplum-cluster'', ''gp'')] demo_settled =
     (Inr (t_statefulSets demo_settled), demo_settled)"
  "t_statefulSets demo_settled \<noteq> []"
  "api_Get (clusters demo_run) ''ns'' ''gp'' demo_settled = (Inr demo_settled_cluster, demo_settled)"
  by code_simp+

lemma demo_settled_default: "SetDefaultGreenplumClusterValues demo_settled_cluster = demo_settled_cluster"
  by code_simp

lemma demo_parse_2: "ParseInt ''ParseInt'' 32 (TrimSpace ''2'') = Inr 2"
  by code_simp

lemma demo_settled_settled: "settled demo_run demo_settled_cluster demo_settled"
proof -
  have seg: "segments_reached demo_run demo_settled_cluster demo_settled ''master-0''"
    by (simp add: segments_reached_def demo_run_simps demo_am0_def demo_exec_def demo_parse_2
          demo_settled_cluster_def demo_cluster_def demo_spec_def)
  have meta: "gc_meta demo_settled_cluster = (objectMeta ''gp'' ''ns'')\<lparr>Finalizers := [StopClusterFinalizer]\<rparr>"
    by (simp add: demo_settled_cluster_def)
  show ?thesis
    using demo_kept_written [OF demo_settled_kept] demo_settled_lists(1,2) seg
    by (auto simp: settled_def meta demo_run_simps objectMeta_def emptyMeta_def dest!: demo_am0_reached)
       (simp_all add: demo_settled_cluster_def)
qed

theorem Reconcile_settled_witness:
  "\<exists>n w'. Reconcile demo_run ''ns'' ''gp'' (demo_world demo_settled) = (Inr n, w') \<and>
     server w' = demo_settled"
  using Reconcile_settled [of demo_run "''ns''" "''gp''" "demo_world demo_settled" demo_settled_cluster]
    demo_settled_settled demo_unchanged [of demo_am0] demo_settled_lists(3)
  by (simp add: demo_run_simps demo_am0_law append_owner_laws demo_settled_default demo_world_def
        demo_run_def [symmetric])

section \<open>The finalizer\<close>

text \<open>C10: When the finalizer cannot be added to a cluster, the reconcile fails and nothing else has
  happened: its only calls are the read of the cluster, the probes for the active master and the
  failed patch, so no resource of a cluster without finalizer is ever created in that pass.\<close>

theorem no_resources_before_finalizer:
  assumes "typed_client r" "api_Get (clusters r) ns name (server w) = (Inr gc, s1)"
    and "DeletionTimestamp (gc_meta gc) = None" "StopClusterFinalizer \<notin> set (Finalizers (gc_meta gc))"
    and "\<And>x base s. \<exists>err s'. api_Patch (clusters r) x base s = (Inl err, s')"
    and "Reconcile r ns name w = (res, w')"
  shows "(\<exists>err. res = Inl (Wrap ''adding finalizer'' err)) \<and>
    (\<exists>probes. calls w' = calls w @ GetCall KGreenplumCluster ns name # probes @
        [PatchCall KGreenplumCluster (Namespace (gc_meta gc)) (Name (gc_meta gc))] \<and>
      set probes \<subseteq> {ExecCall testIfPrimaryMasterCommand (Namespace (gc_meta gc)) pod | pod. True})"
proof -
  let ?gc = "SetDefaultGreenplumClusterValues gc"
  let ?gc1 = "setFinalizers (Finalizers (gc_meta gc) @ [StopClusterFinalizer]) ?gc"
  have k: "api_kind (clusters r) = KGreenplumCluster" "api_meta (clusters r) = gc_meta"
    using assms(1) by (simp_all add: typed_client_def)
  obtain w1 where g: "Get (clusters r) ns name w = (Inr gc, w1)"
    using assms(2) by (simp add: Get_def perform_def)
  obtain am w2 where am: "GetCurrentActiveMaster (PodExec r) (Namespace (gc_meta gc)) w1 = (am, w2)" by fastforce
  obtain err w3 where p: "Patch (clusters r) ?gc1 ?gc w2 = (Inl err, w3)"
    using assms(5) [of ?gc1 ?gc "server w2"] by (auto simp: Patch_def perform_def)
  have "Reconcile r ns name w = (Inl (Wrap ''adding finalizer'' err), w3)"
    using assms(3,4) by (simp add: Reconcile_def g am handleFinalizer_def Let_def p)
  moreover obtain probes where "calls w2 = calls w1 @ probes"
    "set probes \<subseteq> {ExecCall testIfPrimaryMasterCommand (Namespace (gc_meta gc)) pod | pod. True}"
    by (rule GetCurrentActiveMaster_cases [OF am]) auto
  ultimately show ?thesis
    using assms(6) calls_Get [OF g] calls_Patch [OF p] k by auto
qed

definition demo_unpatched :: "demo GreenplumClusterReconciler" where
  "demo_unpatched = demo_run\<lparr>clusters := (clusters demo_run)
     \<lparr>api_Patch := (\<lambda>x base s. (Inl (ApiErr ReasonConflict ''conflict''), s))\<rparr>\<rparr>"

lemma demo_unpatched_typed: "typed_client demo_unpatched"
  using demo_typed [of demo_am0] by (simp add: typed_client_def demo_unpatched_def demo_run_def)

theorem no_resources_before_finalizer_witness:
  "\<exists>err w'. Reconcile demo_unpatched ''ns'' ''gp''
     (demo_world (demo_empty\<lparr>t_clusters := [demo_cluster (demo_spec ''no'' ''yes'' ''yes'' 2)]\<rparr>)) =
       (Inl (Wrap ''adding finalizer'' err), w')"
proof -
  let ?s = "demo_empty\<lparr>t_clusters := [demo_cluster (demo_spec ''no'' ''yes'' ''yes'' 2)]\<rparr>"
  have g: "api_Get (clusters demo_unpatched) ''ns'' ''gp'' (server (demo_world ?s)) =
      (Inr (demo_cluster (demo_spec ''no'' ''yes'' ''yes'' 2)), ?s)"
    by code_simp
  obtain res w' where r: "Reconcile demo_unpatched ''ns'' ''gp'' (demo_world ?s) = (res, w')" by fastforce
  have "\<exists>err. res = Inl (Wrap ''adding finalizer'' err)"
    using no_resources_before_finalizer [OF demo_unpatched_typed g _ _ _ r]
    by (simp add: demo_cluster_def objectMeta_def emptyMeta_def demo_unpatched_def)
  with r show ?thesis by auto
qed

section \<open>Deletion\<close>

text \<open>A patch answers with an object of the same identity.\<close>

definition patch_identity :: "('s, 'a) resource_api \<Rightarrow> bool" where
  "patch_identity R \<longleftrightarrow>
     (\<forall>x base s y s'. api_Patch R x base s = (Inr y, s') \<longrightarrow>
        Name (api_meta R y) = Name (api_meta R x) \<and> Namespace (api_meta R y) = Namespace (api_meta R x))"

lemma Patch_identity:
  "patch_identity R \<Longrightarrow> Patch R x base w = (Inr y, w') \<Longrightarrow>
   Name (api_meta R y) = Name (api_meta R x) \<and> Namespace (api_meta R y) = Namespace (api_meta R x)"
  unfolding Patch_def patch_identity_def by (drule server_perform) blast

lemma setStatus_identity:
  assumes "typed_client r" "patch_identity (clusters r)" "setStatus r gc ph w = (gc', w')"
  shows "Name (gc_meta gc') = Name (gc_meta gc)" "Namespace (gc_meta gc') = Namespace (gc_meta gc)"
    "calls w' = calls w @ (if Phase (Status gc) \<noteq> ph
       then [PatchCall KGreenplumCluster (Namespace (gc_meta gc)) (Name (gc_meta gc))] else [])"
proof -
  have k: "api_kind (clusters r) = KGreenplumCluster" "api_meta (clusters r) = gc_meta"
    using assms(1) by (simp_all add: typed_client_def)
  show "Name (gc_meta gc') = Name (gc_meta gc)" "Namespace (gc_meta gc') = Namespace (gc_meta gc)"
    using assms(3) Patch_identity [OF assms(2)]
    by (auto simp: setStatus_def k split: if_splits prod.splits sum.splits)
  show "calls w' = calls w @ (if Phase (Status gc) \<noteq> ph
       then [PatchCall KGreenplumCluster (Namespace (gc_meta gc)) (Name (gc_meta gc))] else [])"
    using assms(3) by (auto simp: setStatus_def k split: if_splits prod.splits sum.splits dest!: calls_Patch)
qed


definition demo_deleting :: GreenplumCluster where
  "demo_deleting = demo_settled_cluster
     \<lparr>gc_meta := (gc_meta demo_settled_cluster)\<lparr>DeletionTimestamp := Some 1\<rparr>\<rparr>"

lemma merge_cluster_identity: "patch_identity (clusters demo_run)"
  by (auto simp: patch_identity_def demo_run_def demo_reconciler_def table_api_def merge_cluster_def
        named_def find_Some_iff split: option.splits)

lemma demo_deletes:
  "(case handleFinalizer demo_run demo_deleting ''master-0'' (demo_world (demo_empty\<lparr>t_clusters := [demo_deleting]\<rparr>))
      of ((e, gc, am), w) \<Rightarrow> e = None \<and> Finalizers (gc_meta gc) = [] \<and> map (Finalizers \<circ> gc_meta) (t_clusters (server w)) = [[]])"
  by code_simp


section \<open>The image guard\<close>


definition demo_old_image :: GreenplumCluster where
  "demo_old_image = (demo_cluster (demo_spec ''no'' ''yes'' ''yes'' 2))
     \<lparr>Status := \<lparr>InstanceImage = ''gp:0'', OperatorVersion = ''op:0'', Phase = PhaseRunning\<rparr>\<rparr>"

text \<open>The server's answer carries the status that was sent.\<close>

definition demo_echo :: "demo GreenplumClusterReconciler" where
  "demo_echo = demo_run\<lparr>clusters := table_api KGreenplumCluster gc_meta t_clusters
     (\<lambda>t s. s\<lparr>t_clusters := t\<rparr>) (\<lambda>x b y. x)\<rparr>"

lemma demo_echo_typed: "typed_client demo_echo"
  using demo_typed [of demo_am0] by (simp add: typed_client_def demo_echo_def demo_run_def)


section \<open>Expansion\<close>


definition demo_grow :: GreenplumCluster where
  "demo_grow = demo_cluster (demo_spec ''no'' ''yes'' ''yes'' 4)"

lemma demo_grow_run:
  "(case handleExpand demo_run demo_grow ''master-0'' (demo_world demo_empty) of
      (res, w) \<Rightarrow> res = Inr () \<and> CreateCall KJob ''ns'' ''gp-gpexpand-job'' \<in> set (calls w))"
  by code_simp

lemma demo_empty_no_job:
  "api_Get (jobs demo_run) ns n demo_empty = (Inl (not_found n), demo_empty)"
  by (simp add: demo_run_def demo_reconciler_def table_api_def demo_empty_def)


text \<open>C6: When the cluster has fewer segments than desired and no expansion job exists, a successful
  pass has created exactly the job that is needed: it runs the instance image once, without retries,
  against the active master's address, and the segment count it hands over, read back as the
  expansion tool reads it, is the desired one.\<close>

theorem expand_creates_job:
  assumes "Execute (PodExec r) getSegmentCountCommand (Namespace (gc_meta gc)) am w = (answer, w1)"
    and "ex_err answer = None" "ParseInt ''ParseInt'' 32 (TrimSpace (ex_stdout answer)) = Inr k"
    and "k < sint (PrimarySegmentCount (Segments (Spec gc)))"
    and "Get (jobs r) (Namespace (gc_meta gc)) (gpexpandJobName gc) w1 = (Inl e, w2)" "IsNotFound e"
    and "handleExpand r gc am w = (Inr (), w')"
  shows "\<exists>job created container env.
    api_Create (jobs r) job (server w2) = (Inr created, server w') \<and>
    job_BackoffLimit job = Some 0 \<and> ps_RestartPolicy (pt_Spec (job_Template job)) = ''Never'' \<and>
    ps_Containers (pt_Spec (job_Template job)) = [container] \<and> c_Image container = r_InstanceImage r \<and>
    map_of (map (\<lambda>v. (env_Name v, env_Value v)) (c_Env container)) ''GPEXPAND_HOST'' =
      Some (am @ ''.agent.'' @ Namespace (gc_meta gc) @ ''.svc.cluster.local'') \<and>
    map_of (map (\<lambda>v. (env_Name v, env_Value v)) (c_Env container)) ''NEW_SEG_COUNT'' = Some env \<and>
    Atoi env = Inr (sint (PrimarySegmentCount (Segments (Spec gc))))"
proof -
  have sk: "sint (word_of_int k :: int32) = k" using assms(3) by (rule sint_ParseInt32)
  have cnt: "getCurrentSegmentCount r (Namespace (gc_meta gc)) am w = (Inr (word_of_int k), w1)"
    using assms(1-3) by (simp add: getCurrentSegmentCount_def)
  have run: "createExpandJob r gc am w2 = (Inr (), w')"
    using assms(4-7) by (simp add: handleExpand_def cnt sk)
  let ?job = "GenerateJob (r_InstanceImage r)
    (am @ ''.agent.'' @ Namespace (gc_meta gc) @ ''.svc.cluster.local'') (PrimarySegmentCount (Segments (Spec gc)))"
  from run obtain m created where "Create (jobs r) (?job\<lparr>job_meta := m\<rparr>) w2 = (Inr created, w')"
    by (auto simp: createExpandJob_def Let_def split: sum.splits prod.splits)
  then have "api_Create (jobs r) (?job\<lparr>job_meta := m\<rparr>) (server w2) = (Inr created, server w')"
    unfolding Create_def by (rule server_perform)
  then show ?thesis
    by (intro exI [of _ "?job\<lparr>job_meta := m\<rparr>"] exI [of _ created] exI)
       (auto simp: GenerateJob_def newJob_def emptyTemplate_def emptyPodSpec_def emptyContainer_def)
qed

theorem expand_creates_job_witness:
  "\<exists>job created. api_Create (jobs demo_run) job demo_empty = (Inr created, demo_empty\<lparr>t_jobs := [created]\<rparr>) \<and>
     job_BackoffLimit job = Some 0"
proof -
  let ?w = "demo_world demo_empty" and ?ns = "Namespace (gc_meta demo_grow)"
  obtain w' where h: "handleExpand demo_run demo_grow ''master-0'' ?w = (Inr (), w')"
    using demo_grow_run by (auto split: prod.splits)
  obtain w1 where e: "Execute (PodExec demo_run) getSegmentCountCommand ?ns ''master-0'' ?w =
      (\<lparr>ex_err = None, ex_stdout = ''2'', ex_stderr = []\<rparr>, w1)" "server w1 = demo_empty"
    by (simp add: Execute_def perform_def demo_run_simps demo_am0_def demo_exec_def demo_world_def)
  obtain w2 where g: "Get (jobs demo_run) ?ns (gpexpandJobName demo_grow) w1 =
      (Inl (not_found (gpexpandJobName demo_grow)), w2)" "server w2 = demo_empty"
    by (simp add: Get_def perform_def e demo_empty_no_job)
  have c: "(2::int) < sint (PrimarySegmentCount (Segments (Spec demo_grow)))"
    by (simp add: demo_grow_def demo_cluster_def demo_spec_def)
  have p: "ParseInt ''ParseInt'' 32 (TrimSpace (ex_stdout \<lparr>ex_err = None, ex_stdout = ''2'', ex_stderr = []\<rparr>)) = Inr 2"
    by (simp add: demo_parse_2)
  obtain job created where
    j: "api_Create (jobs demo_run) job demo_empty = (Inr created, server w')" "job_BackoffLimit job = Some 0"
    using expand_creates_job [OF e(1) _ p c g(1) _ h] g(2) by (auto simp: not_found_def)
  then have "server w' = demo_empty\<lparr>t_jobs := [created]\<rparr>"
    by (auto simp: demo_run_def demo_reconciler_def table_api_def demo_empty_def)
  with j show ?thesis by auto
qed

end
