(* ===== verification/Role_Settles.thy ===== *)
theory Role_Settles
  imports Rbac
begin

text \<open>
  Updating the role of the pods twice is the same as updating it once: the compaction of kubectl gives
  back rules that are compact already, the merge finds every permission it would add, and the sort does
  not depend on the order it is given. The laws about kubectl are stronger here than in \<open>Rbac\<close>.
\<close>

section \<open>Definitions\<close>

definition rule_key :: "PolicyRule \<Rightarrow> string list \<times> string list \<times> string list" where
  "rule_key r = (APIGroups r, Resources r, ResourceNames r)"

definition compacted :: "PolicyRule list \<Rightarrow> bool" where
  "compacted rs \<longleftrightarrow> (\<forall>r\<in>set rs. simple_rule r \<and> Verbs r \<noteq> [] \<and> length (ResourceNames r) \<le> 1) \<and> distinct (map rule_key rs)"

text \<open>
  What kubectl documents: compaction joins the rules for the same group, resource and resource name, so
  it has nothing to do on rules where this is done; and the rules are ordered by their text, which
  determines them.
\<close>

definition linear :: "('a \<Rightarrow> 'a \<Rightarrow> bool) \<Rightarrow> bool" where
  "linear lt \<longleftrightarrow> (\<forall>a. \<not> lt a a) \<and> (\<forall>a b c. lt a b \<longrightarrow> lt b c \<longrightarrow> lt a c) \<and> (\<forall>a b. lt a b \<or> a = b \<or> lt b a)"

definition compact_laws :: "rbac_lib \<Rightarrow> bool" where
  "compact_laws B \<longleftrightarrow>
     (\<forall>rules. \<exists>c. CompactRules B (concat (map (BreakdownRule B) rules)) = Inr c \<and> compacted c \<and>
        (compacted rules \<longrightarrow> mset c = mset rules)) \<and>
     linear (RuleLess B)"

section \<open>Lemmas\<close>

subsection \<open>The sort\<close>

definition below :: "('a \<Rightarrow> 'a \<Rightarrow> bool) \<Rightarrow> 'a \<Rightarrow> 'a \<Rightarrow> bool" where
  "below lt a b \<longleftrightarrow> a = b \<or> lt a b"

lemma below_trans: "linear lt \<Longrightarrow> below lt a b \<Longrightarrow> below lt b c \<Longrightarrow> below lt a c"
  unfolding linear_def below_def by blast

lemma below_antisym: "linear lt \<Longrightarrow> below lt a b \<Longrightarrow> below lt b a \<Longrightarrow> a = b"
  unfolding linear_def below_def by blast

lemma sorted_insert_stable:
  assumes "linear lt" "sorted_wrt (below lt) ys"
  shows "sorted_wrt (below lt) (insert_stable lt x ys)"
  using assms(2)
proof (induction ys)
  case (Cons y ys)
  show ?case
  proof (cases "lt y x")
    case True
    then show ?thesis using Cons by (auto simp: below_def)
  next
    case False
    then have "below lt x y" using assms(1) unfolding linear_def below_def by blast
    then show ?thesis using False Cons.prems below_trans [OF assms(1)] by auto
  qed
qed simp

lemma mset_insert_stable [simp]: "mset (insert_stable lt x ys) = add_mset x (mset ys)"
  by (induction ys) auto

lemma mset_sort_stable [simp]: "mset (sort_stable lt xs) = mset xs"
  by (induction xs) (auto simp: sort_stable_def)

lemma sorted_sort_stable: "linear lt \<Longrightarrow> sorted_wrt (below lt) (sort_stable lt xs)"
  by (induction xs) (auto simp: sort_stable_def intro: sorted_insert_stable)

lemma sorted_unique:
  assumes "linear lt" "sorted_wrt (below lt) xs" "sorted_wrt (below lt) ys" "mset xs = mset ys"
  shows "xs = ys"
  using assms(2-4)
proof (induction xs arbitrary: ys)
  case (Cons x xs)
  then obtain y ys' where ys: "ys = y # ys'" by (cases ys) auto
  have "x \<in> set ys" "y \<in> set (x # xs)"
    using Cons.prems(3) ys by (metis list.set_intros(1) set_mset_mset)+
  then have "below lt y x" "below lt x y" using Cons.prems(1,2) ys by (auto simp: below_def)
  then have "x = y" using below_antisym [OF assms(1)] by blast
  with Cons ys show ?case by auto
qed simp

lemma sort_stable_perm: "linear lt \<Longrightarrow> mset xs = mset ys \<Longrightarrow> sort_stable lt xs = sort_stable lt ys"
  by (rule sorted_unique [of lt]) (auto intro: sorted_sort_stable)

lemma sort_stable_idem: "linear lt \<Longrightarrow> sort_stable lt (sort_stable lt xs) = sort_stable lt xs"
  by (rule sort_stable_perm) simp_all

subsection \<open>The merge\<close>

lemma matches_key: "ResourceNames a = [] \<Longrightarrow> matches r a \<longleftrightarrow> rule_key r = rule_key a"
  by (auto simp: matches_def rule_key_def)

lemma rule_key_Verbs [simp]: "rule_key (r\<lparr>Verbs := vs\<rparr>) = rule_key r"
  by (simp add: rule_key_def)

lemma add_verbs_subset: "set as \<subseteq> set vs \<Longrightarrow> add_verbs vs as = vs"
  by (induction vs as rule: add_verbs.induct) auto

text \<open>A merge that has nothing to add.\<close>

lemma merge_rule_fixed:
  "simple_rule r \<Longrightarrow> list_all (\<lambda>(a, f). simple_rule a \<and> (matches r a \<longrightarrow> set (Verbs a) \<subseteq> set (Verbs r))) add \<Longrightarrow>
   merge_rule r add = Inr (r, map (\<lambda>(a, f). (a, f \<or> matches r a)) add)"
proof (induction add)
  case (Cons af add)
  obtain a f where af: "af = (a, f)" by (cases af)
  then have "rule_matches r a = Inr (matches r a)" using Cons.prems by (simp add: rule_matches_simple matches_def)
  then show ?case using Cons af by (simp add: add_verbs_subset)
qed simp

lemma merge_existing_fixed:
  "\<forall>r\<in>set rs. simple_rule r \<Longrightarrow>
   \<forall>r\<in>set rs. list_all (\<lambda>(a, f). simple_rule a \<and> (matches r a \<longrightarrow> set (Verbs a) \<subseteq> set (Verbs r))) add \<Longrightarrow>
   merge_existing rs add = Inr (rs, map (\<lambda>(a, f). (a, f \<or> (\<exists>r\<in>set rs. matches r a))) add)"
proof (induction rs arbitrary: add)
  case (Cons r rs)
  let ?add = "map (\<lambda>(a, f). (a, f \<or> matches r a)) add"
  have "merge_rule r add = Inr (r, ?add)" using Cons.prems by (intro merge_rule_fixed) simp_all
  moreover have "merge_existing rs ?add = Inr (rs, map (\<lambda>(a, f). (a, f \<or> (\<exists>r\<in>set rs. matches r a))) ?add)"
    using Cons.prems by (intro Cons.IH) (fastforce simp: list_all_iff)+
  ultimately show ?case by (auto simp: case_prod_unfold)
qed (simp add: case_prod_unfold)

lemma mergePolicyRules_fixed:
  assumes "\<forall>r\<in>set rs. simple_rule r" "\<forall>a\<in>set add. simple_rule a \<and> (\<exists>r\<in>set rs. matches r a)"
    and "\<And>r a. r \<in> set rs \<Longrightarrow> a \<in> set add \<Longrightarrow> matches r a \<Longrightarrow> set (Verbs a) \<subseteq> set (Verbs r)"
  shows "mergePolicyRules rs add = Inr rs"
proof -
  have "merge_existing rs (map (\<lambda>a. (a, False)) add) =
      Inr (rs, map (\<lambda>(a, f). (a, f \<or> (\<exists>r\<in>set rs. matches r a))) (map (\<lambda>a. (a, False)) add))"
    using assms by (intro merge_existing_fixed) (auto simp: list_all_iff)
  then show ?thesis using assms(2) by (auto simp: mergePolicyRules_def filter_empty_conv)
qed

text \<open>What a merge does to each rule.\<close>

definition merged :: "PolicyRule list \<Rightarrow> PolicyRule \<Rightarrow> PolicyRule \<Rightarrow> bool" where
  "merged add r r' \<longleftrightarrow> (\<exists>vs. r' = r\<lparr>Verbs := vs\<rparr> \<and>
     set vs = set (Verbs r) \<union> (\<Union>a\<in>set add. if matches r a then set (Verbs a) else {}))"

lemma merge_existing_merged:
  assumes "\<forall>r\<in>set rs. simple_rule r" "\<forall>a\<in>fst ` set add. simple_rule a"
  shows "\<exists>rs'. merge_existing rs add = Inr (rs', map (\<lambda>(a, f). (a, f \<or> (\<exists>r\<in>set rs. matches r a))) add) \<and>
    list_all2 (merged (map fst add)) rs rs'"
  using assms
proof (induction rs arbitrary: add)
  case (Cons r rs)
  let ?add = "map (\<lambda>(a, f). (a, f \<or> matches r a)) add"
  have "list_all (\<lambda>(a, f). simple_rule a) add" using Cons.prems(2) by (auto simp: list_all_iff)
  then obtain vs where vs: "merge_rule r add = Inr (r\<lparr>Verbs := vs\<rparr>, ?add)"
      "set vs = set (Verbs r) \<union> (\<Union>(a, f)\<in>set add. if matches r a then set (Verbs a) else {})"
    using merge_rule_simple [of r add] Cons.prems(1) by auto
  have fst: "map fst ?add = map fst add" by (simp add: case_prod_unfold)
  have "\<forall>a\<in>fst ` set ?add. simple_rule a" using Cons.prems(2) by (metis fst set_map)
  with Cons.IH [of ?add] Cons.prems(1) obtain rs' where rs': "list_all2 (merged (map fst add)) rs rs'"
    "merge_existing rs ?add = Inr (rs', map (\<lambda>(a, f). (a, f \<or> (\<exists>r\<in>set rs. matches r a))) ?add)"
    unfolding fst by auto
  have "merged (map fst add) r (r\<lparr>Verbs := vs\<rparr>)"
    unfolding merged_def using vs(2) by (intro exI [of _ vs]) (auto simp: case_prod_unfold)
  with vs(1) rs' show ?case by (auto simp: case_prod_unfold intro!: exI [of _ "r\<lparr>Verbs := vs\<rparr> # rs'"])
qed (auto simp: case_prod_unfold)

subsection \<open>The role\<close>

lemma podRules_keys: "distinct (map rule_key podRules)" "a \<in> set podRules \<Longrightarrow> simple_rule a \<and> Verbs a \<noteq> [] \<and> ResourceNames a = []"
  by (auto simp: podRules_def rule_key_def simple_rule_def)

lemma podRules_unique: "a \<in> set podRules \<Longrightarrow> b \<in> set podRules \<Longrightarrow> matches a b \<Longrightarrow> a = b"
  using podRules_keys by (auto simp: matches_key distinct_map dest: inj_onD)

definition grants_pods :: "PolicyRule list \<Rightarrow> bool" where
  "grants_pods rs \<longleftrightarrow> (\<forall>a\<in>set podRules. (\<exists>r\<in>set rs. matches r a) \<and>
     (\<forall>r\<in>set rs. matches r a \<longrightarrow> set (Verbs a) \<subseteq> set (Verbs r)))"

lemma grants_pods_perm: "mset xs = mset ys \<Longrightarrow> grants_pods xs = grants_pods ys"
  unfolding grants_pods_def by (metis set_mset_mset)

lemma compacted_perm: "mset xs = mset ys \<Longrightarrow> compacted xs = compacted ys"
  unfolding compacted_def by (metis mset_eq_imp_distinct_iff mset_map set_mset_mset)

lemma merged_keys: "list_all2 (merged add) rs rs' \<Longrightarrow> map rule_key rs' = map rule_key rs"
  by (induction rule: list_all2_induct) (auto simp: merged_def)

lemma merged_each: "list_all2 (merged add) rs rs' \<Longrightarrow> r' \<in> set rs' \<Longrightarrow> \<exists>r\<in>set rs. merged add r r'"
  by (metis in_set_conv_nth list_all2_conv_all_nth)

text \<open>The additions no rule of \<open>rs\<close> matches, which the merge appends.\<close>

definition unmatched :: "PolicyRule list \<Rightarrow> PolicyRule list" where
  "unmatched rs = filter (\<lambda>a. \<not> (\<exists>r\<in>set rs. matches r a)) podRules"

lemma merged_compacted:
  assumes "compacted rs" "list_all2 (merged podRules) rs rs'"
  shows "compacted (rs' @ unmatched rs)"
proof -
  have "simple_rule r' \<and> Verbs r' \<noteq> [] \<and> length (ResourceNames r') \<le> 1" if r': "r' \<in> set rs'" for r'
  proof -
    obtain r vs where "r \<in> set rs" "r' = r\<lparr>Verbs := vs\<rparr>" "set (Verbs r) \<subseteq> set vs"
      using merged_each [OF assms(2) r'] by (auto simp: merged_def)
    then show ?thesis using assms(1) by (auto simp: compacted_def)
  qed
  moreover have "distinct (map rule_key (rs' @ unmatched rs))"
    using assms(1) podRules_keys merged_keys [OF assms(2)]
    by (auto simp: compacted_def distinct_map_filter matches_key unmatched_def)
  ultimately show ?thesis using podRules_keys(2) by (auto simp: compacted_def unmatched_def)
qed

lemma merged_grants:
  assumes "list_all2 (merged podRules) rs rs'"
  shows "grants_pods (rs' @ unmatched rs)"
  unfolding grants_pods_def
proof (intro ballI conjI impI)
  fix a assume a: "a \<in> set podRules"
  show "\<exists>r\<in>set (rs' @ unmatched rs). matches r a"
  proof (cases "\<exists>r\<in>set rs. matches r a")
    case True
    then obtain r where "r \<in> set rs" "rule_key r = rule_key a" using a podRules_keys(2) by (auto simp: matches_key)
    then have "rule_key a \<in> set (map rule_key rs')" unfolding merged_keys [OF assms] by (metis image_eqI list.set_map)
    then show ?thesis using a podRules_keys(2) by (auto simp: matches_key)
  next
    case False
    then show ?thesis using a podRules_keys(2) by (auto simp: matches_def unmatched_def)
  qed
  show "set (Verbs a) \<subseteq> set (Verbs r')" if r': "r' \<in> set (rs' @ unmatched rs)" "matches r' a" for r'
  proof (cases "r' \<in> set rs'")
    case True
    then obtain r where "merged podRules r r'" using merged_each [OF assms] by blast
    with r'(2) a show ?thesis by (fastforce simp: merged_def)
  next
    case False
    then show ?thesis using r' a podRules_unique by (auto simp: unmatched_def)
  qed
qed

lemma merge_pods:
  assumes "compacted rs"
  shows "\<exists>out. mergePolicyRules rs podRules = Inr out \<and> compacted out \<and> grants_pods out"
proof -
  let ?add = "map (\<lambda>a. (a, False)) podRules"
  have simple: "\<forall>r\<in>set rs. simple_rule r" using assms by (simp add: compacted_def)
  have adds: "\<forall>a\<in>fst ` set ?add. simple_rule a" using podRules_keys(2) by auto
  have fsts: "map fst ?add = podRules" by (simp add: o_def)
  obtain rs' where m: "merge_existing rs ?add = Inr (rs', map (\<lambda>(a, f). (a, f \<or> (\<exists>r\<in>set rs. matches r a))) ?add)"
    and all2: "list_all2 (merged podRules) rs rs'"
    using merge_existing_merged [OF simple adds] unfolding fsts by blast
  have "mergePolicyRules rs podRules = Inr (rs' @ unmatched rs)"
    using m by (simp add: mergePolicyRules_def filter_map o_def unmatched_def)
  then show ?thesis using merged_compacted [OF assms all2] merged_grants [OF all2] by blast
qed

lemma modifyRules_idem:
  assumes "compact_laws B" "modifyRules B rules = Inr rules'"
  shows "modifyRules B rules' = Inr rules'"
proof -
  have lin: "linear (RuleLess B)" using assms(1) by (simp add: compact_laws_def)
  obtain c out where c: "CompactRules B (concat (map (BreakdownRule B) rules)) = Inr c" "compacted c"
    and out: "mergePolicyRules c podRules = Inr out" "compacted out" "grants_pods out"
    using assms(1) merge_pods unfolding compact_laws_def by metis
  have r': "rules' = sort_stable (RuleLess B) out" using assms(2) c(1) out(1) by (simp add: modifyRules_def)
  then have "compacted rules'" using out(2) by (metis compacted_perm mset_sort_stable)
  then obtain d where d: "CompactRules B (concat (map (BreakdownRule B) rules')) = Inr d" "mset d = mset rules'" "compacted d"
    using assms(1) unfolding compact_laws_def by metis
  have "grants_pods d" using out(3) d(2) r' by (metis grants_pods_perm mset_sort_stable)
  then have "mergePolicyRules d podRules = Inr d"
    using d(3) podRules_keys(2) by (intro mergePolicyRules_fixed) (auto simp: compacted_def grants_pods_def)
  moreover have "sort_stable (RuleLess B) d = rules'"
    using sort_stable_perm [OF lin, of d out] d(2) r' by simp
  ultimately show ?thesis using d(1) by (simp add: modifyRules_def)
qed

lemma ModifyRole_idem: "compact_laws B \<Longrightarrow> ModifyRole B role = Inr role' \<Longrightarrow> ModifyRole B role' = Inr role'"
  by (auto simp: ModifyRole_def modifyRules_idem split: sum.splits)

end
