(* ===== verification/Stored_Resources.thy ===== *)
theory Stored_Resources
  imports Cluster_Properties Role_Settles
begin

text \<open>
  What is relied on of the API server by the convergence proof: a write is read back and keeps every
  other object. From it, a successful \<open>createOrUpdateClusterResources\<close> leaves every owned object in the
  store as its callback wrote it; each step establishes its object and no later step touches it.
\<close>

section \<open>What the server keeps\<close>

type_synonym object_key = "kind \<times> string \<times> string"

text \<open>Between \<open>s\<close> and \<open>s'\<close> at most the object \<open>key\<close> changed, among those of one kind and among all.\<close>

definition keeps :: "('s, 'a) resource_api \<Rightarrow> object_key option \<Rightarrow> 's \<Rightarrow> 's \<Rightarrow> bool" where
  "keeps R key s s' \<longleftrightarrow>
     (\<forall>ns n z. Some (api_kind R, ns, n) \<noteq> key \<longrightarrow> api_Get R ns n s = (z, s) \<longrightarrow> api_Get R ns n s' = (z, s'))"

definition keeps_owned :: "'s GreenplumClusterReconciler \<Rightarrow> object_key option \<Rightarrow> 's \<Rightarrow> 's \<Rightarrow> bool" where
  "keeps_owned r key s s' \<longleftrightarrow>
     keeps (clusters r) key s s' \<and> keeps (configMaps r) key s s' \<and> keeps (secrets r) key s s' \<and>
     keeps (services r) key s s' \<and> keeps (serviceAccounts r) key s s' \<and> keeps (roles r) key s s' \<and>
     keeps (roleBindings r) key s s' \<and> keeps (statefulSets r) key s s'"

definition same_key :: "ObjectMeta \<Rightarrow> ObjectMeta \<Rightarrow> bool" where
  "same_key m m' \<longleftrightarrow> Namespace m = Namespace m' \<and> Name m = Name m'"

text \<open>
  What a relation between states must promise to serve as the record of changes: \<open>K key s s'\<close> says that
  between \<open>s\<close> and \<open>s'\<close> at most the object \<open>key\<close> changed.
\<close>

locale change_relation =
  fixes K :: "object_key option \<Rightarrow> 's \<Rightarrow> 's \<Rightarrow> bool"
  assumes unchanged: "K key s s"
    and compose: "K key s t \<Longrightarrow> K key t u \<Longrightarrow> K key s u"
    and weaken: "K None s t \<Longrightarrow> K key s t"
begin

lemma compose_weaken: "K None s t \<Longrightarrow> K key t u \<Longrightarrow> K key s u"
  using compose weaken by blast

lemma unchanged_or: "s' = t \<or> s' = s \<Longrightarrow> K key s t \<Longrightarrow> K key s s'"
  using unchanged by blast

end

text \<open>A callback that renames nothing and writes nothing itself; \<open>K\<close> says what may have changed.\<close>

definition tame ::
  "(object_key option \<Rightarrow> 's \<Rightarrow> 's \<Rightarrow> bool) \<Rightarrow> ('a \<Rightarrow> ObjectMeta) \<Rightarrow> ('a \<Rightarrow> 's \<Rightarrow> 'a result \<times> 's) \<Rightarrow> bool"
where
  "tame K meta f \<longleftrightarrow> (\<forall>x s z s1. f x s = (z, s1) \<longrightarrow> K None s s1 \<and> (\<forall>y. z = Inr y \<longrightarrow> same_key (meta y) (meta x)))"

text \<open>\<open>ctrl.CreateOrUpdate\<close> stores what its callback made of the stored or the new object.\<close>

definition write_law :: "(object_key option \<Rightarrow> 's \<Rightarrow> 's \<Rightarrow> bool) \<Rightarrow> ('s, 'a) resource_api \<Rightarrow> bool" where
  "write_law K R \<longleftrightarrow>
     (\<forall>x f s op y s'. tame K (api_meta R) f \<longrightarrow> api_CreateOrUpdate R x f s = (Inr (op, y), s') \<longrightarrow>
        api_Get R (Namespace (api_meta R x)) (Name (api_meta R x)) s' = (Inr y, s') \<and>
        (\<exists>x0 s0 s1. f x0 s0 = (Inr y, s1)) \<and>
        K (Some (api_kind R, Namespace (api_meta R x), Name (api_meta R x))) s s')"

text \<open>A patch against the stored object succeeds and is stored.\<close>

definition cluster_patch_law :: "'s GreenplumClusterReconciler \<Rightarrow> bool" where
  "cluster_patch_law r \<longleftrightarrow>
     (\<forall>ns n x base s. api_Get (clusters r) ns n s = (Inr base, s) \<longrightarrow> same_key (gc_meta x) (gc_meta base) \<longrightarrow>
        same_key (gc_meta base) (objectMeta n ns) \<longrightarrow>
        (\<exists>s'. api_Patch (clusters r) x base s = (Inr x, s') \<and> api_Get (clusters r) ns n s' = (Inr x, s') \<and>
          keeps_owned r (Some (KGreenplumCluster, ns, n)) s s'))"

definition store_laws :: "'s GreenplumClusterReconciler \<Rightarrow> bool" where
  "store_laws r \<longleftrightarrow>
     write_law (keeps_owned r) (configMaps r) \<and> write_law (keeps_owned r) (secrets r) \<and> write_law (keeps_owned r) (services r) \<and>
     write_law (keeps_owned r) (serviceAccounts r) \<and> write_law (keeps_owned r) (roles r) \<and> write_law (keeps_owned r) (roleBindings r) \<and>
     write_law (keeps_owned r) (statefulSets r) \<and> cluster_patch_law r \<and>
     (\<forall>s k s1. SSHCreator r s = (k, s1) \<longrightarrow> keeps_owned r None s s1) \<and>
     (\<forall>x b s y s1. api_Patch (nodes r) x b s = (y, s1) \<longrightarrow> keeps_owned r None s s1) \<and>
     (\<forall>ns l s. snd (api_List (nodes r) ns l s) = s) \<and> (\<forall>ns l s. snd (api_List (statefulSets r) ns l s) = s) \<and>
     (\<forall>ns n y k v s. api_Get (statefulSets r) ns n s = (Inr y, s) \<longrightarrow> map_of (map_make (Labels (ss_meta y))) k = Some v \<longrightarrow>
        (\<exists>xs. api_List (statefulSets r) ns [(k, v)] s = (Inr xs, s) \<and> xs \<noteq> []))"

section \<open>Lemmas\<close>

lemma keeps_refl [simp]: "keeps R key s s"
  by (simp add: keeps_def)

lemma keeps_owned_refl [simp]: "keeps_owned r key s s"
  by (simp add: keeps_owned_def)

lemma keeps_trans: "keeps R key s s1 \<Longrightarrow> keeps R key s1 s2 \<Longrightarrow> keeps R key s s2"
  unfolding keeps_def by blast

lemma keeps_weaken: "keeps R None s s' \<Longrightarrow> keeps R key s s'"
  by (simp add: keeps_def)

interpretation owned_changes: change_relation "keeps_owned r" for r
  by unfold_locales (auto simp: keeps_owned_def intro: keeps_trans keeps_weaken)

lemma keeps_get: "keeps R key s s' \<Longrightarrow> api_Get R ns n s = (z, s) \<Longrightarrow> Some (api_kind R, ns, n) \<noteq> key \<Longrightarrow>
  api_Get R ns n s' = (z, s')"
  unfolding keeps_def by blast

lemma written_keeps:
  assumes "written R x f s" "keeps R key s s'" "Some (api_kind R, Namespace (api_meta R x), Name (api_meta R x)) \<noteq> key"
  shows "written R x f s'"
  using assms keeps_get unfolding written_def by fast

subsection \<open>One owned resource\<close>

text \<open>\<open>establishes r f G key\<close>: a successful \<open>f\<close> writes \<open>key\<close> only, and afterwards \<open>G\<close> holds until \<open>key\<close> is
  written again.\<close>

definition unaffected :: "'s GreenplumClusterReconciler \<Rightarrow> object_key option \<Rightarrow> ('s \<Rightarrow> bool) \<Rightarrow> bool" where
  "unaffected r key G \<longleftrightarrow> (\<forall>s s'. G s \<longrightarrow> keeps_owned r key s s' \<longrightarrow> G s')"

lemma unaffectedD: "unaffected r key G \<Longrightarrow> G s \<Longrightarrow> keeps_owned r key s s' \<Longrightarrow> G s'"
  unfolding unaffected_def by blast

definition establishes ::
  "'s GreenplumClusterReconciler \<Rightarrow> ('s, unit result) io \<Rightarrow> ('s \<Rightarrow> bool) \<Rightarrow> object_key \<Rightarrow> bool"
where
  "establishes r f G key \<longleftrightarrow>
     (\<forall>w w'. f w = (Inr (), w') \<longrightarrow> G (server w') \<and> keeps_owned r (Some key) (server w) (server w')) \<and>
     (\<forall>k. k \<noteq> Some key \<longrightarrow> unaffected r k G)"

lemma establishes_owned:
  assumes "write_law (keeps_owned r) R" "tame (keeps_owned r) (api_meta R) f" "\<And>k s s'. keeps_owned r k s s' \<Longrightarrow> keeps R k s s'"
  shows "establishes r (owned R x f) (written R x f) (api_kind R, Namespace (api_meta R x), Name (api_meta R x))"
  unfolding establishes_def
proof (intro conjI allI impI)
  fix w w' assume "owned R x f w = (Inr (), w')"
  then obtain op y where c: "api_CreateOrUpdate R x f (server w) = (Inr (op, y), server w')"
    by (auto simp: owned_def CreateOrUpdate_def perform_def split: prod.splits sum.splits)
  note law = assms(1) [unfolded write_law_def, rule_format, OF assms(2) c]
  show "written R x f (server w')" using law unfolding written_def by blast
  show "keeps_owned r (Some (api_kind R, Namespace (api_meta R x), Name (api_meta R x))) (server w) (server w')"
    using law by blast
next
  fix k assume "k \<noteq> Some (api_kind R, Namespace (api_meta R x), Name (api_meta R x))"
  then show "unaffected r k (written R x f)"
    unfolding unaffected_def using written_keeps assms(3) by metis
qed

lemma run_steps_establishes:
  fixes r :: "'s GreenplumClusterReconciler"
  assumes "list_all (\<lambda>(f, G, key). establishes r f G key) ts" "distinct (map (snd \<circ> snd) ts)"
    and "run_steps (map fst ts) w = (Inr (), w')"
  shows "(\<forall>(f, G, key)\<in>set ts. G (server w')) \<and>
    (\<forall>H. (\<forall>key\<in>(snd \<circ> snd) ` set ts. unaffected r (Some key) H) \<longrightarrow> H (server w) \<longrightarrow> H (server w'))"
  using assms
proof (induction ts arbitrary: w)
  case (Cons t ts)
  obtain f G key where t: "t = (f, G, key)" by (cases t)
  obtain w1 where f: "f w = (Inr (), w1)" and rest: "run_steps (map fst ts) w1 = (Inr (), w')"
    using Cons.prems(3) t by (auto split: prod.splits sum.splits)
  have est: "establishes r f G key" using Cons.prems(1) t by simp
  then have g: "G (server w1)" and k: "keeps_owned r (Some key) (server w) (server w1)"
    using f unfolding establishes_def by blast+
  have "list_all (\<lambda>(f, G, key). establishes r f G key) ts" "distinct (map (snd \<circ> snd) ts)"
    using Cons.prems(1,2) by (simp_all add: comp_def)
  note ih = Cons.IH [OF this rest]
  have new: "key \<notin> (snd \<circ> snd) ` set ts" using Cons.prems(2) t by (simp add: comp_def)
  have "\<forall>k\<in>(snd \<circ> snd) ` set ts. unaffected r (Some k) G"
    using new est unfolding establishes_def by (metis option.inject)
  with ih g have "G (server w')" by blast
  then show ?case
    unfolding t
  proof (intro conjI allI impI)
    show "\<forall>(f, G, key)\<in>set ((f, G, key) # ts). G (server w')" if "G (server w')" using that ih by simp
    fix H :: "'s \<Rightarrow> bool"
    assume H: "\<forall>k\<in>(snd \<circ> snd) ` set ((f, G, key) # ts). unaffected r (Some k) H" "H (server w)"
    then have "H (server w1)" using k by (auto dest: unaffectedD)
    with H(1) show "H (server w')" using ih [THEN conjunct2, THEN spec [of _ H]] by simp
  qed
qed simp

subsection \<open>The callbacks of the reconciler\<close>

lemma same_key_trans: "same_key a b \<Longrightarrow> same_key b c \<Longrightarrow> same_key a c"
  by (simp add: same_key_def)

lemma tame_mutate:
  assumes "\<And>x y. modify_and_own (SetControllerReference r) (gc_meta gc) meta set_meta modify x = Inr y \<Longrightarrow>
    Name (meta y) = Name (meta x) \<and> Namespace (meta y) = Namespace (meta x)"
  shows "tame (keeps_owned r) meta (mutate r gc meta set_meta modify)"
  using assms by (auto simp: tame_def mutate_def same_key_def)

lemma own_same_key:
  assumes "reference_laws ref" "modify_and_own ref owner meta set_meta f x = Inr y" "\<And>m x. meta (set_meta m x) = m"
  shows "same_key (meta y) (meta (f x))"
proof -
  obtain m where m: "ref owner (meta (f x)) = Inr m" "y = set_meta m (f x)"
    using assms(2) by (auto simp: modify_and_own_def split: sum.splits)
  obtain os where "m = (meta (f x))\<lparr>OwnerReferences := os\<rparr>" using reference_lawsD(1) [OF assms(1) m(1)] by blast
  then show ?thesis using m(2) assms(3) by (simp add: same_key_def)
qed

lemma tame_mutateSecret:
  assumes "reference_laws (SetControllerReference r)" "\<And>s k s1. SSHCreator r s = (k, s1) \<Longrightarrow> keeps_owned r None s s1"
  shows "tame (keeps_owned r) sec_meta (mutateSecret r gc)"
proof -
  have "same_key (sec_meta y) (sec_meta x)"
    if "modify_and_own (SetControllerReference r) (gc_meta gc) sec_meta (\<lambda>m x. x\<lparr>sec_meta := m\<rparr>)
      (ModifySecret (Name (gc_meta gc)) keyData) x = Inr y" for x y keyData
    using own_same_key [OF assms(1) that] by (simp add: same_key_def ModifySecret_def)
  then show ?thesis
    using assms(2) by (auto simp: tame_def mutateSecret_def split: prod.splits if_splits sum.splits)
qed

lemma tame_mutateRole:
  assumes "reference_laws (SetControllerReference r)"
  shows "tame (keeps_owned r) role_meta (mutateRole r gc)"
proof -
  have "same_key (role_meta y) (role_meta x)"
    if "modify_and_own (SetControllerReference r) (gc_meta gc) role_meta (\<lambda>m x. x\<lparr>role_meta := m\<rparr>) (\<lambda>x. x) x' = Inr y"
      "ModifyRole (rbac r) x = Inr x'" for x x' y
    using own_same_key [OF assms that(1)] that(2) by (auto simp: same_key_def ModifyRole_def split: sum.splits)
  then show ?thesis by (auto simp: tame_def mutateRole_def split: sum.splits)
qed

lemma settles_mutateRole:
  assumes "reference_laws (SetControllerReference r)" "compact_laws (rbac r)"
  shows "settles (mutateRole r gc)"
  unfolding settles_def
proof (intro allI impI)
  fix x s y s1 s2 assume "mutateRole r gc x s = (Inr y, s1)"
  then obtain x' m where x': "ModifyRole (rbac r) x = Inr x'"
    and m: "SetControllerReference r (gc_meta gc) (role_meta x') = Inr m" and y: "y = x'\<lparr>role_meta := m\<rparr>"
    by (auto simp: mutateRole_def modify_and_own_def split: sum.splits)
  have "ModifyRole (rbac r) x' = Inr x'" by (rule ModifyRole_idem [OF assms(2) x'])
  then have "ModifyRole (rbac r) y = Inr y" unfolding y ModifyRole_def by (cases x') (auto split: sum.splits)
  then show "mutateRole r gc y s2 = (Inr y, s2)"
    using reference_lawsD(2) [OF assms(1) m] y by (simp add: mutateRole_def modify_and_own_def)
qed

subsection \<open>All owned resources\<close>

text \<open>The steps of \<open>createOrUpdateClusterResources\<close>, each with what it establishes and the object it writes.\<close>

definition statefulSetPart ::
  "'s GreenplumClusterReconciler \<Rightarrow> GreenplumCluster \<Rightarrow> StatefulSetType \<Rightarrow> string \<Rightarrow>
   ('s, unit result) io \<times> ('s \<Rightarrow> bool) \<times> object_key"
where
  "statefulSetPart r gc typ name =
     (ownedStatefulSet r gc typ name, writtenStatefulSet r gc typ name, (KStatefulSet, Namespace (gc_meta gc), name))"

definition resourceParts ::
  "'s GreenplumClusterReconciler \<Rightarrow> GreenplumCluster \<Rightarrow> (('s, unit result) io \<times> ('s \<Rightarrow> bool) \<times> object_key) list"
where
  "resourceParts r gc =
     (let ns = Namespace (gc_meta gc); gpName = Name (gc_meta gc)
      in
        [(let x = newConfigMap (objectMeta ''greenplum-config'' ns);
              f = mutate r gc cm_meta (\<lambda>m x. x\<lparr>cm_meta := m\<rparr>) (ModifyConfigMap gc)
          in (owned (configMaps r) x f, written (configMaps r) x f, (KConfigMap, ns, ''greenplum-config''))),
         (let x = newSecret (objectMeta ''ssh-secrets'' ns); f = mutateSecret r gc
          in (owned (secrets r) x f, written (secrets r) x f, (KSecret, ns, ''ssh-secrets''))),
         (let x = newService (objectMeta ''agent'' ns);
              f = mutate r gc svc_meta (\<lambda>m x. x\<lparr>svc_meta := m\<rparr>) (ModifyGreenplumAgentService gpName)
          in (owned (services r) x f, written (services r) x f, (KService, ns, ''agent''))),
         (let x = newService (objectMeta ''greenplum'' ns);
              f = mutate r gc svc_meta (\<lambda>m x. x\<lparr>svc_meta := m\<rparr>) (ModifyGreenplumService gpName)
          in (owned (services r) x f, written (services r) x f, (KService, ns, ''greenplum''))),
         (let x = newServiceAccount (objectMeta ''greenplum-system-pod'' ns);
              f = mutate r gc sa_meta (\<lambda>m x. x\<lparr>sa_meta := m\<rparr>) (\<lambda>x. x)
          in (owned (serviceAccounts r) x f, written (serviceAccounts r) x f, (KServiceAccount, ns, ''greenplum-system-pod''))),
         (let x = newRole (objectMeta ''greenplum-system-pod'' ns); f = mutateRole r gc
          in (owned (roles r) x f, written (roles r) x f, (KRole, ns, ''greenplum-system-pod''))),
         (let x = newRoleBinding (objectMeta ''greenplum-system-pod'' ns);
              f = mutate r gc rb_meta (\<lambda>m x. x\<lparr>rb_meta := m\<rparr>) ModifyRoleBinding
          in (owned (roleBindings r) x f, written (roleBindings r) x f, (KRoleBinding, ns, ''greenplum-system-pod''))),
         statefulSetPart r gc TypeMaster ''master'',
         statefulSetPart r gc TypeSegmentA ''segment-a''] @
        (if Mirrors (Segments (Spec gc)) = ''yes'' then [statefulSetPart r gc TypeSegmentB ''segment-b''] else []))"

lemma resourceParts_steps: "map fst (resourceParts r gc) = resourceSteps r gc"
  by (simp add: resourceParts_def resourceSteps_def Let_def statefulSetPart_def)

lemma resourceParts_keys: "distinct (map (snd \<circ> snd) (resourceParts r gc))"
  "key \<in> (snd \<circ> snd) ` set (resourceParts r gc) \<Longrightarrow> fst key \<noteq> KGreenplumCluster"
  by (auto simp: resourceParts_def Let_def statefulSetPart_def)

lemma establishes_typed:
  assumes "write_law (keeps_owned r) R" "tame (keeps_owned r) (api_meta R) f" "\<And>k s s'. keeps_owned r k s s' \<Longrightarrow> keeps R k s s'"
    and "api_kind R = kd" "api_meta R x = objectMeta n ns"
  shows "establishes r (owned R x f) (written R x f) (kd, ns, n)"
  using establishes_owned [OF assms(1-3), of x] assms(4,5) by simp

lemma resourceParts_establish:
  assumes "store_laws r" "typed_client r" "reference_laws (SetControllerReference r)"
  shows "list_all (\<lambda>(f, G, key). establishes r f G key) (resourceParts r gc)"
proof -
  note tames = tame_mutate [OF configmap_modifier.own_identity [OF assms(3)]]
    tame_mutate [OF agent_modifier.own_identity [OF assms(3)]] tame_mutate [OF service_modifier.own_identity [OF assms(3)]]
    tame_mutate [OF serviceaccount_modifier.own_identity [OF assms(3)]]
    tame_mutate [OF rolebinding_modifier.own_identity [OF assms(3)]] tame_mutate [OF sset_modifier.own_identity [OF assms(3)]]
    tame_mutateRole [OF assms(3)]
  have secret: "tame (keeps_owned r) sec_meta (mutateSecret r gc)"
    using assms(1) by (intro tame_mutateSecret [OF assms(3)]) (simp add: store_laws_def)
  have sset: "establishes r (ownedStatefulSet r gc t n) (writtenStatefulSet r gc t n)
      (KStatefulSet, Namespace (gc_meta gc), n)" for t n
    unfolding ownedStatefulSet_def writtenStatefulSet_def
    by (rule establishes_typed) (use assms(1,2) tames in \<open>simp_all add: store_laws_def typed_client_def keeps_owned_def\<close>)
  show ?thesis
    unfolding resourceParts_def Let_def statefulSetPart_def list_all_append list.pred_inject prod.case
    by (intro conjI establishes_typed)
       (use assms(1,2) tames secret sset in \<open>simp_all add: store_laws_def typed_client_def keeps_owned_def\<close>)
qed

lemma createOrUpdate_writes:
  assumes "store_laws r" "typed_client r" "reference_laws (SetControllerReference r)" "compact_laws (rbac r)"
    and "createOrUpdateClusterResources r gc w = (Inr (), w')"
  shows "resourcesWritten r gc (server w')"
    and "(\<And>key. fst key \<noteq> KGreenplumCluster \<Longrightarrow> unaffected r (Some key) H) \<Longrightarrow> H (server w) \<Longrightarrow> H (server w')"
proof -
  have "run_steps (map fst (resourceParts r gc)) w = (Inr (), w')"
    using assms(5) by (simp add: createOrUpdateClusterResources_def resourceParts_steps)
  note est = run_steps_establishes [OF resourceParts_establish [OF assms(1-3)] resourceParts_keys(1) this]
  show "resourcesWritten r gc (server w')"
    using est [THEN conjunct1] written_kept [OF settles_mutateRole [OF assms(3,4)]]
    by (simp add: resourceParts_def resourcesWritten_def Let_def statefulSetPart_def split: if_splits)
  show "H (server w')" if "\<And>key. fst key \<noteq> KGreenplumCluster \<Longrightarrow> unaffected r (Some key) H" "H (server w)"
    using est [THEN conjunct2, THEN spec [of _ H]] resourceParts_keys(2) that by blast
qed

end
