(* ===== verification/Demo_Store.thy ===== *)
theory Demo_Store
  imports Stored_Resources "HOL-Library.Char_ord" "HOL-Library.List_Lexorder" "HOL-Library.Product_Lexorder"
begin

text \<open>
  The laws the convergence proof assumes hold of something: the tables of \<open>Demo_Server\<close> store what they
  are sent, and a breakdown and compaction of rules in the manner of kubectl obeys the laws of \<open>Role_Settles\<close>.
\<close>

section \<open>Rules\<close>

text \<open>Rules in the order of their fields.\<close>

definition rule_fields :: "'a PolicyRule_scheme \<Rightarrow> string list \<times> string list \<times> string list \<times> string list \<times> 'a" where
  "rule_fields r = (Verbs r, APIGroups r, Resources r, ResourceNames r, PolicyRule.more r)"

lemma rule_fields_inj: "rule_fields a = rule_fields b \<Longrightarrow> a = b"
  by (cases a, cases b) (simp add: rule_fields_def)

instantiation PolicyRule_ext :: (linorder) linorder
begin

definition less_PolicyRule_ext :: "'a PolicyRule_scheme \<Rightarrow> 'a PolicyRule_scheme \<Rightarrow> bool" where
  "less_PolicyRule_ext a b \<longleftrightarrow> rule_fields a < rule_fields b"

definition less_eq_PolicyRule_ext :: "'a PolicyRule_scheme \<Rightarrow> 'a PolicyRule_scheme \<Rightarrow> bool" where
  "less_eq_PolicyRule_ext a b \<longleftrightarrow> rule_fields a \<le> rule_fields b"

instance
  by standard (auto simp: less_PolicyRule_ext_def less_eq_PolicyRule_ext_def intro: rule_fields_inj)

end

text \<open>One rule for each verb, group, resource and resource name.\<close>

definition break_rule :: "PolicyRule \<Rightarrow> PolicyRule list" where
  "break_rule r = concat (map (\<lambda>g. concat (map (\<lambda>res. concat (map (\<lambda>v.
     map (\<lambda>ns. \<lparr>Verbs = [v], APIGroups = [g], Resources = [res], ResourceNames = ns\<rparr>)
       (if ResourceNames r = [] then [[]] else map (\<lambda>n. [n]) (ResourceNames r)))
     (Verbs r))) (Resources r))) (APIGroups r))"

text \<open>The verbs of a rule go to the rule with the same key, when there is one.\<close>

fun join_rule :: "PolicyRule list \<Rightarrow> PolicyRule \<Rightarrow> PolicyRule list" where
  "join_rule [] r = [r]"
| "join_rule (c # cs) r = (if rule_key c = rule_key r then c\<lparr>Verbs := Verbs c @ Verbs r\<rparr> # cs else c # join_rule cs r)"

definition demo_kubectl :: rbac_lib where
  "demo_kubectl = \<lparr>BreakdownRule = break_rule, CompactRules = (\<lambda>rs. Inr (foldl join_rule [] rs)), RuleLess = (<)\<rparr>"

lemma join_rule_keys [simp]: "set (map rule_key (join_rule cs r)) = insert (rule_key r) (set (map rule_key cs))"
  by (induction cs) auto

lemma join_rule_compacted:
  "compacted cs \<Longrightarrow> simple_rule r \<Longrightarrow> Verbs r \<noteq> [] \<Longrightarrow> length (ResourceNames r) \<le> 1 \<Longrightarrow> compacted (join_rule cs r)"
proof (induction cs)
  case (Cons c cs)
  have "compacted cs" using Cons.prems(1) by (auto simp: compacted_def)
  then have "compacted (join_rule cs r)" using Cons by blast
  then show ?case using Cons.prems join_rule_keys [of cs r] by (auto simp: compacted_def)
qed (simp add: compacted_def)

lemma foldl_compacted:
  "compacted cs \<Longrightarrow> \<forall>r\<in>set rs. simple_rule r \<and> Verbs r \<noteq> [] \<and> length (ResourceNames r) \<le> 1 \<Longrightarrow> compacted (foldl join_rule cs rs)"
  by (induction rs arbitrary: cs) (simp_all add: join_rule_compacted)

lemma break_rule_simple: "b \<in> set (break_rule r) \<Longrightarrow> simple_rule b \<and> Verbs b \<noteq> [] \<and> length (ResourceNames b) \<le> 1"
  by (auto simp: break_rule_def simple_rule_def split: if_splits)

lemma join_rule_new: "rule_key r \<notin> set (map rule_key cs) \<Longrightarrow> join_rule cs r = cs @ [r]"
  by (induction cs) auto

lemma join_rule_last: "rule_key r \<notin> set (map rule_key cs) \<Longrightarrow> rule_key c = rule_key r \<Longrightarrow>
  join_rule (cs @ [c]) r = cs @ [c\<lparr>Verbs := Verbs c @ Verbs r\<rparr>]"
  by (induction cs) auto

lemma foldl_join_verbs:
  "rule_key r \<notin> set (map rule_key cs) \<Longrightarrow>
   foldl join_rule (cs @ [r\<lparr>Verbs := us\<rparr>]) (map (\<lambda>v. r\<lparr>Verbs := [v]\<rparr>) vs) = cs @ [r\<lparr>Verbs := us @ vs\<rparr>]"
proof (induction vs arbitrary: us)
  case (Cons v vs)
  have "join_rule (cs @ [r\<lparr>Verbs := us\<rparr>]) (r\<lparr>Verbs := [v]\<rparr>) = cs @ [r\<lparr>Verbs := us @ [v]\<rparr>]"
    using Cons.prems by (simp add: join_rule_last)
  then show ?case using Cons by simp
qed simp

lemma break_rule_compact:
  assumes "simple_rule r" "length (ResourceNames r) \<le> 1"
  shows "break_rule r = map (\<lambda>v. r\<lparr>Verbs := [v]\<rparr>) (Verbs r)"
proof -
  obtain g res where r: "APIGroups r = [g]" "Resources r = [res]" using assms(1) by (rule simple_rule_cases)
  have "ResourceNames r = [] \<or> (\<exists>n. ResourceNames r = [n])" using assms(2) by (cases "ResourceNames r") auto
  moreover have "concat (map (\<lambda>v. [f v]) vs) = map f vs" for f :: "string \<Rightarrow> PolicyRule" and vs by (induction vs) auto
  ultimately show ?thesis using r by (cases r) (auto simp: break_rule_def)
qed

lemma foldl_join_compact:
  "compacted (cs @ rules) \<Longrightarrow> foldl join_rule cs (concat (map break_rule rules)) = cs @ rules"
proof (induction rules arbitrary: cs)
  case (Cons r rules)
  have r: "simple_rule r" "length (ResourceNames r) \<le> 1" "Verbs r \<noteq> []" "rule_key r \<notin> set (map rule_key cs)"
    using Cons.prems by (auto simp: compacted_def)
  obtain v vs where v: "Verbs r = v # vs" using r(3) by (cases "Verbs r") auto
  have "foldl join_rule cs (break_rule r) = cs @ [r\<lparr>Verbs := [v] @ vs\<rparr>]"
    using r(4) v foldl_join_verbs [OF r(4), of "[v]" vs] by (simp add: break_rule_compact [OF r(1,2)] join_rule_new)
  moreover have "r\<lparr>Verbs := [v] @ vs\<rparr> = r" using v by simp
  ultimately show ?case using Cons.IH [of "cs @ [r]"] Cons.prems by simp
qed simp

lemma linear_less: "linear ((<) :: 'a :: linorder \<Rightarrow> 'a \<Rightarrow> bool)"
  by (auto simp: linear_def)

lemma demo_kubectl_laws: "compact_laws demo_kubectl"
proof -
  have "compacted (foldl join_rule [] (concat (map break_rule rules)))" for rules
    by (rule foldl_compacted) (auto dest: break_rule_simple simp: compacted_def)
  then show ?thesis
    using foldl_join_compact [of "[]"] linear_less by (simp add: compact_laws_def demo_kubectl_def)
qed

section \<open>Tables\<close>

lemma table_get: "api_Get (table_api k m tab st mg) ns n s =
   (case find (named m ns n) (tab s) of None \<Rightarrow> Inl (not_found n) | Some x \<Rightarrow> Inr x, s)"
  by (simp add: table_api_def)

lemma keeps_table:
  "keeps (table_api k m tab st mg) key s s' \<longleftrightarrow>
     (\<forall>ns n. Some (k, ns, n) \<noteq> key \<longrightarrow> find (named m ns n) (tab s') = find (named m ns n) (tab s))"
  by (auto simp: keeps_def table_get split: option.splits) (metis not_None_eq)+

text \<open>The object \<open>z\<close> takes the place of the object with its name in the table, all others stay.\<close>

definition replaces :: "('a \<Rightarrow> ObjectMeta) \<Rightarrow> 'a \<Rightarrow> 'a list \<Rightarrow> 'a list \<Rightarrow> bool" where
  "replaces meta z xs xs' \<longleftrightarrow>
     (\<forall>ns n. find (named meta ns n) xs' =
        (if ns = Namespace (meta z) \<and> n = Name (meta z) then Some z else find (named meta ns n) xs))"

lemma table_write:
  fixes m :: "'a \<Rightarrow> ObjectMeta"
  assumes "api_CreateOrUpdate (table_api k m tab st mg) x f s = (Inr (op, y), s')" "tame K m f"
    and "\<And>s s'. K None s s' \<Longrightarrow> keeps (table_api k m tab st mg) None s s'"
  obtains x0 s1 t where "f x0 s = (Inr y, s1)" "K None s s1" "same_key (m y) (m x)"
    "replaces m y (tab s1) t" "s' = st t s1 \<or> s' = s1 \<and> t = tab s1"
proof -
  let ?find = "\<lambda>s. find (named m (Namespace (m x)) (Name (m x))) (tab s)"
  have f: "K None s s1 \<and> same_key (m z) (m x0) \<and> ?find s1 = ?find s" if "f x0 s = (Inr z, s1)" for x0 z s1
    using that assms(2,3) unfolding tame_def keeps_table by blast
  show thesis
  proof (cases "?find s")
    case None
    then obtain s1 where f1: "f x s = (Inr y, s1)" "s' = st (tab s1 @ [y]) s1"
      using assms(1) by (auto simp: table_api_def split: prod.splits sum.splits)
    then have "named m (Namespace (m x)) (Name (m x)) y" using f [OF f1(1)] by (simp add: same_key_def named_def)
    then have "replaces m y (tab s1) (tab s1 @ [y])"
      using f [OF f1(1)] None by (simp add: replaces_def same_key_def find_add)
    then show thesis using that [OF f1(1)] f [OF f1(1)] f1(2) by blast
  next
    case (Some y0)
    then have key: "same_key (m y0) (m x)" by (auto simp: same_key_def dest: find_named)
    let ?repl = "\<lambda>t. map (\<lambda>u. if named m (Namespace (m x)) (Name (m x)) u then y else u) t"
    obtain s1 where f1: "f y0 s = (Inr y, s1)" "if y = y0 then s' = s1 else s' = st (?repl (tab s1)) s1"
      using assms(1) Some by (auto simp: table_api_def split: prod.splits sum.splits if_splits)
    note f2 = f [OF f1(1)]
    have yx: "same_key (m y) (m x)" using f2 key same_key_trans by blast
    then have "named m (Namespace (m x)) (Name (m x)) y" by (simp add: same_key_def named_def)
    then have "replaces m y (tab s1) (?repl (tab s1))"
      using f2 Some yx by (simp add: replaces_def same_key_def find_replace)
    moreover have "replaces m y (tab s1) (tab s1)" if "y = y0"
      using that f2 Some yx by (auto simp: replaces_def same_key_def)
    ultimately show thesis using that [OF f1(1) _ yx] f1(2) f2 by (cases "y = y0") auto
  qed
qed

context change_relation
begin

lemma table_write_law:
  fixes m :: "'a \<Rightarrow> ObjectMeta"
  assumes "\<And>s s'. K None s s' \<Longrightarrow> keeps (table_api k m tab st mg) None s s'"
    and "\<And>t s. tab (st t s) = t"
    and "\<And>z t s. replaces m z (tab s) t \<Longrightarrow> K (Some (k, Namespace (m z), Name (m z))) s (st t s)"
  shows "write_law K (table_api k m tab st mg)"
  unfolding write_law_def table_api_simps
proof (intro allI impI)
  fix x f s op y s'
  assume f: "tame K m f" "api_CreateOrUpdate (table_api k m tab st mg) x f s = (Inr (op, y), s')"
  let ?key = "Some (k, Namespace (m x), Name (m x))"
  obtain x0 s1 t where 1: "f x0 s = (Inr y, s1)" "K None s s1" "same_key (m y) (m x)"
    "replaces m y (tab s1) t" "s' = st t s1 \<or> s' = s1 \<and> t = tab s1"
    by (rule table_write [OF f(2,1) assms(1)])
  have tab: "tab s' = t" using 1(5) assms(2) by auto
  have "K ?key s1 s'" using assms(3) [OF 1(4)] 1(3,5) unchanged_or by (auto simp: same_key_def)
  then have "K ?key s s'" by (rule compose_weaken [OF 1(2)])
  moreover have "api_Get (table_api k m tab st mg) (Namespace (m x)) (Name (m x)) s' = (Inr y, s')"
    using 1(3,4) tab by (simp add: table_get replaces_def same_key_def)
  ultimately show "api_Get (table_api k m tab st mg) (Namespace (m x)) (Name (m x)) s' = (Inr y, s') \<and>
      (\<exists>x0 s0 s1. f x0 s0 = (Inr y, s1)) \<and> K ?key s s'"
    using 1(1) by blast
qed

end

section \<open>The server of the witness\<close>

definition demo_store :: "demo GreenplumClusterReconciler" where
  "demo_store = demo_run\<lparr>rbac := demo_kubectl\<rparr>"

lemma demo_store_tables:
  "clusters demo_store = table_api KGreenplumCluster gc_meta t_clusters (\<lambda>t s. s\<lparr>t_clusters := t\<rparr>) merge_cluster"
  "configMaps demo_store = table_api KConfigMap cm_meta t_configMaps (\<lambda>t s. s\<lparr>t_configMaps := t\<rparr>) (\<lambda>x b y. x)"
  "secrets demo_store = table_api KSecret sec_meta t_secrets (\<lambda>t s. s\<lparr>t_secrets := t\<rparr>) (\<lambda>x b y. x)"
  "services demo_store = table_api KService svc_meta t_services (\<lambda>t s. s\<lparr>t_services := t\<rparr>) (\<lambda>x b y. x)"
  "serviceAccounts demo_store = table_api KServiceAccount sa_meta t_serviceAccounts (\<lambda>t s. s\<lparr>t_serviceAccounts := t\<rparr>) (\<lambda>x b y. x)"
  "roles demo_store = table_api KRole role_meta t_roles (\<lambda>t s. s\<lparr>t_roles := t\<rparr>) (\<lambda>x b y. x)"
  "roleBindings demo_store = table_api KRoleBinding rb_meta t_roleBindings (\<lambda>t s. s\<lparr>t_roleBindings := t\<rparr>) (\<lambda>x b y. x)"
  "statefulSets demo_store = table_api KStatefulSet ss_meta t_statefulSets (\<lambda>t s. s\<lparr>t_statefulSets := t\<rparr>) (\<lambda>x b y. x)"
  "nodes demo_store = table_api KNode node_meta t_nodes (\<lambda>t s. s\<lparr>t_nodes := t\<rparr>) merge_node"
  by (simp_all add: demo_store_def demo_run_def demo_reconciler_def)

lemmas demo_keeps = keeps_owned_def demo_store_tables keeps_table

lemma demo_write_laws:
  "write_law (keeps_owned demo_store) (configMaps demo_store)" "write_law (keeps_owned demo_store) (secrets demo_store)"
  "write_law (keeps_owned demo_store) (services demo_store)" "write_law (keeps_owned demo_store) (serviceAccounts demo_store)"
  "write_law (keeps_owned demo_store) (roles demo_store)" "write_law (keeps_owned demo_store) (roleBindings demo_store)"
  "write_law (keeps_owned demo_store) (statefulSets demo_store)"
  unfolding demo_store_tables by (rule owned_changes.table_write_law; simp add: demo_keeps replaces_def)+

lemma merge_cluster_stored: "merge_cluster x base base = x"
  by (cases x) (simp add: merge_cluster_def)

lemma demo_patch_law: "cluster_patch_law demo_store"
  unfolding cluster_patch_law_def
proof (intro allI impI)
  fix ns n and x base :: GreenplumCluster and s
  assume a: "api_Get (clusters demo_store) ns n s = (Inr base, s)" "same_key (gc_meta x) (gc_meta base)"
    "same_key (gc_meta base) (objectMeta n ns)"
  then have find: "find (named gc_meta ns n) (t_clusters s) = Some base"
    by (auto simp: demo_store_tables table_get split: option.splits)
  have key: "Namespace (gc_meta x) = ns" "Name (gc_meta x) = n" using a by (simp_all add: same_key_def)
  let ?t = "map (\<lambda>z. if named gc_meta ns n z then x else z) (t_clusters s)"
  have x: "named gc_meta ns n x" using key by (simp add: named_def)
  have "api_Patch (clusters demo_store) x base s = (Inr x, s\<lparr>t_clusters := ?t\<rparr>)"
    by (simp add: demo_store_tables table_api_def key find merge_cluster_stored)
  moreover have "api_Get (clusters demo_store) ns n (s\<lparr>t_clusters := ?t\<rparr>) = (Inr x, s\<lparr>t_clusters := ?t\<rparr>)"
    using find by (simp add: demo_store_tables table_get find_replace [OF x])
  moreover have "keeps_owned demo_store (Some (KGreenplumCluster, ns, n)) s (s\<lparr>t_clusters := ?t\<rparr>)"
    by (simp add: demo_keeps find_replace [OF x])
  ultimately show "\<exists>s'. api_Patch (clusters demo_store) x base s = (Inr x, s') \<and>
      api_Get (clusters demo_store) ns n s' = (Inr x, s') \<and> keeps_owned demo_store (Some (KGreenplumCluster, ns, n)) s s'"
    by blast
qed

lemma demo_nodes_keep: "api_Patch (nodes demo_store) x b s = (y, s1) \<Longrightarrow> keeps_owned demo_store None s s1"
  unfolding demo_keeps by (auto simp: table_api_def split: option.splits)

lemma demo_lists:
  assumes "api_Get (statefulSets demo_store) ns n s = (Inr y, s)" "map_of (map_make (Labels (ss_meta y))) k = Some v"
  shows "\<exists>xs. api_List (statefulSets demo_store) ns [(k, v)] s = (Inr xs, s) \<and> xs \<noteq> []"
proof -
  have "find (named ss_meta ns n) (t_statefulSets s) = Some y"
    using assms(1) by (auto simp: demo_store_tables table_get split: option.splits)
  then have "y \<in> set (t_statefulSets s)" "Namespace (ss_meta y) = ns" by (auto simp: find_Some_iff named_def)
  with assms(2) show ?thesis by (auto simp: demo_store_tables table_api_def has_labels_def filter_empty_conv)
qed

lemma demo_store_laws: "store_laws demo_store"
proof -
  have "snd (api_List (nodes demo_store) ns l s) = s" "snd (api_List (statefulSets demo_store) ns l s) = s" for ns l s
    by (simp_all add: demo_store_tables table_api_def)
  moreover have "SSHCreator demo_store s = (k, s1) \<Longrightarrow> keeps_owned demo_store None s s1" for s k s1
    by (auto simp: demo_store_def demo_run_def demo_reconciler_def)
  ultimately show ?thesis
    using demo_write_laws demo_patch_law demo_nodes_keep demo_lists unfolding store_laws_def by (intro conjI allI impI) simp_all
qed

end
