(* ===== verification/Convergence.thy ===== *)
theory Convergence
  imports Demo_Store
begin

text \<open>
  The reconciler converges: one pass that does not ask to run again ends in a settled state, which every
  further pass leaves as it is. \<open>Stored_Resources\<close> has the owned objects; here are the finalizer, the node
  labels, the status and the whole pass.
\<close>

section \<open>Lemmas\<close>

subsection \<open>The rest of a pass\<close>

lemma labelAlternateNodes_keeps:
  assumes "store_laws r"
  shows "labelAlternateNodes r key e d i ns w = (res, w') \<Longrightarrow> keeps_owned r None (server w) (server w')"
proof (induction ns arbitrary: i w)
  case (Cons n ns)
  let ?v = "if i mod 2 = 0 then e else d"
  obtain res1 w1 where p: "Patch (nodes r) (labelNode key ?v n) n w = (res1, w1)" by fastforce
  have "api_Patch (nodes r) (labelNode key ?v n) n (server w) = (res1, server w1)"
    using p unfolding Patch_def by (rule server_perform)
  then have "keeps_owned r None (server w) (server w1)" using assms by (simp add: store_laws_def)
  with p Cons show ?case by (auto simp: Let_def split: sum.splits intro: owned_changes.compose)
qed simp

lemma List_server:
  "\<forall>ns l s. snd (api_List R ns l s) = s \<Longrightarrow> ListObjects R ns l w = (res, w') \<Longrightarrow> server w' = server w"
  unfolding ListObjects_def by (metis server_perform snd_conv)

lemma handleAntiAffinity_keeps:
  assumes "store_laws r" "handleAntiAffinity r gc w = (res, w')"
  shows "keeps_owned r None (server w) (server w')"
proof -
  have list: "\<forall>ns l s. snd (api_List (nodes r) ns l s) = s" using assms(1) by (simp add: store_laws_def)
  have "keeps_owned r None (server w) (server w1)" if "handleAntiAffinity_body r gc w = (res1, w1)" for res1 w1
    using that by (auto simp: handleAntiAffinity_body_def split: if_splits prod.splits sum.splits
      dest!: List_server [OF list] labelAlternateNodes_keeps [OF assms(1)] intro: owned_changes.compose)
  then show ?thesis using assms(2) by (auto simp: handleAntiAffinity_def split: prod.splits sum.splits)
qed

text \<open>The server holds \<open>gc\<close> under its own name.\<close>

definition stored :: "'s GreenplumClusterReconciler \<Rightarrow> GreenplumCluster \<Rightarrow> 's \<Rightarrow> bool" where
  "stored r gc s \<longleftrightarrow> api_Get (clusters r) (Namespace (gc_meta gc)) (Name (gc_meta gc)) s = (Inr gc, s)"

definition clusterKey :: "GreenplumCluster \<Rightarrow> object_key" where
  "clusterKey gc = (KGreenplumCluster, Namespace (gc_meta gc), Name (gc_meta gc))"

lemma Patch_stored:
  assumes "store_laws r" "stored r gc (server w)" "same_key (gc_meta gc1) (gc_meta gc)"
  obtains w1 where "Patch (clusters r) gc1 gc w = (Inr gc1, w1)" "stored r gc1 (server w1)"
    "keeps_owned r (Some (clusterKey gc)) (server w) (server w1)"
proof -
  have "cluster_patch_law r" using assms(1) by (simp add: store_laws_def)
  from this [unfolded cluster_patch_law_def, rule_format, OF assms(2) [unfolded stored_def] assms(3)]
  obtain s' where s': "api_Patch (clusters r) gc1 gc (server w) = (Inr gc1, s')"
    "api_Get (clusters r) (Namespace (gc_meta gc)) (Name (gc_meta gc)) s' = (Inr gc1, s')"
    "keeps_owned r (Some (clusterKey gc)) (server w) s'"
    by (auto simp: same_key_def clusterKey_def)
  then show thesis
    using that assms(3) by (simp add: Patch_def perform_def stored_def same_key_def)
qed

lemma unaffected_stored:
  assumes "typed_client r"
  shows "fst key \<noteq> KGreenplumCluster \<Longrightarrow> unaffected r (Some key) (stored r gc)" "unaffected r None (stored r gc)"
  unfolding unaffected_def stored_def keeps_owned_def using assms
  by (auto simp: typed_client_def elim!: keeps_get)

lemma handleFinalizer_stores:
  assumes "store_laws r" "stored r gc (server w)" "DeletionTimestamp (gc_meta gc) = None"
  obtains gc1 w1 where "handleFinalizer r gc am w = ((None, gc1, am), w1)" "stored r gc1 (server w1)"
    "same_key (gc_meta gc1) (gc_meta gc)" "Spec gc1 = Spec gc" "Status gc1 = Status gc"
    "DeletionTimestamp (gc_meta gc1) = None" "StopClusterFinalizer \<in> set (Finalizers (gc_meta gc1))"
proof (cases "StopClusterFinalizer \<in> set (Finalizers (gc_meta gc))")
  case True
  then show thesis using assms that by (simp add: handleFinalizer_def same_key_def)
next
  case False
  let ?gc1 = "setFinalizers (Finalizers (gc_meta gc) @ [StopClusterFinalizer]) gc"
  have key: "same_key (gc_meta ?gc1) (gc_meta gc)" by (simp add: same_key_def)
  obtain w1 where "Patch (clusters r) ?gc1 gc w = (Inr ?gc1, w1)" "stored r ?gc1 (server w1)"
    using Patch_stored [OF assms(1,2) key] by blast
  then show thesis
    using False assms(3) key that [of ?gc1 w1] by (simp add: handleFinalizer_def Let_def setFinalizers_def)
qed

text \<open>Objects that agree in metadata and spec are compared by their status.\<close>

definition compares_status :: "'s GreenplumClusterReconciler \<Rightarrow> bool" where
  "compares_status r \<longleftrightarrow>
     (\<forall>x y. gc_meta x = gc_meta y \<longrightarrow> Spec x = Spec y \<longrightarrow> SemanticDeepEqual r x y = (Status x = Status y))"

definition runningStatus :: "'s GreenplumClusterReconciler \<Rightarrow> GreenplumClusterStatus" where
  "runningStatus r = \<lparr>InstanceImage = r_InstanceImage r, OperatorVersion = r_OperatorImage r, Phase = PhaseRunning\<rparr>"

lemma reconcileStatus_stores:
  assumes "store_laws r" "compares_status r" "stored r gc (server w)"
    and "Phase (Status gc) \<in> {PhaseNone, PhasePending, PhaseRunning}"
  obtains gc1 w1 where "reconcileStatus r gc w = (Inr gc1, w1)" "stored r gc1 (server w1)"
    "keeps_owned r (Some (clusterKey gc)) (server w) (server w1)" "gc_meta gc1 = gc_meta gc" "Spec gc1 = Spec gc"
    "Phase (Status gc1) \<in> {PhasePending, PhaseRunning}" "(Status gc1)\<lparr>Phase := PhaseRunning\<rparr> = runningStatus r"
proof -
  let ?st = "(Status gc)\<lparr>OperatorVersion := r_OperatorImage r, InstanceImage := r_InstanceImage r\<rparr>"
  let ?st' = "if Phase ?st = PhaseNone then ?st\<lparr>Phase := PhasePending\<rparr> else ?st"
  let ?gc1 = "gc\<lparr>Status := ?st'\<rparr>"
  have st: "Phase ?st' \<in> {PhasePending, PhaseRunning}" "?st'\<lparr>Phase := PhaseRunning\<rparr> = runningStatus r"
    using assms(4) by (auto simp: runningStatus_def)
  have cmp: "SemanticDeepEqual r ?gc1 gc \<longleftrightarrow> ?st' = Status gc" using assms(2) by (simp add: compares_status_def)
  show thesis
  proof (cases "?st' = Status gc")
    case True
    then have "?gc1 = gc" by simp
    then show thesis using that [of gc w] assms(3) st cmp True by (simp add: reconcileStatus_def Let_def)
  next
    case False
    obtain w1 where "Patch (clusters r) ?gc1 gc w = (Inr ?gc1, w1)" "stored r ?gc1 (server w1)"
      "keeps_owned r (Some (clusterKey gc)) (server w) (server w1)"
      using Patch_stored [OF assms(1,3), of ?gc1] by (auto simp: same_key_def)
    then show thesis using that [of ?gc1 w1] st cmp False by (simp add: reconcileStatus_def Let_def)
  qed
qed

lemma setStatus_stores:
  assumes "store_laws r" "stored r gc (server w)"
  obtains w1 where "setStatus r gc ph w = (setPhase ph gc, w1)" "stored r (setPhase ph gc) (server w1)"
    "keeps_owned r (Some (clusterKey gc)) (server w) (server w1)"
proof (cases "Phase (Status gc) = ph")
  case True
  then have "setPhase ph gc = gc" by (cases gc) (simp add: setPhase_def)
  then show thesis using that [of w] True assms(2) by (simp add: setStatus_def)
next
  case False
  obtain w1 where "Patch (clusters r) (setPhase ph gc) gc w = (Inr (setPhase ph gc), w1)"
    "stored r (setPhase ph gc) (server w1)" "keeps_owned r (Some (clusterKey gc)) (server w) (server w1)"
    using Patch_stored [OF assms, of "setPhase ph gc"] by (auto simp: same_key_def)
  then show thesis using that [of w1] False by (simp add: setStatus_def)
qed

text \<open>After the resources: with an active master the cluster is stored as running.\<close>

lemma reconcilePhases_stores:
  assumes "store_laws r" "compares_status r" "exec_law (PodExec r)" "stored r gc (server w)"
    and "Phase (Status gc) \<in> {PhaseNone, PhasePending, PhaseRunning}" "am \<noteq> []" "\<And>s. segments_reached r gc s am"
  obtains gc' w' where "reconcilePhases r gc am w = (Inr 0, w')" "stored r gc' (server w')"
    "keeps_owned r (Some (clusterKey gc)) (server w) (server w')" "gc_meta gc' = gc_meta gc" "Spec gc' = Spec gc"
    "Status gc' = runningStatus r"
proof -
  obtain gc1 w1 where 1: "reconcileStatus r gc w = (Inr gc1, w1)" "stored r gc1 (server w1)"
    "keeps_owned r (Some (clusterKey gc)) (server w) (server w1)" "gc_meta gc1 = gc_meta gc" "Spec gc1 = Spec gc"
    "Phase (Status gc1) \<in> {PhasePending, PhaseRunning}" "(Status gc1)\<lparr>Phase := PhaseRunning\<rparr> = runningStatus r"
    by (rule reconcileStatus_stores [OF assms(1,2,4,5)])
  let ?gc2 = "setPhase PhaseRunning gc1"
  obtain w2 where 2: "setStatus r gc1 PhaseRunning w1 = (?gc2, w2)" "stored r ?gc2 (server w2)"
    "keeps_owned r (Some (clusterKey gc1)) (server w1) (server w2)"
    by (rule setStatus_stores [OF assms(1) 1(2)])
  have run: "(if Phase (Status gc1) = PhasePending \<and> am \<noteq> [] then setStatus r gc1 PhaseRunning w1 else (gc1, w1)) =
      setStatus r gc1 PhaseRunning w1"
    using 1(6) assms(6) by (auto simp: setStatus_def)
  have "segments_reached r ?gc2 (server w2) am"
    using assms(7) 1(4,5) by (simp add: segments_reached_def)
  then obtain w3 where 3: "handleExpand r ?gc2 am w2 = (Inr (), w3)" "server w3 = server w2"
    using handleExpand_reached [OF assms(3)] by blast
  have "clusterKey gc1 = clusterKey gc" using 1(4) by (simp add: clusterKey_def)
  then have "keeps_owned r (Some (clusterKey gc)) (server w) (server w3)"
    using 1(3) 2(3) 3(2) owned_changes.compose by metis
  moreover have "reconcilePhases r gc am w = (Inr 0, w3)"
    using 1(1) run 2(1) 3(1) assms(6) by (simp add: reconcilePhases_def)
  ultimately show thesis
    using that [of w3 ?gc2] 1(4,5,7) 2(2) 3(2) by (simp add: setPhase_def)
qed

subsection \<open>The settled state\<close>

lemma mutate_cong: "gc_meta gc = gc_meta gc' \<Longrightarrow> mutate r gc meta set_meta f = mutate r gc' meta set_meta f"
  by (simp add: fun_eq_iff mutate_def)

lemma resourcesWritten_cong:
  assumes "gc_meta gc = gc_meta gc'" "Spec gc = Spec gc'"
  shows "resourcesWritten r gc s = resourcesWritten r gc' s"
proof -
  have "ModifyConfigMap gc = ModifyConfigMap gc'" "GenerateStatefulSetParams t gc im = GenerateStatefulSetParams t gc' im" for t im
    using assms by (simp_all add: fun_eq_iff ModifyConfigMap_def configData_def GenerateStatefulSetParams_def)
  moreover have "mutateSecret r gc = mutateSecret r gc'" "mutateRole r gc = mutateRole r gc'"
    unfolding fun_eq_iff mutateSecret_def mutateRole_def assms(1) by simp_all
  ultimately show ?thesis
    using assms unfolding resourcesWritten_def Let_def writtenStatefulSet_def by (simp add: mutate_cong [of gc gc'])
qed

lemma kept_written: "kept R x f s \<Longrightarrow> written R x f s"
  unfolding kept_def written_def by blast

lemma written_keeps_cluster:
  "written R x f s \<Longrightarrow> keeps R (Some key) s s' \<Longrightarrow> fst key = KGreenplumCluster \<Longrightarrow> api_kind R \<noteq> KGreenplumCluster \<Longrightarrow>
   written R x f s'"
  by (rule written_keeps) auto

lemma resourcesWritten_keeps:
  assumes "typed_client r" "reference_laws (SetControllerReference r)" "compact_laws (rbac r)"
    and "resourcesWritten r gc s" "keeps_owned r (Some key) s s'" "fst key = KGreenplumCluster"
  shows "resourcesWritten r gc s'"
proof -
  have k: "keeps (configMaps r) (Some key) s s'" "keeps (secrets r) (Some key) s s'" "keeps (services r) (Some key) s s'"
    "keeps (serviceAccounts r) (Some key) s s'" "keeps (roles r) (Some key) s s'" "keeps (roleBindings r) (Some key) s s'"
    "keeps (statefulSets r) (Some key) s s'"
    using assms(5) by (simp_all add: keeps_owned_def)
  have n: "api_kind (configMaps r) \<noteq> KGreenplumCluster" "api_kind (secrets r) \<noteq> KGreenplumCluster"
    "api_kind (services r) \<noteq> KGreenplumCluster" "api_kind (serviceAccounts r) \<noteq> KGreenplumCluster"
    "api_kind (roles r) \<noteq> KGreenplumCluster" "api_kind (roleBindings r) \<noteq> KGreenplumCluster"
    "api_kind (statefulSets r) \<noteq> KGreenplumCluster"
    using assms(1) by (simp_all add: typed_client_def)
  note stays = written_keeps_cluster [OF _ k(1) assms(6) n(1)] written_keeps_cluster [OF _ k(2) assms(6) n(2)]
    written_keeps_cluster [OF _ k(3) assms(6) n(3)] written_keeps_cluster [OF _ k(4) assms(6) n(4)]
    written_keeps_cluster [OF _ k(6) assms(6) n(6)] written_keeps_cluster [OF _ k(7) assms(6) n(7)]
  have role: "kept (roles r) x (mutateRole r gc) s'" if "kept (roles r) x (mutateRole r gc) s" for x
    by (rule written_kept [OF settles_mutateRole [OF assms(2,3)]])
       (rule written_keeps_cluster [OF kept_written [OF that] k(5) assms(6) n(5)])
  show ?thesis
    using assms(4) unfolding resourcesWritten_def Let_def writtenStatefulSet_def
    by (elim conjE) (intro conjI impI stays role; (assumption | erule (1) mp))
qed

lemma written_statefulSet_listed:
  assumes "store_laws r" "typed_client r" "reference_laws (SetControllerReference r)" "writtenStatefulSet r gc t n s"
  shows "\<exists>xs. api_List (statefulSets r) (Namespace (gc_meta gc)) [(''greenplum-cluster'', Name (gc_meta gc))] s = (Inr xs, s) \<and> xs \<noteq> []"
proof -
  let ?mod = "ModifyGreenplumStatefulSet (quantities r) (GenerateStatefulSetParams t gc (r_InstanceImage r))"
  obtain y x0 where get: "api_Get (statefulSets r) (Namespace (gc_meta gc)) n s = (Inr y, s)"
    and y: "modify_and_own (SetControllerReference r) (gc_meta gc) ss_meta (\<lambda>m x. x\<lparr>ss_meta := m\<rparr>) ?mod x0 = Inr y"
    using assms(2,4) by (auto simp: writtenStatefulSet_def written_def mutate_def typed_client_def)
  obtain m where m: "SetControllerReference r (gc_meta gc) (ss_meta (?mod x0)) = Inr m" "ss_meta y = m"
    using y by (auto simp: modify_and_own_def split: sum.splits)
  obtain os where "m = (ss_meta (?mod x0))\<lparr>OwnerReferences := os\<rparr>" using reference_lawsD(1) [OF assms(3) m(1)] by blast
  then have "map_of (map_make (Labels (ss_meta y))) ''greenplum-cluster'' = Some (Name (gc_meta gc))"
    unfolding m(2) by (simp add: ModifyGreenplumStatefulSet_def Let_def GenerateStatefulSetParams_def map_of_merge)
       (simp add: generateGPClusterLabels_def)
  with get show ?thesis using assms(1) unfolding store_laws_def by blast
qed

lemma reconcilePhases_waits: "reconcilePhases r gc [] w = (Inr n, w') \<Longrightarrow> n = 5"
  by (auto simp: reconcilePhases_def split: prod.splits sum.splits)

text \<open>The part after the finalizer.\<close>

lemma reconcileResources_settles:
  assumes laws: "exec_law (PodExec r)" "compares_status r" "store_laws r" "typed_client r"
      "reference_laws (SetControllerReference r)" "compact_laws (rbac r)"
    and gc: "stored r gc (server w)" "DeletionTimestamp (gc_meta gc) = None" "StopClusterFinalizer \<in> set (Finalizers (gc_meta gc))"
      "InstanceImage (Status gc) \<in> {[], r_InstanceImage r}" "Phase (Status gc) \<in> {PhaseNone, PhasePending, PhaseRunning}"
    and seg: "\<And>s s' pod. ex_err (fst (PodExec r testIfPrimaryMasterCommand (Namespace (gc_meta gc)) pod s)) = None \<Longrightarrow>
      segments_reached r gc s' pod"
    and am: "am \<noteq> [] \<longrightarrow> (\<forall>s. segments_reached r gc s am)"
    and run: "reconcileResources r gc am w = (Inr 0, w')"
  shows "\<exists>gc'. stored r gc' (server w') \<and> same_key (gc_meta gc') (gc_meta gc) \<and> Spec gc' = Spec gc \<and> settled r gc' (server w')"
proof -
  have list: "\<forall>ns l s. snd (api_List (statefulSets r) ns l s) = s" using laws(3) by (simp add: store_laws_def)
  have "InstanceImage (Status gc) = [] \<or> InstanceImage (Status gc) = r_InstanceImage r" using gc(4) by simp
  then obtain b w1 w2 w3 where ex: "clusterExists r gc w = (Inr b, w1)"
    and aa: "(if \<not> b then handleAntiAffinity r gc w1 else (Inr (), w1)) = (Inr (), w2)"
    and cr: "createOrUpdateClusterResources r gc w2 = (Inr (), w3)" and ph: "reconcilePhases r gc am w3 = (Inr 0, w')"
    using run unfolding reconcileResources_def by (auto split: prod.splits sum.splits)
  have "server w1 = server w"
    using ex by (auto simp: clusterExists_def split: prod.splits sum.splits dest!: List_server [OF list])
  then have "stored r gc (server w2)"
    using aa gc(1) unaffectedD [OF unaffected_stored(2) [OF laws(4)] _ handleAntiAffinity_keeps [OF laws(3)]]
    by (metis prod.inject)
  then have st: "stored r gc (server w3)"
    using createOrUpdate_writes(2) [OF laws(3-6) cr, of "stored r gc"] unaffected_stored(1) [OF laws(4)] by blast
  have wr: "resourcesWritten r gc (server w3)" by (rule createOrUpdate_writes(1) [OF laws(3-6) cr])
  have "am \<noteq> []" using ph reconcilePhases_waits by fastforce
  then obtain gc' w4 where 4: "reconcilePhases r gc am w3 = (Inr 0, w4)" "stored r gc' (server w4)"
    "keeps_owned r (Some (clusterKey gc)) (server w3) (server w4)" "gc_meta gc' = gc_meta gc" "Spec gc' = Spec gc"
    "Status gc' = runningStatus r"
    using reconcilePhases_stores [OF laws(3,2,1) st gc(5)] am by blast
  have [simp]: "w4 = w'" using ph 4(1) by simp
  have "resourcesWritten r gc (server w')"
    using resourcesWritten_keeps [OF laws(4-6) wr 4(3)] by (simp add: clusterKey_def)
  then have wr': "resourcesWritten r gc' (server w')" unfolding resourcesWritten_cong [OF 4(4,5)] .
  have "settled r gc' (server w')"
    using wr' 4(4,6) gc(2,3) seg written_statefulSet_listed [OF laws(3-5), of gc' TypeMaster "''master''" "server w'"]
    by (auto simp: settled_def runningStatus_def resourcesWritten_def Let_def segments_reached_def 4(5))
  with 4 show ?thesis by (auto simp: same_key_def)
qed

section \<open>Convergence\<close>

text \<open>C2: The reconciler converges. On a server that stores what it is sent, with a cluster whose yes and no fields are in
  lower case, that is not being deleted and that belongs to this operator's image, and with pods that
  report as many segments as the spec asks for: a pass that ends without asking to run again leaves the
  cluster settled (finalizer, status Running, every owned resource as its callback wrote it) with the same spec, and
  every further pass succeeds and changes nothing on the server.\<close>

theorem Reconcile_converges:
  assumes "exec_law (PodExec r)" "compares_status r" "unchanged_laws r" "store_laws r" "typed_client r"
      "reference_laws (SetControllerReference r)" "compact_laws (rbac r)"
    and "stored r gc (server w)" "SetDefaultGreenplumClusterValues gc = gc" "DeletionTimestamp (gc_meta gc) = None"
    and "InstanceImage (Status gc) \<in> {[], r_InstanceImage r}" "Phase (Status gc) \<in> {PhaseNone, PhasePending, PhaseRunning}"
    and "\<And>s s' pod. ex_err (fst (PodExec r testIfPrimaryMasterCommand (Namespace (gc_meta gc)) pod s)) = None \<Longrightarrow>
      segments_reached r gc s' pod"
    and "Reconcile r (Namespace (gc_meta gc)) (Name (gc_meta gc)) w = (Inr 0, w')"
  shows "\<exists>gc'. stored r gc' (server w') \<and> Spec gc' = Spec gc \<and> settled r gc' (server w') \<and>
    (\<forall>v. server v = server w' \<longrightarrow>
       (\<exists>n v'. Reconcile r (Namespace (gc_meta gc)) (Name (gc_meta gc)) v = (Inr n, v') \<and> server v' = server w'))"
proof -
  obtain w1 where g: "Get (clusters r) (Namespace (gc_meta gc)) (Name (gc_meta gc)) w = (Inr gc, w1)" "server w1 = server w"
    using assms(8) by (simp add: Get_def perform_def stored_def)
  obtain am w2 where am: "GetCurrentActiveMaster (PodExec r) (Namespace (gc_meta gc)) w1 = (am, w2)" "server w2 = server w1"
    "am \<noteq> [] \<longrightarrow> ex_err (fst (PodExec r testIfPrimaryMasterCommand (Namespace (gc_meta gc)) am (server w1))) = None"
    by (rule GetCurrentActiveMaster_quiet [OF assms(1)])
  have "stored r gc (server w2)" using assms(8) g(2) am(2) by simp
  then obtain gc1 w3 where f: "handleFinalizer r gc am w2 = ((None, gc1, am), w3)" "stored r gc1 (server w3)"
    "same_key (gc_meta gc1) (gc_meta gc)" "Spec gc1 = Spec gc" "Status gc1 = Status gc"
    "DeletionTimestamp (gc_meta gc1) = None" "StopClusterFinalizer \<in> set (Finalizers (gc_meta gc1))"
    by (rule handleFinalizer_stores [OF assms(4) _ assms(10)])
  have run: "reconcileResources r gc1 am w3 = (Inr 0, w')"
    using assms(9,14) g(1) am(1) f(1) by (simp add: Reconcile_def)
  have st: "InstanceImage (Status gc1) \<in> {[], r_InstanceImage r}" "Phase (Status gc1) \<in> {PhaseNone, PhasePending, PhaseRunning}"
    using assms(11,12) f(5) by simp_all
  have seg: "segments_reached r gc1 s' pod"
    if "ex_err (fst (PodExec r testIfPrimaryMasterCommand (Namespace (gc_meta gc1)) pod s)) = None" for s s' pod
    using assms(13) [of pod s s'] that f(3,4) by (simp add: segments_reached_def same_key_def)
  have "am \<noteq> [] \<longrightarrow> (\<forall>s. segments_reached r gc1 s am)" using am(3) f(3) by (auto intro: seg simp: same_key_def)
  from reconcileResources_settles [OF assms(1,2,4-7) f(2,6,7) st seg this run]
  obtain gc' where "stored r gc' (server w') \<and> same_key (gc_meta gc') (gc_meta gc1) \<and> Spec gc' = Spec gc1 \<and> settled r gc' (server w')"
    by (rule exE)
  then have gc': "stored r gc' (server w')" "same_key (gc_meta gc') (gc_meta gc)" "Spec gc' = Spec gc" "settled r gc' (server w')"
    using f(3,4) by (auto intro: same_key_trans)
  have "SetDefaultGreenplumClusterValues gc' = gc'"
    using assms(9) gc'(3) unfolding SetDefaultGreenplumClusterValues_def by (cases gc, cases gc') simp
  then have "\<exists>n v'. Reconcile r (Namespace (gc_meta gc)) (Name (gc_meta gc)) v = (Inr n, v') \<and> server v' = server w'"
    if "server v = server w'" for v
    using Reconcile_quiet [OF assms(1) _ assms(3,6), of "Namespace (gc_meta gc)" "Name (gc_meta gc)" v gc'] that gc' assms(2)
    by (simp add: stored_def same_key_def compares_status_def)
  with gc' show ?thesis by blast
qed

text \<open>The witness starts from a new cluster, without finalizer, status and resources.\<close>

definition demo_new_server :: demo where
  "demo_new_server = demo_empty\<lparr>t_clusters := [demo_cluster (demo_spec ''no'' ''yes'' ''yes'' 2)]\<rparr>"

lemma demo_new_run: "fst (Reconcile demo_store ''ns'' ''gp'' (demo_world demo_new_server)) = Inr 0"
  by code_simp

lemma demo_new_default:
  "SetDefaultGreenplumClusterValues (demo_cluster (demo_spec ''no'' ''yes'' ''yes'' 2)) = demo_cluster (demo_spec ''no'' ''yes'' ''yes'' 2)"
  by code_simp

lemma demo_new_stored: "stored demo_store (demo_cluster (demo_spec ''no'' ''yes'' ''yes'' 2)) demo_new_server"
  by code_simp

lemma demo_store_simps:
  "PodExec demo_store = demo_am0" "SemanticDeepEqual demo_store = (=)" "SetControllerReference demo_store = append_owner"
  "rbac demo_store = demo_kubectl"
  by (simp_all add: demo_store_def demo_run_simps)

theorem Reconcile_converges_witness:
  "\<exists>gc' w'. Reconcile demo_store ''ns'' ''gp'' (demo_world demo_new_server) = (Inr 0, w') \<and>
     stored demo_store gc' (server w') \<and> settled demo_store gc' (server w')"
proof -
  let ?gc = "demo_cluster (demo_spec ''no'' ''yes'' ''yes'' 2)"
  have gc: "Namespace (gc_meta ?gc) = ''ns''" "Name (gc_meta ?gc) = ''gp''" "DeletionTimestamp (gc_meta ?gc) = None"
    "InstanceImage (Status ?gc) \<in> {[], r_InstanceImage demo_store}" "Phase (Status ?gc) \<in> {PhaseNone, PhasePending, PhaseRunning}"
    by (simp_all add: demo_cluster_def objectMeta_def emptyMeta_def)
  obtain w' where run: "Reconcile demo_store ''ns'' ''gp'' (demo_world demo_new_server) = (Inr 0, w')"
    using demo_new_run by (metis prod.collapse)
  have laws: "exec_law (PodExec demo_store)" "compares_status demo_store"
    "reference_laws (SetControllerReference demo_store)" "compact_laws (rbac demo_store)"
    by (auto simp: demo_store_simps demo_am0_law compares_status_def append_owner_laws demo_kubectl_laws)
  have client: "unchanged_laws demo_store" "typed_client demo_store"
    using demo_unchanged [of demo_am0] demo_typed [of demo_am0]
    by (simp_all add: unchanged_laws_def typed_client_def demo_store_def demo_run_def)
  have seg: "segments_reached demo_store ?gc s' pod" if "ex_err (fst (demo_am0 c n pod s)) = None" for c n s s' pod
    using demo_am0_reached [OF that]
    by (simp add: segments_reached_def demo_store_simps demo_am0_def demo_exec_def demo_parse_2 demo_cluster_def demo_spec_def)
  show ?thesis
    using Reconcile_converges [OF laws(1,2) client(1) demo_store_laws client(2) laws(3,4), of ?gc "demo_world demo_new_server" w'] seg run gc(4,5)
    by (auto simp: demo_new_default demo_new_stored gc(1-3) demo_store_simps demo_world_def)
qed

end
