(* ===== verification/Placement.thy ===== *)
theory Placement
  imports Cluster_Behaviour
begin

text \<open>
  Anti-affinity across two components: the controller labels nodes (\<open>handleAntiAffinity\<close>), the
  stateful sets select nodes by those labels (\<open>getAffinityDefinition\<close>). The lemmas follow the labels
  through the patches; the property says that the two sides fit together.
\<close>

section \<open>Definitions\<close>

text \<open>
  What the code relies on of the node objects, over an observation \<open>lbl\<close> of the labels the server
  holds and an invariant \<open>ok\<close> of its states: a list answers with the labels as they are and with
  distinct names, and changes nothing; a merge patch changes the labels in which the object differs
  from its base, and no others.
\<close>

definition node_labels :: "Node \<Rightarrow> string \<rightharpoonup> string" where
  "node_labels n = map_of (map_make (Labels (node_meta n)))"

definition node_laws ::
  "('s, Node) resource_api \<Rightarrow> ('s \<Rightarrow> bool) \<Rightarrow> ('s \<Rightarrow> string \<Rightarrow> string \<rightharpoonup> string) \<Rightarrow> bool"
where
  "node_laws R ok lbl \<longleftrightarrow>
     (\<forall>ns l s xs s'. ok s \<longrightarrow> api_List R ns l s = (Inr xs, s') \<longrightarrow>
        s' = s \<and> distinct (map (Name \<circ> node_meta) xs) \<and>
        (\<forall>n\<in>set xs. Namespace (node_meta n) = [] \<and> lbl s (Name (node_meta n)) = node_labels n)) \<and>
     (\<forall>x base s y s'. ok s \<longrightarrow> Namespace (node_meta x) = [] \<longrightarrow> api_Patch R x base s = (Inr y, s') \<longrightarrow>
        ok s' \<and>
        (\<forall>n k. lbl s' n k = (if n = Name (node_meta x) \<and> node_labels x k \<noteq> node_labels base k
                             then node_labels x k else lbl s n k)))"

text \<open>Whether the scheduler may put a pod with this affinity on a node with these labels.\<close>

definition matches_requirement :: "(string \<rightharpoonup> string) \<Rightarrow> Requirement \<Rightarrow> bool" where
  "matches_requirement l q =
     (case q of (key, opr, vals) \<Rightarrow>
        opr = ''In'' \<and> (case l key of None \<Rightarrow> False | Some v \<Rightarrow> v \<in> set vals))"

definition schedulable :: "Affinity \<Rightarrow> (string \<rightharpoonup> string) \<Rightarrow> bool" where
  "schedulable a l = list_ex (list_all (matches_requirement l)) (aff_NodeSelectorTerms a)"

section \<open>Lemmas\<close>

lemma labelNode_simps [simp]:
  "Name (node_meta (labelNode key v n)) = Name (node_meta n)"
  "Namespace (node_meta (labelNode key v n)) = Namespace (node_meta n)"
  "node_labels (labelNode key v n) = (node_labels n)(key \<mapsto> v)"
  by (simp_all add: labelNode_def node_labels_def)

text \<open>One patch: the label is on the node afterwards and no other label has changed, as long as
  the listed label was the current one.\<close>

lemma patch_label:
  assumes "node_laws R ok lbl" "ok s" "Namespace (node_meta n) = []"
    and "api_Patch R (labelNode key v n) n s = (Inr y, s')"
    and "lbl s (Name (node_meta n)) key = node_labels n key"
  shows "ok s'" "lbl s' m k = (if m = Name (node_meta n) \<and> k = key then Some v else lbl s m k)"
proof -
  from assms have "ok s' \<and> (\<forall>m k. lbl s' m k =
      (if m = Name (node_meta n) \<and> ((node_labels n)(key \<mapsto> v)) k \<noteq> node_labels n k
       then ((node_labels n)(key \<mapsto> v)) k else lbl s m k))"
    unfolding node_laws_def by (metis labelNode_simps)
  then show "ok s'" "lbl s' m k = (if m = Name (node_meta n) \<and> k = key then Some v else lbl s m k)"
    using assms(5) by auto
qed

lemma labelAlternateNodes_labels:
  assumes "labelAlternateNodes r key a b i ns w = (Inr (), w')"
    and "node_laws (nodes r) ok lbl" "ok (server w)" "distinct (map (Name \<circ> node_meta) ns)"
    and "\<forall>n\<in>set ns. Namespace (node_meta n) = [] \<and> lbl (server w) (Name (node_meta n)) key = node_labels n key"
  shows "ok (server w') \<and>
    (\<forall>m k. (k \<noteq> key \<or> (\<forall>n\<in>set ns. m \<noteq> Name (node_meta n))) \<longrightarrow> lbl (server w') m k = lbl (server w) m k) \<and>
    (\<forall>j<length ns. lbl (server w') (Name (node_meta (ns ! j))) key = Some (if (i + j) mod 2 = 0 then a else b))"
  using assms
proof (induction r key a b i ns w rule: labelAlternateNodes.induct)
  case (2 r key a b i n ns w)
  let ?v = "if i mod 2 = 0 then a else b"
  from "2.prems"(1) obtain y w1 where p: "Patch (nodes r) (labelNode key ?v n) n w = (Inr y, w1)"
    and rest: "labelAlternateNodes r key a b (Suc i) ns w1 = (Inr (), w')"
    by (auto simp: Let_def split: prod.splits sum.splits)
  have "api_Patch (nodes r) (labelNode key ?v n) n (server w) = (Inr y, server w1)"
    using p unfolding Patch_def by (rule server_perform)
  note one = patch_label [OF "2.prems"(2,3) _ this]
  have ok1: "ok (server w1)" and lbl1: "\<And>m k. lbl (server w1) m k =
      (if m = Name (node_meta n) \<and> k = key then Some ?v else lbl (server w) m k)"
    using one "2.prems"(5) by auto
  have fresh: "\<forall>n'\<in>set ns. Name (node_meta n') \<noteq> Name (node_meta n)"
    using "2.prems"(4) by (force simp: image_iff)
  have IH: "ok (server w') \<and>
      (\<forall>m k. (k \<noteq> key \<or> (\<forall>n\<in>set ns. m \<noteq> Name (node_meta n))) \<longrightarrow> lbl (server w') m k = lbl (server w1) m k) \<and>
      (\<forall>j<length ns. lbl (server w') (Name (node_meta (ns ! j))) key =
         Some (if (Suc i + j) mod 2 = 0 then a else b))"
    by (rule "2.IH" [OF refl p [symmetric] refl rest "2.prems"(2) ok1])
       (use "2.prems"(4,5) lbl1 fresh in auto)
  have here: "lbl (server w') (Name (node_meta n)) key = Some ?v"
    using IH lbl1 fresh by metis
  have later: "lbl (server w') (Name (node_meta ((n # ns) ! j))) key = Some (if (i + j) mod 2 = 0 then a else b)"
    if "j < length (n # ns)" for j
    using that here IH by (cases j) auto
  show ?case using IH lbl1 later by auto
qed simp

lemma schedulable_labels:
  "schedulable (getAffinityDefinition TypeMaster ns) l \<longleftrightarrow> l (masterNodeLabelKey ns) = Some ''true''"
  "schedulable (getAffinityDefinition TypeSegmentA ns) l \<longleftrightarrow> l (segNodeLabelKey ns) = Some ''a''"
  "schedulable (getAffinityDefinition TypeSegmentB ns) l \<longleftrightarrow> l (segNodeLabelKey ns) = Some ''b''"
  by (auto simp: schedulable_def getAffinityDefinition_def matches_requirement_def masterNodeLabelKey_def
        segNodeLabelKey_def split: option.splits)

lemma label_keys_distinct: "masterNodeLabelKey ns \<noteq> segNodeLabelKey ns"
  by (simp add: masterNodeLabelKey_def segNodeLabelKey_def)

text \<open>The listings of \<open>handleAntiAffinity\<close> and its two labellings, when it succeeds.\<close>

lemma handleAntiAffinity_yes:
  assumes "handleAntiAffinity r gc w = (Inr (), w')"
    and "gp_AntiAffinity (MasterAndStandby (Spec gc)) = ''yes'' \<or> gp_AntiAffinity (Segments (Spec gc)) = ''yes''"
  obtains ms ss w1 w2 w3 where
    "ListObjects (nodes r) '''' (map_make (gp_WorkerSelector (MasterAndStandby (Spec gc)))) w = (Inr ms, w1)"
    "ListObjects (nodes r) '''' (map_make (gp_WorkerSelector (Segments (Spec gc)))) w1 = (Inr ss, w2)"
    "isAntiAffinityValid gc ms ss = Inr ()"
    "labelAlternateNodes r (masterNodeLabelKey (Namespace (gc_meta gc))) ''true'' ''true'' 0 ms w2 = (Inr (), w3)"
    "labelAlternateNodes r (segNodeLabelKey (Namespace (gc_meta gc))) ''a'' ''b'' 0 ss w3 = (Inr (), w')"
proof -
  have "handleAntiAffinity_body r gc w = (Inr (), w')"
    using assms(1) by (auto simp: handleAntiAffinity_def split: prod.splits sum.splits)
  with assms(2) show thesis
    using that unfolding handleAntiAffinity_body_def
    by (simp split: prod.splits sum.splits)
qed

section \<open>Properties\<close>

text \<open>The labels after a successful anti-affinity pass: alternating on the segments' nodes, and one on every
  node of the masters.\<close>

definition listed_nodes :: "('s \<Rightarrow> string \<Rightarrow> string \<Rightarrow> string option) \<Rightarrow> 's \<Rightarrow> Node list \<Rightarrow> bool" where
  "listed_nodes lbl s xs \<longleftrightarrow> distinct (map (Name \<circ> node_meta) xs) \<and>
     (\<forall>n\<in>set xs. Namespace (node_meta n) = [] \<and> lbl s (Name (node_meta n)) = node_labels n)"

lemma node_laws_listed:
  "node_laws R ok lbl \<Longrightarrow> ok s \<Longrightarrow> api_List R ns l s = (Inr xs, s) \<Longrightarrow> listed_nodes lbl s xs"
  unfolding node_laws_def listed_nodes_def by blast

text \<open>The two labellings, of the nodes for masters and then of those for segments.\<close>

lemma both_labellings:
  assumes "node_laws (nodes r) ok lbl" "ok (server w)" "listed_nodes lbl (server w) ms" "listed_nodes lbl (server w) ss"
    and m: "labelAlternateNodes r (masterNodeLabelKey ns) ''true'' ''true'' 0 ms w = (Inr (), w1)"
    and s: "labelAlternateNodes r (segNodeLabelKey ns) ''a'' ''b'' 0 ss w1 = (Inr (), w')"
  shows "j < length ss \<Longrightarrow> lbl (server w') (Name (node_meta (ss ! j))) (segNodeLabelKey ns) = Some (if j mod 2 = 0 then ''a'' else ''b'')"
    and "n \<in> set ms \<Longrightarrow> lbl (server w') (Name (node_meta n)) (masterNodeLabelKey ns) = Some ''true''"
proof -
  let ?mk = "masterNodeLabelKey ns" and ?sk = "segNodeLabelKey ns"
  have "distinct (map (Name \<circ> node_meta) ms)"
    "\<forall>n\<in>set ms. Namespace (node_meta n) = [] \<and> lbl (server w) (Name (node_meta n)) ?mk = node_labels n ?mk"
    using assms(3) by (simp_all add: listed_nodes_def)
  note after_m = labelAlternateNodes_labels [OF m assms(1,2) this]
  have am: "ok (server w1)" "\<And>n k. k \<noteq> ?mk \<Longrightarrow> lbl (server w1) n k = lbl (server w) n k" using after_m by simp_all
  have am3: "lbl (server w1) (Name (node_meta n)) ?mk = Some ''true''" if n: "n \<in> set ms" for n
  proof -
    from n obtain j where "j < length ms" "n = ms ! j" by (auto simp: in_set_conv_nth)
    with after_m show ?thesis by simp
  qed
  have "distinct (map (Name \<circ> node_meta) ss)"
    "\<forall>n\<in>set ss. Namespace (node_meta n) = [] \<and> lbl (server w1) (Name (node_meta n)) ?sk = node_labels n ?sk"
    using assms(4) am(2) label_keys_distinct by (auto simp: listed_nodes_def eq_commute)
  note after_s = labelAlternateNodes_labels [OF s assms(1) am(1) this]
  show "j < length ss \<Longrightarrow> lbl (server w') (Name (node_meta (ss ! j))) ?sk = Some (if j mod 2 = 0 then ''a'' else ''b'')"
    using after_s by simp
  show "n \<in> set ms \<Longrightarrow> lbl (server w') (Name (node_meta n)) ?mk = Some ''true''"
    using after_s am3 label_keys_distinct by metis
qed

lemma anti_affinity_labels:
  assumes "node_laws (nodes r) ok lbl" "ok (server w)"
    and "gp_AntiAffinity (MasterAndStandby (Spec gc)) = ''yes'' \<or> gp_AntiAffinity (Segments (Spec gc)) = ''yes''"
    and "handleAntiAffinity r gc w = (Inr (), w')"
    and "api_List (nodes r) '''' (map_make (gp_WorkerSelector (Segments (Spec gc)))) (server w) = (Inr ss, server w)"
    and "api_List (nodes r) '''' (map_make (gp_WorkerSelector (MasterAndStandby (Spec gc)))) (server w) = (Inr ms, server w)"
  shows "j < length ss \<Longrightarrow> lbl (server w') (Name (node_meta (ss ! j))) (segNodeLabelKey (Namespace (gc_meta gc))) =
      Some (if j mod 2 = 0 then ''a'' else ''b'')"
    and "n \<in> set ms \<Longrightarrow> lbl (server w') (Name (node_meta n)) (masterNodeLabelKey (Namespace (gc_meta gc))) = Some ''true''"
    and "2 \<le> length ms" "2 \<le> length ss"
proof -
  let ?mk = "masterNodeLabelKey (Namespace (gc_meta gc))" and ?sk = "segNodeLabelKey (Namespace (gc_meta gc))"
  obtain ms' ss' w1 w2 w3 where
    l1: "ListObjects (nodes r) '''' (map_make (gp_WorkerSelector (MasterAndStandby (Spec gc)))) w = (Inr ms', w1)" and
    l2: "ListObjects (nodes r) '''' (map_make (gp_WorkerSelector (Segments (Spec gc)))) w1 = (Inr ss', w2)" and
    valid: "isAntiAffinityValid gc ms' ss' = Inr ()" and
    m: "labelAlternateNodes r ?mk ''true'' ''true'' 0 ms' w2 = (Inr (), w3)" and
    s: "labelAlternateNodes r ?sk ''a'' ''b'' 0 ss' w3 = (Inr (), w')"
    by (rule handleAntiAffinity_yes [OF assms(4,3)])
  have ms: "ms' = ms" "server w1 = server w"
    using l1 assms(6) by (auto simp: ListObjects_def perform_def)
  have ss: "ss' = ss" "server w2 = server w"
    using l2 assms(5) ms(2) by (auto simp: ListObjects_def perform_def)
  have "ok (server w2)" "listed_nodes lbl (server w2) ms" "listed_nodes lbl (server w2) ss"
    using node_laws_listed [OF assms(1,2)] assms(2,5,6) ss(2) by auto
  note labelled = both_labellings [OF assms(1) this m [unfolded ms(1)] s [unfolded ss(1)]]
  show "j < length ss \<Longrightarrow> lbl (server w') (Name (node_meta (ss ! j))) ?sk = Some (if j mod 2 = 0 then ''a'' else ''b'')"
    "n \<in> set ms \<Longrightarrow> lbl (server w') (Name (node_meta n)) ?mk = Some ''true''"
    using labelled by blast+
  show "2 \<le> length ms" "2 \<le> length ss"
    using valid ms ss by (auto simp: isAntiAffinityValid_def Let_def split: if_splits)
qed

text \<open>C9: After a successful anti-affinity pass the labels fit the selectors of the stateful sets:
  every node selected for segments can take pods of exactly one of segment-a and segment-b, at
  least one node can take each, so a primary and its mirror never share a node; and at least two
  nodes can take masters.\<close>

theorem anti_affinity_separates:
  assumes "node_laws (nodes r) ok lbl" "ok (server w)"
    and "gp_AntiAffinity (MasterAndStandby (Spec gc)) = ''yes'' \<or> gp_AntiAffinity (Segments (Spec gc)) = ''yes''"
    and "handleAntiAffinity r gc w = (Inr (), w')"
    and "api_List (nodes r) '''' (map_make (gp_WorkerSelector (Segments (Spec gc)))) (server w) = (Inr ss, server w)"
    and "api_List (nodes r) '''' (map_make (gp_WorkerSelector (MasterAndStandby (Spec gc)))) (server w) = (Inr ms, server w)"
  shows
    "let can = \<lambda>typ n. schedulable (getAffinityDefinition typ (Namespace (gc_meta gc))) (lbl (server w') (Name (node_meta n)))
     in (\<forall>n\<in>set ss. can TypeSegmentA n \<noteq> can TypeSegmentB n) \<and>
        (\<exists>n\<in>set ss. can TypeSegmentA n) \<and> (\<exists>n\<in>set ss. can TypeSegmentB n) \<and>
        (\<forall>n\<in>set ms. can TypeMaster n) \<and> 2 \<le> length ms"
proof -
  let ?sk = "segNodeLabelKey (Namespace (gc_meta gc))"
  note labels = anti_affinity_labels [OF assms]
  have "lbl (server w') (Name (node_meta n)) ?sk \<in> {Some ''a'', Some ''b''}" if "n \<in> set ss" for n
    using that labels(1) by (auto simp: in_set_conv_nth split: if_splits)
  moreover have "0 < length ss" "1 < length ss" using labels(4) by linarith+
  then have "ss ! 0 \<in> set ss" "ss ! 1 \<in> set ss" "lbl (server w') (Name (node_meta (ss ! 0))) ?sk = Some ''a''"
    "lbl (server w') (Name (node_meta (ss ! 1))) ?sk = Some ''b''"
    by (simp_all add: labels(1))
  ultimately show ?thesis
    using labels(2,3) by (auto simp: Let_def schedulable_labels)
qed

text \<open>The demonstration server satisfies the laws on tables of nodes with distinct names.\<close>

definition demo_node_ok :: "demo \<Rightarrow> bool" where
  "demo_node_ok s \<longleftrightarrow> distinct (map (Name \<circ> node_meta) (t_nodes s)) \<and>
     (\<forall>n\<in>set (t_nodes s). Namespace (node_meta n) = [])"

definition demo_label :: "demo \<Rightarrow> string \<Rightarrow> string \<rightharpoonup> string" where
  "demo_label s n = (case find (named node_meta [] n) (t_nodes s) of None \<Rightarrow> Map.empty | Some x \<Rightarrow> node_labels x)"

lemma map_of_filter_key: "map_of (filter (\<lambda>(k, v). P k) xs) k = (if P k then map_of xs k else None)"
  by (induction xs) auto

lemma node_labels_merge:
  "node_labels (merge_node x b y) k = (if node_labels x k \<noteq> node_labels b k then node_labels x k else node_labels y k)"
  by (auto simp: node_labels_def merge_node_def merge_labels_def map_add_def map_of_filter_key split: option.splits)

lemma merge_node_meta [simp]:
  "Name (node_meta (merge_node x b y)) = Name (node_meta y)"
  "Namespace (node_meta (merge_node x b y)) = Namespace (node_meta y)"
  by (simp_all add: merge_node_def)

lemma find_unique:
  "distinct (map (Name \<circ> node_meta) xs) \<Longrightarrow> n \<in> set xs \<Longrightarrow> Namespace (node_meta n) = [] \<Longrightarrow>
   find (named node_meta [] (Name (node_meta n))) xs = Some n"
  by (induction xs) (auto simp: named_def image_iff)

lemma find_map_merge:
  assumes "named node_meta [] m y"
  shows "find (named node_meta [] n) (map (\<lambda>z. if named node_meta [] m z then merge_node x b y else z) xs) =
    (if n = m \<and> find (named node_meta [] m) xs \<noteq> None then Some (merge_node x b y)
     else find (named node_meta [] n) xs)"
  using assms by (induction xs) (auto simp: named_def)

lemma demo_list_nodes:
  "api_List (nodes demo_nodes_r) ns l s = (Inr xs, s') \<Longrightarrow> nodes demo_nodes_r = nodes (demo_reconciler ex) \<Longrightarrow>
   s' = s \<and> set xs \<subseteq> set (t_nodes s) \<and>
   (distinct (map (Name \<circ> node_meta) (t_nodes s)) \<longrightarrow> distinct (map (Name \<circ> node_meta) xs))"
  by (auto simp: demo_reconciler_def table_api_def distinct_map_filter)

lemma demo_patch_nodes:
  assumes "api_Patch (nodes (demo_reconciler ex)) x b s = (Inr y, s')" "demo_node_ok s"
    and "Namespace (node_meta x) = []"
  shows "demo_node_ok s'"
    "demo_label s' n k = (if n = Name (node_meta x) \<and> node_labels x k \<noteq> node_labels b k
       then node_labels x k else demo_label s n k)"
proof -
  let ?m = "Name (node_meta x)"
  from assms(1,3) obtain z where z: "find (named node_meta [] ?m) (t_nodes s) = Some z"
    and s': "s' = s\<lparr>t_nodes := map (\<lambda>u. if named node_meta [] ?m u then merge_node x b z else u) (t_nodes s)\<rparr>"
    by (auto simp: demo_reconciler_def table_api_def split: option.splits)
  have zn: "Name (node_meta z) = ?m" "Namespace (node_meta z) = []"
    using z by (auto simp: find_Some_iff named_def)
  have "map (Name \<circ> node_meta) (t_nodes s') = map (Name \<circ> node_meta) (t_nodes s)"
    using zn by (auto simp: s' named_def)
  then have "distinct (map (Name \<circ> node_meta) (t_nodes s'))"
    using assms(2) by (simp only: demo_node_ok_def)
  moreover have "\<forall>n\<in>set (t_nodes s'). Namespace (node_meta n) = []"
    using assms(2) zn by (auto simp: demo_node_ok_def s')
  ultimately show "demo_node_ok s'" by (simp only: demo_node_ok_def)
  have "find (named node_meta [] n) (t_nodes s') =
      (if n = ?m then Some (merge_node x b z) else find (named node_meta [] n) (t_nodes s))"
    using find_map_merge [of ?m z] z zn by (simp add: s' named_def)
  with z show "demo_label s' n k = (if n = ?m \<and> node_labels x k \<noteq> node_labels b k
       then node_labels x k else demo_label s n k)"
    by (simp add: demo_label_def node_labels_merge)
qed

lemma demo_node_laws: "node_laws (nodes (demo_reconciler ex)) demo_node_ok demo_label"
  unfolding node_laws_def
proof (intro conjI allI impI ballI)
  fix ns l s xs s'
  assume ok: "demo_node_ok s" and l: "api_List (nodes (demo_reconciler ex)) ns l s = (Inr xs, s')"
  note facts = demo_list_nodes [OF l refl]
  show "s' = s" "distinct (map (Name \<circ> node_meta) xs)" using facts ok by (auto simp: demo_node_ok_def)
  fix n assume "n \<in> set xs"
  with facts ok have "n \<in> set (t_nodes s)" "Namespace (node_meta n) = []" by (auto simp: demo_node_ok_def)
  with ok show "Namespace (node_meta n) = []" "demo_label s (Name (node_meta n)) = node_labels n"
    by (simp_all add: demo_label_def demo_node_ok_def find_unique)
qed (rule demo_patch_nodes; assumption)+

definition demo_aff :: "demo GreenplumClusterReconciler" where
  "demo_aff = demo_reconciler (demo_exec ''master-0'' ''2'')"

definition demo_three :: demo where
  "demo_three = demo_empty\<lparr>t_nodes := [demo_node ''n1'', demo_node ''n2'', demo_node ''n3'']\<rparr>"

lemma demo_aff_run:
  "fst (handleAntiAffinity demo_aff (demo_cluster (demo_spec ''yes'' ''yes'' ''yes'' 2)) (demo_world demo_three)) = Inr ()"
  "api_List (nodes demo_aff) '''' [] demo_three = (Inr (t_nodes demo_three), demo_three)"
  by code_simp+

theorem anti_affinity_separates_witness:
  "\<exists>w'. handleAntiAffinity demo_aff (demo_cluster (demo_spec ''yes'' ''yes'' ''yes'' 2)) (demo_world demo_three) =
       (Inr (), w') \<and>
     (\<exists>n\<in>set (t_nodes demo_three). schedulable (getAffinityDefinition TypeSegmentB ''ns'')
        (demo_label (server w') (Name (node_meta n))))"
proof -
  let ?gc = "demo_cluster (demo_spec ''yes'' ''yes'' ''yes'' 2)"
  obtain w' where h: "handleAntiAffinity demo_aff ?gc (demo_world demo_three) = (Inr (), w')"
    using demo_aff_run(1) by (metis prod.collapse)
  have laws: "node_laws (nodes demo_aff) demo_node_ok demo_label" by (simp add: demo_aff_def demo_node_laws)
  have ok: "demo_node_ok (server (demo_world demo_three))"
    by (simp add: demo_node_ok_def demo_world_def demo_three_def demo_node_def objectMeta_def emptyMeta_def)
  have sel: "gp_WorkerSelector (Segments (Spec ?gc)) = None" "gp_WorkerSelector (MasterAndStandby (Spec ?gc)) = None"
    "gp_AntiAffinity (MasterAndStandby (Spec ?gc)) = ''yes''" "Namespace (gc_meta ?gc) = ''ns''"
    by (simp_all add: demo_cluster_def demo_spec_def objectMeta_def)
  have "\<exists>n\<in>set (t_nodes demo_three). schedulable (getAffinityDefinition TypeSegmentB ''ns'')
        (demo_label (server w') (Name (node_meta n)))"
    using anti_affinity_separates [OF laws ok _ h, of "t_nodes demo_three" "t_nodes demo_three"] demo_aff_run(2)
    by (simp add: sel Let_def demo_world_def)
  with h show ?thesis by blast
qed

end
