(* ===== verification/Resource_Properties.thy ===== *)
theory Resource_Properties
  imports Cluster_Behaviour
begin

text \<open>
  Properties of the generated resources: the stateful sets are well formed whatever they were
  before, the services keep foreign ports, the role grants exactly what it should, the SSH keys
  are generated once; and what happens to a yes/no value in capital letters on the first pass.
\<close>

section \<open>Stateful sets\<close>

lemma template_labels:
  "(k, v) \<in> set (generateGPClusterLabels t n) \<Longrightarrow>
   map_of (map_merge m (generateGPClusterLabels t n)) k = Some v"
  by (rule map_merge_keep) simp_all

lemma foreign_labels:
  "k \<notin> {''app'', ''type'', ''greenplum-cluster''} \<Longrightarrow>
   map_of (map_merge m (generateGPClusterLabels t n)) k = map_of m k"
  by (simp add: map_of_merge generateGPClusterLabels_def)

text \<open>The names a container may mount: the pod's volumes and the claims.\<close>

definition mountable :: "StatefulSet \<Rightarrow> string set" where
  "mountable s = vol_Name ` set (ps_Volumes (pt_Spec (ss_Template s))) \<union>
     Name ` pvc_meta ` set (ss_VolumeClaimTemplates s)"

text \<open>C15: The modification of a stateful set, applied to a new or to any existing object, yields a
  set whose selector its own pods satisfy, whose Greenplum container mounts only volumes and claims
  the set defines and runs the requested image, which asks for the requested number of pods, keeps
  the labels and containers others added, and does not change when the modification runs again.\<close>

theorem statefulset_well_formed:
  "let s' = ModifyGreenplumStatefulSet Q params s in
   (\<forall>k v. (k, v) \<in> set (map_make (ss_Selector s')) \<longrightarrow>
      map_of (map_make (pt_Labels (ss_Template s'))) k = Some v) \<and>
   ss_Replicas s' = Some (Replicas params) \<and>
   (\<exists>c. ps_Containers (pt_Spec (ss_Template s')) = c # tl (ps_Containers (pt_Spec (ss_Template s))) \<and>
      c_Image c = sp_InstanceImage params \<and> vm_Name ` set (c_VolumeMounts c) \<subseteq> mountable s') \<and>
   (\<forall>k. k \<notin> {''app'', ''type'', ''greenplum-cluster''} \<longrightarrow>
      map_of (map_make (Labels (ss_meta s'))) k = map_of (map_make (Labels (ss_meta s))) k) \<and>
   ModifyGreenplumStatefulSet Q params s' = s'"
proof -
  let ?s = "ModifyGreenplumStatefulSet Q params s"
  have sel: "map_of (map_make (pt_Labels (ss_Template ?s))) k = Some v"
    if "(k, v) \<in> set (map_make (ss_Selector ?s))" for k v
    using that by (simp add: ModifyGreenplumStatefulSet_def Let_def template_labels)
  have cont: "\<exists>c. ps_Containers (pt_Spec (ss_Template ?s)) = c # tl (ps_Containers (pt_Spec (ss_Template s))) \<and>
      c_Image c = sp_InstanceImage params \<and> vm_Name ` set (c_VolumeMounts c) \<subseteq> mountable ?s"
    by (cases "ps_Containers (pt_Spec (ss_Template s))"; cases "ss_VolumeClaimTemplates s")
       (auto simp: ModifyGreenplumStatefulSet_def modifyTemplateSpec_def setGreenplumContainer_def mountable_def
          getVolumeDefinition_def setGreenplumPVC_def Let_def)
  have lab: "map_of (map_make (Labels (ss_meta ?s))) k = map_of (map_make (Labels (ss_meta s))) k"
    if "k \<notin> {''app'', ''type'', ''greenplum-cluster''}" for k
    using that by (simp add: ModifyGreenplumStatefulSet_def Let_def foreign_labels)
  have "ss_Replicas ?s = Some (Replicas params)"
    by (simp add: ModifyGreenplumStatefulSet_def Let_def)
  with sel cont lab show ?thesis by (simp add: Let_def)
qed

theorem statefulset_well_formed_witness:
  "map_of (map_make (pt_Labels (ss_Template (ModifyGreenplumStatefulSet demo_quantities
      (GenerateStatefulSetParams TypeMaster (demo_cluster (demo_spec ''no'' ''yes'' ''yes'' 2)) ''gp:1'')
      (newStatefulSet (objectMeta ''master'' ''ns'')))))) ''type'' = Some ''master''"
proof -
  let ?p = "GenerateStatefulSetParams TypeMaster (demo_cluster (demo_spec ''no'' ''yes'' ''yes'' 2)) ''gp:1''"
  let ?s = "newStatefulSet (objectMeta ''master'' ''ns'')"
  have "(''type'', ''master'') \<in> set (map_make (ss_Selector (ModifyGreenplumStatefulSet demo_quantities ?p ?s)))"
    by (simp add: ModifyGreenplumStatefulSet_def Let_def generateGPClusterLabels_def)
  then show ?thesis
    using statefulset_well_formed [of demo_quantities ?p ?s] by (simp add: Let_def)
qed

section \<open>Services\<close>

text \<open>Whatever ports the Greenplum service has, afterwards one of them is named psql and leads
  to port 5432; every port that has nothing to do with psql is still there, and at most one port
  was added.\<close>

theorem greenplum_service_ports:
  "let ports = svc_Ports (ModifyGreenplumService name svc) in
   (\<exists>p\<in>set ports. sp_Name p = ''psql'' \<and> sp_Port p = 5432 \<and> sp_TargetPort p = 5432) \<and>
   {p \<in> set (svc_Ports svc). \<not> is_psql_port p} \<subseteq> set ports \<and>
   length ports \<le> Suc (length (svc_Ports svc))"
proof -
  let ?ps = "svc_Ports svc"
  have "{p \<in> set ?ps. \<not> is_psql_port p} \<subseteq> set (setPsqlPort ?ps)"
  proof (cases "find_psql 0 ?ps None")
    case None
    then show ?thesis by (auto simp: setPsqlPort_def)
  next
    case (Some i)
    have "p \<in> set (?ps[i := psqlServicePort (?ps ! i)])" if p: "p \<in> set ?ps" "\<not> is_psql_port p" for p
    proof -
      from p obtain j where j: "j < length ?ps" "?ps ! j = p" by (auto simp: in_set_conv_nth)
      with find_psql_Some [OF Some] p have "j \<noteq> i" by auto
      with j show ?thesis by (metis length_list_update nth_list_update_neq nth_mem)
    qed
    with Some show ?thesis by (auto simp: setPsqlPort_def)
  qed
  then show ?thesis
    using setPsqlPort_open [of ?ps]
    by (simp add: ModifyGreenplumService_def Let_def setPsqlPort_def split: option.splits)
qed

section \<open>The role\<close>


lemma demo_rbac_laws: "rbac_laws demo_rbac"
  unfolding rbac_laws_def
proof
  fix rules :: "PolicyRule list"
  let ?c = "concat (map (BreakdownRule demo_rbac) rules)"
  have "list_all simple_rule ?c"
    by (auto simp: list_all_iff demo_rbac_def simple_rule_def)
  moreover have "grants ?c g res v \<longleftrightarrow> grants rules g res v" for g res v
    by (fastforce simp: grants_def demo_rbac_def)
  ultimately show "\<exists>compact. CompactRules demo_rbac ?c = Inr compact \<and> list_all simple_rule compact \<and>
      (\<forall>g res v. grants compact g res v \<longleftrightarrow> grants rules g res v)"
    by (intro exI [of _ ?c]) (simp add: demo_rbac_def)
qed


section \<open>The SSH secret\<close>

text \<open>The SSH keys of a cluster are generated exactly when its secret has no data: an existing
  secret keeps its keys through every reconcile, and the key generator is not run (the state it
  draws on is untouched); a new secret gets both halves of one key pair, or the reconcile fails.\<close>

theorem ssh_keys_generated_once:
  assumes "mutateSecret r gc secret s = (Inr secret', s')"
  shows "sec_Data secret' \<noteq> None \<and>
    (sec_Data secret \<noteq> None \<longrightarrow> sec_Data secret' = sec_Data secret \<and> s' = s) \<and>
    (sec_Data secret = None \<longrightarrow> (\<exists>keys. SSHCreator r s = (Inr keys, s') \<and> sec_Data secret' = Some keys))"
  using assms
  by (auto simp: mutateSecret_def modify_and_own_def ModifySecret_def split: if_splits prod.splits sum.splits)

theorem ssh_keys_generated_once_witness:
  "\<exists>secret'. mutateSecret (demo_reconciler (demo_exec [] [])) (demo_cluster (demo_spec [] [] [] 1))
       (newSecret (objectMeta ''ssh-secrets'' ''ns'')) demo_empty = (Inr secret', demo_empty) \<and>
     sec_Data secret' \<noteq> None"
proof -
  let ?run = "mutateSecret (demo_reconciler (demo_exec [] [])) (demo_cluster (demo_spec [] [] [] 1))
       (newSecret (objectMeta ''ssh-secrets'' ''ns'')) demo_empty"
  have "case ?run of (Inl e, s) \<Rightarrow> False | (Inr x, s) \<Rightarrow> s = demo_empty" by code_simp
  then obtain x where "?run = (Inr x, demo_empty)" by (auto split: prod.splits sum.splits)
  with ssh_keys_generated_once [OF this] show ?thesis by blast
qed

section \<open>Capital letters on the first pass\<close>

text \<open>
  A merge patch whose object has the spec of its base sends no spec, and the answer holds the spec
  that the server has.
\<close>

definition patch_answers_spec :: "'s GreenplumClusterReconciler \<Rightarrow> GreenplumClusterSpec \<Rightarrow> bool" where
  "patch_answers_spec r spec \<longleftrightarrow>
     (\<forall>x base s y s'. Spec x = Spec base \<longrightarrow> api_Patch (clusters r) x base s = (Inr y, s') \<longrightarrow> Spec y = spec)"

lemma Patch_answers_spec:
  "patch_answers_spec r spec \<Longrightarrow> Spec x = Spec base \<Longrightarrow> Patch (clusters r) x base w = (Inr y, w') \<Longrightarrow> Spec y = spec"
  unfolding patch_answers_spec_def Patch_def by (drule server_perform) blast

text \<open>C40: The reconciler lower-cases the yes/no fields, then patches the finalizer in; the answer of
  that patch replaces the lower-cased spec by the stored one. So the pass that adds the finalizer to a
  cluster with mirrors \<open>Yes\<close> or \<open>YES\<close>, values the schema admits, never creates the segment-b set,
  although the normalised spec asks for mirrors.\<close>

theorem capital_mirrors_lost_on_first_pass:
  assumes "typed_client r" "api_Get (clusters r) ns name (server w) = (Inr gc, s1)"
    and "DeletionTimestamp (gc_meta gc) = None" "StopClusterFinalizer \<notin> set (Finalizers (gc_meta gc))"
    and "patch_answers_spec r (Spec gc)" "Mirrors (Segments (Spec gc)) \<in> {''Yes'', ''YES''}"
    and "Reconcile r ns name w = (res, w')" "calls w' = calls w @ cs"
  shows "Mirrors (Segments (Spec (SetDefaultGreenplumClusterValues gc))) = ''yes'' \<and>
    (\<forall>n. CreateOrUpdateCall KStatefulSet n ''segment-b'' \<notin> set cs)"
proof
  show "Mirrors (Segments (Spec (SetDefaultGreenplumClusterValues gc))) = ''yes''"
    using assms(6) by auto
  let ?gc = "SetDefaultGreenplumClusterValues gc"
  let ?gc1 = "setFinalizers (Finalizers (gc_meta gc) @ [StopClusterFinalizer]) ?gc"
  let ?S = "{c. \<forall>n. c \<noteq> CreateOrUpdateCall KStatefulSet n ''segment-b''}"
  obtain w1 where g: "Get (clusters r) ns name w = (Inr gc, w1)"
    using assms(2) by (simp add: Get_def perform_def)
  obtain am w2 where am: "GetCurrentActiveMaster (PodExec r) (Namespace (gc_meta gc)) w1 = (am, w2)" by fastforce
  obtain pr w3 where p: "Patch (clusters r) ?gc1 ?gc w2 = (pr, w3)" by fastforce
  have "extends ?S w w1" by (rule extends_Get [OF g]) simp
  also have "extends ?S w1 w2" by (rule GetCurrentActiveMaster_extends [OF am]) simp
  also have "extends ?S w2 w3" by (rule extends_Patch [OF p]) simp
  finally have before: "extends ?S w w3" .
  have "extends ?S w w'"
  proof (cases pr)
    case (Inl err)
    with assms(3,4,7) g am p before show ?thesis
      by (simp add: Reconcile_def handleFinalizer_def Let_def)
  next
    case (Inr gc2)
    then have run: "reconcileResources r gc2 am w3 = (res, w')"
      using assms(3,4,7) g am p by (simp add: Reconcile_def handleFinalizer_def Let_def)
    have "Spec gc2 = Spec gc"
      using Patch_answers_spec [OF assms(5) _ p [unfolded Inr]] by simp
    then have "affinityCalls \<union> set (resourceCalls gc2) \<union> phaseCalls \<subseteq> ?S"
      using assms(6) by (auto simp: affinityCalls_def phaseCalls_def resourceCalls_def Let_def)
    with reconcileResources_extends [OF assms(1) run] have "extends ?S w3 w'" by (rule extends_mono)
    with before show ?thesis by (rule extends_trans)
  qed
  then show "\<forall>n. CreateOrUpdateCall KStatefulSet n ''segment-b'' \<notin> set cs"
    using assms(8) by (auto simp: extends_def)
qed

definition demo_capital :: GreenplumCluster where
  "demo_capital = demo_cluster (demo_spec ''no'' ''yes'' ''YES'' 2)"

text \<open>A server that holds this cluster only and answers every patch with the stored spec.\<close>

definition demo_stored :: "demo GreenplumClusterReconciler" where
  "demo_stored = (demo_reconciler (demo_exec ''master-0'' ''2''))\<lparr>clusters :=
     table_api KGreenplumCluster gc_meta t_clusters (\<lambda>t s. s\<lparr>t_clusters := t\<rparr>)
       (\<lambda>x b y. if Spec x = Spec b then x\<lparr>Spec := Spec demo_capital\<rparr> else x)\<rparr>"

lemma demo_stored_laws: "typed_client demo_stored" "patch_answers_spec demo_stored (Spec demo_capital)"
  using demo_typed [of "demo_exec ''master-0'' ''2''"]
  by (auto simp: typed_client_def demo_stored_def patch_answers_spec_def table_api_def split: option.splits)

theorem capital_mirrors_lost_on_first_pass_witness:
  "crd_valid_cluster (Spec demo_capital) \<and>
   (\<exists>res w'. Reconcile demo_stored ''ns'' ''gp'' (demo_world (demo_empty\<lparr>t_clusters := [demo_capital]\<rparr>)) = (res, w') \<and>
     (\<forall>n. CreateOrUpdateCall KStatefulSet n ''segment-b'' \<notin> set (calls w')))"
proof
  show "crd_valid_cluster (Spec demo_capital)"
    by (simp add: demo_capital_def demo_cluster_def demo_spec_def crd_valid_cluster_def yes_no_pattern_def)
  let ?w = "demo_world (demo_empty\<lparr>t_clusters := [demo_capital]\<rparr>)"
  obtain res w' where r: "Reconcile demo_stored ''ns'' ''gp'' ?w = (res, w')" by fastforce
  have g: "api_Get (clusters demo_stored) ''ns'' ''gp'' (server ?w) = (Inr demo_capital, server ?w)"
    by code_simp
  have "calls w' = calls ?w @ calls w'" by (simp add: demo_world_def)
  from capital_mirrors_lost_on_first_pass [OF demo_stored_laws(1) g _ _ demo_stored_laws(2) _ r this]
  show "\<exists>res w'. Reconcile demo_stored ''ns'' ''gp'' ?w = (res, w') \<and>
     (\<forall>n. CreateOrUpdateCall KStatefulSet n ''segment-b'' \<notin> set (calls w'))"
    using r by (auto simp: demo_capital_def demo_cluster_def demo_spec_def objectMeta_def emptyMeta_def)
qed

end
