(* ===== verification/Pxf.thy ===== *)
theory Pxf
  imports Cluster_Controller
begin

text \<open>
  The PXF service: the deployment and the service it consists of
  (\<open>greenplum-operator/pkg/pxf/pxf.go\<close>) and the reconciler of \<open>GreenplumPXFService\<close> objects
  (\<open>greenplum-operator/controllers/greenplumpxfservice_controller.go\<close>). The modifications satisfy
  the contract \<open>resource_modifier\<close>; the lemmas give the calls of a reconcile and its phases.
\<close>

section \<open>Definitions\<close>

definition generateLabels :: "string \<Rightarrow> smap" where
  "generateLabels name = [(''app'', PXFAppName), (''greenplum-pxf'', name)]"

definition plainEnv :: "string \<Rightarrow> string \<Rightarrow> EnvVar" where
  "plainEnv n v = \<lparr>env_Name = n, env_Value = v, env_SecretKeyRef = None\<rparr>"

definition secretEnv :: "string \<Rightarrow> string \<Rightarrow> string \<Rightarrow> EnvVar" where
  "secretEnv n secret key = \<lparr>env_Name = n, env_Value = [], env_SecretKeyRef = Some (secret, key)\<rparr>"

definition generateS3Env :: "S3Source \<Rightarrow> EnvVar list" where
  "generateS3Env s3Source =
     (let endpointIsSecure = (s3_Protocol s3Source \<noteq> ''http'')
      in [secretEnv ''S3_SECRET_ACCESS_KEY'' (s3_Secret s3Source) ''secret_access_key'',
          secretEnv ''S3_ACCESS_KEY_ID'' (s3_Secret s3Source) ''access_key_id'',
          plainEnv ''S3_BUCKET'' (s3_Bucket s3Source),
          plainEnv ''S3_ENDPOINT'' (s3_EndPoint s3Source),
          plainEnv ''S3_ENDPOINT_IS_SECURE'' (SprintBool endpointIsSecure),
          plainEnv ''S3_FOLDER'' (s3_Folder s3Source)])"

definition pxfEnv :: "GreenplumPXFServiceSpec \<Rightarrow> EnvVar list" where
  "pxfEnv spec =
     plainEnv ''PXF_JVM_OPTS'' ''-XX:MaxRAMPercentage=75.0'' #
     (case PXFConf spec of
        None \<Rightarrow> []
      | Some conf \<Rightarrow> (if s3_Secret (pxfconf_S3Source conf) \<noteq> '''' then generateS3Env (pxfconf_S3Source conf) else []))"

definition setPXFContainer ::
  "quantity_ops \<Rightarrow> GreenplumPXFServiceSpec \<Rightarrow> string \<Rightarrow> Container \<Rightarrow> Container"
where
  "setPXFContainer Q spec img container =
     (let limits = map_make (c_Limits container);
          new = q_Cmp Q (limit_or_zero limits ''cpu'') (pxf_CPU spec) \<noteq> 0 \<or>
                q_Cmp Q (limit_or_zero limits ''memory'') (pxf_Memory spec) \<noteq> 0
      in container
       \<lparr>c_Env := pxfEnv spec,
        c_Name := ''pxf'',
        c_Args := [''/home/gpadmin/tools/startPXF''],
        c_Image := img,
        c_ImagePullPolicy := ''IfNotPresent'',
        c_Ports := [(5888, ''TCP'')],
        c_ReadinessProbe := Some
          ((case c_ReadinessProbe container of None \<Rightarrow> emptyProbe | Some p \<Rightarrow> p)
             \<lparr>pr_Handler := ExecAction [''/usr/local/pxf-gp6/bin/pxf'', ''status''],
              pr_InitialDelaySeconds := 30, pr_TimeoutSeconds := 5\<rparr>),
        c_Limits := (if new then Some [(''cpu'', pxf_CPU spec), (''memory'', pxf_Memory spec)]
                     else c_Limits container),
        c_Requests := (if new then None else c_Requests container)\<rparr>)"

definition ModifyDeployment ::
  "quantity_ops \<Rightarrow> GreenplumPXFService \<Rightarrow> string \<Rightarrow> Deployment \<Rightarrow> Deployment"
where
  "ModifyDeployment Q greenplumPXF img deployment =
     (let labels = generateLabels (Name (pxf_meta greenplumPXF));
          spec = pxf_Spec greenplumPXF;
          templateSpec = pt_Spec (d_Template deployment)
      in deployment
       \<lparr>d_meta := (d_meta deployment)\<lparr>Labels := Some labels\<rparr>,
        d_Replicas := Some (pxf_Replicas spec),
        d_Selector := Some labels,
        d_Template := (d_Template deployment)
          \<lparr>pt_Labels := Some labels,
           pt_Spec := templateSpec
             \<lparr>ps_NodeSelector := pxf_WorkerSelector spec,
              ps_ImagePullSecrets := [''regsecret''],
              ps_Containers := (case ps_Containers templateSpec of
                  [] \<Rightarrow> [setPXFContainer Q spec img emptyContainer]
                | c # cs \<Rightarrow> setPXFContainer Q spec img c # cs)\<rparr>\<rparr>\<rparr>)"

definition ModifyService :: "GreenplumPXFService \<Rightarrow> Service \<Rightarrow> Service" where
  "ModifyService greenplumPXF service =
     (let labels = generateLabels (Name (pxf_meta greenplumPXF))
      in service
       \<lparr>svc_meta := (svc_meta service)\<lparr>Labels := Some labels\<rparr>,
        svc_Selector := Some labels,
        svc_Ports := [emptyPort\<lparr>sp_Port := 5888, sp_Protocol := ''TCP'', sp_TargetPort := 5888\<rparr>]\<rparr>)"

subsection \<open>The reconciler\<close>

record 's GreenplumPXFServiceReconciler =
  pxfServices :: "('s, GreenplumPXFService) resource_api"
  pxfServiceObjects :: "('s, Service) resource_api"
  deployments :: "('s, Deployment) resource_api"
  pxfr_InstanceImage :: string
  pxfr_SetControllerReference :: set_reference
  pxfr_quantities :: quantity_ops

definition pxfPhase :: "int32 \<Rightarrow> Deployment \<Rightarrow> GreenplumPXFServicePhase" where
  "pxfPhase desiredReplicas d =
     (if d_ReadyReplicas d = 0 then PXFPhasePending
      else if d_UnavailableReplicas d \<noteq> 0 \<or> sint (d_UpdatedReplicas d) < sint desiredReplicas
      then PXFPhaseDegraded
      else PXFPhaseRunning)"

text \<open>The last part of the reconcile: the status from the deployment as the server answered it.\<close>

definition updatePXFStatus ::
  "'s GreenplumPXFServiceReconciler \<Rightarrow> GreenplumPXFService \<Rightarrow> Deployment \<Rightarrow> ('s, unit result) io"
where
  "updatePXFStatus r pxf d w =
     (let newPXF = pxf\<lparr>pxf_Phase := pxfPhase (pxf_Replicas (pxf_Spec pxf)) d\<rparr>
      in if pxf_Phase newPXF \<noteq> pxf_Phase pxf
         then (case Patch (pxfServices r) newPXF pxf w of
                 (Inl err, w1) \<Rightarrow> (Inl err, w1)
               | (Inr x, w1) \<Rightarrow> (Inr (), w1))
         else (Inr (), w))"

definition mutatePXFService ::
  "'s GreenplumPXFServiceReconciler \<Rightarrow> GreenplumPXFService \<Rightarrow> Service \<Rightarrow> 's \<Rightarrow> Service result \<times> 's"
where
  "mutatePXFService r pxf x s =
     (modify_and_own (pxfr_SetControllerReference r) (pxf_meta pxf) svc_meta (\<lambda>m x. x\<lparr>svc_meta := m\<rparr>)
        (ModifyService pxf) x, s)"

definition mutatePXFDeployment ::
  "'s GreenplumPXFServiceReconciler \<Rightarrow> GreenplumPXFService \<Rightarrow> Deployment \<Rightarrow> 's \<Rightarrow> Deployment result \<times> 's"
where
  "mutatePXFDeployment r pxf x s =
     (modify_and_own (pxfr_SetControllerReference r) (pxf_meta pxf) d_meta (\<lambda>m x. x\<lparr>d_meta := m\<rparr>)
        (ModifyDeployment (pxfr_quantities r) pxf (pxfr_InstanceImage r)) x, s)"

text \<open>The part of the reconcile that has found the image to be this operator's.\<close>

definition reconcilePXF ::
  "'s GreenplumPXFServiceReconciler \<Rightarrow> string \<Rightarrow> string \<Rightarrow> ('s, unit result) io"
where
  "reconcilePXF r ns name w =
     (case Get (pxfServices r) ns name w of
        (Inl err, w1) \<Rightarrow>
          (if IsNotFound err then (Inr (), w1)
           else (Inl (Wrap ''unable to fetch GreenplumPXFService'' err), w1))
      | (Inr pxf, w1) \<Rightarrow>
          (let m = objectMeta (Name (pxf_meta pxf)) (Namespace (pxf_meta pxf))
           in case CreateOrUpdate (pxfServiceObjects r) (newService m) (mutatePXFService r pxf) w1 of
                (Inl err, w2) \<Rightarrow> (Inl (Wrap ''unable to CreateOrUpdate PXF Service'' err), w2)
              | (Inr res, w2) \<Rightarrow>
                  (case CreateOrUpdate (deployments r) (newDeployment m) (mutatePXFDeployment r pxf) w2 of
                     (Inl err, w3) \<Rightarrow> (Inl (Wrap ''unable to CreateOrUpdate PXF Deployment'' err), w3)
                   | (Inr (res, d), w3) \<Rightarrow> updatePXFStatus r pxf d w3)))"

definition PXF_Reconcile ::
  "'s GreenplumPXFServiceReconciler \<Rightarrow> string \<Rightarrow> string \<Rightarrow> ('s, unit result) io"
where
  "PXF_Reconcile r ns name w =
     (case Get (deployments r) ns name w of
        (Inr d, w1) \<Rightarrow>
          (case ps_Containers (pt_Spec (d_Template d)) of
             [] \<Rightarrow> (Inl index_panic, w1)
           | c # cs \<Rightarrow>
               (if c_Image c \<noteq> pxfr_InstanceImage r then (Inr (), w1)
                else reconcilePXF r ns name w1))
      | (Inl err, w1) \<Rightarrow>
          (if \<not> IsNotFound err then (Inl (Wrap ''unable to fetch PXF Deployment'' err), w1)
           else reconcilePXF r ns name w1))"

section \<open>Lemmas\<close>

lemma setPXFContainer_idem [simp]:
  "setPXFContainer Q spec i (setPXFContainer Q spec i c) = setPXFContainer Q spec i c"
  by (simp add: setPXFContainer_def Let_def)

lemma ModifyDeployment_idem [simp]:
  "ModifyDeployment Q p i (ModifyDeployment Q p i d) = ModifyDeployment Q p i d"
  by (simp add: ModifyDeployment_def Let_def split: list.splits)

lemma ModifyService_idem [simp]: "ModifyService p (ModifyService p s) = ModifyService p s"
  by (simp add: ModifyService_def Let_def)

interpretation pxf_deployment_modifier: resource_modifier d_meta "\<lambda>m x. x\<lparr>d_meta := m\<rparr>"
  "ModifyDeployment Q pxf img" for Q pxf img
  by unfold_locales (simp_all add: ModifyDeployment_def Let_def split: list.splits)

interpretation pxf_service_modifier: resource_modifier svc_meta "\<lambda>m x. x\<lparr>svc_meta := m\<rparr>"
  "ModifyService pxf" for pxf
  by unfold_locales (simp_all add: ModifyService_def Let_def)

lemma settles_mutatePXF:
  assumes "reference_laws (pxfr_SetControllerReference r)"
  shows "settles (mutatePXFService r pxf)" "settles (mutatePXFDeployment r pxf)"
  using pxf_service_modifier.own_settles [OF assms] pxf_deployment_modifier.own_settles [OF assms]
  by (auto simp: settles_def mutatePXFService_def mutatePXFDeployment_def)

text \<open>Each component of the client works on the kind of object its type says.\<close>

definition typed_pxf_client :: "'s GreenplumPXFServiceReconciler \<Rightarrow> bool" where
  "typed_pxf_client r \<longleftrightarrow>
     api_kind (pxfServices r) = KGreenplumPXFService \<and> api_meta (pxfServices r) = pxf_meta \<and>
     api_kind (pxfServiceObjects r) = KService \<and> api_meta (pxfServiceObjects r) = svc_meta \<and>
     api_kind (deployments r) = KDeployment \<and> api_meta (deployments r) = d_meta"

lemma CreateOrUpdate_kept:
  assumes "unchanged_law R" "kept R x f (server w)"
  shows "\<exists>y w1. CreateOrUpdate R x f w = (Inr (OpNone, y), w1) \<and> server w1 = server w \<and>
    api_Get R (Namespace (api_meta R x)) (Name (api_meta R x)) (server w) = (Inr y, server w)"
proof -
  from assms(2) obtain y where y:
    "api_Get R (Namespace (api_meta R x)) (Name (api_meta R x)) (server w) = (Inr y, server w)"
    "f y (server w) = (Inr y, server w)"
    by (auto simp: kept_def)
  with assms(1) have "api_CreateOrUpdate R x f (server w) = (Inr (OpNone, y), server w)"
    by (simp add: unchanged_law_def)
  with y show ?thesis by (simp add: CreateOrUpdate_def perform_def)
qed

end
