(* ===== verification/Pxf_Properties.thy ===== *)
theory Pxf_Properties
  imports Pxf Demo_Server
begin

text \<open>
  The properties of the PXF reconciler: its calls and their order, what its phases mean, and that
  a settled PXF service is left alone; with a demonstration server of its three kinds of object.
\<close>

section \<open>Definitions\<close>

definition pxfCalls :: "string \<Rightarrow> string \<Rightarrow> api_call list" where
  "pxfCalls ns name =
     [GetCall KDeployment ns name, GetCall KGreenplumPXFService ns name,
      CreateOrUpdateCall KService ns name, CreateOrUpdateCall KDeployment ns name,
      PatchCall KGreenplumPXFService ns name]"

text \<open>A read answers with the object that was asked for.\<close>

definition get_identity :: "('s, 'a) resource_api \<Rightarrow> bool" where
  "get_identity R \<longleftrightarrow>
     (\<forall>ns n s x s'. api_Get R ns n s = (Inr x, s') \<longrightarrow> Name (api_meta R x) = n \<and> Namespace (api_meta R x) = ns)"

record pxf_demo =
  p_pxfs :: "GreenplumPXFService list"
  p_services :: "Service list"
  p_deployments :: "Deployment list"

definition pxf_demo_reconciler :: "pxf_demo GreenplumPXFServiceReconciler" where
  "pxf_demo_reconciler =
     \<lparr>pxfServices = table_api KGreenplumPXFService pxf_meta p_pxfs (\<lambda>t s. s\<lparr>p_pxfs := t\<rparr>) (\<lambda>x b y. x),
      pxfServiceObjects = table_api KService svc_meta p_services (\<lambda>t s. s\<lparr>p_services := t\<rparr>) (\<lambda>x b y. x),
      deployments = table_api KDeployment d_meta p_deployments (\<lambda>t s. s\<lparr>p_deployments := t\<rparr>) (\<lambda>x b y. x),
      pxfr_InstanceImage = ''gp:1'',
      pxfr_SetControllerReference = append_owner,
      pxfr_quantities = demo_quantities\<rparr>"

definition demo_pxf :: "GreenplumPXFServicePhase \<Rightarrow> GreenplumPXFService" where
  "demo_pxf ph =
     \<lparr>pxf_meta = objectMeta ''pxf'' ''ns'',
      pxf_Spec = \<lparr>pxf_Replicas = 2, pxf_CPU = Quantity ''1'', pxf_Memory = Quantity ''1Gi'',
        pxf_WorkerSelector = None, PXFConf = None\<rparr>,
      pxf_Phase = ph\<rparr>"

definition pxf_demo_start :: "pxf_demo world" where
  "pxf_demo_start = \<lparr>server = \<lparr>p_pxfs = [demo_pxf PXFPhaseNone], p_services = [], p_deployments = []\<rparr>, calls = []\<rparr>"

definition pxf_demo_settled :: "pxf_demo world" where
  "pxf_demo_settled = \<lparr>server = server (snd (PXF_Reconcile pxf_demo_reconciler ''ns'' ''pxf'' pxf_demo_start)), calls = []\<rparr>"

section \<open>Lemmas\<close>

lemma table_get_identity: "get_identity (table_api k m t st mg)"
  by (auto simp: get_identity_def table_api_def named_def find_Some_iff split: option.splits)

lemma pxf_demo_typed: "typed_pxf_client pxf_demo_reconciler"
  by (simp add: typed_pxf_client_def pxf_demo_reconciler_def)

lemma pxf_demo_laws:
  "get_identity (pxfServices pxf_demo_reconciler)" "unchanged_law (pxfServiceObjects pxf_demo_reconciler)"
  "unchanged_law (deployments pxf_demo_reconciler)"
  "reference_laws (pxfr_SetControllerReference pxf_demo_reconciler)"
  by (simp_all add: pxf_demo_reconciler_def table_get_identity table_api_unchanged append_owner_laws)

lemma updatePXFStatus_calls:
  assumes "typed_pxf_client r" "updatePXFStatus r pxf d w = (res, w')"
  shows "calls w' = calls w @
    (if pxfPhase (pxf_Replicas (pxf_Spec pxf)) d \<noteq> pxf_Phase pxf
     then [PatchCall KGreenplumPXFService (Namespace (pxf_meta pxf)) (Name (pxf_meta pxf))] else [])"
  using assms
  by (auto simp: updatePXFStatus_def typed_pxf_client_def Let_def split: if_splits prod.splits sum.splits dest!: calls_Patch)

text \<open>The calls after the image check.\<close>

lemma reconcilePXF_calls:
  assumes "typed_pxf_client r" "get_identity (pxfServices r)" "reconcilePXF r ns name w = (res, w')"
  shows "\<exists>n\<le>4. calls w' = calls w @ take n (tl (pxfCalls ns name))"
proof -
  have k: "api_kind (pxfServices r) = KGreenplumPXFService" "api_kind (pxfServiceObjects r) = KService"
    "api_kind (deployments r) = KDeployment" "api_meta (pxfServices r) = pxf_meta"
    "api_meta (pxfServiceObjects r) = svc_meta" "api_meta (deployments r) = d_meta"
    using assms(1) by (simp_all add: typed_pxf_client_def)
  obtain g w1 where g: "Get (pxfServices r) ns name w = (g, w1)" by fastforce
  note c1 = calls_Get [OF g, unfolded k]
  show ?thesis
  proof (cases g)
    case (Inl err)
    with assms(3) g c1 show ?thesis
      by (intro exI [of _ 1]) (simp add: reconcilePXF_def pxfCalls_def split: if_splits)
  next
    case (Inr pxf)
    have id: "Name (pxf_meta pxf) = name" "Namespace (pxf_meta pxf) = ns"
      using assms(2) g k unfolding Inr Get_def get_identity_def by (metis server_perform)+
    let ?m = "objectMeta name ns"
    obtain r2 w2 where s: "CreateOrUpdate (pxfServiceObjects r) (newService ?m) (mutatePXFService r pxf) w1 = (r2, w2)"
      by fastforce
    obtain r3 w3 where d: "CreateOrUpdate (deployments r) (newDeployment ?m) (mutatePXFDeployment r pxf) w2 = (r3, w3)"
      by fastforce
    note c2 = calls_CreateOrUpdate [OF s, unfolded k, simplified]
    note c3 = calls_CreateOrUpdate [OF d, unfolded k, simplified]
    note run = assms(3) [unfolded reconcilePXF_def g Inr Let_def, simplified, unfolded id s]
    show ?thesis
    proof (cases r2)
      case (Inl err)
      with run c1 c2 show ?thesis by (intro exI [of _ 2]) (simp add: pxfCalls_def)
    next
      case i2: (Inr x2)
      show ?thesis
      proof (cases r3)
        case (Inl err)
        with run i2 d c1 c2 c3 show ?thesis by (intro exI [of _ 3]) (simp add: pxfCalls_def)
      next
        case (Inr x3)
        then obtain o3 dep where x3: "x3 = (o3, dep)" by (cases x3)
        with run i2 d Inr have "updatePXFStatus r pxf dep w3 = (res, w')" by simp
        from updatePXFStatus_calls [OF assms(1) this] c1 c2 c3 show ?thesis
          by (intro exI [of _ "if pxfPhase (pxf_Replicas (pxf_Spec pxf)) dep = pxf_Phase pxf then 3 else 4"])
             (simp add: pxfCalls_def id)
      qed
    qed
  qed
qed

section \<open>Properties\<close>

text \<open>A PXF reconcile makes its calls in one fixed order (image check, read, service, deployment,
  status) and stops at the first that fails; the deployment of another instance image is left alone:
  nothing but the read of it happens.\<close>

theorem PXF_Reconcile_order:
  assumes "typed_pxf_client r" "get_identity (pxfServices r)" "PXF_Reconcile r ns name w = (res, w')"
  shows "\<exists>n\<le>5. calls w' = calls w @ take n (pxfCalls ns name) \<and>
    (\<forall>d s c cs. api_Get (deployments r) ns name (server w) = (Inr d, s) \<longrightarrow>
       ps_Containers (pt_Spec (d_Template d)) = c # cs \<longrightarrow> c_Image c \<noteq> pxfr_InstanceImage r \<longrightarrow>
       n = 1 \<and> res = Inr ())"
proof -
  obtain g w1 where g: "Get (deployments r) ns name w = (g, w1)" by fastforce
  have c1: "calls w1 = calls w @ [GetCall KDeployment ns name]"
    using calls_Get [OF g] assms(1) by (simp add: typed_pxf_client_def)
  have api: "api_Get (deployments r) ns name (server w) = (g, server w1)"
    using g unfolding Get_def by (rule server_perform)
  show ?thesis
  proof (cases "reconcilePXF r ns name w1 = (res, w') \<and>
      \<not> (\<exists>d c cs. g = Inr d \<and> ps_Containers (pt_Spec (d_Template d)) = c # cs \<and> c_Image c \<noteq> pxfr_InstanceImage r)")
    case True
    with reconcilePXF_calls [OF assms(1,2)] obtain n where
      n: "n \<le> 4" "calls w' = calls w1 @ take n (tl (pxfCalls ns name))" by blast
    have "take (Suc n) (pxfCalls ns name) = GetCall KDeployment ns name # take n (tl (pxfCalls ns name))"
      by (simp add: pxfCalls_def)
    with n c1 True api show ?thesis by (intro exI [of _ "Suc n"]) auto
  next
    case False
    have "take 1 (pxfCalls ns name) = [GetCall KDeployment ns name]" by (simp add: pxfCalls_def)
    moreover have "w' = w1 \<and> (\<forall>d c cs. g = Inr d \<longrightarrow> ps_Containers (pt_Spec (d_Template d)) = c # cs \<longrightarrow>
        c_Image c \<noteq> pxfr_InstanceImage r \<longrightarrow> res = Inr ())"
      using assms(3) False by (auto simp: PXF_Reconcile_def g split: sum.splits list.splits if_splits)
    ultimately show ?thesis using c1 api by (intro exI [of _ 1]) auto
  qed
qed

theorem PXF_Reconcile_order_witness:
  "\<exists>res w' n. PXF_Reconcile pxf_demo_reconciler ''ns'' ''pxf'' pxf_demo_start = (res, w') \<and>
     n \<le> 5 \<and> calls w' = take n (pxfCalls ''ns'' ''pxf'')"
proof -
  obtain res w' where r: "PXF_Reconcile pxf_demo_reconciler ''ns'' ''pxf'' pxf_demo_start = (res, w')" by fastforce
  from PXF_Reconcile_order [OF pxf_demo_typed pxf_demo_laws(1) r] r show ?thesis
    by (auto simp: pxf_demo_start_def)
qed

text \<open>The phase of a PXF service says what its deployment does: pending while no pod is ready,
  running exactly when a pod is ready, none is unavailable and at least the desired number runs the
  current template; the object is patched exactly when its phase changes, and then with that phase
  and nothing else changed.\<close>

theorem PXF_phase_reported:
  assumes "typed_pxf_client r" "updatePXFStatus r pxf d w = (Inr (), w')"
  shows "let ph = pxfPhase (pxf_Replicas (pxf_Spec pxf)) d in
    (ph = PXFPhasePending \<longleftrightarrow> d_ReadyReplicas d = 0) \<and>
    (ph = PXFPhaseRunning \<longleftrightarrow> d_ReadyReplicas d \<noteq> 0 \<and> d_UnavailableReplicas d = 0 \<and>
       sint (pxf_Replicas (pxf_Spec pxf)) \<le> sint (d_UpdatedReplicas d)) \<and>
    (if ph = pxf_Phase pxf then w' = w
     else (\<exists>x. api_Patch (pxfServices r) (pxf\<lparr>pxf_Phase := ph\<rparr>) pxf (server w) = (Inr x, server w')) \<and>
       calls w' = calls w @ [PatchCall KGreenplumPXFService (Namespace (pxf_meta pxf)) (Name (pxf_meta pxf))])"
proof -
  let ?ph = "pxfPhase (pxf_Replicas (pxf_Spec pxf)) d"
  have "(?ph = PXFPhasePending \<longleftrightarrow> d_ReadyReplicas d = 0) \<and>
    (?ph = PXFPhaseRunning \<longleftrightarrow> d_ReadyReplicas d \<noteq> 0 \<and> d_UnavailableReplicas d = 0 \<and>
       sint (pxf_Replicas (pxf_Spec pxf)) \<le> sint (d_UpdatedReplicas d))"
    by (auto simp: pxfPhase_def)
  moreover have "\<exists>x. api_Patch (pxfServices r) (pxf\<lparr>pxf_Phase := ?ph\<rparr>) pxf (server w) = (Inr x, server w')"
    if "?ph \<noteq> pxf_Phase pxf"
    using assms(2) that
    by (auto simp: updatePXFStatus_def Patch_def Let_def split: prod.splits sum.splits dest!: server_perform)
  moreover have "w' = w" if "?ph = pxf_Phase pxf"
    using assms(2) that by (simp add: updatePXFStatus_def)
  ultimately show ?thesis
    using updatePXFStatus_calls [OF assms] by (simp add: Let_def)
qed

theorem PXF_phase_reported_witness:
  "\<exists>w'. updatePXFStatus pxf_demo_reconciler (demo_pxf PXFPhaseNone) (newDeployment (objectMeta ''pxf'' ''ns''))
       pxf_demo_start = (Inr (), w') \<and>
     calls w' = [PatchCall KGreenplumPXFService ''ns'' ''pxf'']"
proof -
  let ?d = "newDeployment (objectMeta ''pxf'' ''ns'')"
  have "fst (updatePXFStatus pxf_demo_reconciler (demo_pxf PXFPhaseNone) ?d pxf_demo_start) = Inr ()"
    by code_simp
  then obtain w' where u: "updatePXFStatus pxf_demo_reconciler (demo_pxf PXFPhaseNone) ?d pxf_demo_start = (Inr (), w')"
    by (metis prod.collapse)
  from PXF_phase_reported [OF pxf_demo_typed u] u show ?thesis
    by (auto simp: pxfPhase_def demo_pxf_def newDeployment_def pxf_demo_start_def objectMeta_def)
qed

text \<open>Reconciling a PXF service whose deployment and service are as the operator wrote them and
  whose status is current changes no object on the server.\<close>

theorem PXF_Reconcile_settled:
  assumes "unchanged_law (pxfServiceObjects r)" "unchanged_law (deployments r)" "typed_pxf_client r"
    and "reference_laws (pxfr_SetControllerReference r)"
    and "api_Get (pxfServices r) ns name (server w) = (Inr pxf, server w)"
    and "Name (pxf_meta pxf) = name" "Namespace (pxf_meta pxf) = ns"
    and "written (pxfServiceObjects r) (newService (objectMeta name ns)) (mutatePXFService r pxf) (server w)"
    and "written (deployments r) (newDeployment (objectMeta name ns)) (mutatePXFDeployment r pxf) (server w)"
    and "api_Get (deployments r) ns name (server w) = (Inr d, server w)"
    and "pxfPhase (pxf_Replicas (pxf_Spec pxf)) d = pxf_Phase pxf"
  shows "\<exists>w'. PXF_Reconcile r ns name w = (Inr (), w') \<and> server w' = server w"
proof -
  have k: "api_meta (pxfServiceObjects r) = svc_meta" "api_meta (deployments r) = d_meta"
    using assms(3) by (simp_all add: typed_pxf_client_def)
  obtain w0 where g0: "Get (deployments r) ns name w = (Inr d, w0)" "server w0 = server w"
    using assms(10) by (simp add: Get_def perform_def)
  obtain w1 where g1: "Get (pxfServices r) ns name w0 = (Inr pxf, w1)" "server w1 = server w"
    using assms(5) g0(2) by (simp add: Get_def perform_def)
  have kept: "kept (pxfServiceObjects r) (newService (objectMeta name ns)) (mutatePXFService r pxf) (server w)"
    "kept (deployments r) (newDeployment (objectMeta name ns)) (mutatePXFDeployment r pxf) (server w)"
    using assms(4,8,9) by (auto intro: written_kept settles_mutatePXF)
  from CreateOrUpdate_kept [OF assms(1), of _ _ w1] kept(1) g1(2) obtain y w2 where
    s: "CreateOrUpdate (pxfServiceObjects r) (newService (objectMeta name ns)) (mutatePXFService r pxf) w1 =
      (Inr (OpNone, y), w2)" "server w2 = server w" by metis
  from CreateOrUpdate_kept [OF assms(2), of _ _ w2] kept(2) s(2) obtain z w3 where
    dep: "CreateOrUpdate (deployments r) (newDeployment (objectMeta name ns)) (mutatePXFDeployment r pxf) w2 =
      (Inr (OpNone, z), w3)" "server w3 = server w"
      "api_Get (deployments r) ns name (server w) = (Inr z, server w)"
    by (fastforce simp: k)
  have "z = d" using dep(3) assms(10) by simp
  obtain x s1 where "mutatePXFDeployment r pxf x s1 = (Inr d, s1)"
    using assms(9,10) by (auto simp: written_def mutatePXFDeployment_def k)
  then obtain c cs where "ps_Containers (pt_Spec (d_Template d)) = c # cs" "c_Image c = pxfr_InstanceImage r"
    by (auto simp: mutatePXFDeployment_def modify_and_own_def ModifyDeployment_def setPXFContainer_def Let_def
          split: sum.splits list.splits)
  moreover have "reconcilePXF r ns name w0 = (Inr (), w3)"
    using assms(6,7,11) g1 s dep \<open>z = d\<close> by (simp add: reconcilePXF_def Let_def updatePXFStatus_def)
  ultimately show ?thesis using g0 dep(2) by (simp add: PXF_Reconcile_def)
qed

lemma pxf_demo_settled_checks:
  "kept_check (pxfServiceObjects pxf_demo_reconciler) (newService (objectMeta ''pxf'' ''ns''))
     (mutatePXFService pxf_demo_reconciler (demo_pxf PXFPhasePending)) (server pxf_demo_settled)"
  "kept_check (deployments pxf_demo_reconciler) (newDeployment (objectMeta ''pxf'' ''ns''))
     (mutatePXFDeployment pxf_demo_reconciler (demo_pxf PXFPhasePending)) (server pxf_demo_settled)"
  "api_Get (pxfServices pxf_demo_reconciler) ''ns'' ''pxf'' (server pxf_demo_settled) =
     (Inr (demo_pxf PXFPhasePending), server pxf_demo_settled)"
  "map (pxfPhase 2) (p_deployments (server pxf_demo_settled)) = [PXFPhasePending]"
  "api_Get (deployments pxf_demo_reconciler) ''ns'' ''pxf'' (server pxf_demo_settled) =
     (Inr (hd (p_deployments (server pxf_demo_settled))), server pxf_demo_settled)"
  by code_simp+

theorem PXF_Reconcile_settled_witness:
  "\<exists>w'. PXF_Reconcile pxf_demo_reconciler ''ns'' ''pxf'' pxf_demo_settled = (Inr (), w') \<and>
     server w' = server pxf_demo_settled"
proof (rule PXF_Reconcile_settled)
  show "api_Get (pxfServices pxf_demo_reconciler) ''ns'' ''pxf'' (server pxf_demo_settled) =
     (Inr (demo_pxf PXFPhasePending), server pxf_demo_settled)"
    by (rule pxf_demo_settled_checks)
  show "pxfPhase (pxf_Replicas (pxf_Spec (demo_pxf PXFPhasePending))) (hd (p_deployments (server pxf_demo_settled))) =
      pxf_Phase (demo_pxf PXFPhasePending)"
    using pxf_demo_settled_checks(4) by (auto simp: demo_pxf_def)
  show "Name (pxf_meta (demo_pxf PXFPhasePending)) = ''pxf''" "Namespace (pxf_meta (demo_pxf PXFPhasePending)) = ''ns''"
    by (simp_all add: demo_pxf_def)
qed (simp_all add: pxf_demo_laws pxf_demo_typed kept_check_written pxf_demo_settled_checks)

end
