(* ===== verification/Pxf_Convergence.thy ===== *)
theory Pxf_Convergence
  imports Pxf_Properties Demo_Store
begin

text \<open>
  The PXF reconciler converges: on a server that stores what it is sent, one successful pass over a PXF
  service leaves its service, its deployment and its status as every further pass would write them. The
  record of changes is \<open>keeps_pxf\<close>, another instance of \<open>change_relation\<close>.
\<close>

section \<open>Definitions\<close>

definition keeps_pxf :: "'s GreenplumPXFServiceReconciler \<Rightarrow> object_key option \<Rightarrow> 's \<Rightarrow> 's \<Rightarrow> bool" where
  "keeps_pxf r key s s' \<longleftrightarrow>
     keeps (pxfServices r) key s s' \<and> keeps (pxfServiceObjects r) key s s' \<and> keeps (deployments r) key s s'"

definition pxf_stored :: "'s GreenplumPXFServiceReconciler \<Rightarrow> GreenplumPXFService \<Rightarrow> 's \<Rightarrow> bool" where
  "pxf_stored r pxf s \<longleftrightarrow> api_Get (pxfServices r) (Namespace (pxf_meta pxf)) (Name (pxf_meta pxf)) s = (Inr pxf, s)"

text \<open>A read changes nothing, a write is read back and keeps every other object, and a patch against the
  stored object, when the server takes it, is stored.\<close>

definition pxf_store_laws :: "'s GreenplumPXFServiceReconciler \<Rightarrow> bool" where
  "pxf_store_laws r \<longleftrightarrow>
     write_law (keeps_pxf r) (pxfServiceObjects r) \<and> write_law (keeps_pxf r) (deployments r) \<and>
     (\<forall>ns n s. snd (api_Get (deployments r) ns n s) = s) \<and>
     (\<forall>x base s y s'. pxf_stored r base s \<longrightarrow> same_key (pxf_meta x) (pxf_meta base) \<longrightarrow>
        api_Patch (pxfServices r) x base s = (Inr y, s') \<longrightarrow>
        pxf_stored r x s' \<and>
        keeps_pxf r (Some (KGreenplumPXFService, Namespace (pxf_meta base), Name (pxf_meta base))) s s')"

text \<open>The service and the deployment are in the store as the reconciler writes them.\<close>

definition pxfWritten :: "'s GreenplumPXFServiceReconciler \<Rightarrow> GreenplumPXFService \<Rightarrow> 's \<Rightarrow> bool" where
  "pxfWritten r pxf s \<longleftrightarrow>
     (let m = objectMeta (Name (pxf_meta pxf)) (Namespace (pxf_meta pxf))
      in written (pxfServiceObjects r) (newService m) (mutatePXFService r pxf) s \<and>
         written (deployments r) (newDeployment m) (mutatePXFDeployment r pxf) s)"

section \<open>Lemmas\<close>

interpretation pxf_changes: change_relation "keeps_pxf r" for r
  by unfold_locales (auto simp: keeps_pxf_def intro: keeps_trans keeps_weaken)

lemma tame_mutatePXF:
  assumes "reference_laws (pxfr_SetControllerReference r)"
  shows "tame (keeps_pxf r) svc_meta (mutatePXFService r pxf)" "tame (keeps_pxf r) d_meta (mutatePXFDeployment r pxf)"
proof -
  have "same_key (svc_meta y) (svc_meta x)"
    if "modify_and_own (pxfr_SetControllerReference r) (pxf_meta pxf) svc_meta (\<lambda>m x. x\<lparr>svc_meta := m\<rparr>) (ModifyService pxf) x = Inr y"
    for x y
    using own_same_key [OF assms that] by (simp add: same_key_def ModifyService_def Let_def)
  then show "tame (keeps_pxf r) svc_meta (mutatePXFService r pxf)"
    by (auto simp: tame_def mutatePXFService_def intro: pxf_changes.unchanged)
  have "same_key (d_meta y) (d_meta x)"
    if "modify_and_own (pxfr_SetControllerReference r) (pxf_meta pxf) d_meta (\<lambda>m x. x\<lparr>d_meta := m\<rparr>)
      (ModifyDeployment (pxfr_quantities r) pxf (pxfr_InstanceImage r)) x = Inr y" for x y
    using own_same_key [OF assms that] by (simp add: same_key_def ModifyDeployment_def Let_def)
  then show "tame (keeps_pxf r) d_meta (mutatePXFDeployment r pxf)"
    by (auto simp: tame_def mutatePXFDeployment_def intro: pxf_changes.unchanged)
qed

text \<open>A successful \<open>CreateOrUpdate\<close> on a server that stores what it is sent.\<close>

lemma CreateOrUpdate_writes:
  assumes "write_law K R" "tame K (api_meta R) f" "CreateOrUpdate R x f w = (Inr (op, y), w')"
  shows "api_Get R (Namespace (api_meta R x)) (Name (api_meta R x)) (server w') = (Inr y, server w')"
    "written R x f (server w')"
    "K (Some (api_kind R, Namespace (api_meta R x), Name (api_meta R x))) (server w) (server w')"
proof -
  have "api_CreateOrUpdate R x f (server w) = (Inr (op, y), server w')"
    using assms(3) unfolding CreateOrUpdate_def by (rule server_perform)
  note law = assms(1) [unfolded write_law_def, rule_format, OF assms(2) this]
  then show "api_Get R (Namespace (api_meta R x)) (Name (api_meta R x)) (server w') = (Inr y, server w')"
    "K (Some (api_kind R, Namespace (api_meta R x), Name (api_meta R x))) (server w) (server w')" by blast+
  show "written R x f (server w')" using law unfolding written_def by blast
qed

lemma pxfWritten_cong:
  assumes "pxf_meta p = pxf_meta p'" "pxf_Spec p = pxf_Spec p'"
  shows "pxfWritten r p s = pxfWritten r p' s"
proof -
  have "ModifyService p = ModifyService p'" "ModifyDeployment Q p img = ModifyDeployment Q p' img" for Q img
    unfolding fun_eq_iff ModifyService_def ModifyDeployment_def assms by simp_all
  then have "mutatePXFService r p = mutatePXFService r p'" "mutatePXFDeployment r p = mutatePXFDeployment r p'"
    using assms(1) by (intro ext; simp add: mutatePXFService_def mutatePXFDeployment_def)+
  then show ?thesis using assms(1) by (simp add: pxfWritten_def)
qed

lemma pxfWritten_keeps:
  assumes "typed_pxf_client r" "pxfWritten r pxf s" "keeps_pxf r (Some (KGreenplumPXFService, ns, n)) s s'"
  shows "pxfWritten r pxf s'"
  using assms unfolding pxfWritten_def keeps_pxf_def Let_def typed_pxf_client_def
  by (auto elim!: written_keeps)

text \<open>The status step: the object stays the same but for its phase, which is current afterwards.\<close>

lemma updatePXFStatus_stores:
  assumes "pxf_store_laws r" "pxf_stored r pxf (server w)" "updatePXFStatus r pxf d w = (Inr (), w')"
  shows "pxf_stored r (pxf\<lparr>pxf_Phase := pxfPhase (pxf_Replicas (pxf_Spec pxf)) d\<rparr>) (server w')"
    "keeps_pxf r (Some (KGreenplumPXFService, Namespace (pxf_meta pxf), Name (pxf_meta pxf))) (server w) (server w')"
proof -
  let ?p = "pxf\<lparr>pxf_Phase := pxfPhase (pxf_Replicas (pxf_Spec pxf)) d\<rparr>"
  let ?key = "Some (KGreenplumPXFService, Namespace (pxf_meta pxf), Name (pxf_meta pxf))"
  have "pxf_stored r ?p (server w') \<and> keeps_pxf r ?key (server w) (server w')"
  proof (cases "pxf_Phase ?p = pxf_Phase pxf")
    case True
    then have "?p = pxf" "w' = w" using assms(3) by (simp_all add: updatePXFStatus_def)
    then show ?thesis using assms(2) pxf_changes.unchanged by metis
  next
    case False
    then obtain x where "Patch (pxfServices r) ?p pxf w = (Inr x, w')"
      using assms(3) by (auto simp: updatePXFStatus_def split: prod.splits sum.splits)
    then have "api_Patch (pxfServices r) ?p pxf (server w) = (Inr x, server w')"
      unfolding Patch_def by (rule server_perform)
    moreover have "same_key (pxf_meta ?p) (pxf_meta pxf)" by (simp add: same_key_def)
    ultimately show ?thesis using assms(1,2) unfolding pxf_store_laws_def by blast
  qed
  then show "pxf_stored r ?p (server w')" "keeps_pxf r ?key (server w) (server w')" by blast+
qed

text \<open>The pass after the image check.\<close>

lemma reconcilePXF_stores:
  assumes "pxf_store_laws r" "typed_pxf_client r" "reference_laws (pxfr_SetControllerReference r)"
    and "pxf_stored r pxf (server w)" "Name (pxf_meta pxf) = name" "Namespace (pxf_meta pxf) = ns"
    and "reconcilePXF r ns name w = (Inr (), w')"
  obtains d where "api_Get (deployments r) ns name (server w') = (Inr d, server w')"
    "pxf_stored r (pxf\<lparr>pxf_Phase := pxfPhase (pxf_Replicas (pxf_Spec pxf)) d\<rparr>) (server w')"
    "pxfWritten r pxf (server w')"
proof -
  have k: "api_kind (pxfServices r) = KGreenplumPXFService" "api_kind (pxfServiceObjects r) = KService"
    "api_kind (deployments r) = KDeployment" "api_meta (pxfServiceObjects r) = svc_meta" "api_meta (deployments r) = d_meta"
    using assms(2) by (simp_all add: typed_pxf_client_def)
  have laws: "write_law (keeps_pxf r) (pxfServiceObjects r)" "write_law (keeps_pxf r) (deployments r)"
    using assms(1) by (simp_all add: pxf_store_laws_def)
  let ?m = "objectMeta name ns"
  obtain w1 where g: "Get (pxfServices r) ns name w = (Inr pxf, w1)" "server w1 = server w"
    using assms(4-6) by (simp add: Get_def perform_def pxf_stored_def)
  obtain o2 y2 w2 o3 d w3 where s: "CreateOrUpdate (pxfServiceObjects r) (newService ?m) (mutatePXFService r pxf) w1 = (Inr (o2, y2), w2)"
    and dep: "CreateOrUpdate (deployments r) (newDeployment ?m) (mutatePXFDeployment r pxf) w2 = (Inr (o3, d), w3)"
    and st: "updatePXFStatus r pxf d w3 = (Inr (), w')"
    using assms(5-7) g by (auto simp: reconcilePXF_def Let_def split: prod.splits sum.splits)
  note tame = tame_mutatePXF [OF assms(3), of pxf]
  note s' = CreateOrUpdate_writes [OF laws(1) _ s, unfolded k, OF tame(1), simplified]
  note d' = CreateOrUpdate_writes [OF laws(2) _ dep, unfolded k, OF tame(2), simplified]
  have "written (pxfServiceObjects r) (newService ?m) (mutatePXFService r pxf) (server w3)"
    by (rule written_keeps [OF s'(2)]) (use d'(3) k in \<open>auto simp: keeps_pxf_def\<close>)
  then have wr: "pxfWritten r pxf (server w3)" using d'(2) assms(5,6) by (simp add: pxfWritten_def)
  have "pxf_stored r pxf (server w2)"
    using assms(4) g(2) s'(3) k unfolding pxf_stored_def keeps_pxf_def by (auto elim!: keeps_get)
  then have "pxf_stored r pxf (server w3)"
    using d'(3) k unfolding pxf_stored_def keeps_pxf_def by (auto elim!: keeps_get)
  note st' = updatePXFStatus_stores [OF assms(1) this st]
  have "api_Get (deployments r) ns name (server w') = (Inr d, server w')"
    using d'(1) st'(2) k unfolding keeps_pxf_def by (auto elim!: keeps_get)
  then show thesis using that st'(1) pxfWritten_keeps [OF assms(2) wr st'(2)] by blast
qed

section \<open>Properties\<close>

text \<open>C38: A PXF service converges in one pass. When the server stores what it is sent and the service's
  deployment is absent or runs this operator's image, a successful \<open>Reconcile\<close> leaves the service and the
  deployment as the operator writes them, changes the object in nothing but its phase, which is then the one
  its deployment calls for, and every further pass succeeds and changes nothing.\<close>

theorem PXF_Reconcile_converges:
  assumes "unchanged_law (pxfServiceObjects r)" "unchanged_law (deployments r)" "pxf_store_laws r" "typed_pxf_client r"
    and "reference_laws (pxfr_SetControllerReference r)" "pxf_stored r pxf (server w)"
    and "Name (pxf_meta pxf) = name" "Namespace (pxf_meta pxf) = ns"
    and "\<And>d s. api_Get (deployments r) ns name (server w) = (Inr d, s) \<Longrightarrow>
      map c_Image (take 1 (ps_Containers (pt_Spec (d_Template d)))) = [pxfr_InstanceImage r]"
    and "PXF_Reconcile r ns name w = (Inr (), w')"
  shows "\<exists>d. api_Get (deployments r) ns name (server w') = (Inr d, server w') \<and>
    pxf_stored r (pxf\<lparr>pxf_Phase := pxfPhase (pxf_Replicas (pxf_Spec pxf)) d\<rparr>) (server w') \<and>
    pxfWritten r pxf (server w') \<and>
    (\<forall>v. server v = server w' \<longrightarrow> (\<exists>v'. PXF_Reconcile r ns name v = (Inr (), v') \<and> server v' = server w'))"
proof -
  obtain g w1 where g: "Get (deployments r) ns name w = (g, w1)" by fastforce
  then have api: "api_Get (deployments r) ns name (server w) = (g, server w1)" unfolding Get_def by (rule server_perform)
  then have same: "server w1 = server w" using assms(3) unfolding pxf_store_laws_def by (metis snd_conv)
  have run: "reconcilePXF r ns name w1 = (Inr (), w')"
    using assms(9,10) api g by (auto simp: PXF_Reconcile_def split: sum.splits list.splits if_splits)
  have pxf: "pxf_stored r pxf (server w1)" using assms(6) same by simp
  obtain d where d: "api_Get (deployments r) ns name (server w') = (Inr d, server w')"
    "pxf_stored r (pxf\<lparr>pxf_Phase := pxfPhase (pxf_Replicas (pxf_Spec pxf)) d\<rparr>) (server w')" "pxfWritten r pxf (server w')"
    by (rule reconcilePXF_stores [OF assms(3-5) pxf assms(7,8) run])
  let ?p = "pxf\<lparr>pxf_Phase := pxfPhase (pxf_Replicas (pxf_Spec pxf)) d\<rparr>"
  have "pxfWritten r ?p (server w')" using d(3) pxfWritten_cong [of ?p pxf r] by simp
  then have "\<exists>v'. PXF_Reconcile r ns name v = (Inr (), v') \<and> server v' = server w'" if "server v = server w'" for v
    using PXF_Reconcile_settled [OF assms(1,2,4,5), of ns name v ?p d] that d(1,2) assms(7,8)
    by (simp add: pxfWritten_def pxf_stored_def Let_def)
  with d show ?thesis by blast
qed

text \<open>The witness starts from a new PXF service, without service and deployment.\<close>

lemma pxf_demo_tables:
  "pxfServices pxf_demo_reconciler = table_api KGreenplumPXFService pxf_meta p_pxfs (\<lambda>t s. s\<lparr>p_pxfs := t\<rparr>) (\<lambda>x b y. x)"
  "pxfServiceObjects pxf_demo_reconciler = table_api KService svc_meta p_services (\<lambda>t s. s\<lparr>p_services := t\<rparr>) (\<lambda>x b y. x)"
  "deployments pxf_demo_reconciler = table_api KDeployment d_meta p_deployments (\<lambda>t s. s\<lparr>p_deployments := t\<rparr>) (\<lambda>x b y. x)"
  by (simp_all add: pxf_demo_reconciler_def)

lemmas pxf_demo_keeps = keeps_pxf_def pxf_demo_tables keeps_table

lemma pxf_demo_patch:
  assumes "pxf_stored pxf_demo_reconciler base s" "same_key (pxf_meta x) (pxf_meta base)"
    and "api_Patch (pxfServices pxf_demo_reconciler) x base s = (Inr y, s')"
  shows "pxf_stored pxf_demo_reconciler x s' \<and>
    keeps_pxf pxf_demo_reconciler (Some (KGreenplumPXFService, Namespace (pxf_meta base), Name (pxf_meta base))) s s'"
proof -
  let ?n = "named pxf_meta (Namespace (pxf_meta base)) (Name (pxf_meta base))"
  have find: "find ?n (p_pxfs s) = Some base"
    using assms(1) by (auto simp: pxf_stored_def pxf_demo_tables table_get split: option.splits)
  have x: "?n x" using assms(2) by (simp add: same_key_def named_def)
  have "s' = s\<lparr>p_pxfs := map (\<lambda>z. if ?n z then x else z) (p_pxfs s)\<rparr>"
    using assms(2,3) find by (auto simp: pxf_demo_tables table_api_def same_key_def)
  then show ?thesis
    using assms(2) find by (simp add: pxf_stored_def pxf_demo_keeps table_get find_replace [OF x] same_key_def)
qed

lemma pxf_demo_store_laws: "pxf_store_laws pxf_demo_reconciler"
proof -
  have "write_law (keeps_pxf pxf_demo_reconciler) (pxfServiceObjects pxf_demo_reconciler)"
    "write_law (keeps_pxf pxf_demo_reconciler) (deployments pxf_demo_reconciler)"
    unfolding pxf_demo_tables(2,3) by (rule pxf_changes.table_write_law; simp add: pxf_demo_keeps replaces_def)+
  moreover have "snd (api_Get (deployments pxf_demo_reconciler) ns n s) = s" for ns n s
    by (simp add: pxf_demo_tables table_get)
  ultimately show ?thesis using pxf_demo_patch unfolding pxf_store_laws_def by blast
qed

lemma pxf_demo_run: "fst (PXF_Reconcile pxf_demo_reconciler ''ns'' ''pxf'' pxf_demo_start) = Inr ()"
  by code_simp

theorem PXF_Reconcile_converges_witness:
  "\<exists>d w'. PXF_Reconcile pxf_demo_reconciler ''ns'' ''pxf'' pxf_demo_start = (Inr (), w') \<and>
     api_Get (deployments pxf_demo_reconciler) ''ns'' ''pxf'' (server w') = (Inr d, server w') \<and>
     pxf_stored pxf_demo_reconciler (demo_pxf (pxfPhase 2 d)) (server w')"
proof -
  obtain w' where run: "PXF_Reconcile pxf_demo_reconciler ''ns'' ''pxf'' pxf_demo_start = (Inr (), w')"
    using pxf_demo_run by (metis prod.collapse)
  have "pxf_stored pxf_demo_reconciler (demo_pxf PXFPhaseNone) (server pxf_demo_start)" by code_simp
  moreover have "api_Get (deployments pxf_demo_reconciler) ''ns'' ''pxf'' (server pxf_demo_start) \<noteq> (Inr d, s)" for d s
    by (simp add: pxf_demo_tables table_get pxf_demo_start_def)
  ultimately show ?thesis
    using PXF_Reconcile_converges [OF pxf_demo_laws(2,3) pxf_demo_store_laws pxf_demo_typed pxf_demo_laws(4),
        of "demo_pxf PXFPhaseNone" pxf_demo_start "''pxf''" "''ns''" w'] run
    by (auto simp: demo_pxf_def)
qed

end
