(* ===== verification/Admission.thy ===== *)
theory Admission
  imports Pxf
begin

text \<open>
  The admission webhook (\<open>greenplum-operator/pkg/admission\<close>): the validation of new and changed
  \<open>GreenplumCluster\<close> and \<open>GreenplumPXFService\<close> objects and the HTTP handler that dispatches to it.
  A validator of the code returns a status or nil; here it returns \<open>Inr None\<close> (nothing to object),
  \<open>Inr (Some message)\<close>, or \<open>Inl\<close> of the panic it ends in.
\<close>

section \<open>Definitions\<close>

record 's Handler =
  h_clusters :: "('s, GreenplumCluster) resource_api"
  h_pvcs :: "('s, PersistentVolumeClaim) resource_api"
  h_jobs :: "('s, Job) resource_api"
  h_deployments :: "('s, Deployment) resource_api"
  h_InstanceImage :: string
  PodCmdExecutor :: "'s pod_exec"
  h_quantities :: quantity_ops
  DeepEqualSpec :: "GreenplumClusterSpec \<Rightarrow> GreenplumClusterSpec \<Rightarrow> bool"
  DeepEqualPXFSpec :: "GreenplumPXFServiceSpec \<Rightarrow> GreenplumPXFServiceSpec \<Rightarrow> bool"
  DeepEqualSelector :: "smap option \<Rightarrow> smap option \<Rightarrow> bool"

type_synonym status = "string option"

type_synonym 's validator = "('s, status result) io"

text \<open>The sequence \<open>result = f(); if result != nil return\<close>, and the pair it ends with.\<close>

fun run_validators :: "'s validator list \<Rightarrow> 's validator" where
  "run_validators [] w = (Inr None, w)"
| "run_validators (v # vs) w =
     (case v w of
        (Inl p, w1) \<Rightarrow> (Inl p, w1)
      | (Inr (Some m), w1) \<Rightarrow> (Inr (Some m), w1)
      | (Inr None, w1) \<Rightarrow> run_validators vs w1)"

definition verdict :: "status result \<Rightarrow> (bool \<times> status) result" where
  "verdict r = (case r of Inl p \<Rightarrow> Inl p | Inr st \<Rightarrow> Inr (st = None, st))"

text \<open>A test without effects.\<close>

definition reject_if :: "bool \<Rightarrow> string \<Rightarrow> 's validator" where
  "reject_if b msg w = (Inr (if b then Some msg else None), w)"

subsection \<open>Shared functions\<close>

definition MaxLabelLen :: nat where
  "MaxLabelLen = 63"

definition nil_panic :: go_error where
  "nil_panic = Err ''runtime error: invalid memory address or nil pointer dereference''"

definition quote :: "string \<Rightarrow> string" where
  "quote s = [CHR 0x22] @ s @ [CHR 0x22]"

fun validateWorkerSelector :: "smap \<Rightarrow> string \<Rightarrow> status" where
  "validateWorkerSelector [] typ = None"
| "validateWorkerSelector ((k, v) # kvs) typ =
     (if length k > MaxLabelLen \<or> length v > MaxLabelLen
      then Some (typ @ '' workerSelector key/value is longer than '' @ Itoa (int MaxLabelLen) @ '' characters'')
      else validateWorkerSelector kvs typ)"

definition validateResourceQuantity :: "quantity_ops \<Rightarrow> Quantity \<Rightarrow> string \<Rightarrow> string \<Rightarrow> status" where
  "validateResourceQuantity Q quantity typ field =
     (if q_Sign Q quantity = -1
      then Some (''invalid '' @ typ @ '' '' @ field @ '' value: '' @ quote (q_String Q quantity) @
             '': must be greater than or equal to 0'')
      else None)"

definition generateShortPVCErrStr :: "string \<Rightarrow> string \<Rightarrow> string \<Rightarrow> string" where
  "generateShortPVCErrStr childObjectPath verb parentObjectType =
     childObjectPath @ '' cannot be '' @ verb @
     '' without first deleting PVCs. This will result in a new, empty '' @ parentObjectType @ '' cluster''"

definition generateLongPVCErrStr ::
  "string \<Rightarrow> string \<Rightarrow> int \<Rightarrow> string \<Rightarrow> string \<Rightarrow> string \<Rightarrow> string"
where
  "generateLongPVCErrStr parentObjectType parentObject previousCount childObjectName childObjectPath verb =
     parentObject @ '' has PVCs for '' @ Itoa previousCount @ '' '' @ childObjectName @ ''.'' @ '' '' @
     generateShortPVCErrStr childObjectPath verb parentObjectType"

definition pvcVersionErr :: "string \<Rightarrow> string \<Rightarrow> string" where
  "pvcVersionErr expected found =
     ''the existing PVCs for my-gp-instance are not compatible with this controller. '' @
     ''Expected PVCs to have greenplum-major-version='' @ expected @ ''; found '' @ found"

text \<open>The claim is compared by its storage limit and its class; a nil class panics.\<close>

definition validateStorageHelper ::
  "quantity_ops \<Rightarrow> PersistentVolumeClaim list \<Rightarrow> Quantity \<Rightarrow> string \<Rightarrow> string \<Rightarrow> status result"
where
  "validateStorageHelper Q pvcs newStorage newStorageClassName parentObjectType =
     (case pvcs of
        [] \<Rightarrow> Inr None
      | pvc # rest \<Rightarrow>
          (if q_Cmp Q (limit_or_zero (pvc_Limits pvc) ''storage'') newStorage \<noteq> 0
           then Inr (Some (generateShortPVCErrStr ''storage'' ''changed'' parentObjectType))
           else (case pvc_StorageClassName pvc of
                   None \<Rightarrow> Inl nil_panic
                 | Some c \<Rightarrow>
                     (if c \<noteq> newStorageClassName
                      then Inr (Some (generateShortPVCErrStr ''storageClassName'' ''changed'' parentObjectType))
                      else Inr None))))"

definition getGreenplumPVCs ::
  "'s Handler \<Rightarrow> GreenplumCluster \<Rightarrow> string \<Rightarrow> ('s, PersistentVolumeClaim list result) io"
where
  "getGreenplumPVCs h gc typ =
     ListObjects (h_pvcs h) (Namespace (gc_meta gc))
       [(''app'', ''greenplum''), (''greenplum-cluster'', Name (gc_meta gc)), (''type'', typ)]"

text \<open>Every validator that looks at claims fetches them first and reports a failure to do so.\<close>

definition with_pvcs ::
  "'s Handler \<Rightarrow> GreenplumCluster \<Rightarrow> string \<Rightarrow> (PersistentVolumeClaim list \<Rightarrow> 's validator) \<Rightarrow> 's validator"
where
  "with_pvcs h gc typ k w =
     (case getGreenplumPVCs h gc typ w of
        (Inl err, w1) \<Rightarrow> (Inr (Some (Error err)), w1)
      | (Inr pvcs, w1) \<Rightarrow> k pvcs w1)"

subsection \<open>Creation of a cluster\<close>

definition clusterExistsInNamespace :: "'s Handler \<Rightarrow> GreenplumCluster \<Rightarrow> ('s, bool result) io" where
  "clusterExistsInNamespace h gc w =
     (case ListObjects (h_clusters h) (Namespace (gc_meta gc)) [] w of
        (Inl err, w1) \<Rightarrow> (Inl err, w1)
      | (Inr cs, w1) \<Rightarrow> (Inr (length cs > 0), w1))"

definition validateUniqueCluster :: "'s Handler \<Rightarrow> GreenplumCluster \<Rightarrow> 's validator" where
  "validateUniqueCluster h gc w =
     (case clusterExistsInNamespace h gc w of
        (Inl err, w1) \<Rightarrow>
          (Inr (Some (''could not check if a cluster exists in namespace '' @ Namespace (gc_meta gc) @
             ''. '' @ Error err)), w1)
      | (Inr ex, w1) \<Rightarrow>
          (Inr (if ex then Some (''only one GreenplumCluster is allowed in namespace '' @ Namespace (gc_meta gc))
                else None), w1))"

text \<open>The loop keeps the message of the last claim it objects to.\<close>

fun checkPvcVersions :: "PersistentVolumeClaim list \<Rightarrow> status \<Rightarrow> status" where
  "checkPvcVersions [] st = st"
| "checkPvcVersions (pvc # pvcs) st =
     checkPvcVersions pvcs
       (case map_of (map_make (Labels (pvc_meta pvc))) ''greenplum-major-version'' of
          None \<Rightarrow> Some (pvcVersionErr SupportedGreenplumMajorVersion ''no label'')
        | Some ver \<Rightarrow>
            (if ver \<noteq> SupportedGreenplumMajorVersion
             then Some (pvcVersionErr SupportedGreenplumMajorVersion (''greenplum-major-version='' @ ver))
             else st))"

definition validatePvcGreenplumVersion :: "'s Handler \<Rightarrow> GreenplumCluster \<Rightarrow> string \<Rightarrow> 's validator" where
  "validatePvcGreenplumVersion h gc typ =
     with_pvcs h gc typ (\<lambda>pvcs w. (Inr (checkPvcVersions pvcs None), w))"

definition validatePrimarySegmentCount :: "'s Handler \<Rightarrow> GreenplumCluster \<Rightarrow> 's validator" where
  "validatePrimarySegmentCount h gc =
     with_pvcs h gc ''segment-a'' (\<lambda>pvcs.
       let previous = (word_of_int (int (length pvcs)) :: int32)
       in reject_if (sint (PrimarySegmentCount (Segments (Spec gc))) < sint previous)
            (generateLongPVCErrStr ''Greenplum'' (Name (gc_meta gc)) (sint previous) ''segments''
               ''segments.primarySegmentCount'' ''decreased''))"

definition validateAntiAffinity :: "GreenplumCluster \<Rightarrow> status" where
  "validateAntiAffinity gc =
     (let spec = Spec gc;
          notNo = gp_AntiAffinity (MasterAndStandby spec) \<noteq> ''no'' \<or> gp_AntiAffinity (Segments spec) \<noteq> ''no''
      in if Standby (MasterAndStandby spec) = ''no'' \<and> notNo
         then Some (''when standby is set to '' @ quote ''no'' @ '', antiAffinity must also be set to '' @ quote ''no'')
         else if Mirrors (Segments spec) = ''no'' \<and> notNo
         then Some (''when mirrors is set to '' @ quote ''no'' @ '', antiAffinity must also be set to '' @ quote ''no'')
         else None)"

definition validateGreenplumStorageFromPVCs :: "'s Handler \<Rightarrow> GreenplumCluster \<Rightarrow> 's validator" where
  "validateGreenplumStorageFromPVCs h gc =
     run_validators
       [with_pvcs h gc ''master'' (\<lambda>pvcs w.
          (validateStorageHelper (h_quantities h) pvcs (gp_Storage (MasterAndStandby (Spec gc)))
             (gp_StorageClassName (MasterAndStandby (Spec gc))) ''Greenplum'', w)),
        with_pvcs h gc ''segment-a'' (\<lambda>pvcs w.
          (validateStorageHelper (h_quantities h) pvcs (gp_Storage (Segments (Spec gc)))
             (gp_StorageClassName (Segments (Spec gc))) ''Greenplum'', w))]"

definition validateStandby :: "'s Handler \<Rightarrow> GreenplumCluster \<Rightarrow> 's validator" where
  "validateStandby h gc =
     with_pvcs h gc ''master'' (\<lambda>pvcs.
       let previousNumMasters = (word_of_int (int (length pvcs)) :: int32);
           previousStandby = (if previousNumMasters = 2 then ''yes'' else ''no'')
       in reject_if (previousNumMasters \<noteq> 0 \<and> previousStandby \<noteq> Standby (MasterAndStandby (Spec gc)))
            (generateLongPVCErrStr ''Greenplum'' (Name (gc_meta gc)) (sint previousNumMasters) ''masters''
               ''masterAndStandby.standby'' ''changed''))"

definition validateMirrors :: "'s Handler \<Rightarrow> GreenplumCluster \<Rightarrow> 's validator" where
  "validateMirrors h gc =
     with_pvcs h gc ''segment-a'' (\<lambda>primaries w.
       if length primaries = 0 then (Inr None, w)
       else with_pvcs h gc ''segment-b'' (\<lambda>mirrors.
              let previousMirrorCount = length mirrors
              in reject_if
                   (previousMirrorCount = 0 \<and> Mirrors (Segments (Spec gc)) = ''yes'' \<or>
                    previousMirrorCount > 0 \<and> Mirrors (Segments (Spec gc)) = ''no'')
                   (generateLongPVCErrStr ''Greenplum'' (Name (gc_meta gc)) (int previousMirrorCount) ''mirrors''
                      ''segments.mirrors'' ''changed'')) w)"

definition pure_validator :: "status \<Rightarrow> 's validator" where
  "pure_validator st w = (Inr st, w)"

definition quantityValidators :: "quantity_ops \<Rightarrow> GreenplumClusterSpec \<Rightarrow> 's validator list" where
  "quantityValidators Q spec =
     [pure_validator (validateWorkerSelector (map_make (gp_WorkerSelector (MasterAndStandby spec))) ''masterAndStandby''),
      pure_validator (validateWorkerSelector (map_make (gp_WorkerSelector (Segments spec))) ''segments''),
      pure_validator (validateResourceQuantity Q (gp_CPU (MasterAndStandby spec)) ''masterAndStandby'' ''cpu''),
      pure_validator (validateResourceQuantity Q (gp_CPU (Segments spec)) ''segments'' ''cpu''),
      pure_validator (validateResourceQuantity Q (gp_Memory (MasterAndStandby spec)) ''masterAndStandby'' ''memory''),
      pure_validator (validateResourceQuantity Q (gp_Memory (Segments spec)) ''segments'' ''memory''),
      pure_validator (validateResourceQuantity Q (gp_Storage (MasterAndStandby spec)) ''masterAndStandby'' ''storage''),
      pure_validator (validateResourceQuantity Q (gp_Storage (Segments spec)) ''segments'' ''storage'')]"

definition createValidators :: "'s Handler \<Rightarrow> GreenplumCluster \<Rightarrow> 's validator list" where
  "createValidators h gc =
     [pure_validator (validateAntiAffinity gc),
      validateUniqueCluster h gc,
      validateGreenplumStorageFromPVCs h gc,
      validatePvcGreenplumVersion h gc ''master'',
      validatePvcGreenplumVersion h gc ''segment-a'',
      validatePvcGreenplumVersion h gc ''segment-b'',
      validateStandby h gc,
      validatePrimarySegmentCount h gc,
      validateMirrors h gc] @ quantityValidators (h_quantities h) (Spec gc)"

definition validateCreateGreenplumCluster ::
  "'s Handler \<Rightarrow> GreenplumCluster \<Rightarrow> ('s, (bool \<times> status) result) io"
where
  "validateCreateGreenplumCluster h newGreenplum w =
     (case run_validators (createValidators h (SetDefaultGreenplumClusterValues newGreenplum)) w of
        (r, w1) \<Rightarrow> (verdict r, w1))"

subsection \<open>Update of a cluster\<close>

definition UpgradeClusterHelpMsg :: string where
  "UpgradeClusterHelpMsg =
     ''Cannot update greenplumCluster instance -- operator only supports updates to clusters '' @
     ''at the latest version. Please update greenplumCluster to the latest version in order to make updates''"

definition checkExpandSchemaCmd :: "string list" where
  "checkExpandSchemaCmd =
     [''/bin/bash'', ''-c'', ''--'',
      ''source /usr/local/greenplum-db/greenplum_path.sh && psql -d postgres -tAc '' @ [CHR 0x22] @
      ''SELECT count(*) FROM information_schema.schemata WHERE schema_name = '' @ [CHR 0x27] @ ''gpexpand'' @
      [CHR 0x27, CHR 0x22]]"

definition validateExpand ::
  "'s Handler \<Rightarrow> GreenplumCluster \<Rightarrow> GreenplumCluster \<Rightarrow> 's validator"
where
  "validateExpand h oldGreenplum newGreenplum w =
     (if sint (PrimarySegmentCount (Segments (Spec newGreenplum))) >
         sint (PrimarySegmentCount (Segments (Spec oldGreenplum)))
      then (if Phase (Status oldGreenplum) \<noteq> PhaseRunning
            then (Inr (Some ''updates only supported when cluster is Running''), w)
            else (case GetCurrentActiveMaster (PodCmdExecutor h) (Namespace (gc_meta newGreenplum)) w of
                    (activeMaster, w1) \<Rightarrow>
             (if activeMaster = ''''
              then (Inr (Some ''failed to contact an active gpdb master''), w1)
              else (case Execute (PodCmdExecutor h) checkExpandSchemaCmd (Namespace (gc_meta newGreenplum)) activeMaster w1 of
                      (out, w2) \<Rightarrow>
               (case ex_err out of
                  Some err \<Rightarrow> (Inr (Some (''failed to check for expansion schema: '' @ Error err)), w2)
                | None \<Rightarrow>
                    (if TrimSpace (ex_stdout out) \<noteq> ''0''
                     then (Inr (Some (''previous expansion schema exists. you must redistribute data and clean up '' @
                             ''expansion schema prior to performing another expansion'')), w2)
                     else (case Get (h_jobs h) (Namespace (gc_meta newGreenplum)) (gpexpandJobName newGreenplum) w2 of
                             (Inl err, w3) \<Rightarrow>
                               (if \<not> IsNotFound err
                                then (Inr (Some (''failed to check for previous expand job: '' @ Error err)), w3)
                                else (Inr None, w3))
                           | (Inr job, w3) \<Rightarrow>
                               (if sint (job_Succeeded job) > 0 then (Inr None, w3)
                                else if sint (job_Failed job) > 0
                                then (Inr (Some ''cannot expand cluster because previous gpexpand job failed''), w3)
                                else (Inr (Some ''cannot expand cluster because a gpexpand job is currently running''), w3)))))))))
      else (Inr None, w))"

definition updateValidators ::
  "'s Handler \<Rightarrow> GreenplumCluster \<Rightarrow> GreenplumCluster \<Rightarrow> 's validator list"
where
  "updateValidators h oldG newG =
     (let oldM = MasterAndStandby (Spec oldG); newM = MasterAndStandby (Spec newG);
          oldS = Segments (Spec oldG); newS = Segments (Spec newG);
          str = q_String (h_quantities h)
      in
       [reject_if (\<not> DeepEqualSpec h (Spec oldG) (Spec newG) \<and> InstanceImage (Status oldG) \<noteq> h_InstanceImage h)
          (UpgradeClusterHelpMsg @ ''; GreenplumCluster has image: '' @ InstanceImage (Status oldG) @
           ''; Operator supports image: '' @ h_InstanceImage h),
        reject_if (Standby newM \<noteq> Standby oldM)
          ''standby value cannot be changed after the cluster has been created'',
        reject_if (HostBasedAuthentication newM \<noteq> HostBasedAuthentication oldM)
          ''hostBasedAuthentication cannot be changed after the cluster has been created'',
        reject_if (str (gp_CPU newM) \<noteq> str (gp_CPU oldM) \<or> str (gp_CPU newS) \<noteq> str (gp_CPU oldS))
          ''CPU reservation cannot be changed after the cluster has been created'',
        reject_if (str (gp_Memory newM) \<noteq> str (gp_Memory oldM) \<or> str (gp_Memory newS) \<noteq> str (gp_Memory oldS))
          ''Memory reservation cannot be changed after the cluster has been created'',
        reject_if (\<not> DeepEqualSelector h (gp_WorkerSelector newM) (gp_WorkerSelector oldM) \<or>
                   \<not> DeepEqualSelector h (gp_WorkerSelector newS) (gp_WorkerSelector oldS))
          ''workerSelector cannot be changed after the cluster has been created'',
        reject_if (ToLower (gp_AntiAffinity newM) \<noteq> ToLower (gp_AntiAffinity oldM) \<or>
                   ToLower (gp_AntiAffinity newS) \<noteq> ToLower (gp_AntiAffinity oldS))
          ''antiAffinity cannot be changed after the cluster has been created'',
        reject_if (ToLower (Mirrors newS) \<noteq> ToLower (Mirrors oldS))
          ''mirrors cannot be changed after the cluster has been created'',
        reject_if (gp_Storage newM \<noteq> gp_Storage oldM \<or> gp_Storage newS \<noteq> gp_Storage oldS)
          ''storage cannot be changed after the cluster has been created'',
        reject_if (gp_StorageClassName newM \<noteq> gp_StorageClassName oldM \<or>
                   gp_StorageClassName newS \<noteq> gp_StorageClassName oldS)
          ''storageClassName cannot be changed after the cluster has been created'',
        reject_if (sint (PrimarySegmentCount newS) < sint (PrimarySegmentCount oldS))
          ''primarySegmentCount cannot be decreased after the cluster has been created'',
        validateExpand h oldG newG,
        reject_if (ServiceName (PXF (Spec newG)) \<noteq> ServiceName (PXF (Spec oldG)))
          ''PXF serviceName cannot be changed after the cluster has been created''])"

definition validateUpdateGreenplumCluster ::
  "'s Handler \<Rightarrow> GreenplumCluster \<Rightarrow> GreenplumCluster \<Rightarrow> ('s, (bool \<times> status) result) io"
where
  "validateUpdateGreenplumCluster h oldGreenplum newGreenplum w =
     (case run_validators (updateValidators h oldGreenplum newGreenplum) w of
        (r, w1) \<Rightarrow> (verdict r, w1))"

subsection \<open>PXF services\<close>

definition UpgradePXFHelpMsg :: string where
  "UpgradePXFHelpMsg =
     ''Cannot update GreenplumPXFService instance -- operator only supports updates to greenplumpxfservices '' @
     ''at the latest version. Please update GreenplumPXFService to the latest version in order to make updates''"

definition validatePXFImage ::
  "'s Handler \<Rightarrow> GreenplumPXFService \<Rightarrow> GreenplumPXFService \<Rightarrow> 's validator"
where
  "validatePXFImage h oldPXF newPXF w =
     (if \<not> DeepEqualPXFSpec h (pxf_Spec oldPXF) (pxf_Spec newPXF)
      then (case Get (h_deployments h) (Namespace (pxf_meta oldPXF)) (Name (pxf_meta oldPXF)) w of
              (Inl err, w1) \<Rightarrow>
                (Inr (Some (''failed to get PXF Deployment. Try again later: '' @ Error err)), w1)
            | (Inr d, w1) \<Rightarrow>
                (case ps_Containers (pt_Spec (d_Template d)) of
                   [] \<Rightarrow> (Inl index_panic, w1)
                 | c # cs \<Rightarrow>
                     (Inr (if c_Image c \<noteq> h_InstanceImage h
                           then Some (UpgradePXFHelpMsg @ ''; GreenplumPXFService has image: '' @ c_Image c @
                                  ''; Operator supports image: '' @ h_InstanceImage h)
                           else None), w1)))
      else (Inr None, w))"

definition validateGreenplumPXFService ::
  "'s Handler \<Rightarrow> GreenplumPXFService option \<Rightarrow> GreenplumPXFService \<Rightarrow> ('s, (bool \<times> status) result) io"
where
  "validateGreenplumPXFService h oldPXF newPXF w =
     (case run_validators
             [case oldPXF of None \<Rightarrow> pure_validator None | Some old \<Rightarrow> validatePXFImage h old newPXF,
              pure_validator (validateWorkerSelector (map_make (pxf_WorkerSelector (pxf_Spec newPXF))) ''pxf''),
              pure_validator (validateResourceQuantity (h_quantities h) (pxf_CPU (pxf_Spec newPXF)) ''pxf'' ''cpu''),
              pure_validator (validateResourceQuantity (h_quantities h) (pxf_Memory (pxf_Spec newPXF)) ''pxf'' ''memory'')] w of
        (r, w1) \<Rightarrow> (verdict r, w1))"

subsection \<open>The HTTP handler\<close>

text \<open>
  An admission review as \<open>encoding/json\<close> decodes it; a review without \<open>request\<close> leaves a nil pointer.
  The decoders of the raw objects, the conversion of the kind and its textual form are library code.
\<close>

record GroupVersionKind =
  gvk_Group :: string
  gvk_Version :: string
  gvk_Kind :: string

record AdmissionRequest =
  req_UID :: string
  req_Kind :: GroupVersionKind
  req_Operation :: string
  req_Object :: string
  req_OldObject :: string

record review_lib =
  unmarshalReview :: "string \<Rightarrow> AdmissionRequest option result"
  unmarshalCluster :: "string \<Rightarrow> GreenplumCluster result"
  unmarshalPXF :: "string \<Rightarrow> GreenplumPXFService result"
  convertKind :: "GroupVersionKind \<Rightarrow> GroupVersionKind result"
  kindString :: "GroupVersionKind \<Rightarrow> string"

record AdmissionResponse =
  resp_UID :: string
  resp_Allowed :: bool
  resp_Result :: status

datatype http_response =
    HttpError nat string
  | HttpReview AdmissionResponse
  | HttpPanic go_error
  | HttpText string

record http_request =
  hr_ContentType :: string
  hr_Body :: "string result"

definition ClusterGVK :: GroupVersionKind where
  "ClusterGVK = \<lparr>gvk_Group = ''greenplum.pivotal.io'', gvk_Version = ''v1'', gvk_Kind = ''GreenplumCluster''\<rparr>"

definition PXFGVK :: GroupVersionKind where
  "PXFGVK = \<lparr>gvk_Group = ''greenplum.pivotal.io'', gvk_Version = ''v1beta1'', gvk_Kind = ''GreenplumPXFService''\<rparr>"

definition deny :: "string \<Rightarrow> string \<Rightarrow> http_response" where
  "deny uid msg = HttpReview \<lparr>resp_UID = uid, resp_Allowed = False, resp_Result = Some msg\<rparr>"

definition respond :: "string \<Rightarrow> (bool \<times> status) result \<Rightarrow> http_response" where
  "respond uid r =
     (case r of
        Inl p \<Rightarrow> HttpPanic p
      | Inr (allowed, result) \<Rightarrow> HttpReview \<lparr>resp_UID = uid, resp_Allowed = allowed, resp_Result = result\<rparr>)"

definition reviewCluster ::
  "review_lib \<Rightarrow> 's Handler \<Rightarrow> AdmissionRequest \<Rightarrow> ('s, http_response) io"
where
  "reviewCluster L h req w =
     (case unmarshalCluster L (req_Object req) of
        Inl err \<Rightarrow> (deny (req_UID req)
          (''failed to unmarshal Request.Object into GreenplumCluster: '' @ Error err), w)
      | Inr newGreenplum \<Rightarrow>
          (if req_Operation req = ''CREATE''
           then (case validateCreateGreenplumCluster h newGreenplum w of
                   (r, w1) \<Rightarrow> (respond (req_UID req) r, w1))
           else if req_Operation req = ''UPDATE''
           then (case unmarshalCluster L (req_OldObject req) of
                   Inl err \<Rightarrow> (deny (req_UID req)
                     (''failed to unmarshal Request.OldObject into GreenplumCluster: '' @ Error err), w)
                 | Inr oldGreenplum \<Rightarrow>
                     (case validateUpdateGreenplumCluster h oldGreenplum newGreenplum w of
                        (r, w1) \<Rightarrow> (respond (req_UID req) r, w1)))
           else (deny (req_UID req) (''unexpected operation for validation: '' @ req_Operation req), w)))"

definition reviewPXF ::
  "review_lib \<Rightarrow> 's Handler \<Rightarrow> AdmissionRequest \<Rightarrow> ('s, http_response) io"
where
  "reviewPXF L h req w =
     (case unmarshalPXF L (req_Object req) of
        Inl err \<Rightarrow> (deny (req_UID req)
          (''failed to unmarshal Request.Object into GreenplumPXFService: '' @ Error err), w)
      | Inr newPXF \<Rightarrow>
          (if req_Operation req = ''CREATE''
           then (case validateGreenplumPXFService h None newPXF w of
                   (r, w1) \<Rightarrow> (respond (req_UID req) r, w1))
           else if req_Operation req = ''UPDATE''
           then (case unmarshalPXF L (req_OldObject req) of
                   Inl err \<Rightarrow> (deny (req_UID req)
                     (''failed to unmarshal Request.OldObject into GreenplumPXFService: '' @ Error err), w)
                 | Inr oldPXF \<Rightarrow>
                     (case validateGreenplumPXFService h (Some oldPXF) newPXF w of
                        (r, w1) \<Rightarrow> (respond (req_UID req) r, w1)))
           else (deny (req_UID req) (''unexpected operation for validation: '' @ req_Operation req), w)))"

definition HandleValidate ::
  "review_lib \<Rightarrow> 's Handler \<Rightarrow> http_request \<Rightarrow> ('s, http_response) io"
where
  "HandleValidate L h hr w =
     (if hr_ContentType hr \<noteq> ''application/json''
      then (HttpError 415 ''invalid Content-Type, expect `application/json`'', w)
      else (case hr_Body hr of
              Inl err \<Rightarrow> (HttpError 400 (''couldn'' @ [CHR 0x27] @ ''t read request body: '' @ Error err), w)
            | Inr body \<Rightarrow>
                (case unmarshalReview L body of
                   Inl err \<Rightarrow> (deny '''' (''parsing request: '' @ Error err), w)
                 | Inr None \<Rightarrow> (HttpPanic nil_panic, w)
                 | Inr (Some req) \<Rightarrow>
                     (case convertKind L (req_Kind req) of
                        Inl err \<Rightarrow> (deny (req_UID req)
                          (''failed to convert metav1.GVK to schema.GVK: '' @ Error err), w)
                      | Inr gvk \<Rightarrow>
                          (if gvk = ClusterGVK then reviewCluster L h req w
                           else if gvk = PXFGVK then reviewPXF L h req w
                           else (deny (req_UID req)
                             (''unexpected validation request for object: '' @ kindString L (req_Kind req)), w))))))"

text \<open>The routes of the handler; \<open>ServeMux\<close> answers other paths with \<open>404\<close>.\<close>

definition HandleReady :: "('s, http_response) io" where
  "HandleReady w = (HttpText (''OK'' @ [CHR 0x0A]), w)"

definition Handler_Handler ::
  "review_lib \<Rightarrow> 's Handler \<Rightarrow> string \<Rightarrow> http_request \<Rightarrow> ('s, http_response) io"
where
  "Handler_Handler L h path hr w =
     (if path = ''/ready'' then HandleReady w
      else if path = ''/validate'' then HandleValidate L h hr w
      else (HttpError 404 ''404 page not found'', w))"

section \<open>Lemmas\<close>

lemma validateWorkerSelector_None:
  "validateWorkerSelector kvs typ = None \<longleftrightarrow>
   (\<forall>(k, v)\<in>set kvs. length k \<le> MaxLabelLen \<and> length v \<le> MaxLabelLen)"
  by (induction kvs "typ" rule: validateWorkerSelector.induct) auto

lemma checkPvcVersions_None:
  "checkPvcVersions pvcs st = None \<longleftrightarrow> (st = None \<and>
     (\<forall>pvc\<in>set pvcs. map_of (map_make (Labels (pvc_meta pvc))) ''greenplum-major-version'' =
        Some SupportedGreenplumMajorVersion))"
  by (induction pvcs st rule: checkPvcVersions.induct) (auto split: option.splits)

lemma verdict_allowed: "verdict r = Inr (True, st) \<longleftrightarrow> r = Inr None \<and> st = None"
  by (auto simp: verdict_def split: sum.splits)

lemma verdict_consistent: "verdict r = Inr (b, st) \<Longrightarrow> b \<longleftrightarrow> st = None"
  by (auto simp: verdict_def split: sum.splits)

text \<open>Validators in sequence accept exactly when each accepts where the one before it left off;
  for validators that leave the server alone, exactly when each accepts.\<close>

lemma run_validators_append:
  "run_validators (vs @ us) w =
     (case run_validators vs w of
        (Inl p, w1) \<Rightarrow> (Inl p, w1)
      | (Inr (Some m), w1) \<Rightarrow> (Inr (Some m), w1)
      | (Inr None, w1) \<Rightarrow> run_validators us w1)"
  by (induction vs w rule: run_validators.induct) (auto split: prod.splits sum.splits option.splits)

text \<open>A validator whose answer depends on the server only and that does not change it.\<close>

definition reads :: "'s validator \<Rightarrow> ('s \<Rightarrow> status result) \<Rightarrow> bool" where
  "reads v f \<longleftrightarrow> (\<forall>w. \<exists>w'. v w = (f (server w), w') \<and> server w' = server w)"

lemma reads_pure [intro]: "reads (pure_validator st) (\<lambda>s. Inr st)"
  by (simp add: reads_def pure_validator_def)

lemma reads_reject_if [intro]: "reads (reject_if b m) (\<lambda>s. Inr (if b then Some m else None))"
  by (simp add: reads_def reject_if_def)

lemma run_validators_accept:
  assumes "list_all2 reads vs fs"
  shows "fst (run_validators vs w) = Inr None \<longleftrightarrow> (\<forall>f\<in>set fs. f (server w) = Inr None)"
  using assms
proof (induction arbitrary: w rule: list_all2_induct)
  case (Cons v vs f fs)
  from Cons.hyps(1) obtain w1 where v: "v w = (f (server w), w1)" "server w1 = server w"
    unfolding reads_def by blast
  then show ?case using Cons.IH [of w1] by (auto split: sum.splits option.splits)
qed simp

end
