(* ===== verification/Admission_Properties.thy ===== *)
theory Admission_Properties
  imports Admission Demo_Server
begin

text \<open>
  The properties of the admission webhook: an abstract specification of the clusters that may be
  created and a refinement of it by the sequence of validators; the fields that no sequence of
  admitted updates can change; when an expansion is admitted and that the reconciler then acts on
  it; and that the HTTP handler fails closed.
\<close>

section \<open>Definitions\<close>

text \<open>The claims of a cluster on the server, as a list of the client returns them.\<close>

definition claims :: "'s Handler \<Rightarrow> GreenplumCluster \<Rightarrow> string \<Rightarrow> 's \<Rightarrow> PersistentVolumeClaim list result" where
  "claims h gc typ s =
     fst (api_List (h_pvcs h) (Namespace (gc_meta gc))
       [(''app'', ''greenplum''), (''greenplum-cluster'', Name (gc_meta gc)), (''type'', typ)] s)"

text \<open>Listing objects does not change them.\<close>

definition list_law :: "('s, 'a) resource_api \<Rightarrow> bool" where
  "list_law R \<longleftrightarrow> (\<forall>ns l s. snd (api_List R ns l s) = s)"

definition int32_len :: "'a list \<Rightarrow> int32" where
  "int32_len xs = word_of_int (int (length xs))"

definition storage_ok :: "quantity_ops \<Rightarrow> PersistentVolumeClaim list \<Rightarrow> Quantity \<Rightarrow> string \<Rightarrow> bool" where
  "storage_ok Q pvcs q cls \<longleftrightarrow>
     pvcs = [] \<or> (q_Cmp Q (limit_or_zero (pvc_Limits (hd pvcs)) ''storage'') q = 0 \<and>
       pvc_StorageClassName (hd pvcs) = Some cls)"

definition version_ok :: "PersistentVolumeClaim list \<Rightarrow> bool" where
  "version_ok pvcs \<longleftrightarrow> (\<forall>pvc\<in>set pvcs.
     map_of (map_make (Labels (pvc_meta pvc))) ''greenplum-major-version'' = Some SupportedGreenplumMajorVersion)"

definition affinity_ok :: "GreenplumClusterSpec \<Rightarrow> bool" where
  "affinity_ok spec \<longleftrightarrow>
     (Standby (MasterAndStandby spec) = ''no'' \<or> Mirrors (Segments spec) = ''no'' \<longrightarrow>
        gp_AntiAffinity (MasterAndStandby spec) = ''no'' \<and> gp_AntiAffinity (Segments spec) = ''no'')"

definition pod_spec_ok :: "quantity_ops \<Rightarrow> ('a) GreenplumPodSpec_scheme \<Rightarrow> bool" where
  "pod_spec_ok Q p \<longleftrightarrow>
     (\<forall>(k, v)\<in>set (map_make (gp_WorkerSelector p)). length k \<le> MaxLabelLen \<and> length v \<le> MaxLabelLen) \<and>
     q_Sign Q (gp_CPU p) \<noteq> -1 \<and> q_Sign Q (gp_Memory p) \<noteq> -1 \<and> q_Sign Q (gp_Storage p) \<noteq> -1"

text \<open>The specification: a new cluster may be created when it is the first of its namespace, its
  settings are consistent, and it fits the claims an earlier cluster of its name has left behind.\<close>

definition create_ok :: "'s Handler \<Rightarrow> GreenplumCluster \<Rightarrow> 's \<Rightarrow> bool" where
  "create_ok h gc s \<longleftrightarrow>
     (let spec = Spec gc; Q = h_quantities h in
      affinity_ok spec \<and>
      fst (api_List (h_clusters h) (Namespace (gc_meta gc)) [] s) = Inr [] \<and>
      (\<exists>ms as bs. claims h gc ''master'' s = Inr ms \<and> claims h gc ''segment-a'' s = Inr as \<and>
         claims h gc ''segment-b'' s = Inr bs \<and>
         storage_ok Q ms (gp_Storage (MasterAndStandby spec)) (gp_StorageClassName (MasterAndStandby spec)) \<and>
         storage_ok Q as (gp_Storage (Segments spec)) (gp_StorageClassName (Segments spec)) \<and>
         version_ok ms \<and> version_ok as \<and> version_ok bs \<and>
         (int32_len ms = 0 \<or> Standby (MasterAndStandby spec) = (if int32_len ms = 2 then ''yes'' else ''no'')) \<and>
         sint (int32_len as) \<le> sint (PrimarySegmentCount (Segments spec)) \<and>
         (as = [] \<or> (bs = [] \<longrightarrow> Mirrors (Segments spec) \<noteq> ''yes'') \<and> (bs \<noteq> [] \<longrightarrow> Mirrors (Segments spec) \<noteq> ''no''))) \<and>
      pod_spec_ok Q (MasterAndStandby spec) \<and> pod_spec_ok Q (Segments spec))"

section \<open>Creation\<close>

text \<open>What each validator answers, as a function of the server.\<close>

definition on_claims :: "'s Handler \<Rightarrow> GreenplumCluster \<Rightarrow> string \<Rightarrow> (PersistentVolumeClaim list \<Rightarrow> 's \<Rightarrow> status result) \<Rightarrow> 's \<Rightarrow> status result" where
  "on_claims h gc typ f s = (case claims h gc typ s of Inl e \<Rightarrow> Inr (Some (Error e)) | Inr pvcs \<Rightarrow> f pvcs s)"

lemma on_claims_None:
  "on_claims h gc typ f s = Inr None \<longleftrightarrow> (\<exists>pvcs. claims h gc typ s = Inr pvcs \<and> f pvcs s = Inr None)"
  by (auto simp: on_claims_def split: sum.splits)

lemma reads_with_pvcs:
  assumes "list_law (h_pvcs h)" "\<And>pvcs. reads (k pvcs) (f pvcs)"
  shows "reads (with_pvcs h gc typ k) (on_claims h gc typ f)"
  unfolding reads_def
proof
  fix w
  let ?l = "[(''app'', ''greenplum''), (''greenplum-cluster'', Name (gc_meta gc)), (''type'', typ)]"
  obtain w1 where l: "ListObjects (h_pvcs h) (Namespace (gc_meta gc)) ?l w = (claims h gc typ (server w), w1)"
    "server w1 = server w"
    using assms(1) by (simp add: ListObjects_def perform_def claims_def list_law_def case_prod_unfold)
  show "\<exists>w'. with_pvcs h gc typ k w = (on_claims h gc typ f (server w), w') \<and> server w' = server w"
    using l assms(2) by (auto simp: with_pvcs_def getGreenplumPVCs_def on_claims_def reads_def split: sum.splits)
       (metis l(2))
qed

lemma reads_run_validators_two:
  assumes "reads u f" "reads v g"
  shows "reads (run_validators [u, v])
    (\<lambda>s. case f s of Inl p \<Rightarrow> Inl p | Inr (Some m) \<Rightarrow> Inr (Some m) | Inr None \<Rightarrow> g s)"
  unfolding reads_def
proof
  fix w
  obtain w1 where u: "u w = (f (server w), w1)" "server w1 = server w" using assms(1) unfolding reads_def by blast
  obtain w2 where v: "v w1 = (g (server w), w2)" "server w2 = server w" using assms(2) u(2) unfolding reads_def by metis
  show "\<exists>w'. run_validators [u, v] w =
      (case f (server w) of Inl p \<Rightarrow> Inl p | Inr (Some m) \<Rightarrow> Inr (Some m) | Inr None \<Rightarrow> g (server w), w') \<and>
      server w' = server w"
    using u v by (auto split: sum.splits option.splits)
qed

definition createAnswers :: "'s Handler \<Rightarrow> GreenplumCluster \<Rightarrow> ('s \<Rightarrow> status result) list" where
  "createAnswers h gc =
     [\<lambda>s. Inr (validateAntiAffinity gc),
      \<lambda>s. Inr (case fst (api_List (h_clusters h) (Namespace (gc_meta gc)) [] s) of
          Inl err \<Rightarrow> Some (''could not check if a cluster exists in namespace '' @ Namespace (gc_meta gc) @ ''. '' @ Error err)
        | Inr cs \<Rightarrow> (if length cs > 0 then Some (''only one GreenplumCluster is allowed in namespace '' @ Namespace (gc_meta gc)) else None)),
      \<lambda>s. case on_claims h gc ''master'' (\<lambda>pvcs s. validateStorageHelper (h_quantities h) pvcs (gp_Storage (MasterAndStandby (Spec gc)))
             (gp_StorageClassName (MasterAndStandby (Spec gc))) ''Greenplum'') s of
          Inl p \<Rightarrow> Inl p | Inr (Some m) \<Rightarrow> Inr (Some m)
        | Inr None \<Rightarrow> on_claims h gc ''segment-a'' (\<lambda>pvcs s. validateStorageHelper (h_quantities h) pvcs (gp_Storage (Segments (Spec gc)))
             (gp_StorageClassName (Segments (Spec gc))) ''Greenplum'') s,
      on_claims h gc ''master'' (\<lambda>pvcs s. Inr (checkPvcVersions pvcs None)),
      on_claims h gc ''segment-a'' (\<lambda>pvcs s. Inr (checkPvcVersions pvcs None)),
      on_claims h gc ''segment-b'' (\<lambda>pvcs s. Inr (checkPvcVersions pvcs None)),
      on_claims h gc ''master'' (\<lambda>pvcs s. Inr
        (if int32_len pvcs \<noteq> 0 \<and> (if int32_len pvcs = 2 then ''yes'' else ''no'') \<noteq> Standby (MasterAndStandby (Spec gc))
         then Some (generateLongPVCErrStr ''Greenplum'' (Name (gc_meta gc)) (sint (int32_len pvcs)) ''masters''
               ''masterAndStandby.standby'' ''changed'') else None)),
      on_claims h gc ''segment-a'' (\<lambda>pvcs s. Inr
        (if sint (PrimarySegmentCount (Segments (Spec gc))) < sint (int32_len pvcs)
         then Some (generateLongPVCErrStr ''Greenplum'' (Name (gc_meta gc)) (sint (int32_len pvcs)) ''segments''
               ''segments.primarySegmentCount'' ''decreased'') else None)),
      on_claims h gc ''segment-a'' (\<lambda>as s. if length as = 0 then Inr None
         else on_claims h gc ''segment-b'' (\<lambda>bs s. Inr
           (if length bs = 0 \<and> Mirrors (Segments (Spec gc)) = ''yes'' \<or> length bs > 0 \<and> Mirrors (Segments (Spec gc)) = ''no''
            then Some (generateLongPVCErrStr ''Greenplum'' (Name (gc_meta gc)) (int (length bs)) ''mirrors''
                      ''segments.mirrors'' ''changed'') else None)) s)] @
     map (\<lambda>st s. Inr st)
      [validateWorkerSelector (map_make (gp_WorkerSelector (MasterAndStandby (Spec gc)))) ''masterAndStandby'',
       validateWorkerSelector (map_make (gp_WorkerSelector (Segments (Spec gc)))) ''segments'',
       validateResourceQuantity (h_quantities h) (gp_CPU (MasterAndStandby (Spec gc))) ''masterAndStandby'' ''cpu'',
       validateResourceQuantity (h_quantities h) (gp_CPU (Segments (Spec gc))) ''segments'' ''cpu'',
       validateResourceQuantity (h_quantities h) (gp_Memory (MasterAndStandby (Spec gc))) ''masterAndStandby'' ''memory'',
       validateResourceQuantity (h_quantities h) (gp_Memory (Segments (Spec gc))) ''segments'' ''memory'',
       validateResourceQuantity (h_quantities h) (gp_Storage (MasterAndStandby (Spec gc))) ''masterAndStandby'' ''storage'',
       validateResourceQuantity (h_quantities h) (gp_Storage (Segments (Spec gc))) ''segments'' ''storage'']"

lemma reads_validateUniqueCluster:
  assumes "list_law (h_clusters h)"
  shows "reads (validateUniqueCluster h gc)
    (\<lambda>s. Inr (case fst (api_List (h_clusters h) (Namespace (gc_meta gc)) [] s) of
          Inl err \<Rightarrow> Some (''could not check if a cluster exists in namespace '' @ Namespace (gc_meta gc) @ ''. '' @ Error err)
        | Inr cs \<Rightarrow> (if length cs > 0 then Some (''only one GreenplumCluster is allowed in namespace '' @ Namespace (gc_meta gc)) else None)))"
  using assms
  by (auto simp: reads_def validateUniqueCluster_def clusterExistsInNamespace_def ListObjects_def perform_def
        list_law_def case_prod_unfold split: sum.splits)

lemma reads_validateMirrors:
  assumes "list_law (h_pvcs h)"
  shows "reads (validateMirrors h gc) (on_claims h gc ''segment-a'' (\<lambda>as s. if length as = 0 then Inr None
         else on_claims h gc ''segment-b'' (\<lambda>bs s. Inr
           (if length bs = 0 \<and> Mirrors (Segments (Spec gc)) = ''yes'' \<or> length bs > 0 \<and> Mirrors (Segments (Spec gc)) = ''no''
            then Some (generateLongPVCErrStr ''Greenplum'' (Name (gc_meta gc)) (int (length bs)) ''mirrors''
                      ''segments.mirrors'' ''changed'') else None)) s))"
  unfolding validateMirrors_def
proof (rule reads_with_pvcs [OF assms])
  fix pvcs
  let ?k = "\<lambda>mirrors. let previousMirrorCount = length mirrors
              in reject_if
                   (previousMirrorCount = 0 \<and> Mirrors (Segments (Spec gc)) = ''yes'' \<or>
                    previousMirrorCount > 0 \<and> Mirrors (Segments (Spec gc)) = ''no'')
                   (generateLongPVCErrStr ''Greenplum'' (Name (gc_meta gc)) (int previousMirrorCount) ''mirrors''
                      ''segments.mirrors'' ''changed'')"
  have "reads (with_pvcs h gc ''segment-b'' ?k) (on_claims h gc ''segment-b'' (\<lambda>bs s. Inr
           (if length bs = 0 \<and> Mirrors (Segments (Spec gc)) = ''yes'' \<or> length bs > 0 \<and> Mirrors (Segments (Spec gc)) = ''no''
            then Some (generateLongPVCErrStr ''Greenplum'' (Name (gc_meta gc)) (int (length bs)) ''mirrors''
                      ''segments.mirrors'' ''changed'') else None)))"
    by (rule reads_with_pvcs [OF assms]) (simp only: Let_def, rule reads_reject_if)
  then show "reads (\<lambda>w. if length pvcs = 0 then (Inr None, w) else with_pvcs h gc ''segment-b'' ?k w)
      (\<lambda>s. if length pvcs = 0 then Inr None
         else on_claims h gc ''segment-b'' (\<lambda>bs s. Inr
           (if length bs = 0 \<and> Mirrors (Segments (Spec gc)) = ''yes'' \<or> length bs > 0 \<and> Mirrors (Segments (Spec gc)) = ''no''
            then Some (generateLongPVCErrStr ''Greenplum'' (Name (gc_meta gc)) (int (length bs)) ''mirrors''
                      ''segments.mirrors'' ''changed'') else None)) s)"
    by (simp add: reads_def)
qed

lemma reads_lift: "reads (\<lambda>w. (r, w)) (\<lambda>s. r)"
  by (simp add: reads_def)

lemma reads_createValidators:
  assumes "list_law (h_pvcs h)" "list_law (h_clusters h)"
  shows "list_all2 reads (createValidators h gc) (createAnswers h gc)"
proof -
  note rp = reads_with_pvcs [OF assms(1)]
  show ?thesis
    unfolding createValidators_def createAnswers_def quantityValidators_def validateGreenplumStorageFromPVCs_def
      validatePvcGreenplumVersion_def validateStandby_def validatePrimarySegmentCount_def Let_def
      int32_len_def [symmetric]
    by (simp del: length_0_conv length_greater_0_conv add: reads_pure reads_validateUniqueCluster [OF assms(2)]
          reads_validateMirrors [OF assms(1)] reads_run_validators_two rp reads_lift reads_reject_if)
qed

lemma validateStorageHelper_ok:
  "validateStorageHelper Q pvcs q cls t = Inr None \<longleftrightarrow> storage_ok Q pvcs q cls"
  by (auto simp: validateStorageHelper_def storage_ok_def split: list.splits option.splits)

lemma validateAntiAffinity_ok: "validateAntiAffinity gc = None \<longleftrightarrow> affinity_ok (Spec gc)"
  by (auto simp: validateAntiAffinity_def affinity_ok_def Let_def)

lemma validateResourceQuantity_ok: "validateResourceQuantity Q q t f = None \<longleftrightarrow> q_Sign Q q \<noteq> -1"
  by (simp add: validateResourceQuantity_def)

lemma createAnswers_ok:
  "(\<forall>f\<in>set (createAnswers h gc). f s = Inr None) \<longleftrightarrow> create_ok h gc s"
proof -
  have version: "checkPvcVersions pvcs None = None \<longleftrightarrow> version_ok pvcs" for pvcs
    by (simp add: checkPvcVersions_None version_ok_def)
  have sequence: "(case x of Inl p \<Rightarrow> Inl p | Inr (Some m) \<Rightarrow> Inr (Some m) | Inr None \<Rightarrow> y) = Inr None \<longleftrightarrow>
      x = Inr None \<and> y = Inr None" for x y :: "status result"
    by (auto split: sum.splits option.splits)
  have unique: "(case c of Inl err \<Rightarrow> Some (f err) | Inr cs \<Rightarrow> if length cs > 0 then Some m else None) = None \<longleftrightarrow> c = Inr []"
    for c :: "GreenplumCluster list result" and f m
    by (auto split: sum.splits)
  have opt: "(if b then Some m else None) = None \<longleftrightarrow> \<not> b" for b and m :: string by simp
  show ?thesis
    unfolding createAnswers_def create_ok_def Let_def
    by (simp only: set_append set_map list.set ball_Un ball_simps sequence on_claims_None unique opt
          validateAntiAffinity_ok validateStorageHelper_ok version validateWorkerSelector_None
          validateResourceQuantity_ok pod_spec_ok_def sum.inject)
       (cases "claims h gc ''master'' s"; cases "claims h gc ''segment-a'' s"; cases "claims h gc ''segment-b'' s";
        auto simp: on_claims_None split: if_splits)
qed

text \<open>C8: The sequence of validators implements the specification \<open>create_ok\<close>: a new cluster is
  admitted exactly when, with its yes/no fields lower-cased, it is the first of its namespace,
  anti-affinity is off unless standby and mirrors may be on, it fits the claims left by an earlier
  cluster (size, class, major version, standby, mirrors, no fewer segments), and its selectors and
  quantities are well formed.\<close>

theorem validateCreate_refines:
  assumes "list_law (h_pvcs h)" "list_law (h_clusters h)"
  shows "fst (validateCreateGreenplumCluster h gc w) = Inr (True, None) \<longleftrightarrow>
    create_ok h (SetDefaultGreenplumClusterValues gc) (server w)"
proof -
  let ?gc = "SetDefaultGreenplumClusterValues gc"
  have "fst (run_validators (createValidators h ?gc) w) = Inr None \<longleftrightarrow> create_ok h ?gc (server w)"
    by (simp only: run_validators_accept [OF reads_createValidators [OF assms]] createAnswers_ok)
  then show ?thesis
    by (simp add: validateCreateGreenplumCluster_def case_prod_unfold verdict_allowed)
qed

text \<open>A demonstration server of the four kinds of object the webhook reads.\<close>

record admission_demo =
  a_clusters :: "GreenplumCluster list"
  a_pvcs :: "PersistentVolumeClaim list"
  a_jobs :: "Job list"
  a_deployments :: "Deployment list"

definition admission_empty :: admission_demo where
  "admission_empty = \<lparr>a_clusters = [], a_pvcs = [], a_jobs = [], a_deployments = []\<rparr>"

definition admission_handler :: "admission_demo pod_exec \<Rightarrow> admission_demo Handler" where
  "admission_handler ex =
     \<lparr>h_clusters = table_api KGreenplumCluster gc_meta a_clusters (\<lambda>t s. s\<lparr>a_clusters := t\<rparr>) (\<lambda>x b y. x),
      h_pvcs = table_api KPVC pvc_meta a_pvcs (\<lambda>t s. s\<lparr>a_pvcs := t\<rparr>) (\<lambda>x b y. x),
      h_jobs = table_api KJob job_meta a_jobs (\<lambda>t s. s\<lparr>a_jobs := t\<rparr>) (\<lambda>x b y. x),
      h_deployments = table_api KDeployment d_meta a_deployments (\<lambda>t s. s\<lparr>a_deployments := t\<rparr>) (\<lambda>x b y. x),
      h_InstanceImage = ''gp:1'',
      PodCmdExecutor = ex,
      h_quantities = demo_quantities,
      DeepEqualSpec = (=),
      DeepEqualPXFSpec = (=),
      DeepEqualSelector = (=)\<rparr>"

definition admission_world :: "admission_demo \<Rightarrow> admission_demo world" where
  "admission_world s = \<lparr>server = s, calls = []\<rparr>"

lemma table_list_law: "list_law (table_api k m t st mg)"
  by (simp add: list_law_def table_api_def)

lemma admission_list_laws: "list_law (h_pvcs (admission_handler ex))" "list_law (h_clusters (admission_handler ex))"
  by (simp_all add: admission_handler_def table_list_law)

theorem validateCreate_refines_witness:
  "create_ok (admission_handler (demo_exec [] []))
     (SetDefaultGreenplumClusterValues (demo_cluster (demo_spec ''no'' ''Yes'' ''yes'' 2))) admission_empty"
proof -
  let ?h = "admission_handler (demo_exec [] [])" and ?gc = "demo_cluster (demo_spec ''no'' ''Yes'' ''yes'' 2)"
  have "fst (validateCreateGreenplumCluster ?h ?gc (admission_world admission_empty)) = Inr (True, None)"
    by code_simp
  then show ?thesis
    using validateCreate_refines [OF admission_list_laws, of "demo_exec [] []" ?gc "admission_world admission_empty"]
    by (simp add: admission_world_def)
qed

section \<open>Updates\<close>

text \<open>
  The life of a cluster object: users replace the spec by one the webhook admits, the operator
  writes the status. \<open>evolves h a b\<close>: \<open>b\<close> is reached from \<open>a\<close> by such steps, whatever the server
  and the pods answered to the webhook.
\<close>

inductive evolves :: "'s Handler \<Rightarrow> GreenplumCluster \<Rightarrow> GreenplumCluster \<Rightarrow> bool" for h where
  evolves_refl: "evolves h a a"
| evolves_update: "evolves h a b \<Longrightarrow> fst (validateUpdateGreenplumCluster h b c w) = Inr (True, None) \<Longrightarrow> evolves h a c"
| evolves_status: "evolves h a b \<Longrightarrow> evolves h a (b\<lparr>Status := st\<rparr>)"

inductive_cases evolves_cases: "evolves h a c"

text \<open>What no step changes, and the segment count, which only grows.\<close>

definition fixed_fields :: "'s Handler \<Rightarrow> GreenplumClusterSpec \<Rightarrow> GreenplumClusterSpec \<Rightarrow> bool" where
  "fixed_fields h a b \<longleftrightarrow>
     Standby (MasterAndStandby b) = Standby (MasterAndStandby a) \<and>
     HostBasedAuthentication (MasterAndStandby b) = HostBasedAuthentication (MasterAndStandby a) \<and>
     ToLower (Mirrors (Segments b)) = ToLower (Mirrors (Segments a)) \<and>
     ToLower (gp_AntiAffinity (MasterAndStandby b)) = ToLower (gp_AntiAffinity (MasterAndStandby a)) \<and>
     ToLower (gp_AntiAffinity (Segments b)) = ToLower (gp_AntiAffinity (Segments a)) \<and>
     gp_Storage (MasterAndStandby b) = gp_Storage (MasterAndStandby a) \<and>
     gp_Storage (Segments b) = gp_Storage (Segments a) \<and>
     gp_StorageClassName (MasterAndStandby b) = gp_StorageClassName (MasterAndStandby a) \<and>
     gp_StorageClassName (Segments b) = gp_StorageClassName (Segments a) \<and>
     q_String (h_quantities h) (gp_CPU (MasterAndStandby b)) = q_String (h_quantities h) (gp_CPU (MasterAndStandby a)) \<and>
     q_String (h_quantities h) (gp_CPU (Segments b)) = q_String (h_quantities h) (gp_CPU (Segments a)) \<and>
     q_String (h_quantities h) (gp_Memory (MasterAndStandby b)) = q_String (h_quantities h) (gp_Memory (MasterAndStandby a)) \<and>
     q_String (h_quantities h) (gp_Memory (Segments b)) = q_String (h_quantities h) (gp_Memory (Segments a)) \<and>
     ServiceName (PXF b) = ServiceName (PXF a) \<and>
     sint (PrimarySegmentCount (Segments a)) \<le> sint (PrimarySegmentCount (Segments b))"

lemma fixed_fields_refl: "fixed_fields h a a"
  by (simp add: fixed_fields_def)

lemma fixed_fields_trans: "fixed_fields h a b \<Longrightarrow> fixed_fields h b c \<Longrightarrow> fixed_fields h a c"
  by (simp add: fixed_fields_def)

lemma run_validators_reject_if:
  "fst (run_validators (reject_if b m # vs) w) = Inr None \<longleftrightarrow> \<not> b \<and> fst (run_validators vs w) = Inr None"
  by (simp add: reject_if_def)

lemma run_validators_Cons:
  "fst (run_validators (v # vs) w) = Inr None \<longleftrightarrow>
   fst (v w) = Inr None \<and> fst (run_validators vs (snd (v w))) = Inr None"
  by (auto split: prod.splits sum.splits option.splits)

lemma update_allowed:
  assumes "fst (validateUpdateGreenplumCluster h a b w) = Inr (True, None)"
  shows "fixed_fields h (Spec a) (Spec b)" "fst (validateExpand h a b w) = Inr None"
    "DeepEqualSpec h (Spec a) (Spec b) \<or> InstanceImage (Status a) = h_InstanceImage h"
proof -
  have "fst (run_validators (updateValidators h a b) w) = Inr None"
    using assms by (simp add: validateUpdateGreenplumCluster_def case_prod_unfold verdict_allowed)
  note run = this [unfolded updateValidators_def Let_def run_validators_reject_if run_validators_Cons [of "validateExpand h a b"]]
  show "fixed_fields h (Spec a) (Spec b)" using run by (simp add: fixed_fields_def)
  show "fst (validateExpand h a b w) = Inr None" using run by simp
  show "DeepEqualSpec h (Spec a) (Spec b) \<or> InstanceImage (Status a) = h_InstanceImage h" using run by blast
qed

text \<open>C7: However a cluster object evolves through updates the webhook admits and status writes of
  the operator, its standby, mirrors, anti-affinity, host-based authentication, storage, storage
  class, CPU, memory and PXF service settings stay what they were at the start, and its primary
  segment count never decreases.\<close>

theorem admitted_updates_keep:
  assumes "evolves h a b"
  shows "fixed_fields h (Spec a) (Spec b)"
  using assms
proof induction
  case (evolves_refl a)
  show ?case by (rule fixed_fields_refl)
next
  case (evolves_update a b c w)
  then show ?case using update_allowed(1) fixed_fields_trans by blast
next
  case (evolves_status a b st)
  then show ?case by simp
qed

definition demo_before :: GreenplumCluster where
  "demo_before = (demo_cluster (demo_spec ''no'' ''yes'' ''yes'' 2))
     \<lparr>Status := \<lparr>InstanceImage = ''gp:1'', OperatorVersion = ''op:1'', Phase = PhaseRunning\<rparr>\<rparr>"

definition demo_after :: GreenplumCluster where
  "demo_after = (demo_cluster (demo_spec ''no'' ''yes'' ''Yes'' 4))
     \<lparr>Status := \<lparr>InstanceImage = ''gp:1'', OperatorVersion = ''op:1'', Phase = PhaseRunning\<rparr>\<rparr>"

lemma demo_update_allowed:
  "fst (validateUpdateGreenplumCluster (admission_handler (demo_exec ''master-0'' ''0'')) demo_before demo_after
     (admission_world admission_empty)) = Inr (True, None)"
  by code_simp

theorem admitted_updates_keep_witness:
  "evolves (admission_handler (demo_exec ''master-0'' ''0'')) demo_before demo_after \<and>
   fixed_fields (admission_handler (demo_exec ''master-0'' ''0'')) (Spec demo_before) (Spec demo_after)"
proof -
  have "evolves (admission_handler (demo_exec ''master-0'' ''0'')) demo_before demo_after"
    by (rule evolves_update [OF evolves_refl demo_update_allowed])
  with admitted_updates_keep [OF this] show ?thesis by blast
qed

section \<open>Expansion\<close>

lemma validateExpand_accepts:
  assumes "exec_law (PodCmdExecutor h)"
    and "sint (PrimarySegmentCount (Segments (Spec a))) < sint (PrimarySegmentCount (Segments (Spec b)))"
    and "fst (validateExpand h a b w) = Inr None"
  shows "Phase (Status a) = PhaseRunning"
    and "\<exists>am. am \<noteq> [] \<and> TrimSpace (ex_stdout (fst (PodCmdExecutor h checkExpandSchemaCmd (Namespace (gc_meta b)) am (server w)))) = ''0''"
    and "case fst (api_Get (h_jobs h) (Namespace (gc_meta b)) (gpexpandJobName b) (server w)) of
           Inl e \<Rightarrow> IsNotFound e | Inr job \<Rightarrow> 1 \<le> sint (job_Succeeded job)"
proof -
  let ?ns = "Namespace (gc_meta b)"
  show run: "Phase (Status a) = PhaseRunning"
    using assms(2,3) by (auto simp: validateExpand_def split: if_splits)
  obtain am w1 where am: "GetCurrentActiveMaster (PodCmdExecutor h) ?ns w = (am, w1)" "server w1 = server w"
    by (rule GetCurrentActiveMaster_quiet [OF assms(1)])
  obtain w2 where ex: "Execute (PodCmdExecutor h) checkExpandSchemaCmd ?ns am w1 =
      (fst (PodCmdExecutor h checkExpandSchemaCmd ?ns am (server w)), w2)" "server w2 = server w"
    using exec_law_Execute [OF assms(1)] am(2) by metis
  obtain w3 where g: "Get (h_jobs h) ?ns (gpexpandJobName b) w2 =
      (fst (api_Get (h_jobs h) ?ns (gpexpandJobName b) (server w)), w3)"
    by (simp add: Get_def perform_def ex(2) case_prod_unfold)
  have am0: "am \<noteq> []"
    using assms(2,3) run am by (auto simp: validateExpand_def)
  let ?out = "fst (PodCmdExecutor h checkExpandSchemaCmd ?ns am (server w))"
  have "ex_err ?out = None"
    using assms(2,3) run am ex am0 by (auto simp: validateExpand_def split: option.splits)
  moreover from this have z: "TrimSpace (ex_stdout ?out) = ''0''"
    using assms(2,3) run am ex am0 by (auto simp: validateExpand_def split: if_splits)
  ultimately show "case fst (api_Get (h_jobs h) ?ns (gpexpandJobName b) (server w)) of
           Inl e \<Rightarrow> IsNotFound e | Inr job \<Rightarrow> 1 \<le> sint (job_Succeeded job)"
    using assms(2,3) run am(1) ex(1) am0 g
    by (auto simp: validateExpand_def split: sum.splits if_splits)
  show "\<exists>am. am \<noteq> [] \<and> TrimSpace (ex_stdout (fst (PodCmdExecutor h checkExpandSchemaCmd ?ns am (server w)))) = ''0''"
    using am0 z by blast
qed


text \<open>A reconciler over the same server; the kinds of object the expansion does not touch have no table.\<close>

definition no_table :: "kind \<Rightarrow> ('a \<Rightarrow> ObjectMeta) \<Rightarrow> (admission_demo, 'a) resource_api" where
  "no_table k m = table_api k m (\<lambda>s. []) (\<lambda>t s. s) (\<lambda>x b y. x)"

definition admission_reconciler :: "admission_demo pod_exec \<Rightarrow> admission_demo GreenplumClusterReconciler" where
  "admission_reconciler ex =
     \<lparr>clusters = h_clusters (admission_handler ex), configMaps = no_table KConfigMap cm_meta,
      secrets = no_table KSecret sec_meta, services = no_table KService svc_meta,
      serviceAccounts = no_table KServiceAccount sa_meta, roles = no_table KRole role_meta,
      roleBindings = no_table KRoleBinding rb_meta, statefulSets = no_table KStatefulSet ss_meta,
      jobs = h_jobs (admission_handler ex), nodes = no_table KNode node_meta,
      SSHCreator = (\<lambda>s. (Inr [], s)), r_InstanceImage = ''gp:1'', r_OperatorImage = ''op:1'',
      PodExec = ex, SetControllerReference = append_owner, quantities = demo_quantities,
      rbac = demo_rbac, SemanticDeepEqual = (=)\<rparr>"

definition demo_zero :: "admission_demo pod_exec" where
  "demo_zero = demo_exec ''master-0'' ''0''"

lemma demo_zero_facts:
  "fst (handleExpand (admission_reconciler demo_zero) demo_after ''master-0'' (admission_world admission_empty)) = Inr ()"
  "fst (validateUpdateGreenplumCluster (admission_handler demo_zero) demo_before demo_after
     (admission_world admission_empty)) = Inr (True, None)"
  "ParseInt ''ParseInt'' 32 (TrimSpace (ex_stdout (fst (PodExec (admission_reconciler demo_zero) getSegmentCountCommand
     (Namespace (gc_meta demo_after)) ''master-0'' (server (admission_world admission_empty)))))) = Inr 0"
  by code_simp+


section \<open>The HTTP handler\<close>

text \<open>An answer of a validation is an acceptance without message or a denial with one.\<close>

lemma validations_consistent:
  "validateCreateGreenplumCluster h gc w = (Inr (b, st), w') \<Longrightarrow> b \<longleftrightarrow> st = None"
  "validateUpdateGreenplumCluster h old new w = (Inr (b, st), w') \<Longrightarrow> b \<longleftrightarrow> st = None"
  "validateGreenplumPXFService h oldp newp w = (Inr (b, st), w') \<Longrightarrow> b \<longleftrightarrow> st = None"
  unfolding validateCreateGreenplumCluster_def validateUpdateGreenplumCluster_def validateGreenplumPXFService_def
  by (auto split: prod.splits dest: verdict_consistent)

text \<open>What an allowed review of either kind of object means.\<close>

lemma reviewCluster_allows:
  assumes "reviewCluster L h req w = (HttpReview resp, w')"
  shows "(resp_Allowed resp \<longleftrightarrow> resp_Result resp = None) \<and> (resp_Allowed resp \<longrightarrow> resp_UID resp = req_UID req \<and>
        (\<exists>new. unmarshalCluster L (req_Object req) = Inr new \<and>
              (req_Operation req = ''CREATE'' \<and> fst (validateCreateGreenplumCluster h new w) = Inr (True, None) \<or>
               req_Operation req = ''UPDATE'' \<and> (\<exists>old. unmarshalCluster L (req_OldObject req) = Inr old \<and>
                 fst (validateUpdateGreenplumCluster h old new w) = Inr (True, None)))))"
  using assms
  by (auto simp: reviewCluster_def deny_def respond_def split: sum.splits if_splits prod.splits dest: validations_consistent)

lemma reviewPXF_allows:
  assumes "reviewPXF L h req w = (HttpReview resp, w')"
  shows "(resp_Allowed resp \<longleftrightarrow> resp_Result resp = None) \<and> (resp_Allowed resp \<longrightarrow> resp_UID resp = req_UID req \<and>
        (\<exists>new. unmarshalPXF L (req_Object req) = Inr new \<and>
              (req_Operation req = ''CREATE'' \<and> fst (validateGreenplumPXFService h None new w) = Inr (True, None) \<or>
               req_Operation req = ''UPDATE'' \<and> (\<exists>old. unmarshalPXF L (req_OldObject req) = Inr old \<and>
                 fst (validateGreenplumPXFService h (Some old) new w) = Inr (True, None)))))"
  using assms
  by (auto simp: reviewPXF_def deny_def respond_def split: sum.splits if_splits prod.splits dest: validations_consistent)


definition demo_review :: review_lib where
  "demo_review =
     \<lparr>unmarshalReview = (\<lambda>b. Inr (Some \<lparr>req_UID = ''uid'', req_Kind = ClusterGVK, req_Operation = ''CREATE'',
        req_Object = b, req_OldObject = []\<rparr>)),
      unmarshalCluster = (\<lambda>b. Inr (demo_cluster (demo_spec ''no'' ''Yes'' ''yes'' 2))),
      unmarshalPXF = (\<lambda>b. Inl (Err ''not a PXF service'')),
      convertKind = Inr,
      kindString = (\<lambda>k. gvk_Kind k)\<rparr>"


section \<open>The empty yes/no value\<close>

text \<open>The schema admits the empty string for the yes/no fields, and the check that anti-affinity
  needs a standby and mirrors looks for \<open>no\<close> only: on an empty namespace a cluster with both fields
  empty and anti-affinity on is admitted, although it gets a single master and no mirrors.\<close>

theorem empty_standby_bypasses_affinity_check:
  assumes "list_law (h_pvcs h)" "list_law (h_clusters h)"
    and "gc = demo_cluster (demo_spec ''yes'' '''' '''' n)"
    and "\<And>ns l s. fst (api_List (h_pvcs h) ns l s) = Inr []" "\<And>ns l s. fst (api_List (h_clusters h) ns l s) = Inr []"
    and "\<And>q. q_Sign (h_quantities h) q \<noteq> -1" "1 \<le> sint n" "sint n \<le> 10000"
  shows "crd_valid_cluster (Spec gc) \<and>
    fst (validateCreateGreenplumCluster h gc w) = Inr (True, None) \<and>
    Replicas (GenerateStatefulSetParams TypeMaster gc i) = 1 \<and>
    gp_AntiAffinity (MasterAndStandby (Spec gc)) = ''yes''"
proof -
  have spec: "Spec (SetDefaultGreenplumClusterValues gc) = demo_spec ''yes'' '''' '''' n"
    by (simp add: assms(3) SetDefaultGreenplumClusterValues_def demo_cluster_def demo_spec_def)
  have empty: "claims h (SetDefaultGreenplumClusterValues gc) t s = Inr []" for t s
    using assms(4) by (simp add: claims_def)
  have "create_ok h (SetDefaultGreenplumClusterValues gc) (server w)"
    using assms(5-8)
    by (simp add: create_ok_def Let_def spec empty affinity_ok_def pod_spec_ok_def storage_ok_def version_ok_def
          int32_len_def demo_spec_def)
  then have "fst (run_validators (createValidators h (SetDefaultGreenplumClusterValues gc)) w) = Inr None"
    by (simp only: run_validators_accept [OF reads_createValidators [OF assms(1,2)]] createAnswers_ok)
  then have "fst (validateCreateGreenplumCluster h gc w) = Inr (True, None)"
    by (simp add: validateCreateGreenplumCluster_def case_prod_unfold verdict_allowed)
  then show ?thesis
    using assms(7,8)
    by (simp add: assms(3) demo_cluster_def demo_spec_def crd_valid_cluster_def yes_no_pattern_def GenerateStatefulSetParams_def)
qed

definition bare_handler :: "admission_demo Handler" where
  "bare_handler = (admission_handler demo_zero)
     \<lparr>h_pvcs := no_table KPVC pvc_meta, h_clusters := no_table KGreenplumCluster gc_meta\<rparr>"

theorem empty_standby_bypasses_affinity_check_witness:
  "fst (validateCreateGreenplumCluster bare_handler (demo_cluster (demo_spec ''yes'' '''' '''' 1))
     (admission_world admission_empty)) = Inr (True, None)"
proof -
  have laws: "list_law (h_pvcs bare_handler)" "list_law (h_clusters bare_handler)"
    by (simp_all add: bare_handler_def no_table_def table_list_law)
  have none: "fst (api_List (h_pvcs bare_handler) ns l s) = Inr []" "fst (api_List (h_clusters bare_handler) ns l s) = Inr []" for ns l s
    by (simp_all add: bare_handler_def no_table_def table_api_def)
  have sign: "q_Sign (h_quantities bare_handler) q \<noteq> -1" for q
    by (simp add: bare_handler_def admission_handler_def demo_quantities_def)
  show ?thesis
    using empty_standby_bypasses_affinity_check [OF laws refl none sign, of 1] by simp
qed

end
