(* ===== verification/Machine.thy ===== *)
theory Machine
  imports Kube
begin

text \<open>
  The machine an instance container runs on: the file system (\<open>github.com/blang/vfs\<close> over the
  operating system), the commands (\<open>os/exec\<close>) and the host name are operations of a record that the
  model's functions take as a parameter. On top of them the repository's own helpers:
  \<open>pkg/fileutil\<close> and the environment of Greenplum commands (\<open>cluster/greenplum_command.go\<close>).
\<close>

section \<open>Definitions\<close>

record Cmd =
  cmd_Path :: string
  cmd_Args :: "string list"
  cmd_Env :: "string list"

record FileInfo =
  fi_IsDir :: bool
  fi_Size :: int
  fi_Perm :: nat

datatype open_flag = O_RDONLY | O_WRONLY | O_RDWR | O_CREATE | O_TRUNC | O_APPEND

text \<open>
  Files are opened to handles; \<open>m_ReadAll\<close> reads from the handle's position to the end, and
  \<open>m_Rewind\<close> is \<open>Seek(0, 0)\<close>. Looking at files does not change the machine.
\<close>

record 's machine =
  m_Run :: "Cmd \<Rightarrow> 's \<Rightarrow> exec_result \<times> 's"
  m_ReadFile :: "string \<Rightarrow> 's \<Rightarrow> string result"
  m_Stat :: "string \<Rightarrow> 's \<Rightarrow> FileInfo result"
  m_Lstat :: "string \<Rightarrow> 's \<Rightarrow> FileInfo result"
  m_MkdirAll :: "string \<Rightarrow> nat \<Rightarrow> 's \<Rightarrow> unit result \<times> 's"
  m_OpenFile :: "string \<Rightarrow> open_flag list \<Rightarrow> nat \<Rightarrow> 's \<Rightarrow> nat result \<times> 's"
  m_ReadAll :: "nat \<Rightarrow> 's \<Rightarrow> string result \<times> 's"
  m_Rewind :: "nat \<Rightarrow> 's \<Rightarrow> 's"
  m_Write :: "nat \<Rightarrow> string \<Rightarrow> 's \<Rightarrow> unit result \<times> 's"
  m_Close :: "nat \<Rightarrow> 's \<Rightarrow> unit result \<times> 's"
  m_WriteFile :: "string \<Rightarrow> string \<Rightarrow> nat \<Rightarrow> 's \<Rightarrow> unit result \<times> 's"
  m_Symlink :: "string \<Rightarrow> string \<Rightarrow> 's \<Rightarrow> unit result \<times> 's"
  m_Hostname :: "'s \<Rightarrow> string result"

subsection \<open>Commands\<close>

definition Command :: "string \<Rightarrow> string list \<Rightarrow> Cmd" where
  "Command path args = \<lparr>cmd_Path = path, cmd_Args = args, cmd_Env = []\<rparr>"

definition greenplumEnv :: "string list" where
  "greenplumEnv =
     [''HOME=/home/gpadmin'', ''USER=gpadmin'', ''LOGNAME=gpadmin'', ''GPHOME=/usr/local/greenplum-db'',
      ''PATH=/usr/local/greenplum-db/bin:/usr/local/sbin:/usr/local/bin:/usr/sbin:/usr/bin:/sbin:/bin'',
      ''LD_LIBRARY_PATH=/usr/local/greenplum-db/lib:/usr/local/greenplum-db/ext/python/lib'',
      ''MASTER_DATA_DIRECTORY=/greenplum/data-1'', ''PYTHONHOME=/usr/local/greenplum-db/ext/python'',
      ''PYTHONPATH=/usr/local/greenplum-db/lib/python'']"

definition GreenplumCommand :: "string \<Rightarrow> string list \<Rightarrow> Cmd" where
  "GreenplumCommand path args =
     (let cmd = Command path args in cmd\<lparr>cmd_Env := cmd_Env cmd @ greenplumEnv\<rparr>)"

text \<open>\<open>cmd.Run()\<close> and \<open>cmd.Output()\<close>.\<close>

definition RunCmd :: "'s machine \<Rightarrow> Cmd \<Rightarrow> ('s, unit result) io" where
  "RunCmd M cmd w =
     (case perform (CommandCall (cmd_Path cmd) (cmd_Args cmd)) (m_Run M cmd) w of
        (x, w1) \<Rightarrow> (case ex_err x of None \<Rightarrow> Inr () | Some e \<Rightarrow> Inl e, w1))"

definition OutputCmd :: "'s machine \<Rightarrow> Cmd \<Rightarrow> ('s, string result) io" where
  "OutputCmd M cmd w =
     (case perform (CommandCall (cmd_Path cmd) (cmd_Args cmd)) (m_Run M cmd) w of
        (x, w1) \<Rightarrow> (case ex_err x of None \<Rightarrow> Inr (ex_stdout x) | Some e \<Rightarrow> Inl e, w1))"

subsection \<open>Files\<close>

definition MkdirAll :: "'s machine \<Rightarrow> string \<Rightarrow> nat \<Rightarrow> ('s, unit result) io" where
  "MkdirAll M path perm = perform (FileCall ''mkdir'' path) (m_MkdirAll M path perm)"

definition OpenFile :: "'s machine \<Rightarrow> string \<Rightarrow> open_flag list \<Rightarrow> nat \<Rightarrow> ('s, nat result) io" where
  "OpenFile M path flags perm = perform (FileCall ''open'' path) (m_OpenFile M path flags perm)"

definition ReadAll :: "'s machine \<Rightarrow> string \<Rightarrow> nat \<Rightarrow> ('s, string result) io" where
  "ReadAll M path h = perform (FileCall ''read'' path) (m_ReadAll M h)"

definition Write :: "'s machine \<Rightarrow> string \<Rightarrow> nat \<Rightarrow> string \<Rightarrow> ('s, unit result) io" where
  "Write M path h s = perform (FileCall ''write'' path) (m_Write M h s)"

definition Close :: "'s machine \<Rightarrow> string \<Rightarrow> nat \<Rightarrow> ('s, unit result) io" where
  "Close M path h = perform (FileCall ''close'' path) (m_Close M h)"

definition WriteFile :: "'s machine \<Rightarrow> string \<Rightarrow> string \<Rightarrow> nat \<Rightarrow> ('s, unit result) io" where
  "WriteFile M path s perm = perform (FileCall ''writefile'' path) (m_WriteFile M path s perm)"

definition Symlink :: "'s machine \<Rightarrow> string \<Rightarrow> string \<Rightarrow> ('s, unit result) io" where
  "Symlink M target path = perform (FileCall ''symlink'' path) (m_Symlink M target path)"

definition Rewind :: "'s machine \<Rightarrow> nat \<Rightarrow> 's world \<Rightarrow> 's world" where
  "Rewind M h w = w\<lparr>server := m_Rewind M h (server w)\<rparr>"

named_theorems machine_defs \<open>unfolding the machine's wrappers\<close>
declare MkdirAll_def [machine_defs] OpenFile_def [machine_defs] ReadAll_def [machine_defs]
  Write_def [machine_defs] Close_def [machine_defs] WriteFile_def [machine_defs] Symlink_def [machine_defs]

text \<open>\<open>path.Dir\<close> of a cleaned absolute path: everything before the last slash.\<close>

definition path_Dir :: "string \<Rightarrow> string" where
  "path_Dir p = (let d = rev (tl (dropWhile (\<lambda>c. c \<noteq> CHR ''/'') (rev p))) in if d = [] then ''/'' else d)"

subsection \<open>fileutil\<close>

text \<open>A failed type assertion panics.\<close>

definition assertion_panic :: go_error where
  "assertion_panic = Err ''interface conversion: error is not *os.PathError''"

definition HasContent :: "'s machine \<Rightarrow> string \<Rightarrow> 's \<Rightarrow> bool result" where
  "HasContent M source s =
     (case m_Lstat M source s of
        Inl err \<Rightarrow>
          (case err of
             PathErr p cause \<Rightarrow> (if cause = ErrNotExist then Inr False else Inl err)
           | _ \<Rightarrow> Inl assertion_panic)
      | Inr stat \<Rightarrow>
          (if fi_IsDir stat then Inl (Err ''invalid argument'') else Inr (fi_Size stat > 0)))"

definition nil_deref :: go_error where
  "nil_deref = Err ''runtime error: invalid memory address or nil pointer dereference''"

definition CopyFile :: "'s machine \<Rightarrow> string \<Rightarrow> string \<Rightarrow> ('s, unit result) io" where
  "CopyFile M src dest w =
     (let srcStat = m_Stat M src (server w) in
      case OpenFile M src [O_RDONLY] 0 w of
        (Inl err, w1) \<Rightarrow> (Inl (Wrap ''copy'' err), w1)
      | (Inr srcFile, w1) \<Rightarrow>
          (case srcStat of
             Inl e \<Rightarrow> (Inl nil_deref, w1)
           | Inr st \<Rightarrow>
               (case OpenFile M dest [O_WRONLY, O_CREATE] (fi_Perm st) w1 of
                  (Inl err, w2) \<Rightarrow> (Inl (Wrap ''copy'' err), w2)
                | (Inr dstFile, w2) \<Rightarrow>
                    (case ReadAll M src srcFile w2 of
                       (Inl err, w3) \<Rightarrow> (Inl (Wrap ''copy'' err), w3)
                     | (Inr content, w3) \<Rightarrow>
                         (case Write M dest dstFile content w3 of
                            (Inl err, w4) \<Rightarrow> (Inl (Wrap ''copy'' err), w4)
                          | (Inr u, w4) \<Rightarrow> (Inr (), w4))))))"

definition FileWriter_Insert :: "'s machine \<Rightarrow> string \<Rightarrow> string \<Rightarrow> ('s, unit result) io" where
  "FileWriter_Insert M filename toInsert w =
     (case MkdirAll M (path_Dir filename) 457 w of (_, w0) \<Rightarrow>
      (case OpenFile M filename [O_RDWR, O_CREATE] 384 w0 of
         (Inl err, w1) \<Rightarrow> (Inl err, w1)
       | (Inr file, w1) \<Rightarrow>
           (case ReadAll M filename file w1 of
              (Inl err, w2) \<Rightarrow> (Inl err, w2)
            | (Inr contents, w2) \<Rightarrow>
                (case Write M filename file toInsert (Rewind M file w2) of
                   (Inl err, w3) \<Rightarrow> (Inl err, snd (Close M filename file w3))
                 | (Inr u, w3) \<Rightarrow>
                     (case Write M filename file contents w3 of
                        (Inl err, w4) \<Rightarrow> (Inl err, snd (Close M filename file w4))
                      | (Inr u, w4) \<Rightarrow> Close M filename file w4)))))"

definition FileWriter_Append :: "'s machine \<Rightarrow> string \<Rightarrow> string \<Rightarrow> ('s, unit result) io" where
  "FileWriter_Append M filename toAppend w =
     (case MkdirAll M (path_Dir filename) 457 w of (_, w0) \<Rightarrow>
      (case OpenFile M filename [O_WRONLY, O_APPEND, O_CREATE] 384 w0 of
         (Inl err, w1) \<Rightarrow> (Inl err, w1)
       | (Inr file, w1) \<Rightarrow>
           (case Write M filename file toAppend w1 of
              (Inl err, w2) \<Rightarrow> (Inl err, snd (Close M filename file w2))
            | (Inr u, w2) \<Rightarrow> Close M filename file w2)))"

section \<open>What files promise\<close>

text \<open>
  The documented behaviour of files the code relies on, over an observation \<open>view\<close> of the contents
  and \<open>at\<close> of the open handles (path, position, append mode): opening creates or truncates as its
  flags say and changes no other file; a write puts its bytes at the position, in append mode at
  the end; reading, rewinding, closing and making directories change no contents.
\<close>

type_synonym handle = "string \<times> nat \<times> bool"

definition write_at :: "nat \<Rightarrow> string \<Rightarrow> string \<Rightarrow> string" where
  "write_at off t c = take off c @ t @ drop (off + length t) c"

definition open_law :: "'s machine \<Rightarrow> ('s \<Rightarrow> string \<rightharpoonup> string) \<Rightarrow> ('s \<Rightarrow> nat \<rightharpoonup> handle) \<Rightarrow> bool" where
  "open_law M view at \<longleftrightarrow>
     (\<forall>p fl perm s h s'. m_OpenFile M p fl perm s = (Inr h, s') \<longrightarrow>
        at s h = None \<and> at s' = (at s)(h \<mapsto> (p, 0, O_APPEND \<in> set fl)) \<and>
        view s' = (view s)(p \<mapsto> (if O_TRUNC \<in> set fl then [] else case view s p of None \<Rightarrow> [] | Some c \<Rightarrow> c)))"

definition write_law :: "'s machine \<Rightarrow> ('s \<Rightarrow> string \<rightharpoonup> string) \<Rightarrow> ('s \<Rightarrow> nat \<rightharpoonup> handle) \<Rightarrow> bool" where
  "write_law M view at \<longleftrightarrow>
     (\<forall>h t s s' p off app c. m_Write M h t s = (Inr (), s') \<longrightarrow> at s h = Some (p, off, app) \<longrightarrow> view s p = Some c \<longrightarrow>
        view s' = (view s)(p \<mapsto> write_at (if app then length c else off) t c) \<and>
        at s' = (at s)(h \<mapsto> (p, (if app then length c else off) + length t, app)))"

definition read_law :: "'s machine \<Rightarrow> ('s \<Rightarrow> string \<rightharpoonup> string) \<Rightarrow> ('s \<Rightarrow> nat \<rightharpoonup> handle) \<Rightarrow> bool" where
  "read_law M view at \<longleftrightarrow>
     (\<forall>h s x s' p off app c. m_ReadAll M h s = (Inr x, s') \<longrightarrow> at s h = Some (p, off, app) \<longrightarrow> view s p = Some c \<longrightarrow>
        x = drop off c \<and> view s' = view s \<and> at s' = (at s)(h \<mapsto> (p, max off (length c), app)))"

definition quiet_laws :: "'s machine \<Rightarrow> ('s \<Rightarrow> string \<rightharpoonup> string) \<Rightarrow> ('s \<Rightarrow> nat \<rightharpoonup> handle) \<Rightarrow> bool" where
  "quiet_laws M view at \<longleftrightarrow>
     (\<forall>h s p off app. at s h = Some (p, off, app) \<longrightarrow>
        view (m_Rewind M h s) = view s \<and> at (m_Rewind M h s) = (at s)(h \<mapsto> (p, 0, app))) \<and>
     (\<forall>h s r s'. m_Close M h s = (r, s') \<longrightarrow> view s' = view s) \<and>
     (\<forall>p perm s r s'. m_MkdirAll M p perm s = (r, s') \<longrightarrow> view s' = view s \<and> at s' = at s)"

definition file_laws ::
  "'s machine \<Rightarrow> ('s \<Rightarrow> string \<rightharpoonup> string) \<Rightarrow> ('s \<Rightarrow> nat \<rightharpoonup> handle) \<Rightarrow> bool"
where
  "file_laws M view at \<longleftrightarrow>
     open_law M view at \<and> write_law M view at \<and> read_law M view at \<and> quiet_laws M view at"

text \<open>\<open>vfs.WriteFile\<close> replaces the whole file and no other.\<close>

definition writefile_law :: "'s machine \<Rightarrow> ('s \<Rightarrow> string \<rightharpoonup> string) \<Rightarrow> bool" where
  "writefile_law M view \<longleftrightarrow>
     (\<forall>p c perm s s'. m_WriteFile M p c perm s = (Inr (), s') \<longrightarrow> view s' = (view s)(p \<mapsto> c))"

text \<open>Reading a file gives what is observed of it.\<close>

definition read_view_law :: "'s machine \<Rightarrow> ('s \<Rightarrow> string \<rightharpoonup> string) \<Rightarrow> bool" where
  "read_view_law M view \<longleftrightarrow>
     (\<forall>p s. case view s p of
        None \<Rightarrow> (\<exists>e. m_ReadFile M p s = Inl e \<and> IsNotExist e)
      | Some c \<Rightarrow> m_ReadFile M p s = Inr c)"

section \<open>Lemmas\<close>

lemma WriteFile_view:
  assumes "writefile_law M view" "WriteFile M p c perm w = (Inr (), w')"
  shows "view (server w') = (view (server w))(p \<mapsto> c)"
  using assms(1) server_perform [OF assms(2) [unfolded WriteFile_def]] unfolding writefile_law_def by metis

lemma file_laws_open:
  assumes "file_laws M view at" "OpenFile M p fl perm w = (Inr h, w')"
  shows "at (server w) h = None" "at (server w') = (at (server w))(h \<mapsto> (p, 0, O_APPEND \<in> set fl))"
    "view (server w') = (view (server w))(p \<mapsto> (if O_TRUNC \<in> set fl then [] else case view (server w) p of None \<Rightarrow> [] | Some c \<Rightarrow> c))"
proof -
  have "m_OpenFile M p fl perm (server w) = (Inr h, server w')"
    using assms(2) unfolding OpenFile_def by (rule server_perform)
  moreover have "open_law M view at" using assms(1) by (simp add: file_laws_def)
  ultimately show "at (server w) h = None" "at (server w') = (at (server w))(h \<mapsto> (p, 0, O_APPEND \<in> set fl))"
    "view (server w') = (view (server w))(p \<mapsto> (if O_TRUNC \<in> set fl then [] else case view (server w) p of None \<Rightarrow> [] | Some c \<Rightarrow> c))"
    unfolding open_law_def by metis+
qed

lemma file_laws_write:
  assumes "file_laws M view at" "Write M q h t w = (Inr (), w')"
    and "at (server w) h = Some (p, off, app)" "view (server w) p = Some c"
  shows "view (server w') = (view (server w))(p \<mapsto> write_at (if app then length c else off) t c)"
    "at (server w') = (at (server w))(h \<mapsto> (p, (if app then length c else off) + length t, app))"
proof -
  have "m_Write M h t (server w) = (Inr (), server w')"
    using assms(2) unfolding Write_def by (rule server_perform)
  moreover have "write_law M view at" using assms(1) by (simp add: file_laws_def)
  ultimately show "view (server w') = (view (server w))(p \<mapsto> write_at (if app then length c else off) t c)"
    "at (server w') = (at (server w))(h \<mapsto> (p, (if app then length c else off) + length t, app))"
    using assms(3,4) unfolding write_law_def by metis+
qed

lemma file_laws_read:
  assumes "file_laws M view at" "ReadAll M q h w = (Inr x, w')"
    and "at (server w) h = Some (p, off, app)" "view (server w) p = Some c"
  shows "x = drop off c" "view (server w') = view (server w)"
    "at (server w') = (at (server w))(h \<mapsto> (p, max off (length c), app))"
proof -
  have "m_ReadAll M h (server w) = (Inr x, server w')"
    using assms(2) unfolding ReadAll_def by (rule server_perform)
  moreover have "read_law M view at" using assms(1) by (simp add: file_laws_def)
  ultimately show "x = drop off c" "view (server w') = view (server w)"
    "at (server w') = (at (server w))(h \<mapsto> (p, max off (length c), app))"
    using assms(3,4) unfolding read_law_def by metis+
qed

lemma file_laws_rewind:
  assumes "file_laws M view at" "at (server w) h = Some (p, off, app)"
  shows "view (server (Rewind M h w)) = view (server w)" "at (server (Rewind M h w)) = (at (server w))(h \<mapsto> (p, 0, app))"
  using assms by (auto simp: file_laws_def quiet_laws_def Rewind_def)

lemma file_laws_close:
  assumes "file_laws M view at" "Close M q h w = (r, w')"
  shows "view (server w') = view (server w)"
  using assms(1) server_perform [OF assms(2) [unfolded Close_def]]
  unfolding file_laws_def quiet_laws_def by metis

lemma file_laws_mkdir:
  assumes "file_laws M view at" "MkdirAll M q perm w = (r, w')"
  shows "view (server w') = view (server w)" "at (server w') = at (server w)"
  using assms(1) server_perform [OF assms(2) [unfolded MkdirAll_def]]
  unfolding file_laws_def quiet_laws_def by metis+

lemma write_at_simps [simp]:
  "write_at (length c) t c = c @ t" "write_at 0 t c = t @ drop (length t) c" "length (write_at 0 t c) = max (length t) (length c)"
  by (simp_all add: write_at_def)

text \<open>A successful append leaves the old contents followed by the new text, and no other file changed.\<close>

lemma FileWriter_Append_view:
  assumes "file_laws M view at" "FileWriter_Append M f t w = (Inr (), w')"
  shows "view (server w') = (view (server w))(f \<mapsto> (case view (server w) f of None \<Rightarrow> [] | Some c \<Rightarrow> c) @ t)"
proof -
  obtain r0 w0 where m: "MkdirAll M (path_Dir f) 457 w = (r0, w0)" by fastforce
  obtain fh w1 where op: "OpenFile M f [O_WRONLY, O_APPEND, O_CREATE] 384 w0 = (Inr fh, w1)"
    using assms(2) m by (auto simp: FileWriter_Append_def split: prod.splits sum.splits)
  obtain w2 where wr: "Write M f fh t w1 = (Inr (), w2)"
    using assms(2) m op by (auto simp: FileWriter_Append_def split: prod.splits sum.splits)
  have cl: "Close M f fh w2 = (Inr (), w')" using assms(2) m op wr by (simp add: FileWriter_Append_def)
  note mk = file_laws_mkdir [OF assms(1) m] and o = file_laws_open [OF assms(1) op]
  let ?c = "case view (server w) f of None \<Rightarrow> [] | Some c \<Rightarrow> c"
  have "view (server w1) f = Some ?c" "at (server w1) fh = Some (f, 0, True)"
    using o mk by simp_all
  from file_laws_write(1) [OF assms(1) wr this(2,1)] file_laws_close [OF assms(1) cl] o mk show ?thesis
    by (simp add: fun_eq_iff)
qed

text \<open>A successful insert puts the text before the old contents.\<close>

lemma FileWriter_Insert_view:
  assumes "file_laws M view at" "FileWriter_Insert M f t w = (Inr (), w')"
  shows "view (server w') = (view (server w))(f \<mapsto> t @ (case view (server w) f of None \<Rightarrow> [] | Some c \<Rightarrow> c))"
proof -
  let ?c = "case view (server w) f of None \<Rightarrow> [] | Some c \<Rightarrow> c"
  obtain r0 w0 where m: "MkdirAll M (path_Dir f) 457 w = (r0, w0)" by fastforce
  obtain fh w1 where op: "OpenFile M f [O_RDWR, O_CREATE] 384 w0 = (Inr fh, w1)"
    using assms(2) m by (auto simp: FileWriter_Insert_def split: prod.splits sum.splits)
  obtain x w2 where rd: "ReadAll M f fh w1 = (Inr x, w2)"
    using assms(2) m op by (auto simp: FileWriter_Insert_def split: prod.splits sum.splits)
  obtain w3 where wr1: "Write M f fh t (Rewind M fh w2) = (Inr (), w3)"
    using assms(2) m op rd by (auto simp: FileWriter_Insert_def split: prod.splits sum.splits)
  obtain w4 where wr2: "Write M f fh x w3 = (Inr (), w4)"
    using assms(2) m op rd wr1 by (auto simp: FileWriter_Insert_def split: prod.splits sum.splits)
  have cl: "Close M f fh w4 = (Inr (), w')" using assms(2) m op rd wr1 wr2 by (simp add: FileWriter_Insert_def)
  note mk = file_laws_mkdir [OF assms(1) m] and o = file_laws_open [OF assms(1) op]
  have v1: "view (server w1) f = Some ?c" "at (server w1) fh = Some (f, 0, False)" using o mk by simp_all
  note r = file_laws_read [OF assms(1) rd v1(2,1)]
  have "at (server w2) fh = Some (f, max 0 (length ?c), False)" using r by simp
  note rw = file_laws_rewind [OF assms(1) this]
  have v2: "view (server (Rewind M fh w2)) f = Some ?c" "at (server (Rewind M fh w2)) fh = Some (f, 0, False)"
    using rw r v1 by simp_all
  note w1' = file_laws_write [OF assms(1) wr1 v2(2,1)]
  have "view (server w3) f = Some (t @ drop (length t) ?c)" "at (server w3) fh = Some (f, length t, False)"
    using w1' by simp_all
  from file_laws_write(1) [OF assms(1) wr2 this(2,1)] w1'(1) rw r v1 o mk file_laws_close [OF assms(1) cl]
  show ?thesis by (simp add: write_at_def fun_eq_iff)
qed

text \<open>The copy opens its destination without truncation: a longer old file keeps its tail.\<close>

lemma CopyFile_view:
  assumes "file_laws M view at" "CopyFile M src dest w = (Inr (), w')" "src \<noteq> dest"
  shows "view (server w') = (view (server w))
    (src \<mapsto> (case view (server w) src of None \<Rightarrow> [] | Some c \<Rightarrow> c),
     dest \<mapsto> write_at 0 (case view (server w) src of None \<Rightarrow> [] | Some c \<Rightarrow> c)
       (case view (server w) dest of None \<Rightarrow> [] | Some c \<Rightarrow> c))"
proof -
  let ?c = "case view (server w) src of None \<Rightarrow> [] | Some c \<Rightarrow> c"
  let ?d = "case view (server w) dest of None \<Rightarrow> [] | Some c \<Rightarrow> c"
  obtain sf w1 where o1: "OpenFile M src [O_RDONLY] 0 w = (Inr sf, w1)"
    using assms(2) by (auto simp: CopyFile_def Let_def split: prod.splits sum.splits)
  obtain st where st: "m_Stat M src (server w) = Inr st"
    using assms(2) o1 by (auto simp: CopyFile_def Let_def split: sum.splits)
  obtain df w2 where o2: "OpenFile M dest [O_WRONLY, O_CREATE] (fi_Perm st) w1 = (Inr df, w2)"
    using assms(2) o1 st by (auto simp: CopyFile_def Let_def split: prod.splits sum.splits)
  obtain x w3 where rd: "ReadAll M src sf w2 = (Inr x, w3)"
    using assms(2) o1 st o2 by (auto simp: CopyFile_def Let_def split: prod.splits sum.splits)
  obtain w4 where wr: "Write M dest df x w3 = (Inr (), w4)" "w' = w4"
    using assms(2) o1 st o2 rd by (auto simp: CopyFile_def Let_def split: prod.splits sum.splits)
  note p1 = file_laws_open [OF assms(1) o1] and p2 = file_laws_open [OF assms(1) o2]
  have "sf \<noteq> df" using p1 p2 by auto
  then have v2: "at (server w2) sf = Some (src, 0, False)" "view (server w2) src = Some ?c"
    "at (server w2) df = Some (dest, 0, False)" "view (server w2) dest = Some ?d"
    using p1 p2 assms(3) by auto
  note r = file_laws_read [OF assms(1) rd v2(1,2)]
  have "at (server w3) df = Some (dest, 0, False)" "view (server w3) dest = Some ?d"
    using r v2 \<open>sf \<noteq> df\<close> by auto
  from file_laws_write(1) [OF assms(1) wr(1) this] r p1 p2 assms(3) wr(2) show ?thesis
    by (auto simp: fun_eq_iff)
qed

end
