(* ===== verification/Demo_Machine.thy ===== *)
theory Demo_Machine
  imports Machine
begin

text \<open>
  A concrete machine for the witnesses: files in memory with the documented behaviour of each
  operation, and commands whose results are scripted. It satisfies \<open>file_laws\<close>.
\<close>

section \<open>Definitions\<close>

record mem =
  mem_files :: "(string \<times> string) list"
  mem_handles :: "(nat \<times> handle) list"

definition mem_view :: "mem \<Rightarrow> string \<rightharpoonup> string" where
  "mem_view s = map_of (mem_files s)"

definition mem_at :: "mem \<Rightarrow> nat \<rightharpoonup> handle" where
  "mem_at s = map_of (mem_handles s)"

definition mem_fresh :: "mem \<Rightarrow> nat" where
  "mem_fresh s = Suc (foldr max (map fst (mem_handles s)) 0)"

definition mem_put :: "string \<Rightarrow> string \<Rightarrow> mem \<Rightarrow> mem" where
  "mem_put p c s = s\<lparr>mem_files := (p, c) # mem_files s\<rparr>"

definition mem_set :: "nat \<Rightarrow> handle \<Rightarrow> mem \<Rightarrow> mem" where
  "mem_set h x s = s\<lparr>mem_handles := (h, x) # mem_handles s\<rparr>"

definition mem_info :: "string \<Rightarrow> mem \<Rightarrow> FileInfo result" where
  "mem_info p s = (case mem_view s p of
      None \<Rightarrow> Inl (PathErr p ENOENT)
    | Some c \<Rightarrow> Inr \<lparr>fi_IsDir = False, fi_Size = int (length c), fi_Perm = 384\<rparr>)"

definition mem_open :: "string \<Rightarrow> open_flag list \<Rightarrow> nat \<Rightarrow> mem \<Rightarrow> nat result \<times> mem" where
  "mem_open p fl perm s =
     (if mem_view s p = None \<and> O_CREATE \<notin> set fl then (Inl (PathErr p ENOENT), s)
      else (Inr (mem_fresh s),
        mem_set (mem_fresh s) (p, 0, O_APPEND \<in> set fl)
          (mem_put p (if O_TRUNC \<in> set fl then [] else case mem_view s p of None \<Rightarrow> [] | Some c \<Rightarrow> c) s)))"

definition mem_write :: "nat \<Rightarrow> string \<Rightarrow> mem \<Rightarrow> unit result \<times> mem" where
  "mem_write h t s =
     (case mem_at s h of
        None \<Rightarrow> (Inl (Err ''bad handle''), s)
      | Some (p, off, app) \<Rightarrow>
          (case mem_view s p of
             None \<Rightarrow> (Inl (Err ''no file''), s)
           | Some c \<Rightarrow>
               (let o' = (if app then length c else off)
                in (Inr (), mem_set h (p, o' + length t, app) (mem_put p (write_at o' t c) s)))))"

definition mem_read :: "nat \<Rightarrow> mem \<Rightarrow> string result \<times> mem" where
  "mem_read h s =
     (case mem_at s h of
        None \<Rightarrow> (Inl (Err ''bad handle''), s)
      | Some (p, off, app) \<Rightarrow>
          (case mem_view s p of
             None \<Rightarrow> (Inl (Err ''no file''), s)
           | Some c \<Rightarrow> (Inr (drop off c), mem_set h (p, max off (length c), app) s)))"

definition mem_rewind :: "nat \<Rightarrow> mem \<Rightarrow> mem" where
  "mem_rewind h s = (case mem_at s h of None \<Rightarrow> s | Some (p, off, app) \<Rightarrow> mem_set h (p, 0, app) s)"

definition mem_machine :: "(Cmd \<Rightarrow> exec_result) \<Rightarrow> string \<Rightarrow> mem machine" where
  "mem_machine script host =
     \<lparr>m_Run = (\<lambda>cmd s. (script cmd, s)),
      m_ReadFile = (\<lambda>p s. case mem_view s p of None \<Rightarrow> Inl (PathErr p ENOENT) | Some c \<Rightarrow> Inr c),
      m_Stat = mem_info,
      m_Lstat = mem_info,
      m_MkdirAll = (\<lambda>p perm s. (Inr (), s)),
      m_OpenFile = mem_open,
      m_ReadAll = mem_read,
      m_Rewind = mem_rewind,
      m_Write = mem_write,
      m_Close = (\<lambda>h s. (Inr (), s)),
      m_WriteFile = (\<lambda>p c perm s. (Inr (), mem_put p c s)),
      m_Symlink = (\<lambda>t p s. (Inr (), s)),
      m_Hostname = (\<lambda>s. Inr host)\<rparr>"

definition mem_world :: "(string \<times> string) list \<Rightarrow> mem world" where
  "mem_world fs = \<lparr>server = \<lparr>mem_files = fs, mem_handles = []\<rparr>, calls = []\<rparr>"

definition run_ok :: "string \<Rightarrow> exec_result" where
  "run_ok out = \<lparr>ex_err = None, ex_stdout = out, ex_stderr = []\<rparr>"

section \<open>Lemmas\<close>

lemma mem_view_simps [simp]:
  "mem_view (mem_put p c s) = (mem_view s)(p \<mapsto> c)" "mem_view (mem_set h x s) = mem_view s"
  "mem_at (mem_put p c s) = mem_at s" "mem_at (mem_set h x s) = (mem_at s)(h \<mapsto> x)"
  by (simp_all add: mem_view_def mem_at_def mem_put_def mem_set_def)

lemma foldr_max_ge: "x \<in> set xs \<Longrightarrow> x \<le> foldr max xs (0 :: nat)"
  by (induction xs) auto

lemma mem_fresh_new: "mem_at s (mem_fresh s) = None"
proof -
  have "mem_fresh s \<notin> fst ` set (mem_handles s)"
    using foldr_max_ge [of _ "map fst (mem_handles s)"] by (fastforce simp: mem_fresh_def)
  then show ?thesis by (simp add: mem_at_def map_of_eq_None_iff)
qed

lemma mem_file_laws: "file_laws (mem_machine script host) mem_view mem_at"
  unfolding file_laws_def
proof (intro conjI)
  show "open_law (mem_machine script host) mem_view mem_at"
    by (auto simp: open_law_def mem_machine_def mem_open_def mem_fresh_new split: if_splits)
  show "write_law (mem_machine script host) mem_view mem_at"
    by (auto simp: write_law_def mem_machine_def mem_write_def Let_def)
  show "read_law (mem_machine script host) mem_view mem_at"
    by (auto simp: read_law_def mem_machine_def mem_read_def)
  show "quiet_laws (mem_machine script host) mem_view mem_at"
    by (auto simp: quiet_laws_def mem_machine_def mem_rewind_def)
qed

lemma mem_writefile_law: "writefile_law (mem_machine script host) mem_view"
  by (auto simp: writefile_law_def mem_machine_def)

lemma mem_read_view_law: "read_view_law (mem_machine script host) mem_view"
  by (auto simp: read_view_law_def mem_machine_def split: option.split)

end
