(* ===== verification/Instance_Config.thy ===== *)
theory Instance_Config
  imports Demo_Machine Demo_Server
begin

text \<open>
  The configuration as an instance sees it (\<open>pkg/instanceconfig/reader.go\<close>): files of the mounted
  config map and of the downward API. The interface \<open>Reader\<close> is a locale, interpreted by the
  file-system reader; the round trip with \<open>ModifyConfigMap\<close> connects both ends of the config map.
\<close>

section \<open>Definitions\<close>

definition ConfigMapPathPrefix :: string where
  "ConfigMapPathPrefix = ''/etc/config/''"

definition PodInfoPathPrefix :: string where
  "PodInfoPathPrefix = ''/etc/podinfo/''"

record ConfigValues =
  cv_Namespace :: string
  cv_GreenplumClusterName :: string
  cv_SegmentCount :: int
  cv_Mirrors :: bool
  cv_Standby :: bool
  cv_PXFServiceName :: string

definition readInt :: "'s machine \<Rightarrow> string \<Rightarrow> string \<Rightarrow> 's \<Rightarrow> int result" where
  "readInt M pathPrefix configKey s =
     (case m_ReadFile M (pathPrefix @ configKey) s of
        Inl err \<Rightarrow> Inl err
      | Inr bytes \<Rightarrow>
          (case Atoi bytes of
             Inl err \<Rightarrow> Inl err
           | Inr v \<Rightarrow> (if v \<le> 0 then Inl (Err (configKey @ '' must be > 0'')) else Inr v)))"

definition readBool :: "'s machine \<Rightarrow> string \<Rightarrow> string \<Rightarrow> 's \<Rightarrow> bool result" where
  "readBool M pathPrefix configKey s =
     (case m_ReadFile M (pathPrefix @ configKey) s of
        Inl err \<Rightarrow> Inl (Err (''error reading '' @ configKey @ '': '' @ Error err))
      | Inr bytes \<Rightarrow>
          (case ParseBool bytes of
             Inl err \<Rightarrow> Inl (Err (''error parsing '' @ configKey @ '', must be a boolean, got: '' @ bytes))
           | Inr v \<Rightarrow> Inr v))"

definition readStringHelper :: "'s machine \<Rightarrow> string \<Rightarrow> string \<Rightarrow> bool \<Rightarrow> 's \<Rightarrow> string result" where
  "readStringHelper M pathPrefix configKey required s =
     (case m_ReadFile M (pathPrefix @ configKey) s of
        Inl err \<Rightarrow> (if \<not> required \<and> IsNotExist err then Inr '''' else Inl err)
      | Inr bytes \<Rightarrow> Inr bytes)"

definition GetNamespace :: "'s machine \<Rightarrow> 's \<Rightarrow> string result" where
  "GetNamespace M = readStringHelper M PodInfoPathPrefix ''namespace'' True"

definition GetGreenplumClusterName :: "'s machine \<Rightarrow> 's \<Rightarrow> string result" where
  "GetGreenplumClusterName M = readStringHelper M PodInfoPathPrefix ''greenplumClusterName'' True"

definition GetSegmentCount :: "'s machine \<Rightarrow> 's \<Rightarrow> int result" where
  "GetSegmentCount M = readInt M ConfigMapPathPrefix ''segmentCount''"

definition GetMirrors :: "'s machine \<Rightarrow> 's \<Rightarrow> bool result" where
  "GetMirrors M = readBool M ConfigMapPathPrefix ''mirrors''"

definition GetStandby :: "'s machine \<Rightarrow> 's \<Rightarrow> bool result" where
  "GetStandby M = readBool M ConfigMapPathPrefix ''standby''"

definition GetPXFServiceName :: "'s machine \<Rightarrow> 's \<Rightarrow> string result" where
  "GetPXFServiceName M = readStringHelper M ConfigMapPathPrefix ''pxfServiceName'' False"

definition GetConfigValues :: "'s machine \<Rightarrow> 's \<Rightarrow> ConfigValues result" where
  "GetConfigValues M s =
     (case GetNamespace M s of Inl e \<Rightarrow> Inl e | Inr ns \<Rightarrow>
      (case GetGreenplumClusterName M s of Inl e \<Rightarrow> Inl e | Inr nm \<Rightarrow>
       (case GetSegmentCount M s of Inl e \<Rightarrow> Inl e | Inr n \<Rightarrow>
        (case GetMirrors M s of Inl e \<Rightarrow> Inl e | Inr m \<Rightarrow>
         (case GetStandby M s of Inl e \<Rightarrow> Inl e | Inr st \<Rightarrow>
          (case GetPXFServiceName M s of Inl e \<Rightarrow> Inl e | Inr p \<Rightarrow>
             Inr \<lparr>cv_Namespace = ns, cv_GreenplumClusterName = nm, cv_SegmentCount = n, cv_Mirrors = m,
                  cv_Standby = st, cv_PXFServiceName = p\<rparr>))))))"

section \<open>The interface\<close>

text \<open>
  What the clients of \<open>instanceconfig.Reader\<close> rely on: a segment count that is read is positive and
  an \<open>int\<close>, and \<open>GetConfigValues\<close> agrees with the single getters.
\<close>

locale config_reader =
  fixes segmentCount :: "'s \<Rightarrow> int result"
    and mirrors :: "'s \<Rightarrow> bool result"
    and standby :: "'s \<Rightarrow> bool result"
    and configValues :: "'s \<Rightarrow> ConfigValues result"
  assumes count_positive: "segmentCount s = Inr n \<Longrightarrow> 0 < n"
    and count_int: "segmentCount s = Inr n \<Longrightarrow> n < 2 ^ 63"
    and values_agree: "configValues s = Inr v \<Longrightarrow>
      segmentCount s = Inr (cv_SegmentCount v) \<and> mirrors s = Inr (cv_Mirrors v) \<and> standby s = Inr (cv_Standby v)"
begin

lemma values_positive: "configValues s = Inr v \<Longrightarrow> 0 < cv_SegmentCount v"
  using values_agree count_positive by blast

end

interpretation fs_config: config_reader "GetSegmentCount M" "GetMirrors M" "GetStandby M" "GetConfigValues M" for M
proof
  fix s n
  assume "GetSegmentCount M s = Inr n"
  then have r: "\<exists>b. Atoi b = Inr n \<and> 0 < n"
    by (auto simp: GetSegmentCount_def readInt_def split: sum.splits if_splits)
  then show "0 < n" by blast
  from r show "n < 2 ^ 63" by (auto simp: Atoi_def dest: ParseInt_range)
next
  fix s v
  assume "GetConfigValues M s = Inr v"
  then show "GetSegmentCount M s = Inr (cv_SegmentCount v) \<and> GetMirrors M s = Inr (cv_Mirrors v) \<and>
      GetStandby M s = Inr (cv_Standby v)"
    by (auto simp: GetConfigValues_def split: sum.splits)
qed

section \<open>The round trip\<close>

text \<open>A mounted config map: one file per key, with the value as its contents.\<close>

definition mounted :: "'s machine \<Rightarrow> string \<Rightarrow> smap \<Rightarrow> 's \<Rightarrow> bool" where
  "mounted M dir data s \<longleftrightarrow> (\<forall>k v. (k, v) \<in> set data \<longrightarrow> m_ReadFile M (dir @ k) s = Inr v)"

text \<open>C16: What the operator writes into the config map of a cluster is what the instances read: in a
  pod with the config map and the pod information mounted, every instance reads back the cluster's
  segment count, its mirrors and standby settings, its PXF service, its namespace and its name, for
  every segment count the schema admits.\<close>

theorem config_map_round_trip:
  assumes "crd_valid_cluster (Spec gc)"
    and "mounted M ConfigMapPathPrefix (map_make (cm_Data (ModifyConfigMap gc cm))) s"
    and "mounted M PodInfoPathPrefix [(''namespace'', Namespace (gc_meta gc)), (''greenplumClusterName'', Name (gc_meta gc))] s"
  shows "GetConfigValues M s = Inr
    \<lparr>cv_Namespace = Namespace (gc_meta gc), cv_GreenplumClusterName = Name (gc_meta gc),
     cv_SegmentCount = sint (PrimarySegmentCount (Segments (Spec gc))),
     cv_Mirrors = (Mirrors (Segments (Spec gc)) = ''yes''),
     cv_Standby = (Standby (MasterAndStandby (Spec gc)) = ''yes''),
     cv_PXFServiceName = ServiceName (PXF (Spec gc))\<rparr>"
proof -
  have data: "map_make (cm_Data (ModifyConfigMap gc cm)) = configData gc"
    by (simp add: ModifyConfigMap_def)
  have read: "m_ReadFile M (ConfigMapPathPrefix @ k) s = Inr v" if "(k, v) \<in> set (configData gc)" for k v
    using assms(2) that by (simp add: mounted_def data)
  have pos: "0 < sint (PrimarySegmentCount (Segments (Spec gc)))"
    using assms(1) by (simp add: crd_valid_cluster_def)
  have "GetSegmentCount M s = Inr (sint (PrimarySegmentCount (Segments (Spec gc))))"
    using pos by (simp add: GetSegmentCount_def readInt_def read configData_def)
  moreover have "GetMirrors M s = Inr (Mirrors (Segments (Spec gc)) = ''yes'')"
    "GetStandby M s = Inr (Standby (MasterAndStandby (Spec gc)) = ''yes'')"
    "GetPXFServiceName M s = Inr (ServiceName (PXF (Spec gc)))"
    by (simp_all add: GetMirrors_def GetStandby_def GetPXFServiceName_def readBool_def readStringHelper_def
          read configData_def)
  moreover have "GetNamespace M s = Inr (Namespace (gc_meta gc))" "GetGreenplumClusterName M s = Inr (Name (gc_meta gc))"
    using assms(3) by (simp_all add: GetNamespace_def GetGreenplumClusterName_def readStringHelper_def mounted_def)
  ultimately show ?thesis by (simp add: GetConfigValues_def)
qed

definition demo_mounts :: "GreenplumCluster \<Rightarrow> (string \<times> string) list" where
  "demo_mounts gc = map (\<lambda>(k, v). (''/etc/config/'' @ k, v)) (configData gc) @
     [(''/etc/podinfo/namespace'', Namespace (gc_meta gc)), (''/etc/podinfo/greenplumClusterName'', Name (gc_meta gc))]"

theorem config_map_round_trip_witness:
  "GetConfigValues (mem_machine (\<lambda>c. run_ok '''') ''master-0'')
     (server (mem_world (demo_mounts (demo_cluster (demo_spec ''no'' ''yes'' ''yes'' 3))))) =
   Inr \<lparr>cv_Namespace = ''ns'', cv_GreenplumClusterName = ''gp'', cv_SegmentCount = 3, cv_Mirrors = True,
     cv_Standby = True, cv_PXFServiceName = ''pxf''\<rparr>"
proof -
  let ?gc = "demo_cluster (demo_spec ''no'' ''yes'' ''yes'' 3)"
  let ?M = "mem_machine (\<lambda>c. run_ok '''') ''master-0''" and ?s = "server (mem_world (demo_mounts ?gc))"
  have "crd_valid_cluster (Spec ?gc)"
    by (simp add: demo_cluster_def demo_spec_def crd_valid_cluster_def yes_no_pattern_def)
  moreover have "mounted ?M ConfigMapPathPrefix (map_make (cm_Data (ModifyConfigMap ?gc (newConfigMap emptyMeta)))) ?s"
    by (auto simp: mounted_def ModifyConfigMap_def configData_def ConfigMapPathPrefix_def mem_machine_def mem_view_def
          mem_world_def demo_mounts_def)
  moreover have "mounted ?M PodInfoPathPrefix [(''namespace'', Namespace (gc_meta ?gc)), (''greenplumClusterName'', Name (gc_meta ?gc))] ?s"
    by (auto simp: mounted_def configData_def PodInfoPathPrefix_def mem_machine_def mem_view_def mem_world_def demo_mounts_def)
  ultimately show ?thesis
    using config_map_round_trip [of ?gc ?M "newConfigMap emptyMeta" ?s] by (simp add: demo_cluster_def demo_spec_def)
qed

end
