(* ===== verification/Hosts.thy ===== *)
theory Hosts
  imports Instance_Config
begin

text \<open>
  The hosts of a cluster and operations over them (\<open>pkg/net\<close>): the host list, which is shown to
  name exactly the pods of the stateful sets; \<open>multihost.ParallelForeach\<close> as a step relation of its
  goroutines and channel; and the DNS poller of \<open>pkg/net/dns\<close>.
\<close>

section \<open>The host list\<close>

definition generateHostListWithDNSSuffix :: "int \<Rightarrow> bool \<Rightarrow> bool \<Rightarrow> string \<Rightarrow> string list" where
  "generateHostListWithDNSSuffix segmentCount useMirrors useStandby dnsSuffix =
     concat (map (\<lambda>i. (''segment-a-'' @ Itoa (int i) @ dnsSuffix) #
        (if useMirrors then [''segment-b-'' @ Itoa (int i) @ dnsSuffix] else [])) [0..<nat segmentCount]) @
     [''master-0'' @ dnsSuffix] @
     (if useStandby then [''master-1'' @ dnsSuffix] else [])"

definition GenerateHostList :: "int \<Rightarrow> bool \<Rightarrow> bool \<Rightarrow> string \<Rightarrow> string list" where
  "GenerateHostList segmentCount useMirrors useStandby dnsSuffix =
     (let hostList = generateHostListWithDNSSuffix segmentCount useMirrors useStandby ''''
      in if dnsSuffix \<noteq> ''''
         then hostList @ generateHostListWithDNSSuffix segmentCount useMirrors useStandby dnsSuffix
         else hostList)"

lemma set_pairs:
  "set (concat (map (\<lambda>i. f i # (if m then [g i] else [])) [0..<n])) =
     {f i | i. i < n} \<union> (if m then {g i | i. i < n} else {})"
  by auto

lemma set_generateHostList:
  "set (generateHostListWithDNSSuffix n m s d) =
     {''segment-a-'' @ Itoa (int i) @ d | i. i < nat n} \<union>
     (if m then {''segment-b-'' @ Itoa (int i) @ d | i. i < nat n} else {}) \<union>
     {''master-0'' @ d} \<union> (if s then {''master-1'' @ d} else {})"
  unfolding generateHostListWithDNSSuffix_def set_append set_pairs by simp

text \<open>The pods of a stateful set are named after it, with ordinals from 0.\<close>

definition podNames :: "string \<Rightarrow> int32 \<Rightarrow> string set" where
  "podNames name replicas = {name @ ''-'' @ Itoa (int i) | i. i < nat (sint replicas)}"

definition clusterPods :: "GreenplumCluster \<Rightarrow> string \<Rightarrow> string set" where
  "clusterPods gc img =
     podNames ''master'' (Replicas (GenerateStatefulSetParams TypeMaster gc img)) \<union>
     podNames ''segment-a'' (Replicas (GenerateStatefulSetParams TypeSegmentA gc img)) \<union>
     (if Mirrors (Segments (Spec gc)) = ''yes''
      then podNames ''segment-b'' (Replicas (GenerateStatefulSetParams TypeSegmentB gc img)) else {})"

lemma Itoa_0_1 [simp]: "Itoa 0 = ''0''" "Itoa 1 = ''1''"
  by code_simp+

lemma podNames_master:
  "podNames ''master'' 1 = {''master-0''}" "podNames ''master'' 2 = {''master-0'', ''master-1''}"
proof -
  show "podNames ''master'' 1 = {''master-0''}" by (simp add: podNames_def)
  have "{i. i < (2::nat)} = {0, 1}" by auto
  then show "podNames ''master'' 2 = {''master-0'', ''master-1''}"
    by (simp add: podNames_def setcompr_eq_image)
qed

text \<open>C17: The hosts an instance computes from its configuration are exactly the pods of the stateful
  sets that the operator creates for the cluster: none is missed and none is invented; with a DNS
  suffix the list also has every fully qualified name.\<close>

theorem host_list_matches_pods:
  "let v = \<lparr>cv_Namespace = Namespace (gc_meta gc), cv_GreenplumClusterName = Name (gc_meta gc),
     cv_SegmentCount = sint (PrimarySegmentCount (Segments (Spec gc))),
     cv_Mirrors = (Mirrors (Segments (Spec gc)) = ''yes''),
     cv_Standby = (Standby (MasterAndStandby (Spec gc)) = ''yes''),
     cv_PXFServiceName = ServiceName (PXF (Spec gc))\<rparr>
   in set (GenerateHostList (cv_SegmentCount v) (cv_Mirrors v) (cv_Standby v) dnsSuffix) =
      clusterPods gc img \<union> (if dnsSuffix = '''' then {} else (\<lambda>h. h @ dnsSuffix) ` clusterPods gc img)"
proof -
  let ?n = "sint (PrimarySegmentCount (Segments (Spec gc)))"
  let ?m = "Mirrors (Segments (Spec gc)) = ''yes''" and ?s = "Standby (MasterAndStandby (Spec gc)) = ''yes''"
  have pods: "(\<lambda>h. h @ d) ` podNames nm r = {nm @ ''-'' @ Itoa (int i) @ d | i. i < nat (sint r)}" for nm r d
    by (auto simp: podNames_def)
  have master: "(\<lambda>h. h @ d) ` podNames ''master'' (if b then 2 else 1) =
      {''master-0'' @ d} \<union> (if b then {''master-1'' @ d} else {})" for b d
    by (simp add: podNames_master)
  have "set (generateHostListWithDNSSuffix ?n ?m ?s d) = (\<lambda>h. h @ d) ` clusterPods gc img" for d
  proof -
    have seg: "Replicas (GenerateStatefulSetParams TypeSegmentA gc img) = PrimarySegmentCount (Segments (Spec gc))"
      "Replicas (GenerateStatefulSetParams TypeSegmentB gc img) = PrimarySegmentCount (Segments (Spec gc))"
      "Replicas (GenerateStatefulSetParams TypeMaster gc img) = (if ?s then 2 else 1)"
      by (simp_all add: GenerateStatefulSetParams_def)
    have "(\<lambda>h. h @ d) ` clusterPods gc img = ((\<lambda>h. h @ d) ` podNames ''master'' (if ?s then 2 else 1)) \<union>
        ((\<lambda>h. h @ d) ` podNames ''segment-a'' (PrimarySegmentCount (Segments (Spec gc)))) \<union>
        (if ?m then (\<lambda>h. h @ d) ` podNames ''segment-b'' (PrimarySegmentCount (Segments (Spec gc))) else {})"
      unfolding clusterPods_def seg by (simp add: image_Un)
    also have "\<dots> = set (generateHostListWithDNSSuffix ?n ?m ?s d)"
      unfolding master pods [of _ "''segment-a''"] pods [of _ "''segment-b''"] set_generateHostList by (simp add: Un_ac)
    finally show ?thesis ..
  qed
  then show ?thesis by (simp add: Let_def GenerateHostList_def)
qed

text \<open>The clients of the configuration: a list computed from values that were read is never empty and
  has the first primary.\<close>

context config_reader
begin

lemma hosts_nonempty:
  assumes "configValues s = Inr v"
  shows "''master-0'' \<in> set (GenerateHostList (cv_SegmentCount v) (cv_Mirrors v) (cv_Standby v) d) \<and>
    ''segment-a-0'' \<in> set (GenerateHostList (cv_SegmentCount v) (cv_Mirrors v) (cv_Standby v) d)"
proof -
  have "0 < cv_SegmentCount v" using values_positive [OF assms] .
  then have "\<exists>i. ''segment-a-0'' = ''segment-a-'' @ Itoa (int i) \<and> i < nat (cv_SegmentCount v)"
    by (intro exI [of _ 0]) simp
  then show ?thesis by (auto simp: GenerateHostList_def Let_def set_generateHostList)
qed

end

section \<open>Operations on every host\<close>

text \<open>
  \<open>multihost.ParallelForeach\<close> starts a goroutine per host, which sends the result of the operation
  into a channel with room for all of them; the caller receives as many results as there are hosts
  and keeps the errors. The state: the hosts whose goroutine has not sent yet, the channel, the
  number of results received and the errors kept. The operation is a parameter.
\<close>

record foreach_state =
  fs_running :: "string list"
  fs_channel :: "go_error option list"
  fs_received :: nat
  fs_errors :: "go_error list"

definition foreach_start :: "string list \<Rightarrow> foreach_state" where
  "foreach_start hostnames = \<lparr>fs_running = hostnames, fs_channel = [], fs_received = 0, fs_errors = []\<rparr>"

inductive foreach_step :: "(string \<Rightarrow> go_error option) \<Rightarrow> nat \<Rightarrow> foreach_state \<Rightarrow> foreach_state \<Rightarrow> bool"
  for execute cap where
  send: "fs_running st = hs @ h # ks \<Longrightarrow> length (fs_channel st) < cap \<Longrightarrow>
    foreach_step execute cap st (st\<lparr>fs_running := hs @ ks, fs_channel := fs_channel st @ [execute h]\<rparr>)"
| receive: "fs_channel st = e # es \<Longrightarrow> fs_received st < cap \<Longrightarrow>
    foreach_step execute cap st (st\<lparr>fs_channel := es, fs_received := Suc (fs_received st),
      fs_errors := fs_errors st @ (case e of None \<Rightarrow> [] | Some err \<Rightarrow> [err])\<rparr>)"

inductive_cases foreach_stepE: "foreach_step execute cap st st'"

text \<open>\<open>ParallelForeach execute hostnames errors\<close>: the call can return \<open>errors\<close>.\<close>

definition ParallelForeach :: "(string \<Rightarrow> go_error option) \<Rightarrow> string list \<Rightarrow> go_error list \<Rightarrow> bool" where
  "ParallelForeach execute hostnames errors \<longleftrightarrow>
     (\<exists>st. (foreach_step execute (length hostnames))\<^sup>*\<^sup>* (foreach_start hostnames) st \<and>
        fs_received st = length hostnames \<and> fs_errors st = errors)"

definition errors_of :: "(string \<Rightarrow> go_error option) \<Rightarrow> string list \<Rightarrow> go_error multiset" where
  "errors_of execute hs = mset (List.map_filter execute hs)"

text \<open>The invariant: nothing is lost, and the channel never holds more than it has room for.\<close>

definition foreach_inv :: "(string \<Rightarrow> go_error option) \<Rightarrow> string list \<Rightarrow> foreach_state \<Rightarrow> bool" where
  "foreach_inv execute hosts st \<longleftrightarrow>
     length (fs_running st) + length (fs_channel st) + fs_received st = length hosts \<and>
     errors_of execute (fs_running st) + mset (List.map_filter id (fs_channel st)) + mset (fs_errors st) =
       errors_of execute hosts"

lemma map_filter_append: "List.map_filter f (xs @ ys) = List.map_filter f xs @ List.map_filter f ys"
  by (simp add: List.map_filter_def)

lemma map_filter_Cons: "List.map_filter f (x # xs) = (case f x of None \<Rightarrow> [] | Some y \<Rightarrow> [y]) @ List.map_filter f xs"
  by (simp add: List.map_filter_def split: option.splits)

lemma foreach_inv_step:
  assumes "foreach_step execute cap st st'" "foreach_inv execute hosts st"
  shows "foreach_inv execute hosts st'"
  using assms
proof cases
  case (send hs h ks)
  with assms(2) show ?thesis
    by (simp add: foreach_inv_def errors_of_def map_filter_append map_filter_Cons List.map_filter_simps(2) split: option.splits)
next
  case (receive e es)
  with assms(2) show ?thesis
    by (auto simp: foreach_inv_def map_filter_Cons split: option.splits)
qed

lemma foreach_inv_reachable:
  assumes "(foreach_step execute cap)\<^sup>*\<^sup>* (foreach_start hosts) st"
  shows "foreach_inv execute hosts st"
  using assms
proof induction
  case base
  show ?case by (simp add: foreach_inv_def foreach_start_def List.map_filter_simps(2))
next
  case (step y z)
  then show ?case using foreach_inv_step by blast
qed

text \<open>Until everything is received, a step is possible.\<close>

lemma foreach_progress:
  assumes "foreach_inv execute hosts st" "fs_received st < length hosts"
  shows "\<exists>st'. foreach_step execute (length hosts) st st'"
proof (cases "fs_channel st")
  case (Cons e es)
  then show ?thesis using foreach_step.receive assms(2) by blast
next
  case Nil
  with assms have "fs_running st \<noteq> []" by (auto simp: foreach_inv_def)
  then obtain h ks where "fs_running st = [] @ h # ks" by (cases "fs_running st") auto
  moreover have "length (fs_channel st) < length hosts" using Nil assms(2) by (cases hosts) auto
  ultimately show ?thesis using foreach_step.send by blast
qed

text \<open>Every step uses up work, so every run ends.\<close>

definition foreach_work :: "foreach_state \<Rightarrow> nat" where
  "foreach_work st = 2 * length (fs_running st) + length (fs_channel st)"

lemma foreach_work_decreases: "foreach_step execute cap st st' \<Longrightarrow> foreach_work st' < foreach_work st"
  by (erule foreach_stepE) (auto simp: foreach_work_def)

lemma foreach_completes:
  "foreach_inv execute hosts st \<Longrightarrow>
   \<exists>st'. (foreach_step execute (length hosts))\<^sup>*\<^sup>* st st' \<and> fs_received st' = length hosts"
proof (induction "foreach_work st" arbitrary: st rule: less_induct)
  case less
  show ?case
  proof (cases "fs_received st < length hosts")
    case True
    with less.prems obtain st' where s: "foreach_step execute (length hosts) st st'" using foreach_progress by blast
    from less.hyps [OF foreach_work_decreases [OF s] foreach_inv_step [OF s less.prems]] s show ?thesis
      by (blast intro: converse_rtranclp_into_rtranclp)
  next
    case False
    with less.prems have "fs_received st = length hosts" by (auto simp: foreach_inv_def)
    then show ?thesis by blast
  qed
qed

lemma ParallelForeach_mset: "ParallelForeach execute hosts errs \<Longrightarrow> mset errs = errors_of execute hosts"
  by (auto simp: ParallelForeach_def foreach_inv_def errors_of_def List.map_filter_simps(2) dest!: foreach_inv_reachable)

lemma ParallelForeach_Nil_iff:
  "ParallelForeach execute hosts errs \<Longrightarrow> errs = [] \<longleftrightarrow> (\<forall>h\<in>set hosts. execute h = None)"
proof -
  assume "ParallelForeach execute hosts errs"
  from ParallelForeach_mset [OF this] have "errs = [] \<longleftrightarrow> errors_of execute hosts = {#}" by (metis mset_zero_iff)
  then show ?thesis by (auto simp: errors_of_def List.map_filter_def filter_empty_conv)
qed

text \<open>C36: However the goroutines are scheduled, the parallel operation always can run to its end and
  never gets stuck, and what it returns is, up to order, exactly the errors of the hosts on which
  the operation failed: an empty list if and only if it succeeded on every host.\<close>

theorem ParallelForeach_complete:
  "(\<exists>errs. ParallelForeach execute hosts errs) \<and>
   (\<forall>errs. ParallelForeach execute hosts errs \<longrightarrow> mset errs = errors_of execute hosts \<and>
      (errs = [] \<longleftrightarrow> (\<forall>h\<in>set hosts. execute h = None))) \<and>
   (\<forall>st. (foreach_step execute (length hosts))\<^sup>*\<^sup>* (foreach_start hosts) st \<longrightarrow>
      fs_received st < length hosts \<longrightarrow> (\<exists>st'. foreach_step execute (length hosts) st st'))"
proof (intro conjI allI impI)
  show "\<exists>errs. ParallelForeach execute hosts errs"
    using foreach_completes [OF foreach_inv_reachable [of execute "length hosts" hosts "foreach_start hosts"]]
    by (auto simp: ParallelForeach_def)
next
  fix errs assume "ParallelForeach execute hosts errs"
  then show "mset errs = errors_of execute hosts" "errs = [] \<longleftrightarrow> (\<forall>h\<in>set hosts. execute h = None)"
    by (rule ParallelForeach_mset, rule ParallelForeach_Nil_iff)
next
  fix st assume "(foreach_step execute (length hosts))\<^sup>*\<^sup>* (foreach_start hosts) st" "fs_received st < length hosts"
  then show "\<exists>st'. foreach_step execute (length hosts) st st'"
    using foreach_inv_reachable foreach_progress by blast
qed

theorem ParallelForeach_complete_witness:
  "\<exists>errs. ParallelForeach (\<lambda>h. if h = ''segment-a-0'' then Some (Err ''timeout'') else None)
      [''master-0'', ''segment-a-0''] errs \<and> errs \<noteq> []"
proof -
  let ?ex = "\<lambda>h. if h = ''segment-a-0'' then Some (Err ''timeout'') else None"
  let ?hosts = "[''master-0'', ''segment-a-0'']"
  obtain errs where e: "ParallelForeach ?ex ?hosts errs"
    using ParallelForeach_complete [of ?ex ?hosts] by blast
  moreover have "\<not> (\<forall>h\<in>set ?hosts. ?ex h = None)" by simp
  ultimately show ?thesis using ParallelForeach_complete [of ?ex ?hosts] by blast
qed

subsection \<open>What callers rely on\<close>

text \<open>
  The programs that call \<open>ParallelForeach\<close> take the call as a parameter \<open>foreach\<close>, which returns one of
  the outcomes the step relation allows. The goroutines that happen to finish in the order of the hosts
  are one such schedule.
\<close>

locale multihost =
  fixes foreach :: "(string \<Rightarrow> go_error option) \<Rightarrow> string list \<Rightarrow> go_error list"
  assumes possible: "ParallelForeach execute hosts (foreach execute hosts)"
begin

lemma no_errors_iff: "foreach execute hosts = [] \<longleftrightarrow> (\<forall>h\<in>set hosts. execute h = None)"
  using ParallelForeach_Nil_iff [OF possible] .

lemma error_reported: "h \<in> set hosts \<Longrightarrow> execute h = Some e \<Longrightarrow> foreach execute hosts \<noteq> []"
  using no_errors_iff by fastforce

end

definition sequential_foreach :: "(string \<Rightarrow> go_error option) \<Rightarrow> string list \<Rightarrow> go_error list" where
  "sequential_foreach execute hosts = List.map_filter execute hosts"

lemma sequential_steps:
  "length hosts \<le> cap - k \<Longrightarrow> k \<le> cap \<Longrightarrow> (foreach_step execute cap)\<^sup>*\<^sup>*
     \<lparr>fs_running = hosts, fs_channel = [], fs_received = k, fs_errors = errs\<rparr>
     \<lparr>fs_running = [], fs_channel = [], fs_received = k + length hosts,
      fs_errors = errs @ List.map_filter execute hosts\<rparr>"
proof (induction hosts arbitrary: k errs)
  case (Cons h hs)
  let ?s = "\<lparr>fs_running = h # hs, fs_channel = [], fs_received = k, fs_errors = errs\<rparr>"
  let ?t = "\<lparr>fs_running = hs, fs_channel = [execute h], fs_received = k, fs_errors = errs\<rparr>"
  let ?errs = "errs @ (case execute h of None \<Rightarrow> [] | Some err \<Rightarrow> [err])"
  have "foreach_step execute cap ?s ?t"
    using foreach_step.send [of ?s "[]" h hs cap execute] Cons.prems by simp
  moreover have "foreach_step execute cap ?t
      \<lparr>fs_running = hs, fs_channel = [], fs_received = Suc k, fs_errors = ?errs\<rparr>"
    using foreach_step.receive [of ?t "execute h" "[]" cap execute] Cons.prems by simp
  moreover have "(foreach_step execute cap)\<^sup>*\<^sup>*
      \<lparr>fs_running = hs, fs_channel = [], fs_received = Suc k, fs_errors = ?errs\<rparr>
      \<lparr>fs_running = [], fs_channel = [], fs_received = Suc k + length hs, fs_errors = ?errs @ List.map_filter execute hs\<rparr>"
    by (rule Cons.IH) (use Cons.prems in simp_all)
  ultimately have "(foreach_step execute cap)\<^sup>*\<^sup>* ?s
      \<lparr>fs_running = [], fs_channel = [], fs_received = Suc k + length hs, fs_errors = ?errs @ List.map_filter execute hs\<rparr>"
    by (meson converse_rtranclp_into_rtranclp)
  then show ?case by (simp add: map_filter_Cons split: option.splits)
qed (simp add: List.map_filter_simps(2))

interpretation sequential: multihost sequential_foreach
proof
  fix execute hosts
  show "ParallelForeach execute hosts (sequential_foreach execute hosts)"
    using sequential_steps [of hosts "length hosts" 0 execute "[]"]
    by (force simp: ParallelForeach_def foreach_start_def sequential_foreach_def)
qed

section \<open>The DNS poller\<close>

text \<open>
  \<open>ConsistentDNSResolver.PollUntilConsistent\<close>: the clock (nanoseconds), the sleep and the lookup are
  parameters over a state. The loop polls until one poll and then fifteen more in a row succeed, or
  five minutes are over; it takes fuel, and running out of it is \<open>None\<close>.
\<close>

record 's poller =
  p_now :: "'s \<Rightarrow> int"
  p_sleep :: "int \<Rightarrow> 's \<Rightarrow> 's"
  p_poll :: "'s \<Rightarrow> bool \<times> 's"

definition second :: int where
  "second = 1000000000"

fun pollTimes :: "'s poller \<Rightarrow> nat \<Rightarrow> 's \<Rightarrow> bool \<times> 's" where
  "pollTimes P 0 s = (True, s)"
| "pollTimes P (Suc n) s = (case p_poll P s of (ok, s1) \<Rightarrow> if ok then pollTimes P n s1 else (False, s1))"

fun pollLoop :: "'s poller \<Rightarrow> int \<Rightarrow> nat \<Rightarrow> 's \<Rightarrow> (unit result \<times> 's) option" where
  "pollLoop P deadline 0 s = None"
| "pollLoop P deadline (Suc fuel) s =
     (if p_now P s < deadline
      then (case p_poll P s of (ok, s1) \<Rightarrow>
              (if ok
               then (case pollTimes P 15 (p_sleep P second s1) of (isSuccessful, s2) \<Rightarrow>
                       (if isSuccessful then Some (Inr (), s2)
                        else pollLoop P deadline fuel (p_sleep P second s2)))
               else pollLoop P deadline fuel (p_sleep P second s1)))
      else Some (Inl (Err ''DNS lookup timed out''), s))"

definition PollUntilConsistent :: "'s poller \<Rightarrow> nat \<Rightarrow> 's \<Rightarrow> (unit result \<times> 's) option" where
  "PollUntilConsistent P fuel s = pollLoop P (p_now P s + 5 * 60 * second) fuel s"

text \<open>\<open>Execute\<close>, the operation of the resolver on one host: a lookup polls it.\<close>

record 's ConsistentDNSResolver =
  cr_LookupHost :: "string \<Rightarrow> 's \<Rightarrow> string list result \<times> 's"
  cr_Now :: "'s \<Rightarrow> int"
  cr_Sleep :: "int \<Rightarrow> 's \<Rightarrow> 's"

definition ConsistentDNSResolver_Execute ::
  "'s ConsistentDNSResolver \<Rightarrow> string \<Rightarrow> nat \<Rightarrow> 's \<Rightarrow> (unit result \<times> 's) option"
where
  "ConsistentDNSResolver_Execute cr addr =
     PollUntilConsistent
       \<lparr>p_now = cr_Now cr, p_sleep = cr_Sleep cr,
        p_poll = (\<lambda>s. case cr_LookupHost cr addr s of (Inl err, s1) \<Rightarrow> (False, s1) | (Inr addrs, s1) \<Rightarrow> (True, s1))\<rparr>"

text \<open>The clock never goes back, and a sleep takes at least as long as asked.\<close>

definition clock_laws :: "'s poller \<Rightarrow> bool" where
  "clock_laws P \<longleftrightarrow>
     (\<forall>d s. p_now P (p_sleep P d s) \<ge> p_now P s + d) \<and> (\<forall>s. p_now P (snd (p_poll P s)) \<ge> p_now P s)"

lemma pollTimes_later:
  assumes "clock_laws P"
  shows "p_now P s \<le> p_now P (snd (pollTimes P n s))"
proof (induction n arbitrary: s)
  case (Suc n)
  obtain ok s1 where p: "p_poll P s = (ok, s1)" by fastforce
  have "p_now P s \<le> p_now P s1" using assms p unfolding clock_laws_def by (metis snd_conv)
  moreover have "p_now P s1 \<le> p_now P (snd (pollTimes P n s1))" by (rule Suc)
  ultimately show ?case using p by (cases ok) simp_all
qed simp

lemma pollLoop_returns:
  assumes "clock_laws P" "deadline \<le> p_now P s + int fuel * second"
  shows "\<exists>r. pollLoop P deadline (Suc fuel) s = Some r"
  using assms
proof (induction fuel arbitrary: s)
  case 0
  then show ?case by (simp add: second_def)
next
  case (Suc fuel)
  obtain ok s1 where p: "p_poll P s = (ok, s1)" by fastforce
  have later: "p_now P s \<le> p_now P s1" using Suc.prems(1) p unfolding clock_laws_def by (metis snd_conv)
  have slept: "p_now P u + second \<le> p_now P (p_sleep P second u)" for u
    using Suc.prems(1) unfolding clock_laws_def by blast
  obtain b s2 where t: "pollTimes P 15 (p_sleep P second s1) = (b, s2)" by fastforce
  have "p_now P (p_sleep P second s1) \<le> p_now P s2"
    using pollTimes_later [OF Suc.prems(1), of "p_sleep P second s1" 15] t by simp
  with later slept [of s1] have t2: "p_now P s \<le> p_now P s2" by (simp add: second_def)
  have enough: "deadline \<le> p_now P (p_sleep P second u) + int fuel * second" if "p_now P s \<le> p_now P u" for u
    using slept [of u] that Suc.prems(2) by (simp add: algebra_simps)
  show ?case
    using Suc.IH [OF Suc.prems(1) enough [OF later]] Suc.IH [OF Suc.prems(1) enough [OF t2]] p t
    by (cases "p_now P s < deadline"; cases ok; cases b) auto
qed

text \<open>C39: The DNS poller returns: with a clock that goes forward and sleeps that last, 301 rounds of
  its loop are enough whatever the lookups answer, and it reports success or the timeout.\<close>

theorem PollUntilConsistent_returns:
  assumes "clock_laws P"
  shows "\<exists>r s'. PollUntilConsistent P 301 s = Some (r, s') \<and> (r = Inr () \<or> r = Inl (Err ''DNS lookup timed out''))"
proof -
  have "\<exists>x. pollLoop P (p_now P s + 5 * 60 * second) (Suc 300) s = Some x"
    by (rule pollLoop_returns [OF assms]) (simp add: second_def)
  then obtain r s' where x: "pollLoop P (p_now P s + 5 * 60 * second) 301 s = Some (r, s')" by auto
  have "r = Inr () \<or> r = Inl (Err ''DNS lookup timed out'')" if "pollLoop P d n u = Some (r, s')" for d n u
    using that by (induction P d n u rule: pollLoop.induct) (auto split: if_splits prod.splits)
  with x show ?thesis by (auto simp: PollUntilConsistent_def)
qed

definition demo_poller :: "int poller" where
  "demo_poller = \<lparr>p_now = (\<lambda>t. t), p_sleep = (\<lambda>d t. t + d), p_poll = (\<lambda>t. (t > 5, t))\<rparr>"

theorem PollUntilConsistent_returns_witness:
  "\<exists>r s'. PollUntilConsistent demo_poller 301 0 = Some (r, s') \<and> (r = Inr () \<or> r = Inl (Err ''DNS lookup timed out''))"
  by (rule PollUntilConsistent_returns) (simp add: clock_laws_def demo_poller_def)

text \<open>The DNS poller reports success only after sixteen successful lookups, the last fifteen of
  them in a row and at least a second after the first.\<close>

theorem PollUntilConsistent_success:
  assumes "PollUntilConsistent P fuel s = Some (Inr (), s')"
  shows "\<exists>u u1. p_poll P u = (True, u1) \<and> pollTimes P 15 (p_sleep P second u1) = (True, s') \<and>
    p_now P u < p_now P s + 5 * 60 * second"
proof -
  have "pollLoop P d n v = Some (Inr (), s') \<Longrightarrow>
      \<exists>u u1. p_poll P u = (True, u1) \<and> pollTimes P 15 (p_sleep P second u1) = (True, s') \<and> p_now P u < d" for d n v
    by (induction P d n v rule: pollLoop.induct) (auto split: if_splits prod.splits)
  with assms show ?thesis by (auto simp: PollUntilConsistent_def)
qed

theorem PollUntilConsistent_success_witness:
  "\<exists>u u1 s'. p_poll demo_poller u = (True, u1) \<and> pollTimes demo_poller 15 (p_sleep demo_poller second u1) = (True, s')"
proof -
  have "PollUntilConsistent demo_poller 2 10 = Some (Inr (), 10 + second)" by code_simp
  from PollUntilConsistent_success [OF this] show ?thesis by blast
qed

text \<open>A host is reported as resolved only after a last lookup that found it.\<close>

lemma Execute_resolved:
  assumes "ConsistentDNSResolver_Execute cr addr fuel s = Some (Inr (), s')"
  shows "\<exists>u addrs. cr_LookupHost cr addr u = (Inr addrs, s')"
proof -
  let ?P = "\<lparr>p_now = cr_Now cr, p_sleep = cr_Sleep cr,
    p_poll = (\<lambda>s. case cr_LookupHost cr addr s of (Inl err, s1) \<Rightarrow> (False, s1) | (Inr addrs, s1) \<Rightarrow> (True, s1))\<rparr>"
  have last: "pollTimes P (Suc n) v = (True, s') \<Longrightarrow> \<exists>u. p_poll P u = (True, s')" for P n v
    by (induction n arbitrary: v) (auto split: prod.splits if_splits)
  obtain u1 where "pollTimes ?P (Suc 14) (p_sleep ?P second u1) = (True, s')"
    using PollUntilConsistent_success [OF assms [unfolded ConsistentDNSResolver_Execute_def]] by auto
  then obtain u where "p_poll ?P u = (True, s')" using last by blast
  then show ?thesis by (auto split: prod.splits sum.splits)
qed

end
