(* ===== verification/Command_Log.thy ===== *)
theory Command_Log
  imports Machine
begin

text \<open>
  The commands a program has run, as the part of the call log that starts processes, and the mounted
  configuration as something no command and no write to another file changes. The lemmas say for each
  machine operation what it adds to the commands and that it keeps the configuration.
\<close>

section \<open>Definitions\<close>

fun command_of :: "api_call \<Rightarrow> (string \<times> string list) option" where
  "command_of (CommandCall p args) = Some (p, args)"
| "command_of c = None"

definition commands :: "'s world \<Rightarrow> (string \<times> string list) list" where
  "commands w = List.map_filter command_of (calls w)"

definition config_of :: "'s machine \<Rightarrow> 's \<Rightarrow> string \<Rightarrow> string result \<times> FileInfo result" where
  "config_of M s k = (m_ReadFile M (''/etc/config/'' @ k) s, m_Lstat M (''/etc/config/'' @ k) s)"

text \<open>The config map is mounted read-only: commands leave it alone, and so do operations on other files.\<close>

definition config_readonly :: "'s machine \<Rightarrow> ('s \<Rightarrow> nat \<rightharpoonup> handle) \<Rightarrow> bool" where
  "config_readonly M at \<longleftrightarrow>
     (\<forall>c s. config_of M (snd (m_Run M c s)) = config_of M s) \<and>
     (\<forall>p fl perm s. take 12 p \<noteq> ''/etc/config/'' \<longrightarrow> config_of M (snd (m_OpenFile M p fl perm s)) = config_of M s) \<and>
     (\<forall>h t s p off app. at s h = Some (p, off, app) \<longrightarrow> take 12 p \<noteq> ''/etc/config/'' \<longrightarrow>
        config_of M (snd (m_Write M h t s)) = config_of M s \<and>
        (\<exists>off'. at (snd (m_Write M h t s)) h = Some (p, off', app))) \<and>
     (\<forall>h s. config_of M (snd (m_Close M h s)) = config_of M s)"

section \<open>Lemmas\<close>

lemma commands_perform:
  "perform c f w = (r, w') \<Longrightarrow> commands w' = commands w @ (case command_of c of None \<Rightarrow> [] | Some x \<Rightarrow> [x])"
  by (simp add: commands_def calls_perform map_filter_def split: option.split)

named_theorems command_log \<open>what each operation adds to the commands\<close>

lemma commands_RunCmd [command_log]:
  "RunCmd M cmd w = (r, w') \<Longrightarrow> commands w' = commands w @ [(cmd_Path cmd, cmd_Args cmd)]"
  by (auto simp: RunCmd_def split: prod.splits dest!: commands_perform)

lemma commands_OutputCmd [command_log]:
  "OutputCmd M cmd w = (r, w') \<Longrightarrow> commands w' = commands w @ [(cmd_Path cmd, cmd_Args cmd)]"
  by (auto simp: OutputCmd_def split: prod.splits dest!: commands_perform)

lemma commands_OpenFile [command_log]: "OpenFile M p fl perm w = (r, w') \<Longrightarrow> commands w' = commands w"
  by (auto simp: OpenFile_def dest!: commands_perform)

lemma commands_Write [command_log]: "Write M p h t w = (r, w') \<Longrightarrow> commands w' = commands w"
  by (auto simp: Write_def dest!: commands_perform)

lemma commands_ReadAll [command_log]: "ReadAll M p h w = (r, w') \<Longrightarrow> commands w' = commands w"
  by (auto simp: ReadAll_def dest!: commands_perform)

lemma commands_Close [command_log]: "Close M p h w = (r, w') \<Longrightarrow> commands w' = commands w"
  by (auto simp: Close_def dest!: commands_perform)

lemma commands_MkdirAll [command_log]: "MkdirAll M p perm w = (r, w') \<Longrightarrow> commands w' = commands w"
  by (auto simp: MkdirAll_def dest!: commands_perform)

lemma commands_WriteFile [command_log]: "WriteFile M p t perm w = (r, w') \<Longrightarrow> commands w' = commands w"
  by (auto simp: WriteFile_def dest!: commands_perform)

lemma commands_Symlink [command_log]: "Symlink M p q w = (r, w') \<Longrightarrow> commands w' = commands w"
  by (auto simp: Symlink_def dest!: commands_perform)

lemma RunCmd_result:
  assumes "RunCmd M cmd w = (r, w')"
  shows "\<exists>x. m_Run M cmd (server w) = (x, server w') \<and> r = (case ex_err x of None \<Rightarrow> Inr () | Some e \<Rightarrow> Inl e)"
  using assms by (auto simp: RunCmd_def split: prod.splits dest: server_perform)

lemma OutputCmd_result:
  assumes "OutputCmd M cmd w = (r, w')"
  shows "\<exists>x. m_Run M cmd (server w) = (x, server w') \<and>
    r = (case ex_err x of None \<Rightarrow> Inr (ex_stdout x) | Some e \<Rightarrow> Inl e)"
  using assms by (auto simp: OutputCmd_def split: prod.splits dest: server_perform)

lemma config_RunCmd:
  assumes "config_readonly M at" "RunCmd M cmd w = (r, w')"
  shows "config_of M (server w') = config_of M (server w)"
  using assms(1) RunCmd_result [OF assms(2)] unfolding config_readonly_def by (metis snd_conv)

lemma config_OutputCmd:
  assumes "config_readonly M at" "OutputCmd M cmd w = (r, w')"
  shows "config_of M (server w') = config_of M (server w)"
  using assms(1) OutputCmd_result [OF assms(2)] unfolding config_readonly_def by (metis snd_conv)

lemma config_OpenFile:
  assumes "config_readonly M at" "OpenFile M p fl perm w = (r, w')" "take 12 p \<noteq> ''/etc/config/''"
  shows "config_of M (server w') = config_of M (server w)"
  using assms(1,3) server_perform [OF assms(2) [unfolded OpenFile_def]] unfolding config_readonly_def by (metis snd_conv)

lemma config_Write:
  assumes "config_readonly M at" "Write M q h t w = (r, w')" "at (server w) h = Some (p, off, app)"
    and "take 12 p \<noteq> ''/etc/config/''"
  shows "config_of M (server w') = config_of M (server w)" "\<exists>off'. at (server w') h = Some (p, off', app)"
  using assms(1,3,4) server_perform [OF assms(2) [unfolded Write_def]] unfolding config_readonly_def by (metis snd_conv)+

lemma config_Close:
  assumes "config_readonly M at" "Close M q h w = (r, w')"
  shows "config_of M (server w') = config_of M (server w)"
  using assms(1) server_perform [OF assms(2) [unfolded Close_def]] unfolding config_readonly_def by (metis snd_conv)

end
