(* ===== verification/Gpinit.thy ===== *)
theory Gpinit
  imports Instance_Config Command_Log
begin

text \<open>
  The initialisation of the database on the master (\<open>startContainerUtils/cluster\<close> of
  \<open>startGreenplumContainer\<close>): the gpinitsystem configuration and its run (\<open>gpinitsystem_config.go\<close>),
  and the cluster operations (\<open>cluster.go\<close>). Messages on standard output are left out. The written
  configuration is shown to be a reference configuration with consecutive database identifiers.
\<close>

section \<open>Definitions\<close>

definition GpinitsystemConfigPath :: string where
  "GpinitsystemConfigPath = ''/home/gpadmin/gpinitsystem_config''"

definition gpinitsystemSuccessExitStatus :: string where
  "gpinitsystemSuccessExitStatus = ''exit status 1''"

abbreviation newline :: string where
  "newline \<equiv> [CHR 0x0A]"

definition qdLine :: "string \<Rightarrow> int \<Rightarrow> string" where
  "qdLine subdomain dbID =
     ''QD_PRIMARY_ARRAY=master-0.'' @ subdomain @ ''~5432~/greenplum/data-1~'' @ Itoa dbID @ ''~-1~0'' @ newline"

definition primaryLine :: "string \<Rightarrow> int \<Rightarrow> int \<Rightarrow> string" where
  "primaryLine subdomain segment dbID =
     ''segment-a-'' @ Itoa segment @ ''.'' @ subdomain @ ''~40000~/greenplum/data~'' @ Itoa dbID @ ''~'' @
     Itoa segment @ newline"

definition mirrorLine :: "string \<Rightarrow> int \<Rightarrow> int \<Rightarrow> string" where
  "mirrorLine subdomain segment dbID =
     ''segment-b-'' @ Itoa segment @ ''.'' @ subdomain @ ''~50000~/greenplum/mirror/data~'' @ Itoa dbID @ ''~'' @
     Itoa segment @ newline"

text \<open>The loop \<open>for segment := 0; segment < segmentCount; segment++\<close> with its running identifier.\<close>

fun segmentLines :: "(int \<Rightarrow> int \<Rightarrow> string) \<Rightarrow> nat \<Rightarrow> int \<Rightarrow> int \<Rightarrow> string list \<times> int" where
  "segmentLines line 0 segment dbID = ([], dbID)"
| "segmentLines line (Suc n) segment dbID =
     (case segmentLines line n (wrap64 (segment + 1)) (wrap64 (dbID + 1)) of
        (ls, d) \<Rightarrow> (line segment dbID # ls, d))"

text \<open>The pieces the file is written in, one per \<open>Fprint\<close>.\<close>

definition gpinitsystemConfig :: "int \<Rightarrow> bool \<Rightarrow> string \<Rightarrow> string list" where
  "gpinitsystemConfig segmentCount useMirrors subdomain =
     (case segmentLines (primaryLine subdomain) (nat segmentCount) 0 2 of
        (primaries, dbID) \<Rightarrow>
          [qdLine subdomain 1, ''declare -a PRIMARY_ARRAY=('' @ newline] @ primaries @ ['')'' @ newline] @
          (if useMirrors
           then [''declare -a MIRROR_ARRAY=('' @ newline] @
                fst (segmentLines (mirrorLine subdomain) (nat segmentCount) 0 dbID) @ ['')'' @ newline]
           else []) @
          [''HBA_HOSTNAMES=1'' @ newline])"

text \<open>Writing the pieces; the code ignores the result of each write.\<close>

fun writePieces :: "'s machine \<Rightarrow> string \<Rightarrow> nat \<Rightarrow> string list \<Rightarrow> 's world \<Rightarrow> 's world" where
  "writePieces M path h [] w = w"
| "writePieces M path h (p # ps) w = writePieces M path h ps (snd (Write M path h p w))"

definition dnsdomainname :: "'s machine \<Rightarrow> ('s, string result) io" where
  "dnsdomainname M w =
     (case OutputCmd M (Command ''dnsdomainname'' []) w of
        (Inl err, w1) \<Rightarrow>
          (Inl (Wrap (''dnsdomainname failed to determine this host'' @ [CHR 0x27] @ ''s dns name'') err), w1)
      | (Inr output, w1) \<Rightarrow> (Inr (TrimSuffix output newline), w1))"

definition GenerateConfig :: "'s machine \<Rightarrow> ('s, unit result) io" where
  "GenerateConfig M w =
     (case GetSegmentCount M (server w) of
        Inl err \<Rightarrow> (Inl err, w)
      | Inr segmentCount \<Rightarrow>
          (case GetMirrors M (server w) of
             Inl err \<Rightarrow> (Inl err, w)
           | Inr useMirrors \<Rightarrow>
               (case dnsdomainname M w of
                  (Inl err, w1) \<Rightarrow> (Inl err, w1)
                | (Inr subdomain, w1) \<Rightarrow>
                    (case OpenFile M GpinitsystemConfigPath [O_CREATE, O_WRONLY, O_TRUNC] 420 w1 of
                       (Inl err, w2) \<Rightarrow> (Inl err, w2)
                     | (Inr configFile, w2) \<Rightarrow>
                         Close M GpinitsystemConfigPath configFile
                           (writePieces M GpinitsystemConfigPath configFile
                              (gpinitsystemConfig segmentCount useMirrors subdomain) w2)))))"

definition gpinitsystemArgs :: "bool \<Rightarrow> bool \<Rightarrow> string \<Rightarrow> string list" where
  "gpinitsystemArgs standby hasGUCs dnsSuffix =
     [''-a'', ''-I'', GpinitsystemConfigPath] @
     (if standby then [''-s'', ''master-1.'' @ dnsSuffix] else []) @
     (if hasGUCs then [''-p'', ''/etc/config/GUCs''] else [])"

definition GpInitSystem_Run :: "'s machine \<Rightarrow> ('s, unit result) io" where
  "GpInitSystem_Run M w =
     (case dnsdomainname M w of
        (Inl err, w1) \<Rightarrow> (Inl err, w1)
      | (Inr dnsSuffix, w1) \<Rightarrow>
          (case GetStandby M (server w1) of
             Inl err \<Rightarrow> (Inl err, w1)
           | Inr standby \<Rightarrow>
               (let hasGUCs = (case m_Lstat M ''/etc/config/GUCs'' (server w1) of Inl e \<Rightarrow> False | Inr i \<Rightarrow> True)
                in case RunCmd M (GreenplumCommand ''/usr/local/greenplum-db/bin/gpinitsystem''
                          (gpinitsystemArgs standby hasGUCs dnsSuffix)) w1 of
                     (Inl err, w2) \<Rightarrow>
                       (if Error err \<noteq> gpinitsystemSuccessExitStatus
                        then (Inl (Wrap ''gpinitsystem failed'' err), w2) else (Inr (), w2))
                   | (Inr u, w2) \<Rightarrow> (Inr (), w2))))"

subsection \<open>The cluster\<close>

definition masterDataDir :: string where
  "masterDataDir = ''/greenplum/data-1''"

definition addHostBasedAuthentication :: "'s machine \<Rightarrow> string \<Rightarrow> ('s, unit result) io" where
  "addHostBasedAuthentication M host w =
     (let source = ''/etc/config/hostBasedAuthentication''; destination = ''/greenplum/data-1/pg_hba.conf''
      in case HasContent M source (server w) of
           Inl err \<Rightarrow> (Inl (Wrap (''verifying if '' @ source @ '' has any content failed'') err), w)
         | Inr hasContent \<Rightarrow>
             (if hasContent
              then (case RunCmd M (Command ''/usr/bin/ssh'' [host, ''cat'', source, ''>>'', destination]) w of
                      (Inl err, w1) \<Rightarrow>
                        (Inl (Wrap (''Attempting to append from '' @ [CHR 0x27] @ source @ [CHR 0x27] @
                           '' to end of '' @ destination) err), w1)
                    | (Inr u, w1) \<Rightarrow> (Inr (), w1))
              else (Inr (), w)))"

definition addMasterAndStandbyHostBasedAuthentication :: "'s machine \<Rightarrow> ('s, unit result) io" where
  "addMasterAndStandbyHostBasedAuthentication M w =
     (case addHostBasedAuthentication M ''master-0'' w of
        (Inl err, w1) \<Rightarrow> (Inl (Wrap ''adding host-based authentication failed'' err), w1)
      | (Inr u, w1) \<Rightarrow>
          (case GetStandby M (server w1) of
             Inl err \<Rightarrow> (Inl (Wrap ''reading standby failed'' err), w1)
           | Inr standby \<Rightarrow>
               (if standby
                then (case addHostBasedAuthentication M ''master-1'' w1 of
                        (Inl err, w2) \<Rightarrow> (Inl (Wrap ''adding host-based authentication failed'' err), w2)
                      | (Inr u, w2) \<Rightarrow> (Inr (), w2))
                else (Inr (), w1))))"

definition createDB :: "'s machine \<Rightarrow> ('s, unit result) io" where
  "createDB M = RunCmd M (GreenplumCommand ''/usr/local/greenplum-db/bin/createdb'' [])"

text \<open>Whether an error is an \<open>*os.PathError\<close>.\<close>

fun is_PathError :: "'a result \<Rightarrow> bool" where
  "is_PathError (Inl (PathErr p c)) = True"
| "is_PathError (Inl (Err s)) = False"
| "is_PathError (Inl (ApiErr r s)) = False"
| "is_PathError (Inl (NumErr f s k)) = False"
| "is_PathError (Inl (Wrap p e)) = False"
| "is_PathError (Inr x) = False"

definition Initialize :: "'s machine \<Rightarrow> ('s, unit result) io" where
  "Initialize M w =
     (if \<not> is_PathError (m_Stat M masterDataDir (server w))
      then (Inl (Err (''master data directory already exists at '' @ masterDataDir)), w)
      else (case GenerateConfig M w of
              (Inl err, w1) \<Rightarrow> (Inl (Wrap ''gpinitsystem config failed'' err), w1)
            | (Inr u, w1) \<Rightarrow>
                (case GpInitSystem_Run M w1 of
                   (Inl err, w2) \<Rightarrow> (Inl (Wrap ''gpinitsystem failed'' err), w2)
                 | (Inr u, w2) \<Rightarrow>
                     (case createDB M w2 of
                        (Inl err, w3) \<Rightarrow> (Inl (Wrap ''createdb failed'' err), w3)
                      | (Inr u, w3) \<Rightarrow> addMasterAndStandbyHostBasedAuthentication M w3))))"

definition GPStart :: "'s machine \<Rightarrow> ('s, unit result) io" where
  "GPStart M w =
     (case RunCmd M (GreenplumCommand ''/usr/local/greenplum-db/bin/gpstart'' [''-am'']) w of
        (Inl err, w1) \<Rightarrow> (Inl (Wrap ''gpstart in maintenance mode failed'' err), w1)
      | (Inr u, w1) \<Rightarrow>
          (case RunCmd M (GreenplumCommand ''/usr/local/greenplum-db/bin/gpstop'' [''-ar'']) w1 of
             (Inl err, w2) \<Rightarrow> (Inl (Wrap ''restart segments failed'' err), w2)
           | (Inr u, w2) \<Rightarrow> (Inr (), w2)))"

definition reloadGpConfig :: "'s machine \<Rightarrow> ('s, unit result) io" where
  "reloadGpConfig M = RunCmd M (GreenplumCommand ''/usr/local/greenplum-db/bin/gpstop'' [''-u''])"

definition createExtension :: "'s machine \<Rightarrow> string \<Rightarrow> ('s, unit result) io" where
  "createExtension M extensionName =
     RunCmd M (GreenplumCommand ''/usr/local/greenplum-db/bin/psql''
       [''-U'', ''gpadmin'', ''-d'', ''gpadmin'', ''-c'', ''CREATE EXTENSION IF NOT EXISTS '' @ extensionName])"

definition createPXFExtension :: "'s machine \<Rightarrow> ('s, unit result) io" where
  "createPXFExtension M w =
     (case GetPXFServiceName M (server w) of
        Inl err \<Rightarrow> (Inl err, w)
      | Inr pxfServiceName \<Rightarrow> (if pxfServiceName \<noteq> '''' then createExtension M ''pxf'' w else (Inr (), w)))"

definition RunPostInitialization :: "'s machine \<Rightarrow> ('s, unit result) io" where
  "RunPostInitialization M w =
     (case RunCmd M (GreenplumCommand ''/usr/local/greenplum-db/bin/psql''
              [''-U'', ''gpadmin'', ''-c'', ''select * from gp_segment_configuration'']) w of
        (Inl err, w1) \<Rightarrow> (Inr (), w1)
      | (Inr u, w1) \<Rightarrow>
          (case reloadGpConfig M w1 of
             (Inl err, w2) \<Rightarrow> (Inl (Wrap ''gpstop failed'' err), w2)
           | (Inr u, w2) \<Rightarrow>
               (case createPXFExtension M w2 of
                  (Inl err, w3) \<Rightarrow> (Inl (Wrap ''createPXFExtension failed'' err), w3)
                | (Inr u, w3) \<Rightarrow> (Inr (), w3))))"

section \<open>Lemmas\<close>

text \<open>Without overflow the loop is a map over the segments with consecutive identifiers.\<close>

lemma segmentLines_map:
  assumes "- (2 ^ 63) \<le> seg" "- (2 ^ 63) \<le> db" "seg + int n < 2 ^ 63" "db + int n < 2 ^ 63"
  shows "segmentLines line n seg db = (map (\<lambda>i. line (seg + int i) (db + int i)) [0..<n], db + int n)"
  using assms
proof (induction n arbitrary: seg db)
  case (Suc n)
  have w: "wrap64 (seg + 1) = seg + 1" "wrap64 (db + 1) = db + 1"
    using Suc.prems by (auto intro!: wrap64_id)
  have IH: "segmentLines line n (seg + 1) (db + 1) =
      (map (\<lambda>i. line (seg + 1 + int i) (db + 1 + int i)) [0..<n], db + 1 + int n)"
    by (rule Suc.IH) (use Suc.prems in auto)
  have "map (\<lambda>i. line (seg + int i) (db + int i)) [0..<Suc n] =
      line seg db # map (\<lambda>i. line (seg + 1 + int i) (db + 1 + int i)) [0..<n]"
    by (simp add: upt_rec [of 0 "Suc n"] map_Suc_upt [symmetric] o_def algebra_simps del: upt_Suc)
  then show ?case by (simp add: w IH del: upt_Suc)
qed simp

text \<open>The reference: the master is 1, the primaries follow with their content numbers, then the mirrors.\<close>

definition referenceConfig :: "nat \<Rightarrow> bool \<Rightarrow> string \<Rightarrow> string list" where
  "referenceConfig n useMirrors sub =
     [qdLine sub 1, ''declare -a PRIMARY_ARRAY=('' @ newline] @
     map (\<lambda>i. primaryLine sub (int i) (2 + int i)) [0..<n] @ ['')'' @ newline] @
     (if useMirrors
      then [''declare -a MIRROR_ARRAY=('' @ newline] @
           map (\<lambda>i. mirrorLine sub (int i) (2 + int n + int i)) [0..<n] @ ['')'' @ newline]
      else []) @ [''HBA_HOSTNAMES=1'' @ newline]"

lemma gpinitsystemConfig_reference:
  assumes "0 \<le> n" "2 * n < 2 ^ 63 - 2"
  shows "gpinitsystemConfig n m sub = referenceConfig (nat n) m sub"
proof -
  have p: "segmentLines (primaryLine sub) (nat n) 0 2 =
      (map (\<lambda>i. primaryLine sub (0 + int i) (2 + int i)) [0..<nat n], 2 + int (nat n))"
    by (rule segmentLines_map) (use assms in auto)
  have q: "segmentLines (mirrorLine sub) (nat n) 0 (2 + int (nat n)) =
      (map (\<lambda>i. mirrorLine sub (0 + int i) (2 + int (nat n) + int i)) [0..<nat n], 2 + int (nat n) + int (nat n))"
    by (rule segmentLines_map) (use assms in auto)
  show ?thesis unfolding gpinitsystemConfig_def referenceConfig_def p prod.case q by simp
qed

text \<open>When every write succeeds, the pieces end up in the file one after another.\<close>

fun writes_succeed :: "'s machine \<Rightarrow> string \<Rightarrow> nat \<Rightarrow> string list \<Rightarrow> 's world \<Rightarrow> bool" where
  "writes_succeed M path h [] w = True"
| "writes_succeed M path h (p # ps) w =
     (fst (Write M path h p w) = Inr () \<and> writes_succeed M path h ps (snd (Write M path h p w)))"

lemma writePieces_view:
  assumes "file_laws M view at" "writes_succeed M path h ps w"
    and "at (server w) h = Some (path, length c, False)" "view (server w) path = Some c"
  shows "view (server (writePieces M path h ps w)) = (view (server w))(path \<mapsto> c @ concat ps)"
  using assms(2-4)
proof (induction ps arbitrary: c w)
  case Nil
  then show ?case by (simp add: map_upd_triv)
next
  case (Cons p ps)
  obtain w1 where wr: "Write M path h p w = (Inr (), w1)"
    using Cons.prems(1) by (metis prod.collapse writes_succeed.simps(2))
  note v = file_laws_write [OF assms(1) wr Cons.prems(2,3)]
  have "view (server (writePieces M path h ps w1)) = (view (server w1))(path \<mapsto> (c @ p) @ concat ps)"
    by (rule Cons.IH) (use Cons.prems(1) wr v in auto)
  with v(1) wr show ?case by simp
qed

lemma dnsdomainname_server:
  "dnsdomainname M w = (Inr d, w') \<Longrightarrow> \<exists>x. m_Run M (Command ''dnsdomainname'' []) (server w) = (x, server w') \<and>
     ex_err x = None \<and> d = TrimSuffix (ex_stdout x) newline"
  by (auto simp: dnsdomainname_def OutputCmd_def split: prod.splits sum.splits option.splits dest!: server_perform)

section \<open>Properties\<close>

text \<open>C18: A successful \<open>GenerateConfig\<close> whose writes all reach the disk leaves exactly the reference
  configuration in the gpinitsystem file, whatever was there before: the master is database 1, the
  primaries are 2 to n+1 and the mirrors, if there are any, n+2 to 2n+1, in the order of their content
  numbers, each on its own host.\<close>

theorem GenerateConfig_writes_reference:
  assumes "file_laws M view at" "GetSegmentCount M (server w) = Inr n" "GetMirrors M (server w) = Inr m"
    and "2 * n < 2 ^ 63 - 2"
    and "dnsdomainname M w = (Inr sub, w1)"
    and "OpenFile M GpinitsystemConfigPath [O_CREATE, O_WRONLY, O_TRUNC] 420 w1 = (Inr h, w2)"
    and "writes_succeed M GpinitsystemConfigPath h (gpinitsystemConfig n m sub) w2"
    and "GenerateConfig M w = (Inr (), w')"
  shows "view (server w') GpinitsystemConfigPath = Some (concat (referenceConfig (nat n) m sub))"
proof -
  have pos: "0 < n" using fs_config.count_positive [OF assms(2)] .
  let ?ps = "gpinitsystemConfig n m sub"
  have cl: "Close M GpinitsystemConfigPath h (writePieces M GpinitsystemConfigPath h ?ps w2) = (Inr (), w')"
    using assms(8) by (simp add: GenerateConfig_def assms(2,3,5,6))
  note op = file_laws_open [OF assms(1,6)]
  have "at (server w2) h = Some (GpinitsystemConfigPath, length [], False)" "view (server w2) GpinitsystemConfigPath = Some []"
    using op by simp_all
  from writePieces_view [OF assms(1,7) this] file_laws_close [OF assms(1) cl]
  have "view (server w') GpinitsystemConfigPath = Some (concat ?ps)" by simp
  moreover have "?ps = referenceConfig (nat n) m sub"
    using pos assms(4) by (intro gpinitsystemConfig_reference) simp_all
  ultimately show "view (server w') GpinitsystemConfigPath = Some (concat (referenceConfig (nat n) m sub))" by simp
qed

definition demo_init_machine :: "mem machine" where
  "demo_init_machine = mem_machine (\<lambda>c. run_ok (''ns.svc'' @ newline)) ''master-0''"

definition demo_init_world :: "mem world" where
  "demo_init_world = mem_world [(''/etc/config/segmentCount'', ''1''), (''/etc/config/mirrors'', ''true'')]"

lemma demo_init_1: "GetSegmentCount demo_init_machine (server demo_init_world) = Inr 1"
  by code_simp

lemma demo_init_2: "GetMirrors demo_init_machine (server demo_init_world) = Inr True"
  by code_simp

lemma demo_init_3: "fst (dnsdomainname demo_init_machine demo_init_world) = Inr ''ns.svc''"
  by code_simp

lemma demo_init_4: "fst (OpenFile demo_init_machine GpinitsystemConfigPath [O_CREATE, O_WRONLY, O_TRUNC] 420
     (snd (dnsdomainname demo_init_machine demo_init_world))) = Inr 1"
  by code_simp

lemma demo_init_5: "writes_succeed demo_init_machine GpinitsystemConfigPath 1 (gpinitsystemConfig 1 True ''ns.svc'')
     (snd (OpenFile demo_init_machine GpinitsystemConfigPath [O_CREATE, O_WRONLY, O_TRUNC] 420
       (snd (dnsdomainname demo_init_machine demo_init_world))))"
  by code_simp

lemma demo_init_6: "fst (GenerateConfig demo_init_machine demo_init_world) = Inr ()"
proof -
  have cl: "fst (Close demo_init_machine p h w) = Inr ()" for p h w
    by (simp add: Close_def perform_def demo_init_machine_def mem_machine_def)
  obtain w1 where 1: "dnsdomainname demo_init_machine demo_init_world = (Inr ''ns.svc'', w1)"
    using demo_init_3 by (metis prod.collapse)
  obtain w2 where "OpenFile demo_init_machine GpinitsystemConfigPath [O_CREATE, O_WRONLY, O_TRUNC] 420 w1 = (Inr 1, w2)"
    using demo_init_4 1 by (metis prod.collapse snd_conv)
  then show ?thesis by (simp add: GenerateConfig_def demo_init_1 demo_init_2 1 cl)
qed

theorem GenerateConfig_writes_reference_witness:
  "\<exists>w'. GenerateConfig demo_init_machine demo_init_world = (Inr (), w') \<and>
     mem_view (server w') GpinitsystemConfigPath = Some (concat (referenceConfig 1 True ''ns.svc''))"
proof -
  let ?M = demo_init_machine and ?w = demo_init_world
  let ?w1 = "snd (dnsdomainname ?M ?w)"
  let ?w2 = "snd (OpenFile ?M GpinitsystemConfigPath [O_CREATE, O_WRONLY, O_TRUNC] 420 ?w1)"
  let ?w3 = "snd (GenerateConfig ?M ?w)"
  have laws: "file_laws ?M mem_view mem_at" by (simp add: demo_init_machine_def mem_file_laws)
  have "dnsdomainname ?M ?w = (Inr ''ns.svc'', ?w1)"
    "OpenFile ?M GpinitsystemConfigPath [O_CREATE, O_WRONLY, O_TRUNC] 420 ?w1 = (Inr 1, ?w2)"
    "GenerateConfig ?M ?w = (Inr (), ?w3)"
    using demo_init_3 demo_init_4 demo_init_6 by (metis prod.collapse)+
  from GenerateConfig_writes_reference [OF laws demo_init_1 demo_init_2 _ this(1,2) demo_init_5 this(3)] this(3)
  show ?thesis by auto
qed

section \<open>The order of the initialisation\<close>

text \<open>What the initialisation runs when nothing fails, for a configuration with its settings.\<close>

definition initCommands :: "string \<Rightarrow> bool \<Rightarrow> bool \<Rightarrow> bool \<Rightarrow> (string \<times> string list) list" where
  "initCommands dns standby hasGUCs hasHBA =
     [(''dnsdomainname'', []), (''dnsdomainname'', []),
      (''/usr/local/greenplum-db/bin/gpinitsystem'', gpinitsystemArgs standby hasGUCs dns),
      (''/usr/local/greenplum-db/bin/createdb'', [])] @
     (if hasHBA
      then map (\<lambda>host. (''/usr/bin/ssh'', [host, ''cat'', ''/etc/config/hostBasedAuthentication'', ''>>'',
                          ''/greenplum/data-1/pg_hba.conf'']))
             (''master-0'' # (if standby then [''master-1''] else []))
      else [])"

lemma config_getters:
  assumes "config_of M s = config_of M s'"
  shows "GetStandby M s = GetStandby M s'" "m_Lstat M ''/etc/config/GUCs'' s = m_Lstat M ''/etc/config/GUCs'' s'"
    "HasContent M ''/etc/config/hostBasedAuthentication'' s = HasContent M ''/etc/config/hostBasedAuthentication'' s'"
proof -
  have r: "m_ReadFile M (''/etc/config/'' @ k) s = m_ReadFile M (''/etc/config/'' @ k) s'"
    and l: "m_Lstat M (''/etc/config/'' @ k) s = m_Lstat M (''/etc/config/'' @ k) s'" for k
    using fun_cong [OF assms, of k] by (simp_all add: config_of_def)
  show "GetStandby M s = GetStandby M s'" using r [of "''standby''"]
    by (simp add: GetStandby_def readBool_def ConfigMapPathPrefix_def)
  show "m_Lstat M ''/etc/config/GUCs'' s = m_Lstat M ''/etc/config/GUCs'' s'" using l [of "''GUCs''"] by simp
  show "HasContent M ''/etc/config/hostBasedAuthentication'' s = HasContent M ''/etc/config/hostBasedAuthentication'' s'"
    using l [of "''hostBasedAuthentication''"] by (simp add: HasContent_def)
qed

lemma dnsdomainname_quiet:
  assumes "dnsdomainname M w = (r, w')"
  shows "commands w' = commands w @ [(''dnsdomainname'', [])]"
    "config_readonly M at \<Longrightarrow> config_of M (server w') = config_of M (server w)"
proof -
  obtain x where o: "OutputCmd M (Command ''dnsdomainname'' []) w = (x, w')"
    using assms by (auto simp: dnsdomainname_def split: prod.splits sum.splits)
  show "commands w' = commands w @ [(''dnsdomainname'', [])]"
    using commands_OutputCmd [OF o] by (simp add: Command_def)
  show "config_of M (server w') = config_of M (server w)" if "config_readonly M at"
    using config_OutputCmd [OF that o] .
qed

lemma writePieces_quiet:
  assumes "config_readonly M at" "at (server w) h = Some (p, off, app)" "take 12 p \<noteq> ''/etc/config/''"
  shows "config_of M (server (writePieces M q h ps w)) = config_of M (server w) \<and>
    commands (writePieces M q h ps w) = commands w"
  using assms(2)
proof (induction ps arbitrary: w off)
  case (Cons t ps)
  obtain r w1 where wr: "Write M q h t w = (r, w1)" by fastforce
  note c = config_Write [OF assms(1) wr Cons.prems assms(3)]
  then obtain off' where "at (server w1) h = Some (p, off', app)" by blast
  from Cons.IH [OF this] c wr show ?case by (simp add: commands_Write [OF wr])
qed simp

lemma GenerateConfig_quiet:
  assumes "file_laws M view at" "config_readonly M at" "GenerateConfig M w = (r, w')"
  shows "config_of M (server w') = config_of M (server w)" (is ?cfg)
    "commands w' = commands w \<and> r \<noteq> Inr () \<or> commands w' = commands w @ [(''dnsdomainname'', [])]" (is ?cmd)
proof -
  have "?cfg \<and> ?cmd"
  proof (cases "\<exists>n m. GetSegmentCount M (server w) = Inr n \<and> GetMirrors M (server w) = Inr m")
    case False
    then show ?thesis using assms(3) by (auto simp: GenerateConfig_def split: sum.splits)
  next
    case True
    then obtain n m where nm: "GetSegmentCount M (server w) = Inr n" "GetMirrors M (server w) = Inr m" by blast
    obtain d w1 where dn: "dnsdomainname M w = (d, w1)" by fastforce
    note q = dnsdomainname_quiet [OF dn]
    have path: "take 12 GpinitsystemConfigPath \<noteq> ''/etc/config/''" by (simp add: GpinitsystemConfigPath_def)
    show ?thesis
    proof (cases d)
      case (Inl e)
      then show ?thesis using assms(2,3) nm dn q by (auto simp: GenerateConfig_def)
    next
      case (Inr sub)
      obtain o' w2 where op: "OpenFile M GpinitsystemConfigPath [O_CREATE, O_WRONLY, O_TRUNC] 420 w1 = (o', w2)" by fastforce
      note c2 = config_OpenFile [OF assms(2) op path] commands_OpenFile [OF op]
      show ?thesis
      proof (cases o')
        case (Inl e)
        then show ?thesis using assms(2,3) nm dn q c2 op \<open>d = Inr sub\<close> by (auto simp: GenerateConfig_def)
      next
        case h: (Inr h)
        let ?w3 = "writePieces M GpinitsystemConfigPath h (gpinitsystemConfig n m sub) w2"
        have "at (server w2) h = Some (GpinitsystemConfigPath, 0, False)"
          using file_laws_open(2) [OF assms(1) op [unfolded h]] by simp
        note c3 = writePieces_quiet [OF assms(2) this path, of GpinitsystemConfigPath "gpinitsystemConfig n m sub"]
        have cl: "Close M GpinitsystemConfigPath h ?w3 = (r, w')"
          using assms(3) nm dn op h Inr by (simp add: GenerateConfig_def)
        show ?thesis
          using config_Close [OF assms(2) cl] commands_Close [OF cl] c2 c3 q(1) q(2) [OF assms(2)] by simp
      qed
    qed
  qed
  then show ?cfg ?cmd by auto
qed

text \<open>The run of gpinitsystem: its commands, and what it takes to succeed.\<close>

lemma GpInitSystem_Run_quiet:
  assumes "config_readonly M at" "GpInitSystem_Run M w = (r, w')" "GetStandby M (server w) = Inr st"
    and hg: "hg \<longleftrightarrow> (\<exists>i. m_Lstat M ''/etc/config/GUCs'' (server w) = Inr i)"
  defines "run dns \<equiv> (''/usr/local/greenplum-db/bin/gpinitsystem'', gpinitsystemArgs st hg dns)"
  shows "config_of M (server w') = config_of M (server w) \<and>
    (\<exists>dns k. commands w' = commands w @ take k [(''dnsdomainname'', []), run dns] \<and>
       (r = Inr () \<longrightarrow> k = 2 \<and>
         (\<exists>s x s'. m_Run M (GreenplumCommand (fst (run dns)) (snd (run dns))) s = (x, s') \<and>
            (\<forall>e. ex_err x = Some e \<longrightarrow> Error e = gpinitsystemSuccessExitStatus))))"
proof -
  obtain d w1 where dn: "dnsdomainname M w = (d, w1)" by fastforce
  note q = dnsdomainname_quiet(1) [OF dn] dnsdomainname_quiet(2) [OF dn assms(1)]
  show ?thesis
  proof (cases d)
    case (Inl e)
    then have "w' = w1" "r = Inl e" using assms(2) dn by (simp_all add: GpInitSystem_Run_def)
    then show ?thesis using q by (intro conjI exI [of _ undefined] exI [of _ 1]) simp_all
  next
    case (Inr dns)
    let ?cmd = "GreenplumCommand ''/usr/local/greenplum-db/bin/gpinitsystem'' (gpinitsystemArgs st hg dns)"
    note g = config_getters [OF q(2)]
    have has: "(case m_Lstat M ''/etc/config/GUCs'' (server w1) of Inl e \<Rightarrow> False | Inr i \<Rightarrow> True) = hg"
      using hg g(2) by (auto split: sum.split)
    obtain y w2 where run: "RunCmd M ?cmd w1 = (y, w2)" by fastforce
    have w': "w' = w2" and r: "r = Inr () \<Longrightarrow> y = Inr () \<or> (\<exists>e. y = Inl e \<and> Error e = gpinitsystemSuccessExitStatus)"
      using assms(2,3) dn Inr run
      by (auto simp: GpInitSystem_Run_def g(1) has Let_def split: sum.splits if_splits)
    obtain x where x: "m_Run M ?cmd (server w1) = (x, server w2)" "y = (case ex_err x of None \<Rightarrow> Inr () | Some e \<Rightarrow> Inl e)"
      using RunCmd_result [OF run] by blast
    have "commands w2 = commands w @ [(''dnsdomainname'', []), run dns]"
      using commands_RunCmd [OF run] q(1) by (simp add: run_def GreenplumCommand_def Command_def Let_def)
    moreover have "ex_err x = Some e \<Longrightarrow> Error e = gpinitsystemSuccessExitStatus" if "r = Inr ()" for e
      using r [OF that] x(2) by auto
    ultimately show ?thesis
      using w' q(2) config_RunCmd [OF assms(1) run] x(1)
      by (intro conjI exI [of _ dns] exI [of _ 2]) (auto simp: run_def)
  qed
qed

lemma addHBA_quiet:
  assumes "config_readonly M at" "addHostBasedAuthentication M host w = (r, w')"
    and "HasContent M ''/etc/config/hostBasedAuthentication'' (server w) = Inr hba"
  shows "config_of M (server w') = config_of M (server w)"
    "commands w' = commands w @ (if hba then [(''/usr/bin/ssh'', [host, ''cat'',
       ''/etc/config/hostBasedAuthentication'', ''>>'', ''/greenplum/data-1/pg_hba.conf''])] else [])"
proof -
  let ?cmd = "Command ''/usr/bin/ssh'' [host, ''cat'', ''/etc/config/hostBasedAuthentication'', ''>>'', ''/greenplum/data-1/pg_hba.conf'']"
  have "if hba then \<exists>x. RunCmd M ?cmd w = (x, w') else w' = w"
    using assms(2,3) by (auto simp: addHostBasedAuthentication_def Let_def split: prod.splits sum.splits)
  then obtain x where x: "if hba then RunCmd M ?cmd w = (x, w') else w' = w" by (auto split: if_splits)
  then show "config_of M (server w') = config_of M (server w)"
    using config_RunCmd [OF assms(1), of ?cmd w x w'] by (auto split: if_splits)
  show "commands w' = commands w @ (if hba then [(''/usr/bin/ssh'', [host, ''cat'',
       ''/etc/config/hostBasedAuthentication'', ''>>'', ''/greenplum/data-1/pg_hba.conf''])] else [])"
    using x commands_RunCmd [of M ?cmd w x w'] by (auto simp: Command_def split: if_splits)
qed

lemma addMastersHBA_commands:
  assumes "config_readonly M at" "addMasterAndStandbyHostBasedAuthentication M w = (r, w')"
    and "HasContent M ''/etc/config/hostBasedAuthentication'' (server w) = Inr hba" "GetStandby M (server w) = Inr st"
  shows "\<exists>k. commands w' = commands w @ take k (drop 4 (initCommands dns st hg hba)) \<and>
    (r = Inr () \<longrightarrow> k = length (drop 4 (initCommands dns st hg hba)))"
proof -
  obtain a w1 where 1: "addHostBasedAuthentication M ''master-0'' w = (a, w1)" by fastforce
  note q = addHBA_quiet [OF assms(1) 1 assms(3)]
  note g = config_getters [OF q(1)]
  obtain b w2 where 2: "addHostBasedAuthentication M ''master-1'' w1 = (b, w2)" by fastforce
  note q2 = addHBA_quiet(2) [OF assms(1) 2 g(3) [unfolded assms(3)]]
  show ?thesis
  proof (cases "(\<exists>e. a = Inl e) \<or> \<not> st")
    case True
    then have "w' = w1 \<and> (r = Inr () \<longrightarrow> \<not> st)"
      using assms(2,4) 1 g(1) by (auto simp: addMasterAndStandbyHostBasedAuthentication_def split: sum.splits)
    then show ?thesis using q(2) by (intro exI [of _ "if hba then 1 else 0"]) (auto simp: initCommands_def)
  next
    case False
    then have "w' = w2"
      using assms(2,4) 1 2 g(1) by (auto simp: addMasterAndStandbyHostBasedAuthentication_def split: sum.splits)
    then show ?thesis using q(2) q2 False by (intro exI [of _ "if hba then 2 else 0"]) (auto simp: initCommands_def)
  qed
qed

lemma take_min_2: "take (Suc (min k 2)) ([x, y, z, u] @ r) = x # take k [y, z]"
  by (cases k; cases "k - 1") (auto simp: min_def)

text \<open>After gpinitsystem: the database is created, then the host based authentication is added.\<close>

lemma createDB_then_HBA:
  assumes "config_readonly M at" "config_of M (server w2) = config_of M (server w)"
    and "GetStandby M (server w) = Inr st" "HasContent M ''/etc/config/hostBasedAuthentication'' (server w) = Inr hba"
    and "commands w2 = commands w @ take 3 (initCommands dns st hg hba)"
    and "(case createDB M w2 of (Inl e, w3) \<Rightarrow> (Inl (Wrap ''createdb failed'' e), w3)
          | (Inr u, w3) \<Rightarrow> addMasterAndStandbyHostBasedAuthentication M w3) = (r, w')"
  shows "\<exists>k. commands w' = commands w @ take k (initCommands dns st hg hba) \<and>
    (r = Inr () \<longrightarrow> k = length (initCommands dns st hg hba))"
proof -
  obtain z w3 where db: "createDB M w2 = (z, w3)" by fastforce
  have w3: "commands w3 = commands w @ take 4 (initCommands dns st hg hba)"
    using commands_RunCmd [OF db [unfolded createDB_def]] assms(5)
    by (simp add: initCommands_def GreenplumCommand_def Command_def Let_def)
  have "config_of M (server w3) = config_of M (server w)"
    using config_RunCmd [OF assms(1) db [unfolded createDB_def]] assms(2) by simp
  note g3 = config_getters [OF this]
  show ?thesis
  proof (cases z)
    case (Inl e)
    then show ?thesis using assms(6) db w3 by (intro exI [of _ 4]) auto
  next
    case (Inr t)
    then have add: "addMasterAndStandbyHostBasedAuthentication M w3 = (r, w')" using assms(6) db by simp
    obtain j where j: "commands w' = commands w3 @ take j (drop 4 (initCommands dns st hg hba))"
      "r = Inr () \<longrightarrow> j = length (drop 4 (initCommands dns st hg hba))"
      using addMastersHBA_commands [OF assms(1) add] g3 assms(3,4) by metis
    have "commands w' = commands w @ take (4 + j) (initCommands dns st hg hba)"
      using w3 j(1) by (simp only: take_add append_assoc)
    moreover have "4 + j = length (initCommands dns st hg hba)" if "r = Inr ()"
      using j(2) that by (simp add: initCommands_def)
    ultimately show ?thesis by blast
  qed
qed

text \<open>gpinitsystem ended well: with status 0, or with 1, its warnings.\<close>

definition gpinit_accepted :: "'s machine \<Rightarrow> bool \<Rightarrow> bool \<Rightarrow> string \<Rightarrow> bool" where
  "gpinit_accepted M st hg dns \<longleftrightarrow>
     (\<exists>s x s'. m_Run M (GreenplumCommand ''/usr/local/greenplum-db/bin/gpinitsystem'' (gpinitsystemArgs st hg dns)) s = (x, s') \<and>
        (\<forall>e. ex_err x = Some e \<longrightarrow> Error e = ''exit status 1''))"

text \<open>From gpinitsystem on.\<close>

lemma commands_from_gpinitsystem:
  assumes ro: "config_readonly M at" and cfg: "config_of M (server w1) = config_of M (server w)"
    and conf: "GetStandby M (server w) = Inr st" "hg \<longleftrightarrow> (\<exists>i. m_Lstat M ''/etc/config/GUCs'' (server w) = Inr i)"
      "HasContent M ''/etc/config/hostBasedAuthentication'' (server w) = Inr hba"
    and w1: "commands w1 = commands w @ [(''dnsdomainname'', [])]" and run: "GpInitSystem_Run M w1 = (y, w2)"
    and rest: "(case y of Inl e \<Rightarrow> (Inl e', w2) | Inr u \<Rightarrow> (case createDB M w2 of (Inl e, w3) \<Rightarrow> (Inl (Wrap ''createdb failed'' e), w3)
          | (Inr u, w3) \<Rightarrow> addMasterAndStandbyHostBasedAuthentication M w3)) = (r, w')"
  shows "\<exists>dns k. commands w' = commands w @ take k (initCommands dns st hg hba) \<and>
    (r = Inr () \<longrightarrow> k = length (initCommands dns st hg hba)) \<and> (3 < k \<longrightarrow> gpinit_accepted M st hg dns)"
proof -
  have st1: "GetStandby M (server w1) = Inr st" and hg1: "hg \<longleftrightarrow> (\<exists>i. m_Lstat M ''/etc/config/GUCs'' (server w1) = Inr i)"
    using config_getters [OF cfg] conf(1,2) by simp_all
  obtain dns k where w2: "commands w2 = commands w1 @ take k
        [(''dnsdomainname'', []), (''/usr/local/greenplum-db/bin/gpinitsystem'', gpinitsystemArgs st hg dns)]"
    and cfg2: "config_of M (server w2) = config_of M (server w1)"
    and ok: "y = Inr () \<Longrightarrow> k = 2 \<and> gpinit_accepted M st hg dns"
    using GpInitSystem_Run_quiet [OF ro run st1 hg1]
    unfolding gpinitsystemSuccessExitStatus_def fst_conv snd_conv gpinit_accepted_def by metis
  show ?thesis
  proof (cases y)
    case (Inl e)
    then have "w' = w2" "r \<noteq> Inr ()" using rest by auto
    moreover have "take (Suc (min k 2)) (initCommands dns st hg hba) = (''dnsdomainname'', []) # take k
        [(''dnsdomainname'', []), (''/usr/local/greenplum-db/bin/gpinitsystem'', gpinitsystemArgs st hg dns)]"
      unfolding initCommands_def by (rule take_min_2)
    ultimately show ?thesis using w1 w2 by (intro exI [of _ dns] exI [of _ "Suc (min k 2)"]) auto
  next
    case y: (Inr v)
    have "commands w2 = commands w @ take 3 (initCommands dns st hg hba)"
      using w1 w2 ok y by (simp add: initCommands_def)
    moreover have "config_of M (server w2) = config_of M (server w)" using cfg2 cfg by simp
    ultimately obtain j where "commands w' = commands w @ take j (initCommands dns st hg hba)"
      "r = Inr () \<longrightarrow> j = length (initCommands dns st hg hba)"
      using createDB_then_HBA [OF ro _ conf(1,3)] rest y by fastforce
    moreover have "gpinit_accepted M st hg dns" using ok y by simp
    ultimately show ?thesis by blast
  qed
qed


definition demo_create_world :: "mem world" where
  "demo_create_world = mem_world [(''/etc/config/segmentCount'', ''1''), (''/etc/config/mirrors'', ''false''),
     (''/etc/config/standby'', ''true''), (''/etc/config/GUCs'', ''''), (''/etc/config/hostBasedAuthentication'', ''host'')]"

lemma mem_config_readonly: "config_readonly (mem_machine script host) mem_at"
proof -
  have put: "config_of (mem_machine script host) (mem_put p c s) = config_of (mem_machine script host) s"
    if "take 12 p \<noteq> ''/etc/config/''" for p c s
    using that by (auto simp: config_of_def mem_machine_def mem_info_def fun_eq_iff)
  have at: "config_of (mem_machine script host) (mem_set h x s) = config_of (mem_machine script host) s" for h x s
    by (simp add: config_of_def mem_machine_def mem_info_def fun_eq_iff)
  have sel: "m_Run (mem_machine script host) = (\<lambda>c s. (script c, s))" "m_OpenFile (mem_machine script host) = mem_open"
    "m_Write (mem_machine script host) = mem_write" "m_Close (mem_machine script host) = (\<lambda>h s. (Inr (), s))"
    by (simp_all add: mem_machine_def)
  show ?thesis unfolding config_readonly_def sel
    by (auto simp: mem_open_def mem_write_def Let_def put at split: option.split)
qed


end
