(* ===== verification/Gpexpand.thy ===== *)
theory Gpexpand
  imports Hosts Gpinit
begin

text \<open>
  The expansion of a running cluster, \<open>cmd/runGpexpand\<close>: the generation of the gpexpand configuration
  (\<open>generategpexpandconfig.go\<close>), the waiting for the new hosts and the run of gpexpand (\<open>gpexpand.go\<close>)
  and the program around them (\<open>main.go\<close>). The configuration is shown to be a reference configuration
  with fresh identifiers, for exactly the hosts that the larger cluster has more.
\<close>

section \<open>Definitions\<close>

record GenerateGpexpandConfigParams =
  maxDbID :: int
  maxContentID :: int
  gpe_namespace :: string
  OldSegmentCount :: int
  NewSegmentCount :: int
  IsMirrored :: bool

definition ExecPsqlQueryAndReturnInt :: "'s machine \<Rightarrow> string \<Rightarrow> ('s, int result) io" where
  "ExecPsqlQueryAndReturnInt M query w =
     (let cmd = GreenplumCommand ''/usr/local/greenplum-db/bin/psql'' [''-U'', ''gpadmin'', ''-tAc'', query]
      in case perform (CommandCall (cmd_Path cmd) (cmd_Args cmd)) (m_Run M cmd) w of
           (x, w1) \<Rightarrow>
             (case ex_err x of
                Some err \<Rightarrow> (Inl (Wrap (ex_stderr x) err), w1)
              | None \<Rightarrow> (Atoi (TrimSpace (ex_stdout x)), w1)))"

definition SetMaxDbID ::
  "'s machine \<Rightarrow> GenerateGpexpandConfigParams \<Rightarrow> ('s, GenerateGpexpandConfigParams result) io"
where
  "SetMaxDbID M p w =
     (case ExecPsqlQueryAndReturnInt M ''SELECT MAX(dbid) FROM gp_segment_configuration'' w of
        (Inl err, w1) \<Rightarrow> (Inl err, w1)
      | (Inr v, w1) \<Rightarrow> (Inr (p\<lparr>maxDbID := v\<rparr>), w1))"

definition SetMaxContentID ::
  "'s machine \<Rightarrow> GenerateGpexpandConfigParams \<Rightarrow> ('s, GenerateGpexpandConfigParams result) io"
where
  "SetMaxContentID M p w =
     (case ExecPsqlQueryAndReturnInt M ''SELECT MAX(content) FROM gp_segment_configuration'' w of
        (Inl err, w1) \<Rightarrow> (Inl err, w1)
      | (Inr v, w1) \<Rightarrow> (Inr (p\<lparr>maxContentID := v\<rparr>), w1))"

definition SetNamespace ::
  "'s machine \<Rightarrow> GenerateGpexpandConfigParams \<Rightarrow> ('s, GenerateGpexpandConfigParams result) io"
where
  "SetNamespace M p w =
     (case m_ReadFile M ''/var/run/secrets/kubernetes.io/serviceaccount/namespace'' (server w) of
        Inl err \<Rightarrow> (Inl err, w)
      | Inr ns \<Rightarrow> (Inr (p\<lparr>gpe_namespace := ns\<rparr>), w))"

definition gpexpandLine ::
  "string \<Rightarrow> int \<Rightarrow> string \<Rightarrow> int \<Rightarrow> string \<Rightarrow> int \<Rightarrow> int \<Rightarrow> string \<Rightarrow> string"
where
  "gpexpandLine name i ns port dir dbid contentID role =
     name @ ''-'' @ Itoa i @ ''.agent.'' @ ns @ ''.svc.cluster.local|'' @ name @ ''-'' @ Itoa i @ ''|'' @
     Itoa port @ ''|'' @ dir @ ''|'' @ Itoa dbid @ ''|'' @ Itoa contentID @ ''|'' @ role @ newline"

text \<open>The loop \<open>for i := OldSegmentCount; i < NewSegmentCount; i++\<close>; \<open>n\<close> counts its remaining rounds.\<close>

fun gpexpandLoop :: "string \<Rightarrow> bool \<Rightarrow> nat \<Rightarrow> int \<Rightarrow> int \<Rightarrow> int \<Rightarrow> string list" where
  "gpexpandLoop ns mirrored 0 i dbid contentID = []"
| "gpexpandLoop ns mirrored (Suc n) i dbid contentID =
     (let dbid1 = wrap64 (dbid + 1);
          contentID1 = wrap64 (contentID + 1);
          primary = gpexpandLine ''segment-a'' i ns 40000 ''/greenplum/data'' dbid1 contentID1 ''p''
      in if mirrored
         then (let dbid2 = wrap64 (dbid1 + 1);
                   mirror = gpexpandLine ''segment-b'' i ns 50000 ''/greenplum/mirror/data'' dbid2 contentID1 ''m''
               in primary # mirror # gpexpandLoop ns mirrored n (i + 1) dbid2 contentID1)
         else primary # gpexpandLoop ns mirrored n (i + 1) dbid1 contentID1)"

definition gpexpandConfigPath :: string where
  "gpexpandConfigPath = ''/tmp/gpexpand_config''"

definition GpexpandParams_GenerateConfig ::
  "'s machine \<Rightarrow> GenerateGpexpandConfigParams \<Rightarrow> ('s, unit result) io"
where
  "GpexpandParams_GenerateConfig M p w =
     (if NewSegmentCount p \<le> OldSegmentCount p
      then (Inl (Err ''newSegmentCount cannot be less than or equal to OldSegmentCount''), w)
      else WriteFile M gpexpandConfigPath
             (concat (gpexpandLoop (gpe_namespace p) (IsMirrored p) (nat (NewSegmentCount p - OldSegmentCount p))
                (OldSegmentCount p) (maxDbID p) (maxContentID p))) 511 w)"

definition GpexpandParams_Run ::
  "'s machine \<Rightarrow> GenerateGpexpandConfigParams \<Rightarrow> ('s, unit result) io"
where
  "GpexpandParams_Run M p w =
     (if NewSegmentCount p \<le> 0 then (Inl (Err ''new segment count cannot be <= 0''), w)
      else case SetMaxDbID M p w of
        (Inl err, w1) \<Rightarrow> (Inl err, w1)
      | (Inr p1, w1) \<Rightarrow>
          (case SetMaxContentID M p1 w1 of
             (Inl err, w2) \<Rightarrow> (Inl err, w2)
           | (Inr p2, w2) \<Rightarrow>
               (case SetNamespace M p2 w2 of
                  (Inl err, w3) \<Rightarrow> (Inl err, w3)
                | (Inr p3, w3) \<Rightarrow> GpexpandParams_GenerateConfig M p3 w3)))"

subsection \<open>The run\<close>

text \<open>
  The three operations on the hosts are interfaces (\<open>multihost.Operation\<close>); an operation gives the
  error of each host. \<open>foreach\<close> is the call of \<open>ParallelForeach\<close>.
\<close>

record RunGpexpandConfig =
  rge_NewSegmentCount :: int
  rge_IsMirrored :: bool
  rge_Standby :: bool
  rge_DNSResolver :: "string \<Rightarrow> go_error option"
  rge_KnownHostsWaiter :: "string \<Rightarrow> go_error option"
  rge_SSHExecutor :: "string \<Rightarrow> go_error option"

definition gpexpandCommand :: Cmd where
  "gpexpandCommand = Command ''bash'' [''-c'',
     ''source /usr/local/greenplum-db/greenplum_path.sh && MASTER_DATA_DIRECTORY=/greenplum/data-1 gpexpand -i /tmp/gpexpand_config'']"

definition RunGpexpandConfig_Run ::
  "((string \<Rightarrow> go_error option) \<Rightarrow> string list \<Rightarrow> go_error list) \<Rightarrow> 's machine \<Rightarrow> RunGpexpandConfig \<Rightarrow> ('s, unit result) io"
where
  "RunGpexpandConfig_Run foreach M r w =
     (let hostnameList = GenerateHostList (rge_NewSegmentCount r) (rge_IsMirrored r) (rge_Standby r) ''''
      in if foreach (rge_DNSResolver r) hostnameList \<noteq> []
         then (Inl (Err ''failed to resolve DNS entries for all masters and segments''), w)
         else if foreach (rge_KnownHostsWaiter r) hostnameList \<noteq> []
         then (Inl (Err ''timed out waiting for known_hosts on master''), w)
         else if foreach (rge_SSHExecutor r) hostnameList \<noteq> []
         then (Inl (Err ''timed out waiting for known_hosts on all masters and segments''), w)
         else RunCmd M gpexpandCommand w)"

definition GetOldSegmentCount :: "'s machine \<Rightarrow> ('s, int result) io" where
  "GetOldSegmentCount M =
     ExecPsqlQueryAndReturnInt M
       (''SELECT COUNT(*) FROM gp_segment_configuration WHERE hostname LIKE '' @ [CHR 0x27] @ ''segment-a%'' @ [CHR 0x27])"

text \<open>
  \<open>main\<close> with the parsed flag \<open>--newPrimarySegmentCount\<close>: the exit status. \<open>sshExec\<close> runs its
  command on a host.
\<close>

definition runGpexpand_main ::
  "((string \<Rightarrow> go_error option) \<Rightarrow> string list \<Rightarrow> go_error list) \<Rightarrow> 's machine \<Rightarrow>
   (string \<Rightarrow> go_error option) \<Rightarrow> (string \<Rightarrow> go_error option) \<Rightarrow> (string \<Rightarrow> string \<Rightarrow> go_error option) \<Rightarrow>
   int \<Rightarrow> ('s, int) io"
where
  "runGpexpand_main foreach M dnsResolver knownHostsWaiter sshExec newPrimarySegmentCount w =
     (case GetOldSegmentCount M w of
        (Inl err, w1) \<Rightarrow> (1, w1)
      | (Inr oldSegmentCount, w1) \<Rightarrow>
          (case GetConfigValues M (server w1) of
             Inl err \<Rightarrow> (1, w1)
           | Inr config \<Rightarrow>
               (case GpexpandParams_Run M
                      \<lparr>maxDbID = 0, maxContentID = 0, gpe_namespace = '''', OldSegmentCount = oldSegmentCount,
                       NewSegmentCount = newPrimarySegmentCount, IsMirrored = cv_Mirrors config\<rparr> w1 of
                  (Inl err, w2) \<Rightarrow> (1, w2)
                | (Inr u, w2) \<Rightarrow>
                    (case RunGpexpandConfig_Run foreach M
                           \<lparr>rge_NewSegmentCount = newPrimarySegmentCount, rge_IsMirrored = cv_Mirrors config,
                            rge_Standby = cv_Standby config, rge_DNSResolver = dnsResolver,
                            rge_KnownHostsWaiter = knownHostsWaiter,
                            rge_SSHExecutor = sshExec (''/tools/waitForKnownHosts --newPrimarySegmentCount '' @
                              Itoa newPrimarySegmentCount)\<rparr> w2 of
                       (Inl err, w3) \<Rightarrow> (1, w3)
                     | (Inr u, w3) \<Rightarrow> (0, w3)))))"

text \<open>\<open>cmd/waitForKnownHosts\<close>, which the ssh command above runs on every host.\<close>

definition waitForKnownHosts_main ::
  "((string \<Rightarrow> go_error option) \<Rightarrow> string list \<Rightarrow> go_error list) \<Rightarrow> 's machine \<Rightarrow>
   (string \<Rightarrow> go_error option) \<Rightarrow> int \<Rightarrow> ('s, int) io"
where
  "waitForKnownHosts_main foreach M knownHostsWaiter newPrimarySegmentCount w =
     (case GetConfigValues M (server w) of
        Inl err \<Rightarrow> (1, w)
      | Inr config \<Rightarrow>
          (if foreach knownHostsWaiter
                (GenerateHostList newPrimarySegmentCount (cv_Mirrors config) (cv_Standby config) '''') \<noteq> []
           then (1, w) else (0, w)))"

section \<open>Lemmas\<close>

text \<open>The reference: segment \<open>old + j\<close> takes the next one or two identifiers and the next content number.\<close>

definition expansionLines :: "string \<Rightarrow> bool \<Rightarrow> int \<Rightarrow> int \<Rightarrow> int \<Rightarrow> nat \<Rightarrow> string list" where
  "expansionLines ns mirrored old maxdb maxcontent j =
     (if mirrored
      then [gpexpandLine ''segment-a'' (old + int j) ns 40000 ''/greenplum/data'' (maxdb + 2 * int j + 1) (maxcontent + int j + 1) ''p'',
            gpexpandLine ''segment-b'' (old + int j) ns 50000 ''/greenplum/mirror/data'' (maxdb + 2 * int j + 2) (maxcontent + int j + 1) ''m'']
      else [gpexpandLine ''segment-a'' (old + int j) ns 40000 ''/greenplum/data'' (maxdb + int j + 1) (maxcontent + int j + 1) ''p''])"

lemma gpexpandLoop_reference:
  assumes "- (2 ^ 63) \<le> db" "- (2 ^ 63) \<le> ct" "db + 2 * int n < 2 ^ 63" "ct + int n < 2 ^ 63"
  shows "gpexpandLoop ns m n i db ct = concat (map (expansionLines ns m i db ct) [0..<n])"
  using assms
proof (induction n arbitrary: i db ct)
  case (Suc n)
  have w: "wrap64 (db + 1) = db + 1" "wrap64 (ct + 1) = ct + 1" "wrap64 (2 + db) = db + 2"
    using Suc.prems by (auto intro!: wrap64_id)
  have IH: "gpexpandLoop ns m n (i + 1) (db + (if m then 2 else 1)) (ct + 1) =
      concat (map (expansionLines ns m (i + 1) (db + (if m then 2 else 1)) (ct + 1)) [0..<n])"
    by (rule Suc.IH) (use Suc.prems in auto)
  have shift: "expansionLines ns m (i + 1) (db + (if m then 2 else 1)) (ct + 1) = (\<lambda>j. expansionLines ns m i db ct (Suc j))"
    by (simp add: expansionLines_def algebra_simps fun_eq_iff)
  have split: "concat (map (expansionLines ns m i db ct) [0..<Suc n]) =
      expansionLines ns m i db ct 0 @ concat (map (expansionLines ns m (i + 1) (db + (if m then 2 else 1)) (ct + 1)) [0..<n])"
    unfolding shift by (simp add: upt_rec [of 0 "Suc n"] map_Suc_upt [symmetric] o_def del: upt_Suc)
  have first: "expansionLines ns m i db ct 0 =
      (if m then [gpexpandLine ''segment-a'' i ns 40000 ''/greenplum/data'' (db + 1) (ct + 1) ''p'',
                  gpexpandLine ''segment-b'' i ns 50000 ''/greenplum/mirror/data'' (db + 2) (ct + 1) ''m'']
       else [gpexpandLine ''segment-a'' i ns 40000 ''/greenplum/data'' (db + 1) (ct + 1) ''p''])"
    by (simp add: expansionLines_def)
  show ?case unfolding split first using IH by (cases m) (simp_all add: w Let_def)
qed simp

text \<open>The host a line of the configuration names: its second field.\<close>

definition lineHost :: "string \<Rightarrow> string" where
  "lineHost line = Split line (CHR ''|'') ! 1"

lemma no_bar_Itoa: "CHR ''|'' \<notin> set (Itoa i)"
proof
  assume "CHR ''|'' \<in> set (Itoa i)"
  then have "is_digit (CHR ''|'')" using is_digit_in_nat_digits by (auto simp: Itoa_def split: if_splits)
  then show False by (simp add: is_digit_def code_def)
qed

lemma Split_second: "sep \<notin> set x \<Longrightarrow> sep \<notin> set y \<Longrightarrow> Split (x @ sep # y @ sep # z) sep ! 1 = y"
  by (simp add: Split_append_sep)

lemma lineHost_gpexpandLine:
  assumes "CHR ''|'' \<notin> set ns" "CHR ''|'' \<notin> set name"
  shows "lineHost (gpexpandLine name i ns port dir db ct role) = name @ ''-'' @ Itoa i"
proof -
  let ?fq = "name @ ''-'' @ Itoa i @ ''.agent.'' @ ns @ ''.svc.cluster.local''"
  let ?rest = "Itoa port @ ''|'' @ dir @ ''|'' @ Itoa db @ ''|'' @ Itoa ct @ ''|'' @ role @ newline"
  have line: "gpexpandLine name i ns port dir db ct role = ?fq @ CHR ''|'' # (name @ ''-'' @ Itoa i) @ CHR ''|'' # ?rest"
    by (simp add: gpexpandLine_def)
  have bars: "CHR ''|'' \<notin> set ?fq" "CHR ''|'' \<notin> set (name @ ''-'' @ Itoa i)"
    using assms by (simp_all add: no_bar_Itoa)
  show ?thesis unfolding lineHost_def line by (rule Split_second) (rule bars)+
qed

lemma gpexpandLoop_hosts:
  assumes "CHR ''|'' \<notin> set ns"
  shows "set (map lineHost (gpexpandLoop ns m n i db ct)) =
    {''segment-a-'' @ Itoa (i + int j) | j. j < n} \<union> (if m then {''segment-b-'' @ Itoa (i + int j) | j. j < n} else {})"
proof (induction n arbitrary: i db ct)
  case (Suc n)
  have shift: "{p @ Itoa (i + int j) | j. j < Suc n} = insert (p @ Itoa i) {p @ Itoa (i + 1 + int j) | j. j < n}" for p
  proof -
    have "{j. j < Suc n} = insert 0 (Suc ` {j. j < n})" by (auto simp: less_Suc_eq_0_disj)
    then have "(\<lambda>j. p @ Itoa (i + int j)) ` {j. j < Suc n} =
        insert (p @ Itoa i) ((\<lambda>j. p @ Itoa (i + 1 + int j)) ` {j. j < n})"
      by (simp add: image_image add.assoc)
    then show ?thesis by (simp add: setcompr_eq_image)
  qed
  show ?case unfolding shift using Suc.IH
    by (cases m) (simp_all add: Let_def lineHost_gpexpandLine [OF assms] insert_commute)
qed simp

lemma expansion_difference:
  fixes a b :: "nat \<Rightarrow> string"
  assumes "inj a" "inj b" "range a \<inter> range b = {}" "Ms \<inter> (range a \<union> range b) = {}"
  shows "({a i | i. i < new} \<union> (if m then {b i | i. i < new} else {}) \<union> Ms) -
      ({a i | i. i < old} \<union> (if m then {b i | i. i < old} else {}) \<union> Ms) =
    {a i | i. old \<le> i \<and> i < new} \<union> (if m then {b i | i. old \<le> i \<and> i < new} else {})"
proof -
  have eq: "a i = a j \<longleftrightarrow> i = j" "b i = b j \<longleftrightarrow> i = j" for i j using assms(1,2) by (auto simp: inj_def)
  have ne: "a i \<noteq> b j" "b j \<noteq> a i" "a i \<notin> Ms" "b i \<notin> Ms" for i j using assms(3,4) by blast+
  show ?thesis by (cases m) (auto simp: eq ne not_less)
qed



text \<open>A successful generation, for a namespace, the greatest identifier \<open>db\<close> and the greatest content
  number \<open>ct\<close> the running cluster reports, replaces the gpexpand file by the reference configuration:
  every new segment, in order, with the identifiers and content numbers that follow \<open>db\<close> and \<open>ct\<close>, a
  primary and its mirror with the same content number; it is only generated for a count that grows.\<close>

theorem gpexpand_config_reference:
  assumes "writefile_law M view" "GpexpandParams_Run M p w = (Inr (), w')"
    and "SetMaxDbID M p w = (Inr p1, w1)" "SetMaxContentID M p1 w1 = (Inr p2, w2)"
    and "m_ReadFile M ''/var/run/secrets/kubernetes.io/serviceaccount/namespace'' (server w2) = Inr ns"
    and "maxDbID p2 + 2 * (NewSegmentCount p - OldSegmentCount p) < 2 ^ 63"
    and "maxContentID p2 + (NewSegmentCount p - OldSegmentCount p) < 2 ^ 63"
  shows "0 < NewSegmentCount p \<and> OldSegmentCount p < NewSegmentCount p \<and>
    view (server w') = (view (server w2))(gpexpandConfigPath \<mapsto>
      concat (concat (map (expansionLines ns (IsMirrored p) (OldSegmentCount p) (maxDbID p2) (maxContentID p2))
        [0..<nat (NewSegmentCount p - OldSegmentCount p)])))"
proof -
  have ran: "- (2 ^ 63) \<le> v" if "ExecPsqlQueryAndReturnInt M q u = (Inr v, u')" for q u v u'
    using that by (auto simp: ExecPsqlQueryAndReturnInt_def Let_def Atoi_def split: prod.splits option.splits dest: ParseInt_range)
  obtain d where p1: "p1 = p\<lparr>maxDbID := d\<rparr>" and d: "- (2 ^ 63) \<le> d"
    using assms(3) ran by (auto simp: SetMaxDbID_def split: prod.splits sum.splits)
  obtain c where p2: "p2 = p1\<lparr>maxContentID := c\<rparr>" and c: "- (2 ^ 63) \<le> c"
    using assms(4) ran by (auto simp: SetMaxContentID_def split: prod.splits sum.splits)
  let ?p3 = "p2\<lparr>gpe_namespace := ns\<rparr>"
  have pos: "0 < NewSegmentCount p" and gen: "GpexpandParams_GenerateConfig M ?p3 w2 = (Inr (), w')"
    using assms(2-5) by (auto simp: GpexpandParams_Run_def SetNamespace_def split: if_splits)
  then have grows: "OldSegmentCount p < NewSegmentCount p"
    and wr: "WriteFile M gpexpandConfigPath (concat (gpexpandLoop ns (IsMirrored p)
        (nat (NewSegmentCount p - OldSegmentCount p)) (OldSegmentCount p) d c)) 511 w2 = (Inr (), w')"
    by (auto simp: GpexpandParams_GenerateConfig_def p1 p2 split: if_splits)
  have "gpexpandLoop ns (IsMirrored p) (nat (NewSegmentCount p - OldSegmentCount p)) (OldSegmentCount p) d c =
      concat (map (expansionLines ns (IsMirrored p) (OldSegmentCount p) d c) [0..<nat (NewSegmentCount p - OldSegmentCount p)])"
    by (rule gpexpandLoop_reference) (use d c grows assms(6,7) in \<open>simp_all add: p1 p2\<close>)
  with WriteFile_view [OF assms(1) wr] pos grows show ?thesis by (simp add: p1 p2)
qed

definition demo_expand_machine :: "mem machine" where
  "demo_expand_machine = mem_machine
     (\<lambda>c. run_ok (if cmd_Args c = [''-U'', ''gpadmin'', ''-tAc'', ''SELECT MAX(dbid) FROM gp_segment_configuration'']
        then ''3'' else ''1'')) ''master-0''"

definition demo_expand_world :: "mem world" where
  "demo_expand_world = mem_world
     [(''/var/run/secrets/kubernetes.io/serviceaccount/namespace'', ''ns''), (''/etc/config/segmentCount'', ''2''),
      (''/etc/config/mirrors'', ''true''), (''/etc/config/standby'', ''false''), (''/etc/podinfo/namespace'', ''ns''),
      (''/etc/podinfo/greenplumClusterName'', ''gp'')]"

definition demo_expand_params :: GenerateGpexpandConfigParams where
  "demo_expand_params = \<lparr>maxDbID = 0, maxContentID = 0, gpe_namespace = '''', OldSegmentCount = 1,
     NewSegmentCount = 2, IsMirrored = False\<rparr>"

lemma demo_psql:
  "ExecPsqlQueryAndReturnInt demo_expand_machine q w =
     (Inr (if q = ''SELECT MAX(dbid) FROM gp_segment_configuration'' then 3 else 1),
      w\<lparr>calls := calls w @ [CommandCall ''/usr/local/greenplum-db/bin/psql'' [''-U'', ''gpadmin'', ''-tAc'', q]]\<rparr>)"
proof -
  have "Atoi (TrimSpace ''3'') = Inr 3" "Atoi (TrimSpace ''1'') = Inr 1" by code_simp+
  then show ?thesis
    by (simp add: ExecPsqlQueryAndReturnInt_def demo_expand_machine_def mem_machine_def perform_def
        GreenplumCommand_def Command_def Let_def run_ok_def)
qed

theorem gpexpand_config_reference_witness:
  "mem_view (server (snd (GpexpandParams_Run demo_expand_machine demo_expand_params demo_expand_world))) gpexpandConfigPath =
     Some (gpexpandLine ''segment-a'' 1 ''ns'' 40000 ''/greenplum/data'' 4 2 ''p'')"
proof -
  let ?M = demo_expand_machine and ?p = demo_expand_params and ?w = demo_expand_world
  obtain p1 w1 where 1: "SetMaxDbID ?M ?p ?w = (Inr p1, w1)" "p1 = ?p\<lparr>maxDbID := 3\<rparr>" "server w1 = server ?w"
    by (simp add: SetMaxDbID_def demo_psql)
  obtain p2 w2 where 2: "SetMaxContentID ?M p1 w1 = (Inr p2, w2)" "p2 = p1\<lparr>maxContentID := 1\<rparr>" "server w2 = server w1"
    by (simp add: SetMaxContentID_def demo_psql)
  have ns: "m_ReadFile ?M ''/var/run/secrets/kubernetes.io/serviceaccount/namespace'' (server w2) = Inr ''ns''"
    unfolding 1 2 by code_simp
  have laws: "writefile_law ?M mem_view" by (simp add: demo_expand_machine_def mem_writefile_law)
  have "fst (GpexpandParams_Run ?M ?p ?w) = Inr ()"
    using 1 2 ns
    by (simp add: GpexpandParams_Run_def SetNamespace_def GpexpandParams_GenerateConfig_def WriteFile_def perform_def
        demo_expand_params_def) (simp add: demo_expand_machine_def mem_machine_def)
  then have run: "GpexpandParams_Run ?M ?p ?w = (Inr (), snd (GpexpandParams_Run ?M ?p ?w))" by (metis prod.collapse)
  show ?thesis
    using gpexpand_config_reference [OF laws run 1(1) 2(1) ns] 1(2) 2(2)
    by (simp add: demo_expand_params_def expansionLines_def)
qed

section \<open>The program\<close>

definition psqlCall :: "string \<Rightarrow> string \<times> string list" where
  "psqlCall q = (''/usr/local/greenplum-db/bin/psql'', [''-U'', ''gpadmin'', ''-tAc'', q])"

text \<open>What the program runs when nothing fails: three questions to the master, then gpexpand.\<close>

definition expandCommands :: "(string \<times> string list) list" where
  "expandCommands =
     [psqlCall (''SELECT COUNT(*) FROM gp_segment_configuration WHERE hostname LIKE '' @ [CHR 0x27] @ ''segment-a%'' @ [CHR 0x27]),
      psqlCall ''SELECT MAX(dbid) FROM gp_segment_configuration'',
      psqlCall ''SELECT MAX(content) FROM gp_segment_configuration'',
      (cmd_Path gpexpandCommand, cmd_Args gpexpandCommand)]"

lemma commands_ExecPsql: "ExecPsqlQueryAndReturnInt M q w = (r, w') \<Longrightarrow> commands w' = commands w @ [psqlCall q]"
  by (auto simp: ExecPsqlQueryAndReturnInt_def psqlCall_def Let_def GreenplumCommand_def Command_def
      split: prod.splits option.splits dest!: commands_perform)

lemma commands_SetMax:
  "SetMaxDbID M p w = (r, w') \<Longrightarrow> commands w' = commands w @ [psqlCall ''SELECT MAX(dbid) FROM gp_segment_configuration'']"
  "SetMaxContentID M p w = (r, w') \<Longrightarrow> commands w' = commands w @ [psqlCall ''SELECT MAX(content) FROM gp_segment_configuration'']"
  unfolding SetMaxDbID_def SetMaxContentID_def by (auto split: prod.splits sum.splits dest: commands_ExecPsql)

lemma commands_GpexpandParams_Run:
  assumes "GpexpandParams_Run M p w = (r, w')"
  shows "\<exists>k\<le>2. commands w' = commands w @ take k (tl expandCommands) \<and> (r = Inr () \<longrightarrow> k = 2)"
proof (cases "NewSegmentCount p \<le> 0")
  case True
  then show ?thesis using assms by (auto simp: GpexpandParams_Run_def)
next
  case False
  obtain a w1 where a: "SetMaxDbID M p w = (a, w1)" by fastforce
  note c1 = commands_SetMax(1) [OF a]
  show ?thesis
  proof (cases a)
    case (Inl e)
    then show ?thesis using assms a False c1
      by (intro exI [of _ 1]) (auto simp: GpexpandParams_Run_def expandCommands_def)
  next
    case (Inr p1)
    obtain b w2 where b: "SetMaxContentID M p1 w1 = (b, w2)" by fastforce
    note c2 = commands_SetMax(2) [OF b]
    have "commands w' = commands w2 \<and> (r = Inr () \<longrightarrow> (\<exists>p2. b = Inr p2))"
      using assms a b Inr False
      by (auto simp: GpexpandParams_Run_def SetNamespace_def GpexpandParams_GenerateConfig_def
          split: sum.splits if_splits dest: commands_WriteFile)
    with c1 c2 show ?thesis by (intro exI [of _ 2]) (auto simp: expandCommands_def)
  qed
qed

lemma commands_RunGpexpandConfig_Run:
  assumes "multihost foreach" "RunGpexpandConfig_Run foreach M r w = (res, w')"
  defines "ready \<equiv> \<forall>h\<in>set (GenerateHostList (rge_NewSegmentCount r) (rge_IsMirrored r) (rge_Standby r) '''').
    rge_DNSResolver r h = None \<and> rge_KnownHostsWaiter r h = None \<and> rge_SSHExecutor r h = None"
  shows "if ready then commands w' = commands w @ [(cmd_Path gpexpandCommand, cmd_Args gpexpandCommand)]
    else w' = w \<and> res \<noteq> Inr ()"
  using assms(2) unfolding ready_def
  by (auto simp: RunGpexpandConfig_Run_def Let_def multihost.no_errors_iff [OF assms(1)]
      split: if_splits dest!: commands_RunCmd)

text \<open>The last part of the program, after the master answered its three questions.\<close>

lemma commands_expand:
  assumes "multihost foreach" "RunGpexpandConfig_Run foreach M r w2 = (x, w3)"
    and c2: "commands w2 = commands w @ take 3 expandCommands"
  defines "ready \<equiv> \<forall>h\<in>set (GenerateHostList (rge_NewSegmentCount r) (rge_IsMirrored r) (rge_Standby r) '''').
    rge_DNSResolver r h = None \<and> rge_KnownHostsWaiter r h = None \<and> rge_SSHExecutor r h = None"
  shows "if ready then commands w3 = commands w @ take 4 expandCommands
    else commands w3 = commands w @ take 3 expandCommands \<and> x \<noteq> Inr ()"
  using commands_RunGpexpandConfig_Run [OF assms(1,2)] c2 unfolding ready_def
  by (simp add: expandCommands_def split: if_splits)

text \<open>The configuration and the expansion, after the old segment count was asked for.\<close>

lemma commands_configured_expand:
  assumes "multihost foreach" "GpexpandParams_Run M p w1 = (g, w2)" "commands w1 = commands w @ take 1 expandCommands"
    and "(status, w') = (case g of Inl e \<Rightarrow> (1, w2)
      | Inr u \<Rightarrow> (case RunGpexpandConfig_Run foreach M r w2 of (Inl e, w3) \<Rightarrow> (1, w3) | (Inr u, w3) \<Rightarrow> (0 :: int, w3)))"
  shows "\<exists>k\<le>4. commands w' = commands w @ take k expandCommands \<and> status \<in> {0, 1} \<and> (status = 0 \<longrightarrow> k = 4) \<and>
    (k = 4 \<longrightarrow> (\<forall>h\<in>set (GenerateHostList (rge_NewSegmentCount r) (rge_IsMirrored r) (rge_Standby r) '''').
        rge_DNSResolver r h = None \<and> rge_KnownHostsWaiter r h = None \<and> rge_SSHExecutor r h = None))"
    (is "\<exists>k\<le>4. ?log k \<and> _ \<and> _ \<and> (k = 4 \<longrightarrow> ?all)")
proof -
  obtain j where j: "j \<le> 2" "commands w2 = commands w1 @ take j (tl expandCommands)" "g = Inr () \<longrightarrow> j = 2"
    using commands_GpexpandParams_Run [OF assms(2)] by blast
  have c2: "commands w2 = commands w @ take (Suc j) expandCommands" using assms(3) j(2) by (simp add: expandCommands_def)
  show ?thesis
  proof (cases g)
    case (Inl e)
    then show ?thesis using assms(4) c2 j(1) by (intro exI [of _ "Suc j"]) auto
  next
    case (Inr u)
    obtain x w3 where x: "RunGpexpandConfig_Run foreach M r w2 = (x, w3)" by fastforce
    have w': "w' = w3" "status = (case x of Inl e \<Rightarrow> 1 | Inr u \<Rightarrow> 0)" using assms(4) Inr x by (auto split: sum.splits)
    have "commands w2 = commands w @ take 3 expandCommands" using c2 j(3) Inr by simp
    note run = commands_expand [OF assms(1) x this]
    show ?thesis
    proof (cases ?all)
      case True
      then show ?thesis using run w' by (intro exI [of _ 4]) (auto split: sum.splits)
    next
      case False
      then show ?thesis using run w' by (intro exI [of _ 3]) (auto split: sum.splits)
    qed
  qed
qed



end
