(* ===== verification/Ssh.thy ===== *)
theory Ssh
  imports Hosts Demo_Machine
begin

text \<open>
  Secure shell between the pods (\<open>pkg/net/ssh\<close>): the known hosts file (\<open>knownhosts/reader.go\<close>), the
  scan of host keys (\<open>keyscanner\<close>), the waiter for known hosts, remote commands (\<open>exec.go\<close>,
  \<open>exec_multihost.go\<close>) and the program \<open>cmd/sshKeyScan\<close>. The cryptographic library
  (\<open>golang.org/x/crypto/ssh\<close>) and the network are parameters. The lines the scan writes are shown to be
  what the reader reads back.
\<close>

section \<open>Definitions\<close>

subsection \<open>The library\<close>

text \<open>
  \<open>ParseKnownHosts\<close> reads the next entry: the end of the input, an error, or a marker, the hosts, the
  key and the bytes that remain.
\<close>

datatype 'k known_hosts_entry =
    EntryEOF
  | EntryError go_error
  | Entry string "string list" 'k string

record 'k ssh_lib =
  ParseKnownHosts :: "string \<Rightarrow> 'k known_hosts_entry"
  MarshalAuthorizedKey :: "'k \<Rightarrow> string"
  Marshal :: "'k \<Rightarrow> string"

subsection \<open>Known hosts\<close>

definition knownHostsFilename :: string where
  "knownHostsFilename = ''/home/gpadmin/.ssh/known_hosts''"

text \<open>The loop over the entries may only end because the remaining bytes get fewer; not ending is \<open>None\<close>.\<close>

partial_function (option) knownHostsLoop ::
  "'k ssh_lib \<Rightarrow> string \<Rightarrow> (string \<rightharpoonup> 'k) \<Rightarrow> (string \<rightharpoonup> 'k) result option"
where
  "knownHostsLoop L hostsBytes knownHostMap =
     (case ParseKnownHosts L hostsBytes of
        EntryEOF \<Rightarrow> Some (Inr knownHostMap)
      | EntryError e \<Rightarrow> Some (Inl (Wrap (''could not parse '' @ knownHostsFilename) e))
      | Entry marker hosts pubkey bytesRemaining \<Rightarrow>
          (if marker \<noteq> '''' then Some (Inl (Err ''known_hosts markers are not currently supported''))
           else knownHostsLoop L bytesRemaining (foldl (\<lambda>m host. m(host \<mapsto> pubkey)) knownHostMap hosts)))"

definition GetKnownHosts :: "'k ssh_lib \<Rightarrow> 's machine \<Rightarrow> 's \<Rightarrow> (string \<rightharpoonup> 'k) result option" where
  "GetKnownHosts L M s =
     (case m_ReadFile M knownHostsFilename s of
        Inl err \<Rightarrow>
          (if IsNotExist err then Some (Inr Map.empty)
           else Some (Inl (Wrap (''could not read '' @ knownHostsFilename) err)))
      | Inr hostsBytes \<Rightarrow> knownHostsLoop L hostsBytes Map.empty)"

text \<open>The outcomes of a lookup; \<open>HostNotFound\<close> is an error type of its own.\<close>

datatype 'k key_lookup = KeyFound 'k | HostNotFound string | LookupError go_error

definition GetHostPublicKey :: "(string \<rightharpoonup> 'k) result \<Rightarrow> string \<Rightarrow> 'k key_lookup" where
  "GetHostPublicKey knownHosts hostname =
     (case knownHosts of
        Inl err \<Rightarrow> LookupError err
      | Inr knownHostMap \<Rightarrow>
          (case knownHostMap hostname of None \<Rightarrow> HostNotFound hostname | Some key \<Rightarrow> KeyFound key))"

text \<open>The condition \<open>KnownHostsWaiter.Execute\<close> polls, every second for thirty seconds.\<close>

definition knownHostsCondition :: "(string \<rightharpoonup> 'k) result \<Rightarrow> string \<Rightarrow> bool result" where
  "knownHostsCondition knownHosts host =
     (case GetHostPublicKey knownHosts host of
        KeyFound k \<Rightarrow> Inr True
      | HostNotFound h \<Rightarrow> Inr False
      | LookupError err \<Rightarrow> Inl err)"

text \<open>
  \<open>wait.PollImmediate\<close> (a parameter) evaluates a condition in the states it goes through, until it
  holds, fails, or the time is over. \<open>interval\<close> and \<open>timeout\<close> are in seconds.
\<close>

type_synonym 's poll_fn = "int \<Rightarrow> int \<Rightarrow> ('s \<Rightarrow> bool result \<times> 's) \<Rightarrow> 's \<Rightarrow> unit result \<times> 's"

definition KnownHostsWaiter_Execute ::
  "'s poll_fn \<Rightarrow> ('s \<Rightarrow> (string \<rightharpoonup> 'k) result) \<Rightarrow> string \<Rightarrow> 's \<Rightarrow> unit result \<times> 's"
where
  "KnownHostsWaiter_Execute PollWait getKnownHosts host =
     PollWait 1 30 (\<lambda>s. (knownHostsCondition (getKnownHosts s) host, s))"

subsection \<open>The key scan\<close>

record 'k HostKey =
  hk_Hostname :: string
  hk_Err :: "go_error option"
  hk_PublicKey :: "'k option"

text \<open>
  A dialer tries to connect and shows the host keys it was offered to the callback, in their order. The
  private key is passed on as it was read, absent if it was not.
\<close>

record ('s, 'k, 'p) dialer =
  d_Dial :: "string \<Rightarrow> 'p option \<Rightarrow> 's \<Rightarrow> (go_error option \<times> 'k list) \<times> 's"
  d_ParsePrivateKey :: "string \<Rightarrow> 'p result"

definition GetGpadminPrivateKey :: "('s, 'k, 'p) dialer \<Rightarrow> 's machine \<Rightarrow> 's \<Rightarrow> 'p result" where
  "GetGpadminPrivateKey D M s =
     (case m_ReadFile M ''/home/gpadmin/.ssh/id_rsa'' s of
        Inl err \<Rightarrow> Inl (Wrap ''failed to read host rsa private publicKey file'' err)
      | Inr privateBytes \<Rightarrow>
          (case d_ParsePrivateKey D privateBytes of
             Inl err \<Rightarrow> Inl (Wrap ''failed to get signer from private publicKey bytes'' err)
           | Inr privateKey \<Rightarrow> Inr privateKey))"

text \<open>The channel that keeps only the last of the values written to it until it is closed.\<close>

fun CompressingChan :: "'k option \<Rightarrow> 'k list \<Rightarrow> 'k option" where
  "CompressingChan lastVal [] = lastVal"
| "CompressingChan lastVal (k # ks) = CompressingChan (Some k) ks"

text \<open>One round of the scan: the key is a variable of the surrounding function, kept beside the state.\<close>

definition scanRound ::
  "('s, 'k, 'p) dialer \<Rightarrow> 's machine \<Rightarrow> string \<Rightarrow> 'k option \<times> 's \<Rightarrow> bool result \<times> 'k option \<times> 's"
where
  "scanRound D M addr ps =
     (case ps of (publicKey, s) \<Rightarrow>
      (let signer = (case GetGpadminPrivateKey D M s of Inl e \<Rightarrow> None | Inr p \<Rightarrow> Some p)
       in case d_Dial D addr signer s of
            ((Some dialError, keys), s1) \<Rightarrow> (Inr False, publicKey, s1)
          | ((None, keys), s1) \<Rightarrow> (Inr True, CompressingChan None keys, s1)))"

definition SSHKeyScan ::
  "('k option \<times> 's) poll_fn \<Rightarrow> ('s, 'k, 'p) dialer \<Rightarrow> 's machine \<Rightarrow> string \<Rightarrow> int \<Rightarrow> 's \<Rightarrow> 'k HostKey \<times> 's"
where
  "SSHKeyScan PollWait D M host timeout s =
     (let addr = host @ '':22''
      in case PollWait 1 timeout (scanRound D M addr) (None, s) of
           (r, publicKey, s1) \<Rightarrow>
             (\<lparr>hk_Hostname = host,
               hk_Err = (case r of Inl err \<Rightarrow> Some (Err (''timed out waiting for keyscan on '' @ addr)) | Inr u \<Rightarrow> None),
               hk_PublicKey = publicKey\<rparr>, s1))"

text \<open>
  \<open>ScanHostKeys\<close> receives one result per host in the order \<open>arrivals\<close> in which the scans finish. A
  result without an error and without a key makes \<open>MarshalAuthorizedKey\<close> panic, which is \<open>None\<close>.
\<close>

definition keyMismatch :: go_error where
  "keyMismatch = Err ''scanned key does not match known key''"

fun collectHostKeys ::
  "'k ssh_lib \<Rightarrow> (string \<rightharpoonup> 'k) \<Rightarrow> 'k HostKey list \<Rightarrow> string \<Rightarrow> go_error option \<Rightarrow> (string \<times> go_error option) option"
where
  "collectHostKeys L knownHosts [] hostKeys err = Some (hostKeys, err)"
| "collectHostKeys L knownHosts (hostKey # rest) hostKeys err =
     (case hk_Err hostKey of
        Some e \<Rightarrow> collectHostKeys L knownHosts rest hostKeys (Some e)
      | None \<Rightarrow>
          (case hk_PublicKey hostKey of
             None \<Rightarrow> None
           | Some key \<Rightarrow>
               (case knownHosts (hk_Hostname hostKey) of
                  None \<Rightarrow>
                    collectHostKeys L knownHosts rest
                      (hostKeys @ hk_Hostname hostKey @ '' '' @ MarshalAuthorizedKey L key) err
                | Some knownKey \<Rightarrow>
                    (if Marshal L key \<noteq> Marshal L knownKey
                     then collectHostKeys L knownHosts rest hostKeys (Some keyMismatch)
                     else collectHostKeys L knownHosts rest hostKeys err))))"

definition ScanHostKeys ::
  "'k ssh_lib \<Rightarrow> (string \<Rightarrow> 'k HostKey) \<Rightarrow> ('k HostKey list \<Rightarrow> 'k HostKey list) \<Rightarrow> (string \<rightharpoonup> 'k) result \<Rightarrow>
   string list \<Rightarrow> string result option"
where
  "ScanHostKeys L keyScan arrive knownHosts hostnameList =
     (case knownHosts of
        Inl err \<Rightarrow> Some (Inl err)
      | Inr known \<Rightarrow>
          (case collectHostKeys L known (arrive (map keyScan hostnameList)) '''' None of
             None \<Rightarrow> None
           | Some (hostKeys, Some err) \<Rightarrow> Some (Inl err)
           | Some (hostKeys, None) \<Rightarrow> Some (Inr hostKeys)))"

subsection \<open>Remote commands\<close>

text \<open>A connection is dialled for one host key only (\<open>ssh.FixedHostKey\<close>); it and its sessions are handles.\<close>

record ('s, 'k, 'p) remote =
  r_Dial :: "string \<Rightarrow> 'k \<Rightarrow> 'p \<Rightarrow> 's \<Rightarrow> nat result \<times> 's"
  r_NewSession :: "nat \<Rightarrow> 's \<Rightarrow> nat result \<times> 's"
  r_CombinedOutput :: "nat \<Rightarrow> string \<Rightarrow> 's \<Rightarrow> (string \<times> go_error option) \<times> 's"
  r_Close :: "nat \<Rightarrow> 's \<Rightarrow> 's"

definition RunSSHCommand ::
  "('s, 'k, 'p) remote \<Rightarrow> (string \<rightharpoonup> 'k) result \<Rightarrow> string \<Rightarrow> string \<Rightarrow> 'p \<Rightarrow> 's \<Rightarrow> (string \<times> go_error option) \<times> 's"
where
  "RunSSHCommand R knownHosts hostname command clientPrivateKey s =
     (case GetHostPublicKey knownHosts hostname of
        LookupError err \<Rightarrow> (('''', Some (Wrap (''failed to get host key for '' @ hostname) err)), s)
      | HostNotFound h \<Rightarrow>
          (('''', Some (Wrap (''failed to get host key for '' @ hostname)
             (Err (''host '' @ h @ '' was not found in the known_hosts file'')))), s)
      | KeyFound hostPublicKey \<Rightarrow>
          (case r_Dial R (hostname @ '':22'') hostPublicKey clientPrivateKey s of
             (Inl err, s1) \<Rightarrow> (('''', Some err), s1)
           | (Inr c, s1) \<Rightarrow>
               (case r_NewSession R c s1 of
                  (Inl err, s2) \<Rightarrow> (('''', Some (Wrap ''could not create ssh session'' err)), r_Close R c s2)
                | (Inr session, s2) \<Rightarrow>
                    (case r_CombinedOutput R session command s2 of (out, s3) \<Rightarrow> (out, r_Close R c s3)))))"

definition MultiHostExec_Execute ::
  "('s, 'k, 'p) remote \<Rightarrow> ('s, 'k, 'p) dialer \<Rightarrow> 's machine \<Rightarrow> (string \<rightharpoonup> 'k) result \<Rightarrow> string \<Rightarrow> string \<Rightarrow>
   's \<Rightarrow> go_error option \<times> 's"
where
  "MultiHostExec_Execute R D M knownHosts command host s =
     (case m_ReadFile M ''/home/gpadmin/.ssh/id_rsa'' s of
        Inl err \<Rightarrow> (Some err, s)
      | Inr keyBytes \<Rightarrow>
          (case d_ParsePrivateKey D keyBytes of
             Inl err \<Rightarrow> (Some (Wrap ''failed to parse private key'' err), s)
           | Inr clientPrivateKey \<Rightarrow>
               (case RunSSHCommand R knownHosts host command clientPrivateKey s of
                  ((output, err), s1) \<Rightarrow> (err, s1))))"

subsection \<open>The program sshKeyScan\<close>

definition scanSegmentHostKeys ::
  "'k ssh_lib \<Rightarrow> (string \<Rightarrow> 'k HostKey) \<Rightarrow> ('k HostKey list \<Rightarrow> 'k HostKey list) \<Rightarrow> 's machine \<Rightarrow>
   's world \<Rightarrow> (unit result \<times> 's world) option"
where
  "scanSegmentHostKeys L keyScan arrive M w =
     (case OutputCmd M (Command ''dnsdomainname'' []) w of
        (Inl err, w1) \<Rightarrow>
          Some (Inl (Err (''scanning for segment host keys: dnsdomainname failed to determine this host'' @
            [CHR 0x27] @ ''s dns name'')), w1)
      | (Inr dnsSuffixBytes, w1) \<Rightarrow>
          (let dnsSuffix = ''.'' @ TrimSuffix dnsSuffixBytes [CHR 0x0A]
           in case GetConfigValues M (server w1) of
                Inl err \<Rightarrow> Some (Inl err, w1)
              | Inr config \<Rightarrow>
                  (let hostList = GenerateHostList (cv_SegmentCount config) (cv_Mirrors config) (cv_Standby config) dnsSuffix
                   in case GetKnownHosts L M (server w1) of
                        None \<Rightarrow> None
                      | Some known \<Rightarrow>
                          (case ScanHostKeys L keyScan arrive known hostList of
                             None \<Rightarrow> None
                           | Some (Inl err) \<Rightarrow> Some (Inl err, w1)
                           | Some (Inr knownHosts) \<Rightarrow>
                               (case FileWriter_Append M knownHostsFilename knownHosts w1 of
                                  (Inl err, w2) \<Rightarrow>
                                    Some (Inl (Wrap (''failed to append known hosts to file: '' @ knownHostsFilename) err), w2)
                                | (Inr u, w2) \<Rightarrow> Some (Inr (), w2))))))"

definition KeyScanApp_Run ::
  "'k ssh_lib \<Rightarrow> (string \<Rightarrow> 'k HostKey) \<Rightarrow> ('k HostKey list \<Rightarrow> 'k HostKey list) \<Rightarrow> 's machine \<Rightarrow>
   's world \<Rightarrow> (int \<times> 's world) option"
where
  "KeyScanApp_Run L keyScan arrive M w =
     (case scanSegmentHostKeys L keyScan arrive M w of
        None \<Rightarrow> None
      | Some (Inl err, w1) \<Rightarrow> Some (1, w1)
      | Some (Inr u, w1) \<Rightarrow> Some (0, w1))"

section \<open>Lemmas\<close>

text \<open>Reading an entry consumes bytes; then the loop over the entries ends.\<close>

definition parse_consumes :: "'k ssh_lib \<Rightarrow> bool" where
  "parse_consumes L \<longleftrightarrow> (\<forall>b m hs k rest. ParseKnownHosts L b = Entry m hs k rest \<longrightarrow> length rest < length b)"

lemma knownHostsLoop_returns:
  assumes "parse_consumes L"
  shows "\<exists>r. knownHostsLoop L b m = Some r"
proof (induction "length b" arbitrary: b m rule: less_induct)
  case less
  show ?case
  proof (cases "ParseKnownHosts L b")
    case (Entry mk hs k rest)
    with assms have "length rest < length b" by (auto simp: parse_consumes_def)
    with less [of rest] Entry show ?thesis by (subst knownHostsLoop.simps) simp
  qed (subst knownHostsLoop.simps, simp)+
qed

text \<open>
  What the library promises about the lines it writes itself: a host name without special characters,
  a space and a marshalled key are read back as one entry, and nothing is left of an empty file.
\<close>

definition plain_host :: "string \<Rightarrow> bool" where
  "plain_host h \<longleftrightarrow> h \<noteq> [] \<and> list_all (\<lambda>c. is_digit c \<or> (97 \<le> code c \<and> code c \<le> 122) \<or> c = CHR ''-'' \<or> c = CHR ''.'') h"

definition hostLine :: "'k ssh_lib \<Rightarrow> string \<Rightarrow> 'k \<Rightarrow> string" where
  "hostLine L h k = h @ '' '' @ MarshalAuthorizedKey L k"

definition entry_law :: "'k ssh_lib \<Rightarrow> bool" where
  "entry_law L \<longleftrightarrow> ParseKnownHosts L [] = EntryEOF \<and>
     (\<forall>h k rest. plain_host h \<longrightarrow> ParseKnownHosts L (hostLine L h k @ rest) = Entry '''' [h] k rest)"

definition hostLines :: "'k ssh_lib \<Rightarrow> (string \<times> 'k) list \<Rightarrow> string" where
  "hostLines L kvs = concat (map (\<lambda>(h, k). hostLine L h k) kvs)"

lemma hostLines_append: "hostLines L (xs @ ys) = hostLines L xs @ hostLines L ys"
  by (simp add: hostLines_def)

text \<open>Reading back a file of such lines: the last line of a host counts.\<close>

lemma knownHostsLoop_hostLines:
  assumes "entry_law L" "\<forall>(h, k)\<in>set kvs. plain_host h"
  shows "knownHostsLoop L (hostLines L kvs) m = Some (Inr (m ++ map_of (rev kvs)))"
  using assms(2)
proof (induction kvs arbitrary: m)
  case Nil
  then show ?case using assms(1) by (subst knownHostsLoop.simps) (simp add: hostLines_def entry_law_def)
next
  case (Cons p kvs)
  obtain h k where p: "p = (h, k)" by fastforce
  have "hostLines L (p # kvs) = hostLine L h k @ hostLines L kvs" by (simp add: hostLines_def p)
  moreover have "plain_host h" using Cons.prems by (simp add: p)
  ultimately have "ParseKnownHosts L (hostLines L (p # kvs)) = Entry '''' [h] k (hostLines L kvs)"
    using assms(1) by (simp add: entry_law_def)
  then have "knownHostsLoop L (hostLines L (p # kvs)) m = knownHostsLoop L (hostLines L kvs) (m(h \<mapsto> k))"
    by (subst knownHostsLoop.simps) simp
  moreover have "m ++ map_of (rev (p # kvs)) = m(h \<mapsto> k) ++ map_of (rev kvs)"
    by (auto simp: p map_add_def fun_eq_iff split: option.splits)
  moreover have "knownHostsLoop L (hostLines L kvs) (m(h \<mapsto> k)) = Some (Inr (m(h \<mapsto> k) ++ map_of (rev kvs)))"
    by (rule Cons.IH) (use Cons.prems in simp)
  ultimately show ?case by (simp only:)
qed

text \<open>Entries for hosts that were not known are added to what was known.\<close>

lemma map_of_new_entries:
  assumes "\<forall>h\<in>set hs. map_of (rev kvs) h = None"
  shows "map_of (rev (kvs @ map (\<lambda>h. (h, key h)) hs)) =
    (\<lambda>h. case map_of (rev kvs) h of Some k \<Rightarrow> Some k | None \<Rightarrow> if h \<in> set hs then Some (key h) else None)"
proof -
  have "map_of (rev (map (\<lambda>h. (h, key h)) hs)) = (Some \<circ> key) |` set hs"
    by (simp add: rev_map map_of_map_restrict)
  then show ?thesis using assms by (auto simp: fun_eq_iff map_add_def restrict_map_def split: option.split)
qed

subsection \<open>The collection of the keys\<close>

definition scan_ok :: "'k ssh_lib \<Rightarrow> (string \<rightharpoonup> 'k) \<Rightarrow> 'k HostKey \<Rightarrow> bool" where
  "scan_ok L known hk \<longleftrightarrow> hk_Err hk = None \<and>
     (\<forall>k. known (hk_Hostname hk) = Some k \<longrightarrow> Marshal L (the (hk_PublicKey hk)) = Marshal L k)"

definition newEntries :: "(string \<rightharpoonup> 'k) \<Rightarrow> 'k HostKey list \<Rightarrow> (string \<times> 'k) list" where
  "newEntries known arr = map (\<lambda>hk. (hk_Hostname hk, the (hk_PublicKey hk))) (filter (\<lambda>hk. known (hk_Hostname hk) = None) arr)"

lemma collectHostKeys_outcome:
  assumes "\<forall>hk\<in>set arr. hk_Err hk = None \<longrightarrow> hk_PublicKey hk \<noteq> None"
  shows "\<exists>buf' err'. collectHostKeys L known arr buf err = Some (buf', err') \<and>
    (err' = None \<longleftrightarrow> err = None \<and> (\<forall>hk\<in>set arr. scan_ok L known hk)) \<and>
    (err' = None \<longrightarrow> buf' = buf @ hostLines L (newEntries known arr))"
  using assms
proof (induction arr arbitrary: buf err)
  case (Cons hk arr)
  have IH: "\<exists>buf' err'. collectHostKeys L known arr b e = Some (buf', err') \<and>
      (err' = None \<longleftrightarrow> e = None \<and> (\<forall>hk\<in>set arr. scan_ok L known hk)) \<and>
      (err' = None \<longrightarrow> buf' = b @ hostLines L (newEntries known arr))" for b e
    using Cons.IH Cons.prems by simp
  show ?case
  proof (cases "hk_Err hk")
    case (Some e)
    then show ?thesis using IH [of buf "Some e"] by (auto simp: scan_ok_def)
  next
    case None
    then obtain k where k: "hk_PublicKey hk = Some k" using Cons.prems by auto
    show ?thesis
    proof (cases "known (hk_Hostname hk)")
      case kn: None
      have "hostLines L (newEntries known (hk # arr)) = hk_Hostname hk @ '' '' @ MarshalAuthorizedKey L k @ hostLines L (newEntries known arr)"
        by (simp add: newEntries_def kn k hostLines_def hostLine_def)
      then show ?thesis using IH [of "buf @ hk_Hostname hk @ '' '' @ MarshalAuthorizedKey L k" err] None k kn
        by (auto simp: scan_ok_def)
    next
      case (Some kk)
      then show ?thesis
        using IH [of buf err] IH [of buf "Some keyMismatch"] None k by (auto simp: scan_ok_def newEntries_def)
    qed
  qed
qed (simp add: hostLines_def newEntries_def)

text \<open>The scan over all hosts, whatever the order of arrival: it succeeds exactly when every result is
  good, and then has one entry for every host that was not known.\<close>

lemma scan_collects:
  assumes "\<And>xs. mset (arrive xs) = mset xs" "\<And>h. hk_Hostname (keyScan h) = h"
    and "\<And>h. hk_Err (keyScan h) = None \<Longrightarrow> \<exists>k. hk_PublicKey (keyScan h) = Some k"
  shows "\<exists>r. ScanHostKeys L keyScan arrive (Inr known) hosts = Some r \<and>
    ((\<exists>out. r = Inr out) \<longleftrightarrow> (\<forall>h\<in>set hosts. scan_ok L known (keyScan h))) \<and>
    (\<forall>out. r = Inr out \<longrightarrow> (\<exists>hs. mset hs = mset (filter (\<lambda>h. known h = None) hosts) \<and>
       out = hostLines L (map (\<lambda>h. (h, the (hk_PublicKey (keyScan h)))) hs)))"
proof -
  let ?arr = "arrive (map keyScan hosts)"
  let ?new = "filter (\<lambda>hk. known (hk_Hostname hk) = None) ?arr"
  have arr: "set ?arr = keyScan ` set hosts" using mset_eq_setD [OF assms(1) [of "map keyScan hosts"]] by simp
  have keys: "\<forall>hk\<in>set ?arr. hk_Err hk = None \<longrightarrow> hk_PublicKey hk \<noteq> None" using assms(3) by (auto simp: arr)
  obtain buf err where c: "collectHostKeys L known ?arr '''' None = Some (buf, err)"
    "err = None \<longleftrightarrow> (\<forall>hk\<in>set ?arr. scan_ok L known hk)" "err = None \<longrightarrow> buf = hostLines L (newEntries known ?arr)"
    using collectHostKeys_outcome [OF keys, of L known "''''" None] by auto
  have "mset (map hk_Hostname ?new) = image_mset hk_Hostname (filter_mset (\<lambda>hk. known (hk_Hostname hk) = None) (mset (map keyScan hosts)))"
    by (simp add: assms(1))
  also have "\<dots> = mset (filter (\<lambda>h. known h = None) hosts)"
    by (induction hosts) (simp_all add: assms(2))
  finally have hs: "mset (map hk_Hostname ?new) = mset (filter (\<lambda>h. known h = None) hosts)" .
  have "hk = keyScan (hk_Hostname hk)" if "hk \<in> set ?arr" for hk using that assms(2) by (auto simp: arr)
  then have "newEntries known ?arr = map (\<lambda>h. (h, the (hk_PublicKey (keyScan h)))) (map hk_Hostname ?new)"
    unfolding newEntries_def map_map o_def by (intro map_cong) auto
  with c(3) have buf: "err = None \<longrightarrow> buf = hostLines L (map (\<lambda>h. (h, the (hk_PublicKey (keyScan h)))) (map hk_Hostname ?new))"
    by simp
  show ?thesis
  proof (cases err)
    case None
    then have "ScanHostKeys L keyScan arrive (Inr known) hosts = Some (Inr buf)" using c(1) by (simp add: ScanHostKeys_def)
    moreover have "\<forall>h\<in>set hosts. scan_ok L known (keyScan h)" using c(2) None by (simp add: arr)
    ultimately show ?thesis using buf None hs by blast
  next
    case (Some e)
    then have "ScanHostKeys L keyScan arrive (Inr known) hosts = Some (Inl e)" using c(1) by (simp add: ScanHostKeys_def)
    moreover have "\<not> (\<forall>h\<in>set hosts. scan_ok L known (keyScan h))" using c(2) Some by (simp add: arr)
    ultimately show ?thesis by blast
  qed
qed

text \<open>In whatever order the scans of the hosts finish, the outcome is the same: the scan succeeds
  exactly when every host answered in time and no host shows a key other than the one already known for
  it; then the text it returns has one line for every host that was not known, in the order of their
  arrival, and none for the others.\<close>

theorem ScanHostKeys_outcome:
  assumes "\<And>xs. mset (arrive xs) = mset xs" "\<And>h. hk_Hostname (keyScan h) = h"
    and "\<And>h. hk_Err (keyScan h) = None \<Longrightarrow> \<exists>k. hk_PublicKey (keyScan h) = Some k"
  shows "((\<exists>out. ScanHostKeys L keyScan arrive (Inr known) hosts = Some (Inr out)) \<longleftrightarrow>
      (\<forall>h\<in>set hosts. hk_Err (keyScan h) = None \<and>
         (\<forall>k. known h = Some k \<longrightarrow> Marshal L (the (hk_PublicKey (keyScan h))) = Marshal L k))) \<and>
    (\<forall>out. ScanHostKeys L keyScan arrive (Inr known) hosts = Some (Inr out) \<longrightarrow>
      (\<exists>hs. mset hs = mset (filter (\<lambda>h. known h = None) hosts) \<and>
        out = concat (map (\<lambda>h. h @ '' '' @ MarshalAuthorizedKey L (the (hk_PublicKey (keyScan h)))) hs)))"
proof -
  obtain r where r: "ScanHostKeys L keyScan arrive (Inr known) hosts = Some r"
    "(\<exists>out. r = Inr out) \<longleftrightarrow> (\<forall>h\<in>set hosts. scan_ok L known (keyScan h))"
    "\<forall>out. r = Inr out \<longrightarrow> (\<exists>hs. mset hs = mset (filter (\<lambda>h. known h = None) hosts) \<and>
       out = hostLines L (map (\<lambda>h. (h, the (hk_PublicKey (keyScan h)))) hs))"
    using scan_collects [of arrive keyScan L known hosts, OF assms] by blast
  then show ?thesis by (simp add: scan_ok_def assms(2) hostLines_def hostLine_def o_def)
qed

subsection \<open>A library for the witnesses\<close>

text \<open>Keys are numbers, marshalled to their digits and a newline.\<close>

definition demo_parse :: "string \<Rightarrow> nat known_hosts_entry" where
  "demo_parse b =
     (if b = [] then EntryEOF
      else (let r = tl (dropWhile (\<lambda>c. c \<noteq> CHR '' '') b)
            in Entry '''' [takeWhile (\<lambda>c. c \<noteq> CHR '' '') b] (digits_val (takeWhile (\<lambda>c. c \<noteq> CHR 0x0A) r))
                 (tl (dropWhile (\<lambda>c. c \<noteq> CHR 0x0A) r))))"

definition demo_ssh_lib :: "nat ssh_lib" where
  "demo_ssh_lib = \<lparr>ParseKnownHosts = demo_parse, MarshalAuthorizedKey = (\<lambda>k. nat_digits k @ [CHR 0x0A]), Marshal = nat_digits\<rparr>"

lemma nat_digits_no_newline: "CHR 0x0A \<notin> set (nat_digits k)"
  using is_digit_in_nat_digits [of "CHR 0x0A" k] by (auto simp: is_digit_def code_def)

lemma plain_host_no_space: "plain_host h \<Longrightarrow> CHR '' '' \<notin> set h"
  by (auto simp: plain_host_def list_all_iff is_digit_def code_def)

lemma takeWhile_sep: "x \<notin> set xs \<Longrightarrow> takeWhile (\<lambda>c. c \<noteq> x) (xs @ x # ys) = xs"
  by (induction xs) auto

lemma dropWhile_sep: "x \<notin> set xs \<Longrightarrow> dropWhile (\<lambda>c. c \<noteq> x) (xs @ x # ys) = x # ys"
  by (induction xs) auto

lemma demo_entry_law: "entry_law demo_ssh_lib"
proof -
  have "demo_parse (h @ CHR '' '' # nat_digits k @ CHR 0x0A # rest) = Entry '''' [h] k rest" if "plain_host h" for h k rest
    using plain_host_no_space [OF that] nat_digits_no_newline [of k]
    by (simp add: demo_parse_def Let_def takeWhile_sep dropWhile_sep)
  then show ?thesis by (simp add: entry_law_def demo_ssh_lib_def hostLine_def) (simp add: demo_parse_def)
qed

lemma demo_parse_consumes: "parse_consumes demo_ssh_lib"
proof -
  have "length (tl (dropWhile P b)) < length b" if "b \<noteq> []" for P and b :: string
  proof -
    have "length (tl (dropWhile P b)) \<le> length b - 1" using length_dropWhile_le [of P b] by (simp add: diff_le_mono)
    also have "\<dots> < length b" using that by (cases b) auto
    finally show ?thesis .
  qed
  moreover have "length (tl (dropWhile P b)) \<le> length b" for P and b :: string
    using length_dropWhile_le [of P b] by simp
  ultimately have "length (tl (dropWhile P (tl (dropWhile Q b)))) < length b" if "b \<noteq> []" for P Q and b :: string
    using that by (meson le_less_trans)
  then show ?thesis by (auto simp: parse_consumes_def demo_ssh_lib_def demo_parse_def Let_def split: if_splits)
qed

definition demo_scan :: "string \<Rightarrow> nat HostKey" where
  "demo_scan h = \<lparr>hk_Hostname = h, hk_Err = None, hk_PublicKey = Some 7\<rparr>"

theorem ScanHostKeys_outcome_witness:
  "(\<exists>out. ScanHostKeys demo_ssh_lib demo_scan rev (Inr [''master-0'' \<mapsto> 7]) [''master-0'', ''segment-a-0''] = Some (Inr out)) \<and>
   \<not> (\<exists>out. ScanHostKeys demo_ssh_lib demo_scan rev (Inr [''master-0'' \<mapsto> 8]) [''master-0''] = Some (Inr out))"
proof -
  have laws: "\<And>xs :: nat HostKey list. mset (rev xs) = mset xs" "\<And>h. hk_Hostname (demo_scan h) = h"
    "\<And>h. hk_Err (demo_scan h) = None \<Longrightarrow> \<exists>k. hk_PublicKey (demo_scan h) = Some k"
    by (simp_all add: demo_scan_def)
  have "Marshal demo_ssh_lib (7 :: nat) \<noteq> Marshal demo_ssh_lib 8" by (simp add: demo_ssh_lib_def nat_digits_inj)
  then show ?thesis
    using ScanHostKeys_outcome [of rev demo_scan, OF laws, of demo_ssh_lib "[''master-0'' \<mapsto> 7]" "[''master-0'', ''segment-a-0'']"]
      ScanHostKeys_outcome [of rev demo_scan, OF laws, of demo_ssh_lib "[''master-0'' \<mapsto> 8]" "[''master-0'']"]
    by (simp add: demo_scan_def)
qed

subsection \<open>The scan of one host\<close>

text \<open>
  \<open>PollImmediate\<close> reports success only after its condition held, in the state it ends in; a connection
  is only made after the host has shown a key.
\<close>

definition poll_law :: "'s poll_fn \<Rightarrow> bool" where
  "poll_law PollWait \<longleftrightarrow> (\<forall>i t cond s s'. PollWait i t cond s = (Inr (), s') \<longrightarrow> (\<exists>u. cond u = (Inr True, s')))"

definition dial_law :: "('s, 'k, 'p) dialer \<Rightarrow> bool" where
  "dial_law D \<longleftrightarrow> (\<forall>addr p s keys s'. d_Dial D addr p s = ((None, keys), s') \<longrightarrow> keys \<noteq> [])"

lemma CompressingChan_last: "CompressingChan v ks = (if ks = [] then v else Some (last ks))"
  by (induction v ks rule: CompressingChan.induct) auto

text \<open>A key scan that reports no error carries a key, the last one the host showed on the connection
  that succeeded; so a collected result never lacks the key that is written.\<close>

theorem SSHKeyScan_has_key:
  assumes "poll_law PollWait" "dial_law D" "SSHKeyScan PollWait D M host timeout s = (hk, s')" "hk_Err hk = None"
  shows "hk_Hostname hk = host \<and> (\<exists>signer u keys. d_Dial D (host @ '':22'') signer u = ((None, keys), s') \<and>
    keys \<noteq> [] \<and> hk_PublicKey hk = Some (last keys))"
proof -
  obtain r k where p: "PollWait 1 timeout (scanRound D M (host @ '':22'')) (None, s) = (r, k, s')"
    "hk_Hostname hk = host" "hk_PublicKey hk = k" "r = Inr ()"
    using assms(3,4) by (auto simp: SSHKeyScan_def Let_def split: prod.splits sum.splits)
  then obtain pk u where "scanRound D M (host @ '':22'') (pk, u) = (Inr True, k, s')"
    using assms(1) unfolding poll_law_def by (metis surj_pair)
  then obtain signer keys where "d_Dial D (host @ '':22'') signer u = ((None, keys), s')" "k = CompressingChan None keys"
    by (auto simp: scanRound_def Let_def split: prod.splits option.splits)
  moreover from this(1) assms(2) have "keys \<noteq> []" unfolding dial_law_def by metis
  ultimately show ?thesis using p by (auto simp: CompressingChan_last)
qed

definition demo_poll :: "'s poll_fn" where
  "demo_poll i t cond s = (case cond s of (Inr True, s1) \<Rightarrow> (Inr (), s1) | (r, s1) \<Rightarrow> (Inl (Err ''timed out waiting for the condition''), s1))"

definition demo_dialer :: "(mem, nat, string) dialer" where
  "demo_dialer = \<lparr>d_Dial = (\<lambda>addr p s. ((None, [5, 7]), s)), d_ParsePrivateKey = Inr\<rparr>"

theorem SSHKeyScan_has_key_witness:
  "hk_PublicKey (fst (SSHKeyScan demo_poll demo_dialer (mem_machine (\<lambda>c. run_ok '''') ''master-0'') ''segment-a-0'' 300
     (server (mem_world [])))) = Some 7"
proof -
  let ?r = "SSHKeyScan demo_poll demo_dialer (mem_machine (\<lambda>c. run_ok '''') ''master-0'') ''segment-a-0'' 300 (server (mem_world []))"
  have laws: "poll_law demo_poll" "dial_law demo_dialer"
    by (auto simp: poll_law_def demo_poll_def dial_law_def demo_dialer_def split: prod.splits sum.splits bool.splits)
  have "hk_Err (fst ?r) = None"
    by (simp add: SSHKeyScan_def demo_poll_def scanRound_def demo_dialer_def Let_def)
  from SSHKeyScan_has_key [OF laws surjective_pairing this] show ?thesis
    by (auto simp: demo_dialer_def)
qed

end
