(* ===== verification/Cluster_Init.thy ===== *)
theory Cluster_Init
  imports Gpinit Ssh
begin

text \<open>
  The initialisation daemon of an instance container (\<open>cluster_init_daemon.go\<close>): on the first master it
  waits for all hosts, makes them known to ssh and initialises or starts the cluster; on the others it
  restarts an existing database. The operations of the cluster (\<open>cluster.ClusterInterface\<close>) are those of
  \<open>Gpinit\<close>. A scan of host keys or a read of the known hosts that does not return is \<open>None\<close>.
\<close>

section \<open>Definitions\<close>

text \<open>What the daemon is given: the parameters of its operations on other hosts.\<close>

record ('s, 'k) ClusterInitDaemon =
  cid_lib :: "'k ssh_lib"
  cid_DNSResolver :: "string \<Rightarrow> go_error option"
  cid_KeyScanner :: "string \<Rightarrow> 'k HostKey"
  cid_arrive :: "'k HostKey list \<Rightarrow> 'k HostKey list"
  cid_foreach :: "(string \<Rightarrow> go_error option) \<Rightarrow> string list \<Rightarrow> go_error list"
  cid_machine :: "'s machine"

definition SetupPasswordlessSSH ::
  "('s, 'k) ClusterInitDaemon \<Rightarrow> string list \<Rightarrow> 's world \<Rightarrow> (unit result \<times> 's world) option"
where
  "SetupPasswordlessSSH d hostnameList w =
     (case GetKnownHosts (cid_lib d) (cid_machine d) (server w) of
        None \<Rightarrow> None
      | Some known \<Rightarrow>
          (case ScanHostKeys (cid_lib d) (cid_KeyScanner d) (cid_arrive d) known hostnameList of
             None \<Rightarrow> None
           | Some (Inl err) \<Rightarrow> Some (Inl (Err (''failed to scan segment host keys: '' @ Error err)), w)
           | Some (Inr knownHosts) \<Rightarrow>
               (case FileWriter_Append (cid_machine d) knownHostsFilename knownHosts w of
                  (Inl err, w1) \<Rightarrow> Some (Inl (Err (''failed to write known_hosts file: '' @ Error err)), w1)
                | (Inr u, w1) \<Rightarrow> Some (Inr (), w1))))"

datatype PostgresInitializer =
    masterPostgresInitializer string string
  | segmentPostgresInitializer string string

definition NewPostgresInitializer :: "string \<Rightarrow> PostgresInitializer" where
  "NewPostgresInitializer hostname =
     (if hostname = ''master-0'' then masterPostgresInitializer hostname ''/greenplum/data-1''
      else if hostname = ''master-1'' then segmentPostgresInitializer hostname ''/greenplum/data-1''
      else segmentPostgresInitializer hostname ''/greenplum/data'')"

definition CheckPreinitalizedCluster :: "'s machine \<Rightarrow> string \<Rightarrow> 's \<Rightarrow> bool" where
  "CheckPreinitalizedCluster M dataDir s = (case m_Stat M dataDir s of Inl err \<Rightarrow> False | Inr i \<Rightarrow> True)"

definition pgCtlRestart :: "'s machine \<Rightarrow> string \<Rightarrow> ('s, unit result) io" where
  "pgCtlRestart M dataDir w =
     (let startupLog = dataDir @ ''/pg_log/startup.log''
      in case RunCmd M (GreenplumCommand ''/usr/local/greenplum-db/bin/pg_ctl''
                [''-D'', dataDir, ''-l'', startupLog, ''restart'']) w of
           (Inl err, w1) \<Rightarrow> (Inl (Err ''pg_ctl failed to restart''), w1)
         | (Inr u, w1) \<Rightarrow> (Inr (), w1))"

definition checkAndRunGPStart :: "'s machine \<Rightarrow> bool \<Rightarrow> ('s, unit result) io" where
  "checkAndRunGPStart M hasStandby w = (if hasStandby then (Inr (), w) else GPStart M w)"

text \<open>The end of the master's initialisation: start or initialise, then the steps after it.\<close>

definition startOrInitialize :: "'s machine \<Rightarrow> string \<Rightarrow> bool \<Rightarrow> ('s, unit result) io" where
  "startOrInitialize M dataDir standby w =
     (case (if CheckPreinitalizedCluster M dataDir (server w) then checkAndRunGPStart M standby w else Initialize M w) of
        (Inl err, w1) \<Rightarrow> (Inl err, w1)
      | (Inr u, w1) \<Rightarrow> RunPostInitialization M w1)"

definition master_InitializePostgres ::
  "('s, 'k) ClusterInitDaemon \<Rightarrow> string \<Rightarrow> 's world \<Rightarrow> (unit result \<times> 's world) option"
where
  "master_InitializePostgres d dataDir w =
     (let M = cid_machine d
      in case OutputCmd M (Command ''dnsdomainname'' []) w of
           (Inl err, w1) \<Rightarrow> Some (Inl err, w1)
         | (Inr dnsSuffixBytes, w1) \<Rightarrow>
             (let dnsSuffix = ''.'' @ TrimSuffix dnsSuffixBytes [CHR 0x0A]
              in case GetConfigValues M (server w1) of
                   Inl err \<Rightarrow> Some (Inl err, w1)
                 | Inr config \<Rightarrow>
                     (let hostnameList = GenerateHostList (cv_SegmentCount config) (cv_Mirrors config) (cv_Standby config) dnsSuffix
                      in if cid_foreach d (cid_DNSResolver d) hostnameList \<noteq> []
                         then Some (Inl (Err ''failed to resolve dns entries for all masters and segments''), w1)
                         else case SetupPasswordlessSSH d hostnameList w1 of
                           None \<Rightarrow> None
                         | Some (Inl err, w2) \<Rightarrow> Some (Inl err, w2)
                         | Some (Inr u, w2) \<Rightarrow> Some (startOrInitialize M dataDir (cv_Standby config) w2))))"

definition segment_InitializePostgres :: "'s machine \<Rightarrow> string \<Rightarrow> ('s, unit result) io" where
  "segment_InitializePostgres M dataDir w =
     (if CheckPreinitalizedCluster M dataDir (server w) then pgCtlRestart M dataDir w else (Inr (), w))"

definition InitializePostgres ::
  "('s, 'k) ClusterInitDaemon \<Rightarrow> PostgresInitializer \<Rightarrow> 's world \<Rightarrow> (unit result \<times> 's world) option"
where
  "InitializePostgres d i w =
     (case i of
        masterPostgresInitializer hostname dataDir \<Rightarrow> master_InitializePostgres d dataDir w
      | segmentPostgresInitializer hostname dataDir \<Rightarrow> Some (segment_InitializePostgres (cid_machine d) dataDir w))"

definition InitializeCluster ::
  "('s, 'k) ClusterInitDaemon \<Rightarrow> 's world \<Rightarrow> (unit result \<times> 's world) option"
where
  "InitializeCluster d w =
     (case m_Hostname (cid_machine d) (server w) of
        Inl err \<Rightarrow> Some (Inl err, w)
      | Inr hostname \<Rightarrow> InitializePostgres d (NewPostgresInitializer hostname) w)"

text \<open>\<open>Run\<close> as a daemon: it returns at once; the second component is the goroutine it started, which only
  logs an error.\<close>

definition ClusterInitDaemon_Run ::
  "('s, 'k) ClusterInitDaemon \<Rightarrow> unit result \<times> ('s world \<Rightarrow> 's world option)"
where
  "ClusterInitDaemon_Run d =
     (Inr (), \<lambda>w. case InitializeCluster d w of None \<Rightarrow> None | Some (r, w1) \<Rightarrow> Some w1)"

text \<open>The program \<open>cmd/initializeCluster\<close>: its exit status.\<close>

definition initializeCluster_main :: "'s machine \<Rightarrow> ('s, int) io" where
  "initializeCluster_main M w =
     (case Initialize M w of (Inl err, w1) \<Rightarrow> (1, w1) | (Inr u, w1) \<Rightarrow> (0, w1))"

section \<open>Passwordless ssh\<close>

lemma GetKnownHosts_hostLines:
  assumes "entry_law L" "read_view_law M view" "\<forall>(h, k)\<in>set kvs. plain_host h"
    and "view s knownHostsFilename = Some (hostLines L kvs) \<or> view s knownHostsFilename = None \<and> kvs = []"
  shows "GetKnownHosts L M s = Some (Inr (map_of (rev kvs)))"
  using assms(4)
proof
  assume v: "view s knownHostsFilename = Some (hostLines L kvs)"
  have "m_ReadFile M knownHostsFilename s = Inr (hostLines L kvs)"
    using assms(2) [unfolded read_view_law_def, rule_format, of knownHostsFilename s] v by simp
  then show ?thesis
    by (simp add: GetKnownHosts_def knownHostsLoop_hostLines [OF assms(1,3)])
next
  assume v: "view s knownHostsFilename = None \<and> kvs = []"
  then obtain e where "m_ReadFile M knownHostsFilename s = Inl e" "IsNotExist e"
    using assms(2) [unfolded read_view_law_def, rule_format, of knownHostsFilename s] by auto
  with v show ?thesis by (simp add: GetKnownHosts_def)
qed


lemma mem_append_ok: "fst (FileWriter_Append (mem_machine script host) f t w) = Inr ()"
  by (simp add: FileWriter_Append_def machine_defs perform_def mem_machine_def mem_open_def mem_write_def Let_def
      split: option.split)

definition demo_daemon :: "(Cmd \<Rightarrow> exec_result) \<Rightarrow> string \<Rightarrow> (mem, nat) ClusterInitDaemon" where
  "demo_daemon script host = \<lparr>cid_lib = demo_ssh_lib, cid_DNSResolver = (\<lambda>h. None), cid_KeyScanner = demo_scan,
     cid_arrive = rev, cid_foreach = sequential_foreach, cid_machine = mem_machine script host\<rparr>"

lemma demo_setup_ssh:
  assumes "mem_view (server w) knownHostsFilename = None"
  shows "\<exists>w'. SetupPasswordlessSSH (demo_daemon script host) hosts w = Some (Inr (), w')"
proof -
  have "collectHostKeys demo_ssh_lib Map.empty (rev (map demo_scan hosts)) buf None = Some (buf @ concat (map (\<lambda>h. hostLine demo_ssh_lib h 7) (rev hosts)), None)" for buf
  proof -
    have "collectHostKeys demo_ssh_lib Map.empty (map demo_scan hs) buf None =
        Some (buf @ concat (map (\<lambda>h. hostLine demo_ssh_lib h 7) hs), None)" for hs buf
      by (induction hs arbitrary: buf) (simp_all add: demo_scan_def hostLine_def)
    from this [of "rev hosts"] show ?thesis by (simp add: rev_map)
  qed
  moreover have "m_ReadFile (mem_machine script host) knownHostsFilename (server w) = Inl (PathErr knownHostsFilename ENOENT)"
    using assms by (simp add: mem_machine_def)
  moreover obtain w' where "FileWriter_Append (mem_machine script host) knownHostsFilename
      (concat (map (\<lambda>h. hostLine demo_ssh_lib h 7) (rev hosts))) w = (Inr (), w')"
    using mem_append_ok by (metis prod.collapse)
  ultimately show ?thesis
    by (simp add: SetupPasswordlessSSH_def demo_daemon_def GetKnownHosts_def ScanHostKeys_def)
qed


section \<open>Existing data\<close>

text \<open>The file operations the daemon uses, and the question for the domain name, remove nothing.\<close>

definition no_removal :: "'s machine \<Rightarrow> bool" where
  "no_removal M \<longleftrightarrow>
     (\<forall>p s. CheckPreinitalizedCluster M p s \<longrightarrow>
        CheckPreinitalizedCluster M p (snd (m_Run M (Command ''dnsdomainname'' []) s)) \<and>
        (\<forall>q perm. CheckPreinitalizedCluster M p (snd (m_MkdirAll M q perm s))) \<and>
        (\<forall>q fl perm. CheckPreinitalizedCluster M p (snd (m_OpenFile M q fl perm s))) \<and>
        (\<forall>h t. CheckPreinitalizedCluster M p (snd (m_Write M h t s))) \<and>
        (\<forall>h. CheckPreinitalizedCluster M p (snd (m_Close M h s))))"

lemma no_removal_perform:
  assumes "perform c f w = (r, w')" "CheckPreinitalizedCluster M p (snd (f (server w)))"
  shows "CheckPreinitalizedCluster M p (server w')"
  using assms server_perform [OF assms(1)] by simp

lemma FileWriter_Append_keeps:
  assumes "no_removal M" "FileWriter_Append M f t w = (r, w')" "CheckPreinitalizedCluster M p (server w)"
  shows "CheckPreinitalizedCluster M p (server w') \<and> commands w' = commands w"
proof -
  have ops: "CheckPreinitalizedCluster M p (snd (m_MkdirAll M q perm s))" "CheckPreinitalizedCluster M p (snd (m_OpenFile M q fl perm s))"
    "CheckPreinitalizedCluster M p (snd (m_Write M h t s))" "CheckPreinitalizedCluster M p (snd (m_Close M h s))"
    if "CheckPreinitalizedCluster M p s" for q perm fl h t s
    using that assms(1) unfolding no_removal_def by metis+
  obtain r0 w0 where m: "MkdirAll M (path_Dir f) 457 w = (r0, w0)" by fastforce
  have 0: "CheckPreinitalizedCluster M p (server w0)" "commands w0 = commands w"
    using no_removal_perform [OF m [unfolded MkdirAll_def] ops(1) [OF assms(3)]] commands_MkdirAll [OF m] by auto
  obtain o' w1 where op: "OpenFile M f [O_WRONLY, O_APPEND, O_CREATE] 384 w0 = (o', w1)" by fastforce
  have 1: "CheckPreinitalizedCluster M p (server w1)" "commands w1 = commands w"
    using no_removal_perform [OF op [unfolded OpenFile_def] ops(2) [OF 0(1)]] commands_OpenFile [OF op] 0(2) by auto
  show ?thesis
  proof (cases o')
    case (Inl e)
    then show ?thesis using assms(2) m op 1 by (simp add: FileWriter_Append_def)
  next
    case (Inr h)
    obtain x w2 where wr: "Write M f h t w1 = (x, w2)" by fastforce
    have 2: "CheckPreinitalizedCluster M p (server w2)" "commands w2 = commands w"
      using no_removal_perform [OF wr [unfolded Write_def] ops(3) [OF 1(1)]] commands_Write [OF wr] 1(2) by auto
    obtain y w3 where cl: "Close M f h w2 = (y, w3)" by fastforce
    have "CheckPreinitalizedCluster M p (server w3)" "commands w3 = commands w"
      using no_removal_perform [OF cl [unfolded Close_def] ops(4) [OF 2(1)]] commands_Close [OF cl] 2(2) by auto
    moreover have "w' = w3" using assms(2) m op Inr wr cl by (auto simp: FileWriter_Append_def split: sum.splits)
    ultimately show ?thesis by simp
  qed
qed

lemma SetupPasswordlessSSH_keeps:
  assumes "no_removal (cid_machine d)" "SetupPasswordlessSSH d hosts w = Some (r, w')"
    and "CheckPreinitalizedCluster (cid_machine d) p (server w)"
  shows "CheckPreinitalizedCluster (cid_machine d) p (server w') \<and> commands w' = commands w"
  using assms(2,3) FileWriter_Append_keeps [OF assms(1)]
  by (auto simp: SetupPasswordlessSSH_def split: option.splits sum.splits prod.splits)

definition greenplumBin :: "string \<Rightarrow> string list \<Rightarrow> string \<times> string list" where
  "greenplumBin name args = (''/usr/local/greenplum-db/bin/'' @ name, args)"

lemma greenplumBin_cmd:
  "(cmd_Path (GreenplumCommand p args), cmd_Args (GreenplumCommand p args)) = (p, args)"
  by (simp add: GreenplumCommand_def Command_def Let_def)

lemma commands_GPStart:
  assumes "GPStart M w = (r, w')"
  shows "\<exists>k. commands w' = commands w @ take k [greenplumBin ''gpstart'' [''-am''], greenplumBin ''gpstop'' [''-ar'']] \<and>
    (r = Inr () \<longrightarrow> k = 2)"
proof -
  obtain a w1 where a: "RunCmd M (GreenplumCommand ''/usr/local/greenplum-db/bin/gpstart'' [''-am'']) w = (a, w1)" by fastforce
  obtain b w2 where b: "RunCmd M (GreenplumCommand ''/usr/local/greenplum-db/bin/gpstop'' [''-ar'']) w1 = (b, w2)" by fastforce
  note c = commands_RunCmd [OF a, unfolded greenplumBin_cmd] commands_RunCmd [OF b, unfolded greenplumBin_cmd]
  show ?thesis
  proof (cases a)
    case (Inl e)
    then show ?thesis using assms a c by (intro exI [of _ 1]) (auto simp: GPStart_def greenplumBin_def)
  next
    case (Inr u)
    then have "w' = w2" using assms a b by (auto simp: GPStart_def split: sum.splits)
    with c show ?thesis by (intro exI [of _ 2]) (simp add: greenplumBin_def)
  qed
qed

definition postCommands :: "bool \<Rightarrow> (string \<times> string list) list" where
  "postCommands pxf =
     [greenplumBin ''psql'' [''-U'', ''gpadmin'', ''-c'', ''select * from gp_segment_configuration''],
      greenplumBin ''gpstop'' [''-u'']] @
     (if pxf then [greenplumBin ''psql'' [''-U'', ''gpadmin'', ''-d'', ''gpadmin'', ''-c'', ''CREATE EXTENSION IF NOT EXISTS pxf'']] else [])"

lemma commands_RunPostInitialization:
  assumes "RunPostInitialization M w = (r, w')"
  shows "\<exists>k pxf. commands w' = commands w @ take k (postCommands pxf)"
proof -
  obtain a w1 where a: "RunCmd M (GreenplumCommand ''/usr/local/greenplum-db/bin/psql''
      [''-U'', ''gpadmin'', ''-c'', ''select * from gp_segment_configuration'']) w = (a, w1)" by fastforce
  obtain b w2 where b: "reloadGpConfig M w1 = (b, w2)" by fastforce
  note c = commands_RunCmd [OF a, unfolded greenplumBin_cmd] commands_RunCmd [OF b [unfolded reloadGpConfig_def], unfolded greenplumBin_cmd]
  consider (first) "w' = w1" | (second) "w' = w2" | (third) x where "createExtension M ''pxf'' w2 = (x, w')"
    using assms a b
    by (auto simp: RunPostInitialization_def createPXFExtension_def split: sum.splits prod.splits if_splits)
  then show ?thesis
  proof cases
    case first
    with c show ?thesis by (intro exI [of _ 1] exI [of _ False]) (simp add: postCommands_def greenplumBin_def)
  next
    case second
    with c show ?thesis by (intro exI [of _ 2] exI [of _ False]) (simp add: postCommands_def greenplumBin_def)
  next
    case third
    note commands_RunCmd [OF third [unfolded createExtension_def], unfolded greenplumBin_cmd]
    with c show ?thesis by (intro exI [of _ 3] exI [of _ True]) (simp add: postCommands_def greenplumBin_def)
  qed
qed

text \<open>What an instance runs when it finds a database: nothing of it creates one.\<close>

definition instanceDataDir :: "string \<Rightarrow> string" where
  "instanceDataDir host = (if host = ''master-0'' \<or> host = ''master-1'' then ''/greenplum/data-1'' else ''/greenplum/data'')"

definition restartCommands :: "string \<Rightarrow> bool \<Rightarrow> nat \<Rightarrow> bool \<Rightarrow> (string \<times> string list) list" where
  "restartCommands host standby j pxf =
     (if host = ''master-0''
      then (''dnsdomainname'', []) #
           (if standby then [] else take j [greenplumBin ''gpstart'' [''-am''], greenplumBin ''gpstop'' [''-ar'']]) @
           (if standby \<or> j = 2 then postCommands pxf else [])
      else [greenplumBin ''pg_ctl'' [''-D'', instanceDataDir host, ''-l'', instanceDataDir host @ ''/pg_log/startup.log'', ''restart'']])"

lemma commands_startOrInitialize:
  assumes "startOrInitialize M dir standby w = (r, w')" "CheckPreinitalizedCluster M dir (server w)"
  shows "\<exists>k j pxf. commands w' = commands w @ take k (tl (restartCommands ''master-0'' standby j pxf))"
proof (cases standby)
  case True
  with assms have "RunPostInitialization M w = (r, w')" by (simp add: startOrInitialize_def checkAndRunGPStart_def)
  from commands_RunPostInitialization [OF this] True show ?thesis by (auto simp: restartCommands_def)
next
  case False
  obtain a w1 where a: "GPStart M w = (a, w1)" by fastforce
  let ?gp = "[greenplumBin ''gpstart'' [''-am''], greenplumBin ''gpstop'' [''-ar'']]"
  obtain j where j: "commands w1 = commands w @ take j ?gp" "a = Inr () \<longrightarrow> j = 2"
    using commands_GPStart [OF a] by blast
  show ?thesis
  proof (cases a)
    case (Inl e)
    then have "w' = w1" using assms a False by (simp add: startOrInitialize_def checkAndRunGPStart_def)
    moreover have "take j ?gp = take (min j 2) (tl (restartCommands ''master-0'' standby (min j 2) True))"
      using False by (simp add: restartCommands_def min_def)
    ultimately show ?thesis using j(1) by (intro exI [of _ "min j 2"] exI [of _ True]) simp
  next
    case (Inr u)
    then have "RunPostInitialization M w1 = (r, w')" using assms a False
      by (simp add: startOrInitialize_def checkAndRunGPStart_def)
    then obtain k pxf where k: "commands w' = commands w1 @ take k (postCommands pxf)"
      using commands_RunPostInitialization by blast
    have "take (2 + k) (tl (restartCommands ''master-0'' standby 2 pxf)) = take 2 ?gp @ take k (postCommands pxf)"
      using False by (simp add: restartCommands_def)
    with k j Inr show ?thesis by (intro exI [of _ "2 + k"] exI [of _ 2] exI [of _ pxf]) simp
  qed
qed

lemma segment_is_restarted:
  assumes "no_removal (cid_machine d)" "m_Hostname (cid_machine d) (server w) = Inr host"
    and "CheckPreinitalizedCluster (cid_machine d) (instanceDataDir host) (server w)"
    and "InitializeCluster d w = Some (r, w')" "host \<noteq> ''master-0''"
  shows "\<exists>k standby j pxf. commands w' = commands w @ take k (restartCommands host standby j pxf)"
proof -
  let ?M = "cid_machine d" and ?dir = "instanceDataDir host"
  have "pgCtlRestart ?M ?dir w = (r, w')"
    using assms by (auto simp: InitializeCluster_def InitializePostgres_def NewPostgresInitializer_def
        segment_InitializePostgres_def instanceDataDir_def split: if_splits)
  then obtain x where "RunCmd ?M (GreenplumCommand ''/usr/local/greenplum-db/bin/pg_ctl''
      [''-D'', ?dir, ''-l'', ?dir @ ''/pg_log/startup.log'', ''restart'']) w = (x, w')"
    by (auto simp: pgCtlRestart_def Let_def split: prod.splits sum.splits)
  from commands_RunCmd [OF this, unfolded greenplumBin_cmd] assms(5) show ?thesis
    by (intro exI [of _ 1]) (simp add: restartCommands_def greenplumBin_def)
qed

lemma master_is_restarted:
  assumes "no_removal (cid_machine d)" "m_Hostname (cid_machine d) (server w) = Inr host"
    and "CheckPreinitalizedCluster (cid_machine d) (instanceDataDir host) (server w)"
    and "InitializeCluster d w = Some (r, w')" "host = ''master-0''"
  shows "\<exists>k standby j pxf. commands w' = commands w @ take k (restartCommands host standby j pxf)"
proof -
  let ?M = "cid_machine d"
  have dir: "instanceDataDir host = ''/greenplum/data-1''" using assms(5) by (simp add: instanceDataDir_def)
  have run: "master_InitializePostgres d ''/greenplum/data-1'' w = Some (r, w')"
    using assms(2,4,5) by (simp add: InitializeCluster_def InitializePostgres_def NewPostgresInitializer_def)
  obtain a w1 where a: "OutputCmd ?M (Command ''dnsdomainname'' []) w = (a, w1)" by fastforce
  have c1: "commands w1 = commands w @ [(''dnsdomainname'', [])]" using commands_OutputCmd [OF a] by (simp add: Command_def)
  have kept: "CheckPreinitalizedCluster ?M ''/greenplum/data-1'' (server w1)"
    using OutputCmd_result [OF a] assms(1,3) unfolding no_removal_def dir by (metis snd_conv)
  consider (early) "w' = w1"
    | (ssh) hosts w2 where "SetupPasswordlessSSH d hosts w1 = Some (r, w2)" "w' = w2"
    | (done') hosts w2 standby where "SetupPasswordlessSSH d hosts w1 = Some (Inr (), w2)" "startOrInitialize ?M ''/greenplum/data-1'' standby w2 = (r, w')"
    using run a
    by (auto simp: master_InitializePostgres_def Let_def split: sum.splits if_splits option.splits prod.splits)
  then show ?thesis
  proof cases
    case early
    with c1 assms(5) show ?thesis by (intro exI [of _ 1]) (simp add: restartCommands_def)
  next
    case ssh
    with SetupPasswordlessSSH_keeps [OF assms(1) ssh(1) kept] c1 assms(5) show ?thesis
      by (intro exI [of _ 1]) (simp add: restartCommands_def)
  next
    case done'
    note kept2 = SetupPasswordlessSSH_keeps [OF assms(1) done'(1) kept]
    then obtain k j pxf where "commands w' = commands w2 @ take k (tl (restartCommands ''master-0'' standby j pxf))"
      using commands_startOrInitialize [OF done'(2)] by blast
    moreover have "restartCommands host standby j pxf = (''dnsdomainname'', []) # tl (restartCommands ''master-0'' standby j pxf)"
      using assms(5) by (simp add: restartCommands_def)
    ultimately show ?thesis using c1 kept2 by (intro exI [of _ "Suc k"] exI [of _ standby] exI [of _ j] exI [of _ pxf]) simp
  qed
qed


lemma mem_no_removal: "no_removal (mem_machine script host)"
proof -
  have info: "(\<exists>i. mem_info p s = Inr i) \<longleftrightarrow> mem_view s p \<noteq> None" for p s
    by (auto simp: mem_info_def split: option.split)
  have chk: "CheckPreinitalizedCluster (mem_machine script host) p s \<longleftrightarrow> mem_view s p \<noteq> None" for p s
    using info [of p s] by (auto simp: CheckPreinitalizedCluster_def mem_machine_def split: sum.split)
  have sel: "m_Run (mem_machine script host) = (\<lambda>c s. (script c, s))" "m_OpenFile (mem_machine script host) = mem_open"
    "m_Write (mem_machine script host) = mem_write" "m_Close (mem_machine script host) = (\<lambda>h s. (Inr (), s))"
    "m_MkdirAll (mem_machine script host) = (\<lambda>p perm s. (Inr (), s))"
    by (simp_all add: mem_machine_def)
  show ?thesis unfolding no_removal_def chk sel
    by (auto simp: mem_open_def mem_write_def Let_def split: option.split)
qed


end
