(* ===== verification/Containers.thy ===== *)
theory Containers
  imports Gpinit
begin

text \<open>
  The start of an instance container (\<open>startContainerUtils\<close>): the steps that need root (cgroups,
  ownership, ssh host keys, the search domain), the steps of gpadmin, the label of the volume claim and
  the program that runs them (\<open>start_container.go\<close>). A \<open>starter.Starter\<close> is a function from world to
  result and world. A panic ends the process and is an error value of its own.
\<close>

section \<open>Definitions\<close>

text \<open>\<open>for _, step := range ... { if err := step(); err != nil { return err } }\<close>\<close>

fun runSteps :: "('s, unit result) io list \<Rightarrow> ('s, unit result) io" where
  "runSteps [] w = (Inr (), w)"
| "runSteps (step # steps) w =
     (case step w of
        (Inl err, w1) \<Rightarrow> (Inl err, w1)
      | (Inr u, w1) \<Rightarrow> runSteps steps w1)"

subsection \<open>Ownership\<close>

text \<open>
  \<open>filepath.Walk\<close> calls its function for the paths under a root, each with the error of visiting it if
  there was one, and stops at the first error the function returns.
\<close>

record 's SysFunctions =
  sf_Chown :: "string \<Rightarrow> int \<Rightarrow> int \<Rightarrow> 's \<Rightarrow> unit result \<times> 's"
  sf_LookupUser :: "string \<Rightarrow> 's \<Rightarrow> (string \<times> string) result"
  sf_Walk :: "string \<Rightarrow> 's \<Rightarrow> (string \<times> go_error option) list"

fun walkChown :: "'s SysFunctions \<Rightarrow> int \<Rightarrow> int \<Rightarrow> (string \<times> go_error option) list \<Rightarrow> ('s, unit result) io" where
  "walkChown U uid gid [] w = (Inr (), w)"
| "walkChown U uid gid ((path, Some err) # rest) w = (Inl err, w)"
| "walkChown U uid gid ((path, None) # rest) w =
     (case perform (FileCall ''chown'' path) (sf_Chown U path uid gid) w of
        (Inl err, w1) \<Rightarrow> (Inl err, w1)
      | (Inr u, w1) \<Rightarrow> walkChown U uid gid rest w1)"

definition ChangeDirectoryOwner :: "'s SysFunctions \<Rightarrow> string \<Rightarrow> string \<Rightarrow> ('s, unit result) io" where
  "ChangeDirectoryOwner U dirName userName w =
     (case sf_LookupUser U userName (server w) of
        Inl err \<Rightarrow> (Inl err, w)
      | Inr (uidStr, gidStr) \<Rightarrow>
          (case Atoi uidStr of
             Inl err \<Rightarrow> (Inl err, w)
           | Inr uid \<Rightarrow>
               (case Atoi gidStr of
                  Inl err \<Rightarrow> (Inl err, w)
                | Inr gid \<Rightarrow> walkChown U uid gid (sf_Walk U dirName (server w)) w)))"

subsection \<open>The root steps\<close>

definition ChownGreenplumDir :: "'s SysFunctions \<Rightarrow> ('s, unit result) io" where
  "ChownGreenplumDir U w =
     (case ChangeDirectoryOwner U ''/greenplum'' ''gpadmin'' w of
        (Inl err, w1) \<Rightarrow> (Inl (Wrap ''changing ownership of /greenplum dir to gpadmin failed'' err), w1)
      | (Inr u, w1) \<Rightarrow> (Inr (), w1))"

definition sshHostRSAKeyPath :: string where
  "sshHostRSAKeyPath = ''/greenplum/hostKeyDir/ssh_host_rsa_key''"

definition copyHostKey :: "'s machine \<Rightarrow> ('s, unit result) io" where
  "copyHostKey M w =
     (case CopyFile M sshHostRSAKeyPath ''/etc/ssh/ssh_host_rsa_key'' w of
        (Inl err, w1) \<Rightarrow> (Inl (Wrap ''failed to copy SSH host key to /etc/ssh/ssh_host_rsa_key'' err), w1)
      | (Inr u, w1) \<Rightarrow> (Inr (), w1))"

definition SetupSSHHostKeys :: "'s machine \<Rightarrow> ('s, unit result) io" where
  "SetupSSHHostKeys M w =
     (case m_Lstat M sshHostRSAKeyPath (server w) of
        Inr info \<Rightarrow> copyHostKey M w
      | Inl e \<Rightarrow>
          (case MkdirAll M ''/greenplum/hostKeyDir'' 493 w of (_, w1) \<Rightarrow>
             (case RunCmd M (Command ''/usr/bin/ssh-keygen'' [''-t'', ''rsa'', ''-f'', sshHostRSAKeyPath, ''-N'', '''']) w1 of
                (Inl err, w2) \<Rightarrow>
                  (Inl (Wrap (''failed to generate SSH host key at '' @ sshHostRSAKeyPath @ '' '') err), w2)
              | (Inr u, w2) \<Rightarrow> copyHostKey M w2)))"

text \<open>
  \<open>bufio.Scanner\<close> on a file: its lines without line ends and without an empty last line. An error while
  reading ends the lines and is not reported by the code.
\<close>

definition dropCR :: "string \<Rightarrow> string" where
  "dropCR l = (if l \<noteq> [] \<and> last l = CHR 0x0D then butlast l else l)"

definition scanLines :: "string \<Rightarrow> string list" where
  "scanLines s = (let ls = Split s (CHR 0x0A) in map dropCR (if last ls = [] then butlast ls else ls))"

definition index_panic :: go_error where
  "index_panic = Err ''runtime error: index out of range''"

definition at_index :: "'a list \<Rightarrow> nat \<Rightarrow> 'a option" where
  "at_index xs i = (if i < length xs then Some (xs ! i) else None)"

definition gpdbSubSystemNames :: "string list" where
  "gpdbSubSystemNames = [''cpu'', ''cpuacct'', ''cpuset'', ''memory'']"

fun procMountMap :: "string list \<Rightarrow> (string \<rightharpoonup> string) \<Rightarrow> (string \<rightharpoonup> string) result" where
  "procMountMap [] m = Inr m"
| "procMountMap (line # rest) m =
     (let procMount = Split line (CHR '' '')
      in case at_index procMount 2 of
           None \<Rightarrow> Inl index_panic
         | Some mountType \<Rightarrow>
             (if mountType \<noteq> ''cgroup'' then procMountMap rest m
              else case at_index procMount 3 of
                None \<Rightarrow> Inl index_panic
              | Some opts \<Rightarrow>
                  procMountMap rest
                    (foldl (\<lambda>m opt. if opt \<in> set gpdbSubSystemNames then m(opt \<mapsto> procMount ! 1) else m) m
                       (Split opts (CHR '','')))))"

text \<open>Open a file, go through its lines, and close it when the function that opened it returns.\<close>

definition scanFile ::
  "'s machine \<Rightarrow> string \<Rightarrow> (string list \<Rightarrow> ('s, 'a result) io) \<Rightarrow> ('s, 'a result) io"
where
  "scanFile M path body w =
     (case OpenFile M path [O_RDONLY] 0 w of
        (Inl err, w1) \<Rightarrow> (Inl err, w1)
      | (Inr h, w1) \<Rightarrow>
          (case ReadAll M path h w1 of (content, w2) \<Rightarrow>
             (case body (case content of Inl e \<Rightarrow> [] | Inr c \<Rightarrow> scanLines c) w2 of
                (r, w3) \<Rightarrow> (r, snd (Close M path h w3)))))"

definition ParseProcCgroupMounts :: "'s machine \<Rightarrow> ('s, (string \<rightharpoonup> string) result) io" where
  "ParseProcCgroupMounts M = scanFile M ''/proc/mounts'' (\<lambda>lines w. (procMountMap lines Map.empty, w))"

fun createCgroupDirs ::
  "'s machine \<Rightarrow> (string \<rightharpoonup> string) \<Rightarrow> string list \<Rightarrow> string list \<Rightarrow> ('s, unit result) io"
where
  "createCgroupDirs M mounts lineContents [] w = (Inr (), w)"
| "createCgroupDirs M mounts lineContents (subSystemName # rest) w =
     (case mounts subSystemName of
        None \<Rightarrow> createCgroupDirs M mounts lineContents rest w
      | Some subsysMount \<Rightarrow>
          (case at_index lineContents 2 of
             None \<Rightarrow> (Inl index_panic, w)
           | Some path \<Rightarrow>
               (let dirPath = subsysMount @ path @ ''/gpdb''
                in case RunCmd M (Command ''install'' [''-d'', ''-o'', ''gpadmin'', ''-g'', ''gpadmin'', dirPath]) w of
                     (Inl err, w1) \<Rightarrow>
                       (Inl (Wrap (''failed to create cgroup dir '' @ dirPath @ '' with gpadmin as owner'') err), w1)
                   | (Inr u, w1) \<Rightarrow>
                       (case RunCmd M (Command ''chown'' [''-R'', ''gpadmin:gpadmin'', dirPath]) w1 of
                          (Inl err, w2) \<Rightarrow>
                            (Inl (Wrap (''failed to change ownership of '' @ dirPath @ '' to gpadmin'') err), w2)
                        | (Inr u, w2) \<Rightarrow> createCgroupDirs M mounts lineContents rest w2))))"

fun cgroupLines :: "'s machine \<Rightarrow> (string \<rightharpoonup> string) \<Rightarrow> string list \<Rightarrow> ('s, unit result) io" where
  "cgroupLines M mounts [] w = (Inr (), w)"
| "cgroupLines M mounts (line # rest) w =
     (let lineContents = Split line (CHR '':'')
      in case at_index lineContents 1 of
           None \<Rightarrow> (Inl index_panic, w)
         | Some names \<Rightarrow>
             (case createCgroupDirs M mounts lineContents (Split names (CHR '','')) w of
                (Inl err, w1) \<Rightarrow> (Inl err, w1)
              | (Inr u, w1) \<Rightarrow> cgroupLines M mounts rest w1))"

definition CreateGpdbCgroup :: "'s machine \<Rightarrow> ('s, unit result) io" where
  "CreateGpdbCgroup M w =
     (case ParseProcCgroupMounts M w of
        (Inl err, w1) \<Rightarrow> (Inl err, w1)
      | (Inr mounts, w1) \<Rightarrow> scanFile M ''/proc/self/cgroup'' (cgroupLines M mounts) w1)"

subsubsection \<open>The search domain\<close>

definition svcDomain :: string where
  "svcDomain = ''.svc.cluster.local''"

fun getNamespaceDomain :: "string list \<Rightarrow> string" where
  "getNamespaceDomain [] = ''''"
| "getNamespaceDomain (domain # rest) =
     (let ns = TrimSuffix domain svcDomain
      in if ns \<noteq> domain \<and> CHR ''.'' \<notin> set ns then domain else getNamespaceDomain rest)"

definition addAgentDomain :: "string list \<Rightarrow> string list" where
  "addAgentDomain domains =
     (let agentDomain = ''agent.'' @ getNamespaceDomain domains
      in agentDomain # filter (\<lambda>domain. domain \<noteq> agentDomain) domains)"

definition addSubDomainLine :: "string \<Rightarrow> string" where
  "addSubDomainLine line =
     (if HasPrefix line ''search''
      then ''search '' @ Join (addAgentDomain (tl (Split line (CHR '' '')))) '' ''
      else line)"

definition addSubDomainText :: "string \<Rightarrow> string" where
  "addSubDomainText fileContents = Join (map addSubDomainLine (Split fileContents (CHR 0x0A))) [CHR 0x0A]"

definition resolvConfFilePath :: string where
  "resolvConfFilePath = ''/etc/resolv.conf''"

definition AddSubDomain :: "'s machine \<Rightarrow> ('s, unit result) io" where
  "AddSubDomain M w =
     (case m_ReadFile M resolvConfFilePath (server w) of
        Inl err \<Rightarrow> (Inl err, w)
      | Inr fileContents \<Rightarrow> WriteFile M resolvConfFilePath (addSubDomainText fileContents) 420 w)"

definition RootContainerStarter_Run :: "'s SysFunctions \<Rightarrow> 's machine \<Rightarrow> ('s, unit result) io" where
  "RootContainerStarter_Run U M =
     runSteps [CreateGpdbCgroup M, ChownGreenplumDir U, SetupSSHHostKeys M, AddSubDomain M]"

subsection \<open>The steps of gpadmin\<close>

definition bashrcPath :: string where
  "bashrcPath = ''/home/gpadmin/.bashrc''"

definition bashrcText :: "string \<Rightarrow> string" where
  "bashrcText pxfServiceName =
     ''source /usr/local/greenplum-db/greenplum_path.sh'' @ newline @
     (if pxfServiceName \<noteq> '''' then ''export PXF_HOST='' @ pxfServiceName @ newline else '''')"

definition WriteContentsToBashrc :: "'s machine \<Rightarrow> ('s, unit result) io" where
  "WriteContentsToBashrc M w =
     (let pxfFilename = ''/etc/config/pxfServiceName''
      in case m_Stat M pxfFilename (server w) of
           Inl e \<Rightarrow> FileWriter_Insert M bashrcPath (bashrcText '''') w
         | Inr i \<Rightarrow>
             (case m_ReadFile M pxfFilename (server w) of
                Inl err \<Rightarrow> (Inl (Err (''failed to read '' @ pxfFilename @ '', was configMap mounted properly?'')), w)
              | Inr b \<Rightarrow> FileWriter_Insert M bashrcPath (bashrcText b) w))"

definition CreateSymLink :: "'s machine \<Rightarrow> ('s, unit result) io" where
  "CreateSymLink M w =
     (case MkdirAll M ''/greenplum/gpAdminLogs'' 493 w of
        (Inl err, w1) \<Rightarrow> (Inl err, w1)
      | (Inr u, w1) \<Rightarrow> Symlink M ''/greenplum/gpAdminLogs'' ''/home/gpadmin/gpAdminLogs'' w1)"

definition CreateMirrorDir :: "'s machine \<Rightarrow> ('s, unit result) io" where
  "CreateMirrorDir M = MkdirAll M ''/greenplum/mirror'' 493"

definition CreatePsqlHistory :: "'s machine \<Rightarrow> ('s, unit result) io" where
  "CreatePsqlHistory M = WriteFile M ''/home/gpadmin/.psql_history'' '''' 384"

definition sshFiles :: "string \<Rightarrow> string \<Rightarrow> (string \<times> string) list" where
  "sshFiles idrsaBytes idrsaPubBytes =
     [(''/home/gpadmin/.ssh/id_rsa'', idrsaBytes),
      (''/home/gpadmin/.ssh/id_rsa.pub'', idrsaPubBytes),
      (''/home/gpadmin/.ssh/authorized_keys'', idrsaPubBytes),
      (''/home/gpadmin/.ssh/known_hosts'', ''''),
      (''/home/gpadmin/.ssh/config'', ''Host *'' @ newline @ ''    ConnectionAttempts 5'')]"

definition SetupSSHForGpadmin :: "'s machine \<Rightarrow> ('s, unit result) io" where
  "SetupSSHForGpadmin M w =
     (case MkdirAll M ''/home/gpadmin/.ssh'' 457 w of
        (Inl err, w1) \<Rightarrow> (Inl err, w1)
      | (Inr u, w1) \<Rightarrow>
          (case m_ReadFile M ''/etc/ssh-key/id_rsa'' (server w1) of
             Inl err \<Rightarrow> (Inl err, w1)
           | Inr idrsaBytes \<Rightarrow>
               (case m_ReadFile M ''/etc/ssh-key/id_rsa.pub'' (server w1) of
                  Inl err \<Rightarrow> (Inl err, w1)
                | Inr idrsaPubBytes \<Rightarrow>
                    runSteps (map (\<lambda>(f, c). WriteFile M f c 384) (sshFiles idrsaBytes idrsaPubBytes)) w1)))"

definition GpadminContainerStarter_Run :: "'s machine \<Rightarrow> ('s, unit result) io" where
  "GpadminContainerStarter_Run M =
     runSteps [WriteContentsToBashrc M, SetupSSHForGpadmin M, CreateSymLink M, CreatePsqlHistory M, CreateMirrorDir M]"

section \<open>The search domain\<close>

lemma getNamespaceDomain_cases:
  "getNamespaceDomain ds = '''' \<or>
   (\<exists>d\<in>set ds. getNamespaceDomain ds = d \<and> TrimSuffix d svcDomain \<noteq> d \<and> CHR ''.'' \<notin> set (TrimSuffix d svcDomain))"
  by (induction ds) (auto simp: Let_def)

text \<open>The agent's domain is never taken for a namespace domain.\<close>

lemma TrimSuffix_prefix: "TrimSuffix (p @ s) t \<noteq> p @ s \<Longrightarrow> HasSuffix s t \<Longrightarrow> TrimSuffix (p @ s) t = p @ TrimSuffix s t"
  by (auto simp: TrimSuffix_def HasSuffix_iff)

lemma agent_not_namespace:
  "TrimSuffix (''agent.'' @ getNamespaceDomain ds) svcDomain = ''agent.'' @ getNamespaceDomain ds \<or>
   CHR ''.'' \<in> set (TrimSuffix (''agent.'' @ getNamespaceDomain ds) svcDomain)"
proof (cases "getNamespaceDomain ds = ''''")
  case True
  then show ?thesis by (simp add: TrimSuffix_def HasSuffix_def svcDomain_def)
next
  case False
  then have "TrimSuffix (getNamespaceDomain ds) svcDomain \<noteq> getNamespaceDomain ds"
    using getNamespaceDomain_cases [of ds] by auto
  then obtain q where "getNamespaceDomain ds = q @ svcDomain" by (auto simp: TrimSuffix_def HasSuffix_iff split: if_splits)
  then have "TrimSuffix (''agent.'' @ getNamespaceDomain ds) svcDomain = ''agent.'' @ q"
    using TrimSuffix_append [of "''agent.'' @ q" svcDomain] by simp
  then show ?thesis by simp
qed

lemma getNamespaceDomain_filter:
  "(a :: string) = TrimSuffix a svcDomain \<or> CHR ''.'' \<in> set (TrimSuffix a svcDomain) \<Longrightarrow>
   getNamespaceDomain (filter (\<lambda>d. d \<noteq> a) ds) = getNamespaceDomain ds"
  by (induction ds) (auto simp: Let_def)

lemma addAgentDomain_idem: "addAgentDomain (addAgentDomain ds) = addAgentDomain ds"
proof -
  let ?a = "''agent.'' @ getNamespaceDomain ds"
  have no: "?a = TrimSuffix ?a svcDomain \<or> CHR ''.'' \<in> set (TrimSuffix ?a svcDomain)"
    using agent_not_namespace [of ds] by auto
  have "getNamespaceDomain (?a # filter (\<lambda>d. d \<noteq> ?a) ds) = getNamespaceDomain (filter (\<lambda>d. d \<noteq> ?a) ds)"
    using no by (simp only: getNamespaceDomain.simps Let_def) auto
  then have "getNamespaceDomain (?a # filter (\<lambda>d. d \<noteq> ?a) ds) = getNamespaceDomain ds"
    using getNamespaceDomain_filter [OF no] by simp
  then show ?thesis unfolding addAgentDomain_def Let_def by simp
qed

lemma Split_parts_no_sep: "t \<in> set (Split s sep) \<Longrightarrow> sep \<notin> set t"
  by (induction s sep arbitrary: t rule: Split.induct) (auto split: list.splits if_splits)

lemma Join_part: "t \<in> set ts \<Longrightarrow> x \<in> set t \<Longrightarrow> x \<in> set (Join ts sep)"
  by (induction ts sep rule: Join.induct) auto

lemma Split_parts_subset: "t \<in> set (Split s sep) \<Longrightarrow> x \<in> set t \<Longrightarrow> x \<in> set s"
  using Join_part [of t "Split s sep" x "[sep]"] by simp

lemma tl_Split_parts: "t \<in> set (tl (Split s sep)) \<Longrightarrow> t \<in> set (Split s sep)"
  by (meson list.set_sel(2) Split_not_Nil)

lemma addAgentDomain_parts:
  assumes "\<forall>d\<in>set ds. sep \<notin> set d" "sep \<notin> set ''agent.''"
  shows "\<forall>d\<in>set (addAgentDomain ds). sep \<notin> set d"
  using assms getNamespaceDomain_cases [of ds] by (auto simp: addAgentDomain_def Let_def)

lemma addAgentDomain_not_Nil [simp]: "addAgentDomain ds \<noteq> []"
  by (simp add: addAgentDomain_def Let_def)

lemma set_Join: "set (Join ts sep) \<subseteq> (\<Union>t\<in>set ts. set t) \<union> set sep"
  by (induction ts sep rule: Join.induct) auto

lemma addSubDomainLine_search:
  assumes "HasPrefix line ''search''"
  shows "Split (addSubDomainLine line) (CHR '' '') = ''search'' # addAgentDomain (tl (Split line (CHR '' '')))"
proof -
  let ?ds = "addAgentDomain (tl (Split line (CHR '' '')))"
  have "\<forall>d\<in>set (tl (Split line (CHR '' ''))). CHR '' '' \<notin> set d"
    by (auto dest!: tl_Split_parts Split_parts_no_sep)
  then have "\<forall>d\<in>set ?ds. CHR '' '' \<notin> set d" by (rule addAgentDomain_parts) simp
  then have "Split (Join ?ds '' '') (CHR '' '') = ?ds" by (intro Split_Join) simp_all
  moreover have "addSubDomainLine line = ''search'' @ CHR '' '' # Join ?ds '' ''" using assms by (simp add: addSubDomainLine_def)
  ultimately show ?thesis by (simp only: Split_append_sep [of "CHR '' ''" "''search''"]) simp
qed

lemma addSubDomainLine_idem: "addSubDomainLine (addSubDomainLine line) = addSubDomainLine line"
proof (cases "HasPrefix line ''search''")
  case True
  have "HasPrefix (addSubDomainLine line) ''search''" using True by (simp add: addSubDomainLine_def HasPrefix_def)
  then have "addSubDomainLine (addSubDomainLine line) =
      ''search '' @ Join (addAgentDomain (tl (Split (addSubDomainLine line) (CHR '' '')))) '' ''"
    by (simp add: addSubDomainLine_def)
  also have "\<dots> = ''search '' @ Join (addAgentDomain (tl (Split line (CHR '' '')))) '' ''"
    unfolding addSubDomainLine_search [OF True] by (simp add: addAgentDomain_idem)
  finally show ?thesis using True by (simp add: addSubDomainLine_def)
qed (simp add: addSubDomainLine_def)

lemma addSubDomainLine_no_newline:
  assumes "CHR 0x0A \<notin> set line"
  shows "CHR 0x0A \<notin> set (addSubDomainLine line)"
proof (cases "HasPrefix line ''search''")
  case True
  let ?ds = "addAgentDomain (tl (Split line (CHR '' '')))"
  have "\<forall>d\<in>set (tl (Split line (CHR '' ''))). CHR 0x0A \<notin> set d"
    using assms by (auto dest!: tl_Split_parts dest: Split_parts_subset)
  then have "\<forall>d\<in>set ?ds. CHR 0x0A \<notin> set d" by (rule addAgentDomain_parts) simp
  then show ?thesis using True set_Join [of ?ds "'' ''"] by (auto simp: addSubDomainLine_def)
qed (simp add: addSubDomainLine_def assms)

lemma addSubDomainText_idem: "addSubDomainText (addSubDomainText c) = addSubDomainText c"
proof -
  have "Split (Join (map addSubDomainLine (Split c (CHR 0x0A))) [CHR 0x0A]) (CHR 0x0A) = map addSubDomainLine (Split c (CHR 0x0A))"
    by (rule Split_Join) (auto dest!: Split_parts_no_sep dest: addSubDomainLine_no_newline)
  then show ?thesis by (simp add: addSubDomainText_def o_def addSubDomainLine_idem)
qed

text \<open>Adding the agent's domain to the resolver configuration is safe to repeat, which every restart
  of a container does: the first run puts the agent domain of the namespace first among the search
  domains, keeps every other domain once and in its order and every other line as it is; a second run
  leaves the file as the first left it.\<close>

theorem AddSubDomain_idempotent:
  assumes "writefile_law M view" "read_view_law M view" "view (server w) resolvConfFilePath = Some c"
    and "AddSubDomain M w = (Inr (), w1)" "AddSubDomain M w1 = (Inr (), w2)"
  shows "view (server w1) = (view (server w))(resolvConfFilePath \<mapsto>
      Join (map (\<lambda>line. if HasPrefix line ''search''
        then Join (''search'' # addAgentDomain (tl (Split line (CHR '' '')))) '' '' else line) (Split c (CHR 0x0A))) newline) \<and>
    view (server w2) = view (server w1)"
proof -
  have rd: "m_ReadFile M resolvConfFilePath s = Inr x" if "view s resolvConfFilePath = Some x" for s x
    using assms(2) [unfolded read_view_law_def, rule_format, of resolvConfFilePath s] that by simp
  have "WriteFile M resolvConfFilePath (addSubDomainText c) 420 w = (Inr (), w1)"
    using assms(4) rd [OF assms(3)] by (simp add: AddSubDomain_def)
  from WriteFile_view [OF assms(1) this]
  have v1: "view (server w1) = (view (server w))(resolvConfFilePath \<mapsto> addSubDomainText c)" .
  then have "WriteFile M resolvConfFilePath (addSubDomainText (addSubDomainText c)) 420 w1 = (Inr (), w2)"
    using assms(5) rd [of "server w1"] by (simp add: AddSubDomain_def)
  from WriteFile_view [OF assms(1) this] v1 have "view (server w2) = view (server w1)"
    by (simp add: addSubDomainText_idem)
  moreover have "addSubDomainLine = (\<lambda>line. if HasPrefix line ''search''
      then Join (''search'' # addAgentDomain (tl (Split line (CHR '' '')))) '' '' else line)"
    by (simp add: fun_eq_iff addSubDomainLine_def Join_Cons)
  ultimately show ?thesis using v1 by (simp add: addSubDomainText_def)
qed

definition demo_resolv :: string where
  "demo_resolv = ''nameserver 10.96.0.10'' @ newline @ ''search ns.svc.cluster.local svc.cluster.local'' @ newline"

theorem AddSubDomain_idempotent_witness:
  "let M = mem_machine (\<lambda>c. run_ok '''') ''master-0''; w = mem_world [(''/etc/resolv.conf'', demo_resolv)];
       w1 = snd (AddSubDomain M w); w2 = snd (AddSubDomain M w1)
   in mem_view (server w2) = mem_view (server w1)"
proof -
  let ?M = "mem_machine (\<lambda>c. run_ok '''') ''master-0''" and ?w = "mem_world [(''/etc/resolv.conf'', demo_resolv)]"
  let ?w1 = "snd (AddSubDomain ?M ?w)"
  have ok: "AddSubDomain ?M u = (Inr (), snd (AddSubDomain ?M u))" if "mem_view (server u) resolvConfFilePath \<noteq> None" for u
    using that by (auto simp: AddSubDomain_def WriteFile_def perform_def mem_machine_def)
  have v: "mem_view (server ?w) resolvConfFilePath = Some demo_resolv"
    by (simp add: mem_view_def mem_world_def resolvConfFilePath_def)
  have v1: "mem_view (server ?w1) resolvConfFilePath \<noteq> None"
    using WriteFile_view [OF mem_writefile_law, of "\<lambda>c. run_ok ''''" "''master-0''"] v
    by (auto simp: AddSubDomain_def WriteFile_def perform_def mem_machine_def)
  have "AddSubDomain ?M ?w = (Inr (), ?w1)" using v by (intro ok) simp
  from AddSubDomain_idempotent [OF mem_writefile_law mem_read_view_law v this ok [OF v1]]
  show ?thesis by (simp only: Let_def)
qed

end
