(* ===== verification/Container_Start.thy ===== *)
theory Container_Start
  imports Containers Demo_Server
begin

text \<open>
  The remaining parts of the container start: the version label of the volume claim
  (\<open>label_pvc_starter.go\<close>, \<open>pkg/hostpod\<close>), the ssh daemon, the daemons that run side by side
  (\<open>pkg/multidaemon\<close>) as a step relation, and the program \<open>startGreenplumContainer\<close>.
\<close>

section \<open>Definitions\<close>

subsection \<open>The pod of this container\<close>

definition GetCurrentNamespace :: "'s machine \<Rightarrow> 's \<Rightarrow> string result" where
  "GetCurrentNamespace M = m_ReadFile M ''/var/run/secrets/kubernetes.io/serviceaccount/namespace''"

definition GetThisPod :: "'s machine \<Rightarrow> ('s, Pod) resource_api \<Rightarrow> string \<Rightarrow> ('s, Pod result) io" where
  "GetThisPod M pods namespace w =
     (case m_Hostname M (server w) of
        Inl err \<Rightarrow> (Inl (Wrap ''getting hostname'' err), w)
      | Inr host \<Rightarrow> Get pods namespace host w)"

subsection \<open>The version of Greenplum\<close>

text \<open>
  The regular expression \<open>versionRe\<close> at one position of the text: the fixed words, then a version, an
  optional part after a dash and an optional part after a plus, then the commit. Each part is as long as
  its character class allows, because none of the characters that may follow it is in the class.
\<close>

definition is_alnum :: "char \<Rightarrow> bool" where
  "is_alnum c = (is_digit c \<or> (65 \<le> code c \<and> code c \<le> 90) \<or> (97 \<le> code c \<and> code c \<le> 122))"

definition ver_char :: "char \<Rightarrow> bool" where
  "ver_char c = (is_alnum c \<or> c = CHR ''_'' \<or> c = CHR ''.'')"

definition ext_char :: "char \<Rightarrow> bool" where
  "ext_char c = (ver_char c \<or> c = CHR ''-'')"

definition hex_char :: "char \<Rightarrow> bool" where
  "hex_char c = (is_digit c \<or> (97 \<le> code c \<and> code c \<le> 102))"

definition optionalPart :: "char \<Rightarrow> string \<Rightarrow> string \<times> string" where
  "optionalPart sep s =
     (case s of
        [] \<Rightarrow> ([], s)
      | c # cs \<Rightarrow>
          (if c = sep \<and> takeWhile ext_char cs \<noteq> [] then (sep # takeWhile ext_char cs, dropWhile ext_char cs)
           else ([], s)))"

definition matchVersionAt :: "string \<Rightarrow> string option" where
  "matchVersionAt s =
     (let pre = ''postgres (Greenplum Database) ''; post = '' build commit:'';
          r = drop (length pre) s; v = takeWhile ver_char r;
          (d, r1) = optionalPart (CHR ''-'') (dropWhile ver_char r);
          (p, r2) = optionalPart (CHR ''+'') r1;
          h = drop (length post) r2
      in if HasPrefix s pre \<and> v \<noteq> [] \<and> HasPrefix r2 post \<and> h \<noteq> [] \<and> hex_char (hd h)
         then Some (v @ d @ p) else None)"

fun findVersion :: "string \<Rightarrow> string option" where
  "findVersion [] = None"
| "findVersion (c # cs) = (case matchVersionAt (c # cs) of Some v \<Rightarrow> Some v | None \<Rightarrow> findVersion cs)"

text \<open>An \<open>*exec.ExitError\<close> prints its exit status or signal.\<close>

definition is_ExitError :: "go_error \<Rightarrow> bool" where
  "is_ExitError e = (HasPrefix (Error e) ''exit status '' \<or> HasPrefix (Error e) ''signal: '')"

text \<open>\<open>components\<close> is \<open>version.NewVersionFromString\<close>: the components of the release as strings.\<close>

definition GetGreenplumMajorVersion ::
  "(string \<Rightarrow> string list result) \<Rightarrow> 's machine \<Rightarrow> ('s, string result) io"
where
  "GetGreenplumMajorVersion components M w =
     (let cmd = GreenplumCommand ''/usr/local/greenplum-db/bin/postgres'' [''--gp-version'']
      in case perform (CommandCall (cmd_Path cmd) (cmd_Args cmd)) (m_Run M cmd) w of
           (x, w1) \<Rightarrow>
             (case ex_err x of
                Some err \<Rightarrow>
                  (if is_ExitError err
                   then (Inl (Err (''trying to get greenplum version: '' @ Error err @ ''; stderr: '' @ TrimSpace (ex_stderr x))), w1)
                   else (Inl (Wrap ''trying to get greenplum version'' err), w1))
              | None \<Rightarrow>
                  (let out = ex_stdout x;
                       parseErr = Err (''couldn'' @ [CHR 0x27] @ ''t parse greenplum version in: '' @ TrimSpace out)
                   in case findVersion out of
                        None \<Rightarrow> (Inl parseErr, w1)
                      | Some gpVer \<Rightarrow>
                          (case components gpVer of
                             Inl err \<Rightarrow> (Inl parseErr, w1)
                           | Inr [] \<Rightarrow> (Inl parseErr, w1)
                           | Inr (gpMaj # rest) \<Rightarrow> (Inr gpMaj, w1)))))"

subsection \<open>The label of the claim\<close>

fun findClaim :: "string option list \<Rightarrow> string \<Rightarrow> string result" where
  "findClaim [] pvcName = Inr pvcName"
| "findClaim (None # volumes) pvcName = findClaim volumes pvcName"
| "findClaim (Some claim # volumes) pvcName =
     (if pvcName \<noteq> '''' then Inl (Err ''found more pvc volumes than expected'') else findClaim volumes claim)"

definition versionLabel :: string where
  "versionLabel = ''greenplum-major-version''"

definition claimLabel :: "PersistentVolumeClaim \<Rightarrow> string option" where
  "claimLabel pvc = map_of (map_make (Labels (pvc_meta pvc))) versionLabel"

definition setClaimLabels :: "PersistentVolumeClaim \<Rightarrow> smap \<Rightarrow> PersistentVolumeClaim" where
  "setClaimLabels pvc labels = pvc\<lparr>pvc_meta := (pvc_meta pvc)\<lparr>Labels := Some labels\<rparr>\<rparr>"

definition checkClaimVersion :: "string \<Rightarrow> PersistentVolumeClaim \<Rightarrow> unit result" where
  "checkClaimVersion gpMaj pvc =
     (let v = (case claimLabel pvc of None \<Rightarrow> '''' | Some v \<Rightarrow> v)
      in if v \<noteq> gpMaj
         then Inl (Err (''GPDB version on PVC does not match pod version. PVC greenplum-major-version='' @ v @
           ''; Pod version: '' @ gpMaj))
         else Inr ())"

definition labelClaim :: "('s, PersistentVolumeClaim) resource_api \<Rightarrow> string \<Rightarrow> PersistentVolumeClaim \<Rightarrow> ('s, unit result) io" where
  "labelClaim pvcs gpMaj pvc w =
     (let pvc1 = setClaimLabels pvc (map_make (Labels (pvc_meta pvc)))
      in case claimLabel pvc1 of
           Some v \<Rightarrow> (checkClaimVersion gpMaj pvc1, w)
         | None \<Rightarrow>
             (case Patch pvcs (setClaimLabels pvc1 (AList.update versionLabel gpMaj (map_make (Labels (pvc_meta pvc1))))) pvc1 w of
                (Inl err, w1) \<Rightarrow> (Inl (Wrap ''patching pvc label'' err), w1)
              | (Inr pvc2, w1) \<Rightarrow> (checkClaimVersion gpMaj pvc2, w1)))"

text \<open>\<open>newClient\<close> is the error of creating the client, if any.\<close>

record 's LabelPvcStarter =
  lps_newClient :: "go_error option"
  lps_pods :: "('s, Pod) resource_api"
  lps_pvcs :: "('s, PersistentVolumeClaim) resource_api"
  lps_components :: "string \<Rightarrow> string list result"

definition LabelPvcStarter_Run :: "'s LabelPvcStarter \<Rightarrow> 's machine \<Rightarrow> ('s, unit result) io" where
  "LabelPvcStarter_Run S M w =
     (case lps_newClient S of
        Some err \<Rightarrow> (Inl (Wrap ''unable to create client'' err), w)
      | None \<Rightarrow>
          (case GetCurrentNamespace M (server w) of
             Inl err \<Rightarrow> (Inl err, w)
           | Inr namespace \<Rightarrow>
               (case GetThisPod M (lps_pods S) namespace w of
                  (Inl err, w1) \<Rightarrow> (Inl err, w1)
                | (Inr thisPod, w1) \<Rightarrow>
                    (case findClaim (pod_ClaimVolumes thisPod) '''' of
                       Inl err \<Rightarrow> (Inl err, w1)
                     | Inr pvcName \<Rightarrow>
                         (case GetGreenplumMajorVersion (lps_components S) M w1 of
                            (Inl err, w2) \<Rightarrow> (Inl err, w2)
                          | (Inr gpMaj, w2) \<Rightarrow>
                              (case Get (lps_pvcs S) namespace pvcName w2 of
                                 (Inl err, w3) \<Rightarrow> (Inl err, w3)
                               | (Inr pvc, w3) \<Rightarrow> labelClaim (lps_pvcs S) gpMaj pvc w3))))))"

subsection \<open>The ssh daemon\<close>

text \<open>What the \<open>select\<close> sees first: the cancelled context, or the end of sshd with its error.\<close>

datatype sshd_event = CtxDone | SshdExited "go_error option"

definition SSHDaemon_Run ::
  "('s \<Rightarrow> int result \<times> 's) \<Rightarrow> 's machine \<Rightarrow> sshd_event \<Rightarrow> ('s, unit result) io"
where
  "SSHDaemon_Run start M event w =
     (case perform (CommandCall ''/usr/bin/sudo'' [''/usr/sbin/sshd'', ''-D'']) start w of
        (Inl err, w1) \<Rightarrow> (Inl err, w1)
      | (Inr pid, w1) \<Rightarrow>
          (case event of
             CtxDone \<Rightarrow>
               (case RunCmd M (Command ''/usr/bin/sudo'' [''/bin/kill'', ''-SIGKILL'', Itoa pid]) w1 of
                  (r, w2) \<Rightarrow> (Inr (), w2))
           | SshdExited sshError \<Rightarrow>
               (Inl (case sshError of
                       None \<Rightarrow> Err ''sshd is not running: %!w(<nil>)''
                     | Some e \<Rightarrow> Wrap ''sshd is not running'' e), w1)))"

subsection \<open>Daemons side by side\<close>

text \<open>
  A daemon is the relation of what it may return: \<open>d c e\<close> says that it may return \<open>e\<close> (\<open>None\<close> for no
  error) when its context is cancelled (\<open>c\<close>) or not. Each runs in a goroutine that, after the return,
  cancels the context if there was an error and then sends the result to the collecting loop. Another
  goroutine cancels the context when the signal arrives.
\<close>

type_synonym daemon = "bool \<Rightarrow> go_error option \<Rightarrow> bool"

datatype daemon_state = Running | Returned "go_error option" | Sending "go_error option" | Reported "go_error option"

record md_state =
  md_signalled :: bool
  md_cancelled :: bool
  md_daemons :: "daemon_state list"
  md_errs :: "go_error list"

definition md_start :: "daemon list \<Rightarrow> md_state" where
  "md_start ds = \<lparr>md_signalled = False, md_cancelled = False, md_daemons = map (\<lambda>d. Running) ds, md_errs = []\<rparr>"

inductive md_step :: "daemon list \<Rightarrow> md_state \<Rightarrow> md_state \<Rightarrow> bool" for ds where
  signal: "\<not> md_signalled st \<Longrightarrow> md_step ds st (st\<lparr>md_signalled := True\<rparr>)"
| propagate: "md_signalled st \<Longrightarrow> \<not> md_cancelled st \<Longrightarrow> md_step ds st (st\<lparr>md_cancelled := True\<rparr>)"
| returns: "i < length ds \<Longrightarrow> md_daemons st ! i = Running \<Longrightarrow> (ds ! i) (md_cancelled st) e \<Longrightarrow>
    md_step ds st (st\<lparr>md_daemons := (md_daemons st)[i := Returned e]\<rparr>)"
| cancels: "i < length ds \<Longrightarrow> md_daemons st ! i = Returned e \<Longrightarrow>
    md_step ds st (st\<lparr>md_cancelled := md_cancelled st \<or> e \<noteq> None, md_daemons := (md_daemons st)[i := Sending e]\<rparr>)"
| reports: "i < length ds \<Longrightarrow> md_daemons st ! i = Sending e \<Longrightarrow>
    md_step ds st (st\<lparr>md_daemons := (md_daemons st)[i := Reported e],
      md_errs := md_errs st @ (case e of None \<Rightarrow> [] | Some err \<Rightarrow> [err])\<rparr>)"

inductive_cases md_stepE: "md_step ds st st'"

definition all_reported :: "md_state \<Rightarrow> bool" where
  "all_reported st \<longleftrightarrow> (\<forall>d\<in>set (md_daemons st). \<exists>e. d = Reported e)"

text \<open>\<open>InitializeDaemons ds errs\<close>: the call can return \<open>errs\<close>.\<close>

definition InitializeDaemons :: "daemon list \<Rightarrow> go_error list \<Rightarrow> bool" where
  "InitializeDaemons ds errs \<longleftrightarrow> (\<exists>st. (md_step ds)\<^sup>*\<^sup>* (md_start ds) st \<and> all_reported st \<and> md_errs st = errs)"

text \<open>\<open>MultidaemonStarter.Run\<close> joins the errors of the daemons by the library's \<open>NewAggregate\<close>.\<close>

definition MultidaemonStarter_Run :: "(go_error list \<Rightarrow> go_error) \<Rightarrow> go_error list \<Rightarrow> unit result" where
  "MultidaemonStarter_Run NewAggregate errs = (if length errs > 0 then Inl (NewAggregate errs) else Inr ())"

subsection \<open>The program\<close>

definition GreenplumContainerStarter_Run ::
  "'s machine \<Rightarrow> int \<Rightarrow> ('s, unit result) io \<Rightarrow> ('s, unit result) io \<Rightarrow> ('s, unit result) io \<Rightarrow> ('s, unit result) io \<Rightarrow>
   string list \<Rightarrow> ('s, int) io"
where
  "GreenplumContainerStarter_Run M UID Root Gpadmin LabelPVC MultidaemonStarter args w =
     (if length args = 2 \<and> args ! 1 = ''--do-root-startup''
      then (if UID \<noteq> 0 then (1, w)
            else case Root w of (Inl err, w1) \<Rightarrow> (1, w1) | (Inr u, w1) \<Rightarrow> (0, w1))
      else if length args \<noteq> 1 then (1, w)
      else case RunCmd M (Command ''/usr/bin/sudo'' [args ! 0, ''--do-root-startup'']) w of
        (Inl err, w1) \<Rightarrow> (0, w1)
      | (Inr u, w1) \<Rightarrow>
          (case runSteps [Gpadmin, LabelPVC, MultidaemonStarter] w1 of
             (Inl err, w2) \<Rightarrow> (1, w2)
           | (Inr u, w2) \<Rightarrow> (0, w2)))"

text \<open>\<open>main\<close> with its starters; what the daemons return is a parameter.\<close>

definition startGreenplumContainer_main ::
  "'s machine \<Rightarrow> 's SysFunctions \<Rightarrow> 's LabelPvcStarter \<Rightarrow> ('s, unit result) io \<Rightarrow> int \<Rightarrow> string list \<Rightarrow> ('s, int) io"
where
  "startGreenplumContainer_main M U S multidaemon uid args =
     GreenplumContainerStarter_Run M uid (RootContainerStarter_Run U M) (GpadminContainerStarter_Run M)
       (LabelPvcStarter_Run S M) multidaemon args"

section \<open>The daemons\<close>

fun reported_errs :: "daemon_state \<Rightarrow> go_error multiset" where
  "reported_errs (Reported (Some e)) = {#e#}"
| "reported_errs (Reported None) = {#}"
| "reported_errs Running = {#}"
| "reported_errs (Returned e) = {#}"
| "reported_errs (Sending e) = {#}"

fun past_cancel :: "daemon_state \<Rightarrow> bool" where
  "past_cancel (Sending e) = (e \<noteq> None)"
| "past_cancel (Reported e) = (e \<noteq> None)"
| "past_cancel Running = False"
| "past_cancel (Returned e) = False"

definition md_inv :: "daemon list \<Rightarrow> md_state \<Rightarrow> bool" where
  "md_inv ds st \<longleftrightarrow> length (md_daemons st) = length ds \<and>
     mset (md_errs st) = sum_list (map reported_errs (md_daemons st)) \<and>
     ((\<exists>d\<in>set (md_daemons st). past_cancel d) \<longrightarrow> md_cancelled st)"

lemma sum_list_update_mset:
  "i < length xs \<Longrightarrow> f (xs ! i) = {#} \<Longrightarrow> sum_list (map f (xs[i := y])) = sum_list (map f xs) + (f y :: 'b multiset)"
proof (induction xs arbitrary: i)
  case (Cons x xs)
  then show ?case by (cases i) (simp_all add: ac_simps)
qed simp

lemma md_inv_step:
  assumes "md_step ds st st'" "md_inv ds st"
  shows "md_inv ds st'"
  using assms
proof cases
  case (reports i e)
  have "reported_errs (md_daemons st ! i) = {#}" using reports by simp
  moreover have "reported_errs (Reported e) = mset (case e of None \<Rightarrow> [] | Some err \<Rightarrow> [err])" by (cases e) simp_all
  moreover have "past_cancel d \<Longrightarrow> md_cancelled st" if "d \<in> set ((md_daemons st)[i := Reported e])" for d
  proof -
    assume p: "past_cancel d"
    have "d = Reported e \<or> d \<in> set (md_daemons st)" using that set_update_subset_insert by fastforce
    moreover have "md_daemons st ! i \<in> set (md_daemons st)"
      using reports assms(2) by (intro nth_mem) (simp add: md_inv_def)
    ultimately show ?thesis using p assms(2) reports by (fastforce simp: md_inv_def)
  qed
  ultimately show ?thesis using assms(2) reports by (auto simp: md_inv_def sum_list_update_mset)
next
  case (returns i e)
  have "d \<in> set (md_daemons st)" if "d \<in> set ((md_daemons st)[i := Returned e])" "past_cancel d" for d
    using that set_update_subset_insert by fastforce
  then show ?thesis using assms(2) returns by (auto simp: md_inv_def sum_list_update_mset)
next
  case (cancels i e)
  have "d \<in> set (md_daemons st) \<or> e \<noteq> None" if "d \<in> set ((md_daemons st)[i := Sending e])" "past_cancel d" for d
    using that set_update_subset_insert by fastforce
  then show ?thesis using assms(2) cancels by (auto simp: md_inv_def sum_list_update_mset)
qed (auto simp: md_inv_def)

lemma md_inv_reachable: "(md_step ds)\<^sup>*\<^sup>* (md_start ds) st \<Longrightarrow> md_inv ds st"
proof (induction rule: rtranclp_induct)
  case base
  have "sum_list (map reported_errs (map (\<lambda>d. Running) ds)) = {#}" by (induction ds) simp_all
  then show ?case by (auto simp: md_inv_def md_start_def)
qed (blast intro: md_inv_step)

text \<open>Every step but the arrival of the signal brings the end closer.\<close>

fun daemon_work :: "daemon_state \<Rightarrow> nat" where
  "daemon_work Running = 3"
| "daemon_work (Returned e) = 2"
| "daemon_work (Sending e) = 1"
| "daemon_work (Reported e) = 0"

definition md_work :: "md_state \<Rightarrow> nat" where
  "md_work st = sum_list (map daemon_work (md_daemons st)) + (if md_signalled st then 0 else 1) + (if md_cancelled st then 0 else 1)"

lemma sum_list_update_less:
  "i < length xs \<Longrightarrow> f y < f (xs ! i) \<Longrightarrow> sum_list (map f (xs[i := y])) < sum_list (map (f :: 'a \<Rightarrow> nat) xs)"
proof (induction xs arbitrary: i)
  case (Cons x xs)
  then show ?case by (cases i) simp_all
qed simp

lemma md_work_decreases:
  assumes "md_step ds st st'" "md_inv ds st"
  shows "md_work st' < md_work st"
  using assms(1)
proof cases
  case (returns i e)
  then show ?thesis using assms(2) sum_list_update_less [of i "md_daemons st" daemon_work "Returned e"]
    by (auto simp: md_work_def md_inv_def)
next
  case (cancels i e)
  then show ?thesis using assms(2) sum_list_update_less [of i "md_daemons st" daemon_work "Sending e"]
    by (auto simp: md_work_def md_inv_def)
next
  case (reports i e)
  then show ?thesis using assms(2) sum_list_update_less [of i "md_daemons st" daemon_work "Reported e"]
    by (auto simp: md_work_def md_inv_def)
qed (auto simp: md_work_def)

lemma md_progress:
  assumes "md_inv ds st" "\<not> all_reported st" "md_cancelled st" "\<forall>d\<in>set ds. \<exists>e. d True e"
  shows "\<exists>st'. md_step ds st st' \<and> md_cancelled st'"
proof -
  obtain i where i: "i < length ds" "\<And>e. md_daemons st ! i \<noteq> Reported e"
    using assms(1,2) by (auto simp: all_reported_def md_inv_def in_set_conv_nth)
  show ?thesis
  proof (cases "md_daemons st ! i")
    case Running
    obtain e where e: "(ds ! i) (md_cancelled st) e" using i(1) assms(3,4) by fastforce
    have "md_cancelled (st\<lparr>md_daemons := (md_daemons st)[i := Returned e]\<rparr>)" using assms(3) by simp
    with md_step.returns [OF i(1) Running, of e, OF e] show ?thesis by blast
  next
    case (Returned e)
    have "md_cancelled (st\<lparr>md_cancelled := md_cancelled st \<or> e \<noteq> None, md_daemons := (md_daemons st)[i := Sending e]\<rparr>)"
      using assms(3) by simp
    with md_step.cancels [OF i(1) Returned] show ?thesis by blast
  next
    case (Sending e)
    have "md_cancelled (st\<lparr>md_daemons := (md_daemons st)[i := Reported e], md_errs := md_errs st @ (case e of None \<Rightarrow> [] | Some err \<Rightarrow> [err])\<rparr>)"
      using assms(3) by simp
    with md_step.reports [OF i(1) Sending] show ?thesis by blast
  next
    case (Reported e)
    with i(2) show ?thesis by blast
  qed
qed

lemma md_completes:
  assumes "\<forall>d\<in>set ds. \<exists>e. d True e"
  shows "md_inv ds st \<Longrightarrow> md_cancelled st \<Longrightarrow> \<exists>st'. (md_step ds)\<^sup>*\<^sup>* st st' \<and> all_reported st'"
proof (induction "md_work st" arbitrary: st rule: less_induct)
  case less
  show ?case
  proof (cases "all_reported st")
    case False
    then obtain st' where s: "md_step ds st st'" "md_cancelled st'"
      using md_progress [OF less.prems(1) _ less.prems(2) assms] by blast
    from less.hyps [OF md_work_decreases [OF s(1) less.prems(1)] md_inv_step [OF s(1) less.prems(1)] s(2)] s(1)
    show ?thesis by (blast intro: converse_rtranclp_into_rtranclp)
  qed blast
qed

text \<open>C30: The daemons of a container end together: a daemon that reported an error has cancelled the
  context of all, and once the context is cancelled (by a signal or by such an error) the collecting loop
  can always go on to its end, provided every daemon returns when it is cancelled; no run goes on for
  ever, and the errors collected at the end are, up to order, exactly those the daemons returned.\<close>

theorem daemons_end_together:
  assumes "\<forall>d\<in>set ds. \<exists>e. d True e" "(md_step ds)\<^sup>*\<^sup>* (md_start ds) st"
  shows "((\<exists>e. Reported (Some e) \<in> set (md_daemons st)) \<longrightarrow> md_cancelled st) \<and>
    (md_cancelled st \<longrightarrow> (\<exists>st'. (md_step ds)\<^sup>*\<^sup>* st st' \<and> all_reported st')) \<and>
    (\<forall>st'. md_step ds st st' \<longrightarrow> md_work st' < md_work st) \<and>
    (all_reported st \<longrightarrow> InitializeDaemons ds (md_errs st) \<and>
       mset (md_errs st) = sum_list (map reported_errs (md_daemons st)) \<and>
       (md_errs st = [] \<longleftrightarrow> (\<forall>d\<in>set (md_daemons st). d = Reported None)))"
proof (intro conjI impI allI)
  note inv = md_inv_reachable [OF assms(2)]
  show "md_cancelled st" if "\<exists>e. Reported (Some e) \<in> set (md_daemons st)" using that inv by (force simp: md_inv_def)
  show "\<exists>st'. (md_step ds)\<^sup>*\<^sup>* st st' \<and> all_reported st'" if "md_cancelled st" using md_completes [OF assms(1) inv that] .
  show "md_work st' < md_work st" if "md_step ds st st'" for st' using md_work_decreases [OF that inv] .
  show "InitializeDaemons ds (md_errs st)" if "all_reported st" using that assms(2) by (auto simp: InitializeDaemons_def)
  show m: "mset (md_errs st) = sum_list (map reported_errs (md_daemons st))" using inv by (simp add: md_inv_def)
  show "md_errs st = [] \<longleftrightarrow> (\<forall>d\<in>set (md_daemons st). d = Reported None)" if rep: "all_reported st"
  proof -
    have "sum_list (map reported_errs xs) = {#} \<longleftrightarrow> (\<forall>d\<in>set xs. d = Reported None)" if "\<forall>d\<in>set xs. \<exists>e. d = Reported e" for xs
      using that
    proof (induction xs)
      case (Cons x xs)
      then obtain e where "x = Reported e" by auto
      with Cons show ?case by (cases e) auto
    qed simp
    from this [of "md_daemons st"] rep m show ?thesis by (metis all_reported_def mset_zero_iff)
  qed
qed

text \<open>sshd ends without an error when it is told to; the others only start something and return.\<close>

definition demo_daemons :: "daemon list" where
  "demo_daemons = [\<lambda>c e. e = None, \<lambda>c e. c \<and> e = None \<or> e = Some (Err ''sshd is not running'')]"

theorem daemons_end_together_witness:
  "\<exists>st'. (md_step demo_daemons)\<^sup>*\<^sup>* ((md_start demo_daemons)\<lparr>md_signalled := True, md_cancelled := True\<rparr>) st' \<and> all_reported st'"
proof -
  let ?s0 = "md_start demo_daemons"
  let ?s1 = "?s0\<lparr>md_signalled := True\<rparr>" and ?s2 = "?s0\<lparr>md_signalled := True, md_cancelled := True\<rparr>"
  have "md_step demo_daemons ?s0 ?s1" by (rule md_step.signal) (simp add: md_start_def)
  moreover have "md_step demo_daemons ?s1 ?s2"
    using md_step.propagate [of ?s1 demo_daemons] by (simp add: md_start_def)
  ultimately have "(md_step demo_daemons)\<^sup>*\<^sup>* ?s0 ?s2" by (meson converse_rtranclp_into_rtranclp r_into_rtranclp)
  moreover have "\<forall>d\<in>set demo_daemons. \<exists>e. d True e" by (auto simp: demo_daemons_def)
  moreover have "md_cancelled ?s2" by simp
  ultimately show ?thesis using daemons_end_together [of demo_daemons ?s2] by blast
qed

section \<open>The version of the data\<close>

text \<open>While nobody else changes the labels, a patch answers with those that were sent.\<close>

definition label_patch_law :: "('s, PersistentVolumeClaim) resource_api \<Rightarrow> bool" where
  "label_patch_law R \<longleftrightarrow> (\<forall>x b s y s'. api_Patch R x b s = (Inr y, s') \<longrightarrow> Labels (pvc_meta y) = Labels (pvc_meta x))"

lemma claimLabel_set [simp]: "claimLabel (setClaimLabels pvc ls) = map_of ls versionLabel"
  by (simp add: claimLabel_def setClaimLabels_def)

lemma labelClaim_outcome:
  assumes "label_patch_law R" "labelClaim R maj pvc w = (r, w')"
  defines "ls \<equiv> map_make (Labels (pvc_meta pvc))"
  defines "x \<equiv> setClaimLabels pvc (AList.update versionLabel maj ls)"
  shows "case claimLabel pvc of
      Some v \<Rightarrow> w' = w \<and> (r = Inr () \<longleftrightarrow> v = maj)
    | None \<Rightarrow> calls w' = calls w @ [PatchCall (api_kind R) (Namespace (api_meta R x)) (Name (api_meta R x))] \<and>
        (r = Inr () \<longleftrightarrow> (\<exists>y. api_Patch R x (setClaimLabels pvc ls) (server w) = (Inr y, server w')))"
proof (cases "claimLabel pvc")
  case (Some v)
  then have "map_of ls versionLabel = Some v" by (simp add: claimLabel_def ls_def)
  then show ?thesis using assms(2) Some
    by (auto simp: labelClaim_def Let_def checkClaimVersion_def ls_def split: if_splits)
next
  case None
  then have no: "map_of ls versionLabel = None" by (simp add: claimLabel_def ls_def)
  have x: "setClaimLabels (setClaimLabels pvc ls) (AList.update versionLabel maj (map_make (Labels (pvc_meta (setClaimLabels pvc ls))))) = x"
    by (simp add: x_def setClaimLabels_def)
  obtain p w1 where p: "Patch R x (setClaimLabels pvc ls) w = (p, w1)" by fastforce
  have w': "w' = w1" and r: "r = (case p of Inl err \<Rightarrow> Inl (Wrap ''patching pvc label'' err) | Inr y \<Rightarrow> checkClaimVersion maj y)"
    using assms(2) no p by (auto simp: labelClaim_def Let_def ls_def [symmetric] x split: sum.splits)
  have srv: "api_Patch R x (setClaimLabels pvc ls) (server w) = (p, server w1)"
    using server_perform [OF p [unfolded Patch_def]] .
  have "checkClaimVersion maj y = Inr ()" if "p = Inr y" for y
  proof -
    have "Labels (pvc_meta y) = Labels (pvc_meta x)" using assms(1) srv that unfolding label_patch_law_def by metis
    then show ?thesis by (simp add: checkClaimVersion_def claimLabel_def x_def setClaimLabels_def)
  qed
  then have "r = Inr () \<longleftrightarrow> (\<exists>y. p = Inr y)" using r by (cases p) auto
  then show ?thesis using None w' srv calls_Patch [OF p] by auto
qed


definition demo_label_machine :: "mem machine" where
  "demo_label_machine = mem_machine (\<lambda>c. run_ok ''postgres (Greenplum Database) 6.8.1+dev build commit:7118'') ''master-0''"

definition fixed_api :: "kind \<Rightarrow> ('a \<Rightarrow> ObjectMeta) \<Rightarrow> 'a \<Rightarrow> ('s, 'a) resource_api" where
  "fixed_api k meta x = \<lparr>api_kind = k, api_meta = meta, api_Get = (\<lambda>ns n s. (Inr x, s)), api_List = (\<lambda>ns l s. (Inr [x], s)),
     api_Create = (\<lambda>y s. (Inr y, s)), api_Patch = (\<lambda>y b s. (Inr y, s)), api_Delete = (\<lambda>y s. (Inr (), s)),
     api_CreateOrUpdate = (\<lambda>y f s. (Inr (OpNone, y), s))\<rparr>"

definition demo_claim :: "string \<Rightarrow> PersistentVolumeClaim" where
  "demo_claim v = emptyPVC\<lparr>pvc_meta := (objectMeta ''data-master-0'' ''ns'')\<lparr>Labels := Some [(versionLabel, v)]\<rparr>\<rparr>"

definition demo_labeller :: "string \<Rightarrow> mem LabelPvcStarter" where
  "demo_labeller v = \<lparr>lps_newClient = None,
     lps_pods = fixed_api KPod pod_meta \<lparr>pod_meta = objectMeta ''master-0'' ''ns'', pod_ClaimVolumes = [None, Some ''data-master-0'']\<rparr>,
     lps_pvcs = fixed_api KPVC pvc_meta (demo_claim v), lps_components = (\<lambda>s. Inr (Split s (CHR ''.'')))\<rparr>"

lemma demo_version: "fst (GetGreenplumMajorVersion (lps_components (demo_labeller v)) demo_label_machine w) = Inr ''6''"
proof -
  have "findVersion ''postgres (Greenplum Database) 6.8.1+dev build commit:7118'' = Some ''6.8.1+dev''" by code_simp
  moreover have "Split ''6.8.1+dev'' (CHR ''.'') = [''6'', ''8'', ''1+dev'']" by code_simp
  ultimately show ?thesis
    by (simp add: GetGreenplumMajorVersion_def demo_label_machine_def mem_machine_def perform_def run_ok_def Let_def demo_labeller_def)
qed


section \<open>The program\<close>

text \<open>In the normal start, the container runs the root steps through sudo and then, each only if the
  one before it succeeded, the steps of gpadmin, the check of the claim's version and the daemons; status
  0 with a successful sudo means that all of them succeeded, so no daemon is started on a claim that was
  refused. But if the root steps fail, nothing else runs and the status is 0 all the same.\<close>

theorem container_start_status:
  assumes "GreenplumContainerStarter_Run M uid Root Gpadmin LabelPVC Daemons [prog] w = (status, w')"
    and "RunCmd M (Command ''/usr/bin/sudo'' [prog, ''--do-root-startup'']) w = (sudo, w1)"
  shows "case sudo of
      Inl err \<Rightarrow> status = 0 \<and> calls w' = calls w @ [CommandCall ''/usr/bin/sudo'' [prog, ''--do-root-startup'']]
    | Inr u \<Rightarrow>
        (status = 0 \<longleftrightarrow> (\<exists>w2 w3. Gpadmin w1 = (Inr (), w2) \<and> LabelPVC w2 = (Inr (), w3) \<and> Daemons w3 = (Inr (), w'))) \<and>
        (\<forall>w2 err w3. Gpadmin w1 = (Inr (), w2) \<and> LabelPVC w2 = (Inl err, w3) \<longrightarrow> status = 1 \<and> w' = w3)"
proof (cases sudo)
  case (Inl err)
  then have "status = 0" "w' = w1" using assms by (simp_all add: GreenplumContainerStarter_Run_def)
  moreover have "calls w1 = calls w @ [CommandCall ''/usr/bin/sudo'' [prog, ''--do-root-startup'']]"
    using assms(2) by (auto simp: RunCmd_def Command_def split: prod.splits dest!: calls_perform)
  ultimately show ?thesis using Inl by simp
next
  case (Inr u)
  then show ?thesis using assms
    by (auto simp: GreenplumContainerStarter_Run_def split: prod.splits sum.splits)
qed

theorem container_start_status_witness:
  "fst (GreenplumContainerStarter_Run (mem_machine (\<lambda>c. \<lparr>ex_err = Some (Err ''exit status 1''), ex_stdout = '''', ex_stderr = ''''\<rparr>) ''master-0'')
     1000 (\<lambda>w. (Inr (), w)) (\<lambda>w. (Inr (), w)) (\<lambda>w. (Inr (), w)) (\<lambda>w. (Inr (), w)) [''startGreenplumContainer''] (mem_world [])) = 0"
proof -
  let ?M = "mem_machine (\<lambda>c. \<lparr>ex_err = Some (Err ''exit status 1''), ex_stdout = '''', ex_stderr = ''''\<rparr>) ''master-0''"
  obtain w1 where "RunCmd ?M (Command ''/usr/bin/sudo'' [''startGreenplumContainer'', ''--do-root-startup'']) (mem_world []) = (Inl (Err ''exit status 1''), w1)"
    by (simp add: RunCmd_def perform_def mem_machine_def)
  from container_start_status [OF surjective_pairing this] show ?thesis by simp
qed

end
