(* ===== verification/Webhook.thy ===== *)
theory Webhook
  imports Admission Container_Start
begin

text \<open>
  The start of the admission webhook (\<open>webhook.go\<close>, \<open>certificate.go\<close>, \<open>server.go\<close> and
  \<open>new_webhook.go\<close> of \<open>greenplum-operator/pkg/admission\<close>): a key and a signing request, its approval,
  the signed certificate, the registration of the webhook with that certificate, the service in front
  of it and the TLS server. The Go interface \<open>CertGenerator\<close> is a record of functions and
  \<open>CertificateGenerator\<close> its implementation over the libraries \<open>crypto/rsa\<close>, \<open>crypto/x509\<close>,
  \<open>crypto/tls\<close> and \<open>client-go\<close>, which are parameters. The lemmas give the order of the calls and
  that what the API server finds registered is what the server serves.
\<close>

section \<open>Definitions\<close>

subsection \<open>Certificates\<close>

definition RSABits :: nat where
  "RSABits = 2048"

definition Organization :: string where
  "Organization = ''Pivotal''"

definition CSRName :: string where
  "CSRName = ''greenplum-validating-webhook-csr''"

text \<open>Keys, signing requests and PEM blocks are byte strings; a loaded key pair is opaque.\<close>

datatype tls_Certificate = TlsCertificate string

record CertificateRequest =
  cr_SignatureAlgorithm :: string
  cr_Organization :: "string list"
  cr_CommonName :: string

record CertificateSigningRequest =
  csr_meta :: ObjectMeta
  csr_Groups :: "string list"
  csr_Usages :: "string list"
  csr_Request :: string
  csr_Conditions :: "(string \<times> string \<times> string) list"

record 's x509_lib =
  rsa_GenerateKey :: "nat \<Rightarrow> 's \<Rightarrow> string result \<times> 's"
  CreateCertificateRequest :: "CertificateRequest \<Rightarrow> string \<Rightarrow> 's \<Rightarrow> string result \<times> 's"
  pem_EncodeToMemory :: "string \<Rightarrow> string \<Rightarrow> string"
  x509_MarshalPKCS1PrivateKey :: "string \<Rightarrow> string"
  X509KeyPair :: "string \<Rightarrow> string \<Rightarrow> tls_Certificate result"

record 's CertGenerator =
  GenerateX509CertificateSigningRequest :: "string \<Rightarrow> ('s, (string \<times> string) result) io"
  CreateCertificateSigningRequest :: "string \<Rightarrow> ('s, CertificateSigningRequest result) io"
  ApproveCertificateSigningRequest ::
    "CertificateSigningRequest \<Rightarrow> ('s, CertificateSigningRequest result) io"
  WaitForSignedCertificate :: "CertificateSigningRequest \<Rightarrow> nat \<Rightarrow> ('s, string result) io"
  GetCertificate :: "string \<Rightarrow> string \<Rightarrow> tls_Certificate result"

record 's CertificateGenerator =
  cg_csrs :: "('s, CertificateSigningRequest) resource_api"
  cg_UpdateApproval :: "CertificateSigningRequest \<Rightarrow> 's \<Rightarrow> CertificateSigningRequest result \<times> 's"
  cg_WaitForCertificate :: "CertificateSigningRequest \<Rightarrow> nat \<Rightarrow> 's \<Rightarrow> string result \<times> 's"
  cg_Owner :: ObjectMeta
  cg_SetControllerReference :: set_reference
  cg_x509 :: "'s x509_lib"

definition requestTemplate :: "string \<Rightarrow> CertificateRequest" where
  "requestTemplate commonName =
     \<lparr>cr_SignatureAlgorithm = ''SHA256-RSA'', cr_Organization = [Organization], cr_CommonName = commonName\<rparr>"

definition cg_GenerateX509 ::
  "'s CertificateGenerator \<Rightarrow> string \<Rightarrow> ('s, (string \<times> string) result) io"
where
  "cg_GenerateX509 g commonName w =
     (let X = cg_x509 g
      in case perform (LibraryCall ''rsa.GenerateKey'' '''') (rsa_GenerateKey X RSABits) w of
           (Inl err, w1) \<Rightarrow> (Inl err, w1)
         | (Inr rsaKey, w1) \<Rightarrow>
             (case perform (LibraryCall ''x509.CreateCertificateRequest'' commonName)
                     (CreateCertificateRequest X (requestTemplate commonName) rsaKey) w1 of
                (Inl err, w2) \<Rightarrow> (Inl err, w2)
              | (Inr csr, w2) \<Rightarrow>
                  (Inr (rsaKey, pem_EncodeToMemory X ''CERTIFICATE REQUEST'' csr), w2)))"

definition GenerateCertificateSigningRequest :: "string \<Rightarrow> CertificateSigningRequest" where
  "GenerateCertificateSigningRequest cert =
     \<lparr>csr_meta = (objectMeta CSRName '''')\<lparr>Labels := Some [(''app'', ''greenplum-operator'')]\<rparr>,
      csr_Groups = [''system:authenticated''],
      csr_Usages = [''digital signature'', ''key encipherment'', ''server auth''],
      csr_Request = cert,
      csr_Conditions = []\<rparr>"

definition cg_CreateCSR ::
  "'s CertificateGenerator \<Rightarrow> string \<Rightarrow> ('s, CertificateSigningRequest result) io"
where
  "cg_CreateCSR g csrPEM w =
     (let csr = GenerateCertificateSigningRequest csrPEM
      in case cg_SetControllerReference g (cg_Owner g) (csr_meta csr) of
           Inl err \<Rightarrow> (Inl err, w)
         | Inr m \<Rightarrow>
             (case Delete (cg_csrs g) (csr\<lparr>csr_meta := m\<rparr>) w of
                (Inr u, w1) \<Rightarrow> Create (cg_csrs g) (csr\<lparr>csr_meta := m\<rparr>) w1
              | (Inl err, w1) \<Rightarrow>
                  (if IsNotFound err then Create (cg_csrs g) (csr\<lparr>csr_meta := m\<rparr>) w1
                   else (Inl err, w1))))"

definition approvalCondition :: "string \<times> string \<times> string" where
  "approvalCondition = (''Approved'', ''AutoApproved'', ''certificate approved by Greenplum Operator'')"

definition cg_ApproveCSR ::
  "'s CertificateGenerator \<Rightarrow> CertificateSigningRequest \<Rightarrow> ('s, CertificateSigningRequest result) io"
where
  "cg_ApproveCSR g csr =
     perform (LibraryCall ''UpdateApproval'' ''certificatesigningrequests'')
       (cg_UpdateApproval g (csr\<lparr>csr_Conditions := csr_Conditions csr @ [approvalCondition]\<rparr>))"

definition cg_WaitForSigned ::
  "'s CertificateGenerator \<Rightarrow> CertificateSigningRequest \<Rightarrow> nat \<Rightarrow> ('s, string result) io"
where
  "cg_WaitForSigned g csr timeout =
     perform (LibraryCall ''WaitForCertificate'' ''certificatesigningrequests'') (cg_WaitForCertificate g csr timeout)"

definition cg_GetCertificate :: "'s CertificateGenerator \<Rightarrow> string \<Rightarrow> string \<Rightarrow> tls_Certificate result" where
  "cg_GetCertificate g cert rsaKey =
     (let X = cg_x509 g;
          rsaPem = pem_EncodeToMemory X ''RSA PRIVATE KEY'' (x509_MarshalPKCS1PrivateKey X rsaKey)
      in X509KeyPair X cert rsaPem)"

text \<open>\<open>CertificateGenerator\<close> as a \<open>CertGenerator\<close>.\<close>

definition certGenerator :: "'s CertificateGenerator \<Rightarrow> 's CertGenerator" where
  "certGenerator g =
     \<lparr>GenerateX509CertificateSigningRequest = cg_GenerateX509 g,
      CreateCertificateSigningRequest = cg_CreateCSR g,
      ApproveCertificateSigningRequest = cg_ApproveCSR g,
      WaitForSignedCertificate = cg_WaitForSigned g,
      GetCertificate = cg_GetCertificate g\<rparr>"

subsection \<open>The TLS server\<close>

text \<open>
  \<open>Start\<close> serves in the calling goroutine and leaves another one waiting for the stop channel:
  \<open>None\<close> while the channel is open, afterwards the result of \<open>Shutdown\<close>. \<open>ListenAndServeTLS\<close> always
  returns an error, \<open>ErrServerClosed\<close> once \<open>Shutdown\<close> was called; an error of \<open>Shutdown\<close> ends the
  process.
\<close>

definition ErrServerClosed :: go_error where
  "ErrServerClosed = Err ''http: Server closed''"

record 'h tlsServer =
  srv_Addr :: string
  srv_Handler :: "'h option"
  srv_Certificates :: "tls_Certificate list"

definition NewTLSServer :: "'h tlsServer" where
  "NewTLSServer = \<lparr>srv_Addr = '''', srv_Handler = None, srv_Certificates = []\<rparr>"

datatype serving = Listening | ServeReturned go_error
datatype stopper = AwaitingStop | ShuttingDown | ShutDown | FatalExit string

record 'h tls_state =
  tls_srv :: "'h tlsServer"
  tls_main :: serving
  tls_stop :: stopper

definition tlsServer_Start :: "'h tlsServer \<Rightarrow> tls_Certificate \<Rightarrow> string \<Rightarrow> 'h \<Rightarrow> 'h tls_state" where
  "tlsServer_Start srv cert addr handler =
     \<lparr>tls_srv = srv\<lparr>srv_Addr := addr, srv_Handler := Some handler, srv_Certificates := [cert]\<rparr>,
      tls_main = Listening, tls_stop = AwaitingStop\<rparr>"

text \<open>\<open>listen_fails srv e\<close>: listening or serving may end with the error \<open>e\<close> on its own.\<close>

inductive tls_step :: "('h tlsServer \<Rightarrow> go_error \<Rightarrow> bool) \<Rightarrow> 'h tls_state \<Rightarrow> 'h tls_state \<Rightarrow> bool"
  for listen_fails where
  fails: "tls_main st = Listening \<Longrightarrow> listen_fails (tls_srv st) e \<Longrightarrow>
    tls_step listen_fails st (st\<lparr>tls_main := ServeReturned e\<rparr>)"
| stopped: "tls_stop st = AwaitingStop \<Longrightarrow> tls_step listen_fails st (st\<lparr>tls_stop := ShuttingDown\<rparr>)"
| closes: "tls_main st = Listening \<Longrightarrow> tls_stop st \<noteq> AwaitingStop \<Longrightarrow>
    tls_step listen_fails st (st\<lparr>tls_main := ServeReturned ErrServerClosed\<rparr>)"
| shut: "tls_stop st = ShuttingDown \<Longrightarrow> tls_step listen_fails st (st\<lparr>tls_stop := ShutDown\<rparr>)"
| fatal: "tls_stop st = ShuttingDown \<Longrightarrow> tls_step listen_fails st
    (st\<lparr>tls_stop := FatalExit (''error shutting down admission webhook server: '' @ Error e)\<rparr>)"

subsection \<open>The webhook\<close>

definition WebhookConfigName :: string where
  "WebhookConfigName = ''greenplum-validating-webhook-config''"

definition WebhookServiceName :: string where
  "WebhookServiceName = ''greenplum-validating-webhook-service''"

record RuleWithOperations =
  ro_Operations :: "string list"
  ro_APIGroups :: "string list"
  ro_APIVersions :: "string list"
  ro_Resources :: "string list"

record ValidatingWebhook =
  vw_Name :: string
  vw_ServiceNamespace :: string
  vw_ServiceName :: string
  vw_ServicePath :: "string option"
  vw_CABundle :: string
  vw_Rules :: "RuleWithOperations list"
  vw_FailurePolicy :: "string option"
  vw_SideEffects :: "string option"
  vw_AdmissionReviewVersions :: "string list"

record WebhookConfiguration =
  wc_meta :: ObjectMeta
  wc_Webhooks :: "ValidatingWebhook list"

record ('s, 'h) Webhook =
  wh_configs :: "('s, WebhookConfiguration) resource_api"
  wh_services :: "('s, Service) resource_api"
  wh_Namespace :: string
  wh_ServiceOwner :: ObjectMeta
  wh_WebhookCfgOwner :: ObjectMeta
  wh_NameSuffix :: string
  wh_Server :: "tls_Certificate \<Rightarrow> string \<Rightarrow> 'h \<Rightarrow> 's \<Rightarrow> go_error option \<times> 's"
  wh_Handler :: 'h
  wh_CertGenerator :: "'s CertGenerator"
  wh_SetControllerReference :: set_reference

definition svcCommonName :: "('s, 'h) Webhook \<Rightarrow> string" where
  "svcCommonName wh = WebhookServiceName @ wh_NameSuffix wh @ ''.'' @ wh_Namespace wh @ ''.svc''"

definition GenerateAndSignTLSCertificate ::
  "('s, 'h) Webhook \<Rightarrow> ('s, (string \<times> tls_Certificate) result) io"
where
  "GenerateAndSignTLSCertificate wh w =
     (let G = wh_CertGenerator wh
      in case GenerateX509CertificateSigningRequest G (svcCommonName wh) w of
           (Inl err, w1) \<Rightarrow> (Inl (Wrap ''failed to generate certificate signing request'' err), w1)
         | (Inr (rsaKey, csrPEM), w1) \<Rightarrow>
        (case CreateCertificateSigningRequest G csrPEM w1 of
           (Inl err, w2) \<Rightarrow> (Inl (Wrap ''failed to create certificate signing request'' err), w2)
         | (Inr csr, w2) \<Rightarrow>
        (case ApproveCertificateSigningRequest G csr w2 of
           (Inl err, w3) \<Rightarrow> (Inl (Wrap ''failed to approve certificate signing request'' err), w3)
         | (Inr approvedCSR, w3) \<Rightarrow>
        (case WaitForSignedCertificate G approvedCSR 30 w3 of
           (Inl err, w4) \<Rightarrow> (Inl (Wrap ''failure while waiting for approval'' err), w4)
         | (Inr signedCertPEM, w4) \<Rightarrow>
        (case GetCertificate G signedCertPEM rsaKey of
           Inl err \<Rightarrow> (Inl (Wrap ''error loading keypair'' err), w4)
         | Inr signedCertX509 \<Rightarrow> (Inr (signedCertPEM, signedCertX509), w4))))))"

definition webhookRule :: "string \<Rightarrow> string \<Rightarrow> RuleWithOperations" where
  "webhookRule version resource =
     \<lparr>ro_Operations = [''CREATE'', ''UPDATE''], ro_APIGroups = [''greenplum.pivotal.io''],
      ro_APIVersions = [version], ro_Resources = [resource]\<rparr>"

definition ModifyWebhookConfiguration ::
  "('s, 'h) Webhook \<Rightarrow> string \<Rightarrow> WebhookConfiguration \<Rightarrow> WebhookConfiguration"
where
  "ModifyWebhookConfiguration wh signedCertBundle cfg = cfg
     \<lparr>wc_meta := (wc_meta cfg)\<lparr>Labels :=
        Some (AList.update ''app'' ''greenplum-operator'' (map_make (Labels (wc_meta cfg))))\<rparr>,
      wc_Webhooks :=
        [\<lparr>vw_Name = ''greenplum.pivotal.io'',
          vw_ServiceNamespace = wh_Namespace wh,
          vw_ServiceName = WebhookServiceName @ wh_NameSuffix wh,
          vw_ServicePath = Some ''/validate'',
          vw_CABundle = signedCertBundle,
          vw_Rules = [webhookRule ''v1'' ''greenplumclusters'', webhookRule ''v1beta1'' ''greenplumpxfservices''],
          vw_FailurePolicy = Some ''Fail'',
          vw_SideEffects = Some ''None'',
          vw_AdmissionReviewVersions = [''v1beta1'']\<rparr>]\<rparr>"

definition CreateSVCForValidatingWebhookConfiguration :: "('s, 'h) Webhook \<Rightarrow> Service" where
  "CreateSVCForValidatingWebhookConfiguration wh =
     (newService ((objectMeta (WebhookServiceName @ wh_NameSuffix wh) (wh_Namespace wh))
        \<lparr>Labels := Some [(''app'', ''greenplum-operator'')]\<rparr>))
     \<lparr>svc_Ports := [emptyPort\<lparr>sp_Name := ''webhook'', sp_Port := 443, sp_TargetPort := 443\<rparr>],
      svc_Selector := Some [(''app'', ''greenplum-operator'')],
      svc_Type := ''ClusterIP''\<rparr>"

definition mutateWebhookConfig ::
  "('s, 'h) Webhook \<Rightarrow> string \<Rightarrow> WebhookConfiguration \<Rightarrow> 's \<Rightarrow> WebhookConfiguration result \<times> 's"
where
  "mutateWebhookConfig wh signedCert cfg s =
     (let cfg1 = ModifyWebhookConfiguration wh signedCert cfg
      in case wh_SetControllerReference wh (wh_WebhookCfgOwner wh) (wc_meta cfg1) of
           Inl err \<Rightarrow> (Inl (Wrap (''couldn'' @ [CHR 0x27] @
             ''t set OwnerReferences on ValidatingWebhookConfig'') err), s)
         | Inr m \<Rightarrow> (Inr (cfg1\<lparr>wc_meta := m\<rparr>), s))"

definition newWebhookConfig :: "WebhookConfiguration" where
  "newWebhookConfig = \<lparr>wc_meta = objectMeta WebhookConfigName '''', wc_Webhooks = []\<rparr>"

definition ReconcileValidatingWebhookConfiguration ::
  "('s, 'h) Webhook \<Rightarrow> string \<Rightarrow> ('s, unit result) io"
where
  "ReconcileValidatingWebhookConfiguration wh signedCert w =
     (case CreateOrUpdate (wh_configs wh) newWebhookConfig (mutateWebhookConfig wh signedCert) w of
        (Inl err, w1) \<Rightarrow> (Inl (Wrap ''failed to create ValidatingWebhookConfiguration'' err), w1)
      | (Inr res, w1) \<Rightarrow>
          (let svc = CreateSVCForValidatingWebhookConfiguration wh
           in case wh_SetControllerReference wh (wh_ServiceOwner wh) (svc_meta svc) of
                Inl err \<Rightarrow> (Inl (Wrap (''couldn'' @ [CHR 0x27] @
                  ''t set OwnerReferences on webhook Service'') err), w1)
              | Inr m \<Rightarrow>
                  (case Create (wh_services wh) (svc\<lparr>svc_meta := m\<rparr>) w1 of
                     (Inl err, w2) \<Rightarrow> (Inl (Wrap ''error creating Service for Webhook'' err), w2)
                   | (Inr x, w2) \<Rightarrow> (Inr (), w2))))"

definition StartServer :: "('s, 'h) Webhook \<Rightarrow> tls_Certificate \<Rightarrow> ('s, go_error option) io" where
  "StartServer wh cert =
     perform (LibraryCall ''Server.Start'' '':https'') (wh_Server wh cert '':https'' (wh_Handler wh))"

definition Webhook_Run :: "('s, 'h) Webhook \<Rightarrow> ('s, unit result) io" where
  "Webhook_Run wh w =
     (case GenerateAndSignTLSCertificate wh w of
        (Inl err, w1) \<Rightarrow> (Inl (Wrap ''getting certificate for webhook'' err), w1)
      | (Inr (signedCertPEM, signedCertX509), w1) \<Rightarrow>
     (case ReconcileValidatingWebhookConfiguration wh signedCertPEM w1 of
        (Inl err, w2) \<Rightarrow> (Inl (Wrap ''creating ValidatingWebhookConfiguration'' err), w2)
      | (Inr u, w2) \<Rightarrow>
     (case StartServer wh signedCertX509 w2 of
        (Some err, w3) \<Rightarrow>
          (if err \<noteq> ErrServerClosed
           then (Inl (Wrap ''validating admission webhook server start failed'' err), w3)
           else (Inr (), w3))
      | (None, w3) \<Rightarrow> (Inr (), w3))))"

subsection \<open>Construction\<close>

text \<open>What the webhook is built from: the direct API client per kind, the clientset and the libraries.\<close>

record CustomResourceDefinition =
  crd_meta :: ObjectMeta

record 's webhook_client =
  wcl_pods :: "('s, Pod) resource_api"
  wcl_crds :: "('s, CustomResourceDefinition) resource_api"
  wcl_configs :: "('s, WebhookConfiguration) resource_api"
  wcl_services :: "('s, Service) resource_api"
  wcl_csrs :: "('s, CertificateSigningRequest) resource_api"
  wcl_NewForConfig :: "unit result"
  wcl_UpdateApproval :: "CertificateSigningRequest \<Rightarrow> 's \<Rightarrow> CertificateSigningRequest result \<times> 's"
  wcl_WaitForCertificate :: "CertificateSigningRequest \<Rightarrow> nat \<Rightarrow> 's \<Rightarrow> string result \<times> 's"
  wcl_x509 :: "'s x509_lib"
  wcl_SetControllerReference :: set_reference
  wcl_Server :: "tls_Certificate \<Rightarrow> string \<Rightarrow> (string \<Rightarrow> http_request \<Rightarrow> ('s, http_response) io) \<Rightarrow>
    's \<Rightarrow> go_error option \<times> 's"

definition NewWebhook ::
  "'s machine \<Rightarrow> review_lib \<Rightarrow> 's webhook_client \<Rightarrow> 's Handler \<Rightarrow> 's pod_exec \<Rightarrow> string \<Rightarrow>
   ('s, ('s, string \<Rightarrow> http_request \<Rightarrow> ('s, http_response) io) Webhook result) io"
where
  "NewWebhook M L cl h podExec instanceImage w =
     (case wcl_NewForConfig cl of
        Inl err \<Rightarrow> (Inl (Wrap ''building kubernetes client set'' err), w)
      | Inr u \<Rightarrow>
     (case GetCurrentNamespace M (server w) of
        Inl err \<Rightarrow> (Inl (Wrap ''getting current namespace'' err), w)
      | Inr currentNS \<Rightarrow>
     (case GetThisPod M (wcl_pods cl) currentNS w of
        (Inl err, w1) \<Rightarrow> (Inl (Wrap ''getting operator pod'' err), w1)
      | (Inr operatorPod, w1) \<Rightarrow>
     (case Get (wcl_crds cl) '''' ''greenplumclusters.greenplum.pivotal.io'' w1 of
        (Inl err, w2) \<Rightarrow>
          (Inl (Wrap ''missing crd /greenplumclusters.greenplum.pivotal.io'' err), w2)
      | (Inr gpCRD, w2) \<Rightarrow>
          (Inr \<lparr>wh_configs = wcl_configs cl, wh_services = wcl_services cl,
                wh_Namespace = currentNS,
                wh_ServiceOwner = pod_meta operatorPod,
                wh_WebhookCfgOwner = crd_meta gpCRD,
                wh_NameSuffix = TrimPrefix (Name (pod_meta operatorPod)) ''greenplum-operator'',
                wh_Server = wcl_Server cl,
                wh_Handler = Handler_Handler L (h\<lparr>h_InstanceImage := instanceImage, PodCmdExecutor := podExec\<rparr>),
                wh_CertGenerator = certGenerator
                  \<lparr>cg_csrs = wcl_csrs cl, cg_UpdateApproval = wcl_UpdateApproval cl,
                   cg_WaitForCertificate = wcl_WaitForCertificate cl, cg_Owner = crd_meta gpCRD,
                   cg_SetControllerReference = wcl_SetControllerReference cl, cg_x509 = wcl_x509 cl\<rparr>,
                wh_SetControllerReference = wcl_SetControllerReference cl\<rparr>, w2)))))"

subsection \<open>The operator\<close>

definition getImageNameFromEnv :: "string \<Rightarrow> (string \<Rightarrow> string) \<Rightarrow> string result" where
  "getImageNameFromEnv envPrefix getenv =
     (let imageRepo = getenv (envPrefix @ ''_REPO''); imageTag = getenv (envPrefix @ ''_TAG'')
      in if imageRepo = '''' then Inl (Err (envPrefix @ ''_REPO cannot be empty''))
         else if imageTag = '''' then Inl (Err (envPrefix @ ''_TAG cannot be empty''))
         else Inr (imageRepo @ '':'' @ imageTag))"

definition GetInstanceImageFromEnv :: "(string \<Rightarrow> string) \<Rightarrow> string result" where
  "GetInstanceImageFromEnv = getImageNameFromEnv ''GREENPLUM_IMAGE''"

definition GetOperatorImageFromEnv :: "(string \<Rightarrow> string) \<Rightarrow> string result" where
  "GetOperatorImageFromEnv = getImageNameFromEnv ''OPERATOR_IMAGE''"

text \<open>
  The manager of \<open>controller-runtime\<close> as \<open>Run\<close> uses it: its construction, the direct client, and the
  registration of the two reconcilers with the images they get. The daemons run under
  \<open>InitializeDaemons\<close>; \<open>daemons wh\<close> is the list of errors they return for the webhook \<open>wh\<close>.
\<close>

record 's manager =
  mgr_New :: "unit result"
  mgr_ClientNew :: "'s webhook_client result"
  mgr_SetupPXF :: "string \<Rightarrow> unit result"
  mgr_SetupCluster :: "string \<Rightarrow> string \<Rightarrow> unit result"
  mgr_PodExec :: "'s pod_exec"
  mgr_NewAggregate :: "go_error list \<Rightarrow> go_error"

definition operator_Run ::
  "'s machine \<Rightarrow> review_lib \<Rightarrow> 's manager \<Rightarrow> 's Handler \<Rightarrow> (string \<Rightarrow> string) \<Rightarrow>
   (('s, string \<Rightarrow> http_request \<Rightarrow> ('s, http_response) io) Webhook \<Rightarrow> ('s, go_error list) io) \<Rightarrow>
   ('s, unit result) io"
where
  "operator_Run M L mgr h getenv daemons w =
     (case mgr_New mgr of
        Inl err \<Rightarrow> (Inl err, w)
      | Inr u \<Rightarrow>
     (case GetInstanceImageFromEnv getenv of
        Inl err \<Rightarrow> (Inl (Wrap ''getting greenplum image name'' err), w)
      | Inr instanceImage \<Rightarrow>
     (case GetOperatorImageFromEnv getenv of
        Inl err \<Rightarrow> (Inl (Wrap ''getting operator image name'' err), w)
      | Inr operatorImage \<Rightarrow>
     (case mgr_ClientNew mgr of
        Inl err \<Rightarrow> (Inl (Wrap ''creating API client for webhook'' err), w)
      | Inr apiClient \<Rightarrow>
     (case NewWebhook M L apiClient h (mgr_PodExec mgr) instanceImage w of
        (Inl err, w1) \<Rightarrow> (Inl (Wrap ''creating webhook'' err), w1)
      | (Inr wh, w1) \<Rightarrow>
     (case mgr_SetupPXF mgr instanceImage of
        Inl err \<Rightarrow> (Inl err, w1)
      | Inr u \<Rightarrow>
     (case mgr_SetupCluster mgr instanceImage operatorImage of
        Inl err \<Rightarrow> (Inl err, w1)
      | Inr u \<Rightarrow>
     (case daemons wh w1 of
        (errs, w2) \<Rightarrow>
          (if length errs > 0 then (Inl (mgr_NewAggregate mgr errs), w2) else (Inr (), w2)))))))))) "

definition operator_main :: "('s, unit result) io \<Rightarrow> ('s, int) io" where
  "operator_main run w = (case run w of (Inl err, w1) \<Rightarrow> (1, w1) | (Inr u, w1) \<Rightarrow> (0, w1))"

section \<open>Lemmas\<close>

subsection \<open>The order of the calls\<close>

text \<open>An operation that makes the calls \<open>cs\<close>, stopping early when it fails.\<close>

definition makes :: "('s, 'a result) io \<Rightarrow> api_call list \<Rightarrow> bool" where
  "makes f cs \<longleftrightarrow> (\<forall>w r w'. f w = (r, w') \<longrightarrow>
     (\<exists>n\<le>length cs. calls w' = calls w @ take n cs \<and> ((\<exists>x. r = Inr x) \<longrightarrow> n = length cs)))"

lemma makes_perform: "makes (perform c f) [c]"
  unfolding makes_def by (auto dest!: calls_perform)

lemma makes_Inr: "f w = (Inr x, w') \<Longrightarrow> makes f cs \<Longrightarrow> calls w' = calls w @ cs"
  unfolding makes_def by (metis order_refl take_all)

lemma makes_Inl: "f w = (Inl e, w') \<Longrightarrow> makes f cs \<Longrightarrow> \<exists>n\<le>length cs. calls w' = calls w @ take n cs"
  unfolding makes_def by blast

text \<open>Sequential composition, with any treatment of the first operation's error.\<close>

lemma makes_seq:
  assumes f: "makes f cs" and g: "\<And>x. makes (g x) ds"
    and h: "\<And>w. h w = (case f w of (Inl e, w1) \<Rightarrow> (Inl (k e), w1) | (Inr x, w1) \<Rightarrow> g x w1)"
  shows "makes h (cs @ ds)"
  unfolding makes_def
proof (intro allI impI)
  fix w r w' assume hw: "h w = (r, w')"
  obtain r1 w1 where fw: "f w = (r1, w1)" by (cases "f w")
  show "\<exists>n\<le>length (cs @ ds). calls w' = calls w @ take n (cs @ ds) \<and> ((\<exists>x. r = Inr x) \<longrightarrow> n = length (cs @ ds))"
  proof (cases r1)
    case (Inl e)
    with fw hw h have "r = Inl (k e)" "w' = w1" by auto
    moreover obtain n where "n \<le> length cs" "calls w1 = calls w @ take n cs"
      using makes_Inl [OF fw [unfolded Inl] f] by blast
    ultimately show ?thesis by (intro exI [of _ n]) auto
  next
    case (Inr x)
    with fw hw h have "g x w1 = (r, w')" by auto
    then obtain n where "n \<le> length ds" "calls w' = calls w1 @ take n ds" "(\<exists>x. r = Inr x) \<longrightarrow> n = length ds"
      using g unfolding makes_def by meson
    with makes_Inr [OF fw [unfolded Inr] f] show ?thesis by (intro exI [of _ "length cs + n"]) auto
  qed
qed

lemma makes_pure: "(\<And>w. f w = (r, w)) \<Longrightarrow> makes f []"
  by (auto simp: makes_def)

text \<open>A pure step that may fail comes before an operation.\<close>

lemma makes_guard: "(\<And>x. makes (f x) cs) \<Longrightarrow> makes (\<lambda>w. case r of Inl e \<Rightarrow> (Inl (k e), w) | Inr x \<Rightarrow> f x w) cs"
  by (cases r) (auto simp: makes_def intro: exI [of _ 0])

lemma makes_Create:
  "makes (Create R x) [CreateCall (api_kind R) (Namespace (api_meta R x)) (Name (api_meta R x))]"
  unfolding Create_def by (rule makes_perform)

lemma makes_Delete:
  "makes (Delete R x) [DeleteCall (api_kind R) (Namespace (api_meta R x)) (Name (api_meta R x))]"
  unfolding Delete_def by (rule makes_perform)

lemma makes_CreateOrUpdate:
  "makes (CreateOrUpdate R x f) [CreateOrUpdateCall (api_kind R) (Namespace (api_meta R x)) (Name (api_meta R x))]"
  unfolding CreateOrUpdate_def by (rule makes_perform)

text \<open>Each component of the client works on the kind of object its type says.\<close>

definition typed_webhook :: "('s, 'h) Webhook \<Rightarrow> 's CertificateGenerator \<Rightarrow> bool" where
  "typed_webhook wh g \<longleftrightarrow>
     wh_CertGenerator wh = certGenerator g \<and>
     api_kind (cg_csrs g) = KCSR \<and> api_meta (cg_csrs g) = csr_meta \<and>
     api_kind (wh_configs wh) = KWebhookConfig \<and> api_meta (wh_configs wh) = wc_meta \<and>
     api_kind (wh_services wh) = KService \<and> api_meta (wh_services wh) = svc_meta \<and>
     reference_laws (cg_SetControllerReference g) \<and> reference_laws (wh_SetControllerReference wh)"

definition certificateCalls :: "('s, 'h) Webhook \<Rightarrow> api_call list" where
  "certificateCalls wh =
     [LibraryCall ''rsa.GenerateKey'' '''',
      LibraryCall ''x509.CreateCertificateRequest'' (svcCommonName wh),
      DeleteCall KCSR '''' CSRName,
      CreateCall KCSR '''' CSRName,
      LibraryCall ''UpdateApproval'' ''certificatesigningrequests'',
      LibraryCall ''WaitForCertificate'' ''certificatesigningrequests'']"

definition registrationCalls :: "('s, 'h) Webhook \<Rightarrow> api_call list" where
  "registrationCalls wh =
     [CreateOrUpdateCall KWebhookConfig '''' WebhookConfigName,
      CreateCall KService (wh_Namespace wh) (WebhookServiceName @ wh_NameSuffix wh)]"

lemma reference_name:
  assumes "reference_laws ref" "ref owner m = Inr m'"
  shows "Name m' = Name m" "Namespace m' = Namespace m"
  using reference_lawsD(1) [OF assms] by (metis ObjectMeta.select_convs(1,2) ObjectMeta.surjective ObjectMeta.update_convs(4))+

lemma makes_GenerateX509:
  "makes (cg_GenerateX509 g cn)
     ([LibraryCall ''rsa.GenerateKey'' ''''] @ [LibraryCall ''x509.CreateCertificateRequest'' cn] @ [])"
  by (rule makes_seq [OF makes_perform makes_seq [OF makes_perform makes_pure [OF refl]]])
    (auto simp: cg_GenerateX509_def Let_def split: prod.splits sum.splits)

lemma makes_CreateCSR:
  assumes "api_kind (cg_csrs g) = KCSR" "api_meta (cg_csrs g) = csr_meta" "reference_laws (cg_SetControllerReference g)"
  shows "makes (cg_CreateCSR g pem) [DeleteCall KCSR '''' CSRName, CreateCall KCSR '''' CSRName]"
proof -
  let ?csr = "GenerateCertificateSigningRequest pem"
  have "makes (\<lambda>w. case Delete (cg_csrs g) (?csr\<lparr>csr_meta := m\<rparr>) w of
            (Inr u, w1) \<Rightarrow> Create (cg_csrs g) (?csr\<lparr>csr_meta := m\<rparr>) w1
          | (Inl err, w1) \<Rightarrow> (if IsNotFound err then Create (cg_csrs g) (?csr\<lparr>csr_meta := m\<rparr>) w1 else (Inl err, w1)))
      [DeleteCall KCSR '''' CSRName, CreateCall KCSR '''' CSRName]"
    (is "makes ?f _") if m: "cg_SetControllerReference g (cg_Owner g) (csr_meta ?csr) = Inr m" for m
    unfolding makes_def
  proof (intro allI impI)
    fix w r w' assume f: "?f w = (r, w')"
    have nm: "Name m = CSRName" "Namespace m = ''''"
      using reference_name [OF assms(3) m] by (simp_all add: GenerateCertificateSigningRequest_def)
    obtain rd w1 where d: "Delete (cg_csrs g) (?csr\<lparr>csr_meta := m\<rparr>) w = (rd, w1)" by fastforce
    then have c1: "calls w1 = calls w @ [DeleteCall KCSR '''' CSRName]"
      using calls_Delete [OF d] by (simp add: assms nm)
    have c2: "calls w'' = calls w1 @ [CreateCall KCSR '''' CSRName]"
      if "Create (cg_csrs g) (?csr\<lparr>csr_meta := m\<rparr>) w1 = (rc, w'')" for rc w''
      using calls_Create [OF that] by (simp add: assms nm)
    show "\<exists>n\<le>length [DeleteCall KCSR '''' CSRName, CreateCall KCSR '''' CSRName].
        calls w' = calls w @ take n [DeleteCall KCSR '''' CSRName, CreateCall KCSR '''' CSRName] \<and>
        ((\<exists>x. r = Inr x) \<longrightarrow> n = length [DeleteCall KCSR '''' CSRName, CreateCall KCSR '''' CSRName])"
    proof (cases "calls w' = calls w1")
      case True
      with f d c1 c2 show ?thesis by (intro exI [of _ 1]) (auto split: sum.splits if_splits)
    next
      case False
      with f d c1 c2 show ?thesis by (intro exI [of _ 2]) (auto split: sum.splits if_splits)
    qed
  qed
  then show ?thesis
    unfolding cg_CreateCSR_def Let_def
    by (cases "cg_SetControllerReference g (cg_Owner g) (csr_meta ?csr)")
      (auto simp: makes_def intro: exI [of _ 0])
qed

lemma makes_GenerateAndSign:
  assumes "typed_webhook wh g"
  shows "makes (GenerateAndSignTLSCertificate wh) (certificateCalls wh)"
proof -
  let ?load = "\<lambda>key pem w. case cg_GetCertificate g pem key of
     Inl err \<Rightarrow> (Inl (Wrap ''error loading keypair'' err), w) | Inr c \<Rightarrow> (Inr (pem, c), w)"
  let ?wait = "\<lambda>key csr w. case cg_WaitForSigned g csr 30 w of
     (Inl err, w1) \<Rightarrow> (Inl (Wrap ''failure while waiting for approval'' err), w1) | (Inr pem, w1) \<Rightarrow> ?load key pem w1"
  let ?approve = "\<lambda>key csr w. case cg_ApproveCSR g csr w of
     (Inl err, w1) \<Rightarrow> (Inl (Wrap ''failed to approve certificate signing request'' err), w1)
   | (Inr csr, w1) \<Rightarrow> ?wait key csr w1"
  let ?create = "\<lambda>p w. case cg_CreateCSR g (snd p) w of
     (Inl err, w1) \<Rightarrow> (Inl (Wrap ''failed to create certificate signing request'' err), w1)
   | (Inr csr, w1) \<Rightarrow> ?approve (fst p) csr w1"
  note typed = assms [unfolded typed_webhook_def]
  have load: "makes (?load key pem) []" for key pem
    by (rule makes_guard) (rule makes_pure, rule refl)
  have wait: "makes (?wait key csr) ([LibraryCall ''WaitForCertificate'' ''certificatesigningrequests''] @ [])" for key csr
    by (rule makes_seq [OF makes_perform load]) (simp only: cg_WaitForSigned_def)
  have approve: "makes (?approve key csr)
      ([LibraryCall ''UpdateApproval'' ''certificatesigningrequests''] @
       [LibraryCall ''WaitForCertificate'' ''certificatesigningrequests''] @ [])" for key csr
    by (rule makes_seq [OF makes_perform wait]) (simp only: cg_ApproveCSR_def)
  have create: "makes (?create p)
      ([DeleteCall KCSR '''' CSRName, CreateCall KCSR '''' CSRName] @
       [LibraryCall ''UpdateApproval'' ''certificatesigningrequests''] @
       [LibraryCall ''WaitForCertificate'' ''certificatesigningrequests''] @ [])" for p
    by (rule makes_seq [OF makes_CreateCSR approve]) (use typed in auto)
  have "makes (GenerateAndSignTLSCertificate wh)
      (([LibraryCall ''rsa.GenerateKey'' ''''] @ [LibraryCall ''x509.CreateCertificateRequest'' (svcCommonName wh)] @ []) @
       [DeleteCall KCSR '''' CSRName, CreateCall KCSR '''' CSRName] @
       [LibraryCall ''UpdateApproval'' ''certificatesigningrequests''] @
       [LibraryCall ''WaitForCertificate'' ''certificatesigningrequests''] @ [])"
    by (rule makes_seq [where g = ?create and k = "Wrap ''failed to generate certificate signing request''",
          OF makes_GenerateX509 [of g] create])
      (auto simp: GenerateAndSignTLSCertificate_def typed certGenerator_def Let_def split: prod.splits sum.splits)
  then show ?thesis by (simp add: certificateCalls_def)
qed

lemma makes_ReconcileWebhook:
  assumes "typed_webhook wh g"
  shows "makes (ReconcileValidatingWebhookConfiguration wh pem) (registrationCalls wh)"
proof -
  note typed = assms [unfolded typed_webhook_def]
  from assms have ref: "reference_laws (wh_SetControllerReference wh)" by (simp add: typed_webhook_def)
  let ?svc = "CreateSVCForValidatingWebhookConfiguration wh"
  let ?create = "\<lambda>w. case wh_SetControllerReference wh (wh_ServiceOwner wh) (svc_meta ?svc) of
      Inl err \<Rightarrow> (Inl (Wrap (''couldn'' @ [CHR 0x27] @ ''t set OwnerReferences on webhook Service'') err), w)
    | Inr m \<Rightarrow> (case Create (wh_services wh) (?svc\<lparr>svc_meta := m\<rparr>) w of
        (Inl err, w2) \<Rightarrow> (Inl (Wrap ''error creating Service for Webhook'' err), w2) | (Inr x, w2) \<Rightarrow> (Inr (), w2))"
  have create: "makes ?create ([CreateCall KService (wh_Namespace wh) (WebhookServiceName @ wh_NameSuffix wh)] @ [])"
  proof (cases "wh_SetControllerReference wh (wh_ServiceOwner wh) (svc_meta ?svc)")
    case (Inl e)
    then show ?thesis by (auto simp: makes_def intro: exI [of _ 0])
  next
    case (Inr m)
    then have "Name m = WebhookServiceName @ wh_NameSuffix wh" "Namespace m = wh_Namespace wh"
      using reference_name [OF ref Inr] by (simp_all add: CreateSVCForValidatingWebhookConfiguration_def)
    then have "makes (Create (wh_services wh) (?svc\<lparr>svc_meta := m\<rparr>))
        [CreateCall KService (wh_Namespace wh) (WebhookServiceName @ wh_NameSuffix wh)]"
      using makes_Create [of "wh_services wh" "?svc\<lparr>svc_meta := m\<rparr>"] typed by simp
    then show ?thesis by (rule makes_seq [OF _ makes_pure [OF refl]]) (simp add: Inr)
  qed
  have "makes (ReconcileValidatingWebhookConfiguration wh pem)
      ([CreateOrUpdateCall (api_kind (wh_configs wh)) (Namespace (api_meta (wh_configs wh) newWebhookConfig))
          (Name (api_meta (wh_configs wh) newWebhookConfig))] @
       [CreateCall KService (wh_Namespace wh) (WebhookServiceName @ wh_NameSuffix wh)] @ [])"
    by (rule makes_seq [where k = "Wrap ''failed to create ValidatingWebhookConfiguration''",
          OF makes_CreateOrUpdate [where f = "mutateWebhookConfig wh pem"] create])
      (simp only: ReconcileValidatingWebhookConfiguration_def Let_def)
  then show ?thesis using typed by (simp add: registrationCalls_def newWebhookConfig_def)
qed

subsection \<open>What is registered and what is served\<close>

text \<open>
  The interface \<open>CertGenerator\<close>: \<open>requested\<close> is the common name of a signing request, \<open>names\<close> that of a
  signed certificate, \<open>leaf\<close> the certificate of a loaded key pair.
\<close>

locale cert_generator =
  fixes G :: "'s CertGenerator"
    and requested :: "string \<Rightarrow> string"
    and names :: "string \<Rightarrow> string"
    and leaf :: "tls_Certificate \<Rightarrow> string"
  assumes request: "GenerateX509CertificateSigningRequest G cn w = (Inr (key, pem), w') \<Longrightarrow> requested pem = cn"
    and create: "CreateCertificateSigningRequest G pem w = (Inr csr, w') \<Longrightarrow> csr_Request csr = pem"
    and approve: "ApproveCertificateSigningRequest G csr w = (Inr csr', w') \<Longrightarrow> csr_Request csr' = csr_Request csr"
    and sign: "WaitForSignedCertificate G csr t w = (Inr cert, w') \<Longrightarrow> names cert = requested (csr_Request csr)"
    and load: "GetCertificate G cert key = Inr c \<Longrightarrow> leaf c = cert"
begin

lemma signed_for_service:
  assumes "wh_CertGenerator wh = G" "GenerateAndSignTLSCertificate wh w = (Inr (pem, cert), w')"
  shows "leaf cert = pem \<and> names pem = svcCommonName wh"
  using assms(2) unfolding GenerateAndSignTLSCertificate_def assms(1) Let_def
  by (auto split: prod.splits sum.splits dest!: request create approve sign load)

end

text \<open>What \<open>CertificateGenerator\<close> relies on of the libraries and of the signer of the cluster.\<close>

definition x509_laws ::
  "'s CertificateGenerator \<Rightarrow> (string \<Rightarrow> string) \<Rightarrow> (string \<Rightarrow> string) \<Rightarrow> (tls_Certificate \<Rightarrow> string) \<Rightarrow> bool"
where
  "x509_laws g requested names leaf \<longleftrightarrow>
     (\<forall>tmpl key s der s'. CreateCertificateRequest (cg_x509 g) tmpl key s = (Inr der, s') \<longrightarrow>
        requested (pem_EncodeToMemory (cg_x509 g) ''CERTIFICATE REQUEST'' der) = cr_CommonName tmpl) \<and>
     (\<forall>x s y s'. api_Create (cg_csrs g) x s = (Inr y, s') \<longrightarrow> csr_Request y = csr_Request x) \<and>
     (\<forall>x s y s'. cg_UpdateApproval g x s = (Inr y, s') \<longrightarrow> csr_Request y = csr_Request x) \<and>
     (\<forall>x t s cert s'. cg_WaitForCertificate g x t s = (Inr cert, s') \<longrightarrow> names cert = requested (csr_Request x)) \<and>
     (\<forall>cert k c. X509KeyPair (cg_x509 g) cert k = Inr c \<longrightarrow> leaf c = cert)"

locale x509 =
  fixes g :: "'s CertificateGenerator"
    and requested :: "string \<Rightarrow> string"
    and names :: "string \<Rightarrow> string"
    and leaf :: "tls_Certificate \<Rightarrow> string"
  assumes laws: "x509_laws g requested names leaf"
begin

lemma request_law: "CreateCertificateRequest (cg_x509 g) tmpl key s = (Inr der, s') \<Longrightarrow>
    requested (pem_EncodeToMemory (cg_x509 g) ''CERTIFICATE REQUEST'' der) = cr_CommonName tmpl"
  by (rule laws [unfolded x509_laws_def, THEN conjunct1, rule_format])

lemma create_law: "api_Create (cg_csrs g) x s = (Inr y, s') \<Longrightarrow> csr_Request y = csr_Request x"
  using laws unfolding x509_laws_def by blast

lemma approve_law: "cg_UpdateApproval g x s = (Inr y, s') \<Longrightarrow> csr_Request y = csr_Request x"
  using laws unfolding x509_laws_def by blast

lemma sign_law: "cg_WaitForCertificate g x t s = (Inr cert, s') \<Longrightarrow> names cert = requested (csr_Request x)"
  using laws unfolding x509_laws_def by blast

lemma load_law: "X509KeyPair (cg_x509 g) cert k = Inr c \<Longrightarrow> leaf c = cert"
  using laws unfolding x509_laws_def by blast

end

sublocale x509 \<subseteq> generator: cert_generator "certGenerator g" requested names leaf
proof
  show "requested pem = cn"
    if "GenerateX509CertificateSigningRequest (certGenerator g) cn w = (Inr (key, pem), w')" for cn w key pem w'
    using that
    by (auto simp: certGenerator_def cg_GenerateX509_def Let_def requestTemplate_def
        split: prod.splits sum.splits dest!: server_perform request_law create_law approve_law sign_law)
  show "csr_Request csr = pem"
    if "CreateCertificateSigningRequest (certGenerator g) pem w = (Inr csr, w')" for pem w csr w'
    using that
    by (auto simp: certGenerator_def cg_CreateCSR_def Let_def GenerateCertificateSigningRequest_def Create_def
        split: prod.splits sum.splits if_splits dest!: server_perform request_law create_law approve_law sign_law)
  show "csr_Request csr' = csr_Request csr"
    if "ApproveCertificateSigningRequest (certGenerator g) csr w = (Inr csr', w')" for csr w csr' w'
    using that by (auto simp: certGenerator_def cg_ApproveCSR_def dest!: server_perform request_law create_law approve_law sign_law)
  show "names cert = requested (csr_Request csr)"
    if "WaitForSignedCertificate (certGenerator g) csr t w = (Inr cert, w')" for csr t w cert w'
    using that by (auto simp: certGenerator_def cg_WaitForSigned_def dest!: server_perform request_law create_law approve_law sign_law)
  show "leaf c = cert" if "GetCertificate (certGenerator g) cert key = Inr c" for cert key c
    using that by (auto simp: certGenerator_def cg_GetCertificate_def Let_def load_law)
qed

context x509
begin

lemma certificate_for_service:
  assumes "wh_CertGenerator wh = certGenerator g" "GenerateAndSignTLSCertificate wh w = (Inr (pem, cert), w')"
  shows "leaf cert = pem \<and> names pem = svcCommonName wh"
  using assms by (rule generator.signed_for_service)

end

text \<open>
  What the registration relies on of the API server: after a \<open>CreateOrUpdate\<close> whose callback keeps the
  object's name the store holds an object the callback returned; after a \<open>Create\<close> it holds the object;
  creating a service changes no configuration.
\<close>

definition stores_law :: "('s, 'a) resource_api \<Rightarrow> bool" where
  "stores_law R \<longleftrightarrow>
     (\<forall>x f s res s'. (\<forall>z t y t'. f z t = (Inr y, t') \<longrightarrow> t' = t \<and>
         Name (api_meta R y) = Name (api_meta R z) \<and> Namespace (api_meta R y) = Namespace (api_meta R z)) \<longrightarrow>
       api_CreateOrUpdate R x f s = (Inr res, s') \<longrightarrow> written R x f s')"

definition service_laws :: "('s, Service) resource_api \<Rightarrow> ('s, WebhookConfiguration) resource_api \<Rightarrow> bool" where
  "service_laws S C \<longleftrightarrow>
     (\<forall>x s y s'. api_Create S x s = (Inr y, s') \<longrightarrow>
        (\<exists>z. api_Get S (Namespace (svc_meta x)) (Name (svc_meta x)) s' = (Inr z, s') \<and>
           svc_Ports z = svc_Ports x \<and> svc_Selector z = svc_Selector x)) \<and>
     (\<forall>x s y s' ns n cfg. api_Create S x s = (Inr y, s') \<longrightarrow> api_Get C ns n s = (Inr cfg, s) \<longrightarrow>
        api_Get C ns n s' = (Inr cfg, s'))"

text \<open>The API server can reach the webhook and trust it: the configuration it holds names an existing
  service in front of the operator's pods and carries the served certificate, which is issued for the
  host name of that service.\<close>

definition reachable_webhook ::
  "('s, 'h) Webhook \<Rightarrow> (string \<Rightarrow> string) \<Rightarrow> (tls_Certificate \<Rightarrow> string) \<Rightarrow> tls_Certificate \<Rightarrow> 's \<Rightarrow> bool"
where
  "reachable_webhook wh names leaf cert s \<longleftrightarrow>
     (\<exists>cfg vw svc. api_Get (wh_configs wh) '''' WebhookConfigName s = (Inr cfg, s) \<and> wc_Webhooks cfg = [vw] \<and>
        vw_FailurePolicy vw = Some ''Fail'' \<and> vw_ServicePath vw = Some ''/validate'' \<and>
        api_Get (wh_services wh) (vw_ServiceNamespace vw) (vw_ServiceName vw) s = (Inr svc, s) \<and>
        svc_Selector svc = Some [(''app'', ''greenplum-operator'')] \<and> map sp_Port (svc_Ports svc) = [443] \<and>
        vw_CABundle vw = leaf cert \<and>
        names (leaf cert) = vw_ServiceName vw @ ''.'' @ vw_ServiceNamespace vw @ ''.svc'')"

lemma mutateWebhookConfig_keeps:
  assumes "typed_webhook wh g" "mutateWebhookConfig wh pem z t = (Inr y, t')"
  shows "t' = t \<and> Name (wc_meta y) = Name (wc_meta z) \<and> Namespace (wc_meta y) = Namespace (wc_meta z) \<and>
    wc_Webhooks y = wc_Webhooks (ModifyWebhookConfiguration wh pem z)"
proof -
  from assms(2) obtain m where m: "wh_SetControllerReference wh (wh_WebhookCfgOwner wh)
      (wc_meta (ModifyWebhookConfiguration wh pem z)) = Inr m"
    and y: "y = ModifyWebhookConfiguration wh pem z\<lparr>wc_meta := m\<rparr>" "t' = t"
    by (auto simp: mutateWebhookConfig_def Let_def split: sum.splits)
  from assms(1) have "reference_laws (wh_SetControllerReference wh)" by (simp add: typed_webhook_def)
  from reference_name [OF this m] y show ?thesis by (simp add: ModifyWebhookConfiguration_def)
qed

lemma registered_state:
  assumes typed: "typed_webhook wh g" and "stores_law (wh_configs wh)" "service_laws (wh_services wh) (wh_configs wh)"
    and run: "ReconcileValidatingWebhookConfiguration wh pem w = (Inr u, w')"
    and cert: "leaf cert = pem" "names pem = svcCommonName wh"
  shows "reachable_webhook wh names leaf cert (server w')"
proof -
  let ?f = "mutateWebhookConfig wh pem"
  let ?svc = "CreateSVCForValidatingWebhookConfiguration wh"
  from run obtain res w1 m x where cfg: "CreateOrUpdate (wh_configs wh) newWebhookConfig ?f w = (Inr res, w1)"
    and m: "wh_SetControllerReference wh (wh_ServiceOwner wh) (svc_meta ?svc) = Inr m"
    and svc: "Create (wh_services wh) (?svc\<lparr>svc_meta := m\<rparr>) w1 = (Inr x, w')"
    by (auto simp: ReconcileValidatingWebhookConfiguration_def Let_def split: prod.splits sum.splits)
  have "written (wh_configs wh) newWebhookConfig ?f (server w1)"
    using assms(2) server_perform [OF cfg [unfolded CreateOrUpdate_def]] mutateWebhookConfig_keeps [OF typed] typed
    unfolding stores_law_def typed_webhook_def by (metis (no_types, lifting))
  then obtain y x0 s0 s1 where get: "api_Get (wh_configs wh) '''' WebhookConfigName (server w1) = (Inr y, server w1)"
    and "?f x0 s0 = (Inr y, s1)"
    using typed by (auto simp: written_def typed_webhook_def newWebhookConfig_def)
  then have hooks: "wc_Webhooks y = wc_Webhooks (ModifyWebhookConfiguration wh pem x0)"
    using mutateWebhookConfig_keeps [OF typed] by blast
  from typed have ref: "reference_laws (wh_SetControllerReference wh)" by (simp add: typed_webhook_def)
  have nm: "Name m = WebhookServiceName @ wh_NameSuffix wh" "Namespace m = wh_Namespace wh"
    using reference_name [OF ref m] by (simp_all add: CreateSVCForValidatingWebhookConfiguration_def)
  note created = server_perform [OF svc [unfolded Create_def]]
  then have "api_Get (wh_configs wh) '''' WebhookConfigName (server w') = (Inr y, server w')"
    using assms(3) get unfolding service_laws_def by blast
  moreover obtain z where "api_Get (wh_services wh) (wh_Namespace wh) (WebhookServiceName @ wh_NameSuffix wh) (server w') =
      (Inr z, server w')" "svc_Ports z = svc_Ports ?svc" "svc_Selector z = svc_Selector ?svc"
    using assms(3) [unfolded service_laws_def, THEN conjunct1, rule_format, OF created] nm by auto
  ultimately show ?thesis
    unfolding reachable_webhook_def using hooks cert
    by (intro exI [of _ y] exI [of _ z] exI [of _ "hd (wc_Webhooks y)"])
      (simp add: ModifyWebhookConfiguration_def CreateSVCForValidatingWebhookConfiguration_def svcCommonName_def)
qed

lemma makes_Webhook_Run_prefix:
  assumes "typed_webhook wh g" "Webhook_Run wh w = (r, w')"
  shows "\<exists>n\<le>9. calls w' = calls w @
      take n (certificateCalls wh @ registrationCalls wh @ [LibraryCall ''Server.Start'' '':https'']) \<and>
      (n < 9 \<longrightarrow> (\<exists>e. r = Inl e)) \<and>
      (n = 9 \<longrightarrow> (\<exists>pem cert w1 w2 u e. GenerateAndSignTLSCertificate wh w = (Inr (pem, cert), w1) \<and>
         ReconcileValidatingWebhookConfiguration wh pem w1 = (Inr u, w2) \<and> StartServer wh cert w2 = (e, w')))"
proof -
  note gen = makes_GenerateAndSign [OF assms(1)] and reg = makes_ReconcileWebhook [OF assms(1)]
  have len: "length (certificateCalls wh) = 6" "length (registrationCalls wh) = 2"
    by (simp_all add: certificateCalls_def registrationCalls_def)
  obtain r1 w1 where g: "GenerateAndSignTLSCertificate wh w = (r1, w1)" by fastforce
  show ?thesis
  proof (cases r1)
    case (Inl e)
    then obtain n where "n \<le> 6" "calls w1 = calls w @ take n (certificateCalls wh)"
      using makes_Inl [OF _ gen] g len by metis
    then show ?thesis using assms(2) g Inl len by (intro exI [of _ n]) (auto simp: Webhook_Run_def)
  next
    case (Inr p)
    then obtain pem cert where p: "r1 = Inr (pem, cert)" by (cases p) auto
    then have c1: "calls w1 = calls w @ certificateCalls wh" using makes_Inr [OF _ gen] g by blast
    obtain r2 w2 where h: "ReconcileValidatingWebhookConfiguration wh pem w1 = (r2, w2)" by fastforce
    show ?thesis
    proof (cases r2)
      case (Inl e)
      then obtain n where "n \<le> 2" "calls w2 = calls w1 @ take n (registrationCalls wh)"
        using makes_Inl [OF _ reg] h len by metis
      then show ?thesis using assms(2) g p h Inl c1 len
        by (intro exI [of _ "6 + n"]) (auto simp: Webhook_Run_def)
    next
      case (Inr u)
      then have c2: "calls w2 = calls w1 @ registrationCalls wh" using makes_Inr [OF _ reg] h by blast
      obtain e w3 where s: "StartServer wh cert w2 = (e, w3)" by fastforce
      then have "calls w3 = calls w2 @ [LibraryCall ''Server.Start'' '':https'']"
        unfolding StartServer_def by (rule calls_perform)
      then show ?thesis using assms(2) g p h Inr c1 c2 s len
        by (intro exI [of _ 9]) (auto simp: Webhook_Run_def split: option.splits if_splits)
    qed
  qed
qed

section \<open>A concrete webhook\<close>

text \<open>Tables for the three kinds of object, a signer that returns the request as the certificate, and a
  server that is closed at once.\<close>

record hook_store =
  hs_csrs :: "CertificateSigningRequest list"
  hs_configs :: "WebhookConfiguration list"
  hs_services :: "Service list"

definition demo_x509 :: "'s x509_lib" where
  "demo_x509 =
     \<lparr>rsa_GenerateKey = (\<lambda>n s. (Inr ''key'', s)),
      CreateCertificateRequest = (\<lambda>tmpl key s. (Inr (cr_CommonName tmpl), s)),
      pem_EncodeToMemory = (\<lambda>typ b. b),
      x509_MarshalPKCS1PrivateKey = (\<lambda>key. key),
      X509KeyPair = (\<lambda>cert key. Inr (TlsCertificate cert))\<rparr>"

definition demo_generator :: "hook_store CertificateGenerator" where
  "demo_generator =
     \<lparr>cg_csrs = table_api KCSR csr_meta hs_csrs (\<lambda>t s. s\<lparr>hs_csrs := t\<rparr>) (\<lambda>x b y. x),
      cg_UpdateApproval = (\<lambda>x s. (Inr x, s)),
      cg_WaitForCertificate = (\<lambda>x t s. (Inr (csr_Request x), s)),
      cg_Owner = objectMeta ''crd'' '''',
      cg_SetControllerReference = append_owner,
      cg_x509 = demo_x509\<rparr>"

definition demo_webhook :: "(hook_store, unit) Webhook" where
  "demo_webhook =
     \<lparr>wh_configs = table_api KWebhookConfig wc_meta hs_configs (\<lambda>t s. s\<lparr>hs_configs := t\<rparr>) (\<lambda>x b y. x),
      wh_services = table_api KService svc_meta hs_services (\<lambda>t s. s\<lparr>hs_services := t\<rparr>) (\<lambda>x b y. x),
      wh_Namespace = ''ns'',
      wh_ServiceOwner = objectMeta ''greenplum-operator-x'' ''ns'',
      wh_WebhookCfgOwner = objectMeta ''crd'' '''',
      wh_NameSuffix = ''-x'',
      wh_Server = (\<lambda>cert addr h s. (Some ErrServerClosed, s)),
      wh_Handler = (),
      wh_CertGenerator = certGenerator demo_generator,
      wh_SetControllerReference = append_owner\<rparr>"

definition demo_leaf :: "tls_Certificate \<Rightarrow> string" where
  "demo_leaf c = (case c of TlsCertificate s \<Rightarrow> s)"

definition demo_hook_world :: "hook_store world" where
  "demo_hook_world = \<lparr>server = \<lparr>hs_csrs = [], hs_configs = [], hs_services = []\<rparr>, calls = []\<rparr>"

lemma demo_x509_laws: "x509_laws demo_generator id id demo_leaf"
  unfolding x509_laws_def
  by (auto simp: demo_generator_def demo_x509_def demo_leaf_def table_api_def split: option.splits)

interpretation demo_x509: x509 demo_generator id id demo_leaf
  by unfold_locales (rule demo_x509_laws)

lemma demo_typed_webhook: "typed_webhook demo_webhook demo_generator"
  by (simp add: typed_webhook_def demo_webhook_def demo_generator_def append_owner_laws)

lemma table_api_stores:
  assumes tab: "\<And>t s. tab (set_tab t s) = t"
  shows "stores_law (table_api k meta tab set_tab mg)" (is "stores_law ?R")
  unfolding stores_law_def
proof (intro allI impI)
  fix x f s res s'
  assume f: "\<forall>z t y t'. f z t = (Inr y, t') \<longrightarrow> t' = t \<and>
      Name (api_meta ?R y) = Name (api_meta ?R z) \<and> Namespace (api_meta ?R y) = Namespace (api_meta ?R z)"
    and run: "api_CreateOrUpdate ?R x f s = (Inr res, s')"
  let ?find = "find (named meta (Namespace (meta x)) (Name (meta x)))"
  show "written ?R x f s'"
  proof (cases "?find (tab s)")
    case None
    with run obtain y s1 where y: "f x s = (Inr y, s1)" and s': "s' = set_tab (tab s1 @ [y]) s1"
      by (auto simp: table_api_def split: prod.splits sum.splits)
    with f have "s1 = s" "Name (meta y) = Name (meta x)" "Namespace (meta y) = Namespace (meta x)" by auto
    then have "?find (tab s') = Some y" using find_append_named [OF None] by (simp add: s' tab)
    with y show ?thesis unfolding written_def by (auto simp: table_api_def)
  next
    case (Some y)
    with run obtain z s1 where z: "f y s = (Inr z, s1)"
      and s': "s' = (if z = y then s1 else set_tab (map (\<lambda>u. if named meta (Namespace (meta x)) (Name (meta x)) u
                 then z else u) (tab s1)) s1)"
      by (auto simp: table_api_def split: prod.splits sum.splits if_splits)
    with f have "s1 = s" "Name (meta z) = Name (meta y)" "Namespace (meta z) = Namespace (meta y)" by auto
    then have "?find (tab s') = Some z"
      using Some find_map_named [OF Some] find_named [OF Some] by (auto simp: s' tab)
    with z show ?thesis unfolding written_def by (auto simp: table_api_def)
  qed
qed

lemma demo_service_laws: "service_laws (wh_services demo_webhook) (wh_configs demo_webhook)"
  unfolding service_laws_def demo_webhook_def
  by (auto simp: table_api_def find_append_named split: option.splits)

section \<open>Properties\<close>

text \<open>C14: Starting the webhook requests a certificate, gets it signed, registers the webhook, creates its
  service and only then serves, and a failure at any point stops it there. When it serves, the
  configuration the API server holds denies by default, points at an existing service in front of the
  operator's pods and carries the served certificate, which is issued for that service's host name.\<close>

theorem webhook_serves_what_it_registers:
  assumes "typed_webhook wh g" "x509_laws g requested names leaf"
    and "stores_law (wh_configs wh)" "service_laws (wh_services wh) (wh_configs wh)"
    and "Webhook_Run wh w = (r, w')"
  shows "\<exists>n\<le>9. calls w' = calls w @
      take n (certificateCalls wh @ registrationCalls wh @ [LibraryCall ''Server.Start'' '':https'']) \<and>
      (n < 9 \<longrightarrow> (\<exists>e. r = Inl e)) \<and>
      (n = 9 \<longrightarrow> (\<exists>cert w2 e. StartServer wh cert w2 = (e, w') \<and>
         reachable_webhook wh names leaf cert (server w2)))"
proof -
  have signed: "leaf cert = pem \<and> names pem = svcCommonName wh"
    if "GenerateAndSignTLSCertificate wh w = (Inr (pem, cert), w1)" for pem cert w1
    using x509.certificate_for_service [OF x509.intro [OF assms(2)] _ that] assms(1) by (simp add: typed_webhook_def)
  obtain n where n: "n \<le> 9" "calls w' = calls w @
      take n (certificateCalls wh @ registrationCalls wh @ [LibraryCall ''Server.Start'' '':https''])"
      "n < 9 \<longrightarrow> (\<exists>e. r = Inl e)"
    and full: "n = 9 \<longrightarrow> (\<exists>pem cert w1 w2 u e. GenerateAndSignTLSCertificate wh w = (Inr (pem, cert), w1) \<and>
         ReconcileValidatingWebhookConfiguration wh pem w1 = (Inr u, w2) \<and> StartServer wh cert w2 = (e, w'))"
    using makes_Webhook_Run_prefix [OF assms(1,5)] by blast
  have "\<exists>cert w2 e. StartServer wh cert w2 = (e, w') \<and> reachable_webhook wh names leaf cert (server w2)"
    if "n = 9"
    using full that signed registered_state [OF assms(1,3,4)] by blast
  with n show ?thesis by blast
qed

theorem webhook_serves_what_it_registers_witness:
  "fst (Webhook_Run demo_webhook demo_hook_world) = Inr () \<and>
   (\<exists>cert w2 e. StartServer demo_webhook cert w2 = (e, snd (Webhook_Run demo_webhook demo_hook_world)) \<and>
      reachable_webhook demo_webhook id demo_leaf cert (server w2))"
proof -
  have ok: "fst (Webhook_Run demo_webhook demo_hook_world) = Inr ()" by code_simp
  have st: "stores_law (wh_configs demo_webhook)"
    by (simp add: demo_webhook_def table_api_stores)
  show ?thesis
    using webhook_serves_what_it_registers [OF demo_typed_webhook demo_x509_laws st demo_service_laws
        prod.collapse [symmetric], of demo_hook_world] ok
    by (metis (no_types, lifting) Inl_Inr_False le_neq_implies_less)
qed

text \<open>The server serves with the certificate and the handler it was started with, and it returns
  \<open>ErrServerClosed\<close> on its own account only after the stop channel was closed.\<close>

lemma tls_server_returns:
  assumes "(tls_step listen_fails)\<^sup>*\<^sup>* (tlsServer_Start srv cert addr handler) st"
  shows "srv_Certificates (tls_srv st) = [cert] \<and> srv_Handler (tls_srv st) = Some handler \<and>
    srv_Addr (tls_srv st) = addr \<and>
    (\<forall>e. tls_main st = ServeReturned e \<longrightarrow> listen_fails (tls_srv st) e \<or>
       e = ErrServerClosed \<and> tls_stop st \<noteq> AwaitingStop)"
  using assms by (induction rule: rtranclp_induct) (auto simp: tlsServer_Start_def elim!: tls_step.cases)

text \<open>A service that exists makes its creation fail, and registering the configuration keeps services.\<close>

definition conflict_laws :: "('s, Service) resource_api \<Rightarrow> ('s, WebhookConfiguration) resource_api \<Rightarrow> bool" where
  "conflict_laws S C \<longleftrightarrow>
     (\<forall>x s y. api_Get S (Namespace (svc_meta x)) (Name (svc_meta x)) s = (Inr y, s) \<longrightarrow>
        (\<exists>e. fst (api_Create S x s) = Inl e)) \<and>
     (\<forall>x f s r s' ns n y. (\<forall>z t. snd (f z t) = t) \<longrightarrow> api_CreateOrUpdate C x f s = (r, s') \<longrightarrow>
        api_Get S ns n s = (Inr y, s) \<longrightarrow> api_Get S ns n s' = (Inr y, s'))"

lemma demo_conflict_laws: "conflict_laws (wh_services demo_webhook) (wh_configs demo_webhook)"
proof -
  have keep: "hs_services s' = hs_services s"
    if "api_CreateOrUpdate (wh_configs demo_webhook) x f s = (r, s')" "\<forall>z t. snd (f z t) = t" for x f s r s'
    using that by (auto simp: demo_webhook_def table_api_def split: option.splits prod.splits sum.splits if_splits)
      (metis snd_conv)+
  have get: "api_Get (wh_services demo_webhook) ns n s =
      (case find (named svc_meta ns n) (hs_services s) of None \<Rightarrow> Inl (not_found n) | Some x \<Rightarrow> Inr x, s)" for ns n s
    by (simp add: demo_webhook_def table_api_def)
  show ?thesis
    unfolding conflict_laws_def get
  proof (intro conjI allI impI)
    fix x :: Service and s :: hook_store and y
    assume "(case find (named svc_meta (Namespace (svc_meta x)) (Name (svc_meta x))) (hs_services s) of
        None \<Rightarrow> Inl (not_found (Name (svc_meta x))) | Some x \<Rightarrow> Inr x, s) = (Inr y, s)"
    then show "\<exists>e. fst (api_Create (wh_services demo_webhook) x s) = Inl e"
      by (auto simp: demo_webhook_def table_api_def split: option.splits)
  next
    fix x f s r s' ns n and y :: Service
    assume "\<forall>z t. snd (f z t) = t" "api_CreateOrUpdate (wh_configs demo_webhook) x f s = (r, s')"
      and "(case find (named svc_meta ns n) (hs_services s) of None \<Rightarrow> Inl (not_found n) | Some x \<Rightarrow> Inr x, s) = (Inr y, s)"
    then show "(case find (named svc_meta ns n) (hs_services s') of None \<Rightarrow> Inl (not_found n) | Some x \<Rightarrow> Inr x, s') = (Inr y, s')"
      using keep by (metis fst_conv)
  qed
qed

lemma registration_conflict:
  assumes typed: "typed_webhook wh g" and laws: "conflict_laws (wh_services wh) (wh_configs wh)"
    and svc: "api_Get (wh_services wh) (wh_Namespace wh) (WebhookServiceName @ wh_NameSuffix wh) (server w) =
      (Inr svc, server w)"
  shows "\<exists>e w'. ReconcileValidatingWebhookConfiguration wh pem w = (Inl e, w')"
proof -
  let ?svc = "CreateSVCForValidatingWebhookConfiguration wh"
  obtain r1 w1 where cfg: "CreateOrUpdate (wh_configs wh) newWebhookConfig (mutateWebhookConfig wh pem) w = (r1, w1)"
    by fastforce
  have "snd (mutateWebhookConfig wh pem z t) = t" for z t
    by (simp add: mutateWebhookConfig_def Let_def split: sum.split)
  then have kept: "api_Get (wh_services wh) (wh_Namespace wh) (WebhookServiceName @ wh_NameSuffix wh) (server w1) =
      (Inr svc, server w1)"
    using laws svc server_perform [OF cfg [unfolded CreateOrUpdate_def]] unfolding conflict_laws_def by blast
  have "\<exists>e w2. Create (wh_services wh) (?svc\<lparr>svc_meta := m\<rparr>) w1 = (Inl e, w2)"
    if m: "wh_SetControllerReference wh (wh_ServiceOwner wh) (svc_meta ?svc) = Inr m" for m
  proof -
    from typed have ref: "reference_laws (wh_SetControllerReference wh)" by (simp add: typed_webhook_def)
    have nm: "Name m = WebhookServiceName @ wh_NameSuffix wh" "Namespace m = wh_Namespace wh"
      using reference_name [OF ref m] by (simp_all add: CreateSVCForValidatingWebhookConfiguration_def)
    obtain e where "fst (api_Create (wh_services wh) (?svc\<lparr>svc_meta := m\<rparr>) (server w1)) = Inl e"
      using laws kept nm unfolding conflict_laws_def by (metis Service.select_convs(1) Service.surjective Service.update_convs(1))
    then show ?thesis by (auto simp: Create_def perform_def split: prod.splits)
  qed
  then show ?thesis
    unfolding ReconcileValidatingWebhookConfiguration_def cfg Let_def
    by (cases r1; cases "wh_SetControllerReference wh (wh_ServiceOwner wh) (svc_meta ?svc)") fastforce+
qed

text \<open>C31: The service of the webhook is created, never updated: when it is already there, as after a
  restart of the operator's container inside its pod, the start of the webhook ends with an error and
  the server is not started.\<close>

theorem webhook_restart_fails:
  assumes "typed_webhook wh g" "conflict_laws (wh_services wh) (wh_configs wh)"
    and "GenerateAndSignTLSCertificate wh w = (cert, w1)"
    and "api_Get (wh_services wh) (wh_Namespace wh) (WebhookServiceName @ wh_NameSuffix wh) (server w1) =
      (Inr svc, server w1)"
    and "Webhook_Run wh w = (r, w')"
  shows "(\<exists>e. r = Inl e) \<and>
    (\<exists>n<9. calls w' = calls w @
      take n (certificateCalls wh @ registrationCalls wh @ [LibraryCall ''Server.Start'' '':https'']))"
proof -
  have "\<exists>e w2. ReconcileValidatingWebhookConfiguration wh pem w1 = (Inl e, w2)" for pem
    using registration_conflict [OF assms(1,2,4)] .
  with assms(3) have "\<not> (\<exists>pem cert w1 w2 u e. GenerateAndSignTLSCertificate wh w = (Inr (pem, cert), w1) \<and>
         ReconcileValidatingWebhookConfiguration wh pem w1 = (Inr u, w2) \<and> StartServer wh cert w2 = (e, w'))"
    by (metis Inl_Inr_False prod.inject)
  then show ?thesis using makes_Webhook_Run_prefix [OF assms(1,5)] by (metis le_neq_implies_less)
qed

theorem webhook_restart_fails_witness:
  "\<exists>e. fst (Webhook_Run demo_webhook (snd (Webhook_Run demo_webhook demo_hook_world))) = Inl e"
proof -
  let ?w = "snd (Webhook_Run demo_webhook demo_hook_world)"
  let ?w1 = "snd (GenerateAndSignTLSCertificate demo_webhook ?w)"
  have some: "find (named svc_meta (wh_Namespace demo_webhook) (WebhookServiceName @ wh_NameSuffix demo_webhook))
      (hs_services (server ?w1)) \<noteq> None"
    by code_simp
  then obtain svc where "api_Get (wh_services demo_webhook) (wh_Namespace demo_webhook)
      (WebhookServiceName @ wh_NameSuffix demo_webhook) (server ?w1) = (Inr svc, server ?w1)"
    by (auto simp: demo_webhook_def table_api_def)
  from webhook_restart_fails [OF demo_typed_webhook demo_conflict_laws prod.collapse [symmetric] this
      prod.collapse [symmetric]]
  show ?thesis by blast
qed

end
