(* ===== verification/Pxf_Start.thy ===== *)
theory Pxf_Start
  imports Pxf Command_Log Demo_Machine
begin

text \<open>
  The start of a PXF server (\<open>greenplum-instance/cmd/startPXF\<close>): the location of its configuration from
  the environment, the download of the configuration from S3 (\<open>s3downloader\<close>) and the PXF processes.
  The S3 client (\<open>minio-go\<close>) is a parameter. The lemmas show that the environment the operator
  generates is read back, what a download leaves on the disk, and that PXF is started on the whole
  configuration only.
\<close>

section \<open>Definitions\<close>

subsection \<open>Paths\<close>

text \<open>\<open>path.Clean\<close> on the elements of a path: a stack of elements, the last on top.\<close>

definition clean_step :: "bool \<Rightarrow> string list \<Rightarrow> string \<Rightarrow> string list" where
  "clean_step rooted st c =
     (if c = '''' \<or> c = ''.'' then st
      else if c = ''..''
      then (case st of
              [] \<Rightarrow> (if rooted then [] else [''..''])
            | x # xs \<Rightarrow> (if x = ''..'' then ''..'' # st else xs))
      else c # st)"

definition path_Clean :: "string \<Rightarrow> string" where
  "path_Clean p =
     (let rooted = HasPrefix p ''/'';
          out = Join (rev (foldl (clean_step rooted) [] (Split p (CHR ''/'')))) ''/''
      in if rooted then ''/'' @ out else if out = '''' then ''.'' else out)"

definition path_Join :: "string list \<Rightarrow> string" where
  "path_Join elems =
     (let es = filter (\<lambda>e. e \<noteq> '''') elems in if es = [] then '''' else path_Clean (Join es ''/''))"

definition firstPathComponent :: "string \<Rightarrow> string" where
  "firstPathComponent p = takeWhile (\<lambda>c. c \<noteq> CHR ''/'') p"

subsection \<open>Download\<close>

record ObjectInfo =
  oi_Key :: string
  oi_Size :: int
  oi_Err :: "go_error option"

text \<open>
  The S3 client: the listing as the sequence received from its channel, and an object as the bytes that
  can be read from it and the error that ends them, if any.
\<close>

record 's S3Client =
  s3_ListObjects :: "string \<Rightarrow> string \<Rightarrow> bool \<Rightarrow> 's \<Rightarrow> ObjectInfo list \<times> 's"
  s3_GetObject :: "string \<Rightarrow> string \<Rightarrow> 's \<Rightarrow> (string \<times> go_error option) result \<times> 's"

definition MalformedConfDirWarning :: string where
  "MalformedConfDirWarning =
     ''warning: PXF S3 conf data doesn'' @ [CHR 0x27] @ ''t look like a PXF conf directory. '' @
     ''Please check pxfConf.s3Source setting''"

definition KnownPxfConfSubdirs :: "string list" where
  "KnownPxfConfSubdirs = [''conf'', ''keytabs'', ''lib'', ''logs'', ''servers'', ''templates'']"

definition fileKeyOf :: "string \<Rightarrow> string \<Rightarrow> string" where
  "fileKeyOf s3Folder key =
     (if s3Folder \<noteq> '''' then TrimPrefix (TrimPrefix key s3Folder) ''/'' else key)"

definition isFile :: "ObjectInfo \<Rightarrow> bool" where
  "isFile info = (oi_Size info > 0 \<and> \<not> HasSuffix (oi_Key info) ''/'')"

text \<open>\<open>%#v\<close> of a string.\<close>

definition goSyntax :: "string \<Rightarrow> string" where
  "goSyntax s = [CHR 0x22] @
     concat (map (\<lambda>c. if c = CHR 0x22 \<or> c = CHR 0x5C then [CHR 0x5C, c] else [c]) s) @ [CHR 0x22]"

text \<open>\<open>io.Copy\<close>: what could be read is written, then the reader's error is reported.\<close>

definition io_Copy ::
  "'s machine \<Rightarrow> string \<Rightarrow> nat \<Rightarrow> string \<times> go_error option \<Rightarrow> ('s, int result) io"
where
  "io_Copy M filename file obj w =
     (case Write M filename file (fst obj) w of
        (Inl err, w1) \<Rightarrow> (Inl err, w1)
      | (Inr u, w1) \<Rightarrow>
          (case snd obj of Some err \<Rightarrow> (Inl err, w1) | None \<Rightarrow> (Inr (int (length (fst obj))), w1)))"

text \<open>The part of the loop that stores one object.\<close>

definition downloadObject ::
  "'s machine \<Rightarrow> 's S3Client \<Rightarrow> string \<Rightarrow> string \<Rightarrow> string \<Rightarrow> ObjectInfo \<Rightarrow> ('s, unit result) io"
where
  "downloadObject M C bucket s3Folder localDirectory info w =
     (case perform (LibraryCall ''GetObject'' (oi_Key info)) (s3_GetObject C bucket (oi_Key info)) w of
        (Inl err, w1) \<Rightarrow> (Inl (Wrap ''s3 get object'' err), w1)
      | (Inr obj, w1) \<Rightarrow>
          (let filename = path_Join [localDirectory, fileKeyOf s3Folder (oi_Key info)]
           in case MkdirAll M (path_Dir filename) 511 w1 of
                (Inl err, w2) \<Rightarrow> (Inl (Wrap ''making download destination directory'' err), w2)
              | (Inr u, w2) \<Rightarrow>
                  (case OpenFile M filename [O_WRONLY, O_CREATE, O_TRUNC] 420 w2 of
                     (Inl err, w3) \<Rightarrow> (Inl (Wrap ''open destination file'' err), w3)
                   | (Inr file, w3) \<Rightarrow>
                       (case io_Copy M filename file obj w3 of
                          (Inl err, w4) \<Rightarrow> (Inl (Wrap ''writing destination file'' err), w4)
                        | (Inr numBytes, w4) \<Rightarrow>
                            (if numBytes < oi_Size info
                             then (Inl (Err (''wrote '' @ Itoa numBytes @ '' bytes to '' @ goSyntax filename @
                                    '' but expected to write '' @ Itoa (oi_Size info) @ '' bytes'')), w4)
                             else (Inr (), w4))))))"

fun downloadLoop ::
  "'s machine \<Rightarrow> 's S3Client \<Rightarrow> string \<Rightarrow> string \<Rightarrow> string \<Rightarrow> ObjectInfo list \<Rightarrow> nat \<Rightarrow> bool \<Rightarrow>
   ('s, (nat \<times> bool) result) io"
where
  "downloadLoop M C bucket s3Folder localDirectory [] numObjects saw w = (Inr (numObjects, saw), w)"
| "downloadLoop M C bucket s3Folder localDirectory (info # infos) numObjects saw w =
     (case oi_Err info of
        Some err \<Rightarrow> (Inl (Wrap ''s3 list objects'' err), w)
      | None \<Rightarrow>
          (if isFile info
           then (case downloadObject M C bucket s3Folder localDirectory info w of
                   (Inl err, w1) \<Rightarrow> (Inl err, w1)
                 | (Inr u, w1) \<Rightarrow>
                     downloadLoop M C bucket s3Folder localDirectory infos (Suc numObjects)
                       (saw \<or> firstPathComponent (fileKeyOf s3Folder (oi_Key info)) \<in> set KnownPxfConfSubdirs) w1)
           else downloadLoop M C bucket s3Folder localDirectory infos numObjects saw w))"

definition DownloadBucketPath ::
  "'s machine \<Rightarrow> 's S3Client \<Rightarrow> string \<Rightarrow> string \<Rightarrow> string \<Rightarrow> ('s, unit result) io"
where
  "DownloadBucketPath M C bucket s3Folder localDirectory w =
     (case perform (LibraryCall ''ListObjects'' bucket) (s3_ListObjects C bucket s3Folder True) w of
        (infos, w1) \<Rightarrow>
          (case downloadLoop M C bucket s3Folder localDirectory infos 0 False w1 of
             (Inl err, w2) \<Rightarrow> (Inl err, w2)
           | (Inr (numObjects, saw), w2) \<Rightarrow>
               (if numObjects = 0
                then (Inl (Err (''no objects found in pxfConf.s3Source location: '' @ bucket @ ''/'' @ s3Folder)), w2)
                else if \<not> saw
                then (Inr (), w2\<lparr>calls := calls w2 @ [LibraryCall ''log.Info'' MalformedConfDirWarning]\<rparr>)
                else (Inr (), w2))))"

subsection \<open>The start\<close>

record s3Location =
  accessKeyID :: string
  secretAccessKey :: string
  endpoint :: string
  isSecure :: bool
  bucket :: string
  folder :: string

text \<open>\<open>b, _ := strconv.ParseBool(value)\<close>: an unreadable value counts as false.\<close>

definition readS3LocationFromEnv :: "(string \<Rightarrow> string) \<Rightarrow> s3Location" where
  "readS3LocationFromEnv Getenv =
     \<lparr>accessKeyID = Getenv ''S3_ACCESS_KEY_ID'',
      secretAccessKey = Getenv ''S3_SECRET_ACCESS_KEY'',
      endpoint = Getenv ''S3_ENDPOINT'',
      isSecure = (case ParseBool (Getenv ''S3_ENDPOINT_IS_SECURE'') of Inl err \<Rightarrow> False | Inr b \<Rightarrow> b),
      bucket = Getenv ''S3_BUCKET'',
      folder = Getenv ''S3_FOLDER''\<rparr>"

text \<open>\<open>minio.New\<close> with the four connection fields.\<close>

definition DownloaderFactory ::
  "(string \<Rightarrow> string \<Rightarrow> string \<Rightarrow> bool \<Rightarrow> 's S3Client result) \<Rightarrow> s3Location \<Rightarrow> 's S3Client result"
where
  "DownloaderFactory minio_New s3 =
     minio_New (endpoint s3) (accessKeyID s3) (secretAccessKey s3) (isSecure s3)"

definition startAndFollow :: "'s machine \<Rightarrow> ('s, unit result) io" where
  "startAndFollow M w =
     (case RunCmd M (Command ''/usr/local/pxf-gp6/bin/pxf'' [''start'']) w of
        (Inl err, w1) \<Rightarrow> (Inl err, w1)
      | (Inr u, w1) \<Rightarrow>
          (case m_ReadFile M ''/usr/local/pxf-gp6/run/catalina.pid'' (server w1) of
             Inl err \<Rightarrow> (Inl (Wrap ''reading catalina.pid file'' err), w1)
           | Inr pidBytes \<Rightarrow>
               (case RunCmd M (Command ''tail'' [''--pid='' @ TrimSpace pidBytes, ''-f'',
                        ''/etc/pxf/logs/pxf-service.log'', ''-n'', ''+0'']) w1 of
                  (Inl err, w2) \<Rightarrow> (Inl (Wrap ''reading logs'' err), w2)
                | (Inr u, w2) \<Rightarrow> (Inr (), w2))))"

definition PXFStarter_Run ::
  "'s machine \<Rightarrow> (string \<Rightarrow> string) \<Rightarrow> (s3Location \<Rightarrow> 's S3Client result) \<Rightarrow> ('s, unit result) io"
where
  "PXFStarter_Run M Getenv Factory w =
     (let s3 = readS3LocationFromEnv Getenv
      in if endpoint s3 \<noteq> ''''
         then (case Factory s3 of
                 Inl err \<Rightarrow> (Inl err, w)
               | Inr downloader \<Rightarrow>
                   (case DownloadBucketPath M downloader (bucket s3) (folder s3) ''/etc/pxf'' w of
                      (Inl err, w1) \<Rightarrow> (Inl err, w1)
                    | (Inr u, w1) \<Rightarrow> startAndFollow M w1))
         else startAndFollow M w)"

definition startPXF_main :: "('s, unit result) io \<Rightarrow> ('s, int) io" where
  "startPXF_main run w = (case run w of (Inl err, w1) \<Rightarrow> (1, w1) | (Inr u, w1) \<Rightarrow> (0, w1))"

section \<open>What the environment and the storage promise\<close>

text \<open>The environment of a container: plain values, and secret keys resolved when the pod starts.\<close>

definition pod_env :: "(string \<Rightarrow> string \<Rightarrow> string) \<Rightarrow> EnvVar list \<Rightarrow> string \<Rightarrow> string" where
  "pod_env secretKey env name =
     (case find (\<lambda>e. env_Name e = name) env of
        None \<Rightarrow> ''''
      | Some e \<Rightarrow> (case env_SecretKeyRef e of None \<Rightarrow> env_Value e | Some (s, k) \<Rightarrow> secretKey s k))"

definition pxfContainerEnv :: "Deployment \<Rightarrow> EnvVar list" where
  "pxfContainerEnv d = c_Env (hd (ps_Containers (pt_Spec (d_Template d))))"

text \<open>An object read without an error is \<open>content bucket key\<close>; the storage does not touch local files.\<close>

definition s3_laws ::
  "'s S3Client \<Rightarrow> ('s \<Rightarrow> string \<rightharpoonup> string) \<Rightarrow> ('s \<Rightarrow> nat \<rightharpoonup> handle) \<Rightarrow> (string \<Rightarrow> string \<Rightarrow> string) \<Rightarrow> bool"
where
  "s3_laws C view at content \<longleftrightarrow>
     (\<forall>b k s r s'. s3_GetObject C b k s = (r, s') \<longrightarrow>
        view s' = view s \<and> at s' = at s \<and> (\<forall>c. r = Inr (c, None) \<longrightarrow> c = content b k)) \<and>
     (\<forall>b f rec s r s'. s3_ListObjects C b f rec s = (r, s') \<longrightarrow> view s' = view s \<and> at s' = at s)"

definition targetFile :: "string \<Rightarrow> string \<Rightarrow> ObjectInfo \<Rightarrow> string" where
  "targetFile dir fld info = path_Join [dir, fileKeyOf fld (oi_Key info)]"

text \<open>The files after every object of a listing that is a file was stored.\<close>

definition stored ::
  "string \<Rightarrow> string \<Rightarrow> (string \<Rightarrow> string) \<Rightarrow> ObjectInfo list \<Rightarrow> (string \<rightharpoonup> string) \<Rightarrow> string \<rightharpoonup> string"
where
  "stored dir fld cont infos = fold (\<lambda>i v. v(targetFile dir fld i \<mapsto> cont (oi_Key i))) (filter isFile infos)"

section \<open>Lemmas\<close>

lemma downloadObject_view:
  assumes "file_laws M view at" "s3_laws C view at content"
    and "downloadObject M C b f dir info w = (Inr u, w')"
  shows "view (server w') = (view (server w))(targetFile dir f info \<mapsto> content b (oi_Key info)) \<and>
    oi_Size info \<le> int (length (content b (oi_Key info))) \<and> commands w' = commands w"
proof -
  let ?file = "targetFile dir f info"
  from assms(3) obtain obj w1 w2 h w3 n where
    get: "perform (LibraryCall ''GetObject'' (oi_Key info)) (s3_GetObject C b (oi_Key info)) w = (Inr obj, w1)"
    and mk: "MkdirAll M (path_Dir ?file) 511 w1 = (Inr (), w2)"
    and op: "OpenFile M ?file [O_WRONLY, O_CREATE, O_TRUNC] 420 w2 = (Inr h, w3)"
    and cp: "io_Copy M ?file h obj w3 = (Inr n, w')" and n: "\<not> n < oi_Size info"
    by (auto simp: downloadObject_def targetFile_def Let_def split: prod.splits sum.splits if_splits)
  from cp obtain c where obj: "obj = (c, None)" and wr: "Write M ?file h c w3 = (Inr (), w')" and "n = int (length c)"
    by (cases obj) (auto simp: io_Copy_def split: prod.splits sum.splits option.splits)
  from server_perform [OF get] assms(2) have s: "view (server w1) = view (server w)" "c = content b (oi_Key info)"
    unfolding s3_laws_def obj by blast+
  note m = file_laws_mkdir [OF assms(1) mk] and o = file_laws_open [OF assms(1) op]
  have "at (server w3) h = Some (?file, 0, False)" "view (server w3) ?file = Some []" using o by simp_all
  from file_laws_write(1) [OF assms(1) wr this]
  have v: "view (server w') = (view (server w))(?file \<mapsto> content b (oi_Key info))"
    using o m s by (simp add: fun_eq_iff)
  have "commands w' = commands w"
    using commands_perform [OF get] commands_MkdirAll [OF mk] commands_OpenFile [OF op] commands_Write [OF wr] by simp
  with v n s show ?thesis by (simp add: \<open>n = int (length c)\<close>)
qed

lemma downloadLoop_view:
  assumes "file_laws M view at" "s3_laws C view at content"
    and "downloadLoop M C b f dir infos n saw w = (Inr (n', saw'), w')"
  shows "view (server w') = stored dir f (content b) infos (view (server w)) \<and>
    (\<forall>i\<in>set infos. oi_Err i = None) \<and>
    (\<forall>i\<in>set infos. isFile i \<longrightarrow> oi_Size i \<le> int (length (content b (oi_Key i)))) \<and>
    n' = n + length (filter isFile infos) \<and> commands w' = commands w"
  using assms(3)
proof (induction infos arbitrary: n saw w)
  case Nil
  then show ?case by (simp add: stored_def)
next
  case (Cons info infos)
  then have none: "oi_Err info = None" by (auto split: option.splits)
  show ?case
  proof (cases "isFile info")
    case True
    with Cons.prems none obtain u w1 where d: "downloadObject M C b f dir info w = (Inr u, w1)"
      and l: "downloadLoop M C b f dir infos (Suc n)
        (saw \<or> firstPathComponent (fileKeyOf f (oi_Key info)) \<in> set KnownPxfConfSubdirs) w1 = (Inr (n', saw'), w')"
      by (auto split: prod.splits sum.splits)
    from Cons.IH [OF l] downloadObject_view [OF assms(1,2) d] True none show ?thesis
      by (simp add: stored_def fun_upd_def)
  next
    case False
    with Cons.prems none have "downloadLoop M C b f dir infos n saw w = (Inr (n', saw'), w')" by simp
    from Cons.IH [OF this] False none show ?thesis by (simp add: stored_def)
  qed
qed

text \<open>A successful download stores every object of the listing that is a file, at its full size at
  least, and there is at least one.\<close>

lemma DownloadBucketPath_view:
  assumes "file_laws M view at" "s3_laws C view at content"
    and "DownloadBucketPath M C b f dir w = (Inr u, w')"
  shows "\<exists>infos. infos = fst (s3_ListObjects C b f True (server w)) \<and> filter isFile infos \<noteq> [] \<and>
    (\<forall>i\<in>set infos. oi_Err i = None) \<and>
    (\<forall>i\<in>set infos. isFile i \<longrightarrow> oi_Size i \<le> int (length (content b (oi_Key i)))) \<and>
    view (server w') = stored dir f (content b) infos (view (server w)) \<and> commands w' = commands w"
proof -
  obtain infos w1 where ls: "perform (LibraryCall ''ListObjects'' b) (s3_ListObjects C b f True) w = (infos, w1)"
    by fastforce
  from assms(3) ls obtain n saw w2 where
    lp: "downloadLoop M C b f dir infos 0 False w1 = (Inr (n, saw), w2)" and n: "n \<noteq> 0"
    and w': "w' = (if saw then w2 else w2\<lparr>calls := calls w2 @ [LibraryCall ''log.Info'' MalformedConfDirWarning]\<rparr>)"
    by (auto simp: DownloadBucketPath_def split: prod.splits sum.splits if_splits)
  from server_perform [OF ls] have "infos = fst (s3_ListObjects C b f True (server w))"
    "view (server w1) = view (server w)"
    using assms(2) unfolding s3_laws_def by (simp, blast)
  moreover have "commands w1 = commands w" using commands_perform [OF ls] by simp
  moreover have "server w' = server w2" "commands w' = commands w2"
    by (simp_all add: w' commands_def map_filter_def)
  moreover have "filter isFile infos \<noteq> []" using downloadLoop_view [OF assms(1,2) lp] n by (cases "filter isFile infos") auto
  ultimately show ?thesis using downloadLoop_view [OF assms(1,2) lp] by (intro exI [of _ infos]) simp
qed

text \<open>A download runs no command, whatever its outcome.\<close>

lemma downloadObject_commands:
  assumes "downloadObject M C b f dir info w = (r, w')"
  shows "commands w' = commands w"
  using assms
  by (auto simp: downloadObject_def io_Copy_def Let_def split: prod.splits sum.splits option.splits if_splits
      dest!: commands_perform commands_MkdirAll commands_OpenFile commands_Write)

lemma downloadLoop_commands:
  "downloadLoop M C b f dir infos n saw w = (r, w') \<Longrightarrow> commands w' = commands w"
  by (induction infos arbitrary: n saw w)
    (fastforce split: option.splits if_splits prod.splits sum.splits dest: downloadObject_commands)+

lemma DownloadBucketPath_commands:
  assumes "DownloadBucketPath M C b f dir w = (r, w')"
  shows "commands w' = commands w"
  using assms
  by (auto simp: DownloadBucketPath_def commands_def map_filter_def split: prod.splits sum.splits if_splits
      dest!: downloadLoop_commands [unfolded commands_def map_filter_def] calls_perform)

subsection \<open>Paths of stored objects\<close>

text \<open>Without an element \<open>..\<close> cleaning only drops empty elements and dots.\<close>

lemma foldl_clean_plain:
  "''..'' \<notin> set cs \<Longrightarrow>
   foldl (clean_step r) st cs = rev (filter (\<lambda>c. c \<noteq> '''' \<and> c \<noteq> ''.'') cs) @ st"
  by (induction cs arbitrary: st) (auto simp: clean_step_def)

lemma Split_append: "Split (s @ sep # t) sep = Split s sep @ Split t sep"
  by (induction s sep rule: Split.induct) (auto split: list.splits)

lemma path_Join_inside:
  assumes "''..'' \<notin> set (Split key (CHR ''/''))"
  shows "path_Join [''/etc/pxf'', key] =
    ''/'' @ Join ([''etc'', ''pxf''] @ filter (\<lambda>c. c \<noteq> '''' \<and> c \<noteq> ''.'') (Split key (CHR ''/''))) ''/''"
proof (cases "key = ''''")
  case True
  then show ?thesis by (simp add: path_Join_def path_Clean_def HasPrefix_def clean_step_def Let_def)
next
  case False
  have "Split (''/etc/pxf'' @ CHR ''/'' # key) (CHR ''/'') = ['''', ''etc'', ''pxf''] @ Split key (CHR ''/'')"
    by (simp only: Split_append) simp
  with False show ?thesis
    using foldl_clean_plain [OF assms, of True "[''pxf'', ''etc'']"]
    by (simp add: path_Join_def path_Clean_def HasPrefix_def Let_def clean_step_def)
qed

definition under_pxf :: "string \<Rightarrow> bool" where
  "under_pxf p = (p = ''/etc/pxf'' \<or> HasPrefix p ''/etc/pxf/'')"

lemma path_Join_under:
  assumes "''..'' \<notin> set (Split key (CHR ''/''))"
  shows "under_pxf (path_Join [''/etc/pxf'', key])"
  unfolding path_Join_inside [OF assms] under_pxf_def
  by (cases "filter (\<lambda>c. c \<noteq> '''' \<and> c \<noteq> ''.'') (Split key (CHR ''/''))") (simp_all add: HasPrefix_def)

lemma stored_other:
  "(\<forall>i\<in>set infos. isFile i \<longrightarrow> targetFile dir f i \<noteq> p) \<Longrightarrow> stored dir f cont infos v p = v p"
  unfolding stored_def by (induction infos arbitrary: v) auto

text \<open>An element \<open>..\<close> is resolved, so an object's key can lead out of the directory.\<close>

lemma dotdot_key_escapes: "path_Join [''/etc/pxf'', ''../cron.d/job''] = ''/etc/cron.d/job''"
  by code_simp

subsection \<open>The environment\<close>

lemma pxfContainerEnv_Modify: "pxfContainerEnv (ModifyDeployment Q pxf img d) = pxfEnv (pxf_Spec pxf)"
  by (simp add: pxfContainerEnv_def ModifyDeployment_def setPXFContainer_def Let_def split: list.split)

lemma ParseBool_empty: "(case ParseBool '''' of Inl err \<Rightarrow> False | Inr b \<Rightarrow> b) = False"
  by (simp add: ParseBool_def)

lemma deployed_location:
  assumes "PXFConf (pxf_Spec pxf) = Some conf" "pxfconf_S3Source conf = s3" "s3_Secret s3 \<noteq> ''''"
  shows "readS3LocationFromEnv (pod_env secretKey (pxfContainerEnv (ModifyDeployment Q pxf img d))) =
    \<lparr>accessKeyID = secretKey (s3_Secret s3) ''access_key_id'',
     secretAccessKey = secretKey (s3_Secret s3) ''secret_access_key'', endpoint = s3_EndPoint s3,
     isSecure = (s3_Protocol s3 \<noteq> ''http''), bucket = s3_Bucket s3, folder = s3_Folder s3\<rparr>"
  using assms
  by (simp add: pxfContainerEnv_Modify readS3LocationFromEnv_def pod_env_def pxfEnv_def generateS3Env_def plainEnv_def
      secretEnv_def ParseBool_SprintBool)

section \<open>A concrete bucket\<close>

definition demo_listing :: "ObjectInfo list" where
  "demo_listing =
     [\<lparr>oi_Key = ''conf/servers/'', oi_Size = 0, oi_Err = None\<rparr>,
      \<lparr>oi_Key = ''conf/servers/s3-site.xml'', oi_Size = 3, oi_Err = None\<rparr>]"

definition demo_s3 :: "mem S3Client" where
  "demo_s3 = \<lparr>s3_ListObjects = (\<lambda>b f r s. (demo_listing, s)), s3_GetObject = (\<lambda>b k s. (Inr (''xml'', None), s))\<rparr>"

definition demo_pxf :: GreenplumPXFService where
  "demo_pxf =
     \<lparr>pxf_meta = objectMeta ''pxf'' ''ns'',
      pxf_Spec = \<lparr>pxf_Replicas = 1, pxf_CPU = Quantity ''1'', pxf_Memory = Quantity ''1Gi'', pxf_WorkerSelector = None,
        PXFConf = Some \<lparr>pxfconf_S3Source = \<lparr>s3_Secret = ''keys'', s3_Bucket = ''b'', s3_EndPoint = ''s3'',
          s3_Protocol = ''https'', s3_Folder = ''conf''\<rparr>\<rparr>\<rparr>,
      pxf_Phase = PXFPhaseNone\<rparr>"

definition demo_pxf_files :: "(string \<times> string) list" where
  "demo_pxf_files = [(''/usr/local/pxf-gp6/run/catalina.pid'', ''42'')]"

definition demo_quantity_ops :: quantity_ops where
  "demo_quantity_ops = \<lparr>q_Cmp = (\<lambda>a b. 0), q_Sign = (\<lambda>q. 1), q_String = (\<lambda>q. '''')\<rparr>"

lemma demo_s3_laws: "s3_laws demo_s3 mem_view mem_at (\<lambda>b k. ''xml'')"
  by (simp add: s3_laws_def demo_s3_def)

section \<open>Properties\<close>


text \<open>C23: PXF is started only on its whole configuration: when a service with an S3 source starts any
  process, the listing of its bucket and folder ended without an error and named at least one file, and
  every file of it was stored under its key with the folder removed, with the object's content and at
  least its listed size.\<close>

theorem pxf_starts_on_configuration:
  assumes "file_laws M view at"
    and "\<And>e a k sec C. minio_New e a k sec = Inr C \<Longrightarrow> s3_laws C view at content"
    and "PXFConf (pxf_Spec pxf) = Some conf" "pxfconf_S3Source conf = s3"
    and "s3_Secret s3 \<noteq> ''''" "s3_EndPoint s3 \<noteq> ''''"
    and "PXFStarter_Run M (pod_env secretKey (pxfContainerEnv (ModifyDeployment Q pxf img d)))
      (DownloaderFactory minio_New) w = (r, w')"
    and "commands w' \<noteq> commands w"
  shows "\<exists>C infos w1.
    minio_New (s3_EndPoint s3) (secretKey (s3_Secret s3) ''access_key_id'')
      (secretKey (s3_Secret s3) ''secret_access_key'') (s3_Protocol s3 \<noteq> ''http'') = Inr C \<and>
    infos = fst (s3_ListObjects C (s3_Bucket s3) (s3_Folder s3) True (server w)) \<and>
    filter isFile infos \<noteq> [] \<and> (\<forall>i\<in>set infos. oi_Err i = None) \<and>
    (\<forall>i\<in>set infos. isFile i \<longrightarrow> oi_Size i \<le> int (length (content (s3_Bucket s3) (oi_Key i)))) \<and>
    view (server w1) = stored ''/etc/pxf'' (s3_Folder s3) (content (s3_Bucket s3)) infos (view (server w)) \<and>
    commands w1 = commands w \<and> startAndFollow M w1 = (r, w')"
proof -
  let ?loc = "\<lparr>accessKeyID = secretKey (s3_Secret s3) ''access_key_id'',
      secretAccessKey = secretKey (s3_Secret s3) ''secret_access_key'', endpoint = s3_EndPoint s3,
      isSecure = (s3_Protocol s3 \<noteq> ''http''), bucket = s3_Bucket s3, folder = s3_Folder s3\<rparr>"
  note loc = deployed_location [OF assms(3-5), of secretKey Q img d]
  obtain C where C: "DownloaderFactory minio_New ?loc = Inr C"
    using assms(6-8) by (cases "DownloaderFactory minio_New ?loc") (auto simp: PXFStarter_Run_def loc Let_def)
  obtain res w1 where dl: "DownloadBucketPath M C (s3_Bucket s3) (s3_Folder s3) ''/etc/pxf'' w = (res, w1)" by fastforce
  obtain u where res: "res = Inr u"
    using assms(6-8) C dl DownloadBucketPath_commands [OF dl]
    by (cases res) (auto simp: PXFStarter_Run_def loc Let_def)
  have start: "startAndFollow M w1 = (r, w')" using assms(6,7) C dl res by (simp add: PXFStarter_Run_def loc Let_def)
  have laws: "s3_laws C view at content" using assms(2) C by (auto simp: DownloaderFactory_def)
  from DownloadBucketPath_view [OF assms(1) laws dl [unfolded res]] start C show ?thesis
    by (auto simp: DownloaderFactory_def)
qed

theorem pxf_starts_on_configuration_witness:
  "\<exists>w1. mem_view (server w1) ''/etc/pxf/servers/s3-site.xml'' = Some ''xml'' \<and>
     startAndFollow (mem_machine (\<lambda>c. run_ok '''') ''pxf'') w1 =
       PXFStarter_Run (mem_machine (\<lambda>c. run_ok '''') ''pxf'')
         (pod_env (\<lambda>s k. s @ k) (pxfContainerEnv (ModifyDeployment demo_quantity_ops demo_pxf ''img''
            (newDeployment (objectMeta ''pxf'' ''ns'')))))
         (DownloaderFactory (\<lambda>e a k sec. Inr demo_s3)) (mem_world demo_pxf_files)"
proof -
  let ?M = "mem_machine (\<lambda>c. run_ok '''') ''pxf''"
  let ?run = "PXFStarter_Run ?M
         (pod_env (\<lambda>s k. s @ k) (pxfContainerEnv (ModifyDeployment demo_quantity_ops demo_pxf ''img''
            (newDeployment (objectMeta ''pxf'' ''ns'')))))
         (DownloaderFactory (\<lambda>e a k sec. Inr demo_s3)) (mem_world demo_pxf_files)"
  have cmds: "commands (snd ?run) \<noteq> commands (mem_world demo_pxf_files)" by code_simp
  have laws: "(\<lambda>e a k sec. Inr demo_s3) e a k sec = Inr C \<Longrightarrow> s3_laws C mem_view mem_at (\<lambda>b k. ''xml'')"
    for e a k :: string and sec :: bool and C
    using demo_s3_laws by simp
  obtain C infos w1 where C: "demo_s3 = C"
    and infos: "infos = fst (s3_ListObjects C ''b'' ''conf'' True (server (mem_world demo_pxf_files)))"
    and v: "mem_view (server w1) = stored ''/etc/pxf'' ''conf'' (\<lambda>k. ''xml'') infos (mem_view (server (mem_world demo_pxf_files)))"
    and st: "startAndFollow ?M w1 = (fst ?run, snd ?run)"
    using pxf_starts_on_configuration [where pxf = demo_pxf and r = "fst ?run" and w' = "snd ?run" and
        conf = "the (PXFConf (pxf_Spec demo_pxf))", OF mem_file_laws laws _ refl _ _ prod.collapse [symmetric] cmds]
    by (auto simp: demo_pxf_def)
  have "stored ''/etc/pxf'' ''conf'' (\<lambda>k. ''xml'') demo_listing (mem_view (server (mem_world demo_pxf_files)))
      ''/etc/pxf/servers/s3-site.xml'' = Some ''xml''"
    by code_simp
  then show ?thesis using v st infos C by (intro exI [of _ w1]) (auto simp: demo_s3_def)
qed



end
