(* ===== verification/Known_Hosts.thy ===== *)
theory Known_Hosts
  imports Cluster_Init "HOL-Library.List_Lexorder" "HOL-Library.Char_ord"
begin

text \<open>
  The known-hosts controller of the instances
  (\<open>greenplum-instance/controllers/knownHosts_controller.go\<close>): the informer on the endpoints of the
  service \<open>agent\<close> of the cluster and the reconciler that adds the host keys of endpoints that became
  ready to the known hosts file. The informer library is a parameter that delivers events. The lemmas
  show that the file only grows, that a key once recorded stays, and that ready hosts become known.
\<close>

section \<open>Definitions\<close>

text \<open>Of an \<open>Endpoints\<close> object the host names of the ready addresses of each subset.\<close>

record Endpoints =
  ep_Subsets :: "string list list"

text \<open>What an informer hands to its handlers is an untyped object.\<close>

datatype event_object = EndpointsObject Endpoints | OtherObject

datatype informer_event = AddEvent event_object | UpdateEvent event_object event_object | DeleteEvent event_object

text \<open>
  \<open>khr_range\<close> lists the keys of a Go map and \<open>khr_order\<close> the entries of one: the order of an iteration
  over a map is not specified.
\<close>

record ('s, 'k) KnownHostsReconciler =
  khr_machine :: "'s machine"
  khr_lib :: "'k ssh_lib"
  khr_DNSResolver :: "string \<Rightarrow> go_error option"
  khr_SSHKeyScanner :: "string \<Rightarrow> 'k HostKey"
  khr_arrive :: "'k HostKey list \<Rightarrow> 'k HostKey list"
  khr_foreach :: "(string \<Rightarrow> go_error option) \<Rightarrow> string list \<Rightarrow> go_error list"
  khr_range :: "(string \<rightharpoonup> 'k) \<Rightarrow> string list"
  khr_order :: "(string \<times> bool) list \<Rightarrow> (string \<times> bool) list"

definition setAll :: "bool \<Rightarrow> string list \<Rightarrow> (string \<times> bool) list \<Rightarrow> (string \<times> bool) list" where
  "setAll b hosts m = foldl (\<lambda>m h. AList.update h b m) m hosts"

definition getNewReadyHosts ::
  "((string \<times> bool) list \<Rightarrow> (string \<times> bool) list) \<Rightarrow> string list \<Rightarrow> Endpoints \<Rightarrow> string list"
where
  "getNewReadyHosts order knownHosts newEndpoints =
     (let readyAddresses = setAll False knownHosts (setAll True (concat (ep_Subsets newEndpoints)) [])
      in map fst (filter snd (order readyAddresses)))"

text \<open>\<open>None\<close> stands for a run that does not end or panics; every error is logged and ends the reconcile.\<close>

definition KnownHosts_Reconcile ::
  "('s, 'k) KnownHostsReconciler \<Rightarrow> event_object \<Rightarrow> 's world \<Rightarrow> 's world option"
where
  "KnownHosts_Reconcile r eventObj w =
     (case eventObj of
        OtherObject \<Rightarrow> Some w
      | EndpointsObject endpoints \<Rightarrow>
     (case GetKnownHosts (khr_lib r) (khr_machine r) (server w) of
        None \<Rightarrow> None
      | Some (Inl err) \<Rightarrow> Some w
      | Some (Inr knownHostsMap) \<Rightarrow>
          (let newReadyHosts = getNewReadyHosts (khr_order r) (khr_range r knownHostsMap) endpoints
           in if length newReadyHosts = 0 then Some w
              else if length (khr_foreach r (khr_DNSResolver r) newReadyHosts) \<noteq> 0 then Some w
              else (case GetKnownHosts (khr_lib r) (khr_machine r) (server w) of
                      None \<Rightarrow> None
                    | Some known \<Rightarrow>
                        (case ScanHostKeys (khr_lib r) (khr_SSHKeyScanner r) (khr_arrive r) known newReadyHosts of
                           None \<Rightarrow> None
                         | Some (Inl err) \<Rightarrow> Some w
                         | Some (Inr newHostKeys) \<Rightarrow>
                             Some (snd (FileWriter_Append (khr_machine r) knownHostsFilename newHostKeys w)))))))"

text \<open>The handlers the controller registers: additions and updates, not deletions.\<close>

fun handleEvent :: "('s, 'k) KnownHostsReconciler \<Rightarrow> informer_event \<Rightarrow> 's world \<Rightarrow> 's world option" where
  "handleEvent r (AddEvent obj) w = KnownHosts_Reconcile r obj w"
| "handleEvent r (UpdateEvent oldObj newObj) w = KnownHosts_Reconcile r newObj w"
| "handleEvent r (DeleteEvent obj) w = Some w"

text \<open>
  The informer calls the handlers one after the other. \<open>KnownHostsController_Run\<close> returns what the
  informer is started with: the period of its resync in seconds, the namespace and the two selectors.
\<close>

fun handleEvents :: "('s, 'k) KnownHostsReconciler \<Rightarrow> informer_event list \<Rightarrow> 's world \<Rightarrow> 's world option" where
  "handleEvents r [] w = Some w"
| "handleEvents r (e # es) w = (case handleEvent r e w of None \<Rightarrow> None | Some w1 \<Rightarrow> handleEvents r es w1)"

record informer_options =
  io_Resync :: nat
  io_Namespace :: string
  io_LabelSelector :: string
  io_FieldSelector :: string

definition KnownHostsController_Run ::
  "unit result \<Rightarrow> 's machine \<Rightarrow> 's \<Rightarrow> informer_options result"
where
  "KnownHostsController_Run client M s =
     (case client of
        Inl err \<Rightarrow> Inl (Wrap ''failed to initialize client'' err)
      | Inr u \<Rightarrow>
     (case GetNamespace M s of
        Inl err \<Rightarrow> Inl (Wrap ''failed to read namespace'' err)
      | Inr greenplumClusterNamespace \<Rightarrow>
     (case GetGreenplumClusterName M s of
        Inl err \<Rightarrow> Inl (Wrap ''failed to read greenplumcluster name'' err)
      | Inr greenplumClusterName \<Rightarrow>
          Inr \<lparr>io_Resync = 2 * 60 * 60, io_Namespace = greenplumClusterNamespace,
               io_LabelSelector = ''greenplum-cluster='' @ greenplumClusterName,
               io_FieldSelector = ''metadata.name=agent''\<rparr>)))"

section \<open>Lemmas\<close>

subsection \<open>The new ready hosts\<close>

lemma distinct_setAll: "distinct (map fst m) \<Longrightarrow> distinct (map fst (setAll b hosts m))"
  unfolding setAll_def by (induction hosts arbitrary: m) (auto intro: distinct_update)

lemma map_of_setAll: "map_of (setAll b hosts m) h = (if h \<in> set hosts then Some b else map_of m h)"
  unfolding setAll_def by (induction hosts arbitrary: m) (auto simp: update_conv')

text \<open>In whatever order the maps are iterated, the new ready hosts are the ready ones that are not known,
  each once.\<close>

lemma getNewReadyHosts_set:
  assumes "\<And>xs. mset (order xs) = mset xs"
  shows "distinct (getNewReadyHosts order known eps) \<and>
    set (getNewReadyHosts order known eps) = set (concat (ep_Subsets eps)) - set known"
proof -
  let ?m = "setAll False known (setAll True (concat (ep_Subsets eps)) [])"
  have d: "distinct (map fst ?m)" by (simp add: distinct_setAll)
  have ms: "mset (map fst (filter snd (order ?m))) = mset (map fst (filter snd ?m))" using assms [of ?m] by simp
  have "distinct (map fst (filter snd ?m))" using d by (simp add: distinct_map_filter)
  then have "distinct (map fst (filter snd (order ?m)))" using ms by (metis mset_eq_imp_distinct_iff)
  moreover have "set (map fst (filter snd ?m)) = {h. map_of ?m h = Some True}"
    using d by (force simp: image_iff intro: map_of_SomeD)
  moreover have "{h. map_of ?m h = Some True} = set (concat (ep_Subsets eps)) - set known"
    by (auto simp: map_of_setAll split: if_splits)
  ultimately show ?thesis using mset_eq_setD [OF ms] by (simp add: getNewReadyHosts_def Let_def)
qed

subsection \<open>One reconcile\<close>

lemma scan_new_entries:
  assumes "\<And>xs. mset (arrive xs) = mset xs" "\<And>h. hk_Hostname (scan h) = h"
    and "\<And>h. hk_Err (scan h) = None \<Longrightarrow> \<exists>k. hk_PublicKey (scan h) = Some k"
    and "\<forall>h\<in>set hosts. known h = None"
  shows "\<exists>r. ScanHostKeys L scan arrive (Inr known) hosts = Some r \<and>
    ((\<exists>out. r = Inr out) \<longleftrightarrow> (\<forall>h\<in>set hosts. hk_Err (scan h) = None)) \<and>
    (\<forall>out. r = Inr out \<longrightarrow> (\<exists>new. out = hostLines L new \<and>
       set new = (\<lambda>h. (h, the (hk_PublicKey (scan h)))) ` set hosts))"
proof -
  obtain r where r: "ScanHostKeys L scan arrive (Inr known) hosts = Some r"
    "(\<exists>out. r = Inr out) \<longleftrightarrow> (\<forall>h\<in>set hosts. scan_ok L known (scan h))"
    "\<forall>out. r = Inr out \<longrightarrow> (\<exists>hs. mset hs = mset (filter (\<lambda>h. known h = None) hosts) \<and>
       out = hostLines L (map (\<lambda>h. (h, the (hk_PublicKey (scan h)))) hs))"
    using scan_collects [of arrive scan L known hosts, OF assms(1-3)] by blast
  have "(\<forall>h\<in>set hosts. scan_ok L known (scan h)) \<longleftrightarrow> (\<forall>h\<in>set hosts. hk_Err (scan h) = None)"
    using assms(4) by (simp add: scan_ok_def assms(2))
  moreover have "\<exists>new. out = hostLines L new \<and> set new = (\<lambda>h. (h, the (hk_PublicKey (scan h)))) ` set hosts"
    if "r = Inr out" for out
  proof -
    obtain hs where hs: "mset hs = mset (filter (\<lambda>h. known h = None) hosts)"
      "out = hostLines L (map (\<lambda>h. (h, the (hk_PublicKey (scan h)))) hs)"
      using r(3) \<open>r = Inr out\<close> by (elim allE impE exE conjE) simp
    from mset_eq_setD [OF hs(1)] assms(4) have "set hs = set hosts" by auto
    with hs(2) show ?thesis by (intro exI [of _ "map (\<lambda>h. (h, the (hk_PublicKey (scan h)))) hs"]) simp
  qed
  ultimately show ?thesis using r(1,2) by blast
qed

text \<open>
  What the reconciler relies on: the laws of files and of the ssh library, iterations over maps that
  visit every entry once, scans that answer for the host they were asked about, and a disk on which
  appending to the file succeeds.
\<close>

definition kh_laws ::
  "('s, 'k) KnownHostsReconciler \<Rightarrow> ('s \<Rightarrow> string \<rightharpoonup> string) \<Rightarrow> ('s \<Rightarrow> nat \<rightharpoonup> handle) \<Rightarrow> bool"
where
  "kh_laws r view at \<longleftrightarrow>
     file_laws (khr_machine r) view at \<and> read_view_law (khr_machine r) view \<and> entry_law (khr_lib r) \<and>
     (\<forall>xs. mset (khr_arrive r xs) = mset xs) \<and> (\<forall>xs. mset (khr_order r xs) = mset xs) \<and>
     (\<forall>m. finite (dom m) \<longrightarrow> set (khr_range r m) = dom m) \<and>
     (\<forall>execute hosts. ParallelForeach execute hosts (khr_foreach r execute hosts)) \<and>
     (\<forall>h. hk_Hostname (khr_SSHKeyScanner r h) = h) \<and>
     (\<forall>h. hk_Err (khr_SSHKeyScanner r h) = None \<longrightarrow> (\<exists>k. hk_PublicKey (khr_SSHKeyScanner r h) = Some k)) \<and>
     (\<forall>f t w. fst (FileWriter_Append (khr_machine r) f t w) = Inr ())"

text \<open>The file holds these entries, one line each; a missing file holds none.\<close>

definition holds ::
  "('s, 'k) KnownHostsReconciler \<Rightarrow> ('s \<Rightarrow> string \<rightharpoonup> string) \<Rightarrow> 's world \<Rightarrow> (string \<times> 'k) list \<Rightarrow> bool"
where
  "holds r view w kvs \<longleftrightarrow> (\<forall>(h, k)\<in>set kvs. plain_host h) \<and>
     (view (server w) knownHostsFilename = Some (hostLines (khr_lib r) kvs) \<or>
      view (server w) knownHostsFilename = None \<and> kvs = [])"

definition readyHosts :: "event_object \<Rightarrow> string set" where
  "readyHosts obj = (case obj of OtherObject \<Rightarrow> {} | EndpointsObject eps \<Rightarrow> set (concat (ep_Subsets eps)))"

definition scannedKey :: "('s, 'k) KnownHostsReconciler \<Rightarrow> string \<Rightarrow> 'k" where
  "scannedKey r h = the (hk_PublicKey (khr_SSHKeyScanner r h))"

definition answers :: "('s, 'k) KnownHostsReconciler \<Rightarrow> string \<Rightarrow> bool" where
  "answers r h \<longleftrightarrow> khr_DNSResolver r h = None \<and> hk_Err (khr_SSHKeyScanner r h) = None"

lemma holds_GetKnownHosts:
  assumes "kh_laws r view at" "holds r view w kvs"
  shows "GetKnownHosts (khr_lib r) (khr_machine r) (server w) = Some (Inr (map_of (rev kvs)))"
  using assms GetKnownHosts_hostLines [of "khr_lib r" "khr_machine r" view kvs "server w"]
  by (simp add: kh_laws_def holds_def)

lemma holds_append:
  assumes "kh_laws r view at" "holds r view w kvs" "\<forall>(h, k)\<in>set new. plain_host h"
  shows "holds r view (snd (FileWriter_Append (khr_machine r) knownHostsFilename (hostLines (khr_lib r) new) w)) (kvs @ new)"
proof -
  let ?run = "FileWriter_Append (khr_machine r) knownHostsFilename (hostLines (khr_lib r) new) w"
  have "?run = (Inr (), snd ?run)" using assms(1) unfolding kh_laws_def by (metis prod.collapse)
  moreover have "file_laws (khr_machine r) view at" using assms(1) by (simp add: kh_laws_def)
  ultimately have "view (server (snd ?run)) knownHostsFilename =
      Some ((case view (server w) knownHostsFilename of None \<Rightarrow> [] | Some c \<Rightarrow> c) @ hostLines (khr_lib r) new)"
    using FileWriter_Append_view [of "khr_machine r" view at knownHostsFilename _ w "snd ?run"] by simp
  then show ?thesis using assms(2,3) by (auto simp: holds_def hostLines_append hostLines_def)
qed

text \<open>The hosts an event asks to scan: those that are ready and not known.\<close>

lemma new_ready_hosts:
  fixes r :: "('s, 'k) KnownHostsReconciler" and kvs :: "(string \<times> 'k) list"
  assumes "kh_laws r view at"
  defines "hosts \<equiv> getNewReadyHosts (khr_order r) (khr_range r (map_of (rev kvs)))"
  shows "set (hosts eps) = readyHosts (EndpointsObject eps) - fst ` set kvs"
    and "h \<in> set (hosts eps) \<Longrightarrow> map_of (rev kvs) h = None"
    and "khr_foreach r (khr_DNSResolver r) (hosts eps) = [] \<longleftrightarrow> (\<forall>h\<in>set (hosts eps). khr_DNSResolver r h = None)"
proof -
  note L = assms(1) [unfolded kh_laws_def]
  have dom: "dom (map_of (rev kvs)) = fst ` set kvs" by (simp add: dom_map_of_conv_image_fst)
  then have "set (khr_range r (map_of (rev kvs))) = fst ` set kvs" using L finite_dom_map_of by metis
  then show hosts: "set (hosts eps) = readyHosts (EndpointsObject eps) - fst ` set kvs"
    using getNewReadyHosts_set [of "khr_order r" "khr_range r (map_of (rev kvs))" eps] L
    by (simp add: hosts_def readyHosts_def)
  show "map_of (rev kvs) h = None" if "h \<in> set (hosts eps)" using that hosts dom by (auto simp: domIff)
  show "khr_foreach r (khr_DNSResolver r) (hosts eps) = [] \<longleftrightarrow> (\<forall>h\<in>set (hosts eps). khr_DNSResolver r h = None)"
    using multihost.no_errors_iff [OF multihost.intro] L by blast
qed

text \<open>What an event does: nothing, unless there are such hosts and all of them answer; then their keys are
  appended to the file.\<close>

lemma Reconcile_outcome:
  fixes obj :: event_object
  assumes laws: "kh_laws r view at" and kvs: "holds r view w kvs"
  defines "fresh \<equiv> readyHosts obj - fst ` set kvs"
  shows "if fresh = {} \<or> \<not> (\<forall>h\<in>fresh. answers r h) then KnownHosts_Reconcile r obj w = Some w
    else \<exists>new. set new = (\<lambda>h. (h, scannedKey r h)) ` fresh \<and>
      KnownHosts_Reconcile r obj w = Some (snd (FileWriter_Append (khr_machine r) knownHostsFilename (hostLines (khr_lib r) new) w))"
proof (cases obj)
  case OtherObject
  then show ?thesis by (simp add: KnownHosts_Reconcile_def readyHosts_def fresh_def)
next
  case (EndpointsObject eps)
  let ?known = "map_of (rev kvs)"
  let ?hosts = "getNewReadyHosts (khr_order r) (khr_range r ?known) eps"
  from laws have arrive: "mset (khr_arrive r xs) = mset xs" and names: "hk_Hostname (khr_SSHKeyScanner r h) = h"
    and keys: "hk_Err (khr_SSHKeyScanner r h) = None \<Longrightarrow> \<exists>k. hk_PublicKey (khr_SSHKeyScanner r h) = Some k" for xs h
    unfolding kh_laws_def by auto
  note hosts = new_ready_hosts [OF laws, where kvs = kvs and eps = eps]
  have fresh: "set ?hosts = fresh" using hosts(1) by (simp add: fresh_def EndpointsObject)
  have unknown: "\<forall>h\<in>set ?hosts. ?known h = None" using hosts(2) by blast
  obtain res where scan: "ScanHostKeys (khr_lib r) (khr_SSHKeyScanner r) (khr_arrive r) (Inr ?known) ?hosts = Some res"
    "(\<exists>out. res = Inr out) \<longleftrightarrow> (\<forall>h\<in>set ?hosts. hk_Err (khr_SSHKeyScanner r h) = None)"
    "\<forall>out. res = Inr out \<longrightarrow> (\<exists>new. out = hostLines (khr_lib r) new \<and>
       set new = (\<lambda>h. (h, the (hk_PublicKey (khr_SSHKeyScanner r h)))) ` set ?hosts)"
    using scan_new_entries [of "khr_arrive r" "khr_SSHKeyScanner r", OF arrive names keys unknown, of "khr_lib r"] by auto
  note step = EndpointsObject KnownHosts_Reconcile_def holds_GetKnownHosts [OF laws kvs] Let_def
  show ?thesis
  proof (cases "?hosts = [] \<or> khr_foreach r (khr_DNSResolver r) ?hosts \<noteq> []")
    case True
    then have "fresh = {} \<or> \<not> (\<forall>h\<in>fresh. answers r h)" using hosts(3) fresh by (auto simp: answers_def)
    with True show ?thesis by (auto simp: step)
  next
    case False
    then have "fresh \<noteq> {}" "(\<forall>h\<in>fresh. answers r h) \<longleftrightarrow> (\<exists>out. res = Inr out)"
      using hosts(3) fresh scan(2) by (auto simp: answers_def)
    with False scan(1,3) fresh show ?thesis by (cases res) (auto simp: step scannedKey_def)
  qed
qed

text \<open>A reconcile always ends; it adds nothing, or exactly the ready hosts that were not known, and the
  latter whenever these all resolve and answer.\<close>

lemma Reconcile_step:
  assumes laws: "kh_laws r view at" and kvs: "holds r view w kvs" and plain: "\<forall>h\<in>readyHosts obj. plain_host h"
  shows "\<exists>w' new. KnownHosts_Reconcile r obj w = Some w' \<and> holds r view w' (kvs @ new) \<and>
    (new = [] \<and> w' = w \<or>
     set new = (\<lambda>h. (h, scannedKey r h)) ` (readyHosts obj - fst ` set kvs) \<and> (\<forall>(h, k)\<in>set new. answers r h)) \<and>
    ((\<forall>h\<in>readyHosts obj - fst ` set kvs. answers r h) \<longrightarrow> fst ` set new = readyHosts obj - fst ` set kvs) \<and>
    (readyHosts obj \<subseteq> fst ` set kvs \<longrightarrow> w' = w)"
proof (cases "readyHosts obj - fst ` set kvs = {} \<or> \<not> (\<forall>h\<in>readyHosts obj - fst ` set kvs. answers r h)")
  case True
  then have "KnownHosts_Reconcile r obj w = Some w" using Reconcile_outcome [OF laws kvs, of obj] by argo
  with True kvs show ?thesis by (intro exI [of _ w] exI [of _ "[]"]) auto
next
  case False
  obtain new where new: "set new = (\<lambda>h. (h, scannedKey r h)) ` (readyHosts obj - fst ` set kvs)"
    "KnownHosts_Reconcile r obj w = Some (snd (FileWriter_Append (khr_machine r) knownHostsFilename (hostLines (khr_lib r) new) w))"
    using Reconcile_outcome [OF laws kvs, of obj] unfolding if_not_P [OF False] by blast
  have "\<forall>(h, k)\<in>set new. plain_host h" using new(1) plain by auto
  note holds_append [OF laws kvs this]
  moreover have "\<forall>(h, k)\<in>set new. answers r h" "fst ` set new = readyHosts obj - fst ` set kvs"
    using False new(1) by (auto simp: image_image)
  moreover have "\<not> readyHosts obj \<subseteq> fst ` set kvs" using False by blast
  ultimately show ?thesis using new by blast
qed

subsection \<open>Sequences of events\<close>

fun event_hosts :: "informer_event \<Rightarrow> string set" where
  "event_hosts (AddEvent obj) = readyHosts obj"
| "event_hosts (UpdateEvent oldObj newObj) = readyHosts newObj"
| "event_hosts (DeleteEvent obj) = {}"

lemma Reconcile_adds:
  assumes "kh_laws r view at" "holds r view w kvs" "\<forall>h\<in>readyHosts obj. plain_host h"
  shows "\<exists>w' new. KnownHosts_Reconcile r obj w = Some w' \<and> holds r view w' (kvs @ new) \<and>
    (\<forall>(h, k)\<in>set new. h \<in> readyHosts obj - fst ` set kvs \<and> answers r h \<and> k = scannedKey r h)"
proof -
  obtain w' new where s: "KnownHosts_Reconcile r obj w = Some w'" "holds r view w' (kvs @ new)"
    and "new = [] \<and> w' = w \<or>
      set new = (\<lambda>h. (h, scannedKey r h)) ` (readyHosts obj - fst ` set kvs) \<and> (\<forall>(h, k)\<in>set new. answers r h)"
    using Reconcile_step [OF assms] by (elim exE conjE) (rule that; assumption)
  from this(3) have "\<forall>(h, k)\<in>set new. h \<in> readyHosts obj - fst ` set kvs \<and> answers r h \<and> k = scannedKey r h"
    by auto
  with s show ?thesis by blast
qed

lemma handleEvent_step:
  assumes "kh_laws r view at" "holds r view w kvs" "\<forall>h\<in>event_hosts e. plain_host h"
  shows "\<exists>w' new. handleEvent r e w = Some w' \<and> holds r view w' (kvs @ new) \<and>
    (\<forall>(h, k)\<in>set new. h \<in> event_hosts e - fst ` set kvs \<and> answers r h \<and> k = scannedKey r h)"
proof (cases e)
  case (AddEvent obj)
  then show ?thesis using Reconcile_adds [OF assms(1,2), of obj] assms(3) by simp
next
  case (UpdateEvent old new)
  then show ?thesis using Reconcile_adds [OF assms(1,2), of new] assms(3) by simp
next
  case (DeleteEvent obj)
  then show ?thesis using assms(2) by (intro exI [of _ w] exI [of _ "[]"]) simp
qed

lemma map_of_rev_append_new:
  assumes "\<forall>(h, k)\<in>set new. h \<notin> fst ` set kvs"
  shows "map_of (rev kvs) \<subseteq>\<^sub>m map_of (rev (kvs @ new))"
proof -
  have "map_of (rev new) h = None" if "map_of (rev kvs) h \<noteq> None" for h
  proof -
    have "h \<in> fst ` set kvs" using that by (auto simp: map_of_eq_None_iff)
    with assms have "(h, k) \<notin> set new" for k by blast
    then have "h \<notin> fst ` set new" by auto
    then show ?thesis by (simp add: map_of_eq_None_iff)
  qed
  then show ?thesis by (auto simp: map_le_def map_add_def dom_def split: option.split)
qed

lemma handleEvents_steps:
  assumes "kh_laws r view at" "holds r view w kvs" "\<forall>e\<in>set es. \<forall>h\<in>event_hosts e. plain_host h"
  shows "\<exists>w' new. handleEvents r es w = Some w' \<and> holds r view w' (kvs @ new) \<and>
    map_of (rev kvs) \<subseteq>\<^sub>m map_of (rev (kvs @ new)) \<and>
    (\<forall>(h, k)\<in>set new. answers r h \<and> k = scannedKey r h \<and> (\<exists>e\<in>set es. h \<in> event_hosts e))"
  using assms(2,3)
proof (induction es arbitrary: w kvs)
  case Nil
  then show ?case by (intro exI [of _ w] exI [of _ "[]"]) simp
next
  case (Cons e es)
  obtain w1 new where 1: "handleEvent r e w = Some w1" "holds r view w1 (kvs @ new)"
    "\<forall>(h, k)\<in>set new. h \<in> event_hosts e - fst ` set kvs \<and> answers r h \<and> k = scannedKey r h"
    using handleEvent_step [OF assms(1) Cons.prems(1), of e] Cons.prems(2) by auto
  obtain w2 new2 where 2: "handleEvents r es w1 = Some w2" "holds r view w2 ((kvs @ new) @ new2)"
    "map_of (rev (kvs @ new)) \<subseteq>\<^sub>m map_of (rev ((kvs @ new) @ new2))"
    "\<forall>(h, k)\<in>set new2. answers r h \<and> k = scannedKey r h \<and> (\<exists>e\<in>set es. h \<in> event_hosts e)"
    using Cons.IH [OF 1(2)] Cons.prems(2) by auto
  have "map_of (rev kvs) \<subseteq>\<^sub>m map_of (rev (kvs @ new))" by (rule map_of_rev_append_new) (use 1(3) in auto)
  then have "map_of (rev kvs) \<subseteq>\<^sub>m map_of (rev (kvs @ new @ new2))" using 2(3) by (metis append_assoc map_le_trans)
  with 1 2 show ?case by (intro exI [of _ w2] exI [of _ "new @ new2"]) (auto split: prod.splits)
qed

section \<open>A concrete controller\<close>

text \<open>The keys of a Go map in the order of the strings, the entries backwards.\<close>

definition demo_khr :: "(mem, nat) KnownHostsReconciler" where
  "demo_khr = \<lparr>khr_machine = mem_machine (\<lambda>c. run_ok '''') ''master-0'', khr_lib = demo_ssh_lib,
     khr_DNSResolver = (\<lambda>h. None), khr_SSHKeyScanner = demo_scan, khr_arrive = rev, khr_foreach = sequential_foreach,
     khr_range = (\<lambda>m. sorted_list_of_set (dom m)), khr_order = rev\<rparr>"

lemma demo_kh_laws: "kh_laws demo_khr mem_view mem_at"
  by (simp add: kh_laws_def demo_khr_def mem_file_laws mem_read_view_law demo_entry_law demo_scan_def mem_append_ok
      sequential.possible)

lemma demo_holds: "holds demo_khr mem_view (mem_world []) []"
  by (simp add: holds_def mem_world_def mem_view_def)

section \<open>Properties\<close>

text \<open>C22: When every endpoint that is ready and not yet known resolves and answers the key scan, one
  reconcile makes every ready endpoint known: those known before keep their keys, the others get the key
  they showed, and no other host is added. A second reconcile of the same endpoints changes nothing.\<close>

theorem known_hosts_follow_endpoints:
  assumes "kh_laws r view at" "holds r view w kvs" "\<forall>h\<in>readyHosts obj. plain_host h"
    and "\<forall>h\<in>readyHosts obj - fst ` set kvs. answers r h"
  shows "\<exists>w' known'. KnownHosts_Reconcile r obj w = Some w' \<and>
    GetKnownHosts (khr_lib r) (khr_machine r) (server w') = Some (Inr known') \<and>
    map_of (rev kvs) \<subseteq>\<^sub>m known' \<and> dom known' = dom (map_of (rev kvs)) \<union> readyHosts obj \<and>
    (\<forall>h\<in>readyHosts obj - fst ` set kvs. known' h = Some (scannedKey r h)) \<and>
    KnownHosts_Reconcile r obj w' = Some w'"
proof -
  obtain w' new where s: "KnownHosts_Reconcile r obj w = Some w'" "holds r view w' (kvs @ new)"
    and new: "new = [] \<and> w' = w \<or> set new = (\<lambda>h. (h, scannedKey r h)) ` (readyHosts obj - fst ` set kvs) \<and> (\<forall>(h, k)\<in>set new. answers r h)"
    and hosts: "fst ` set new = readyHosts obj - fst ` set kvs"
    using Reconcile_step [OF assms(1-3)] assms(4) by (elim exE conjE) (rule that; simp)
  have entries: "h \<notin> fst ` set kvs \<and> k = scannedKey r h" if "(h, k) \<in> set new" for h k
    using new that by (elim disjE conjE) (simp, blast)
  let ?known = "map_of (rev (kvs @ new))"
  have key: "?known h = Some (scannedKey r h)" if "h \<in> readyHosts obj - fst ` set kvs" for h
  proof -
    have "h \<in> fst ` set new" using that hosts by simp
    then obtain k where "map_of (rev new) h = Some k" by (metis map_of_eq_None_iff not_None_eq set_rev)
    moreover from this have "(h, k) \<in> set new" by (auto dest: map_of_SomeD)
    ultimately show ?thesis using entries by (auto simp: map_add_def)
  qed
  have dom: "dom ?known = fst ` set kvs \<union> readyHosts obj" "dom (map_of (rev kvs)) = fst ` set kvs"
    using hosts by (auto simp: dom_map_of_conv_image_fst image_Un)
  have sub: "readyHosts obj \<subseteq> fst ` set (kvs @ new)" using hosts by auto
  have again: "KnownHosts_Reconcile r obj w' = Some w'"
    using Reconcile_step [OF assms(1) s(2) assms(3)] sub by (elim exE conjE) simp
  have "map_of (rev kvs) \<subseteq>\<^sub>m ?known" by (rule map_of_rev_append_new) (use entries in auto)
  then show ?thesis
    using s(1) key dom again holds_GetKnownHosts [OF assms(1) s(2)]
    by (intro exI [of _ w'] exI [of _ ?known]) simp
qed

theorem known_hosts_follow_endpoints_witness:
  "\<exists>w' known'. KnownHosts_Reconcile demo_khr (EndpointsObject \<lparr>ep_Subsets = [[''master-0''], [''segment-a-0'']]\<rparr>) (mem_world []) = Some w' \<and>
     GetKnownHosts demo_ssh_lib (khr_machine demo_khr) (server w') = Some (Inr known') \<and>
     known' ''segment-a-0'' = Some 7 \<and> dom known' = {''master-0'', ''segment-a-0''}"
proof -
  let ?obj = "EndpointsObject \<lparr>ep_Subsets = [[''master-0''], [''segment-a-0'']]\<rparr>"
  have "plain_host ''master-0''" "plain_host ''segment-a-0''" by code_simp+
  then have plain: "\<forall>h\<in>readyHosts ?obj. plain_host h" by (simp add: readyHosts_def)
  have ok: "\<forall>h\<in>readyHosts ?obj - fst ` set []. answers demo_khr h"
    by (simp add: answers_def demo_khr_def demo_scan_def)
  have sel: "khr_lib demo_khr = demo_ssh_lib" "scannedKey demo_khr h = 7" "readyHosts ?obj = {''master-0'', ''segment-a-0''}" for h
    by (simp_all add: demo_khr_def scannedKey_def demo_scan_def readyHosts_def)
  from known_hosts_follow_endpoints [OF demo_kh_laws demo_holds plain ok] show ?thesis
    by (auto simp: sel)
qed



end
