(* ===== verification/Instance_Daemons.thy ===== *)
theory Instance_Daemons
  imports Container_Start Known_Hosts
begin

text \<open>
  The daemons of an instance container together (\<open>main\<close> of \<open>cmd/startGreenplumContainer\<close>): the known-hosts
  controller, the initialisation of the cluster and the ssh daemon, run side by side by
  \<open>InitializeDaemons\<close>. What each of them may return is taken from its own model; the lemmas relate what a
  daemon returned to the state of the context at that time.
\<close>

section \<open>Definitions\<close>

definition returned :: "'a result \<Rightarrow> go_error option" where
  "returned r = (case r of Inl err \<Rightarrow> Some err | Inr x \<Rightarrow> None)"

definition knownHostsDaemon :: "unit result \<Rightarrow> 's machine \<Rightarrow> daemon" where
  "knownHostsDaemon client M cancelled e \<longleftrightarrow> (\<exists>s. e = returned (KnownHostsController_Run client M s))"

definition clusterInitDaemon :: "('s, 'k) ClusterInitDaemon \<Rightarrow> daemon" where
  "clusterInitDaemon d cancelled e \<longleftrightarrow> e = returned (fst (ClusterInitDaemon_Run d))"

text \<open>The \<open>select\<close> of the ssh daemon sees the context done only when it is.\<close>

definition sshDaemon :: "('s \<Rightarrow> int result \<times> 's) \<Rightarrow> 's machine \<Rightarrow> daemon" where
  "sshDaemon start M cancelled e \<longleftrightarrow>
     (\<exists>event w. (event = CtxDone \<longrightarrow> cancelled) \<and> e = returned (fst (SSHDaemon_Run start M event w)))"

definition instanceDaemons ::
  "unit result \<Rightarrow> ('s, 'k) ClusterInitDaemon \<Rightarrow> ('s \<Rightarrow> int result \<times> 's) \<Rightarrow> 's machine \<Rightarrow> daemon list"
where
  "instanceDaemons client d start M = [knownHostsDaemon client M, clusterInitDaemon d, sshDaemon start M]"

section \<open>Lemmas\<close>

subsection \<open>Where a result comes from\<close>

fun returned_with :: "daemon_state \<Rightarrow> go_error option \<Rightarrow> bool" where
  "returned_with Running e = False"
| "returned_with (Returned e') e = (e' = e)"
| "returned_with (Sending e') e = (e' = e)"
| "returned_with (Reported e') e = (e' = e)"

text \<open>A daemon that returned did so with what it may return in a context no more cancelled than the present
  one, and a cancelled context was cancelled by the signal or by a daemon with an error.\<close>

definition md_origin :: "daemon list \<Rightarrow> md_state \<Rightarrow> bool" where
  "md_origin ds st \<longleftrightarrow> length (md_daemons st) = length ds \<and>
     (\<forall>i<length ds. \<forall>e. returned_with (md_daemons st ! i) e \<longrightarrow> (\<exists>c. (ds ! i) c e \<and> (c \<longrightarrow> md_cancelled st))) \<and>
     (md_cancelled st \<longrightarrow> md_signalled st \<or> (\<exists>i<length ds. past_cancel (md_daemons st ! i)))"

lemma md_origin_update:
  assumes inv: "md_origin ds st" and i: "i < length ds" and st': "md_daemons st' = (md_daemons st)[i := y]"
    and flags: "md_signalled st' = md_signalled st" "md_cancelled st \<Longrightarrow> md_cancelled st'"
      "md_cancelled st' \<Longrightarrow> md_cancelled st \<or> past_cancel y"
    and y: "past_cancel (md_daemons st ! i) \<Longrightarrow> past_cancel y"
      "\<And>e. returned_with y e \<Longrightarrow> \<exists>c. (ds ! i) c e \<and> (c \<longrightarrow> md_cancelled st')"
  shows "md_origin ds st'"
proof -
  have len: "length (md_daemons st) = length ds" using inv by (simp add: md_origin_def)
  have "\<exists>c. (ds ! j) c e \<and> (c \<longrightarrow> md_cancelled st')" if j: "j < length ds" "returned_with (md_daemons st' ! j) e" for j e
  proof (cases "i = j")
    case True
    then show ?thesis using j y(2) len st' by simp
  next
    case False
    then obtain c where "(ds ! j) c e" "c \<longrightarrow> md_cancelled st" using j inv st' by (auto simp: md_origin_def)
    then show ?thesis using flags(2) by blast
  qed
  moreover have "\<exists>j<length ds. past_cancel (md_daemons st' ! j)" if "md_cancelled st'" "\<not> md_signalled st'"
  proof (cases "past_cancel y")
    case True
    then show ?thesis using i len st' by auto
  next
    case False
    then have "md_cancelled st" "\<not> md_signalled st" using that flags(1,3) by auto
    then obtain j where j: "j < length ds" "past_cancel (md_daemons st ! j)" using inv by (auto simp: md_origin_def)
    moreover from j False y(1) have "i \<noteq> j" by auto
    ultimately show ?thesis using st' by auto
  qed
  ultimately show ?thesis using len st' unfolding md_origin_def by auto
qed

lemma md_origin_step:
  assumes "md_step ds st st'" "md_origin ds st"
  shows "md_origin ds st'"
  using assms(1)
proof cases
  case (returns i e)
  show ?thesis by (rule md_origin_update [OF assms(2) returns(2)]) (use returns in auto)
next
  case (cancels i e)
  have "\<exists>c. (ds ! i) c e \<and> (c \<longrightarrow> md_cancelled st)" using assms(2) cancels by (simp add: md_origin_def)
  then show ?thesis by (intro md_origin_update [OF assms(2) cancels(2)]) (use cancels in auto)
next
  case (reports i e)
  have "\<exists>c. (ds ! i) c e \<and> (c \<longrightarrow> md_cancelled st)" using assms(2) reports by (simp add: md_origin_def)
  then show ?thesis by (intro md_origin_update [OF assms(2) reports(2)]) (use reports in auto)
qed (use assms(2) in \<open>auto simp: md_origin_def\<close>)

lemma md_origin_reachable: "(md_step ds)\<^sup>*\<^sup>* (md_start ds) st \<Longrightarrow> md_origin ds st"
proof (induction rule: rtranclp_induct)
  case base
  show ?case by (auto simp: md_origin_def md_start_def)
qed (blast intro: md_origin_step)

lemma reported_error_collected:
  assumes "md_inv ds st" "i < length ds" "md_daemons st ! i = Reported (Some e)"
  shows "e \<in> set (md_errs st)"
proof -
  have "Reported (Some e) \<in> set (md_daemons st)" using assms by (metis md_inv_def nth_mem)
  then have "e \<in># sum_list (map reported_errs (md_daemons st))"
    by (induction "md_daemons st") (force simp: image_iff)+
  then show ?thesis using assms(1) unfolding md_inv_def by (metis set_mset_mset)
qed

lemma sshDaemon_quiet:
  assumes "sshDaemon start M c None"
  shows c
proof -
  obtain event w where e: "event = CtxDone \<longrightarrow> c" "None = returned (fst (SSHDaemon_Run start M event w))"
    using assms unfolding sshDaemon_def by blast
  then show c by (cases event) (auto simp: returned_def SSHDaemon_Run_def split: prod.splits sum.splits)
qed

lemma clusterInitDaemon_quiet [simp]: "clusterInitDaemon d c e \<longleftrightarrow> e = None"
  by (simp add: clusterInitDaemon_def ClusterInitDaemon_Run_def returned_def)

text \<open>Every daemon returns once the context is cancelled.\<close>

lemma instanceDaemons_return: "d \<in> set (instanceDaemons client cid start M) \<Longrightarrow> \<exists>e. d True e"
  unfolding instanceDaemons_def by (auto simp: knownHostsDaemon_def sshDaemon_def) blast+

section \<open>Properties\<close>

text \<open>An instance container that nobody tells to stop does not end without an error: when its daemons have
  all returned and no signal has arrived, sshd or the known-hosts controller has failed, the starter
  returns the collected errors and the program's status is 1, so that the container is restarted. The
  initialisation of the database never ends the container, whatever becomes of it. And once a signal or
  an error has cancelled the context, the daemons can always run to their end.\<close>

theorem container_ends_only_in_error:
  assumes "(md_step (instanceDaemons client cid start M))\<^sup>*\<^sup>* (md_start (instanceDaemons client cid start M)) st"
  shows "(all_reported st \<and> \<not> md_signalled st \<longrightarrow>
      (\<exists>e\<in>set (md_errs st). md_daemons st ! 0 = Reported (Some e) \<or> md_daemons st ! 2 = Reported (Some e)) \<and>
      MultidaemonStarter_Run A (md_errs st) = Inl (A (md_errs st)) \<and>
      (\<forall>Root Gpadmin LabelPVC w w1 w2 w3 k.
        RunCmd M (Command ''/usr/bin/sudo'' [prog, ''--do-root-startup'']) w = (Inr (), w1) \<and>
        Gpadmin w1 = (Inr (), w2) \<and> LabelPVC w2 = (Inr (), w3) \<longrightarrow>
        GreenplumContainerStarter_Run M uid Root Gpadmin LabelPVC
          (\<lambda>w. (MultidaemonStarter_Run A (md_errs st), k w)) [prog] w = (1, k w3))) \<and>
    (\<forall>e. md_daemons st ! 1 \<noteq> Reported (Some e)) \<and>
    (md_cancelled st \<longrightarrow> (\<exists>st'. (md_step (instanceDaemons client cid start M))\<^sup>*\<^sup>* st st' \<and> all_reported st'))"
proof -
  let ?ds = "instanceDaemons client cid start M"
  have inv: "md_inv ?ds st" and org: "md_origin ?ds st"
    using assms by (rule md_inv_reachable, rule md_origin_reachable)
  have n: "length ?ds = 3" "?ds ! 1 = clusterInitDaemon cid" "?ds ! 2 = sshDaemon start M" by (simp_all add: instanceDaemons_def)
  have may: "\<exists>c. (?ds ! i) c e \<and> (c \<longrightarrow> md_cancelled st)" if "i < 3" "md_daemons st ! i = Reported e" for i e
    using that org n(1) by (simp add: md_origin_def)
  have one: "md_daemons st ! 1 \<noteq> Reported (Some e)" for e using may [of 1 "Some e"] n(2) by auto
  have err: "\<exists>e\<in>set (md_errs st). md_daemons st ! 0 = Reported (Some e) \<or> md_daemons st ! 2 = Reported (Some e)"
    if rep: "all_reported st" and sig: "\<not> md_signalled st"
  proof -
    have all: "\<exists>e. md_daemons st ! i = Reported e" if "i < 3" for i
      using rep that inv n(1) by (simp add: all_reported_def md_inv_def)
    have "\<exists>i<3. \<exists>e. md_daemons st ! i = Reported (Some e)"
    proof (rule ccontr)
      assume none: "\<not> ?thesis"
      then have quiet: "md_daemons st ! i = Reported None" if "i < 3" for i using all [OF that] that by (metis not_None_eq)
      from may [of 2 None] quiet [of 2] n(3) have "md_cancelled st" by (auto dest: sshDaemon_quiet)
      then obtain i where "i < 3" "past_cancel (md_daemons st ! i)" using org sig n(1) by (auto simp: md_origin_def)
      with quiet [of i] show False by simp
    qed
    then obtain i e where i: "i < 3" "md_daemons st ! i = Reported (Some e)" by blast
    then have "i = 0 \<or> i = 2" using one by (metis One_nat_def less_2_cases not_less_less_Suc_eq numeral_3_eq_3 numeral_2_eq_2)
    moreover have "e \<in> set (md_errs st)" using reported_error_collected [OF inv] i n(1) by simp
    ultimately show ?thesis using i(2) by auto
  qed
  moreover have "MultidaemonStarter_Run A (md_errs st) = Inl (A (md_errs st))" if "\<exists>e\<in>set (md_errs st). P e" for P
    using that by (auto simp: MultidaemonStarter_Run_def)
  moreover have "\<exists>st'. (md_step ?ds)\<^sup>*\<^sup>* st st' \<and> all_reported st'" if "md_cancelled st"
    by (rule md_completes [OF _ inv that]) (simp add: instanceDaemons_return)
  ultimately show ?thesis using one by (auto simp: GreenplumContainerStarter_Run_def)
qed

subsection \<open>A container without sshd\<close>

text \<open>A daemon may return, cancel and report without another doing anything in between.\<close>

lemma daemon_runs:
  assumes "i < length ds" "length (md_daemons st) = length ds" "md_daemons st ! i = Running" "(ds ! i) (md_cancelled st) e"
  shows "(md_step ds)\<^sup>*\<^sup>* st (st\<lparr>md_cancelled := md_cancelled st \<or> e \<noteq> None, md_daemons := (md_daemons st)[i := Reported e],
    md_errs := md_errs st @ (case e of None \<Rightarrow> [] | Some err \<Rightarrow> [err])\<rparr>)"
proof -
  let ?s1 = "st\<lparr>md_daemons := (md_daemons st)[i := Returned e]\<rparr>"
  let ?s2 = "?s1\<lparr>md_cancelled := md_cancelled ?s1 \<or> e \<noteq> None, md_daemons := (md_daemons ?s1)[i := Sending e]\<rparr>"
  have "md_step ds st ?s1" using assms by (intro md_step.returns)
  moreover have "md_step ds ?s1 ?s2" using assms by (intro md_step.cancels) simp_all
  moreover have "md_step ds ?s2 (?s2\<lparr>md_daemons := (md_daemons ?s2)[i := Reported e],
      md_errs := md_errs ?s2 @ (case e of None \<Rightarrow> [] | Some err \<Rightarrow> [err])\<rparr>)"
    using assms by (intro md_step.reports) simp_all
  ultimately show ?thesis by (simp add: rtranclp.rtrancl_into_rtrancl)
qed

abbreviation sshd_missing :: "mem \<Rightarrow> int result \<times> mem" where
  "sshd_missing s \<equiv> (Inl (Err ''sshd: not found''), s)"

theorem container_ends_only_in_error_witness:
  "let ds = instanceDaemons (Inl (Err ''no client'')) (demo_daemon (\<lambda>c. run_ok '''') ''master-0'') sshd_missing
        (mem_machine (\<lambda>c. run_ok '''') ''master-0'');
      st = \<lparr>md_signalled = False, md_cancelled = True,
        md_daemons = [Reported (Some (Wrap ''failed to initialize client'' (Err ''no client''))), Reported None,
          Reported (Some (Err ''sshd: not found''))],
        md_errs = [Wrap ''failed to initialize client'' (Err ''no client''), Err ''sshd: not found'']\<rparr>
   in (md_step ds)\<^sup>*\<^sup>* (md_start ds) st \<and> MultidaemonStarter_Run hd (md_errs st) = Inl (hd (md_errs st))"
proof -
  let ?M = "mem_machine (\<lambda>c. run_ok '''') ''master-0''"
  let ?ds = "instanceDaemons (Inl (Err ''no client'')) (demo_daemon (\<lambda>c. run_ok '''') ''master-0'') sshd_missing ?M"
  let ?e1 = "Wrap ''failed to initialize client'' (Err ''no client'')" and ?e2 = "Err ''sshd: not found''"
  let ?st = "\<lambda>c xs es. \<lparr>md_signalled = False, md_cancelled = c, md_daemons = xs, md_errs = es\<rparr>"
  have start: "md_start ?ds = ?st False [Running, Running, Running] []" by (simp add: md_start_def instanceDaemons_def)
  have "(?ds ! 0) False (Some ?e1)"
    by (simp add: instanceDaemons_def knownHostsDaemon_def KnownHostsController_Run_def returned_def)
  then have "(md_step ?ds)\<^sup>*\<^sup>* (?st False [Running, Running, Running] []) (?st True [Reported (Some ?e1), Running, Running] [?e1])"
    using daemon_runs [of 0 ?ds "?st False [Running, Running, Running] []" "Some ?e1"] by (simp add: instanceDaemons_def)
  moreover have "(md_step ?ds)\<^sup>*\<^sup>* (?st True [Reported (Some ?e1), Running, Running] [?e1])
      (?st True [Reported (Some ?e1), Reported None, Running] [?e1])"
    using daemon_runs [of 1 ?ds "?st True [Reported (Some ?e1), Running, Running] [?e1]" None] by (simp add: instanceDaemons_def)
  moreover have "(?ds ! 2) True (Some ?e2)"
    by (simp add: instanceDaemons_def sshDaemon_def SSHDaemon_Run_def perform_def returned_def)
  then have "(md_step ?ds)\<^sup>*\<^sup>* (?st True [Reported (Some ?e1), Reported None, Running] [?e1])
      (?st True [Reported (Some ?e1), Reported None, Reported (Some ?e2)] [?e1, ?e2])"
    using daemon_runs [of 2 ?ds "?st True [Reported (Some ?e1), Reported None, Running] [?e1]" "Some ?e2"]
    by (simp add: instanceDaemons_def)
  ultimately have "(md_step ?ds)\<^sup>*\<^sup>* (md_start ?ds) (?st True [Reported (Some ?e1), Reported None, Reported (Some ?e2)] [?e1, ?e2])"
    unfolding start by (meson rtranclp_trans)
  from this container_ends_only_in_error [OF this, of hd] show ?thesis by (simp add: all_reported_def)
qed

end
