(* ===== verification/Security_Check.thy ===== *)
theory Security_Check
  imports Prelude
begin

text \<open>
  The security check of a release (\<open>release/security_check.go\<close>): it reads the packages of the release
  from a receipt (the output of \<open>dpkg -l\<close>), the Ubuntu security notices from exported stories, and either
  names the packages that are older than a notice asks for or prints the release note. The CSV reader and
  the comparison of Debian versions are libraries, hence parameters. The lemmas show that the release note
  is printed exactly when no notice is open.
\<close>

section \<open>Definitions\<close>

subsection \<open>Lines and words\<close>

text \<open>
  \<open>bufio.Scanner\<close> by lines: the end of a line may have a carriage return, there is no line after the last
  newline, and scanning stops before a line that does not fit into the buffer of 65536 bytes.
\<close>

definition trim_cr :: "string \<Rightarrow> string" where
  "trim_cr l = TrimSuffix l [CHR 0x0D]"

definition scan_lines :: "string \<Rightarrow> string list" where
  "scan_lines s =
     (let ls = Split s (CHR 0x0A)
      in map trim_cr (takeWhile (\<lambda>l. int (length l) < 65536) (if last ls = [] then butlast ls else ls)))"

text \<open>\<open>strings.Fields\<close>.\<close>

fun fields_from :: "string \<Rightarrow> string \<Rightarrow> string list" where
  "fields_from word [] = (if word = [] then [] else [word])"
| "fields_from word (c # cs) =
     (if is_space c then (if word = [] then fields_from [] cs else word # fields_from [] cs)
      else fields_from (word @ [c]) cs)"

definition Fields :: "string \<Rightarrow> string list" where
  "Fields s = fields_from [] s"

subsection \<open>The receipt\<close>

type_synonym PackageVersions = "(string \<times> string) list"

fun receiptLine :: "string list \<Rightarrow> PackageVersions \<Rightarrow> PackageVersions" where
  "receiptLine (state # pkg # ver # descr # rest) packages =
     (if state = ''ii'' then AList.update (hd (Split pkg (CHR '':''))) ver packages else packages)"
| "receiptLine words packages = packages"

definition ParsePackageReceipt :: "string \<Rightarrow> PackageVersions" where
  "ParsePackageReceipt receipt = foldl (\<lambda>m line. receiptLine (Fields line) m) [] (scan_lines receipt)"

subsection \<open>The stories\<close>

record SecurityStory =
  ss_ID :: string
  ss_Title :: string
  ss_Description :: string
  ss_URL :: string

record USN =
  usn_id :: string
  usn_link :: string
  usn_headline :: string
  usn_packages :: PackageVersions

datatype 'a outcome = Value 'a | Failed go_error | Panicked string

text \<open>The lines of a description: a package line without a version is an index out of range.\<close>

fun storyPackages :: "string list \<Rightarrow> bool \<Rightarrow> PackageVersions \<Rightarrow> PackageVersions outcome" where
  "storyPackages [] ours packages = Value packages"
| "storyPackages (line # rest) ours packages =
     (if line = ''**18.04 Packages:**'' then storyPackages rest True packages
      else if HasPrefix line ''**'' then storyPackages rest False packages
      else if ours
      then (case Fields line of
              name # ver # others \<Rightarrow> storyPackages rest ours (AList.update name ver packages)
            | _ \<Rightarrow> Panicked ''index out of range'')
      else storyPackages rest ours packages)"

definition is_word :: "char \<Rightarrow> bool" where
  "is_word c = (is_digit c \<or> (65 \<le> code c \<and> code c \<le> 90) \<or> (97 \<le> code c \<and> code c \<le> 122) \<or> c = CHR ''_'')"

text \<open>\<open>usnRegexp\<close> at a position: the digits are followed by a character that is no digit.\<close>

definition matchUSNAt :: "string \<Rightarrow> (string \<times> string) option" where
  "matchUSNAt s =
     (let pre = ''USN-''; r1 = drop (length pre) s; d1 = takeWhile is_digit r1; r2 = dropWhile is_digit r1;
          r3 = tl r2; d2 = takeWhile is_digit r3; r4 = dropWhile is_digit r3
      in if HasPrefix s pre \<and> d1 \<noteq> [] \<and> HasPrefix r2 ''-'' \<and> d2 \<noteq> [] \<and> HasPrefix r4 '': ''
         then Some (pre @ d1 @ ''-'' @ d2, takeWhile (\<lambda>c. c \<noteq> CHR 0x0A) (drop 2 r4)) else None)"

fun findUSN :: "bool \<Rightarrow> string \<Rightarrow> (string \<times> string) option" where
  "findUSN boundary [] = None"
| "findUSN boundary (c # cs) =
     (case (if boundary then matchUSNAt (c # cs) else None) of
        Some m \<Rightarrow> Some m
      | None \<Rightarrow> findUSN (\<not> is_word c) cs)"

text \<open>\<open>usnLinkRegexp\<close>, on the lines between newlines.\<close>

definition is_regexp_space :: "char \<Rightarrow> bool" where
  "is_regexp_space c = (c \<in> {CHR '' '', CHR 0x09, CHR 0x0A, CHR 0x0C, CHR 0x0D})"

definition matchLink :: "string \<Rightarrow> string option" where
  "matchLink line =
     (let pre = ''**USN**: ''
      in if HasPrefix line (pre @ ''https://'')
         then Some (takeWhile (\<lambda>c. \<not> is_regexp_space c) (drop (length pre) line)) else None)"

fun findLink :: "string list \<Rightarrow> string option" where
  "findLink [] = None"
| "findLink (line # rest) = (case matchLink line of Some l \<Rightarrow> Some l | None \<Rightarrow> findLink rest)"

definition ParseUSN :: "SecurityStory \<Rightarrow> USN outcome" where
  "ParseUSN ss =
     (case storyPackages (scan_lines (ss_Description ss)) False [] of
        Panicked p \<Rightarrow> Panicked p
      | Failed e \<Rightarrow> Failed e
      | Value packages \<Rightarrow>
     (case findUSN True (ss_Title ss) of
        None \<Rightarrow> Failed (Err (''could not parse USN title and ID from story: '' @ ss_ID ss))
      | Some (i, headline) \<Rightarrow>
     (case findLink (Split (ss_Description ss) (CHR 0x0A)) of
        None \<Rightarrow> Failed (Err (''could not parse USN link from story: '' @ ss_ID ss))
      | Some link \<Rightarrow> Value \<lparr>usn_id = i, usn_link = link, usn_headline = headline, usn_packages = packages\<rparr>)))"

subsection \<open>The check\<close>

text \<open>\<open>order\<close> gives the entries of a map in the order of an iteration over it.\<close>

record 'v version_lib =
  NewVersion :: "string \<Rightarrow> 'v result"
  LessThan :: "'v \<Rightarrow> 'v \<Rightarrow> bool"
  map_order :: "PackageVersions \<Rightarrow> PackageVersions"

fun updateLoop ::
  "'v version_lib \<Rightarrow> PackageVersions \<Rightarrow> PackageVersions \<Rightarrow> nat \<Rightarrow> string list \<Rightarrow> (nat \<times> string list) result"
where
  "updateLoop V dpkg [] matchedPkgs result = Inr (matchedPkgs, result)"
| "updateLoop V dpkg ((pkgName, storyVerStr) # rest) matchedPkgs result =
     (case map_of dpkg pkgName of
        None \<Rightarrow> updateLoop V dpkg rest matchedPkgs result
      | Some sysVerStr \<Rightarrow>
     (case NewVersion V storyVerStr of
        Inl e \<Rightarrow> Inl (Wrap (''parsing version from story for package '' @ [CHR 0x22] @ pkgName @ [CHR 0x22]) e)
      | Inr storyVersion \<Rightarrow>
     (case NewVersion V sysVerStr of
        Inl e \<Rightarrow> Inl (Wrap (''parsing version from receipt for package '' @ [CHR 0x22] @ pkgName @ [CHR 0x22]) e)
      | Inr dpkgVersion \<Rightarrow>
          updateLoop V dpkg rest (Suc matchedPkgs)
            (if LessThan V dpkgVersion storyVersion then result @ [pkgName] else result))))"

definition FindPackagesRequiringUpdate ::
  "'v version_lib \<Rightarrow> PackageVersions \<Rightarrow> string \<Rightarrow> USN \<Rightarrow> string list result"
where
  "FindPackagesRequiringUpdate V dpkg storyID usn =
     (case updateLoop V dpkg (map_order V (usn_packages usn)) 0 [] of
        Inl e \<Rightarrow> Inl e
      | Inr (matchedPkgs, result) \<Rightarrow>
          (if matchedPkgs = 0
           then Inl (Err (''bug: expected dpkg list to contain at least one package from story '' @ storyID @
                  '', but there were none''))
           else Inr result))"

definition GenerateReleaseNote :: "USN \<Rightarrow> string" where
  "GenerateReleaseNote usn =
     ''* ['' @ usn_id usn @ '']('' @ usn_link usn @ ''): '' @ usn_headline usn @ [CHR 0x0A]"

text \<open>\<open>log.Fatal\<close> ends the program: \<open>Failed\<close>.\<close>

fun storiesLoop ::
  "'v version_lib \<Rightarrow> PackageVersions \<Rightarrow> SecurityStory list \<Rightarrow> string list \<Rightarrow> string \<Rightarrow> (string list \<times> string) outcome"
where
  "storiesLoop V dpkg [] updatesNeeded rn = Value (updatesNeeded, rn)"
| "storiesLoop V dpkg (story # rest) updatesNeeded rn =
     (case ParseUSN story of
        Panicked p \<Rightarrow> Panicked p
      | Failed e \<Rightarrow> Failed e
      | Value usn \<Rightarrow>
          (case FindPackagesRequiringUpdate V dpkg (ss_ID story) usn of
             Inl e \<Rightarrow> Failed e
           | Inr pkgs \<Rightarrow> storiesLoop V dpkg rest (updatesNeeded @ pkgs) (rn @ GenerateReleaseNote usn)))"

definition releaseNoteHeader :: string where
  "releaseNoteHeader = ''# Release Notes'' @ [CHR 0x0A] @ ''Updated Ubuntu packages to address USNs:'' @ [CHR 0x0A]"

definition ProcessSecurityStories ::
  "'v version_lib \<Rightarrow> SecurityStory list \<Rightarrow> PackageVersions \<Rightarrow> (string list \<times> string) outcome"
where
  "ProcessSecurityStories V stories dpkg =
     (case storiesLoop V dpkg stories [] releaseNoteHeader of
        Panicked p \<Rightarrow> Panicked p
      | Failed e \<Rightarrow> Failed e
      | Value (updatesNeeded, rn) \<Rightarrow>
          Value (updatesNeeded, if length updatesNeeded = 0 then rn else ''''))"

datatype report = PackagesToUpdate "string list" | ReleaseNote string

definition security_check_main ::
  "'v version_lib \<Rightarrow> string result \<Rightarrow> string result \<Rightarrow> (string \<Rightarrow> SecurityStory list result) \<Rightarrow> report outcome"
where
  "security_check_main V receipt storiesFile Unmarshal =
     (case receipt of
        Inl e \<Rightarrow> Failed (Wrap ''open receipt'' e)
      | Inr text \<Rightarrow>
     (case storiesFile of
        Inl e \<Rightarrow> Failed (Wrap ''open stories CSV'' e)
      | Inr csv \<Rightarrow>
     (case Unmarshal csv of
        Inl e \<Rightarrow> Failed (Wrap ''unmarshal stories CSV'' e)
      | Inr stories \<Rightarrow>
     (case ProcessSecurityStories V stories (ParsePackageReceipt text) of
        Panicked p \<Rightarrow> Panicked p
      | Failed e \<Rightarrow> Failed e
      | Value (pkgsRequiringUpdate, releaseNote) \<Rightarrow>
          Value (if length pkgsRequiringUpdate > 0 then PackagesToUpdate pkgsRequiringUpdate
                 else ReleaseNote releaseNote)))))"

section \<open>Lemmas\<close>

text \<open>A package of a notice is open when the release has it in an older version than the notice asks for.\<close>

definition outdated :: "'v version_lib \<Rightarrow> PackageVersions \<Rightarrow> PackageVersions \<Rightarrow> string \<Rightarrow> bool" where
  "outdated V dpkg wanted p \<longleftrightarrow>
     (\<exists>want have v1 v2. map_of wanted p = Some want \<and> map_of dpkg p = Some have \<and>
        NewVersion V want = Inr v1 \<and> NewVersion V have = Inr v2 \<and> LessThan V v2 v1)"

text \<open>The versions of every package both sides name can be read, and there is such a package.\<close>

definition comparable :: "'v version_lib \<Rightarrow> PackageVersions \<Rightarrow> PackageVersions \<Rightarrow> bool" where
  "comparable V dpkg wanted \<longleftrightarrow> (\<exists>p. map_of wanted p \<noteq> None \<and> map_of dpkg p \<noteq> None) \<and>
     (\<forall>p want have. map_of wanted p = Some want \<longrightarrow> map_of dpkg p = Some have \<longrightarrow>
        (\<exists>v1 v2. NewVersion V want = Inr v1 \<and> NewVersion V have = Inr v2))"

definition open_entry :: "'v version_lib \<Rightarrow> PackageVersions \<Rightarrow> string \<times> string \<Rightarrow> bool" where
  "open_entry V dpkg e = (case map_of dpkg (fst e) of
     None \<Rightarrow> False
   | Some have \<Rightarrow> (case (NewVersion V (snd e), NewVersion V have) of (Inr v1, Inr v2) \<Rightarrow> LessThan V v2 v1 | _ \<Rightarrow> False))"

definition readable :: "'v version_lib \<Rightarrow> PackageVersions \<Rightarrow> string \<times> string \<Rightarrow> bool" where
  "readable V dpkg e = (\<forall>have. map_of dpkg (fst e) = Some have \<longrightarrow>
     (\<exists>v1 v2. NewVersion V (snd e) = Inr v1 \<and> NewVersion V have = Inr v2))"

lemma updateLoop_result:
  "if \<forall>e\<in>set es. readable V dpkg e
   then updateLoop V dpkg es n res = Inr (n + length (filter (\<lambda>e. map_of dpkg (fst e) \<noteq> None) es),
     res @ map fst (filter (open_entry V dpkg) es))
   else \<exists>err. updateLoop V dpkg es n res = Inl err"
proof (induction es arbitrary: n res)
  case (Cons e es)
  obtain p want where e: "e = (p, want)" by fastforce
  show ?case
  proof (cases "map_of dpkg p")
    case None
    then show ?thesis using Cons.IH [of n res] by (auto simp: e readable_def open_entry_def)
  next
    case (Some hv)
    show ?thesis
    proof (cases "\<exists>v1 v2. NewVersion V want = Inr v1 \<and> NewVersion V hv = Inr v2")
      case False
      then show ?thesis using Some by (cases "NewVersion V want"; cases "NewVersion V hv") (auto simp: e readable_def)
    next
      case True
      then obtain v1 v2 where v: "NewVersion V want = Inr v1" "NewVersion V hv = Inr v2" by blast
      then show ?thesis
        using Cons.IH [of "Suc n" "if LessThan V v2 v1 then res @ [p] else res"] Some
        by (auto simp: e readable_def open_entry_def split: if_splits)
    qed
  qed
qed simp

lemma distinct_story_packages:
  "storyPackages ls ours m = Value ps \<Longrightarrow> distinct (map fst m) \<Longrightarrow> distinct (map fst ps)"
  by (induction ls ours m rule: storyPackages.induct)
    (auto simp: distinct_update split: if_splits list.splits)

lemma ParseUSN_distinct: "ParseUSN ss = Value usn \<Longrightarrow> distinct (map fst (usn_packages usn))"
  by (auto simp: ParseUSN_def split: outcome.splits option.splits dest!: distinct_story_packages)

text \<open>The packages a notice asks to update do not depend on the order of the iteration, and an error is
  reported exactly when the versions cannot be compared.\<close>

lemma FindPackages_result:
  assumes "\<And>m. mset (map_order V m) = mset m" "distinct (map fst (usn_packages usn))"
  shows "(\<exists>x. FindPackagesRequiringUpdate V dpkg i usn = Inr x) \<longleftrightarrow> comparable V dpkg (usn_packages usn)"
    "FindPackagesRequiringUpdate V dpkg i usn = Inr x \<Longrightarrow> set x = {p. outdated V dpkg (usn_packages usn) p}"
proof -
  let ?es = "map_order V (usn_packages usn)"
  have es: "set ?es = set (usn_packages usn)" using mset_eq_setD [OF assms(1)] .
  have of: "(p, v) \<in> set ?es \<longleftrightarrow> map_of (usn_packages usn) p = Some v" for p v using assms(2) by (simp add: es)
  have all: "(\<forall>e\<in>set ?es. P e) \<longleftrightarrow> (\<forall>p v. map_of (usn_packages usn) p = Some v \<longrightarrow> P (p, v))" for P
    using of by (metis surj_pair)
  have "(\<forall>e\<in>set ?es. readable V dpkg e) \<longleftrightarrow> (\<forall>p want. map_of (usn_packages usn) p = Some want \<longrightarrow> readable V dpkg (p, want))"
    by (rule all)
  moreover have "filter (\<lambda>e. map_of dpkg (fst e) \<noteq> None) ?es = [] \<longleftrightarrow> (\<forall>e\<in>set ?es. map_of dpkg (fst e) = None)"
    by (simp add: filter_empty_conv)
  moreover have "\<dots> \<longleftrightarrow> (\<forall>p v. map_of (usn_packages usn) p = Some v \<longrightarrow> map_of dpkg p = None)"
    unfolding all by simp
  ultimately have comp: "comparable V dpkg (usn_packages usn) \<longleftrightarrow>
      (\<forall>e\<in>set ?es. readable V dpkg e) \<and> filter (\<lambda>e. map_of dpkg (fst e) \<noteq> None) ?es \<noteq> []"
    unfolding comparable_def readable_def by auto
  have result: "FindPackagesRequiringUpdate V dpkg i usn = Inr y \<Longrightarrow> y = map fst (filter (open_entry V dpkg) ?es)" for y
    using updateLoop_result [of ?es V dpkg 0 "[]"]
    by (auto simp: FindPackagesRequiringUpdate_def split: if_splits sum.splits)
  show "(\<exists>x. FindPackagesRequiringUpdate V dpkg i usn = Inr x) \<longleftrightarrow> comparable V dpkg (usn_packages usn)"
    unfolding comp using updateLoop_result [of ?es V dpkg 0 "[]"]
    by (auto simp: FindPackagesRequiringUpdate_def split: if_splits)
  have opn: "open_entry V dpkg (p, want) \<longleftrightarrow> outdated V dpkg (usn_packages usn) p"
    if "map_of (usn_packages usn) p = Some want" for p want
    using that by (auto simp: outdated_def open_entry_def split: option.splits sum.splits)
  have mem: "p \<in> fst ` {e \<in> set ?es. open_entry V dpkg e} \<longleftrightarrow> outdated V dpkg (usn_packages usn) p" for p
  proof -
    have "p \<in> fst ` {e \<in> set ?es. open_entry V dpkg e} \<longleftrightarrow> (\<exists>want. (p, want) \<in> set ?es \<and> open_entry V dpkg (p, want))"
      by (auto simp: image_iff)
    also have "\<dots> \<longleftrightarrow> (\<exists>want. map_of (usn_packages usn) p = Some want) \<and> outdated V dpkg (usn_packages usn) p"
      using opn by (auto simp only: of)
    also have "\<dots> \<longleftrightarrow> outdated V dpkg (usn_packages usn) p" by (auto simp: outdated_def)
    finally show ?thesis .
  qed
  assume "FindPackagesRequiringUpdate V dpkg i usn = Inr x"
  then have "set x = fst ` {e \<in> set ?es. open_entry V dpkg e}" using result by simp
  then show "set x = {p. outdated V dpkg (usn_packages usn) p}" using mem by blast
qed

lemma storiesLoop_result:
  assumes order: "\<And>m. mset (map_order V m) = mset m"
  shows "(\<exists>x. storiesLoop V dpkg stories us rn = Value x) \<longleftrightarrow>
      (\<forall>s\<in>set stories. \<exists>usn. ParseUSN s = Value usn \<and> comparable V dpkg (usn_packages usn))"
    "storiesLoop V dpkg stories us rn = Value (us', rn') \<Longrightarrow>
      \<exists>usns. map ParseUSN stories = map Value usns \<and> rn' = rn @ concat (map GenerateReleaseNote usns) \<and>
        set us' = set us \<union> (\<Union>usn\<in>set usns. {p. outdated V dpkg (usn_packages usn) p})"
proof (induction stories arbitrary: us rn)
  case (Cons s stories)
  note IH1 = Cons.IH(1) and IH2 = Cons.IH(2)
  have step: "storiesLoop V dpkg (s # stories) us rn = storiesLoop V dpkg stories (us @ x) (rn @ GenerateReleaseNote usn)"
    if "ParseUSN s = Value usn" "FindPackagesRequiringUpdate V dpkg (ss_ID s) usn = Inr x" for usn x us rn
    using that by simp
  {
    case 1
    show ?case
    proof (cases "\<exists>usn x. ParseUSN s = Value usn \<and> FindPackagesRequiringUpdate V dpkg (ss_ID s) usn = Inr x")
      case True
      then obtain usn x where u: "ParseUSN s = Value usn" "FindPackagesRequiringUpdate V dpkg (ss_ID s) usn = Inr x" by blast
      then have "comparable V dpkg (usn_packages usn)"
        using FindPackages_result(1) [OF order ParseUSN_distinct [OF u(1)]] by blast
      moreover have "(\<exists>y. storiesLoop V dpkg (s # stories) us rn = Value y) \<longleftrightarrow>
          (\<forall>s\<in>set stories. \<exists>usn. ParseUSN s = Value usn \<and> comparable V dpkg (usn_packages usn))"
        by (simp only: step [OF u] IH1)
      ultimately show ?thesis using u(1) by simp
    next
      case False
      then have "\<nexists>usn. ParseUSN s = Value usn \<and> comparable V dpkg (usn_packages usn)"
        using FindPackages_result(1) [OF order ParseUSN_distinct] by blast
      moreover have "\<nexists>x. storiesLoop V dpkg (s # stories) us rn = Value x"
        using False by (auto split: outcome.splits sum.splits)
      ultimately show ?thesis by auto
    qed
  next
    case 2
    then obtain usn x where u: "ParseUSN s = Value usn" "FindPackagesRequiringUpdate V dpkg (ss_ID s) usn = Inr x"
      by (auto split: outcome.splits sum.splits)
    from 2 [unfolded step [OF u]] obtain usns where usns: "map ParseUSN stories = map Value usns"
      "rn' = (rn @ GenerateReleaseNote usn) @ concat (map GenerateReleaseNote usns)"
      "set us' = set (us @ x) \<union> (\<Union>usn\<in>set usns. {p. outdated V dpkg (usn_packages usn) p})"
      using IH2 by blast
    moreover have "set x = {p. outdated V dpkg (usn_packages usn) p}"
      by (rule FindPackages_result(2) [OF order ParseUSN_distinct [OF u(1)] u(2)])
    ultimately show ?case using u(1) by (intro exI [of _ "usn # usns"]) auto
  }
qed simp_all

section \<open>Properties\<close>

text \<open>The check ends with a report exactly when every story is a readable notice with at least one package
  of the release and comparable versions. The report is the release note, with one line for every notice,
  exactly when the release has every package of every notice in at least the version the notice asks for;
  otherwise it names exactly the packages that are older, in whatever order the maps are iterated.\<close>

theorem release_note_only_when_patched:
  assumes "\<And>m. mset (map_order V m) = mset m" "Unmarshal csv = Inr stories" "dpkg = ParsePackageReceipt receipt"
  shows "((\<exists>rep. security_check_main V (Inr receipt) (Inr csv) Unmarshal = Value rep) \<longleftrightarrow>
      (\<forall>s\<in>set stories. \<exists>usn. ParseUSN s = Value usn \<and> comparable V dpkg (usn_packages usn))) \<and>
    (\<forall>rep. security_check_main V (Inr receipt) (Inr csv) Unmarshal = Value rep \<longrightarrow>
      (\<exists>usns. map ParseUSN stories = map Value usns \<and>
        (case rep of
           ReleaseNote note \<Rightarrow> note = releaseNoteHeader @ concat (map GenerateReleaseNote usns) \<and>
             (\<forall>usn\<in>set usns. \<forall>p. \<not> outdated V dpkg (usn_packages usn) p)
         | PackagesToUpdate us \<Rightarrow> us \<noteq> [] \<and> set us = {p. \<exists>usn\<in>set usns. outdated V dpkg (usn_packages usn) p})))"
proof -
  let ?loop = "storiesLoop V dpkg stories [] releaseNoteHeader"
  have main: "security_check_main V (Inr receipt) (Inr csv) Unmarshal =
      (case ?loop of Panicked p \<Rightarrow> Panicked p | Failed e \<Rightarrow> Failed e
       | Value (us, rn) \<Rightarrow> Value (if us = [] then ReleaseNote rn else PackagesToUpdate us))"
    by (simp add: security_check_main_def ProcessSecurityStories_def assms(2,3) split: outcome.split prod.split)
  then have "(\<exists>rep. security_check_main V (Inr receipt) (Inr csv) Unmarshal = Value rep) \<longleftrightarrow> (\<exists>x. ?loop = Value x)"
    by (auto split: outcome.splits)
  moreover have "\<exists>usns. map ParseUSN stories = map Value usns \<and>
        (case rep of
           ReleaseNote note \<Rightarrow> note = releaseNoteHeader @ concat (map GenerateReleaseNote usns) \<and>
             (\<forall>usn\<in>set usns. \<forall>p. \<not> outdated V dpkg (usn_packages usn) p)
         | PackagesToUpdate us \<Rightarrow> us \<noteq> [] \<and> set us = {p. \<exists>usn\<in>set usns. outdated V dpkg (usn_packages usn) p})"
    if rep: "security_check_main V (Inr receipt) (Inr csv) Unmarshal = Value rep" for rep
  proof -
    obtain us rn where loop: "?loop = Value (us, rn)" and r: "rep = (if us = [] then ReleaseNote rn else PackagesToUpdate us)"
      using rep main by (auto split: outcome.splits)
    then obtain usns where usns: "map ParseUSN stories = map Value usns"
      "rn = releaseNoteHeader @ concat (map GenerateReleaseNote usns)"
      "set us = (\<Union>usn\<in>set usns. {p. outdated V dpkg (usn_packages usn) p})"
      using storiesLoop_result(2) [OF assms(1) loop] by auto
    then show ?thesis using r by (intro exI [of _ usns]) (auto split: if_splits)
  qed
  ultimately show ?thesis using storiesLoop_result(1) [OF assms(1)] by blast
qed

subsection \<open>A notice\<close>

definition demo_versions :: "nat version_lib" where
  "demo_versions = \<lparr>NewVersion = (\<lambda>s. Inr (digits_val s)), LessThan = (<), map_order = rev\<rparr>"

definition demo_story :: SecurityStory where
  "demo_story = \<lparr>ss_ID = ''1'', ss_Title = ''USN-1-2: libfoo bug'',
     ss_Description = Join [''**USN**: https://usn/1'', ''**18.04 Packages:**'', ''libfoo 12'', ''libbar 3''] [CHR 0x0A], ss_URL = ''''\<rparr>"

definition demo_receipt :: string where
  "demo_receipt = Join [''ii libfoo:amd64 11 foo'', ''rc libbar 1 bar''] [CHR 0x0A]"

theorem release_note_only_when_patched_witness:
  "\<exists>us. security_check_main demo_versions (Inr demo_receipt) (Inr ''csv'') (\<lambda>c. Inr [demo_story]) = Value (PackagesToUpdate us) \<and>
     set us = {''libfoo''}"
proof -
  let ?usn = "\<lparr>usn_id = ''USN-1-2'', usn_link = ''https://usn/1'', usn_headline = ''libfoo bug'',
     usn_packages = [(''libfoo'', ''12''), (''libbar'', ''3'')]\<rparr>"
  have parse: "ParseUSN demo_story = Value ?usn" by code_simp
  have receipt: "ParsePackageReceipt demo_receipt = [(''libfoo'', ''11'')]" by code_simp
  have less: "digits_val ''11'' < digits_val ''12''" by code_simp
  have order: "mset (map_order demo_versions m) = mset m" for m by (simp add: demo_versions_def)
  have look: "map_of [(''libfoo'', ''11'')] p = Some w \<longleftrightarrow> p = ''libfoo'' \<and> w = ''11''"
    "map_of (usn_packages ?usn) p = Some w \<longleftrightarrow> p = ''libfoo'' \<and> w = ''12'' \<or> p = ''libbar'' \<and> w = ''3''" for p w
    by auto
  have ver: "NewVersion demo_versions w = Inr v \<longleftrightarrow> v = digits_val w" "LessThan demo_versions v v' \<longleftrightarrow> v < v'" for w v v'
    by (auto simp: demo_versions_def)
  have comp: "comparable demo_versions [(''libfoo'', ''11'')] (usn_packages ?usn)"
    unfolding comparable_def not_None_eq look ver by blast
  have out: "outdated demo_versions [(''libfoo'', ''11'')] (usn_packages ?usn) p \<longleftrightarrow> p = ''libfoo''" for p
    unfolding outdated_def look ver using less by auto
  let ?main = "security_check_main demo_versions (Inr demo_receipt) (Inr ''csv'') (\<lambda>c. Inr [demo_story])"
  note res = release_note_only_when_patched [of demo_versions "\<lambda>c. Inr [demo_story]" "''csv''" "[demo_story]", OF order refl receipt [symmetric]]
  from res parse comp obtain rep where rep: "?main = Value rep" by auto
  with res obtain usns where "map ParseUSN [demo_story] = map Value usns"
    and c: "case rep of
           ReleaseNote note \<Rightarrow> note = releaseNoteHeader @ concat (map GenerateReleaseNote usns) \<and>
             (\<forall>usn\<in>set usns. \<forall>p. \<not> outdated demo_versions [(''libfoo'', ''11'')] (usn_packages usn) p)
         | PackagesToUpdate us \<Rightarrow> us \<noteq> [] \<and> set us = {p. \<exists>usn\<in>set usns. outdated demo_versions [(''libfoo'', ''11'')] (usn_packages usn) p}"
    by blast
  then have "usns = [?usn]" using parse by (auto simp: map_eq_Cons_conv)
  with c rep out show ?thesis by (cases rep) auto
qed

end
