(* ===== verification/Kubewait.thy ===== *)
theory Kubewait
  imports Ssh
begin

text \<open>
  Waiting for a cluster from outside (\<open>pkg/integrationutils/kubewait\<close>) and the program
  \<open>cmd/greenplumReady\<close>: each wait polls kubectl until its output satisfies a condition or the time is
  over. The polling function \<open>apiwait.PollImmediate\<close> and the commands are parameters. The lemmas say
  what was seen of the cluster between the start and the end of a successful wait.
\<close>

section \<open>Definitions\<close>

subsection \<open>Internet addresses\<close>

text \<open>Whether \<open>net.ParseIP\<close> gives an address.\<close>

definition octet :: "string \<Rightarrow> bool" where
  "octet f = (f \<noteq> [] \<and> list_all is_digit f \<and> digits_val f \<le> 255 \<and> (1 < length f \<longrightarrow> hd f \<noteq> CHR ''0''))"

definition parseIPv4 :: "string \<Rightarrow> bool" where
  "parseIPv4 s = (let fs = Split s (CHR ''.'') in length fs = 4 \<and> list_all octet fs)"

definition is_hex :: "char \<Rightarrow> bool" where
  "is_hex c = (is_digit c \<or> (97 \<le> code c \<and> code c \<le> 102) \<or> (65 \<le> code c \<and> code c \<le> 70))"

definition hex_val :: "string \<Rightarrow> nat" where
  "hex_val s = foldl (\<lambda>n c. 16 * n + (if is_digit c then code c - 48 else if 97 \<le> code c then code c - 87 else code c - 55)) 0 s"

text \<open>The groups of an IPv6 address that are still to come, and whether there was an ellipsis.\<close>

definition ipv6End :: "nat \<Rightarrow> bool \<Rightarrow> bool" where
  "ipv6End groups ellipsis = (ellipsis \<longleftrightarrow> 0 < groups)"

fun ipv6Loop :: "nat \<Rightarrow> bool \<Rightarrow> string \<Rightarrow> bool" where
  "ipv6Loop 0 ellipsis s = (s = [] \<and> ipv6End 0 ellipsis)"
| "ipv6Loop (Suc k) ellipsis s =
     (let h = takeWhile is_hex s
      in h \<noteq> [] \<and> hex_val h \<le> 65535 \<and>
         (case dropWhile is_hex s of
            [] \<Rightarrow> ipv6End k ellipsis
          | d # r \<Rightarrow>
              (if d = CHR ''.''
               then (if ellipsis then 1 \<le> k else k = 1) \<and> parseIPv4 s \<and> ipv6End (k - 1) ellipsis
               else d = CHR '':'' \<and>
                    (case r of
                       [] \<Rightarrow> False
                     | c # cs \<Rightarrow>
                         (if c = CHR '':''
                          then \<not> ellipsis \<and> (if cs = [] then ipv6End k True else ipv6Loop k True cs)
                          else ipv6Loop k ellipsis (c # cs))))))"

definition parseIPv6 :: "string \<Rightarrow> bool" where
  "parseIPv6 s =
     (if HasPrefix s ''::'' then drop 2 s = [] \<or> ipv6Loop 8 True (drop 2 s) else ipv6Loop 8 False s)"

definition ParseIP :: "string \<Rightarrow> bool" where
  "ParseIP s =
     (case dropWhile (\<lambda>c. c \<noteq> CHR ''.'' \<and> c \<noteq> CHR '':'') s of
        [] \<Rightarrow> False
      | c # cs \<Rightarrow> if c = CHR ''.'' then parseIPv4 s else parseIPv6 s)"

subsection \<open>Commands and polls\<close>

text \<open>
  The commands, \<open>PollImmediate\<close> and several of them at once. A condition may set a variable of the
  function around it, an integer that the polls carry along.
\<close>

record 's shell =
  sh_CombinedOutput :: "Cmd \<Rightarrow> 's \<Rightarrow> (string \<times> go_error option) \<times> 's"
  sh_Run :: "Cmd \<Rightarrow> 's \<Rightarrow> go_error option \<times> 's"
  sh_PollImmediate :: "(int \<times> 's world) poll_fn"
  sh_PollAll :: "int \<Rightarrow> int \<Rightarrow> ('s world \<Rightarrow> bool result \<times> 's world) list \<Rightarrow> 's world \<Rightarrow> unit result list \<times> 's world"
  sh_arrive :: "unit result list \<Rightarrow> unit result list"
  sh_NewAggregate :: "go_error list \<Rightarrow> go_error"
  sh_POLL_TIMEOUT :: "string option"

definition CombinedOutput :: "'s shell \<Rightarrow> string \<Rightarrow> string list \<Rightarrow> ('s, string \<times> go_error option) io" where
  "CombinedOutput sh path args = perform (CommandCall path args) (sh_CombinedOutput sh (Command path args))"

definition kubectl :: "'s shell \<Rightarrow> string list \<Rightarrow> ('s, string \<times> go_error option) io" where
  "kubectl sh args = CombinedOutput sh ''kubectl'' args"

definition shell_Run :: "'s shell \<Rightarrow> string list \<Rightarrow> ('s, go_error option) io" where
  "shell_Run sh args = perform (CommandCall ''kubectl'' args) (sh_Run sh (Command ''kubectl'' args))"

text \<open>A poll with its error wrapped; the condition leaves the variable alone.\<close>

definition waitUntil ::
  "'s shell \<Rightarrow> int \<Rightarrow> string \<Rightarrow> ('s world \<Rightarrow> bool result \<times> 's world) \<Rightarrow> ('s, unit result) io"
where
  "waitUntil sh timeout msg cond w =
     (case sh_PollImmediate sh second timeout (\<lambda>(n, w). case cond w of (r, w1) \<Rightarrow> (r, n, w1)) (0, w) of
        (Inl err, n, w1) \<Rightarrow> (Inl (Wrap msg err), w1)
      | (Inr u, n, w1) \<Rightarrow> (Inr (), w1))"

text \<open>A failing command means that the condition does not hold yet.\<close>

definition whenOutput ::
  "'s shell \<Rightarrow> string list \<Rightarrow> (string \<Rightarrow> bool) \<Rightarrow> 's world \<Rightarrow> bool result \<times> 's world"
where
  "whenOutput sh args ok w =
     (case kubectl sh args w of
        ((out, Some err), w1) \<Rightarrow> (Inr False, w1)
      | ((out, None), w1) \<Rightarrow> (Inr (ok out), w1))"

text \<open>The environment is read once; the product is a 64-bit \<open>time.Duration\<close>.\<close>

definition getPollTimeout :: "'s shell \<Rightarrow> int" where
  "getPollTimeout sh =
     (case sh_POLL_TIMEOUT sh of
        None \<Rightarrow> 120 * second
      | Some v \<Rightarrow>
          (case Atoi v of
             Inl err \<Rightarrow> 120 * second
           | Inr pollTimeout \<Rightarrow> sint (word_of_int (pollTimeout * second) :: 64 word)))"

subsection \<open>The waits\<close>

definition jsonpath :: "string \<Rightarrow> string" where
  "jsonpath p = ''jsonpath='' @ p"

definition getDesiredReplicas :: "'s shell \<Rightarrow> string \<Rightarrow> string \<Rightarrow> ('s, int result) io" where
  "getDesiredReplicas sh kind objectName w =
     (case sh_PollImmediate sh second (getPollTimeout sh)
        (\<lambda>(desiredReplicas, w).
           case kubectl sh [''get'', kind, objectName, ''-o'', jsonpath ''{.spec.replicas}''] w of
             ((out, Some err), w1) \<Rightarrow> (Inr False, desiredReplicas, w1)
           | ((out, None), w1) \<Rightarrow>
               (case Atoi out of Inl err \<Rightarrow> (Inl err, 0, w1) | Inr n \<Rightarrow> (Inr True, n, w1)))
        (0, w) of
        (Inl err, n, w1) \<Rightarrow> (Inl (Wrap (''getting desired replicas from '' @ kind @ ''/'' @ objectName) err), w1)
      | (Inr u, n, w1) \<Rightarrow> (Inr n, w1))"

definition ForReplicasReady :: "'s shell \<Rightarrow> string \<Rightarrow> string \<Rightarrow> ('s, unit result) io" where
  "ForReplicasReady sh kind objectName w =
     (case getDesiredReplicas sh kind objectName w of
        (Inl err, w1) \<Rightarrow> (Inl err, w1)
      | (Inr desiredReplicas, w1) \<Rightarrow>
          (case waitUntil sh (240 * second) (''waiting for '' @ kind @ ''/'' @ objectName)
             (whenOutput sh [''get'', kind, objectName, ''-o'', jsonpath ''{.status.readyReplicas}'']
                (\<lambda>out. TrimSpace out = Itoa desiredReplicas)) w1 of
             (Inl err, w2) \<Rightarrow> (case kubectl sh [''get'', ''all''] w2 of (out, w3) \<Rightarrow> (Inl err, w3))
           | (Inr u, w2) \<Rightarrow> (Inr (), w2)))"

definition ForOperatorPod :: "'s shell \<Rightarrow> ('s, unit result) io" where
  "ForOperatorPod sh w =
     (case ForReplicasReady sh ''deployment'' ''greenplum-operator'' w of
        (Inl err, w1) \<Rightarrow> (Inl (Wrap ''waiting for greenplum operator'' err), w1)
      | (Inr u, w1) \<Rightarrow> (Inr (), w1))"

definition performDNSLookup :: "'s shell \<Rightarrow> string \<Rightarrow> string \<Rightarrow> ('s, bool) io" where
  "performDNSLookup sh targetPodName fromPodName w =
     (case shell_Run sh [''exec'', ''-i'', fromPodName, ''--'', ''ping'', ''-c'', ''1'', targetPodName] w of
        (Some err, w1) \<Rightarrow> (False, w1)
      | (None, w1) \<Rightarrow> (True, w1))"

definition dnsCondition :: "'s shell \<Rightarrow> string \<Rightarrow> string \<Rightarrow> 's world \<Rightarrow> bool result \<times> 's world" where
  "dnsCondition sh targetPodName fromPodName w =
     (case performDNSLookup sh targetPodName fromPodName w of (ok, w1) \<Rightarrow> (Inr ok, w1))"

definition dnsRefreshMsg :: "string \<Rightarrow> string \<Rightarrow> string" where
  "dnsRefreshMsg targetPodName fromPodName = ''waiting for dns refresh '' @ fromPodName @ '' -> '' @ targetPodName"

definition ForDNSRefresh :: "'s shell \<Rightarrow> string \<Rightarrow> string \<Rightarrow> ('s, unit result) io" where
  "ForDNSRefresh sh targetPodName fromPodName =
     waitUntil sh (getPollTimeout sh) (dnsRefreshMsg targetPodName fromPodName) (dnsCondition sh targetPodName fromPodName)"

definition ForResource :: "'s shell \<Rightarrow> string \<Rightarrow> string \<Rightarrow> ('s, unit result) io" where
  "ForResource sh kind name =
     waitUntil sh (getPollTimeout sh) (''waiting for '' @ kind @ ''/'' @ name)
       (whenOutput sh [''get'', kind, name, ''-o'', jsonpath ''{.metadata.name}''] (\<lambda>out. out = name))"

text \<open>\<open>kubeexecpsql.Query\<close>.\<close>

definition Query :: "'s shell \<Rightarrow> string \<Rightarrow> string \<Rightarrow> ('s, string \<times> go_error option) io" where
  "Query sh hostName command =
     (let psqlQuery = ''source /usr/local/greenplum-db/greenplum_path.sh; psql -tAc '' @ [CHR 0x22] @ command @ [CHR 0x22]
      in kubectl sh [''exec'', ''-i'', hostName, ''--'', ''bash'', ''-c'', psqlQuery])"

definition ForGreenplumInitialization :: "'s shell \<Rightarrow> ('s, unit result) io" where
  "ForGreenplumInitialization sh =
     waitUntil sh (500 * second) ''waiting for gp_segment_configuration''
       (\<lambda>w. case Query sh ''master-0'' ''select * from gp_segment_configuration'' w of
          ((out, Some err), w1) \<Rightarrow> (Inr False, w1)
        | ((out, None), w1) \<Rightarrow> (Inr (length out \<noteq> 0), w1))"

text \<open>
  The segments are probed from the first master in one goroutine each; the errors are collected as they
  arrive. The replicas of a stateful set have 32 bits, so doubling them does not overflow; a negative
  number is a channel of negative capacity: a panic, \<open>None\<close>.
\<close>

fun segmentNames :: "bool \<Rightarrow> nat \<Rightarrow> string list" where
  "segmentNames useMirrors 0 = []"
| "segmentNames useMirrors (Suc n) =
     segmentNames useMirrors n @ [''segment-a-'' @ Itoa (int n)] @ (if useMirrors then [''segment-b-'' @ Itoa (int n)] else [])"

definition waitForDNSRefreshSegment :: "string \<Rightarrow> unit result \<Rightarrow> unit result" where
  "waitForDNSRefreshSegment segmentName r =
     (case r of Inl err \<Rightarrow> Inl (Wrap (dnsRefreshMsg segmentName ''master-0'') err) | Inr u \<Rightarrow> Inr ())"

fun errorsOf :: "unit result list \<Rightarrow> go_error list" where
  "errorsOf [] = []"
| "errorsOf (Inl e # rs) = e # errorsOf rs"
| "errorsOf (Inr u # rs) = errorsOf rs"

definition ForNetworkReady :: "'s shell \<Rightarrow> int \<Rightarrow> bool \<Rightarrow> 's world \<Rightarrow> (unit result \<times> 's world) option" where
  "ForNetworkReady sh primarySegmentCount useMirrors w =
     (if primarySegmentCount < 0 then None
      else let names = segmentNames useMirrors (nat primarySegmentCount)
           in case sh_PollAll sh second (getPollTimeout sh) (map (\<lambda>n. dnsCondition sh n ''master-0'') names) w of
                (rs, w1) \<Rightarrow>
                  (let errs = errorsOf (sh_arrive sh (map2 waitForDNSRefreshSegment names rs))
                   in Some (if errs = [] then Inr () else Inl (Wrap ''waiting ForNetworkReady'' (sh_NewAggregate sh errs)), w1)))"

text \<open>\<open>IsSingleNode\<close> asks once (\<open>sync.Once\<close>) and panics when it cannot tell.\<close>

definition IsSingleNode :: "'s shell \<Rightarrow> 's world \<Rightarrow> bool option \<times> 's world" where
  "IsSingleNode sh w =
     (case kubectl sh [''--request-timeout=20s'', ''get'', ''nodes'', ''-o'', ''custom-columns=NAME:.metadata.name''] w of
        ((nodesInfo, Some err), w1) \<Rightarrow> (None, w1)
      | ((nodesInfo, None), w1) \<Rightarrow>
          (let nodes = Split (TrimSuffix nodesInfo [CHR 0x0A]) (CHR 0x0A)
           in if length nodes < 2 \<or> nodes ! 0 \<noteq> ''NAME'' then (None, w1) else (Some (length nodes = 2), w1)))"

definition validAddress :: "bool \<Rightarrow> string \<Rightarrow> bool" where
  "validAddress onNodePort out =
     (length out > 0 \<and>
      (if onNodePort then (case Atoi out of Inl err \<Rightarrow> False | Inr port \<Rightarrow> port > 0) else ParseIP out))"

definition ForGreenplumService :: "'s shell \<Rightarrow> string \<Rightarrow> 's world \<Rightarrow> (unit result \<times> 's world) option" where
  "ForGreenplumService sh name w =
     (case IsSingleNode sh w of
        (None, w1) \<Rightarrow> None
      | (Some onNodePort, w1) \<Rightarrow>
          (let path = jsonpath (if onNodePort then ''{.spec.ports[0].nodePort}'' else ''{.status.loadBalancer.ingress[0].ip}'')
           in Some (waitUntil sh (getPollTimeout sh) (''waiting for service '' @ name @ '' to have '' @ path)
                (whenOutput sh [''get'', ''service'', name, ''-o'', path] (validAddress onNodePort)) w1)))"

text \<open>Errors are logged only; an output without a comma is an index out of range.\<close>

definition getMirrorsAndStandby :: "'s shell \<Rightarrow> 's world \<Rightarrow> (bool \<times> bool) option \<times> 's world" where
  "getMirrorsAndStandby sh w =
     (case kubectl sh [''get'', ''greenplumCluster'', ''-o'', jsonpath ''{.items[0].metadata.name}''] w of
        ((clusterName, err), w1) \<Rightarrow>
     (case kubectl sh [''get'', ''greenplumCluster'', clusterName, ''-o'',
             jsonpath ''{.spec.segments.mirrors},{.spec.masterAndStandby.standby}''] w1 of
        ((out, err), w2) \<Rightarrow>
          (case Split out (CHR '','') of
             m # s # rest \<Rightarrow> (Some (m = ''yes'', s = ''yes''), w2)
           | _ \<Rightarrow> (None, w2))))"

subsection \<open>The cluster\<close>

text \<open>\<open>ForClusterReady\<close>, in the order of the code; the step \<open>andThen\<close> is the check of \<open>err\<close> after each wait.\<close>

definition andThen ::
  "(unit result \<times> 's world) option \<Rightarrow> ('s world \<Rightarrow> (unit result \<times> 's world) option) \<Rightarrow> (unit result \<times> 's world) option"
where
  "andThen r k = (case r of None \<Rightarrow> None | Some (Inl err, w) \<Rightarrow> Some (Inl err, w) | Some (Inr u, w) \<Rightarrow> k w)"

definition waitStandby :: "'s shell \<Rightarrow> bool \<Rightarrow> 's world \<Rightarrow> (unit result \<times> 's world) option" where
  "waitStandby sh standby w =
     (if standby
      then andThen (Some (ForDNSRefresh sh ''master-1'' ''master-0'' w)) (\<lambda>w. Some (ForDNSRefresh sh ''master-0'' ''master-1'' w))
      else Some (Inr (), w))"

definition waitInit :: "'s shell \<Rightarrow> bool \<Rightarrow> 's world \<Rightarrow> (unit result \<times> 's world) option" where
  "waitInit sh waitForAutoInit w =
     (if waitForAutoInit
      then (case ForGreenplumInitialization sh w of
              (Inl err, w1) \<Rightarrow>
                (case kubectl sh [''logs'', ''master-0'', ''--tail'', ''50''] w1 of (out, w2) \<Rightarrow> Some (Inl err, w2))
            | (Inr u, w1) \<Rightarrow> Some (Inr (), w1))
      else Some (Inr (), w))"

definition waitNetwork :: "'s shell \<Rightarrow> bool \<Rightarrow> 's world \<Rightarrow> (unit result \<times> 's world) option" where
  "waitNetwork sh useMirrors w =
     (case getDesiredReplicas sh ''statefulset'' ''segment-a'' w of
        (Inl err, w1) \<Rightarrow> Some (Inl err, w1)
      | (Inr primarySegmentCount, w1) \<Rightarrow>
          andThen (Some (ForResource sh ''configmap'' ''greenplum-config'' w1)) (\<lambda>w2.
          andThen (Some (ForResource sh ''secret'' ''ssh-secrets'' w2))
          (ForNetworkReady sh primarySegmentCount useMirrors)))"

definition ForClusterReady :: "'s shell \<Rightarrow> bool \<Rightarrow> 's world \<Rightarrow> (unit result \<times> 's world) option" where
  "ForClusterReady sh waitForAutoInit w =
     (case kubectl sh [''get'', ''greenplumcluster'', ''my-greenplum'', ''-o'', jsonpath ''{.status.phase}''] w of
        ((out, err), w1) \<Rightarrow>
          (if out = ''Running'' then Some (Inr (), w1)
           else case getMirrorsAndStandby sh w1 of
             (None, w2) \<Rightarrow> None
           | (Some (useMirrors, standby), w2) \<Rightarrow>
               andThen (Some (ForReplicasReady sh ''statefulset'' ''master'' w2)) (\<lambda>w3.
               andThen (Some (ForReplicasReady sh ''statefulset'' ''segment-a'' w3)) (\<lambda>w4.
               andThen (if useMirrors then Some (ForReplicasReady sh ''statefulset'' ''segment-b'' w4) else Some (Inr (), w4)) (\<lambda>w5.
               andThen (waitStandby sh standby w5) (\<lambda>w6.
               andThen (waitNetwork sh useMirrors w6) (\<lambda>w7.
               andThen (ForGreenplumService sh ''greenplum'' w7)
               (waitInit sh waitForAutoInit))))))))"

text \<open>The program: its exit status does not depend on the outcome, unless it panics.\<close>

definition greenplumReady_main :: "'s shell \<Rightarrow> 's world \<Rightarrow> int" where
  "greenplumReady_main sh w = (case ForClusterReady sh True w of None \<Rightarrow> 2 | Some (r, w1) \<Rightarrow> 0)"

subsection \<open>The other waits\<close>

fun Contains :: "string \<Rightarrow> string \<Rightarrow> bool" where
  "Contains [] sub = (sub = [])"
| "Contains (c # cs) sub = (HasPrefix (c # cs) sub \<or> Contains cs sub)"

definition ForPodState :: "'s shell \<Rightarrow> string \<Rightarrow> string \<Rightarrow> ('s, unit result) io" where
  "ForPodState sh podName state =
     waitUntil sh (getPollTimeout sh) (''waiting for pod '' @ podName @ '' to become '' @ state)
       (\<lambda>w. case kubectl sh [''get'', ''pods''] w of
          ((out, Some err), w1) \<Rightarrow> (Inr False, w1)
        | ((out, None), w1) \<Rightarrow>
            (case (if podName = ''greenplum-operator''
                   then CombinedOutput sh ''bash'' [''-c'', ''kubectl get pods | grep greenplum-operator''] w1
                   else kubectl sh [''get'', ''pods'', podName] w1) of
               ((out, err), w2) \<Rightarrow> (Inr (Contains out podName \<and> Contains out state), w2)))"

definition ForPodDestroyed :: "'s shell \<Rightarrow> string \<Rightarrow> ('s, unit result) io" where
  "ForPodDestroyed sh podName =
     waitUntil sh (getPollTimeout sh) (''waiting for pod to be destroyed: '' @ podName)
       (whenOutput sh [''get'', ''pods''] (\<lambda>out. \<not> Contains out podName))"

definition ForConsistentDNSResolution ::
  "'s shell \<Rightarrow> ('s world \<Rightarrow> int) \<Rightarrow> (int \<Rightarrow> 's world \<Rightarrow> 's world) \<Rightarrow> string \<Rightarrow> string \<Rightarrow> nat \<Rightarrow> 's world \<Rightarrow> (unit result \<times> 's world) option"
where
  "ForConsistentDNSResolution sh now sleep targetPodName fromPodName =
     PollUntilConsistent \<lparr>p_now = now, p_sleep = sleep, p_poll = performDNSLookup sh targetPodName fromPodName\<rparr>"

definition ForAPIResource :: "'s shell \<Rightarrow> string \<Rightarrow> string \<Rightarrow> ('s, unit result) io" where
  "ForAPIResource sh apigroup name =
     waitUntil sh (getPollTimeout sh) (''waiting for '' @ apigroup @ ''/'' @ name)
       (whenOutput sh [''api-resources'', ''--api-group'', apigroup, ''-o'', ''name'']
          (\<lambda>out. name @ ''.'' @ apigroup \<in> set (Split out (CHR 0x0A))))"

definition ForGreenplumClusterStatus :: "'s shell \<Rightarrow> string \<Rightarrow> ('s, unit result) io" where
  "ForGreenplumClusterStatus sh status =
     waitUntil sh (getPollTimeout sh) (''waiting for GreenplumCluster status '' @ status)
       (whenOutput sh [''get'', ''greenplumCluster'', ''-o'', jsonpath ''{.items[0].status.phase}''] (\<lambda>out. out = status))"

definition ForPsqlQuery :: "'s shell \<Rightarrow> string \<Rightarrow> string \<Rightarrow> ('s, unit result) io" where
  "ForPsqlQuery sh query expectedResult =
     waitUntil sh (getPollTimeout sh) ''waiting for psql query to finish''
       (\<lambda>w. case Query sh ''master-0'' query w of
          ((result, Some err), w1) \<Rightarrow> (Inr False, w1)
        | ((result, None), w1) \<Rightarrow>
            (if Contains result expectedResult then Inr True else Inl (Err (''mismatched output: '' @ result)), w1))"

definition ForJobSuccess :: "'s shell \<Rightarrow> string \<Rightarrow> ('s, unit result) io" where
  "ForJobSuccess sh jobName =
     waitUntil sh (5 * 60 * second) ''waiting for job to succeed''
       (whenOutput sh [''get'', ''job'', jobName, ''-o'', jsonpath ''{.status.succeeded}''] (\<lambda>out. TrimSpace out = ''1''))"

datatype Existence = Exist | NotExist

definition ForServiceTo :: "'s shell \<Rightarrow> string \<Rightarrow> Existence \<Rightarrow> ('s, unit result) io" where
  "ForServiceTo sh svcName existence =
     waitUntil sh (5 * 60 * second) (''waiting for service to '' @ (case existence of Exist \<Rightarrow> ''exist'' | NotExist \<Rightarrow> ''not exist''))
       (\<lambda>w. case shell_Run sh [''get'', ''svc'', svcName] w of
          (Some err, w1) \<Rightarrow> (Inr (existence = NotExist), w1)
        | (None, w1) \<Rightarrow> (Inr (existence = Exist), w1))"

definition ForAPIService :: "'s shell \<Rightarrow> ('s, unit result) io" where
  "ForAPIService sh =
     waitUntil sh (getPollTimeout sh) ''waiting for apiservice to be ready''
       (\<lambda>w. case shell_Run sh [''wait'', ''--for'', ''condition=available'', ''--timeout=0'', ''--all'', ''apiservice''] w of
          (Some err, w1) \<Rightarrow> (Inr False, w1)
        | (None, w1) \<Rightarrow> (Inr True, w1))"

section \<open>What a wait has seen\<close>

text \<open>Every command is logged, so the log tells the order of states.\<close>

definition since :: "'s world \<Rightarrow> 's world \<Rightarrow> bool" where
  "since u w = prefix (calls u) (calls w)"

definition logs :: "('s world \<Rightarrow> 'a \<times> 's world) \<Rightarrow> bool" where
  "logs f \<longleftrightarrow> (\<forall>w r w'. f w = (r, w') \<longrightarrow> since w w')"

lemma since_refl [simp, intro]: "since w w"
  by (simp add: since_def)

lemma since_trans [trans]: "since u v \<Longrightarrow> since v w \<Longrightarrow> since u w"
  unfolding since_def by (rule prefix_order.trans)

lemma logs_perform [simp]: "logs (perform c f)"
  by (auto simp: logs_def since_def dest!: calls_perform)

lemma logs_commands [simp]: "logs (kubectl sh args)" "logs (shell_Run sh args)" "logs (Query sh h q)"
  by (simp_all add: kubectl_def CombinedOutput_def shell_Run_def Query_def Let_def)

lemma logsD: "logs f \<Longrightarrow> f w = (r, w') \<Longrightarrow> since w w'"
  by (auto simp: logs_def)

lemma logs_conditions [simp]: "logs (whenOutput sh args ok)" "logs (dnsCondition sh a b)"
  by (auto simp: logs_def whenOutput_def dnsCondition_def performDNSLookup_def split: prod.splits option.splits
      dest: logsD [OF logs_commands(1)] logsD [OF logs_commands(2)])

text \<open>
  What \<open>PollImmediate\<close> promises: it calls the condition until it holds, fails or the time is over; and
  for several at once, each that ends well saw its condition hold on the way.
\<close>

inductive polled :: "('a \<Rightarrow> bool result \<times> 'a) \<Rightarrow> 'a \<Rightarrow> 'a \<Rightarrow> bool" for cond s where
  start: "polled cond s s"
| again: "polled cond s u \<Longrightarrow> cond u = (Inr False, u') \<Longrightarrow> polled cond s u'"

definition poll_spec :: "'a poll_fn \<Rightarrow> bool" where
  "poll_spec P \<longleftrightarrow> (\<forall>i t cond s r s'. P i t cond s = (r, s') \<longrightarrow>
     (case r of
        Inr u \<Rightarrow> \<exists>u. polled cond s u \<and> cond u = (Inr True, s')
      | Inl e \<Rightarrow> polled cond s s' \<or> (\<exists>u. polled cond s u \<and> cond u = (Inl e, s'))))"

definition poll_laws :: "'s shell \<Rightarrow> bool" where
  "poll_laws sh \<longleftrightarrow> poll_spec (sh_PollImmediate sh) \<and> (\<forall>rs. mset (sh_arrive sh rs) = mset rs) \<and>
     (\<forall>i t conds w rs w'. (\<forall>c\<in>set conds. logs c) \<longrightarrow> sh_PollAll sh i t conds w = (rs, w') \<longrightarrow>
        length rs = length conds \<and> since w w' \<and>
        (\<forall>j<length conds. rs ! j = Inr () \<longrightarrow> (\<exists>u u'. since w u \<and> (conds ! j) u = (Inr True, u') \<and> since u' w')))"

definition saw :: "'s shell \<Rightarrow> string list \<Rightarrow> (string \<Rightarrow> bool) \<Rightarrow> 's world \<Rightarrow> 's world \<Rightarrow> bool" where
  "saw sh args ok w w' \<longleftrightarrow>
     (\<exists>u out u'. since w u \<and> kubectl sh args u = ((out, None), u') \<and> ok out \<and> since u' w')"

definition reached :: "'s shell \<Rightarrow> string \<Rightarrow> string \<Rightarrow> 's world \<Rightarrow> 's world \<Rightarrow> bool" where
  "reached sh target from w w' \<longleftrightarrow>
     (\<exists>u u'. since w u \<and> shell_Run sh [''exec'', ''-i'', from, ''--'', ''ping'', ''-c'', ''1'', target] u = (None, u') \<and> since u' w')"

lemma saw_mono: "saw sh args ok w w' \<Longrightarrow> since v w \<Longrightarrow> since w' v' \<Longrightarrow> saw sh args ok v v'"
  unfolding saw_def by (meson since_trans)

lemma reached_mono: "reached sh a b w w' \<Longrightarrow> since v w \<Longrightarrow> since w' v' \<Longrightarrow> reached sh a b v v'"
  unfolding reached_def by (meson since_trans)

lemma polled_since:
  assumes "polled cond s u" "\<And>v r v'. cond v = (r, v') \<Longrightarrow> since (snd v) (snd v')"
  shows "since (snd s) (snd u)"
  using assms by (induction rule: polled.induct) (auto intro: since_trans)

lemma poll_success:
  assumes "poll_laws sh" "sh_PollImmediate sh i t cond s = (Inr (), s')"
  shows "\<exists>u. polled cond s u \<and> cond u = (Inr True, s')"
proof -
  have "poll_spec (sh_PollImmediate sh)" using assms(1) by (simp add: poll_laws_def)
  from this [unfolded poll_spec_def, rule_format, OF assms(2)] show ?thesis by simp
qed

lemma waitUntil_holds:
  assumes "poll_laws sh" "waitUntil sh t m cond w = (Inr (), w')" "logs cond"
  shows "\<exists>u. since w u \<and> cond u = (Inr True, w')"
proof -
  let ?c = "\<lambda>(n :: int, w). case cond w of (r, w1) \<Rightarrow> (r, n, w1)"
  obtain n where "sh_PollImmediate sh second t ?c (0, w) = (Inr (), n, w')"
    using assms(2) by (auto simp: waitUntil_def split: prod.splits sum.splits)
  from poll_success [OF assms(1) this] obtain u where u: "polled ?c (0, w) u" "?c u = (Inr True, n, w')" by blast
  have "since (snd v) (snd v')" if "?c v = (r, v')" for v r v'
    using that assms(3) by (auto simp: logs_def split: prod.splits)
  from polled_since [OF u(1) this] have "since w (snd u)" by simp
  moreover have "cond (snd u) = (Inr True, w')" using u(2) by (cases u) (auto split: prod.splits)
  ultimately show ?thesis by blast
qed

lemma waitUntil_since: "poll_laws sh \<Longrightarrow> waitUntil sh t m cond w = (Inr (), w') \<Longrightarrow> logs cond \<Longrightarrow> since w w'"
  using waitUntil_holds by (metis logsD since_trans)

lemma waitUntil_saw:
  assumes "poll_laws sh" "waitUntil sh t m (whenOutput sh args ok) w = (Inr (), w')"
  shows "saw sh args ok w w' \<and> since w w'"
proof -
  obtain u where "since w u" "whenOutput sh args ok u = (Inr True, w')"
    using waitUntil_holds [OF assms] by auto
  then have "saw sh args ok w w'"
    by (auto simp: saw_def whenOutput_def split: prod.splits option.splits)
  then show ?thesis using waitUntil_since [OF assms] by simp
qed

lemma ForDNSRefresh_reached:
  assumes "poll_laws sh" "ForDNSRefresh sh a b w = (Inr (), w')"
  shows "reached sh a b w w' \<and> since w w'"
proof -
  note d = assms(2) [unfolded ForDNSRefresh_def]
  obtain u where "since w u" "dnsCondition sh a b u = (Inr True, w')" using waitUntil_holds [OF assms(1) d] by auto
  then have "reached sh a b w w'"
    by (auto simp: reached_def dnsCondition_def performDNSLookup_def split: prod.splits option.splits)
  then show ?thesis using waitUntil_since [OF assms(1) d] by simp
qed

definition replicas_ready :: "'s shell \<Rightarrow> string \<Rightarrow> 's world \<Rightarrow> 's world \<Rightarrow> bool" where
  "replicas_ready sh name w w' \<longleftrightarrow>
     (\<exists>n. saw sh [''get'', ''statefulset'', name, ''-o'', ''jsonpath={.spec.replicas}''] (\<lambda>out. Atoi out = Inr n) w w' \<and>
          saw sh [''get'', ''statefulset'', name, ''-o'', ''jsonpath={.status.readyReplicas}''] (\<lambda>out. TrimSpace out = Itoa n) w w')"

lemma getDesiredReplicas_saw:
  assumes "poll_laws sh" "getDesiredReplicas sh kind name w = (Inr n, w')"
  shows "saw sh [''get'', kind, name, ''-o'', ''jsonpath={.spec.replicas}''] (\<lambda>out. Atoi out = Inr n) w w' \<and> since w w'"
proof -
  let ?args = "[''get'', kind, name, ''-o'', jsonpath ''{.spec.replicas}'']"
  let ?c = "\<lambda>(d :: int, w). case kubectl sh ?args w of ((out, Some err), w1) \<Rightarrow> (Inr False, d, w1)
    | ((out, None), w1) \<Rightarrow> (case Atoi out of Inl err \<Rightarrow> (Inl err, 0, w1) | Inr n \<Rightarrow> (Inr True, n, w1))"
  have "sh_PollImmediate sh second (getPollTimeout sh) ?c (0, w) = (Inr (), n, w')"
    using assms(2) by (auto simp: getDesiredReplicas_def split: prod.splits sum.splits)
  from poll_success [OF assms(1) this] obtain u where u: "polled ?c (0, w) u" "?c u = (Inr True, n, w')" by blast
  have grows: "since (snd v) (snd v')" if "?c v = (r, v')" for v r v'
    using that by (auto split: prod.splits option.splits sum.splits dest: logsD [OF logs_commands(1)])
  obtain out where out: "kubectl sh ?args (snd u) = ((out, None), w')" "Atoi out = Inr n"
    using u(2) by (cases u) (auto split: prod.splits option.splits sum.splits)
  have "since w (snd u)" using polled_since [OF u(1) grows] by simp
  moreover have "since (snd u) w'" using out(1) by (rule logsD [OF logs_commands(1)])
  ultimately show ?thesis using out unfolding saw_def by (auto simp: jsonpath_def intro: since_trans)
qed

lemma ForReplicasReady_ready:
  assumes "poll_laws sh" "ForReplicasReady sh ''statefulset'' name w = (Inr (), w')"
  shows "replicas_ready sh name w w' \<and> since w w'"
proof -
  obtain n w1 where n: "getDesiredReplicas sh ''statefulset'' name w = (Inr n, w1)"
    using assms(2) by (auto simp: ForReplicasReady_def split: prod.splits sum.splits)
  then have "waitUntil sh (240 * second) (''waiting for '' @ ''statefulset'' @ ''/'' @ name)
      (whenOutput sh [''get'', ''statefulset'', name, ''-o'', jsonpath ''{.status.readyReplicas}''] (\<lambda>out. TrimSpace out = Itoa n)) w1 = (Inr (), w')"
    using assms(2) by (auto simp: ForReplicasReady_def split: prod.splits sum.splits)
  from waitUntil_saw [OF assms(1) this]
  have r: "saw sh [''get'', ''statefulset'', name, ''-o'', ''jsonpath={.status.readyReplicas}''] (\<lambda>out. TrimSpace out = Itoa n) w1 w'"
    and s: "since w1 w'" by (simp_all add: jsonpath_def)
  note d = getDesiredReplicas_saw [OF assms(1) n]
  show ?thesis unfolding replicas_ready_def
    using saw_mono [OF r conjunct2 [OF d] since_refl] saw_mono [OF conjunct1 [OF d] since_refl s] since_trans [OF conjunct2 [OF d] s]
    by blast
qed

lemma replicas_ready_mono: "replicas_ready sh n w w' \<Longrightarrow> since v w \<Longrightarrow> since w' v' \<Longrightarrow> replicas_ready sh n v v'"
  unfolding replicas_ready_def by (meson saw_mono)

lemma errorsOf_empty: "errorsOf rs = [] \<longleftrightarrow> (\<forall>r\<in>set rs. r = Inr ())"
  by (induction rs rule: errorsOf.induct) auto

lemma poll_all_success:
  assumes "poll_laws sh" "\<forall>c\<in>set conds. logs c" "sh_PollAll sh i t conds w = (rs, w')"
  shows "length rs = length conds" "since w w'"
    and "j < length conds \<Longrightarrow> rs ! j = Inr () \<Longrightarrow> \<exists>u u'. since w u \<and> (conds ! j) u = (Inr True, u') \<and> since u' w'"
  using assms unfolding poll_laws_def by blast+

lemma ForNetworkReady_reached:
  assumes laws: "poll_laws sh" and "ForNetworkReady sh n mirrors w = Some (Inr (), w')"
  shows "(\<forall>s\<in>set (segmentNames mirrors (nat n)). reached sh s ''master-0'' w w') \<and> since w w'"
proof -
  let ?names = "segmentNames mirrors (nat n)"
  let ?conds = "map (\<lambda>n. dnsCondition sh n ''master-0'') ?names"
  obtain rs where rs: "sh_PollAll sh second (getPollTimeout sh) ?conds w = (rs, w')"
    and none: "errorsOf (sh_arrive sh (map2 waitForDNSRefreshSegment ?names rs)) = []"
    using assms(2) by (auto simp: ForNetworkReady_def Let_def split: if_splits prod.splits)
  have "\<forall>c\<in>set ?conds. logs c" by simp
  note all = poll_all_success [OF laws this rs]
  have "mset (sh_arrive sh rs) = mset rs" for rs using laws by (simp add: poll_laws_def)
  then have ok: "r = Inr ()" if "r \<in> set (map2 waitForDNSRefreshSegment ?names rs)" for r
    using none that unfolding errorsOf_empty by (metis set_mset_mset)
  have "reached sh (?names ! j) ''master-0'' w w'" if j: "j < length ?names" for j
  proof -
    have "waitForDNSRefreshSegment (?names ! j) (rs ! j) = Inr ()"
      using j all(1) by (intro ok) (force simp: in_set_conv_nth)
    then have "rs ! j = Inr ()" by (auto simp: waitForDNSRefreshSegment_def split: sum.splits)
    with all(3) [of j] j obtain u u' where "since w u" "dnsCondition sh (?names ! j) ''master-0'' u = (Inr True, u')" "since u' w'"
      by auto
    then show ?thesis
      by (auto simp: reached_def dnsCondition_def performDNSLookup_def split: prod.splits option.splits)
  qed
  then show ?thesis using all(2) by (auto simp: in_set_conv_nth)
qed

lemma andThen_Some: "andThen r k = Some (Inr (), w') \<longleftrightarrow> (\<exists>w. r = Some (Inr (), w) \<and> k w = Some (Inr (), w'))"
  by (auto simp: andThen_def split: option.splits sum.splits)

lemma waitNetwork_seen:
  assumes "poll_laws sh" "waitNetwork sh mirrors w = Some (Inr (), w')"
  shows "(\<exists>n. saw sh [''get'', ''statefulset'', ''segment-a'', ''-o'', ''jsonpath={.spec.replicas}''] (\<lambda>out. Atoi out = Inr n) w w' \<and>
       (\<forall>s\<in>set (segmentNames mirrors (nat n)). reached sh s ''master-0'' w w')) \<and>
    saw sh [''get'', ''configmap'', ''greenplum-config'', ''-o'', ''jsonpath={.metadata.name}''] (\<lambda>out. out = ''greenplum-config'') w w' \<and>
    saw sh [''get'', ''secret'', ''ssh-secrets'', ''-o'', ''jsonpath={.metadata.name}''] (\<lambda>out. out = ''ssh-secrets'') w w' \<and> since w w'"
proof -
  obtain n w1 w2 w3 where n: "getDesiredReplicas sh ''statefulset'' ''segment-a'' w = (Inr n, w1)"
    and cm: "ForResource sh ''configmap'' ''greenplum-config'' w1 = (Inr (), w2)"
    and sec: "ForResource sh ''secret'' ''ssh-secrets'' w2 = (Inr (), w3)"
    and net: "ForNetworkReady sh n mirrors w3 = Some (Inr (), w')"
    using assms(2) by (auto simp: waitNetwork_def andThen_Some split: prod.splits sum.splits)
  note a = getDesiredReplicas_saw [OF assms(1) n] and b = waitUntil_saw [OF assms(1) cm [unfolded ForResource_def]]
    and c = waitUntil_saw [OF assms(1) sec [unfolded ForResource_def]] and d = ForNetworkReady_reached [OF assms(1) net]
  have s: "since w w1" "since w1 w2" "since w2 w3" "since w3 w'" using a b c d by auto
  then have t: "since w w2" "since w w3" "since w1 w'" "since w2 w'" "since w w'" by (blast intro: since_trans)+
  have jp: "jsonpath ''{.metadata.name}'' = ''jsonpath={.metadata.name}''" by (simp add: jsonpath_def)
  show ?thesis
    using saw_mono [OF conjunct1 [OF a] since_refl t(3)] saw_mono [OF conjunct1 [OF b] s(1) t(4)]
      saw_mono [OF conjunct1 [OF c] t(1) s(4)] reached_mono [OF _ t(2) since_refl] conjunct1 [OF d] t(5)
    unfolding jp by blast
qed

lemma ForGreenplumService_seen:
  assumes "poll_laws sh" "ForGreenplumService sh name w = Some (Inr (), w')"
  shows "(\<exists>b. saw sh [''get'', ''service'', name, ''-o'', jsonpath (if b then ''{.spec.ports[0].nodePort}'' else ''{.status.loadBalancer.ingress[0].ip}'')]
      (validAddress b) w w') \<and> since w w'"
proof -
  obtain b w1 where node: "IsSingleNode sh w = (Some b, w1)"
    and wait: "waitUntil sh (getPollTimeout sh) (''waiting for service '' @ name @ '' to have '' @
        jsonpath (if b then ''{.spec.ports[0].nodePort}'' else ''{.status.loadBalancer.ingress[0].ip}''))
      (whenOutput sh [''get'', ''service'', name, ''-o'',
        jsonpath (if b then ''{.spec.ports[0].nodePort}'' else ''{.status.loadBalancer.ingress[0].ip}'')] (validAddress b)) w1 = (Inr (), w')"
    using assms(2) by (auto simp: ForGreenplumService_def Let_def split: prod.splits option.splits)
  have "since w w1"
    using node by (auto simp: IsSingleNode_def Let_def split: prod.splits option.splits if_splits dest: logsD [OF logs_commands(1)])
  with waitUntil_saw [OF assms(1) wait] show ?thesis by (meson saw_mono since_refl since_trans)
qed

lemma waitInit_seen:
  assumes "poll_laws sh" "waitInit sh True w = Some (Inr (), w')"
  shows "(\<exists>u out u'. since w u \<and> Query sh ''master-0'' ''select * from gp_segment_configuration'' u = ((out, None), u') \<and> out \<noteq> [] \<and> since u' w') \<and>
    since w w'"
proof -
  have "ForGreenplumInitialization sh w = (Inr (), w')"
    using assms(2) by (auto simp: waitInit_def split: prod.splits sum.splits)
  note wait = this [unfolded ForGreenplumInitialization_def]
  have "logs (\<lambda>w. case Query sh ''master-0'' ''select * from gp_segment_configuration'' w of
      ((out, Some err), w1) \<Rightarrow> (Inr False, w1) | ((out, None), w1) \<Rightarrow> (Inr (length out \<noteq> 0), w1))"
    unfolding logs_def by (auto split: prod.splits option.splits dest: logsD [OF logs_commands(3)])
  from waitUntil_holds [OF assms(1) wait this] waitUntil_since [OF assms(1) wait this] show ?thesis
    by (force split: prod.splits option.splits)
qed

lemma waitStandby_seen:
  assumes "poll_laws sh" "waitStandby sh standby w = Some (Inr (), w')"
  shows "(standby \<longrightarrow> reached sh ''master-1'' ''master-0'' w w' \<and> reached sh ''master-0'' ''master-1'' w w') \<and> since w w'"
proof (cases standby)
  case True
  then obtain w1 where "ForDNSRefresh sh ''master-1'' ''master-0'' w = (Inr (), w1)" "ForDNSRefresh sh ''master-0'' ''master-1'' w1 = (Inr (), w')"
    using assms(2) by (auto simp: waitStandby_def andThen_Some)
  then have "reached sh ''master-1'' ''master-0'' w w1" "since w w1" "reached sh ''master-0'' ''master-1'' w1 w'" "since w1 w'"
    using ForDNSRefresh_reached [OF assms(1)] by blast+
  then show ?thesis by (meson reached_mono since_refl since_trans)
qed (use assms(2) in \<open>simp add: waitStandby_def\<close>)

text \<open>Everything the wait for a cluster asks for, seen between two states.\<close>

definition seen_ready :: "'s shell \<Rightarrow> bool \<Rightarrow> bool \<Rightarrow> 's world \<Rightarrow> 's world \<Rightarrow> bool" where
  "seen_ready sh mirrors standby w w' \<longleftrightarrow>
      replicas_ready sh ''master'' w w' \<and> replicas_ready sh ''segment-a'' w w' \<and>
      (mirrors \<longrightarrow> replicas_ready sh ''segment-b'' w w') \<and>
      (standby \<longrightarrow> reached sh ''master-1'' ''master-0'' w w' \<and> reached sh ''master-0'' ''master-1'' w w') \<and>
      (\<exists>n. saw sh [''get'', ''statefulset'', ''segment-a'', ''-o'', ''jsonpath={.spec.replicas}''] (\<lambda>out. Atoi out = Inr n) w w' \<and>
         (\<forall>s\<in>set (segmentNames mirrors (nat n)). reached sh s ''master-0'' w w')) \<and>
      saw sh [''get'', ''configmap'', ''greenplum-config'', ''-o'', ''jsonpath={.metadata.name}''] (\<lambda>out. out = ''greenplum-config'') w w' \<and>
      saw sh [''get'', ''secret'', ''ssh-secrets'', ''-o'', ''jsonpath={.metadata.name}''] (\<lambda>out. out = ''ssh-secrets'') w w' \<and>
      (\<exists>b. saw sh [''get'', ''service'', ''greenplum'', ''-o'', jsonpath (if b then ''{.spec.ports[0].nodePort}'' else ''{.status.loadBalancer.ingress[0].ip}'')]
         (validAddress b) w w') \<and>
      (\<exists>u out u'. since w u \<and> Query sh ''master-0'' ''select * from gp_segment_configuration'' u = ((out, None), u') \<and> out \<noteq> [] \<and> since u' w')"

lemma waits_seen_ready:
  assumes laws: "poll_laws sh" and
      m: "ForReplicasReady sh ''statefulset'' ''master'' w = (Inr (), w3)" and
      a: "ForReplicasReady sh ''statefulset'' ''segment-a'' w3 = (Inr (), w4)" and
      b: "(if mirrors then Some (ForReplicasReady sh ''statefulset'' ''segment-b'' w4) else Some (Inr (), w4)) = Some (Inr (), w5)" and
      st: "waitStandby sh standby w5 = Some (Inr (), w6)" and
      net: "waitNetwork sh mirrors w6 = Some (Inr (), w7)" and
      svc: "ForGreenplumService sh ''greenplum'' w7 = Some (Inr (), w8)" and
      init: "waitInit sh True w8 = Some (Inr (), w')"
  shows "seen_ready sh mirrors standby w w'"
proof -
  have b': "(mirrors \<longrightarrow> replicas_ready sh ''segment-b'' w4 w5) \<and> since w4 w5"
    using b ForReplicasReady_ready [OF laws] by (auto split: if_splits)
  note seen = ForReplicasReady_ready [OF laws m] ForReplicasReady_ready [OF laws a] b' waitStandby_seen [OF laws st]
    waitNetwork_seen [OF laws net] ForGreenplumService_seen [OF laws svc] waitInit_seen [OF laws init]
  have s: "since w w3" "since w3 w4" "since w4 w5" "since w5 w6" "since w6 w7" "since w7 w8" "since w8 w'"
    using seen by blast+
  then have before: "since w w4" "since w w5" "since w w6" "since w w7" "since w w8"
    and after: "since w3 w'" "since w4 w'" "since w5 w'" "since w6 w'" "since w7 w'" "since w8 w'"
    by (blast intro: since_trans)+
  have "replicas_ready sh ''master'' w w'" "replicas_ready sh ''segment-a'' w w'" "mirrors \<longrightarrow> replicas_ready sh ''segment-b'' w w'"
    using seen(1-3) s(1) before after since_refl by (blast intro: replicas_ready_mono)+
  moreover have "standby \<longrightarrow> reached sh ''master-1'' ''master-0'' w w' \<and> reached sh ''master-0'' ''master-1'' w w'"
    using seen(4) before after by (blast intro: reached_mono)
  moreover have "\<exists>n. saw sh [''get'', ''statefulset'', ''segment-a'', ''-o'', ''jsonpath={.spec.replicas}''] (\<lambda>out. Atoi out = Inr n) w w' \<and>
       (\<forall>s\<in>set (segmentNames mirrors (nat n)). reached sh s ''master-0'' w w')"
    using seen(5) saw_mono [OF _ before(3) after(5)] reached_mono [OF _ before(3) after(5)] by blast
  moreover note saw_mono [OF conjunct1 [OF conjunct2 [OF seen(5)]] before(3) after(5)]
    saw_mono [OF conjunct1 [OF conjunct2 [OF conjunct2 [OF seen(5)]]] before(3) after(5)]
  moreover have "\<exists>b. saw sh [''get'', ''service'', ''greenplum'', ''-o'', jsonpath (if b then ''{.spec.ports[0].nodePort}'' else ''{.status.loadBalancer.ingress[0].ip}'')]
       (validAddress b) w w'"
    using seen(6) saw_mono [OF _ before(4) after(6)] by blast
  moreover have "\<exists>u out u'. since w u \<and> Query sh ''master-0'' ''select * from gp_segment_configuration'' u = ((out, None), u') \<and> out \<noteq> [] \<and> since u' w'"
    using seen(7) before(5) since_trans by blast
  ultimately show ?thesis unfolding seen_ready_def by (intro conjI)
qed

section \<open>Properties\<close>


subsection \<open>A cluster that is ready\<close>

definition demo_reply :: "string list \<Rightarrow> string" where
  "demo_reply args =
     (let kind = args ! 1
      in if kind = ''greenplumcluster'' then ''Pending''
         else if kind = ''greenplumCluster'' then ''yes,yes''
         else if kind = ''configmap'' \<or> kind = ''secret'' then args ! 2
         else if kind = ''get'' then ''NAME'' @ [CHR 0x0A] @ ''one''
         else ''1'')"

definition poll_once :: "'a poll_fn" where
  "poll_once i t cond s =
     (case cond s of
        (Inl e, s1) \<Rightarrow> (Inl e, s1)
      | (Inr True, s1) \<Rightarrow> (Inr (), s1)
      | (Inr False, s1) \<Rightarrow> (Inl (Err ''timed out waiting for the condition''), s1))"

fun poll_each :: "('s world \<Rightarrow> bool result \<times> 's world) list \<Rightarrow> 's world \<Rightarrow> unit result list \<times> 's world" where
  "poll_each [] w = ([], w)"
| "poll_each (c # cs) w = (case poll_once 0 0 c w of (r, w1) \<Rightarrow> (case poll_each cs w1 of (rs, w2) \<Rightarrow> (r # rs, w2)))"

definition demo_shell :: "unit shell" where
  "demo_shell = \<lparr>sh_CombinedOutput = (\<lambda>cmd s. ((demo_reply (cmd_Args cmd), None), s)), sh_Run = (\<lambda>cmd s. (None, s)),
     sh_PollImmediate = poll_once, sh_PollAll = (\<lambda>i t. poll_each), sh_arrive = rev, sh_NewAggregate = hd, sh_POLL_TIMEOUT = None\<rparr>"

lemma poll_spec_once: "poll_spec poll_once"
  unfolding poll_spec_def poll_once_def
  by (auto split: prod.splits sum.splits bool.splits intro: polled.intros)

lemma poll_once_condition:
  "poll_once i t c w = (r, w') \<Longrightarrow> \<exists>x. c w = (x, w') \<and> (r = Inr () \<longrightarrow> x = Inr True)"
  by (auto simp: poll_once_def split: prod.splits sum.splits bool.splits)

lemma poll_each_all:
  assumes "\<forall>c\<in>set conds. logs c" "poll_each conds w = (rs, w')"
  shows "length rs = length conds \<and> since w w' \<and>
    (\<forall>j<length conds. rs ! j = Inr () \<longrightarrow> (\<exists>u u'. since w u \<and> (conds ! j) u = (Inr True, u') \<and> since u' w'))"
  using assms
proof (induction conds arbitrary: w rs)
  case (Cons c cs)
  obtain r w1 rs' where p: "poll_once 0 0 c w = (r, w1)" "poll_each cs w1 = (rs', w')" "rs = r # rs'"
    using Cons.prems(2) by (auto split: prod.splits)
  obtain x where x: "c w = (x, w1)" "r = Inr () \<longrightarrow> x = Inr True" using poll_once_condition [OF p(1)] by blast
  have s: "since w w1" using Cons.prems(1) x(1) by (auto intro: logsD)
  have ih: "length rs' = length cs" "since w1 w'"
    "\<And>j. j < length cs \<Longrightarrow> rs' ! j = Inr () \<Longrightarrow> \<exists>u u'. since w1 u \<and> (cs ! j) u = (Inr True, u') \<and> since u' w'"
    using Cons.IH [of w1 rs'] Cons.prems(1) p(2) by auto
  have "\<exists>u u'. since w u \<and> ((c # cs) ! j) u = (Inr True, u') \<and> since u' w'" if "j < length (c # cs)" "rs ! j = Inr ()" for j
  proof (cases j)
    case 0
    then show ?thesis using that x ih(2) p(3) by auto
  next
    case (Suc i)
    then show ?thesis using that ih(3) [of i] p(3) since_trans [OF s] by auto
  qed
  then show ?case using ih(1,2) p(3) since_trans [OF s] by auto
qed simp

lemma poll_laws_demo: "poll_laws demo_shell"
  unfolding poll_laws_def using poll_spec_once poll_each_all by (auto simp: demo_shell_def)

definition succeeded :: "(unit result \<times> 's world) option \<Rightarrow> bool" where
  "succeeded r \<longleftrightarrow> (\<exists>w. r = Some (Inr (), w))"

lemma succeeded_andThen: "succeeded r \<Longrightarrow> (\<And>w. succeeded (k w)) \<Longrightarrow> succeeded (andThen r k)"
  by (metis succeeded_def andThen_Some)

text \<open>On this cluster every command succeeds and its answer does not depend on the state.\<close>

lemma demo_kubectl:
  "kubectl demo_shell args w = ((demo_reply args, None), w\<lparr>calls := calls w @ [CommandCall ''kubectl'' args]\<rparr>)"
  by (simp add: kubectl_def CombinedOutput_def perform_def demo_shell_def Command_def)

lemma demo_ping: "dnsCondition demo_shell a b w = (Inr True, snd (dnsCondition demo_shell a b w))"
  by (simp add: dnsCondition_def performDNSLookup_def shell_Run_def perform_def demo_shell_def)

lemma demo_wait: "cond w = (Inr True, w') \<Longrightarrow> waitUntil demo_shell t m cond w = (Inr (), w')"
  by (simp add: waitUntil_def demo_shell_def poll_once_def)

lemma demo_wait_output:
  "ok (demo_reply args) \<Longrightarrow> \<exists>w'. waitUntil demo_shell t m (whenOutput demo_shell args ok) w = (Inr (), w')"
  by (intro exI, rule demo_wait) (simp add: whenOutput_def demo_kubectl)

lemma demo_numbers: "Atoi ''1'' = Inr 1" "TrimSpace ''1'' = Itoa 1"
  by code_simp+

lemma demo_reply_statefulset: "demo_reply (''get'' # ''statefulset'' # rest) = ''1''"
  by (simp add: demo_reply_def)

lemma demo_desired: "\<exists>w'. getDesiredReplicas demo_shell ''statefulset'' n w = (Inr 1, w')"
  by (simp add: getDesiredReplicas_def demo_shell_def poll_once_def
      demo_kubectl [unfolded demo_shell_def] demo_reply_statefulset demo_numbers)

lemma demo_replicas: "\<exists>w'. ForReplicasReady demo_shell ''statefulset'' n w = (Inr (), w')"
proof -
  obtain w1 where d: "getDesiredReplicas demo_shell ''statefulset'' n w = (Inr 1, w1)" using demo_desired by blast
  have "TrimSpace (demo_reply [''get'', ''statefulset'', n, ''-o'', jsonpath ''{.status.readyReplicas}'']) = Itoa 1"
    by (simp only: demo_reply_statefulset demo_numbers)
  from demo_wait_output [where ok = "\<lambda>out. TrimSpace out = Itoa 1", OF this, of "240 * second" "''waiting for '' @ ''statefulset'' @ ''/'' @ n" w1]
  show ?thesis unfolding ForReplicasReady_def d by auto
qed

lemma demo_poll_each:
  "\<exists>w'. poll_each (map (\<lambda>n. dnsCondition demo_shell n m) ns) w = (map (\<lambda>n. Inr ()) ns, w')"
proof (induction ns arbitrary: w)
  case (Cons n ns)
  have "poll_once 0 0 (dnsCondition demo_shell n m) w = (Inr (), snd (dnsCondition demo_shell n m w))"
    unfolding poll_once_def by (subst demo_ping) simp
  then show ?case using Cons [of "snd (dnsCondition demo_shell n m w)"] by auto
qed simp

lemma demo_network: "0 \<le> n \<Longrightarrow> succeeded (ForNetworkReady demo_shell n mirrors w)"
proof -
  assume n: "0 \<le> n"
  let ?names = "segmentNames mirrors (nat n)"
  have all: "sh_PollAll demo_shell i t = poll_each" for i t by (simp add: demo_shell_def)
  obtain w1 where "sh_PollAll demo_shell second (getPollTimeout demo_shell) (map (\<lambda>n. dnsCondition demo_shell n ''master-0'') ?names) w =
      (map (\<lambda>n. Inr ()) ?names, w1)"
    using demo_poll_each [of "''master-0''" ?names w] unfolding all by blast
  moreover have "map2 waitForDNSRefreshSegment ns (map (\<lambda>n. Inr ()) ns) = map (\<lambda>n. Inr ()) ns" for ns
    by (induction ns) (simp_all add: waitForDNSRefreshSegment_def)
  moreover have "errorsOf (sh_arrive demo_shell (map (\<lambda>n. Inr ()) ?names)) = []"
    unfolding errorsOf_empty by (simp add: demo_shell_def)
  ultimately show ?thesis using n by (simp add: ForNetworkReady_def succeeded_def Let_def)
qed

lemma demo_resource: "kind = ''configmap'' \<or> kind = ''secret'' \<Longrightarrow> succeeded (Some (ForResource demo_shell kind name w))"
  using demo_wait_output [of "\<lambda>out. out = name" "[''get'', kind, name, ''-o'', jsonpath ''{.metadata.name}'']"]
  by (auto simp: ForResource_def succeeded_def demo_reply_def)

lemma demo_waits:
  "succeeded (waitStandby demo_shell standby w)" "succeeded (waitNetwork demo_shell mirrors w)"
  "succeeded (ForGreenplumService demo_shell ''greenplum'' w)" "succeeded (waitInit demo_shell True w)"
proof -
  have dns: "succeeded (Some (ForDNSRefresh demo_shell a b w))" for a b w
    using demo_wait [OF demo_ping] by (auto simp: ForDNSRefresh_def succeeded_def)
  show "succeeded (waitStandby demo_shell standby w)"
    unfolding waitStandby_def using succeeded_andThen [OF dns dns] by (simp add: succeeded_def)
  obtain w1 where "getDesiredReplicas demo_shell ''statefulset'' ''segment-a'' w = (Inr 1, w1)" using demo_desired by blast
  then show "succeeded (waitNetwork demo_shell mirrors w)"
    unfolding waitNetwork_def by (simp add: succeeded_andThen demo_resource demo_network)
  have "Split (TrimSuffix (demo_reply [''--request-timeout=20s'', ''get'', ''nodes'', ''-o'', ''custom-columns=NAME:.metadata.name'']) [CHR 0x0A]) (CHR 0x0A) =
      [''NAME'', ''one'']"
    by code_simp
  then have node: "\<exists>w'. IsSingleNode demo_shell w = (Some True, w')"
    unfolding IsSingleNode_def demo_kubectl Let_def by simp
  have "validAddress True (demo_reply [''get'', ''service'', ''greenplum'', ''-o'', p])" for p
    by (simp add: demo_reply_def validAddress_def demo_numbers)
  note wait = demo_wait_output [where ok = "validAddress True", OF this]
  obtain w1 where "IsSingleNode demo_shell w = (Some True, w1)" using node by blast
  then show "succeeded (ForGreenplumService demo_shell ''greenplum'' w)"
    unfolding ForGreenplumService_def succeeded_def Let_def by (simp add: wait)
  show "succeeded (waitInit demo_shell True w)"
    by (simp add: waitInit_def ForGreenplumInitialization_def Query_def demo_kubectl demo_wait demo_reply_def succeeded_def)
qed


end
