(* ===== verification/Psql_Service.thy ===== *)
theory Psql_Service
  imports Kubewait
begin

text \<open>
  Queries through the service of a cluster (\<open>pkg/integrationutils/kubeexecpsql\<close>) and the two waits that use
  them. The JSON decoder and the TCP connections are parameters. The node check is made once for the
  whole process; what it found is the integer the polls carry along: 0 not asked, 1 several nodes, 2 one
  node, and -1 when the process panics, which leaves a poll as an error does, at once.
\<close>

section \<open>Definitions\<close>

record 's psql_env =
  ps_Unmarshal :: "string \<Rightarrow> (string \<times> string) list list option"
  ps_Dial :: "string \<Rightarrow> 's world \<Rightarrow> bool \<times> 's world"

text \<open>Three attempts; the output and the error of the last one when none succeeds.\<close>

fun retryLoop :: "'s shell \<Rightarrow> string list \<Rightarrow> nat \<Rightarrow> string \<times> go_error option \<Rightarrow> ('s, string \<times> go_error option) io" where
  "retryLoop sh args 0 prev w = (prev, w)"
| "retryLoop sh args (Suc n) prev w =
     (case kubectl sh args w of
        ((out, None), w1) \<Rightarrow> ((out, None), w1)
      | ((out, Some err), w1) \<Rightarrow> retryLoop sh args n (out, Some err) w1)"

definition QueryWithRetry :: "'s shell \<Rightarrow> string \<Rightarrow> string \<Rightarrow> ('s, string \<times> go_error option) io" where
  "QueryWithRetry sh hostName command =
     (let psqlQuery = ''source /usr/local/greenplum-db/greenplum_path.sh; psql -tAc '' @ [CHR 0x27] @ command @ [CHR 0x27]
      in retryLoop sh [''exec'', ''-i'', hostName, ''--'', ''bash'', ''-c'', psqlQuery] 3 ([], None))"

definition IsSingleNodeOnce :: "'s shell \<Rightarrow> int \<Rightarrow> 's world \<Rightarrow> bool option \<times> int \<times> 's world" where
  "IsSingleNodeOnce sh once w =
     (if once = 0
      then (case IsSingleNode sh w of
              (None, w1) \<Rightarrow> (None, 1, w1)
            | (Some b, w1) \<Rightarrow> (Some b, if b then 2 else 1, w1))
      else (Some (once = 2), once, w))"

text \<open>
  The addresses of all nodes in turn. The close of the connection is deferred before the error is
  looked at, and the connection is nil then: a failed dial panics, \<open>None\<close>.
\<close>

fun addressLoop :: "'s psql_env \<Rightarrow> string \<Rightarrow> (string \<times> string) list \<Rightarrow> 's world \<Rightarrow> string result option \<times> 's world" where
  "addressLoop E nodePort [] w = (Some (Inl (Err ''failed to resolve any node ports'')), w)"
| "addressLoop E nodePort ((typ, address) # rest) w =
     (if typ = ''InternalIP''
      then (case ps_Dial E (address @ '':'' @ nodePort) w of
              (True, w1) \<Rightarrow> (Some (Inr address), w1)
            | (False, w1) \<Rightarrow> (None, w1))
      else addressLoop E nodePort rest w)"

text \<open>A failed assertion panics.\<close>

definition GetResolvableInternalNodeIP ::
  "'s shell \<Rightarrow> 's psql_env \<Rightarrow> string \<Rightarrow> 's world \<Rightarrow> string result option \<times> 's world"
where
  "GetResolvableInternalNodeIP sh E nodePort w =
     (case kubectl sh [''get'', ''nodes'', ''-o'', ''json''] w of
        ((out, Some err), w1) \<Rightarrow> (None, w1)
      | ((out, None), w1) \<Rightarrow>
          (case ps_Unmarshal E out of
             None \<Rightarrow> (None, w1)
           | Some nodeList \<Rightarrow> addressLoop E nodePort (concat nodeList) w1))"

definition GreenplumService ::
  "'s shell \<Rightarrow> 's psql_env \<Rightarrow> int \<Rightarrow> 's world \<Rightarrow> (string \<times> string) result option \<times> int \<times> 's world"
where
  "GreenplumService sh E once w =
     (case IsSingleNodeOnce sh once w of
        (None, n, w1) \<Rightarrow> (None, n, w1)
      | (Some True, n, w1) \<Rightarrow>
          (case kubectl sh [''get'', ''service'', ''greenplum'', ''-o'', jsonpath ''{.spec.ports[0].nodePort}''] w1 of
             ((port, Some err), w2) \<Rightarrow> (Some (Inl err), n, w2)
           | ((port, None), w2) \<Rightarrow>
               (case GetResolvableInternalNodeIP sh E port w2 of
                  (None, w3) \<Rightarrow> (None, n, w3)
                | (Some (Inl err), w3) \<Rightarrow> (Some (Inr (TrimSpace '''', TrimSpace port)), n, w3)
                | (Some (Inr nodeIP), w3) \<Rightarrow> (Some (Inr (TrimSpace nodeIP, TrimSpace port)), n, w3)))
      | (Some False, n, w1) \<Rightarrow>
          (case kubectl sh [''get'', ''service'', ''greenplum'', ''-o'', jsonpath ''{.status.loadBalancer.ingress[0].ip}''] w1 of
             ((ip, Some err), w2) \<Rightarrow> (Some (Inl err), n, w2)
           | ((ip, None), w2) \<Rightarrow> (Some (Inr (TrimSpace ip, ''5432'')), n, w2)))"

definition ExecutePsqlQueryThroughService ::
  "'s shell \<Rightarrow> 's psql_env \<Rightarrow> string \<Rightarrow> int \<Rightarrow> 's world \<Rightarrow> (string \<times> go_error option) option \<times> int \<times> 's world"
where
  "ExecutePsqlQueryThroughService sh E query once w =
     (case GreenplumService sh E once w of
        (None, n, w1) \<Rightarrow> (None, n, w1)
      | (Some (Inl err), n, w1) \<Rightarrow> (Some ([], Some err), n, w1)
      | (Some (Inr (ip, port)), n, w1) \<Rightarrow>
          (case CombinedOutput sh ''bash'' [''-c'', ''psql -U gpadmin -h '' @ ip @ '' -p '' @ port @ '' -tAc '' @ [CHR 0x22] @ query @ [CHR 0x22]] w1 of
             (out, w2) \<Rightarrow> (Some out, n, w2)))"

text \<open>A poll of a query through the service; \<open>check\<close> looks at the output of a query that succeeded.\<close>

definition throughService ::
  "'s shell \<Rightarrow> 's psql_env \<Rightarrow> int \<Rightarrow> string \<Rightarrow> string \<Rightarrow> (string \<Rightarrow> bool result) \<Rightarrow> int \<Rightarrow> 's world \<Rightarrow> (unit result \<times> int \<times> 's world) option"
where
  "throughService sh E timeout msg query check once w =
     (case sh_PollImmediate sh second timeout
        (\<lambda>(n, w). case ExecutePsqlQueryThroughService sh E query n w of
           (None, n1, w1) \<Rightarrow> (Inl (Err ''panic''), -1, w1)
         | (Some (out, Some err), n1, w1) \<Rightarrow> (Inr False, n1, w1)
         | (Some (out, None), n1, w1) \<Rightarrow> (check out, n1, w1)) (once, w) of
        (Inl err, n, w1) \<Rightarrow> (if n = -1 then None else Some (Inl (Wrap msg err), n, w1))
      | (Inr u, n, w1) \<Rightarrow> Some (Inr (), n, w1))"

definition ForGreenplumInitializationWithService ::
  "'s shell \<Rightarrow> 's psql_env \<Rightarrow> int \<Rightarrow> 's world \<Rightarrow> (unit result \<times> int \<times> 's world) option"
where
  "ForGreenplumInitializationWithService sh E =
     throughService sh E (500 * second) ''waiting for gp_segment_configuration (via service)''
       ''select * from gp_segment_configuration'' (\<lambda>out. Inr (length out \<noteq> 0))"

definition ForPsqlQueryThroughService ::
  "'s shell \<Rightarrow> 's psql_env \<Rightarrow> string \<Rightarrow> string \<Rightarrow> int \<Rightarrow> 's world \<Rightarrow> (unit result \<times> int \<times> 's world) option"
where
  "ForPsqlQueryThroughService sh E query expectedResult =
     throughService sh E (getPollTimeout sh) ''waiting for psql query to finish'' query
       (\<lambda>out. if Contains out expectedResult then Inr True else Inl (Err (''mismatched output: '' @ out)))"

section \<open>Lemmas\<close>

text \<open>At most as many attempts as allowed, the same command each time, and no attempt after a success.\<close>

lemma retryLoop_attempts:
  "retryLoop sh args n prev w = (res, w') \<Longrightarrow>
   \<exists>k\<le>n. calls w' = calls w @ replicate k (CommandCall ''kubectl'' args) \<and>
     (snd res \<noteq> None \<longrightarrow> k = n) \<and> (k = 0 \<longrightarrow> n = 0 \<and> res = prev) \<and>
     (0 < k \<longrightarrow> (\<exists>u. kubectl sh args u = (res, w')))"
proof (induction n arbitrary: prev w)
  case (Suc n)
  obtain out e w1 where k: "kubectl sh args w = ((out, e), w1)" by (metis prod.collapse)
  then have c: "calls w1 = calls w @ [CommandCall ''kubectl'' args]"
    unfolding kubectl_def CombinedOutput_def by (rule calls_perform)
  show ?case
  proof (cases e)
    case None
    then show ?thesis using Suc.prems k c by (intro exI [of _ 1]) auto
  next
    case (Some err)
    then have "retryLoop sh args n (out, Some err) w1 = (res, w')" using Suc.prems k by simp
    from Suc.IH [OF this] obtain j where j: "j \<le> n" "calls w' = calls w1 @ replicate j (CommandCall ''kubectl'' args)"
      "snd res \<noteq> None \<longrightarrow> j = n" "j = 0 \<longrightarrow> n = 0 \<and> res = (out, Some err)" "0 < j \<longrightarrow> (\<exists>u. kubectl sh args u = (res, w'))"
      by blast
    have "\<exists>u. kubectl sh args u = (res, w')"
    proof (cases "j = 0")
      case True
      then have "w' = w1" using j(4) \<open>retryLoop sh args n (out, Some err) w1 = (res, w')\<close> by simp
      then show ?thesis using True j(4) k Some by auto
    qed (use j(5) in simp)
    then show ?thesis using j(1-3) c by (intro exI [of _ "Suc j"] conjI impI) simp_all
  qed
qed simp

lemma QueryWithRetry_attempts:
  assumes "QueryWithRetry sh hostName command w = (res, w')"
  shows "\<exists>args k. 1 \<le> k \<and> k \<le> 3 \<and> calls w' = calls w @ replicate k (CommandCall ''kubectl'' args) \<and>
    (snd res \<noteq> None \<longrightarrow> k = 3) \<and> (\<exists>u. kubectl sh args u = (res, w'))"
proof -
  obtain args where "retryLoop sh args 3 ([], None) w = (res, w')" using assms unfolding QueryWithRetry_def Let_def by blast
  from retryLoop_attempts [OF this] show ?thesis
  proof (elim exE conjE)
    fix k assume k: "k \<le> 3" "calls w' = calls w @ replicate k (CommandCall ''kubectl'' args)" "snd res \<noteq> None \<longrightarrow> k = 3"
      "k = 0 \<longrightarrow> (3 :: nat) = 0 \<and> res = ([], None)" "0 < k \<longrightarrow> (\<exists>u. kubectl sh args u = (res, w'))"
    then show ?thesis by (intro exI [of _ args] exI [of _ k] conjI) simp_all
  qed
qed

text \<open>Only the first internal address is ever tried: the address that is returned is that one.\<close>

lemma only_first_address:
  "addressLoop E nodePort addrs w = (res, w') \<Longrightarrow>
   (case find (\<lambda>(t, a). t = ''InternalIP'') addrs of
      None \<Rightarrow> res = Some (Inl (Err ''failed to resolve any node ports'')) \<and> w' = w
    | Some (t, a) \<Rightarrow> ps_Dial E (a @ '':'' @ nodePort) w = (res \<noteq> None, w') \<and> (res \<noteq> None \<longrightarrow> res = Some (Inr a)))"
proof (induction addrs)
  case (Cons ta addrs)
  then show ?case by (cases ta) (auto split: if_splits prod.splits bool.splits)
qed simp

text \<open>A wait that succeeds ran the query through the service, and its output passed the check.\<close>

lemma throughService_success:
  assumes "poll_laws sh" "throughService sh E t msg query check once w = Some (Inr (), n, w')"
  shows "\<exists>m u out. ExecutePsqlQueryThroughService sh E query m u = (Some (out, None), n, w') \<and> check out = Inr True"
proof -
  let ?cond = "\<lambda>(n, w). case ExecutePsqlQueryThroughService sh E query n w of
           (None, n1, w1) \<Rightarrow> (Inl (Err ''panic''), -1, w1)
         | (Some (out, Some err), n1, w1) \<Rightarrow> (Inr False, n1, w1)
         | (Some (out, None), n1, w1) \<Rightarrow> (check out, n1, w1)"
  have "sh_PollImmediate sh second t ?cond (once, w) = (Inr (), n, w')"
    using assms(2) by (auto simp: throughService_def split: prod.splits sum.splits if_splits)
  from poll_success [OF assms(1) this] obtain m u where "?cond (m, u) = (Inr True, n, w')" by auto
  then show ?thesis by (auto split: prod.splits option.splits)
qed

lemma ForPsqlQueryThroughService_success:
  assumes "poll_laws sh" "ForPsqlQueryThroughService sh E query expectedResult once w = Some (Inr (), n, w')"
  shows "\<exists>m u out. ExecutePsqlQueryThroughService sh E query m u = (Some (out, None), n, w') \<and> Contains out expectedResult"
  using throughService_success [OF assms(1) assms(2) [unfolded ForPsqlQueryThroughService_def]] by (metis sum.distinct(1))

end
