(* ===== verification/Commandable.thy ===== *)
theory Commandable
  imports Prelude
begin

text \<open>
  The command indirection (\<open>pkg/commandable/commandable.go\<close>): the fake through which the instance programs are
  run in their tests. The fake hands out pointers into a slice that later calls may move, and commands
  that refer back to the cell they were made from, so the model has an explicit store of cells. A
  command is run as \<open>os/exec\<close> runs it, with the helper process as the child.
\<close>

section \<open>Definitions\<close>

subsection \<open>The store\<close>

text \<open>A cell holds one \<open>ExpectedCommand\<close>: the default one, an element of an array, or a local copy.\<close>

datatype cell = DefaultCell | ElemCell nat nat | LocalCell nat

datatype pipe_end = ReadEnd nat | WriteEnd nat

text \<open>Variadic arguments are a slice, which is nil when none are given.\<close>

type_synonym go_args = "string list option"

definition arg_list :: "go_args \<Rightarrow> string list" where
  "arg_list args = (case args of None \<Rightarrow> [] | Some xs \<Rightarrow> xs)"

type_synonym CommandMatcher = "string \<Rightarrow> go_args \<Rightarrow> bool"

text \<open>
  Pointers to an integer, a list of process ids, a channel and a command are addresses. Side effects
  act on the state \<open>'t\<close> of the test.
\<close>

record 't ExpectedCommand =
  matcher :: "CommandMatcher option"
  fk_stdout :: string
  fk_stderr :: string
  fk_status :: int
  called :: "nat option"
  pids :: "nat option"
  sideEffect :: "('t \<Rightarrow> 't) option"
  argsPipe :: "nat option"
  argsBuffer :: "string option"
  envChan :: "nat option"
  fk_cmd :: "nat option"

definition zeroExpected :: "'t ExpectedCommand" where
  "zeroExpected = \<lparr>matcher = None, fk_stdout = [], fk_stderr = [], fk_status = 0, called = None, pids = None,
     sideEffect = None, argsPipe = None, argsBuffer = None, envChan = None, fk_cmd = None\<rparr>"

text \<open>The parts of \<open>exec.Cmd\<close> that are used.\<close>

record exec_Cmd =
  cmd_Args :: "string list"
  cmd_Env :: "string list"
  ExtraFiles :: "pipe_end list"
  closeAfterStart :: "pipe_end list"
  closeAfterWait :: "pipe_end list"
  goroutines :: "cell list"

definition zeroCmd :: exec_Cmd where
  "zeroCmd = \<lparr>cmd_Args = [], cmd_Env = [], ExtraFiles = [], closeAfterStart = [], closeAfterWait = [], goroutines = []\<rparr>"

record slice =
  sl_array :: nat
  sl_len :: nat
  sl_cap :: nat

text \<open>
  The fake with what its pointers lead to: the cells, the commands, the pipes, the integers, lists
  and channels (with the number of values that can still be sent) of the test, and the processes.
\<close>

record 't CommandFake =
  cells :: "cell \<Rightarrow> 't ExpectedCommand"
  expectations :: slice
  next_addr :: nat
  cmds :: "nat \<Rightarrow> exec_Cmd"
  closed :: "pipe_end \<Rightarrow> bool"
  process :: "nat \<Rightarrow> int option"
  counters :: "nat \<Rightarrow> int"
  pid_lists :: "nat \<Rightarrow> int list"
  channels :: "nat \<Rightarrow> nat \<times> string list list"
  test :: 't

text \<open>
  What the run-time system decides: the name the test binary was called by, whether the \<open>n\<close>th pipe can
  be made, the process ids, and the capacity \<open>append\<close> gives a slice that is full.
\<close>

record go_runtime =
  os_Args0 :: string
  os_Pipe :: "nat \<Rightarrow> go_error option"
  os_pid :: "nat \<Rightarrow> int"
  grow_cap :: "nat \<Rightarrow> nat"

definition NewFakeCommand :: "'t \<Rightarrow> 't CommandFake" where
  "NewFakeCommand t = \<lparr>cells = (\<lambda>_. zeroExpected), expectations = \<lparr>sl_array = 0, sl_len = 0, sl_cap = 0\<rparr>, next_addr = 1,
     cmds = (\<lambda>_. zeroCmd), closed = (\<lambda>_. False), process = (\<lambda>_. None), counters = (\<lambda>_. 0), pid_lists = (\<lambda>_. []),
     channels = (\<lambda>_. (0, [])), test = t\<rparr>"

definition update_cell :: "cell \<Rightarrow> ('t ExpectedCommand \<Rightarrow> 't ExpectedCommand) \<Rightarrow> 't CommandFake \<Rightarrow> 't CommandFake" where
  "update_cell p f c = c\<lparr>cells := (cells c)(p := f (cells c p))\<rparr>"

subsection \<open>Expectations\<close>

text \<open>\<open>append\<close> writes in place while there is room and moves the elements to a new array otherwise.\<close>

definition move_cells :: "slice \<Rightarrow> nat \<Rightarrow> (cell \<Rightarrow> 't ExpectedCommand) \<Rightarrow> cell \<Rightarrow> 't ExpectedCommand" where
  "move_cells s a h p =
     (case p of
        ElemCell b i \<Rightarrow> (if b = a then (if i < sl_len s then h (ElemCell (sl_array s) i) else zeroExpected) else h p)
      | _ \<Rightarrow> h p)"

definition append_expectation :: "go_runtime \<Rightarrow> 't ExpectedCommand \<Rightarrow> 't CommandFake \<Rightarrow> 't CommandFake" where
  "append_expectation G e c =
     (let s = expectations c; a = next_addr c
      in if sl_len s < sl_cap s
         then c\<lparr>cells := (cells c)(ElemCell (sl_array s) (sl_len s) := e), expectations := s\<lparr>sl_len := Suc (sl_len s)\<rparr>\<rparr>
         else c\<lparr>cells := (move_cells s a (cells c))(ElemCell a (sl_len s) := e),
                expectations := \<lparr>sl_array = a, sl_len = Suc (sl_len s), sl_cap = grow_cap G (sl_cap s)\<rparr>,
                next_addr := Suc a\<rparr>)"

definition ExpectCommandMatching :: "go_runtime \<Rightarrow> CommandMatcher option \<Rightarrow> 't CommandFake \<Rightarrow> cell \<times> 't CommandFake" where
  "ExpectCommandMatching G m c =
     (let c1 = append_expectation G (zeroExpected\<lparr>matcher := m\<rparr>) c; s = expectations c1
      in (ElemCell (sl_array s) (sl_len s - 1), c1))"

definition ExpectCommand :: "go_runtime \<Rightarrow> string \<Rightarrow> go_args \<Rightarrow> 't CommandFake \<Rightarrow> cell \<times> 't CommandFake" where
  "ExpectCommand G expectedPath expectedArgs =
     ExpectCommandMatching G (Some (\<lambda>path args. path = expectedPath \<and> args = expectedArgs))"

definition PrintsOutput :: "string \<Rightarrow> cell \<Rightarrow> 't CommandFake \<Rightarrow> 't CommandFake" where
  "PrintsOutput s p = update_cell p (\<lambda>e. e\<lparr>fk_stdout := s\<rparr>)"

definition PrintsError :: "string \<Rightarrow> cell \<Rightarrow> 't CommandFake \<Rightarrow> 't CommandFake" where
  "PrintsError s p = update_cell p (\<lambda>e. e\<lparr>fk_stderr := s\<rparr>)"

definition ReturnsStatus :: "int \<Rightarrow> cell \<Rightarrow> 't CommandFake \<Rightarrow> 't CommandFake" where
  "ReturnsStatus n p = update_cell p (\<lambda>e. e\<lparr>fk_status := n\<rparr>)"

definition CallCounter :: "nat \<Rightarrow> cell \<Rightarrow> 't CommandFake \<Rightarrow> 't CommandFake" where
  "CallCounter a p = update_cell p (\<lambda>e. e\<lparr>called := Some a\<rparr>)"

definition PidList :: "nat \<Rightarrow> cell \<Rightarrow> 't CommandFake \<Rightarrow> 't CommandFake" where
  "PidList a p = update_cell p (\<lambda>e. e\<lparr>pids := Some a\<rparr>)"

definition SideEffect :: "('t \<Rightarrow> 't) \<Rightarrow> cell \<Rightarrow> 't CommandFake \<Rightarrow> 't CommandFake" where
  "SideEffect f p = update_cell p (\<lambda>e. e\<lparr>sideEffect := Some f\<rparr>)"

definition SendEnvironment :: "nat \<Rightarrow> cell \<Rightarrow> 't CommandFake \<Rightarrow> 't CommandFake" where
  "SendEnvironment a p = update_cell p (\<lambda>e. e\<lparr>envChan := Some a\<rparr>)"

definition FakeOutput :: "string \<Rightarrow> 't CommandFake \<Rightarrow> 't CommandFake" where
  "FakeOutput s = update_cell DefaultCell (\<lambda>e. e\<lparr>fk_stdout := s\<rparr>)"

definition FakeErrOutput :: "string \<Rightarrow> 't CommandFake \<Rightarrow> 't CommandFake" where
  "FakeErrOutput s = update_cell DefaultCell (\<lambda>e. e\<lparr>fk_stderr := s\<rparr>)"

definition FakeStatus :: "int \<Rightarrow> 't CommandFake \<Rightarrow> 't CommandFake" where
  "FakeStatus n = update_cell DefaultCell (\<lambda>e. e\<lparr>fk_status := n\<rparr>)"

definition CapturedArgs :: "'t CommandFake \<Rightarrow> string" where
  "CapturedArgs c = (case argsBuffer (cells c DefaultCell) of None \<Rightarrow> '''' | Some s \<Rightarrow> s)"

subsection \<open>Making a command\<close>

datatype closeAfterField = CloseAfterStart | CloseAfterWait

definition closeAfterEvent :: "closeAfterField \<Rightarrow> pipe_end \<Rightarrow> exec_Cmd \<Rightarrow> exec_Cmd" where
  "closeAfterEvent field f cmd =
     (case field of
        CloseAfterStart \<Rightarrow> cmd\<lparr>closeAfterStart := closeAfterStart cmd @ [f]\<rparr>
      | CloseAfterWait \<Rightarrow> cmd\<lparr>closeAfterWait := closeAfterWait cmd @ [f]\<rparr>)"

definition injectGoroutine :: "cell \<Rightarrow> exec_Cmd \<Rightarrow> exec_Cmd" where
  "injectGoroutine p cmd = cmd\<lparr>goroutines := goroutines cmd @ [p]\<rparr>"

text \<open>Returns the address of the command; a pipe that cannot be made panics.\<close>

definition fakeExecCommand ::
  "go_runtime \<Rightarrow> cell \<Rightarrow> string \<Rightarrow> go_args \<Rightarrow> 't CommandFake \<Rightarrow> nat result \<times> 't CommandFake"
where
  "fakeExecCommand G p path args c =
     (let n = next_addr c; e = cells c p
      in case os_Pipe G n of
           Some err \<Rightarrow> (Inl err, c)
         | None \<Rightarrow>
             (let cmdArgs = [''-test.run=TestHelperProcess'', ''--'', path] @ arg_list args;
                  cmd = zeroCmd
                    \<lparr>cmd_Args := os_Args0 G # cmdArgs,
                     cmd_Env := [''GO_WANT_HELPER_PROCESS=1'', ''FAKE_STATUS='' @ Itoa (fk_status e),
                       ''FAKE_RESULT='' @ fk_stdout e, ''FAKE_ERR_RESULT='' @ fk_stderr e],
                     ExtraFiles := [WriteEnd n]\<rparr>;
                  cmd1 = closeAfterEvent CloseAfterWait (ReadEnd n) (closeAfterEvent CloseAfterStart (WriteEnd n) cmd);
                  cmd2 = injectGoroutine p cmd1
              in (Inr n, c\<lparr>cells := (cells c)(p := e\<lparr>argsPipe := Some n, argsBuffer := Some '''', fk_cmd := Some n\<rparr>),
                           cmds := (cmds c)(n := cmd2), next_addr := Suc n\<rparr>)))"

text \<open>The loop of \<open>Command\<close>, from the last expectation down; calling a nil matcher panics.\<close>

fun commandLoop :: "nat \<Rightarrow> (nat \<Rightarrow> 't ExpectedCommand) \<Rightarrow> string \<Rightarrow> go_args \<Rightarrow> nat option result" where
  "commandLoop 0 es name args = Inr None"
| "commandLoop (Suc i) es name args =
     (case matcher (es i) of
        None \<Rightarrow> Inl (Err ''invalid memory address or nil pointer dereference'')
      | Some m \<Rightarrow> (if m name args then Inr (Some i) else commandLoop i es name args))"

text \<open>An expectation is copied to a local variable before its command is made; the default is not.\<close>

definition CommandFake_Command ::
  "go_runtime \<Rightarrow> string \<Rightarrow> go_args \<Rightarrow> 't CommandFake \<Rightarrow> nat result \<times> 't CommandFake"
where
  "CommandFake_Command G name args c =
     (let s = expectations c
      in case commandLoop (sl_len s) (\<lambda>i. cells c (ElemCell (sl_array s) i)) name args of
           Inl err \<Rightarrow> (Inl err, c)
         | Inr (Some i) \<Rightarrow>
             (let a = next_addr c
              in fakeExecCommand G (LocalCell a) name args
                   (c\<lparr>cells := (cells c)(LocalCell a := cells c (ElemCell (sl_array s) i)), next_addr := Suc a\<rparr>))
         | Inr None \<Rightarrow> fakeExecCommand G DefaultCell name args c)"

subsection \<open>The helper process\<close>

text \<open>An environment is a list of \<open>key=value\<close> strings, of which the last one for a key counts.\<close>

definition Getenv :: "string list \<Rightarrow> string \<Rightarrow> string" where
  "Getenv env key =
     (case find (\<lambda>s. HasPrefix s (key @ ''='')) (rev env) of None \<Rightarrow> '''' | Some s \<Rightarrow> drop (length key + 1) s)"

record helper_output =
  h_args :: string
  h_stdout :: string
  h_stderr :: string
  h_exit :: int

text \<open>None when the process is not wanted. A process ends with the low byte of its status.\<close>

definition HelperProcess :: "string list \<Rightarrow> string list \<Rightarrow> helper_output option result" where
  "HelperProcess args env =
     (if Getenv env ''GO_WANT_HELPER_PROCESS'' \<noteq> ''1'' then Inr None
      else if length args < 3 then Inl (Err ''runtime error: slice bounds out of range'')
      else (case Atoi (Getenv env ''FAKE_STATUS'') of
              Inr status \<Rightarrow> Inr (Some \<lparr>h_args = Join (drop 3 args) '' '', h_stdout = Getenv env ''FAKE_RESULT'',
                h_stderr = Getenv env ''FAKE_ERR_RESULT'', h_exit = status mod 256\<rparr>)
            | Inl err \<Rightarrow> Inr (Some \<lparr>h_args = Join (drop 3 args) '' '', h_stdout = Getenv env ''FAKE_RESULT'',
                h_stderr = Getenv env ''FAKE_ERR_RESULT'' @ ''Error parsing FAKE_STATUS: '' @ Error err @ [CHR 0x0A],
                h_exit = (-127) mod 256\<rparr>)))"

subsection \<open>Running a command\<close>

definition close_ends :: "pipe_end list \<Rightarrow> 't CommandFake \<Rightarrow> 't CommandFake" where
  "close_ends fs c = c\<lparr>closed := (\<lambda>f. f \<in> set fs \<or> closed c f)\<rparr>"

text \<open>
  Reading a pipe to its end: an error, which is ignored, once the read end is closed; forever while a
  write end is open; otherwise what the process \<open>n\<close> wrote.
\<close>

definition read_pipe :: "nat \<Rightarrow> nat \<Rightarrow> string \<Rightarrow> 't CommandFake \<Rightarrow> string option" where
  "read_pipe n pipe written c =
     (if closed c (ReadEnd pipe) then Some '''' else if \<not> closed c (WriteEnd pipe) then None
      else Some (if pipe = n then written else ''''))"

definition sendEnv :: "nat \<Rightarrow> string list \<Rightarrow> 't CommandFake \<Rightarrow> 't CommandFake option" where
  "sendEnv a env c =
     (case channels c a of
        (0, sent) \<Rightarrow> None
      | (Suc room, sent) \<Rightarrow> Some (c\<lparr>channels := (channels c)(a := (room, sent @ [env]))\<rparr>))"

text \<open>The goroutine of command \<open>n\<close>, on the cell as it is when it runs. None: it never returns, or panics
  because the command of the cell was not started.\<close>

definition readArgsAndRunSideEffects :: "nat \<Rightarrow> string \<Rightarrow> cell \<Rightarrow> 't CommandFake \<Rightarrow> 't CommandFake option" where
  "readArgsAndRunSideEffects n written p c =
     (let e = cells c p
      in case argsPipe e of
           None \<Rightarrow> None
         | Some pipe \<Rightarrow>
             (case read_pipe n pipe written c of
                None \<Rightarrow> None
              | Some txt \<Rightarrow>
                  (let c1 = update_cell p (\<lambda>e. e\<lparr>argsBuffer := map_option (\<lambda>b. b @ txt) (argsBuffer e)\<rparr>) c;
                       c2 = (case called e of None \<Rightarrow> c1
                             | Some a \<Rightarrow> c1\<lparr>counters := (counters c1)(a := wrap64 (counters c1 a + 1))\<rparr>);
                       k = the (fk_cmd e)
                   in case (case pids e of
                              None \<Rightarrow> Some c2
                            | Some a \<Rightarrow> map_option (\<lambda>pid. c2\<lparr>pid_lists := (pid_lists c2)(a := pid_lists c2 a @ [pid])\<rparr>)
                                (process c2 k)) of
                        None \<Rightarrow> None
                      | Some c3 \<Rightarrow>
                          (case (case envChan e of None \<Rightarrow> Some c3 | Some a \<Rightarrow> sendEnv a (cmd_Env (cmds c3 k)) c3) of
                             None \<Rightarrow> None
                           | Some c4 \<Rightarrow> Some (case sideEffect e of None \<Rightarrow> c4 | Some f \<Rightarrow> c4\<lparr>test := f (test c4)\<rparr>)))))"

fun runGoroutines :: "nat \<Rightarrow> string \<Rightarrow> cell list \<Rightarrow> 't CommandFake \<Rightarrow> 't CommandFake option" where
  "runGoroutines n written [] c = Some c"
| "runGoroutines n written (p # ps) c =
     (case readArgsAndRunSideEffects n written p c of None \<Rightarrow> None | Some c1 \<Rightarrow> runGoroutines n written ps c1)"

text \<open>\<open>cmd.Run\<close>: start the child, close the ends meant for it, run the goroutines, wait, close the rest.\<close>

datatype run_result =
    Ran string string int
  | NotStarted go_error
  | NotHelper
  | Blocked

definition has_nul :: "string \<Rightarrow> bool" where
  "has_nul s = list_ex (\<lambda>ch. ch = CHR 0x00) s"

definition cmd_Run :: "go_runtime \<Rightarrow> nat \<Rightarrow> 't CommandFake \<Rightarrow> run_result \<times> 't CommandFake" where
  "cmd_Run G n c =
     (let cmd = cmds c n
      in if process c n \<noteq> None then (NotStarted (Err ''exec: already started''), c)
         else if list_ex has_nul (cmd_Args cmd @ cmd_Env cmd)
         then (NotStarted (Err ''invalid argument''), close_ends (closeAfterStart cmd @ closeAfterWait cmd) c)
         else (case HelperProcess (cmd_Args cmd) (cmd_Env cmd) of
                 Inr (Some out) \<Rightarrow>
                   (let c1 = close_ends (closeAfterStart cmd) (c\<lparr>process := (process c)(n := Some (os_pid G n))\<rparr>)
                    in case runGoroutines n (h_args out) (goroutines cmd) c1 of
                         None \<Rightarrow> (Blocked, c1)
                       | Some c2 \<Rightarrow> (Ran (h_stdout out) (h_stderr out) (h_exit out), close_ends (closeAfterWait cmd) c2))
               | _ \<Rightarrow> (NotHelper, c)))"

subsection \<open>The global variable\<close>

datatype CommandFn = ExecCommand | FakeCommand

definition InjectFake :: "'t \<Rightarrow> CommandFn \<times> 't CommandFake" where
  "InjectFake t = (FakeCommand, NewFakeCommand t)"

definition UninjectFake :: "CommandFn \<Rightarrow> CommandFn" where
  "UninjectFake fn = ExecCommand"

section \<open>Lemmas\<close>

subsection \<open>The expectations as a list\<close>

text \<open>
  What the slice stands for, and the expectation that answers a command: the last one that matches,
  the default otherwise.
\<close>

definition expected :: "'t CommandFake \<Rightarrow> 't ExpectedCommand list" where
  "expected c = map (\<lambda>i. cells c (ElemCell (sl_array (expectations c)) i)) [0..<sl_len (expectations c)]"

definition accepts :: "string \<Rightarrow> go_args \<Rightarrow> 't ExpectedCommand \<Rightarrow> bool" where
  "accepts name args e = (case matcher e of None \<Rightarrow> False | Some m \<Rightarrow> m name args)"

definition answering :: "string \<Rightarrow> go_args \<Rightarrow> 't CommandFake \<Rightarrow> 't ExpectedCommand option" where
  "answering name args c = find (accepts name args) (rev (expected c))"

text \<open>Addresses from \<open>next_addr\<close> on are not in use, and every expectation has a matcher.\<close>

definition fake_ok :: "'t CommandFake \<Rightarrow> bool" where
  "fake_ok c \<longleftrightarrow>
     sl_len (expectations c) \<le> sl_cap (expectations c) \<and> sl_array (expectations c) < next_addr c \<and>
     (\<forall>n\<ge>next_addr c. \<not> closed c (ReadEnd n) \<and> \<not> closed c (WriteEnd n) \<and> process c n = None) \<and>
     (\<forall>e\<in>set (expected c). matcher e \<noteq> None)"

definition grow_law :: "go_runtime \<Rightarrow> bool" where
  "grow_law G \<longleftrightarrow> (\<forall>n. n < grow_cap G n)"

lemma fake_ok_new: "fake_ok (NewFakeCommand t)" "expected (NewFakeCommand t) = []"
  by (simp_all add: fake_ok_def NewFakeCommand_def expected_def)

text \<open>The first part of the contract: a new expectation goes to the end of the list.\<close>

lemma ExpectCommandMatching_expected:
  assumes "fake_ok c" "grow_law G" "ExpectCommandMatching G (Some m) c = (p, c1)"
  shows "expected c1 = expected c @ [zeroExpected\<lparr>matcher := Some m\<rparr>]" "fake_ok c1" "cells c1 DefaultCell = cells c DefaultCell"
    "p = ElemCell (sl_array (expectations c1)) (length (expected c))"
    "counters c1 = counters c" "pid_lists c1 = pid_lists c" "channels c1 = channels c" "test c1 = test c"
proof -
  have c1: "c1 = append_expectation G (zeroExpected\<lparr>matcher := Some m\<rparr>) c"
    "p = ElemCell (sl_array (expectations c1)) (sl_len (expectations c1) - 1)"
    using assms(3) by (auto simp: ExpectCommandMatching_def Let_def)
  show e: "expected c1 = expected c @ [zeroExpected\<lparr>matcher := Some m\<rparr>]"
    unfolding c1(1) by (auto simp: append_expectation_def Let_def expected_def move_cells_def)
  show "p = ElemCell (sl_array (expectations c1)) (length (expected c))"
    unfolding c1(2) unfolding c1(1) by (simp add: append_expectation_def Let_def expected_def)
  have "\<forall>x\<in>set (expected c1). matcher x \<noteq> None" using assms(1) unfolding e fake_ok_def by auto
  moreover have "sl_cap (expectations c) < grow_cap G (sl_cap (expectations c))" using assms(2) by (simp add: grow_law_def)
  ultimately show "fake_ok c1"
    using assms(1) unfolding fake_ok_def c1(1) by (auto simp: append_expectation_def Let_def)
qed (use assms(3) in \<open>auto simp: ExpectCommandMatching_def append_expectation_def Let_def move_cells_def\<close>)

text \<open>A change through a pointer to an element that is part of the slice changes that element of the list.\<close>

lemma update_cell_expected:
  assumes "i < length (expected c)"
  shows "expected (update_cell (ElemCell (sl_array (expectations c)) i) f c) = (expected c)[i := f (expected c ! i)]"
  using assms by (intro nth_equalityI) (auto simp: expected_def update_cell_def nth_list_update)

text \<open>A change through a pointer to an array the slice has left changes nothing that answers.\<close>

lemma update_cell_stale:
  assumes "a \<noteq> sl_array (expectations c)"
  shows "expected (update_cell (ElemCell a i) f c) = expected c"
  using assms by (simp add: expected_def update_cell_def)

lemma commandLoop_find:
  "\<forall>i<n. matcher (es i) \<noteq> None \<Longrightarrow>
   \<exists>k. commandLoop n es name args = Inr k \<and> find (accepts name args) (rev (map es [0..<n])) = map_option es k"
proof (induction n)
  case (Suc n)
  obtain m where m: "matcher (es n) = Some m" using Suc.prems by blast
  show ?case
  proof (cases "m name args")
    case True
    then show ?thesis using m by (simp add: accepts_def)
  next
    case False
    then show ?thesis using m Suc by (simp add: accepts_def)
  qed
qed simp

subsection \<open>The environment of the helper process\<close>

lemma HasPrefix_simps [simp]: "HasPrefix s []" "HasPrefix (a # s) (b # p) \<longleftrightarrow> a = b \<and> HasPrefix s p" "\<not> HasPrefix [] (b # p)"
  by (auto simp: HasPrefix_def)

text \<open>Entries that do not set a variable of the helper process.\<close>

definition foreign_env :: "string list \<Rightarrow> bool" where
  "foreign_env extra \<longleftrightarrow> (\<forall>s\<in>set extra. \<not> has_nul s \<and> \<not> HasPrefix s ''GO_WANT_HELPER_PROCESS='' \<and>
     \<not> HasPrefix s ''FAKE_STATUS='' \<and> \<not> HasPrefix s ''FAKE_RESULT='' \<and> \<not> HasPrefix s ''FAKE_ERR_RESULT='')"

lemma Getenv_append:
  assumes "\<forall>s\<in>set extra. \<not> HasPrefix s (key @ ''='')"
  shows "Getenv (env @ extra) key = Getenv env key"
proof -
  have "find (\<lambda>s. HasPrefix s (key @ ''='')) (rev extra @ xs) = find (\<lambda>s. HasPrefix s (key @ ''='')) xs" for xs
    using assms by (induction extra arbitrary: xs) auto
  then show ?thesis by (simp add: Getenv_def)
qed

definition fakeEnv :: "int \<Rightarrow> string \<Rightarrow> string \<Rightarrow> string list" where
  "fakeEnv status out err = [''GO_WANT_HELPER_PROCESS=1'', ''FAKE_STATUS='' @ Itoa status, ''FAKE_RESULT='' @ out, ''FAKE_ERR_RESULT='' @ err]"

lemma Getenv_own:
  "Getenv (fakeEnv status out err) ''GO_WANT_HELPER_PROCESS'' = ''1''" "Getenv (fakeEnv status out err) ''FAKE_STATUS'' = Itoa status"
  "Getenv (fakeEnv status out err) ''FAKE_RESULT'' = out" "Getenv (fakeEnv status out err) ''FAKE_ERR_RESULT'' = err"
  by (simp_all add: Getenv_def fakeEnv_def)

lemma Getenv_fakeEnv:
  assumes "foreign_env extra"
  shows "Getenv (fakeEnv status out err @ extra) ''GO_WANT_HELPER_PROCESS'' = ''1''"
    "Getenv (fakeEnv status out err @ extra) ''FAKE_STATUS'' = Itoa status"
    "Getenv (fakeEnv status out err @ extra) ''FAKE_RESULT'' = out"
    "Getenv (fakeEnv status out err @ extra) ''FAKE_ERR_RESULT'' = err"
  by (rule trans [OF Getenv_append Getenv_own(1)] trans [OF Getenv_append Getenv_own(2)]
        trans [OF Getenv_append Getenv_own(3)] trans [OF Getenv_append Getenv_own(4)],
      use assms in \<open>simp add: foreign_env_def\<close>)+

lemma HelperProcess_fake:
  assumes "- (2 ^ 63) \<le> status" "status < 2 ^ 63" "foreign_env extra"
  shows "HelperProcess (a0 # [''-test.run=TestHelperProcess'', ''--'', path] @ as) (fakeEnv status out err @ extra) =
    Inr (Some \<lparr>h_args = Join (path # as) '' '', h_stdout = out, h_stderr = err, h_exit = status mod 256\<rparr>)"
proof -
  have "Atoi (Itoa status) = Inr status" unfolding Atoi_def by (rule ParseInt_Itoa) (use assms in auto)
  then show ?thesis by (simp add: HelperProcess_def Getenv_fakeEnv [OF assms(3)])
qed

subsection \<open>Running what the fake made\<close>

text \<open>The code under test may add to the environment of the command before it runs it.\<close>

definition extend_env :: "nat \<Rightarrow> string list \<Rightarrow> 't CommandFake \<Rightarrow> 't CommandFake" where
  "extend_env n extra c = c\<lparr>cmds := (cmds c)(n := (cmds c n)\<lparr>cmd_Env := cmd_Env (cmds c n) @ extra\<rparr>)\<rparr>"

lemma has_nul_simps [simp]: "\<not> has_nul []" "has_nul (ch # s) \<longleftrightarrow> ch = CHR 0x00 \<or> has_nul s" "has_nul (s @ t) \<longleftrightarrow> has_nul s \<or> has_nul t"
  by (simp_all add: has_nul_def)

lemma has_nul_Itoa [simp]: "\<not> has_nul (Itoa i)"
proof -
  have "\<not> has_nul (nat_digits k)" for k
    using nat_digits_is_digit [of k] by (auto simp: has_nul_def list_ex_iff list_all_iff is_digit_def code_def)
  then show ?thesis by (simp add: Itoa_def)
qed

definition plain_command :: "go_runtime \<Rightarrow> string \<Rightarrow> go_args \<Rightarrow> 't ExpectedCommand \<Rightarrow> bool" where
  "plain_command G name args e \<longleftrightarrow>
     \<not> list_ex has_nul (os_Args0 G # name # arg_list args) \<and> \<not> has_nul (fk_stdout e) \<and> \<not> has_nul (fk_stderr e) \<and>
     - (2 ^ 63) \<le> fk_status e \<and> fk_status e < 2 ^ 63"

text \<open>What a run of the command made for \<open>e\<close> leaves behind.\<close>

definition ran :: "go_runtime \<Rightarrow> 't ExpectedCommand \<Rightarrow> nat \<Rightarrow> string list \<Rightarrow> 't CommandFake \<Rightarrow> 't CommandFake \<Rightarrow> bool" where
  "ran G e n env c c2 \<longleftrightarrow>
     counters c2 = (case called e of None \<Rightarrow> counters c | Some a \<Rightarrow> (counters c)(a := wrap64 (counters c a + 1))) \<and>
     pid_lists c2 = (case pids e of None \<Rightarrow> pid_lists c | Some a \<Rightarrow> (pid_lists c)(a := pid_lists c a @ [os_pid G n])) \<and>
     channels c2 = (case envChan e of None \<Rightarrow> channels c
       | Some a \<Rightarrow> (channels c)(a := (fst (channels c a) - 1, snd (channels c a) @ [env]))) \<and>
     test c2 = (case sideEffect e of None \<Rightarrow> test c | Some f \<Rightarrow> f (test c))"

lemma goroutine_runs:
  assumes "argsPipe e = Some n" "argsBuffer e = Some ''''" "fk_cmd e = Some n" "cells c p = e"
    and "\<not> closed c (ReadEnd n)" "closed c (WriteEnd n)" "process c n = Some (os_pid G n)"
    and "\<And>a. envChan e = Some a \<Longrightarrow> 0 < fst (channels c a)"
  shows "\<exists>c2. readArgsAndRunSideEffects n written p c = Some c2 \<and> ran G e n (cmd_Env (cmds c n)) c c2 \<and>
    cells c2 = (cells c)(p := e\<lparr>argsBuffer := Some written\<rparr>) \<and> expectations c2 = expectations c \<and> next_addr c2 = next_addr c \<and>
    closed c2 = closed c \<and> process c2 = process c"
proof (cases "envChan e")
  case None
  then show ?thesis
    using assms
    by (auto simp: readArgsAndRunSideEffects_def read_pipe_def Let_def ran_def update_cell_def split: option.splits)
next
  case (Some a)
  obtain room sent where ch: "channels c a = (Suc room, sent)"
    using assms(8) [OF Some] by (metis Suc_pred prod.collapse)
  then show ?thesis
    using assms Some
    by (auto simp: readArgsAndRunSideEffects_def read_pipe_def Let_def ran_def update_cell_def sendEnv_def split: option.splits)
qed

lemma made_command_runs:
  fixes c :: "'t CommandFake"
  defines "n \<equiv> next_addr c"
  assumes "os_Pipe G n = None" "fakeExecCommand G p name args c = (Inr m, c1)" "plain_command G name args (cells c p)"
    and fresh: "\<not> closed c (ReadEnd n)" "\<not> closed c (WriteEnd n)" "process c n = None" and "foreign_env extra"
    and chan: "\<And>a. envChan (cells c p) = Some a \<Longrightarrow> 0 < fst (channels c a)"
  shows "\<exists>c2. cmd_Run G m (extend_env m extra c1) =
      (Ran (fk_stdout (cells c p)) (fk_stderr (cells c p)) (fk_status (cells c p) mod 256), c2) \<and>
    ran G (cells c p) m (fakeEnv (fk_status (cells c p)) (fk_stdout (cells c p)) (fk_stderr (cells c p)) @ extra) c c2 \<and>
    argsBuffer (cells c2 p) = Some (Join (name # arg_list args) '' '') \<and> (\<forall>q. q \<noteq> p \<longrightarrow> cells c2 q = cells c q) \<and>
    expectations c2 = expectations c \<and> next_addr c2 = Suc n \<and>
    closed c2 = (\<lambda>f. f = ReadEnd n \<or> f = WriteEnd n \<or> closed c f) \<and> process c2 = (process c)(n := Some (os_pid G n))"
proof -
  let ?e = "cells c p"
  let ?env = "fakeEnv (fk_status ?e) (fk_stdout ?e) (fk_stderr ?e) @ extra"
  let ?argv = "os_Args0 G # [''-test.run=TestHelperProcess'', ''--'', name] @ arg_list args"
  let ?e1 = "?e\<lparr>argsPipe := Some n, argsBuffer := Some '''', fk_cmd := Some n\<rparr>"
  let ?c1 = "extend_env m extra c1"
  have m: "m = n" and c1: "c1 = c\<lparr>cells := (cells c)(p := ?e1), next_addr := Suc n, cmds := (cmds c)(n :=
      \<lparr>cmd_Args = ?argv, cmd_Env = fakeEnv (fk_status ?e) (fk_stdout ?e) (fk_stderr ?e), ExtraFiles = [WriteEnd n],
       closeAfterStart = [WriteEnd n], closeAfterWait = [ReadEnd n], goroutines = [p]\<rparr>)\<rparr>"
    using assms(2,3) by (auto simp: fakeExecCommand_def Let_def n_def zeroCmd_def closeAfterEvent_def injectGoroutine_def fakeEnv_def)
  have cmd: "cmd_Args (cmds ?c1 n) = ?argv" "cmd_Env (cmds ?c1 n) = ?env" "closeAfterStart (cmds ?c1 n) = [WriteEnd n]"
    "closeAfterWait (cmds ?c1 n) = [ReadEnd n]" "goroutines (cmds ?c1 n) = [p]"
    by (simp_all add: extend_env_def c1 m)
  have nul: "\<not> list_ex has_nul (?argv @ ?env)"
    using assms(4,8) by (auto simp: plain_command_def fakeEnv_def foreign_env_def list_ex_iff)
  have helper: "HelperProcess ?argv ?env = Inr (Some \<lparr>h_args = Join (name # arg_list args) '' '', h_stdout = fk_stdout ?e,
      h_stderr = fk_stderr ?e, h_exit = fk_status ?e mod 256\<rparr>)"
    using assms(4,8) by (intro HelperProcess_fake) (auto simp: plain_command_def)
  let ?c2 = "close_ends [WriteEnd n] (?c1\<lparr>process := (process ?c1)(n := Some (os_pid G n))\<rparr>)"
  obtain c3 where c3: "readArgsAndRunSideEffects n (Join (name # arg_list args) '' '') p ?c2 = Some c3"
    "ran G ?e1 n (cmd_Env (cmds ?c2 n)) ?c2 c3" "cells c3 = (cells ?c2)(p := ?e1\<lparr>argsBuffer := Some (Join (name # arg_list args) '' '')\<rparr>)"
    "expectations c3 = expectations ?c2" "next_addr c3 = next_addr ?c2" "closed c3 = closed ?c2" "process c3 = process ?c2"
    using goroutine_runs [of ?e1 n ?c2 p G "Join (name # arg_list args) '' ''"] fresh chan
    by (auto simp: extend_env_def c1 m close_ends_def)
  have "cmd_Run G m ?c1 = (Ran (fk_stdout ?e) (fk_stderr ?e) (fk_status ?e mod 256), close_ends [ReadEnd n] c3)"
    using fresh(3) nul c3(1) unfolding cmd_Run_def Let_def m cmd [unfolded m] helper
    by (simp add: c1 extend_env_def)
  moreover have "ran G ?e m ?env c (close_ends [ReadEnd n] c3)"
    using c3(2) cmd(2) by (simp add: ran_def close_ends_def extend_env_def c1 m cong: option.case_cong)
  ultimately show ?thesis
    using c3(3-7) by (intro exI [of _ "close_ends [ReadEnd n] c3"]) (auto simp: close_ends_def extend_env_def c1)
qed

lemma commandLoop_answering:
  assumes "fake_ok c"
  obtains k where "commandLoop (sl_len (expectations c)) (\<lambda>i. cells c (ElemCell (sl_array (expectations c)) i)) name args = Inr k"
    "answering name args c = map_option (\<lambda>i. cells c (ElemCell (sl_array (expectations c)) i)) k"
proof -
  have "\<forall>i < sl_len (expectations c). matcher (cells c (ElemCell (sl_array (expectations c)) i)) \<noteq> None"
    using assms by (auto simp: fake_ok_def expected_def)
  from commandLoop_find [OF this, of name args] that show thesis
    unfolding answering_def expected_def by blast
qed

lemma expected_cong:
  "expectations c = expectations c' \<Longrightarrow> (\<And>a i. cells c (ElemCell a i) = cells c' (ElemCell a i)) \<Longrightarrow> expected c = expected c'"
  by (simp add: expected_def)

text \<open>Making the command, with the cell it refers to.\<close>

lemma Command_made:
  fixes c :: "'t CommandFake"
  assumes "fake_ok c" "\<And>n. os_Pipe G n = None"
  obtains p c0 n c1 where "CommandFake_Command G name args c = (Inr n, c1)" "fakeExecCommand G p name args c0 = (Inr n, c1)"
    "cells c0 p = (case answering name args c of None \<Rightarrow> cells c DefaultCell | Some e \<Rightarrow> e)"
    "p = DefaultCell \<longleftrightarrow> answering name args c = None" "\<And>a i. p \<noteq> ElemCell a i"
    "\<And>q. q \<noteq> p \<Longrightarrow> cells c0 q = cells c q" "next_addr c \<le> next_addr c0" "c0\<lparr>cells := cells c, next_addr := next_addr c\<rparr> = c"
proof -
  let ?es = "\<lambda>i. cells c (ElemCell (sl_array (expectations c)) i)"
  obtain k where k: "commandLoop (sl_len (expectations c)) ?es name args = Inr k" "answering name args c = map_option ?es k"
    using commandLoop_answering [OF assms(1)] by blast
  have made: "\<exists>c1. fakeExecCommand G q name args c' = (Inr (next_addr c'), c1)" for q and c' :: "'t CommandFake"
    by (simp add: fakeExecCommand_def Let_def assms(2))
  show thesis
  proof (cases k)
    case None
    obtain c1 where c1: "fakeExecCommand G DefaultCell name args c = (Inr (next_addr c), c1)" using made by blast
    then have "CommandFake_Command G name args c = (Inr (next_addr c), c1)" using k(1) None by (simp add: CommandFake_Command_def)
    from that [OF this c1] show thesis using k(2) None by simp
  next
    case (Some i)
    let ?c0 = "c\<lparr>cells := (cells c)(LocalCell (next_addr c) := ?es i), next_addr := Suc (next_addr c)\<rparr>"
    obtain c1 where c1: "fakeExecCommand G (LocalCell (next_addr c)) name args ?c0 = (Inr (next_addr ?c0), c1)" using made by blast
    then have "CommandFake_Command G name args c = (Inr (next_addr ?c0), c1)"
      using k(1) Some by (simp add: CommandFake_Command_def Let_def)
    from that [OF this c1] show thesis using k(2) Some by simp
  qed
qed

section \<open>Properties\<close>

text \<open>Running the command the fake hands out for a name and arguments prints the output and the error
  text and ends with the status of the last expectation that matches, of the default when none does,
  whatever the code under test adds to the environment; the call counter, the list of process ids, the
  channel and the side effect of that expectation, and of no other, are served exactly once; the
  expectations stay; and the captured arguments are those of the last command no expectation matched.\<close>

theorem fake_command_answers:
  fixes c :: "'t CommandFake"
  assumes "fake_ok c" "\<And>n. os_Pipe G n = None"
    and e: "e = (case answering name args c of None \<Rightarrow> cells c DefaultCell | Some e \<Rightarrow> e)"
    and "plain_command G name args e" "foreign_env extra" "\<And>a. envChan e = Some a \<Longrightarrow> 0 < fst (channels c a)"
  shows "\<exists>n c1 c2. CommandFake_Command G name args c = (Inr n, c1) \<and>
    cmd_Run G n (extend_env n extra c1) = (Ran (fk_stdout e) (fk_stderr e) (fk_status e mod 256), c2) \<and>
    ran G e n (fakeEnv (fk_status e) (fk_stdout e) (fk_stderr e) @ extra) c c2 \<and>
    CapturedArgs c2 = (if answering name args c = None then Join (name # arg_list args) '' '' else CapturedArgs c) \<and>
    expected c2 = expected c \<and> fake_ok c2"
proof -
  obtain p c0 n c1 where made: "CommandFake_Command G name args c = (Inr n, c1)" "fakeExecCommand G p name args c0 = (Inr n, c1)"
    and p: "cells c0 p = e" "p = DefaultCell \<longleftrightarrow> answering name args c = None" "\<And>a i. p \<noteq> ElemCell a i"
    and c0: "\<And>q. q \<noteq> p \<Longrightarrow> cells c0 q = cells c q" "next_addr c \<le> next_addr c0" "c0\<lparr>cells := cells c, next_addr := next_addr c\<rparr> = c"
    using Command_made [OF assms(1,2), of name args] unfolding e by metis
  have same: "closed c0 = closed c" "process c0 = process c" "channels c0 = channels c" "counters c0 = counters c"
    "pid_lists c0 = pid_lists c" "test c0 = test c" "expectations c0 = expectations c"
    by (subst c0(3) [symmetric], simp)+
  have fresh: "\<not> closed c0 (ReadEnd (next_addr c0))" "\<not> closed c0 (WriteEnd (next_addr c0))" "process c0 (next_addr c0) = None"
    using assms(1) c0(2) same by (auto simp: fake_ok_def)
  obtain c2 where c2: "cmd_Run G n (extend_env n extra c1) = (Ran (fk_stdout e) (fk_stderr e) (fk_status e mod 256), c2)"
    "ran G e n (fakeEnv (fk_status e) (fk_stdout e) (fk_stderr e) @ extra) c0 c2"
    "argsBuffer (cells c2 p) = Some (Join (name # arg_list args) '' '')" "\<And>q. q \<noteq> p \<Longrightarrow> cells c2 q = cells c0 q"
    "expectations c2 = expectations c0" "next_addr c2 = Suc (next_addr c0)"
    "closed c2 = (\<lambda>f. f = ReadEnd (next_addr c0) \<or> f = WriteEnd (next_addr c0) \<or> closed c0 f)"
    "process c2 = (process c0)(next_addr c0 := Some (os_pid G (next_addr c0)))"
    using made_command_runs [OF assms(2) made(2) _ fresh assms(5)] assms(4,6) unfolding p(1) same by blast
  have exp: "expected c2 = expected c"
    using c2(4,5) c0(1) p(3) same(7) by (intro expected_cong) metis+
  have "CapturedArgs c2 = (if answering name args c = None then Join (name # arg_list args) '' '' else CapturedArgs c)"
    using p(2) c2(3) c2(4) [of DefaultCell] c0(1) [of DefaultCell] by (auto simp: CapturedArgs_def)
  moreover have "ran G e n (fakeEnv (fk_status e) (fk_stdout e) (fk_stderr e) @ extra) c c2"
    using c2(2) unfolding ran_def same .
  moreover have "fake_ok c2"
    using assms(1) c0(2) c2(5-8) same exp by (auto simp: fake_ok_def)
  ultimately show ?thesis using made(1) c2(1) exp by blast
qed

text \<open>The witness: two expectations and a default; the later expectation answers.\<close>

definition demo_runtime :: go_runtime where
  "demo_runtime = \<lparr>os_Args0 = ''commandable.test'', os_Pipe = (\<lambda>_. None), os_pid = (\<lambda>n. 100 + int n), grow_cap = (\<lambda>n. if n = 0 then 1 else 2 * n)\<rparr>"

definition demo_fake :: "nat CommandFake" where
  "demo_fake =
     (case ExpectCommand demo_runtime ''psql'' (Some [''-t'']) (FakeOutput ''default'' (NewFakeCommand 0)) of (p, c1) \<Rightarrow>
        case ExpectCommandMatching demo_runtime (Some (\<lambda>path args. path = ''psql'')) (PrintsOutput ''one'' p c1) of (q, c2) \<Rightarrow>
          SideEffect Suc q (CallCounter 7 q (ReturnsStatus 3 q (PrintsOutput ''two'' q c2))))"

lemma fake_ok_update:
  assumes "fake_ok c" "\<And>e. matcher e \<noteq> None \<Longrightarrow> matcher (f e) \<noteq> None"
  shows "fake_ok (update_cell p f c)"
proof -
  have "\<forall>e\<in>set (expected (update_cell p f c)). matcher e \<noteq> None"
    using assms by (auto simp: fake_ok_def expected_def update_cell_def)
  then show ?thesis using assms(1) by (simp add: fake_ok_def) (simp add: update_cell_def)
qed

lemmas builder_defs = PrintsOutput_def PrintsError_def ReturnsStatus_def CallCounter_def PidList_def SideEffect_def SendEnvironment_def
  FakeOutput_def FakeErrOutput_def FakeStatus_def

text \<open>Every operation of the fake keeps it well formed.\<close>

lemma fake_ok_builders:
  assumes "fake_ok c"
  shows "fake_ok (PrintsOutput s p c)" "fake_ok (PrintsError s p c)" "fake_ok (ReturnsStatus n p c)" "fake_ok (CallCounter a p c)"
    "fake_ok (PidList a p c)" "fake_ok (SideEffect f p c)" "fake_ok (SendEnvironment a p c)"
    "fake_ok (FakeOutput s c)" "fake_ok (FakeErrOutput s c)" "fake_ok (FakeStatus n c)"
  unfolding builder_defs by (intro fake_ok_update [OF assms]; simp)+

lemma fake_ok_ExpectCommandMatching: "grow_law G \<Longrightarrow> fake_ok c \<Longrightarrow> fake_ok (snd (ExpectCommandMatching G (Some m) c))"
  by (metis ExpectCommandMatching_expected(2) prod.collapse)

lemma fake_ok_ExpectCommand: "grow_law G \<Longrightarrow> fake_ok c \<Longrightarrow> fake_ok (snd (ExpectCommand G path args c))"
  unfolding ExpectCommand_def by (rule fake_ok_ExpectCommandMatching)

lemma demo_fake_ok: "fake_ok demo_fake"
proof -
  have "grow_law demo_runtime" by (simp add: grow_law_def demo_runtime_def)
  then show ?thesis
    unfolding demo_fake_def case_prod_unfold
    by (intro fake_ok_builders fake_ok_ExpectCommand fake_ok_ExpectCommandMatching fake_ok_new)
qed

lemma demo_fake_answers:
  "case answering ''psql'' (Some [''-t'']) demo_fake of None \<Rightarrow> False
   | Some e \<Rightarrow> fk_stdout e = ''two'' \<and> fk_stderr e = '''' \<and> fk_status e = 3 \<and> called e = Some 7 \<and> envChan e = None \<and>
       (case sideEffect e of None \<Rightarrow> False | Some f \<Rightarrow> f 0 = 1)"
  "test demo_fake = 0" "counters demo_fake 7 = 0"
  by code_simp+

theorem fake_command_answers_witness:
  "\<exists>n c1 c2. CommandFake_Command demo_runtime ''psql'' (Some [''-t'']) demo_fake = (Inr n, c1) \<and>
     cmd_Run demo_runtime n (extend_env n [''PGDATABASE=gpadmin''] c1) = (Ran ''two'' '''' 3, c2) \<and> counters c2 7 = 1 \<and> test c2 = 1"
proof -
  obtain e where e: "answering ''psql'' (Some [''-t'']) demo_fake = Some e" "fk_stdout e = ''two''" "fk_stderr e = ''''"
    "fk_status e = 3" "called e = Some 7" "envChan e = None" "case sideEffect e of None \<Rightarrow> False | Some f \<Rightarrow> f 0 = 1"
    using demo_fake_answers(1) by (auto split: option.splits)
  have "plain_command demo_runtime ''psql'' (Some [''-t'']) e" "foreign_env [''PGDATABASE=gpadmin'']"
    using e by (simp_all add: plain_command_def demo_runtime_def arg_list_def foreign_env_def)
  with fake_command_answers [of demo_fake demo_runtime e "''psql''" "Some [''-t'']" "[''PGDATABASE=gpadmin'']"] demo_fake_ok e
  show ?thesis
    by (auto simp: demo_runtime_def ran_def demo_fake_answers(2,3) wrap64_def split: option.splits)
qed

subsection \<open>Aliasing\<close>

text \<open>What is configured through the pointer, before the next expectation is added, is what answers.\<close>

theorem expectation_configured:
  assumes "fake_ok c" "grow_law G" "ExpectCommand G path args c = (p, c1)"
  shows "expected (update_cell p f c1) =
    expected c @ [f (zeroExpected\<lparr>matcher := Some (\<lambda>name as. name = path \<and> as = args)\<rparr>)]"
  using ExpectCommandMatching_expected [OF assms(1,2) assms(3) [unfolded ExpectCommand_def]]
    update_cell_expected [of "length (expected c)" c1 f]
  by (simp add: nth_append list_update_append)

text \<open>After an expectation that moved the slice, the pointer of the one before leads to a copy: what is
  configured through it has no effect on any command.\<close>

theorem stale_expectation_ignored:
  assumes "fake_ok c" "grow_law G" "ExpectCommand G path args c = (p, c1)"
    and "sl_len (expectations c1) = sl_cap (expectations c1)" "ExpectCommand G path' args' c1 = (q, c2)"
  shows "expected (update_cell p f c2) = expected c2"
proof -
  note 1 = ExpectCommandMatching_expected [OF assms(1,2) assms(3) [unfolded ExpectCommand_def]]
  have "sl_array (expectations c2) = next_addr c1"
    using assms(4,5) by (auto simp: ExpectCommand_def ExpectCommandMatching_def append_expectation_def Let_def)
  then have "sl_array (expectations c1) \<noteq> sl_array (expectations c2)" using 1(2) by (simp add: fake_ok_def)
  then show ?thesis using update_cell_stale 1(4) by simp
qed

text \<open>Two commands made from the default before the first of them is run: the goroutine of the first
  reads the pipe of the second, which nobody has written to, and the run never ends.\<close>

theorem two_default_commands_block:
  assumes "fake_ok c" "\<And>n. os_Pipe G n = None" "answering name args c = None" "answering name' args' c = None"
    and "CommandFake_Command G name args c = (Inr n, c1)" "CommandFake_Command G name' args' c1 = (Inr n', c2)"
    and "plain_command G name args (cells c DefaultCell)"
  shows "fst (cmd_Run G n c2) = Blocked"
proof -
  let ?loop = "\<lambda>name args. commandLoop (sl_len (expectations c)) (\<lambda>i. cells c (ElemCell (sl_array (expectations c)) i)) name args"
  let ?e = "cells c DefaultCell" and ?k = "next_addr c"
  have loop: "?loop name args = Inr None" "?loop name' args' = Inr None"
    using commandLoop_answering [OF assms(1)] assms(3,4) by (metis option.map_disc_iff)+
  have c1: "fakeExecCommand G DefaultCell name args c = (Inr n, c1)"
    using assms(5) loop(1) by (simp add: CommandFake_Command_def)
  then have n: "n = ?k" and keep: "expectations c1 = expectations c" "\<And>a i. cells c1 (ElemCell a i) = cells c (ElemCell a i)"
    "next_addr c1 = Suc ?k" "closed c1 = closed c" "process c1 = process c"
    by (auto simp: fakeExecCommand_def Let_def assms(2))
  have c2: "fakeExecCommand G DefaultCell name' args' c1 = (Inr n', c2)"
    using assms(6) loop(2) keep by (simp add: CommandFake_Command_def)
  then have n': "argsPipe (cells c2 DefaultCell) = Some (Suc ?k)" "closed c2 = closed c" "process c2 = process c"
    "cmds c2 n = cmds c1 n"
    using keep n by (auto simp: fakeExecCommand_def Let_def assms(2))
  have open_ends: "\<not> closed c (ReadEnd (Suc ?k))" "\<not> closed c (WriteEnd (Suc ?k))" "process c ?k = None"
    using assms(1) by (auto simp: fake_ok_def)
  let ?argv = "os_Args0 G # [''-test.run=TestHelperProcess'', ''--'', name] @ arg_list args"
  let ?env = "fakeEnv (fk_status ?e) (fk_stdout ?e) (fk_stderr ?e) @ []"
  have cmd: "cmd_Args (cmds c2 n) = ?argv" "cmd_Env (cmds c2 n) = ?env" "closeAfterStart (cmds c2 n) = [WriteEnd n]" "goroutines (cmds c2 n) = [DefaultCell]"
    using c1 n'(4) n by (auto simp: fakeExecCommand_def Let_def assms(2) fakeEnv_def closeAfterEvent_def injectGoroutine_def zeroCmd_def)
  have "HelperProcess ?argv ?env = Inr (Some \<lparr>h_args = Join (name # arg_list args) '' '', h_stdout = fk_stdout ?e,
      h_stderr = fk_stderr ?e, h_exit = fk_status ?e mod 256\<rparr>)"
    using assms(7) by (intro HelperProcess_fake) (auto simp: plain_command_def foreign_env_def)
  moreover have "\<not> list_ex has_nul (?argv @ ?env)"
    using assms(7) by (auto simp: plain_command_def fakeEnv_def list_ex_iff)
  ultimately show ?thesis
    unfolding cmd_Run_def Let_def cmd using n n' open_ends
    by (simp add: readArgsAndRunSideEffects_def read_pipe_def close_ends_def)
qed

end
