(* ===== verification/Source_Urls.thy ===== *)
theory Source_Urls
  imports Security_Check
begin

text \<open>
  The build tool that looks up where the sources of the packages of an image are published
  (\<open>greenplum-instance/scripts/build/get-url-source-code.go\<close>). The web, the files and their errors are
  parameters. The lemmas say what a successful run writes: one line for each line read, with the first
  address that answers.
\<close>

section \<open>Definitions\<close>

definition INVALIDURL :: string where
  "INVALIDURL = ''NO VALID URL''"

definition FILESUFFIXES :: "string list" where
  "FILESUFFIXES = [''_amd64.tar.gz'', ''.tar.gz'', ''.tar.xz'', ''.debian.tar.xz'']"

text \<open>
  A web request gives a status and a body. A file is read up to its end or the first error, which the
  scanner keeps to itself, and written line by line.
\<close>

record 's url_env =
  http_Get :: "string \<Rightarrow> 's \<Rightarrow> (int \<times> string) result \<times> 's"
  file_Read :: "string \<Rightarrow> 's \<Rightarrow> string result \<times> 's"
  file_Create :: "string \<Rightarrow> 's \<Rightarrow> unit result \<times> 's"
  file_Flush :: "string \<Rightarrow> 's \<Rightarrow> unit result \<times> 's"
  file_Close :: "string \<Rightarrow> 's \<Rightarrow> unit result \<times> 's"

definition TrimRight :: "string \<Rightarrow> char \<Rightarrow> string" where
  "TrimRight s c = rev (dropWhile (\<lambda>d. d = c) (rev s))"

definition cleanupVersion :: "string \<Rightarrow> string" where
  "cleanupVersion version =
     (let s = Split version (CHR '':'') in TrimRight (if length s > 1 then s ! 1 else version) (CHR ''.''))"

definition cleanupBinaryName :: "string \<Rightarrow> string" where
  "cleanupBinaryName binaryName = (let s = Split binaryName (CHR '':'') in if length s > 1 then s ! 0 else binaryName)"

text \<open>A byte made a string is the UTF-8 text of that rune; an index or a slice out of range panics.\<close>

definition rune_string :: "char \<Rightarrow> string" where
  "rune_string c = (if code c < 128 then [c] else [char_of (192 + code c div 64), char_of (128 + code c mod 64)])"

definition getCategory :: "string \<Rightarrow> string option" where
  "getCategory binaryName =
     (if HasPrefix binaryName ''lib'' then (if length binaryName < 4 then None else Some (take 4 binaryName))
      else (case binaryName of [] \<Rightarrow> None | c # cs \<Rightarrow> Some (rune_string c)))"

definition isURLValid :: "'s url_env \<Rightarrow> string \<Rightarrow> 's \<Rightarrow> bool \<times> 's" where
  "isURLValid E url s =
     (case http_Get E url s of (Inl err, s1) \<Rightarrow> (False, s1) | (Inr (status, body), s1) \<Rightarrow> (status = 200, s1))"

fun findValidLoop :: "'s url_env \<Rightarrow> string \<Rightarrow> string list \<Rightarrow> 's \<Rightarrow> string \<times> 's" where
  "findValidLoop E prefixURL [] s = (INVALIDURL, s)"
| "findValidLoop E prefixURL (suf # sufs) s =
     (case isURLValid E (prefixURL @ suf) s of
        (True, s1) \<Rightarrow> (prefixURL @ suf, s1)
      | (False, s1) \<Rightarrow> findValidLoop E prefixURL sufs s1)"

definition findValidURL :: "'s url_env \<Rightarrow> string \<Rightarrow> 's \<Rightarrow> string \<times> 's" where
  "findValidURL E prefixURL = findValidLoop E prefixURL FILESUFFIXES"

text \<open>
  The regular expression: after the leftmost occurrence of the sentence that has an end tag behind it
  on its line, the text up to the last end tag of the line.
\<close>

fun upToLast :: "string \<Rightarrow> string \<Rightarrow> string option" where
  "upToLast endTag [] = (if endTag = [] then Some [] else None)"
| "upToLast endTag (c # cs) =
     (case upToLast endTag cs of
        Some t \<Rightarrow> Some (c # t)
      | None \<Rightarrow> if HasPrefix (c # cs) endTag then Some [] else None)"

fun findDir :: "string \<Rightarrow> string \<Rightarrow> string \<Rightarrow> string option" where
  "findDir start endTag [] = None"
| "findDir start endTag (c # cs) =
     (case (if HasPrefix (c # cs) start
            then upToLast endTag (takeWhile (\<lambda>d. d \<noteq> CHR 0x0A) (drop (length start) (c # cs))) else None) of
        Some d \<Rightarrow> Some d
      | None \<Rightarrow> findDir start endTag cs)"

definition downloadDir :: "string \<Rightarrow> string option" where
  "downloadDir html = findDir ''You can download the requested file from the <tt>'' ''</tt>'' html"

text \<open>The response is used without a look at the error, the match without a look at whether there is one.\<close>

definition getOtherWorkingURL :: "'s url_env \<Rightarrow> string \<Rightarrow> 's \<Rightarrow> string outcome \<times> 's" where
  "getOtherWorkingURL E binaryName s =
     (case http_Get E (''https://packages.ubuntu.com/xenial/amd64/'' @ binaryName @ ''/download'') s of
        (Inl err, s1) \<Rightarrow> (Panicked ''nil pointer dereference'', s1)
      | (Inr (status, html), s1) \<Rightarrow>
          (if status = 200
           then (case downloadDir html of
                   None \<Rightarrow> (Panicked ''index out of range'', s1)
                 | Some dir \<Rightarrow> (Value (''http://archive.ubuntu.com/ubuntu/'' @ dir), s1))
           else (Value INVALIDURL, s1)))"

text \<open>The body of the loop, up to the line it writes.\<close>

definition sourceLine :: "'s url_env \<Rightarrow> string \<Rightarrow> 's \<Rightarrow> string outcome \<times> 's" where
  "sourceLine E binaryText s =
     (case Split binaryText (CHR '','') of
        b # v # rest \<Rightarrow>
          (let binaryName = cleanupBinaryName b; version = cleanupVersion v
           in case getCategory binaryName of
                None \<Rightarrow> (Panicked ''out of range'', s)
              | Some category \<Rightarrow>
                  (case findValidURL E (''http://archive.ubuntu.com/ubuntu/pool/main/'' @ category @ ''/'' @ binaryName @ ''/'' @
                          binaryName @ ''_'' @ version) s of
                     (url, s1) \<Rightarrow>
                       (case (if url = INVALIDURL then getOtherWorkingURL E binaryName s1 else (Value url, s1)) of
                          (Value url', s2) \<Rightarrow> (Value (binaryName @ '','' @ version @ '','' @ url'), s2)
                        | (Panicked p, s2) \<Rightarrow> (Panicked p, s2)
                        | (Failed e, s2) \<Rightarrow> (Failed e, s2))))
      | _ \<Rightarrow> (Panicked ''index out of range'', s))"

text \<open>Every line is flushed, so the flush after the loop finds an empty buffer.\<close>

fun sourceLoop :: "'s url_env \<Rightarrow> string list \<Rightarrow> 's \<Rightarrow> unit outcome \<times> 's" where
  "sourceLoop E [] s = (Value (), s)"
| "sourceLoop E (l # ls) s =
     (case sourceLine E l s of
        (Value outputLine, s1) \<Rightarrow>
          (case file_Flush E (outputLine @ [CHR 0x0A]) s1 of
             (Inl err, s2) \<Rightarrow> (Failed (Err ''Flush error''), s2)
           | (Inr u, s2) \<Rightarrow> sourceLoop E ls s2)
      | (Panicked p, s1) \<Rightarrow> (Panicked p, s1)
      | (Failed e, s1) \<Rightarrow> (Failed e, s1))"

text \<open>The deferred closes, which also run when the loop panics; a failed close ends the program.\<close>

definition deferredCloses :: "'s url_env \<Rightarrow> string \<Rightarrow> string \<Rightarrow> unit outcome \<Rightarrow> 's \<Rightarrow> unit outcome \<times> 's" where
  "deferredCloses E inFile outFile res s =
     (case file_Close E outFile s of
        (Inl err, s1) \<Rightarrow> (Failed err, s1)
      | (Inr u, s1) \<Rightarrow> (case file_Close E inFile s1 of (Inl err, s2) \<Rightarrow> (Failed err, s2) | (Inr u, s2) \<Rightarrow> (res, s2)))"

definition source_url_main :: "'s url_env \<Rightarrow> string list \<Rightarrow> 's \<Rightarrow> unit outcome \<times> 's" where
  "source_url_main E args s =
     (case args of
        prog # inFile # outFile # rest \<Rightarrow>
          (case file_Read E inFile s of
             (Inl err, s1) \<Rightarrow> (Failed (Err (''error opening '' @ [CHR 0x27] @ ''a'' @ [CHR 0x27])), s1)
           | (Inr txt, s1) \<Rightarrow>
               (case file_Create E outFile s1 of
                  (Inl err, s2) \<Rightarrow> (Failed (Err (''error writing '' @ [CHR 0x27] @ ''a'' @ [CHR 0x27])), s2)
                | (Inr u, s2) \<Rightarrow>
                    (case sourceLoop E (scan_lines txt) s2 of
                       (Failed e, s3) \<Rightarrow> (Failed e, s3)
                     | (res, s3) \<Rightarrow> deferredCloses E inFile outFile res s3)))
      | _ \<Rightarrow> (Failed (Err ''Usage''), s))"

section \<open>Lemmas\<close>

lemma upToLast_sound: "upToLast endTag s = Some t \<Longrightarrow> \<exists>b. s = t @ endTag @ b"
proof (induction s arbitrary: t)
  case (Cons c cs)
  then show ?case by (auto simp: HasPrefix_iff split: option.splits if_splits)
qed (auto split: if_splits)

text \<open>What the regular expression finds stands between the sentence and an end tag, on one line.\<close>

lemma findDir_sound:
  "findDir start endTag s = Some d \<Longrightarrow> \<exists>a b. s = a @ start @ d @ endTag @ b \<and> CHR 0x0A \<notin> set d"
proof (induction s)
  case (Cons c cs)
  show ?case
  proof (cases "HasPrefix (c # cs) start \<and>
      upToLast endTag (takeWhile (\<lambda>d. d \<noteq> CHR 0x0A) (drop (length start) (c # cs))) = Some d")
    case True
    then obtain b r where b: "takeWhile (\<lambda>d. d \<noteq> CHR 0x0A) (drop (length start) (c # cs)) = d @ endTag @ b" "c # cs = start @ r"
      using upToLast_sound by (metis HasPrefix_iff)
    then have "CHR 0x0A \<notin> set d" by (metis (mono_tags, lifting) UnI1 set_append set_takeWhileD)
    moreover have "r = d @ endTag @ b @ dropWhile (\<lambda>d. d \<noteq> CHR 0x0A) r"
      using b takeWhile_dropWhile_id [of "\<lambda>d. d \<noteq> CHR 0x0A" r] by simp
    ultimately show ?thesis using b(2) by (metis append_Nil)
  next
    case False
    then have "findDir start endTag cs = Some d" using Cons.prems by (auto split: if_splits option.splits)
    then show ?thesis using Cons.IH by (metis append_Cons)
  qed
qed simp

text \<open>A web that gives the same answer whenever it is asked.\<close>

definition steady :: "'s url_env \<Rightarrow> (string \<Rightarrow> (int \<times> string) result) \<Rightarrow> bool" where
  "steady E web \<longleftrightarrow> (\<forall>url s. http_Get E url s = (web url, s))"

definition answers :: "(string \<Rightarrow> (int \<times> string) result) \<Rightarrow> string \<Rightarrow> bool" where
  "answers web url \<longleftrightarrow> (\<exists>body. web url = Inr (200, body))"

lemma isURLValid_steady: "steady E web \<Longrightarrow> isURLValid E url s = (answers web url, s)"
  by (auto simp: isURLValid_def steady_def answers_def split: sum.splits prod.splits)

lemma findValidLoop_steady:
  "steady E web \<Longrightarrow> findValidLoop E pre sufs s =
     (case find (\<lambda>x. answers web (pre @ x)) sufs of None \<Rightarrow> INVALIDURL | Some x \<Rightarrow> pre @ x, s)"
  by (induction sufs) (simp_all add: isURLValid_steady)

text \<open>The line for a package: the first archive file that answers; without one, the file its page names.\<close>

definition published :: "(string \<Rightarrow> (int \<times> string) result) \<Rightarrow> string \<Rightarrow> string \<Rightarrow> bool" where
  "published web line out \<longleftrightarrow>
     (\<exists>b v rest category url. Split line (CHR '','') = b # v # rest \<and> getCategory (cleanupBinaryName b) = Some category \<and>
        out = cleanupBinaryName b @ '','' @ cleanupVersion v @ '','' @ url \<and>
        (let pre = ''http://archive.ubuntu.com/ubuntu/pool/main/'' @ category @ ''/'' @ cleanupBinaryName b @ ''/'' @
               cleanupBinaryName b @ ''_'' @ cleanupVersion v;
             page = ''https://packages.ubuntu.com/xenial/amd64/'' @ cleanupBinaryName b @ ''/download''
         in case find (\<lambda>x. answers web (pre @ x)) FILESUFFIXES of
              Some x \<Rightarrow> url = pre @ x
            | None \<Rightarrow> (\<exists>status html. web page = Inr (status, html) \<and>
                (if status = 200 then \<exists>dir. downloadDir html = Some dir \<and> url = ''http://archive.ubuntu.com/ubuntu/'' @ dir
                 else url = INVALIDURL))))"

lemma sourceLine_published:
  assumes "steady E web" "sourceLine E line s = (Value out, s')"
  shows "published web line out \<and> s' = s"
proof -
  obtain b v rest where line: "Split line (CHR '','') = b # v # rest"
    using assms(2) by (auto simp: sourceLine_def split: list.splits)
  obtain category where cat: "getCategory (cleanupBinaryName b) = Some category"
    using assms(2) line by (auto simp: sourceLine_def Let_def split: option.splits)
  let ?n = "cleanupBinaryName b" and ?v = "cleanupVersion v"
  let ?pre = "''http://archive.ubuntu.com/ubuntu/pool/main/'' @ category @ ''/'' @ ?n @ ''/'' @ ?n @ ''_'' @ ?v"
  let ?page = "''https://packages.ubuntu.com/xenial/amd64/'' @ ?n @ ''/download''"
  note run = assms(2) [unfolded sourceLine_def line list.case Let_def cat option.case findValidURL_def findValidLoop_steady [OF assms(1)] prod.case]
  show ?thesis
  proof (cases "find (\<lambda>x. answers web (?pre @ x)) FILESUFFIXES")
    case (Some x)
    then show ?thesis using run line cat by (auto simp: published_def INVALIDURL_def)
  next
    case None
    have "http_Get E ?page s = (web ?page, s)" using assms(1) unfolding steady_def by blast
    then show ?thesis
      using run line cat None
      by (auto simp: published_def getOtherWorkingURL_def split: sum.splits prod.splits if_splits option.splits)
  qed
qed

text \<open>What is flushed is added to the output; reading, creating and closing are not writes.\<close>

definition output_laws :: "'s url_env \<Rightarrow> ('s \<Rightarrow> string) \<Rightarrow> bool" where
  "output_laws E view \<longleftrightarrow>
     (\<forall>txt s s1. file_Flush E txt s = (Inr (), s1) \<longrightarrow> view s1 = view s @ txt) \<and>
     (\<forall>f s r s1. file_Create E f s = (Inr r, s1) \<longrightarrow> view s1 = []) \<and>
     (\<forall>f s r s1. file_Close E f s = (r, s1) \<longrightarrow> view s1 = view s)"

lemma sourceLoop_writes:
  assumes "steady E web" "output_laws E view"
  shows "sourceLoop E ls s = (Value (), s') \<Longrightarrow>
    \<exists>outs. list_all2 (published web) ls outs \<and> view s' = view s @ concat (map (\<lambda>l. l @ [CHR 0x0A]) outs)"
proof (induction ls arbitrary: s)
  case (Cons l ls)
  obtain out s1 s2 where l: "sourceLine E l s = (Value out, s1)" "file_Flush E (out @ [CHR 0x0A]) s1 = (Inr (), s2)"
    and rest: "sourceLoop E ls s2 = (Value (), s')"
    using Cons.prems by (auto split: prod.splits outcome.splits sum.splits)
  have p: "published web l out" "s1 = s" using sourceLine_published [OF assms(1) l(1)] by auto
  have "view s2 = view s @ out @ [CHR 0x0A]" using assms(2) l(2) p(2) unfolding output_laws_def by blast
  moreover obtain outs where "list_all2 (published web) ls outs" "view s' = view s2 @ concat (map (\<lambda>l. l @ [CHR 0x0A]) outs)"
    using Cons.IH [OF rest] by blast
  ultimately show ?case using p(1) by (intro exI [of _ "out # outs"]) simp
qed simp

text \<open>A run that ends well has written one line for each line of the input, in order, each with the first
  archive file that answers for its package or, without one, the file the page of the package names.\<close>

theorem source_urls_written:
  assumes "steady E web" "output_laws E view" "file_Read E inFile s = (Inr txt, s1)"
    and "source_url_main E [prog, inFile, outFile] s = (Value (), s')"
  shows "\<exists>outs. list_all2 (published web) (scan_lines txt) outs \<and> view s' = concat (map (\<lambda>l. l @ [CHR 0x0A]) outs)"
proof -
  obtain s2 where cr: "file_Create E outFile s1 = (Inr (), s2)"
    using assms(3,4) by (auto simp: source_url_main_def split: prod.splits sum.splits)
  obtain s3 where loop: "sourceLoop E (scan_lines txt) s2 = (Value (), s3)"
    and close: "deferredCloses E inFile outFile (Value ()) s3 = (Value (), s')"
    using assms(3,4) cr by (auto simp: source_url_main_def deferredCloses_def split: prod.splits sum.splits outcome.splits)
  have "view s2 = []" using assms(2) cr unfolding output_laws_def by blast
  moreover have "view s' = view s3"
    using close assms(2) by (auto simp: deferredCloses_def output_laws_def split: prod.splits sum.splits)
  ultimately show ?thesis using sourceLoop_writes [OF assms(1,2) loop] by auto
qed

text \<open>A web with one archive file and one package page, and files in memory.\<close>

definition demo_web :: "string \<Rightarrow> (int \<times> string) result" where
  "demo_web url =
     (if url = ''http://archive.ubuntu.com/ubuntu/pool/main/libx/libxml2/libxml2_2.9.tar.xz'' then Inr (200, [])
      else if url = ''https://packages.ubuntu.com/xenial/amd64/bash/download''
      then Inr (200, ''You can download the requested file from the <tt>pool/bash.deb</tt> on'')
      else Inr (404, []))"

definition demo_urls :: "string url_env" where
  "demo_urls = \<lparr>http_Get = (\<lambda>url s. (demo_web url, s)),
     file_Read = (\<lambda>f s. (Inr (''libxml2:amd64,1:2.9.'' @ [CHR 0x0A] @ ''bash,4.3'' @ [CHR 0x0A]), s)),
     file_Create = (\<lambda>f s. (Inr (), [])), file_Flush = (\<lambda>txt s. (Inr (), s @ txt)), file_Close = (\<lambda>f s. (Inr (), s))\<rparr>"

lemma demo_urls_run: "source_url_main demo_urls [''prog'', ''in'', ''out''] [] = (Value (),
     ''libxml2,2.9,http://archive.ubuntu.com/ubuntu/pool/main/libx/libxml2/libxml2_2.9.tar.xz'' @ [CHR 0x0A] @
     ''bash,4.3,http://archive.ubuntu.com/ubuntu/pool/bash.deb'' @ [CHR 0x0A])"
  by code_simp

theorem source_urls_written_witness:
  "\<exists>outs txt. file_Read demo_urls ''in'' [] = (Inr txt, []) \<and> list_all2 (published demo_web) (scan_lines txt) outs \<and> length outs = 2"
proof -
  obtain input where i: "file_Read demo_urls ''in'' [] = (Inr input, [])" "length (scan_lines input) = 2"
    by (simp add: demo_urls_def scan_lines_def)
  have "steady demo_urls demo_web" "output_laws demo_urls id" by (simp_all add: steady_def output_laws_def demo_urls_def)
  from source_urls_written [OF this i(1) demo_urls_run] show ?thesis
    using i by (metis list_all2_lengthD)
qed

text \<open>The inputs on which the tool stops: a package called \<open>lib\<close>, and a line without a comma.\<close>

lemma source_line_panics:
  "sourceLine E ''lib,1.0'' s = (Panicked ''out of range'', s)" "sourceLine E ''bash'' s = (Panicked ''index out of range'', s)"
  by (simp_all add: sourceLine_def cleanupBinaryName_def getCategory_def HasPrefix_def)

end
