(* ===== verification/Go_Memory.thy ===== *)
theory Go_Memory
  imports Main
begin

text \<open>
  A store of Go objects and what it means to copy one deeply: the locale \<open>deep_copier\<close> is the contract of
  a \<open>DeepCopyInto\<close>, with what its users may conclude, and the lemmas after it build copiers of structs,
  pointers and slices from those of their parts.
\<close>

section \<open>The store\<close>

text \<open>The objects live at the addresses below \<open>lim\<close>.\<close>

record 'o mem =
  lim :: nat
  cell :: "nat \<Rightarrow> 'o"

text \<open>Nothing that was allocated in \<open>s\<close> differs in \<open>s'\<close>.\<close>

definition grows :: "'o mem \<Rightarrow> 'o mem \<Rightarrow> bool" where
  "grows s s' \<longleftrightarrow> lim s \<le> lim s' \<and> (\<forall>a < lim s. cell s' a = cell s a)"

definition same_on :: "nat set \<Rightarrow> 'o mem \<Rightarrow> 'o mem \<Rightarrow> bool" where
  "same_on A s s' \<longleftrightarrow> (\<forall>a\<in>A. cell s' a = cell s a)"

text \<open>\<open>new\<close>: an address is taken, then \<open>fill\<close> makes the value that is written there.\<close>

definition new_cell :: "('a \<Rightarrow> 'o) \<Rightarrow> ('o mem \<Rightarrow> 'a \<times> 'o mem) \<Rightarrow> 'o mem \<Rightarrow> nat \<times> 'o mem" where
  "new_cell mk fill s =
     (let a = lim s;
          (y, s1) = fill (s\<lparr>lim := a + 1\<rparr>)
      in (a, s1\<lparr>cell := (cell s1)(a := mk y)\<rparr>))"

lemma grows_refl [simp]: "grows s s"
  by (simp add: grows_def)

lemma grows_trans: "grows s t \<Longrightarrow> grows t u \<Longrightarrow> grows s u"
  by (simp add: grows_def)

lemma grows_same: "grows s s' \<Longrightarrow> A \<subseteq> {..<lim s} \<Longrightarrow> same_on A s s'"
  by (auto simp: grows_def same_on_def)

lemma within_wider: "A \<subseteq> {l..<m} \<Longrightarrow> k \<le> l \<Longrightarrow> m \<le> n \<Longrightarrow> A \<subseteq> {k..<n :: nat}"
  by force

text \<open>
  Package \<open>heapvalue\<close>: its six functions return the address of their argument's copy; \<open>mk\<close> is the
  kind of object the type makes (\<open>NewInt32\<close>, \<open>NewString\<close> and so on).
\<close>

definition NewHeapValue :: "('a \<Rightarrow> 'o) \<Rightarrow> 'a \<Rightarrow> 'o mem \<Rightarrow> nat \<times> 'o mem" where
  "NewHeapValue mk v = new_cell mk (Pair v)"

lemma NewHeapValue_fresh:
  assumes "NewHeapValue mk v s = (p, s')"
  shows "cell s' p = mk v" "lim s \<le> p" "p < lim s'" "grows s s'"
  using assms by (auto simp: NewHeapValue_def new_cell_def Let_def grows_def)

text \<open>Two values never share a cell: what is written through one pointer is not seen through the other.\<close>

lemma NewHeapValue_distinct:
  assumes "NewHeapValue mk v s = (p, s1)" "grows s1 s2" "NewHeapValue mk' v' s2 = (p', s3)"
  shows "p \<noteq> p'" "cell (s3\<lparr>cell := (cell s3)(p' := x)\<rparr>) p = mk v"
proof -
  note first = NewHeapValue_fresh [OF assms(1)] and second = NewHeapValue_fresh [OF assms(3)]
  have "p < lim s2" using first(3) assms(2) by (simp add: grows_def)
  then show "p \<noteq> p'" using second(2) by simp
  then show "cell (s3\<lparr>cell := (cell s3)(p' := x)\<rparr>) p = mk v"
    using first(1,3) assms(2) second(4) \<open>p < lim s2\<close> by (simp add: grows_def)
qed

section \<open>Deep copies\<close>

text \<open>
  \<open>view s x\<close> is the value that the representation \<open>x\<close> has in the store \<open>s\<close>, \<open>reach s x\<close> the addresses it
  depends on. A deep copy has the same value, lies in new addresses and changes no old one.
\<close>

locale deep_copier =
  fixes copy :: "'a \<Rightarrow> 'o mem \<Rightarrow> 'a \<times> 'o mem"
    and reach :: "'o mem \<Rightarrow> 'a \<Rightarrow> nat set"
    and view :: "'o mem \<Rightarrow> 'a \<Rightarrow> 'v"
  assumes copy_keeps: "copy x s = (y, s') \<Longrightarrow> grows s s'"
    and copy_fresh: "copy x s = (y, s') \<Longrightarrow> reach s' y \<subseteq> {lim s..<lim s'}"
    and copy_view: "copy x s = (y, s') \<Longrightarrow> reach s x \<subseteq> {..<lim s} \<Longrightarrow> view s' y = view s x"
    and local_reach: "same_on (reach s x) s s' \<Longrightarrow> reach s' x = reach s x"
    and local_view: "same_on (reach s x) s s' \<Longrightarrow> view s' x = view s x"
begin

lemma original_kept:
  assumes "copy x s = (y, s')" "reach s z \<subseteq> {..<lim s}"
  shows "view s' z = view s z" "reach s' z = reach s z"
proof -
  have "same_on (reach s z) s s'" by (rule grows_same [OF copy_keeps [OF assms(1)] assms(2)])
  then show "view s' z = view s z" "reach s' z = reach s z" by (rule local_view, rule local_reach)
qed

lemma copy_stays:
  assumes "copy x s = (y, s')" "grows s' s''"
  shows "reach s'' y = reach s' y" "view s'' y = view s' y"
proof -
  have "reach s' y \<subseteq> {..<lim s'}" using copy_fresh [OF assms(1)] by auto
  then have "same_on (reach s' y) s' s''" by (rule grows_same [OF assms(2)])
  then show "reach s'' y = reach s' y" "view s'' y = view s' y" by (rule local_reach, rule local_view)
qed

text \<open>Writes through the copy are not seen through anything older, nor the other way round.\<close>

lemma copy_independent:
  assumes "copy x s = (y, s')" "reach s z \<subseteq> {..<lim s}" "same_on (- reach s' y) s' s''"
  shows "view s'' z = view s z"
proof -
  have "reach s' z \<inter> reach s' y = {}"
    using original_kept(2) [OF assms(1,2)] copy_fresh [OF assms(1)] assms(2) by fastforce
  then have "same_on (reach s' z) s' s''" using assms(3) by (auto simp: same_on_def)
  then have "view s'' z = view s' z" by (rule local_view)
  then show ?thesis using original_kept(1) [OF assms(1,2)] by simp
qed

lemma original_independent:
  assumes "copy x s = (y, s')" "reach s x \<subseteq> {..<lim s}" "same_on {lim s..<lim s'} s' s''"
  shows "view s'' y = view s x"
proof -
  have "same_on (reach s' y) s' s''" using assms(3) copy_fresh [OF assms(1)] by (auto simp: same_on_def)
  then have "view s'' y = view s' y" by (rule local_view)
  then show ?thesis using copy_view [OF assms(1,2)] by simp
qed

lemma independent:
  assumes "copy x s = (y, s')" "reach s x \<subseteq> {..<lim s}"
  shows "view s' y = view s x \<and> reach s' y \<inter> {..<lim s} = {} \<and> (\<forall>a < lim s. cell s' a = cell s a) \<and>
    (\<forall>s''. same_on (- reach s' y) s' s'' \<longrightarrow> view s'' x = view s x) \<and>
    (\<forall>s''. same_on {lim s..<lim s'} s' s'' \<longrightarrow> view s'' y = view s x)"
  using copy_view [OF assms] copy_fresh [OF assms(1)] copy_keeps [OF assms(1)] copy_independent [OF assms(1,2)]
    original_independent [OF assms] by (auto simp: grows_def)

end

subsection \<open>Plain values\<close>

definition copy_plain :: "'a \<Rightarrow> 'o mem \<Rightarrow> 'a \<times> 'o mem" where
  "copy_plain x s = (x, s)"

definition no_reach :: "'o mem \<Rightarrow> 'a \<Rightarrow> nat set" where
  "no_reach s x = {}"

lemma deep_copier_plain: "deep_copier copy_plain no_reach (\<lambda>s. f)"
  by unfold_locales (auto simp: copy_plain_def no_reach_def)

subsection \<open>Two parts\<close>

definition copy_pair ::
  "('a \<Rightarrow> 'o mem \<Rightarrow> 'a \<times> 'o mem) \<Rightarrow> ('b \<Rightarrow> 'o mem \<Rightarrow> 'b \<times> 'o mem) \<Rightarrow> 'a \<times> 'b \<Rightarrow> 'o mem \<Rightarrow> ('a \<times> 'b) \<times> 'o mem"
where
  "copy_pair c d p s = (let (x, s1) = c (fst p) s; (y, s2) = d (snd p) s1 in ((x, y), s2))"

definition reach_pair ::
  "('o mem \<Rightarrow> 'a \<Rightarrow> nat set) \<Rightarrow> ('o mem \<Rightarrow> 'b \<Rightarrow> nat set) \<Rightarrow> 'o mem \<Rightarrow> 'a \<times> 'b \<Rightarrow> nat set"
where
  "reach_pair r q s p = r s (fst p) \<union> q s (snd p)"

lemma deep_copier_pair:
  assumes c: "deep_copier c r v" and d: "deep_copier d q u"
  shows "deep_copier (copy_pair c d) (reach_pair r q) (\<lambda>s p. (v s (fst p), u s (snd p)))"
proof
  fix p s p' s' assume "copy_pair c d p s = (p', s')"
  then obtain x s1 y where 1: "c (fst p) s = (x, s1)" "d (snd p) s1 = (y, s')" "p' = (x, y)"
    by (auto simp: copy_pair_def Let_def split: prod.splits)
  note keeps = deep_copier.copy_keeps [OF c 1(1)] deep_copier.copy_keeps [OF d 1(2)]
  note fresh = deep_copier.copy_fresh [OF c 1(1)] deep_copier.copy_fresh [OF d 1(2)]
  show "grows s s'" using keeps by (rule grows_trans)
  note x' = deep_copier.copy_stays [OF c 1(1) keeps(2)]
  have le: "lim s \<le> lim s1" "lim s1 \<le> lim s'" using keeps by (simp_all add: grows_def)
  have "r s' x \<subseteq> {lim s..<lim s'}" unfolding x'(1) by (rule within_wider [OF fresh(1) order_refl le(2)])
  moreover have "q s' y \<subseteq> {lim s..<lim s'}" by (rule within_wider [OF fresh(2) le(1) order_refl])
  ultimately show "reach_pair r q s' p' \<subseteq> {lim s..<lim s'}" using 1(3) by (simp add: reach_pair_def)
  assume alloc: "reach_pair r q s p \<subseteq> {..<lim s}"
  then have y: "same_on (q s (snd p)) s s1" using grows_same [OF keeps(1)] by (simp add: reach_pair_def)
  have "q s1 (snd p) \<subseteq> {..<lim s1}"
    using deep_copier.local_reach [OF d y] alloc keeps(1) by (auto simp: reach_pair_def grows_def)
  then have "u s' y = u s (snd p)" using deep_copier.copy_view [OF d 1(2)] deep_copier.local_view [OF d y] by simp
  moreover have "v s' x = v s (fst p)"
    using deep_copier.copy_view [OF c 1(1)] x'(2) alloc by (simp add: reach_pair_def)
  ultimately show "(v s' (fst p'), u s' (snd p')) = (v s (fst p), u s (snd p))" using 1(3) by simp
next
  fix s p and s' :: "'b mem" assume "same_on (reach_pair r q s p) s s'"
  then have s: "same_on (r s (fst p)) s s'" "same_on (q s (snd p)) s s'" by (auto simp: reach_pair_def same_on_def)
  show "reach_pair r q s' p = reach_pair r q s p"
    using deep_copier.local_reach [OF c s(1)] deep_copier.local_reach [OF d s(2)] by (simp add: reach_pair_def)
  show "(v s' (fst p), u s' (snd p)) = (v s (fst p), u s (snd p))"
    using deep_copier.local_view [OF c s(1)] deep_copier.local_view [OF d s(2)] by simp
qed

subsection \<open>Structs\<close>

text \<open>A struct is copied like the tuple of its fields: \<open>out\<close> takes it apart, \<open>build\<close> makes it from the copies.\<close>

lemma deep_copier_struct:
  assumes c: "deep_copier c r v"
    and build: "\<And>x s. copy x s = (case c (out x) s of (t, s') \<Rightarrow> (build x t, s'))" "\<And>x t. out (build x t) = t"
    and reach: "\<And>s x. reach s x = r s (out x)"
    and view: "\<And>s x. view s x = f (g x) (v s (out x))" "\<And>x t. g (build x t) = g x"
  shows "deep_copier copy reach view"
proof
  fix x s y s' assume "copy x s = (y, s')"
  then obtain t where t: "c (out x) s = (t, s')" "y = build x t" by (auto simp: build(1) split: prod.splits)
  show "grows s s'" using deep_copier.copy_keeps [OF c t(1)] .
  show "reach s' y \<subseteq> {lim s..<lim s'}" using deep_copier.copy_fresh [OF c t(1)] t(2) build(2) reach by simp
  assume "reach s x \<subseteq> {..<lim s}"
  then show "view s' y = view s x" using deep_copier.copy_view [OF c t(1)] t(2) build(2) view reach by simp
next
  fix s x and s' :: "'b mem" assume "same_on (reach s x) s s'"
  then have s: "same_on (r s (out x)) s s'" by (simp add: reach)
  show "reach s' x = reach s x" using deep_copier.local_reach [OF c s] by (simp add: reach)
  show "view s' x = view s x" using deep_copier.local_view [OF c s] view(1) by simp
qed

subsection \<open>Pointers\<close>

text \<open>A nil pointer is \<open>None\<close>; \<open>un\<close> reads the object of the pointer's type out of a cell.\<close>

definition copy_ptr ::
  "('a \<Rightarrow> 'o) \<Rightarrow> ('o \<Rightarrow> 'a) \<Rightarrow> ('a \<Rightarrow> 'o mem \<Rightarrow> 'a \<times> 'o mem) \<Rightarrow> nat option \<Rightarrow> 'o mem \<Rightarrow> nat option \<times> 'o mem"
where
  "copy_ptr mk un c p s =
     (case p of
        None \<Rightarrow> (None, s)
      | Some a \<Rightarrow> (case new_cell mk (c (un (cell s a))) s of (b, s') \<Rightarrow> (Some b, s')))"

definition reach_ptr :: "('o \<Rightarrow> 'a) \<Rightarrow> ('o mem \<Rightarrow> 'a \<Rightarrow> nat set) \<Rightarrow> 'o mem \<Rightarrow> nat option \<Rightarrow> nat set" where
  "reach_ptr un r s p = (case p of None \<Rightarrow> {} | Some a \<Rightarrow> insert a (r s (un (cell s a))))"

definition view_ptr :: "('o \<Rightarrow> 'a) \<Rightarrow> ('o mem \<Rightarrow> 'a \<Rightarrow> 'v) \<Rightarrow> 'o mem \<Rightarrow> nat option \<Rightarrow> 'v option" where
  "view_ptr un v s p = map_option (\<lambda>a. v s (un (cell s a))) p"

lemma deep_copier_ptr:
  fixes mk :: "'a \<Rightarrow> 'o"
  assumes c: "deep_copier c r v" and un: "\<And>x. un (mk x) = x"
  shows "deep_copier (copy_ptr mk un c) (reach_ptr un r) (view_ptr un v)"
proof
  fix p s q s' assume copy: "copy_ptr mk un c p s = (q, s')"
  have "grows s s' \<and> reach_ptr un r s' q \<subseteq> {lim s..<lim s'} \<and>
    (reach_ptr un r s p \<subseteq> {..<lim s} \<longrightarrow> view_ptr un v s' q = view_ptr un v s p)"
  proof (cases p)
    case None
    then show ?thesis using copy by (simp add: copy_ptr_def reach_ptr_def view_ptr_def)
  next
    case (Some a)
    let ?x = "un (cell s a)" and ?s0 = "s\<lparr>lim := lim s + 1\<rparr>"
    obtain y s1 where c1: "c ?x ?s0 = (y, s1)" and q: "q = Some (lim s)" "s' = s1\<lparr>cell := (cell s1)(lim s := mk y)\<rparr>"
      using copy Some by (auto simp: copy_ptr_def new_cell_def Let_def split: prod.splits)
    note keeps = deep_copier.copy_keeps [OF c c1] and fresh = deep_copier.copy_fresh [OF c c1]
    have y: "same_on (r s1 y) s1 s'" using fresh q(2) by (auto simp: same_on_def)
    note y' = deep_copier.local_reach [OF c y] deep_copier.local_view [OF c y]
    have "grows s s'" using keeps q(2) by (auto simp: grows_def)
    moreover have "reach_ptr un r s' q \<subseteq> {lim s..<lim s'}"
      using fresh keeps y'(1) q un by (auto simp: reach_ptr_def grows_def)
    moreover have "v s' y = v s ?x" if "reach_ptr un r s p \<subseteq> {..<lim s}"
    proof -
      have x: "same_on (r s ?x) s ?s0" by (simp add: same_on_def)
      note x' = deep_copier.local_reach [OF c x] deep_copier.local_view [OF c x]
      have "r ?s0 ?x \<subseteq> {..<lim ?s0}" using that Some x'(1) by (fastforce simp: reach_ptr_def)
      then show ?thesis using deep_copier.copy_view [OF c c1] x'(2) y'(2) by simp
    qed
    ultimately show ?thesis using Some q un by (simp add: view_ptr_def)
  qed
  then show "grows s s'" "reach_ptr un r s' q \<subseteq> {lim s..<lim s'}"
    "reach_ptr un r s p \<subseteq> {..<lim s} \<Longrightarrow> view_ptr un v s' q = view_ptr un v s p" by blast+
next
  fix s p and s' :: "'o mem" assume s: "same_on (reach_ptr un r s p) s s'"
  show "reach_ptr un r s' p = reach_ptr un r s p" "view_ptr un v s' p = view_ptr un v s p"
    using s deep_copier.local_reach [OF c, of s _ s'] deep_copier.local_view [OF c, of s _ s']
    by (auto simp: reach_ptr_def view_ptr_def same_on_def split: option.splits)
qed

subsection \<open>The elements of a slice\<close>

fun copy_items :: "('a \<Rightarrow> 'o mem \<Rightarrow> 'a \<times> 'o mem) \<Rightarrow> 'a list \<Rightarrow> 'o mem \<Rightarrow> 'a list \<times> 'o mem" where
  "copy_items c [] s = ([], s)"
| "copy_items c (x # xs) s = (let (y, s1) = c x s; (ys, s2) = copy_items c xs s1 in (y # ys, s2))"

definition reach_items :: "('o mem \<Rightarrow> 'a \<Rightarrow> nat set) \<Rightarrow> 'o mem \<Rightarrow> 'a list \<Rightarrow> nat set" where
  "reach_items r s xs = (\<Union>x\<in>set xs. r s x)"

lemma deep_copier_items:
  assumes c: "deep_copier c r v"
  shows "deep_copier (copy_items c) (reach_items r) (\<lambda>s. map (v s))"
proof
  fix xs s ys s' assume copy: "copy_items c xs s = (ys, s')"
  have "grows s s' \<and> reach_items r s' ys \<subseteq> {lim s..<lim s'} \<and>
    (reach_items r s xs \<subseteq> {..<lim s} \<longrightarrow> map (v s') ys = map (v s) xs)"
    using copy
  proof (induction xs arbitrary: s ys)
    case (Cons x xs)
    obtain y s1 zs where 1: "c x s = (y, s1)" "copy_items c xs s1 = (zs, s')" "ys = y # zs"
      using Cons.prems by (auto simp: Let_def split: prod.splits)
    note keeps = deep_copier.copy_keeps [OF c 1(1)] and fresh = deep_copier.copy_fresh [OF c 1(1)]
    note ih = Cons.IH [OF 1(2)]
    note y' = deep_copier.copy_stays [OF c 1(1) ih [THEN conjunct1]]
    have "map (v s') ys = map (v s) (x # xs)" if alloc: "reach_items r s (x # xs) \<subseteq> {..<lim s}"
    proof -
      have z: "same_on (r s z) s s1" "r s z \<subseteq> {..<lim s}" if "z \<in> set xs" for z
        using grows_same [OF keeps, of "r s z"] alloc that by (auto simp: reach_items_def)
      have "reach_items r s1 xs \<subseteq> {..<lim s1}"
        using z deep_copier.local_reach [OF c z(1)] keeps by (fastforce simp: reach_items_def grows_def)
      then have "map (v s') zs = map (v s) xs"
        using ih deep_copier.local_view [OF c z(1)] by simp
      moreover have "v s' y = v s x"
        using deep_copier.copy_view [OF c 1(1)] y'(2) alloc by (simp add: reach_items_def)
      ultimately show ?thesis using 1(3) by simp
    qed
    moreover have "reach_items r s' ys \<subseteq> {lim s..<lim s'}"
    proof -
      have le: "lim s \<le> lim s1" "lim s1 \<le> lim s'" using keeps ih by (simp_all add: grows_def)
      have "r s' y \<subseteq> {lim s..<lim s'}" unfolding y'(1) by (rule within_wider [OF fresh order_refl le(2)])
      moreover have "reach_items r s' zs \<subseteq> {lim s..<lim s'}"
        using ih by (intro within_wider [OF _ le(1) order_refl]) blast
      ultimately show ?thesis using 1(3) by (simp add: reach_items_def)
    qed
    ultimately show ?case using grows_trans [OF keeps] ih by blast
  qed (simp add: reach_items_def)
  then show "grows s s'" "reach_items r s' ys \<subseteq> {lim s..<lim s'}"
    "reach_items r s xs \<subseteq> {..<lim s} \<Longrightarrow> map (v s') ys = map (v s) xs" by blast+
next
  fix s xs and s' :: "'b mem" assume "same_on (reach_items r s xs) s s'"
  then have z: "same_on (r s z) s s'" if "z \<in> set xs" for z using that by (auto simp: reach_items_def same_on_def)
  show "reach_items r s' xs = reach_items r s xs"
    using deep_copier.local_reach [OF c z] by (simp add: reach_items_def)
  show "map (v s') xs = map (v s) xs" using deep_copier.local_view [OF c z] by simp
qed

end
