(* ===== verification/Deep_Copy.thy ===== *)
theory Deep_Copy
  imports Greenplum_API Go_Memory "HOL-Library.Finite_Map" "HOL-Library.Char_ord" "HOL-Library.List_Lexorder"
begin

text \<open>
  The deep copies of the custom resources (\<open>zz_generated.deepcopy.go\<close> of \<open>api/v1\<close> and \<open>api/v1beta1\<close>), on structs
  that hold addresses of maps, of arrays and of other structs. The rest of the development treats the
  objects as values and a \<open>DeepCopy\<close> as the value itself; here it is shown that it is one: a copy has the
  same value and shares no memory, so the base of a patch does not change with the object it was taken from.
  The copies of \<open>resource.Quantity\<close>, \<open>metav1.ObjectMeta\<close> and \<open>metav1.ListMeta\<close> are parameters.
\<close>

section \<open>Structs in memory\<close>

text \<open>\<open>'q\<close>, \<open>'m\<close> and \<open>'l\<close> are the library's structs; a map, a pointer or a slice is an address or nil.\<close>

record TypeMeta =
  tm_Kind :: string
  tm_APIVersion :: string

record 'q pod_struct =
  x_Memory :: 'q
  x_CPU :: 'q
  x_StorageClassName :: string
  x_Storage :: 'q
  x_WorkerSelector :: "nat option"
  x_AntiAffinity :: string

record 'q master_struct =
  xm_GreenplumPodSpec :: "'q pod_struct"
  x_HostBasedAuthentication :: string
  x_Standby :: string

record 'q segments_struct =
  xs_GreenplumPodSpec :: "'q pod_struct"
  x_PrimarySegmentCount :: int32
  x_Mirrors :: string

record 'q cluster_spec_struct =
  x_MasterAndStandby :: "'q master_struct"
  x_Segments :: "'q segments_struct"
  x_PXF :: GreenplumPXFSpec

record ('q, 'm) cluster_struct =
  x_TypeMeta :: TypeMeta
  x_ObjectMeta :: 'm
  x_Spec :: "'q cluster_spec_struct"
  x_Status :: GreenplumClusterStatus

record 'l list_struct =
  l_TypeMeta :: TypeMeta
  l_ListMeta :: 'l
  l_Items :: "nat option"

record 'q service_spec_struct =
  y_Replicas :: int32
  y_CPU :: 'q
  y_Memory :: 'q
  y_WorkerSelector :: "nat option"
  y_PXFConf :: "nat option"

record ('q, 'm) service_struct =
  y_TypeMeta :: TypeMeta
  y_ObjectMeta :: 'm
  y_Spec :: "'q service_spec_struct"
  y_Status :: GreenplumPXFServicePhase

text \<open>What a cell of the store can hold; \<open>LibObj\<close> are the cells that the library's structs refer to.\<close>

type_synonym gomap = "(string, string) fmap"

datatype ('q, 'm, 'l, 'x) obj =
    LibObj (the_lib: 'x)
  | MapObj (the_map: gomap)
  | PodSpecObj (the_pod: "'q pod_struct")
  | MasterObj (the_master: "'q master_struct")
  | SegmentsObj (the_segments: "'q segments_struct")
  | PXFSpecObj (the_pxfspec: GreenplumPXFSpec)
  | ClusterSpecObj (the_spec: "'q cluster_spec_struct")
  | StatusObj (the_status: GreenplumClusterStatus)
  | ClusterObj (the_cluster: "('q, 'm) cluster_struct")
  | ClusterItems (the_clusters: "('q, 'm) cluster_struct list")
  | ListObj (the_list: "'l list_struct")
  | S3Obj (the_s3: S3Source)
  | ConfObj (the_conf: GreenplumPXFConf)
  | ServiceSpecObj (the_service_spec: "'q service_spec_struct")
  | ServiceStatusObj (the_service_status: GreenplumPXFServicePhase)
  | ServiceObj (the_service: "('q, 'm) service_struct")
  | ServiceItems (the_services: "('q, 'm) service_struct list")

type_synonym ('q, 'm, 'l, 'x) memory = "('q, 'm, 'l, 'x) obj mem"

text \<open>The library: its copies, and the order in which \<open>range\<close> visits a map.\<close>

record ('q, 'm, 'l, 'x) copy_lib =
  q_DeepCopy :: "'q \<Rightarrow> ('q, 'm, 'l, 'x) memory \<Rightarrow> 'q \<times> ('q, 'm, 'l, 'x) memory"
  om_DeepCopyInto :: "'m \<Rightarrow> ('q, 'm, 'l, 'x) memory \<Rightarrow> 'm \<times> ('q, 'm, 'l, 'x) memory"
  lm_DeepCopyInto :: "'l \<Rightarrow> ('q, 'm, 'l, 'x) memory \<Rightarrow> 'l \<times> ('q, 'm, 'l, 'x) memory"
  map_range :: "gomap \<Rightarrow> smap"

section \<open>\<open>DeepCopyInto\<close>\<close>

text \<open>Each takes the struct \<open>*in\<close> and gives the struct that \<open>*out\<close> becomes.\<close>

text \<open>A map: \<open>make\<close>, then one assignment for each pair of the range.\<close>

definition copyEntries :: "('q, 'm, 'l, 'x) copy_lib \<Rightarrow> gomap \<Rightarrow> ('q, 'm, 'l, 'x) memory \<Rightarrow> gomap \<times> ('q, 'm, 'l, 'x) memory" where
  "copyEntries L m s = (fold (\<lambda>(key, val) out. fmupd key val out) (map_range L m) fmempty, s)"

definition copyWorkerSelector ::
  "('q, 'm, 'l, 'x) copy_lib \<Rightarrow> nat option \<Rightarrow> ('q, 'm, 'l, 'x) memory \<Rightarrow> nat option \<times> ('q, 'm, 'l, 'x) memory"
where
  "copyWorkerSelector L inp s =
     (case inp of
        None \<Rightarrow> (None, s)
      | Some a \<Rightarrow> (case new_cell MapObj (copyEntries L (the_map (cell s a))) s of (b, s1) \<Rightarrow> (Some b, s1)))"

definition GreenplumPodSpec_DeepCopyInto ::
  "('q, 'm, 'l, 'x) copy_lib \<Rightarrow> 'q pod_struct \<Rightarrow> ('q, 'm, 'l, 'x) memory \<Rightarrow> 'q pod_struct \<times> ('q, 'm, 'l, 'x) memory"
where
  "GreenplumPodSpec_DeepCopyInto L inp s =
     (let out = inp;
          (memory, s1) = q_DeepCopy L (x_Memory inp) s;
          out = out\<lparr>x_Memory := memory\<rparr>;
          (cpu, s2) = q_DeepCopy L (x_CPU inp) s1;
          out = out\<lparr>x_CPU := cpu\<rparr>;
          (storage, s3) = q_DeepCopy L (x_Storage inp) s2;
          out = out\<lparr>x_Storage := storage\<rparr>;
          (selector, s4) = copyWorkerSelector L (x_WorkerSelector inp) s3
      in (out\<lparr>x_WorkerSelector := selector\<rparr>, s4))"

definition GreenplumMasterAndStandbySpec_DeepCopyInto ::
  "('q, 'm, 'l, 'x) copy_lib \<Rightarrow> 'q master_struct \<Rightarrow> ('q, 'm, 'l, 'x) memory \<Rightarrow> 'q master_struct \<times> ('q, 'm, 'l, 'x) memory"
where
  "GreenplumMasterAndStandbySpec_DeepCopyInto L inp s =
     (let out = inp; (pod, s1) = GreenplumPodSpec_DeepCopyInto L (xm_GreenplumPodSpec inp) s
      in (out\<lparr>xm_GreenplumPodSpec := pod\<rparr>, s1))"

definition GreenplumSegmentsSpec_DeepCopyInto ::
  "('q, 'm, 'l, 'x) copy_lib \<Rightarrow> 'q segments_struct \<Rightarrow> ('q, 'm, 'l, 'x) memory \<Rightarrow> 'q segments_struct \<times> ('q, 'm, 'l, 'x) memory"
where
  "GreenplumSegmentsSpec_DeepCopyInto L inp s =
     (let out = inp; (pod, s1) = GreenplumPodSpec_DeepCopyInto L (xs_GreenplumPodSpec inp) s
      in (out\<lparr>xs_GreenplumPodSpec := pod\<rparr>, s1))"

definition GreenplumPXFSpec_DeepCopyInto :: "GreenplumPXFSpec \<Rightarrow> 'o mem \<Rightarrow> GreenplumPXFSpec \<times> 'o mem" where
  "GreenplumPXFSpec_DeepCopyInto inp s = (let out = inp in (out, s))"

definition GreenplumClusterStatus_DeepCopyInto :: "GreenplumClusterStatus \<Rightarrow> 'o mem \<Rightarrow> GreenplumClusterStatus \<times> 'o mem" where
  "GreenplumClusterStatus_DeepCopyInto inp s = (let out = inp in (out, s))"

definition GreenplumClusterSpec_DeepCopyInto ::
  "('q, 'm, 'l, 'x) copy_lib \<Rightarrow> 'q cluster_spec_struct \<Rightarrow> ('q, 'm, 'l, 'x) memory \<Rightarrow> 'q cluster_spec_struct \<times> ('q, 'm, 'l, 'x) memory"
where
  "GreenplumClusterSpec_DeepCopyInto L inp s =
     (let out = inp;
          (master, s1) = GreenplumMasterAndStandbySpec_DeepCopyInto L (x_MasterAndStandby inp) s;
          out = out\<lparr>x_MasterAndStandby := master\<rparr>;
          (segments, s2) = GreenplumSegmentsSpec_DeepCopyInto L (x_Segments inp) s1;
          out = out\<lparr>x_Segments := segments\<rparr>
      in (out\<lparr>x_PXF := x_PXF inp\<rparr>, s2))"

definition GreenplumCluster_DeepCopyInto ::
  "('q, 'm, 'l, 'x) copy_lib \<Rightarrow> ('q, 'm) cluster_struct \<Rightarrow> ('q, 'm, 'l, 'x) memory \<Rightarrow> ('q, 'm) cluster_struct \<times> ('q, 'm, 'l, 'x) memory"
where
  "GreenplumCluster_DeepCopyInto L inp s =
     (let out = inp;
          out = out\<lparr>x_TypeMeta := x_TypeMeta inp\<rparr>;
          (meta, s1) = om_DeepCopyInto L (x_ObjectMeta inp) s;
          out = out\<lparr>x_ObjectMeta := meta\<rparr>;
          (spec, s2) = GreenplumClusterSpec_DeepCopyInto L (x_Spec inp) s1;
          out = out\<lparr>x_Spec := spec\<rparr>
      in (out\<lparr>x_Status := x_Status inp\<rparr>, s2))"

text \<open>The items of a list: nil, or a new array and the copies of the elements one after another.\<close>

definition copySlice ::
  "('a list \<Rightarrow> 'o) \<Rightarrow> ('o \<Rightarrow> 'a list) \<Rightarrow> ('a \<Rightarrow> 'o mem \<Rightarrow> 'a \<times> 'o mem) \<Rightarrow> nat option \<Rightarrow> 'o mem \<Rightarrow> nat option \<times> 'o mem"
where
  "copySlice mk un into inp s =
     (case inp of
        None \<Rightarrow> (None, s)
      | Some a \<Rightarrow> (case new_cell mk (copy_items into (un (cell s a))) s of (b, s1) \<Rightarrow> (Some b, s1)))"

definition GreenplumClusterList_DeepCopyInto ::
  "('q, 'm, 'l, 'x) copy_lib \<Rightarrow> 'l list_struct \<Rightarrow> ('q, 'm, 'l, 'x) memory \<Rightarrow> 'l list_struct \<times> ('q, 'm, 'l, 'x) memory"
where
  "GreenplumClusterList_DeepCopyInto L inp s =
     (let out = inp;
          out = out\<lparr>l_TypeMeta := l_TypeMeta inp\<rparr>;
          (meta, s1) = lm_DeepCopyInto L (l_ListMeta inp) s;
          out = out\<lparr>l_ListMeta := meta\<rparr>;
          (items, s2) = copySlice ClusterItems the_clusters (GreenplumCluster_DeepCopyInto L) (l_Items inp) s1
      in (out\<lparr>l_Items := items\<rparr>, s2))"

text \<open>\<open>api/v1beta1\<close>.\<close>

definition S3Source_DeepCopyInto :: "S3Source \<Rightarrow> 'o mem \<Rightarrow> S3Source \<times> 'o mem" where
  "S3Source_DeepCopyInto inp s = (let out = inp in (out, s))"

definition GreenplumPXFConf_DeepCopyInto :: "GreenplumPXFConf \<Rightarrow> 'o mem \<Rightarrow> GreenplumPXFConf \<times> 'o mem" where
  "GreenplumPXFConf_DeepCopyInto inp s = (let out = inp in (out\<lparr>pxfconf_S3Source := pxfconf_S3Source inp\<rparr>, s))"

definition GreenplumPXFServiceStatus_DeepCopyInto :: "GreenplumPXFServicePhase \<Rightarrow> 'o mem \<Rightarrow> GreenplumPXFServicePhase \<times> 'o mem" where
  "GreenplumPXFServiceStatus_DeepCopyInto inp s = (let out = inp in (out, s))"

text \<open>\<open>**out = **in\<close> copies the struct that the pointer refers to.\<close>

definition copyPXFConf :: "nat option \<Rightarrow> ('q, 'm, 'l, 'x) memory \<Rightarrow> nat option \<times> ('q, 'm, 'l, 'x) memory" where
  "copyPXFConf inp s =
     (case inp of
        None \<Rightarrow> (None, s)
      | Some a \<Rightarrow> (case new_cell ConfObj (\<lambda>s1. (the_conf (cell s a), s1)) s of (b, s1) \<Rightarrow> (Some b, s1)))"

definition GreenplumPXFServiceSpec_DeepCopyInto ::
  "('q, 'm, 'l, 'x) copy_lib \<Rightarrow> 'q service_spec_struct \<Rightarrow> ('q, 'm, 'l, 'x) memory \<Rightarrow> 'q service_spec_struct \<times> ('q, 'm, 'l, 'x) memory"
where
  "GreenplumPXFServiceSpec_DeepCopyInto L inp s =
     (let out = inp;
          (cpu, s1) = q_DeepCopy L (y_CPU inp) s;
          out = out\<lparr>y_CPU := cpu\<rparr>;
          (memory, s2) = q_DeepCopy L (y_Memory inp) s1;
          out = out\<lparr>y_Memory := memory\<rparr>;
          (selector, s3) = copyWorkerSelector L (y_WorkerSelector inp) s2;
          out = out\<lparr>y_WorkerSelector := selector\<rparr>;
          (conf, s4) = copyPXFConf (y_PXFConf inp) s3
      in (out\<lparr>y_PXFConf := conf\<rparr>, s4))"

definition GreenplumPXFService_DeepCopyInto ::
  "('q, 'm, 'l, 'x) copy_lib \<Rightarrow> ('q, 'm) service_struct \<Rightarrow> ('q, 'm, 'l, 'x) memory \<Rightarrow> ('q, 'm) service_struct \<times> ('q, 'm, 'l, 'x) memory"
where
  "GreenplumPXFService_DeepCopyInto L inp s =
     (let out = inp;
          out = out\<lparr>y_TypeMeta := y_TypeMeta inp\<rparr>;
          (meta, s1) = om_DeepCopyInto L (y_ObjectMeta inp) s;
          out = out\<lparr>y_ObjectMeta := meta\<rparr>;
          (spec, s2) = GreenplumPXFServiceSpec_DeepCopyInto L (y_Spec inp) s1;
          out = out\<lparr>y_Spec := spec\<rparr>
      in (out\<lparr>y_Status := y_Status inp\<rparr>, s2))"

definition GreenplumPXFServiceList_DeepCopyInto ::
  "('q, 'm, 'l, 'x) copy_lib \<Rightarrow> 'l list_struct \<Rightarrow> ('q, 'm, 'l, 'x) memory \<Rightarrow> 'l list_struct \<times> ('q, 'm, 'l, 'x) memory"
where
  "GreenplumPXFServiceList_DeepCopyInto L inp s =
     (let out = inp;
          out = out\<lparr>l_TypeMeta := l_TypeMeta inp\<rparr>;
          (meta, s1) = lm_DeepCopyInto L (l_ListMeta inp) s;
          out = out\<lparr>l_ListMeta := meta\<rparr>;
          (items, s2) = copySlice ServiceItems the_services (GreenplumPXFService_DeepCopyInto L) (l_Items inp) s1
      in (out\<lparr>l_Items := items\<rparr>, s2))"

section \<open>\<open>DeepCopy\<close> and \<open>DeepCopyObject\<close>\<close>

text \<open>\<open>if in == nil { return nil }; out := new(T); in.DeepCopyInto(out); return out\<close>, for every type.\<close>

definition DeepCopy ::
  "('a \<Rightarrow> 'o) \<Rightarrow> ('o \<Rightarrow> 'a) \<Rightarrow> ('a \<Rightarrow> 'o mem \<Rightarrow> 'a \<times> 'o mem) \<Rightarrow> nat option \<Rightarrow> 'o mem \<Rightarrow> nat option \<times> 'o mem"
where
  "DeepCopy mk un into inp s =
     (case inp of
        None \<Rightarrow> (None, s)
      | Some a \<Rightarrow> (case new_cell mk (into (un (cell s a))) s of (out, s1) \<Rightarrow> (Some out, s1)))"

definition GreenplumPodSpec_DeepCopy where
  "GreenplumPodSpec_DeepCopy L = DeepCopy PodSpecObj the_pod (GreenplumPodSpec_DeepCopyInto L)"

definition GreenplumMasterAndStandbySpec_DeepCopy where
  "GreenplumMasterAndStandbySpec_DeepCopy L = DeepCopy MasterObj the_master (GreenplumMasterAndStandbySpec_DeepCopyInto L)"

definition GreenplumSegmentsSpec_DeepCopy where
  "GreenplumSegmentsSpec_DeepCopy L = DeepCopy SegmentsObj the_segments (GreenplumSegmentsSpec_DeepCopyInto L)"

definition GreenplumPXFSpec_DeepCopy :: "nat option \<Rightarrow> ('q, 'm, 'l, 'x) memory \<Rightarrow> nat option \<times> ('q, 'm, 'l, 'x) memory" where
  "GreenplumPXFSpec_DeepCopy = DeepCopy PXFSpecObj the_pxfspec GreenplumPXFSpec_DeepCopyInto"

definition GreenplumClusterSpec_DeepCopy where
  "GreenplumClusterSpec_DeepCopy L = DeepCopy ClusterSpecObj the_spec (GreenplumClusterSpec_DeepCopyInto L)"

definition GreenplumClusterStatus_DeepCopy :: "nat option \<Rightarrow> ('q, 'm, 'l, 'x) memory \<Rightarrow> nat option \<times> ('q, 'm, 'l, 'x) memory" where
  "GreenplumClusterStatus_DeepCopy = DeepCopy StatusObj the_status GreenplumClusterStatus_DeepCopyInto"

definition GreenplumCluster_DeepCopy where
  "GreenplumCluster_DeepCopy L = DeepCopy ClusterObj the_cluster (GreenplumCluster_DeepCopyInto L)"

definition GreenplumClusterList_DeepCopy where
  "GreenplumClusterList_DeepCopy L = DeepCopy ListObj the_list (GreenplumClusterList_DeepCopyInto L)"

definition S3Source_DeepCopy :: "nat option \<Rightarrow> ('q, 'm, 'l, 'x) memory \<Rightarrow> nat option \<times> ('q, 'm, 'l, 'x) memory" where
  "S3Source_DeepCopy = DeepCopy S3Obj the_s3 S3Source_DeepCopyInto"

definition GreenplumPXFConf_DeepCopy :: "nat option \<Rightarrow> ('q, 'm, 'l, 'x) memory \<Rightarrow> nat option \<times> ('q, 'm, 'l, 'x) memory" where
  "GreenplumPXFConf_DeepCopy = DeepCopy ConfObj the_conf GreenplumPXFConf_DeepCopyInto"

definition GreenplumPXFServiceSpec_DeepCopy where
  "GreenplumPXFServiceSpec_DeepCopy L = DeepCopy ServiceSpecObj the_service_spec (GreenplumPXFServiceSpec_DeepCopyInto L)"

definition GreenplumPXFServiceStatus_DeepCopy :: "nat option \<Rightarrow> ('q, 'm, 'l, 'x) memory \<Rightarrow> nat option \<times> ('q, 'm, 'l, 'x) memory" where
  "GreenplumPXFServiceStatus_DeepCopy = DeepCopy ServiceStatusObj the_service_status GreenplumPXFServiceStatus_DeepCopyInto"

definition GreenplumPXFService_DeepCopy where
  "GreenplumPXFService_DeepCopy L = DeepCopy ServiceObj the_service (GreenplumPXFService_DeepCopyInto L)"

definition GreenplumPXFServiceList_DeepCopy where
  "GreenplumPXFServiceList_DeepCopy L = DeepCopy ListObj the_list (GreenplumPXFServiceList_DeepCopyInto L)"

text \<open>An interface value: nil, or one of the pointer types with its address.\<close>

datatype runtime_object =
    ClusterPtr nat | ClusterListPtr nat | ServicePtr nat | ServiceListPtr nat

definition asObject :: "(nat \<Rightarrow> runtime_object) \<Rightarrow> nat option \<times> 'o mem \<Rightarrow> runtime_object option \<times> 'o mem" where
  "asObject ptr r = (case r of (Some c, s) \<Rightarrow> (Some (ptr c), s) | (None, s) \<Rightarrow> (None, s))"

definition GreenplumCluster_DeepCopyObject where
  "GreenplumCluster_DeepCopyObject L inp s = asObject ClusterPtr (GreenplumCluster_DeepCopy L inp s)"

definition GreenplumClusterList_DeepCopyObject where
  "GreenplumClusterList_DeepCopyObject L inp s = asObject ClusterListPtr (GreenplumClusterList_DeepCopy L inp s)"

definition GreenplumPXFService_DeepCopyObject where
  "GreenplumPXFService_DeepCopyObject L inp s = asObject ServicePtr (GreenplumPXFService_DeepCopy L inp s)"

definition GreenplumPXFServiceList_DeepCopyObject where
  "GreenplumPXFServiceList_DeepCopyObject L inp s = asObject ServiceListPtr (GreenplumPXFServiceList_DeepCopy L inp s)"

section \<open>Values\<close>

text \<open>How a struct in the store is read as a value of the rest of the development; a map is read as \<open>range\<close> lists it.\<close>

record ('q, 'm, 'l, 'x, 'v) lib_view =
  q_reach :: "('q, 'm, 'l, 'x) memory \<Rightarrow> 'q \<Rightarrow> nat set"
  q_view :: "('q, 'm, 'l, 'x) memory \<Rightarrow> 'q \<Rightarrow> Quantity"
  om_reach :: "('q, 'm, 'l, 'x) memory \<Rightarrow> 'm \<Rightarrow> nat set"
  om_view :: "('q, 'm, 'l, 'x) memory \<Rightarrow> 'm \<Rightarrow> ObjectMeta"
  lm_reach :: "('q, 'm, 'l, 'x) memory \<Rightarrow> 'l \<Rightarrow> nat set"
  lm_view :: "('q, 'm, 'l, 'x) memory \<Rightarrow> 'l \<Rightarrow> 'v"

definition copy_laws :: "('q, 'm, 'l, 'x) copy_lib \<Rightarrow> ('q, 'm, 'l, 'x, 'v) lib_view \<Rightarrow> bool" where
  "copy_laws L V \<longleftrightarrow>
     deep_copier (q_DeepCopy L) (q_reach V) (q_view V) \<and> deep_copier (om_DeepCopyInto L) (om_reach V) (om_view V) \<and>
     deep_copier (lm_DeepCopyInto L) (lm_reach V) (lm_view V) \<and>
     (\<forall>m. map_of (map_range L m) = fmlookup m \<and> distinct (map fst (map_range L m)))"

definition reach_map :: "('q, 'm, 'l, 'x) memory \<Rightarrow> nat option \<Rightarrow> nat set" where
  "reach_map = reach_ptr the_map no_reach"

definition view_map :: "('q, 'm, 'l, 'x) copy_lib \<Rightarrow> ('q, 'm, 'l, 'x) memory \<Rightarrow> nat option \<Rightarrow> smap option" where
  "view_map L = view_ptr the_map (\<lambda>s. map_range L)"

definition reach_pod where
  "reach_pod V s x = q_reach V s (x_Memory x) \<union> q_reach V s (x_CPU x) \<union> q_reach V s (x_Storage x) \<union> reach_map s (x_WorkerSelector x)"

definition view_pod :: "('q, 'm, 'l, 'x) copy_lib \<Rightarrow> ('q, 'm, 'l, 'x, 'v) lib_view \<Rightarrow> ('q, 'm, 'l, 'x) memory \<Rightarrow> 'q pod_struct \<Rightarrow> GreenplumPodSpec" where
  "view_pod L V s x =
     \<lparr>gp_Memory = q_view V s (x_Memory x), gp_CPU = q_view V s (x_CPU x), gp_StorageClassName = x_StorageClassName x,
      gp_Storage = q_view V s (x_Storage x), gp_WorkerSelector = view_map L s (x_WorkerSelector x), gp_AntiAffinity = x_AntiAffinity x\<rparr>"

definition view_master where
  "view_master L V s x = GreenplumPodSpec.extend (view_pod L V s (xm_GreenplumPodSpec x))
     (GreenplumMasterAndStandbySpec.fields (x_HostBasedAuthentication x) (x_Standby x))"

definition view_segments where
  "view_segments L V s x = GreenplumPodSpec.extend (view_pod L V s (xs_GreenplumPodSpec x))
     (GreenplumSegmentsSpec.fields (x_PrimarySegmentCount x) (x_Mirrors x))"

definition reach_cluster_spec where
  "reach_cluster_spec V s x = reach_pod V s (xm_GreenplumPodSpec (x_MasterAndStandby x)) \<union> reach_pod V s (xs_GreenplumPodSpec (x_Segments x))"

definition view_cluster_spec :: "('q, 'm, 'l, 'x) copy_lib \<Rightarrow> ('q, 'm, 'l, 'x, 'v) lib_view \<Rightarrow> ('q, 'm, 'l, 'x) memory \<Rightarrow> 'q cluster_spec_struct \<Rightarrow> GreenplumClusterSpec" where
  "view_cluster_spec L V s x =
     \<lparr>MasterAndStandby = view_master L V s (x_MasterAndStandby x), Segments = view_segments L V s (x_Segments x), PXF = x_PXF x\<rparr>"

definition reach_cluster where
  "reach_cluster V s x = om_reach V s (x_ObjectMeta x) \<union> reach_cluster_spec V s (x_Spec x)"

definition view_cluster ::
  "('q, 'm, 'l, 'x) copy_lib \<Rightarrow> ('q, 'm, 'l, 'x, 'v) lib_view \<Rightarrow> ('q, 'm, 'l, 'x) memory \<Rightarrow> ('q, 'm) cluster_struct \<Rightarrow> TypeMeta \<times> GreenplumCluster"
where
  "view_cluster L V s x =
     (x_TypeMeta x, \<lparr>gc_meta = om_view V s (x_ObjectMeta x), Spec = view_cluster_spec L V s (x_Spec x), Status = x_Status x\<rparr>)"

definition reach_service_spec where
  "reach_service_spec V s x =
     q_reach V s (y_CPU x) \<union> q_reach V s (y_Memory x) \<union> reach_map s (y_WorkerSelector x) \<union> reach_ptr the_conf no_reach s (y_PXFConf x)"

definition view_service_spec :: "('q, 'm, 'l, 'x) copy_lib \<Rightarrow> ('q, 'm, 'l, 'x, 'v) lib_view \<Rightarrow> ('q, 'm, 'l, 'x) memory \<Rightarrow> 'q service_spec_struct \<Rightarrow> GreenplumPXFServiceSpec" where
  "view_service_spec L V s x =
     \<lparr>pxf_Replicas = y_Replicas x, pxf_CPU = q_view V s (y_CPU x), pxf_Memory = q_view V s (y_Memory x),
      pxf_WorkerSelector = view_map L s (y_WorkerSelector x), PXFConf = view_ptr the_conf (\<lambda>s c. c) s (y_PXFConf x)\<rparr>"

definition reach_service where
  "reach_service V s x = om_reach V s (y_ObjectMeta x) \<union> reach_service_spec V s (y_Spec x)"

definition view_service ::
  "('q, 'm, 'l, 'x) copy_lib \<Rightarrow> ('q, 'm, 'l, 'x, 'v) lib_view \<Rightarrow> ('q, 'm, 'l, 'x) memory \<Rightarrow> ('q, 'm) service_struct \<Rightarrow> TypeMeta \<times> GreenplumPXFService"
where
  "view_service L V s x =
     (y_TypeMeta x, \<lparr>pxf_meta = om_view V s (y_ObjectMeta x), pxf_Spec = view_service_spec L V s (y_Spec x), pxf_Phase = y_Status x\<rparr>)"

text \<open>A list whose array holds elements of some type.\<close>

definition reach_list where
  "reach_list V un r s x = lm_reach V s (l_ListMeta x) \<union> reach_ptr un (reach_items r) s (l_Items x)"

definition view_list where
  "view_list V un v s x = (l_TypeMeta x, lm_view V s (l_ListMeta x), view_ptr un (\<lambda>s. map (v s)) s (l_Items x))"

section \<open>Lemmas\<close>

lemma copy_lawsD:
  assumes "copy_laws L V"
  shows "deep_copier (q_DeepCopy L) (q_reach V) (q_view V)" "deep_copier (om_DeepCopyInto L) (om_reach V) (om_view V)"
    "deep_copier (lm_DeepCopyInto L) (lm_reach V) (lm_view V)" "map_of (map_range L m) = fmlookup m" "distinct (map fst (map_range L m))"
  using assms by (simp_all add: copy_laws_def)

lemma fmlookup_fold:
  "distinct (map fst xs) \<Longrightarrow>
   fmlookup (fold (\<lambda>(k, v). fmupd k v) xs m) k = (case map_of xs k of None \<Rightarrow> fmlookup m k | Some v \<Rightarrow> Some v)"
proof (induction xs arbitrary: m)
  case (Cons x xs)
  obtain a b where x: "x = (a, b)" by (cases x)
  have "map_of xs a = None" using Cons.prems x by (simp add: map_of_eq_None_iff)
  then show ?case using Cons x by (auto split: option.splits)
qed simp

lemma copyEntries_plain:
  assumes "copy_laws L V"
  shows "copyEntries L = copy_plain"
proof (intro ext)
  fix m s
  have "fold (\<lambda>(k, v). fmupd k v) (map_range L m) fmempty = m"
    using copy_lawsD(4,5) [OF assms] by (intro fmap_ext) (simp add: fmlookup_fold split: option.splits)
  then show "copyEntries L m s = copy_plain m s" by (simp add: copyEntries_def copy_plain_def)
qed

lemma deep_copier_map:
  assumes "copy_laws L V"
  shows "deep_copier (copyWorkerSelector L) reach_map (view_map L)"
proof -
  have "copyWorkerSelector L = copy_ptr MapObj the_map copy_plain"
    by (intro ext) (simp add: copyWorkerSelector_def copy_ptr_def copyEntries_plain [OF assms] split: option.split)
  then show ?thesis
    unfolding reach_map_def view_map_def by (simp add: deep_copier_ptr [OF deep_copier_plain])
qed

lemma copyPXFConf_ptr: "copyPXFConf = copy_ptr ConfObj the_conf copy_plain"
  by (intro ext) (simp add: copyPXFConf_def copy_ptr_def copy_plain_def [abs_def] split: option.split)

interpretation conf_copy: deep_copier copyPXFConf "reach_ptr the_conf no_reach" "view_ptr the_conf (\<lambda>s c. c)"
  unfolding copyPXFConf_ptr by (simp add: deep_copier_ptr [OF deep_copier_plain])

lemma copySlice_ptr: "copySlice mk un into = copy_ptr mk un (copy_items into)"
  by (intro ext) (simp add: copySlice_def copy_ptr_def)

lemma DeepCopy_ptr: "DeepCopy mk un into = copy_ptr mk un into"
  by (intro ext) (simp add: DeepCopy_def copy_ptr_def)

lemma deep_copier_pod:
  assumes "copy_laws L V"
  shows "deep_copier (GreenplumPodSpec_DeepCopyInto L) (reach_pod V) (view_pod L V)"
proof (rule deep_copier_struct [where
    out = "\<lambda>x. (x_Memory x, x_CPU x, x_Storage x, x_WorkerSelector x)" and
    build = "\<lambda>x (a, b, c, d). x\<lparr>x_Memory := a, x_CPU := b, x_Storage := c, x_WorkerSelector := d\<rparr>" and
    g = "\<lambda>x. (x_StorageClassName x, x_AntiAffinity x)" and
    f = "\<lambda>(n, aa) (a, b, c, d). \<lparr>gp_Memory = a, gp_CPU = b, gp_StorageClassName = n, gp_Storage = c, gp_WorkerSelector = d, gp_AntiAffinity = aa\<rparr>"])
  note q = copy_lawsD(1) [OF assms]
  show "deep_copier (copy_pair (q_DeepCopy L) (copy_pair (q_DeepCopy L) (copy_pair (q_DeepCopy L) (copyWorkerSelector L))))
    (reach_pair (q_reach V) (reach_pair (q_reach V) (reach_pair (q_reach V) reach_map)))
    (\<lambda>s p. (q_view V s (fst p), q_view V s (fst (snd p)), q_view V s (fst (snd (snd p))), view_map L s (snd (snd (snd p)))))"
    using deep_copier_pair [OF q deep_copier_pair [OF q deep_copier_pair [OF q deep_copier_map [OF assms]]]] .
qed (auto simp: GreenplumPodSpec_DeepCopyInto_def copy_pair_def reach_pair_def reach_pod_def view_pod_def Let_def split: prod.splits)

lemma deep_copier_master:
  assumes "copy_laws L V"
  shows "deep_copier (GreenplumMasterAndStandbySpec_DeepCopyInto L) (\<lambda>s x. reach_pod V s (xm_GreenplumPodSpec x)) (view_master L V)"
proof (rule deep_copier_struct [OF deep_copier_pod [OF assms], where
    out = xm_GreenplumPodSpec and build = "\<lambda>x t. x\<lparr>xm_GreenplumPodSpec := t\<rparr>" and
    g = "\<lambda>x. GreenplumMasterAndStandbySpec.fields (x_HostBasedAuthentication x) (x_Standby x)" and
    f = "\<lambda>e p. GreenplumPodSpec.extend p e"])
qed (auto simp: GreenplumMasterAndStandbySpec_DeepCopyInto_def view_master_def Let_def split: prod.splits)

lemma deep_copier_segments:
  assumes "copy_laws L V"
  shows "deep_copier (GreenplumSegmentsSpec_DeepCopyInto L) (\<lambda>s x. reach_pod V s (xs_GreenplumPodSpec x)) (view_segments L V)"
proof (rule deep_copier_struct [OF deep_copier_pod [OF assms], where
    out = xs_GreenplumPodSpec and build = "\<lambda>x t. x\<lparr>xs_GreenplumPodSpec := t\<rparr>" and
    g = "\<lambda>x. GreenplumSegmentsSpec.fields (x_PrimarySegmentCount x) (x_Mirrors x)" and
    f = "\<lambda>e p. GreenplumPodSpec.extend p e"])
qed (auto simp: GreenplumSegmentsSpec_DeepCopyInto_def view_segments_def Let_def split: prod.splits)

lemma deep_copier_cluster_spec:
  assumes "copy_laws L V"
  shows "deep_copier (GreenplumClusterSpec_DeepCopyInto L) (reach_cluster_spec V) (view_cluster_spec L V)"
proof (rule deep_copier_struct [OF deep_copier_pair [OF deep_copier_master [OF assms] deep_copier_segments [OF assms]], where
    out = "\<lambda>x. (x_MasterAndStandby x, x_Segments x)" and
    build = "\<lambda>x (a, b). x\<lparr>x_MasterAndStandby := a, x_Segments := b\<rparr>" and
    g = x_PXF and f = "\<lambda>p (a, b). \<lparr>MasterAndStandby = a, Segments = b, PXF = p\<rparr>"])
qed (auto simp: GreenplumClusterSpec_DeepCopyInto_def copy_pair_def reach_pair_def reach_cluster_spec_def view_cluster_spec_def
      Let_def split: prod.splits)

lemma deep_copier_cluster:
  assumes "copy_laws L V"
  shows "deep_copier (GreenplumCluster_DeepCopyInto L) (reach_cluster V) (view_cluster L V)"
proof (rule deep_copier_struct [OF deep_copier_pair [OF copy_lawsD(2) [OF assms] deep_copier_cluster_spec [OF assms]], where
    out = "\<lambda>x. (x_ObjectMeta x, x_Spec x)" and
    build = "\<lambda>x (a, b). x\<lparr>x_ObjectMeta := a, x_Spec := b\<rparr>" and
    g = "\<lambda>x. (x_TypeMeta x, x_Status x)" and f = "\<lambda>(t, st) (a, b). (t, \<lparr>gc_meta = a, Spec = b, Status = st\<rparr>)"])
qed (auto simp: GreenplumCluster_DeepCopyInto_def copy_pair_def reach_pair_def reach_cluster_def view_cluster_def
      Let_def split: prod.splits)

lemma deep_copier_service_spec:
  assumes "copy_laws L V"
  shows "deep_copier (GreenplumPXFServiceSpec_DeepCopyInto L) (reach_service_spec V) (view_service_spec L V)"
proof (rule deep_copier_struct [where
    out = "\<lambda>x. (y_CPU x, y_Memory x, y_WorkerSelector x, y_PXFConf x)" and
    build = "\<lambda>x (a, b, c, d). x\<lparr>y_CPU := a, y_Memory := b, y_WorkerSelector := c, y_PXFConf := d\<rparr>" and
    g = y_Replicas and
    f = "\<lambda>n (a, b, c, d). \<lparr>pxf_Replicas = n, pxf_CPU = a, pxf_Memory = b, pxf_WorkerSelector = c, PXFConf = d\<rparr>"])
  note q = copy_lawsD(1) [OF assms]
  show "deep_copier (copy_pair (q_DeepCopy L) (copy_pair (q_DeepCopy L) (copy_pair (copyWorkerSelector L) copyPXFConf)))
    (reach_pair (q_reach V) (reach_pair (q_reach V) (reach_pair reach_map (reach_ptr the_conf no_reach))))
    (\<lambda>s p. (q_view V s (fst p), q_view V s (fst (snd p)), view_map L s (fst (snd (snd p))),
       view_ptr the_conf (\<lambda>s c. c) s (snd (snd (snd p)))))"
    using deep_copier_pair [OF q deep_copier_pair [OF q deep_copier_pair [OF deep_copier_map [OF assms] conf_copy.deep_copier_axioms]]] .
qed (auto simp: GreenplumPXFServiceSpec_DeepCopyInto_def copy_pair_def reach_pair_def reach_service_spec_def view_service_spec_def
      Let_def split: prod.splits)

lemma deep_copier_service:
  assumes "copy_laws L V"
  shows "deep_copier (GreenplumPXFService_DeepCopyInto L) (reach_service V) (view_service L V)"
proof (rule deep_copier_struct [OF deep_copier_pair [OF copy_lawsD(2) [OF assms] deep_copier_service_spec [OF assms]], where
    out = "\<lambda>x. (y_ObjectMeta x, y_Spec x)" and
    build = "\<lambda>x (a, b). x\<lparr>y_ObjectMeta := a, y_Spec := b\<rparr>" and
    g = "\<lambda>x. (y_TypeMeta x, y_Status x)" and f = "\<lambda>(t, st) (a, b). (t, \<lparr>pxf_meta = a, pxf_Spec = b, pxf_Phase = st\<rparr>)"])
qed (auto simp: GreenplumPXFService_DeepCopyInto_def copy_pair_def reach_pair_def reach_service_def view_service_def
      Let_def split: prod.splits)

text \<open>Both kinds of list.\<close>

lemma deep_copier_list:
  assumes "copy_laws L V" "deep_copier into r v" "\<And>xs. un (mk xs) = xs"
    and "\<And>x s. copy x s =
      (let (meta, s1) = lm_DeepCopyInto L (l_ListMeta x) s; (items, s2) = copySlice mk un into (l_Items x) s1
       in (x\<lparr>l_ListMeta := meta, l_Items := items\<rparr>, s2))"
  shows "deep_copier copy (reach_list V un r) (view_list V un v)"
proof (rule deep_copier_struct [where
    out = "\<lambda>x. (l_ListMeta x, l_Items x)" and build = "\<lambda>x (a, b). x\<lparr>l_ListMeta := a, l_Items := b\<rparr>" and
    g = l_TypeMeta and f = "\<lambda>t (a, b). (t, a, b)"])
  show "deep_copier (copy_pair (lm_DeepCopyInto L) (copySlice mk un into)) (reach_pair (lm_reach V) (reach_ptr un (reach_items r)))
    (\<lambda>s p. (lm_view V s (fst p), view_ptr un (\<lambda>s. map (v s)) s (snd p)))"
    unfolding copySlice_ptr
    using deep_copier_pair [OF copy_lawsD(3) [OF assms(1)] deep_copier_ptr [OF deep_copier_items [OF assms(2)] assms(3)]] .
qed (auto simp: assms(4) copy_pair_def reach_pair_def reach_list_def view_list_def Let_def split: prod.splits)

lemma deep_copier_cluster_list:
  assumes "copy_laws L V"
  shows "deep_copier (GreenplumClusterList_DeepCopyInto L) (reach_list V the_clusters (reach_cluster V))
    (view_list V the_clusters (view_cluster L V))"
  by (rule deep_copier_list [OF assms deep_copier_cluster [OF assms], where mk = ClusterItems])
     (auto simp: GreenplumClusterList_DeepCopyInto_def Let_def split: prod.splits)

lemma deep_copier_service_list:
  assumes "copy_laws L V"
  shows "deep_copier (GreenplumPXFServiceList_DeepCopyInto L) (reach_list V the_services (reach_service V))
    (view_list V the_services (view_service L V))"
  by (rule deep_copier_list [OF assms deep_copier_service [OF assms], where mk = ServiceItems])
     (auto simp: GreenplumPXFServiceList_DeepCopyInto_def Let_def split: prod.splits)

text \<open>The structs without addresses, and \<open>DeepCopy\<close> of every type.\<close>

interpretation pxf_spec_copy: deep_copier GreenplumPXFSpec_DeepCopyInto no_reach "\<lambda>s x. x"
  by unfold_locales (auto simp: GreenplumPXFSpec_DeepCopyInto_def no_reach_def Let_def)

interpretation status_copy: deep_copier GreenplumClusterStatus_DeepCopyInto no_reach "\<lambda>s x. x"
  by unfold_locales (auto simp: GreenplumClusterStatus_DeepCopyInto_def no_reach_def Let_def)

interpretation s3_copy: deep_copier S3Source_DeepCopyInto no_reach "\<lambda>s x. x"
  by unfold_locales (auto simp: S3Source_DeepCopyInto_def no_reach_def Let_def)

interpretation pxf_conf_copy: deep_copier GreenplumPXFConf_DeepCopyInto no_reach "\<lambda>s x. x"
  by unfold_locales (auto simp: GreenplumPXFConf_DeepCopyInto_def no_reach_def Let_def)

interpretation service_status_copy: deep_copier GreenplumPXFServiceStatus_DeepCopyInto no_reach "\<lambda>s x. x"
  by unfold_locales (auto simp: GreenplumPXFServiceStatus_DeepCopyInto_def no_reach_def Let_def)

lemma DeepCopy_plain_structs:
  "deep_copier GreenplumPXFSpec_DeepCopy (reach_ptr the_pxfspec no_reach) (view_ptr the_pxfspec (\<lambda>s x. x))"
  "deep_copier GreenplumClusterStatus_DeepCopy (reach_ptr the_status no_reach) (view_ptr the_status (\<lambda>s x. x))"
  "deep_copier S3Source_DeepCopy (reach_ptr the_s3 no_reach) (view_ptr the_s3 (\<lambda>s x. x))"
  "deep_copier GreenplumPXFConf_DeepCopy (reach_ptr the_conf no_reach) (view_ptr the_conf (\<lambda>s x. x))"
  "deep_copier GreenplumPXFServiceStatus_DeepCopy (reach_ptr the_service_status no_reach) (view_ptr the_service_status (\<lambda>s x. x))"
  unfolding GreenplumPXFSpec_DeepCopy_def GreenplumClusterStatus_DeepCopy_def S3Source_DeepCopy_def GreenplumPXFConf_DeepCopy_def
    GreenplumPXFServiceStatus_DeepCopy_def DeepCopy_ptr
  by (simp_all add: deep_copier_ptr pxf_spec_copy.deep_copier_axioms status_copy.deep_copier_axioms s3_copy.deep_copier_axioms
    pxf_conf_copy.deep_copier_axioms service_status_copy.deep_copier_axioms)

lemma DeepCopy_specs:
  assumes "copy_laws L V"
  shows "deep_copier (GreenplumPodSpec_DeepCopy L) (reach_ptr the_pod (reach_pod V)) (view_ptr the_pod (view_pod L V))"
    "deep_copier (GreenplumMasterAndStandbySpec_DeepCopy L)
       (reach_ptr the_master (\<lambda>s x. reach_pod V s (xm_GreenplumPodSpec x))) (view_ptr the_master (view_master L V))"
    "deep_copier (GreenplumSegmentsSpec_DeepCopy L)
       (reach_ptr the_segments (\<lambda>s x. reach_pod V s (xs_GreenplumPodSpec x))) (view_ptr the_segments (view_segments L V))"
    "deep_copier (GreenplumClusterSpec_DeepCopy L) (reach_ptr the_spec (reach_cluster_spec V)) (view_ptr the_spec (view_cluster_spec L V))"
    "deep_copier (GreenplumPXFServiceSpec_DeepCopy L)
       (reach_ptr the_service_spec (reach_service_spec V)) (view_ptr the_service_spec (view_service_spec L V))"
  unfolding GreenplumPodSpec_DeepCopy_def GreenplumMasterAndStandbySpec_DeepCopy_def GreenplumSegmentsSpec_DeepCopy_def
    GreenplumClusterSpec_DeepCopy_def GreenplumPXFServiceSpec_DeepCopy_def DeepCopy_ptr
  by (simp_all add: deep_copier_ptr deep_copier_pod [OF assms] deep_copier_master [OF assms] deep_copier_segments [OF assms]
    deep_copier_cluster_spec [OF assms] deep_copier_service_spec [OF assms])

lemma DeepCopy_resources:
  assumes "copy_laws L V"
  shows "deep_copier (GreenplumCluster_DeepCopy L) (reach_ptr the_cluster (reach_cluster V)) (view_ptr the_cluster (view_cluster L V))"
    "deep_copier (GreenplumPXFService_DeepCopy L) (reach_ptr the_service (reach_service V)) (view_ptr the_service (view_service L V))"
    "deep_copier (GreenplumClusterList_DeepCopy L)
       (reach_ptr the_list (reach_list V the_clusters (reach_cluster V))) (view_ptr the_list (view_list V the_clusters (view_cluster L V)))"
    "deep_copier (GreenplumPXFServiceList_DeepCopy L)
       (reach_ptr the_list (reach_list V the_services (reach_service V))) (view_ptr the_list (view_list V the_services (view_service L V)))"
  unfolding GreenplumCluster_DeepCopy_def GreenplumPXFService_DeepCopy_def GreenplumClusterList_DeepCopy_def
    GreenplumPXFServiceList_DeepCopy_def DeepCopy_ptr
  by (simp_all add: deep_copier_ptr deep_copier_cluster [OF assms] deep_copier_service [OF assms]
    deep_copier_cluster_list [OF assms] deep_copier_service_list [OF assms])

text \<open>\<open>DeepCopyObject\<close> of a nil pointer is a nil interface, not an interface that holds a nil pointer.\<close>

lemma DeepCopyObject_nil:
  "GreenplumCluster_DeepCopyObject L None s = (None, s)" "GreenplumClusterList_DeepCopyObject L None s = (None, s)"
  "GreenplumPXFService_DeepCopyObject L None s = (None, s)" "GreenplumPXFServiceList_DeepCopyObject L None s = (None, s)"
  by (simp_all add: GreenplumCluster_DeepCopyObject_def GreenplumClusterList_DeepCopyObject_def GreenplumPXFService_DeepCopyObject_def
    GreenplumPXFServiceList_DeepCopyObject_def GreenplumCluster_DeepCopy_def GreenplumClusterList_DeepCopy_def
    GreenplumPXFService_DeepCopy_def GreenplumPXFServiceList_DeepCopy_def DeepCopy_def asObject_def)

section \<open>Properties\<close>

text \<open>The cluster that a pointer refers to, and the cells that it depends on.\<close>

definition cluster_at ::
  "('q, 'm, 'l, 'x) copy_lib \<Rightarrow> ('q, 'm, 'l, 'x, 'v) lib_view \<Rightarrow> ('q, 'm, 'l, 'x) memory \<Rightarrow> nat option \<Rightarrow> (TypeMeta \<times> GreenplumCluster) option"
where
  "cluster_at L V = view_ptr the_cluster (view_cluster L V)"

definition cluster_cells :: "('q, 'm, 'l, 'x, 'v) lib_view \<Rightarrow> ('q, 'm, 'l, 'x) memory \<Rightarrow> nat option \<Rightarrow> nat set" where
  "cluster_cells V = reach_ptr the_cluster (reach_cluster V)"

text \<open>C33: A deep copy of a cluster is the same cluster in other memory: it has the value of the original, it
  depends on no cell that existed before, no such cell is changed, no later write to the cells of the
  copy is seen through the original, and no later write to older cells (so to the original) is seen
  through the copy. The base of a patch is therefore the object as it was when the copy was taken.\<close>

theorem GreenplumCluster_DeepCopy_independent:
  assumes "copy_laws L V" "GreenplumCluster_DeepCopy L p s = (q, s')" "cluster_cells V s p \<subseteq> {..<lim s}"
  shows "cluster_at L V s' q = cluster_at L V s p \<and> cluster_cells V s' q \<inter> {..<lim s} = {} \<and>
    (\<forall>a < lim s. cell s' a = cell s a) \<and>
    (\<forall>s''. same_on (- cluster_cells V s' q) s' s'' \<longrightarrow> cluster_at L V s'' p = cluster_at L V s p) \<and>
    (\<forall>s''. same_on {lim s..<lim s'} s' s'' \<longrightarrow> cluster_at L V s'' q = cluster_at L V s p)"
  using deep_copier.independent [OF DeepCopy_resources(1) [OF assms(1)] assms(2)] assms(3)
  unfolding cluster_at_def cluster_cells_def by blast

text \<open>The witness: quantities that refer to a cell of their own, and a cluster with a worker selector.\<close>

definition demo_copy_lib :: "(nat option, ObjectMeta, string, string) copy_lib" where
  "demo_copy_lib =
     \<lparr>q_DeepCopy = copy_ptr LibObj the_lib copy_plain, om_DeepCopyInto = copy_plain, lm_DeepCopyInto = copy_plain,
      map_range = sorted_list_of_fmap\<rparr>"

definition demo_lib_view :: "(nat option, ObjectMeta, string, string, string) lib_view" where
  "demo_lib_view =
     \<lparr>q_reach = reach_ptr the_lib no_reach,
      q_view = (\<lambda>s q. case view_ptr the_lib (\<lambda>s c. c) s q of None \<Rightarrow> ZeroQuantity | Some t \<Rightarrow> Quantity t),
      om_reach = no_reach, om_view = (\<lambda>s m. m), lm_reach = no_reach, lm_view = (\<lambda>s m. m)\<rparr>"

definition demo_pod_struct :: "nat option pod_struct" where
  "demo_pod_struct = \<lparr>x_Memory = Some 0, x_CPU = None, x_StorageClassName = ''standard'', x_Storage = Some 0,
     x_WorkerSelector = Some 1, x_AntiAffinity = ''no''\<rparr>"

definition demo_memory :: "(nat option, ObjectMeta, string, string) memory" where
  "demo_memory = \<lparr>lim = 3, cell = (\<lambda>a.
     if a = 0 then LibObj ''1Gi'' else if a = 1 then MapObj (fmap_of_list [(''worker'', ''gp'')])
     else ClusterObj \<lparr>x_TypeMeta = \<lparr>tm_Kind = ''GreenplumCluster'', tm_APIVersion = ''v1''\<rparr>,
       x_ObjectMeta = objectMeta ''gp'' ''ns'',
       x_Spec = \<lparr>x_MasterAndStandby = \<lparr>xm_GreenplumPodSpec = demo_pod_struct, x_HostBasedAuthentication = [], x_Standby = ''yes''\<rparr>,
         x_Segments = \<lparr>xs_GreenplumPodSpec = demo_pod_struct, x_PrimarySegmentCount = 1, x_Mirrors = ''no''\<rparr>,
         x_PXF = \<lparr>ServiceName = []\<rparr>\<rparr>,
       x_Status = \<lparr>InstanceImage = [], OperatorVersion = [], Phase = PhaseNone\<rparr>\<rparr>)\<rparr>"

lemma deep_copier_view: "deep_copier c r v \<Longrightarrow> deep_copier c r (\<lambda>s x. f (v s x))"
  unfolding deep_copier_def by metis

lemma demo_copy_laws: "copy_laws demo_copy_lib demo_lib_view"
proof -
  have "deep_copier (q_DeepCopy demo_copy_lib) (q_reach demo_lib_view) (q_view demo_lib_view)"
    unfolding demo_copy_lib_def demo_lib_view_def copy_lib.simps lib_view.simps
    by (rule deep_copier_view [OF deep_copier_ptr [OF deep_copier_plain]]) simp
  moreover have "distinct (map fst (sorted_list_of_fmap m))" for m :: gomap
    by (simp add: sorted_list_of_fmap_def comp_def sorted_list_of_fset.rep_eq)
  ultimately show ?thesis
    by (simp add: copy_laws_def) (simp add: demo_copy_lib_def demo_lib_view_def deep_copier_plain)
qed

theorem GreenplumCluster_DeepCopy_independent_witness:
  "\<exists>q s'. GreenplumCluster_DeepCopy demo_copy_lib (Some 2) demo_memory = (q, s') \<and>
     cluster_at demo_copy_lib demo_lib_view s' q = cluster_at demo_copy_lib demo_lib_view demo_memory (Some 2) \<and>
     cell s' 2 = cell demo_memory 2"
proof -
  obtain q s' where c: "GreenplumCluster_DeepCopy demo_copy_lib (Some 2) demo_memory = (q, s')" by fastforce
  have "cluster_cells demo_lib_view demo_memory (Some 2) \<subseteq> {..<lim demo_memory}"
    by (simp add: cluster_cells_def reach_ptr_def reach_cluster_def reach_cluster_spec_def reach_pod_def reach_map_def
      demo_lib_view_def demo_memory_def demo_pod_struct_def no_reach_def)
  moreover have "2 < lim demo_memory" by (simp add: demo_memory_def)
  ultimately show ?thesis
    using GreenplumCluster_DeepCopy_independent [OF demo_copy_laws c] c by blast
qed

end
