(* ===== verification/Gomega.thy ===== *)
theory Gomega
  imports Kube
begin

text \<open>
  Code that runs inside a test: an expectation (\<open>Expect(...).To(...)\<close>) that does not hold ends the test as
  failed, and other errors of the code itself panic.
\<close>

datatype 'a outcome = Done 'a | TestFails | Panics

definition bind_outcome :: "'a outcome \<Rightarrow> ('a \<Rightarrow> 'b outcome \<times> 's) \<Rightarrow> 's \<Rightarrow> 'b outcome \<times> 's" where
  "bind_outcome r k s = (case r of Done x \<Rightarrow> k x | TestFails \<Rightarrow> (TestFails, s) | Panics \<Rightarrow> (Panics, s))"

text \<open>Steps of a test, one after another; what follows a failure is not run.\<close>

type_synonym ('s, 'a) step = "'s world \<Rightarrow> 'a outcome \<times> 's world"

definition pureS :: "'a \<Rightarrow> ('s, 'a) step" where
  "pureS x w = (Done x, w)"

definition andThenS :: "('s, 'a) step \<Rightarrow> ('a \<Rightarrow> ('s, 'b) step) \<Rightarrow> ('s, 'b) step" where
  "andThenS f k w = (case f w of (r, w1) \<Rightarrow> bind_outcome r (\<lambda>x. k x w1) w1)"

definition doing :: "('s, 'a) io \<Rightarrow> ('s, 'a) step" where
  "doing f w = (case f w of (x, w1) \<Rightarrow> (Done x, w1))"

definition expect :: "bool \<Rightarrow> ('s, unit) step" where
  "expect b w = (if b then Done () else TestFails, w)"

text \<open>\<open>Expect(f()).To(Succeed())\<close>.\<close>

definition expectSuccess :: "('s, unit result) io \<Rightarrow> ('s, unit) step" where
  "expectSuccess f w = (case f w of (Inr u, w1) \<Rightarrow> (Done (), w1) | (Inl err, w1) \<Rightarrow> (TestFails, w1))"

text \<open>A loop over the elements of a slice.\<close>

fun forEach :: "'a list \<Rightarrow> ('a \<Rightarrow> ('s, unit) step) \<Rightarrow> ('s, unit) step" where
  "forEach [] f = pureS ()"
| "forEach (x # xs) f = andThenS (f x) (\<lambda>u. forEach xs f)"

lemma bind_outcome_simps [simp]:
  "bind_outcome (Done x) k s = k x" "bind_outcome TestFails k s = (TestFails, s)" "bind_outcome Panics k s = (Panics, s)"
  by (simp_all add: bind_outcome_def)

lemma bind_outcome_Done: "bind_outcome r k s = (Done y, s') \<longleftrightarrow> (\<exists>x. r = Done x \<and> k x = (Done y, s'))"
  by (cases r) simp_all

lemma pureS_Done [simp]: "pureS x w = (Done y, w') \<longleftrightarrow> y = x \<and> w' = w"
  by (auto simp: pureS_def)

lemma andThenS_Done: "andThenS f k w = (Done y, w') \<longleftrightarrow> (\<exists>x w1. f w = (Done x, w1) \<and> k x w1 = (Done y, w'))"
  by (auto simp: andThenS_def bind_outcome_Done split: prod.splits)

lemma doing_Done [simp]: "doing f w = (Done x, w') \<longleftrightarrow> f w = (x, w')"
  by (auto simp: doing_def split: prod.splits)

lemma expect_Done [simp]: "expect b w = (Done u, w') \<longleftrightarrow> b \<and> w' = w"
  by (auto simp: expect_def)

lemma expectSuccess_Done [simp]: "expectSuccess f w = (Done u, w') \<longleftrightarrow> f w = (Inr (), w')"
  by (auto simp: expectSuccess_def split: prod.splits sum.splits)

lemmas step_Done = andThenS_Done pureS_Done doing_Done expect_Done expectSuccess_Done

end
