(* ===== verification/Manifests.thy ===== *)
theory Manifests
  imports Psql_Service Gomega Admission_Properties
begin

text \<open>
  The manifests that the integration tests apply (\<open>pkg/integrationutils\<close>: \<open>integration_utils.go\<close>, \<open>pxf.go\<close>): the
  two templates written out branch by branch, the defaults filled in before they are executed, and the
  base64 encoding of the keys. The functions of sprig are parameters. It is shown that the text has the
  expected lines, that the webhook does not refuse its anti-affinity, and that the keys can be read back.
\<close>

section \<open>Definitions\<close>

subsection \<open>Base64\<close>

text \<open>\<open>base64.StdEncoding.EncodeToString\<close>: three bytes make four characters, a shorter rest is padded.\<close>

definition b64_alphabet :: string where
  "b64_alphabet = ''ABCDEFGHIJKLMNOPQRSTUVWXYZabcdefghijklmnopqrstuvwxyz0123456789+/''"

definition b64_char :: "nat \<Rightarrow> char" where
  "b64_char n = b64_alphabet ! (n mod 64)"

fun EncodeToString :: "string \<Rightarrow> string" where
  "EncodeToString [] = []"
| "EncodeToString [a] =
     (let v = code a * 65536 in [b64_char (v div 262144), b64_char (v div 4096), CHR ''='', CHR ''=''])"
| "EncodeToString [a, b] =
     (let v = code a * 65536 + code b * 256 in [b64_char (v div 262144), b64_char (v div 4096), b64_char (v div 64), CHR ''=''])"
| "EncodeToString (a # b # c # rest) =
     (let v = code a * 65536 + code b * 256 + code c
      in [b64_char (v div 262144), b64_char (v div 4096), b64_char (v div 64), b64_char v] @ EncodeToString rest)"

subsection \<open>The manifest of a cluster\<close>

definition nl :: string where
  "nl = [CHR 0x0A]"

record GpYamlOptions =
  APIVersion :: string
  MasterStorage :: string
  SegmentStorage :: string
  yo_StorageClass :: string
  yo_Standby :: string
  yo_Mirrors :: string
  yo_PrimarySegmentCount :: int
  DefaultStorageClass :: string
  yo_IsSingleNode :: bool
  PXFService :: string

text \<open>The two functions of the template library that are used: \<open>default d v\<close> and \<open>quote\<close>.\<close>

record sprig =
  sprig_default :: "string \<Rightarrow> string \<Rightarrow> string"
  sprig_quote :: "string \<Rightarrow> string"

text \<open>
  \<open>greenplumClusterManifestTemplate\<close>. An action that starts with a dash removes the newline before it,
  so every text begins with the newline of the line before.
\<close>

definition ifPart :: "bool \<Rightarrow> string \<Rightarrow> string" where
  "ifPart b t = (if b then t else [])"

definition greenplumClusterManifest :: "sprig \<Rightarrow> GpYamlOptions \<Rightarrow> string" where
  "greenplumClusterManifest S opts =
     (let q = [CHR 0x22];
          antiAffinity = ifPart (\<not> yo_IsSingleNode opts \<and> yo_Mirrors opts = ''yes'' \<and> yo_Standby opts = ''yes'')
            (nl @ ''    antiAffinity: '' @ q @ ''yes'' @ q);
          resources = ifPart (\<not> yo_IsSingleNode opts)
            (nl @ ''    memory: '' @ q @ ''800Mi'' @ q @ nl @ ''    cpu: '' @ q @ ''0.5'' @ q);
          storageClass = nl @ ''    storageClassName: '' @
            sprig_quote S (sprig_default S (DefaultStorageClass opts) (yo_StorageClass opts))
      in ''---'' @ nl @ ''apiVersion: '' @ q @ ''greenplum.pivotal.io/'' @ APIVersion opts @ q @ nl @
         ''kind: '' @ q @ ''GreenplumCluster'' @ q @ nl @
         ''metadata:'' @ nl @ ''  name: my-greenplum'' @ nl @ ''spec:'' @ nl @ ''  masterAndStandby:'' @ nl @
         ''    hostBasedAuthentication: '' @ q @ q @
         resources @ storageClass @
         nl @ ''    storage: '' @ sprig_quote S (sprig_default S ''1G'' (MasterStorage opts)) @
         antiAffinity @
         ifPart (yo_Standby opts \<noteq> []) (nl @ ''    standby: '' @ sprig_quote S (yo_Standby opts)) @
         nl @ ''  segments:'' @ nl @ ''    primarySegmentCount: '' @ Itoa (yo_PrimarySegmentCount opts) @
         resources @ storageClass @
         nl @ ''    storage: '' @ sprig_quote S (sprig_default S ''2G'' (SegmentStorage opts)) @
         antiAffinity @
         ifPart (yo_Mirrors opts \<noteq> []) (nl @ ''    mirrors: '' @ sprig_quote S (yo_Mirrors opts)) @
         ifPart (PXFService opts \<noteq> []) (nl @ ''  pxf:'' @ nl @ ''    serviceName: '' @ sprig_quote S (PXFService opts)) @
         nl)"

text \<open>\<open>GetDefaultStorageClass\<close>: the storage classes with their annotations, as \<open>json.Unmarshal\<close> gives them.\<close>

record storage_class =
  sc_Name :: string
  sc_Annotations :: "smap option"

definition isDefaultClass :: "storage_class \<Rightarrow> bool" where
  "isDefaultClass sc = (map_of (map_make (sc_Annotations sc)) ''storageclass.kubernetes.io/is-default-class'' = Some ''true'')"

definition GetDefaultStorageClass ::
  "'s shell \<Rightarrow> (string \<Rightarrow> storage_class list option) \<Rightarrow> ('s, storage_class option) step"
where
  "GetDefaultStorageClass sh unmarshal =
     andThenS (doing (kubectl sh [''get'', ''storageclasses'', ''-o'', ''json''])) (\<lambda>(out, err).
     andThenS (expect (err = None)) (\<lambda>u.
     case unmarshal out of
       None \<Rightarrow> andThenS (expect False) (\<lambda>u. pureS None)
     | Some items \<Rightarrow> pureS (find isDefaultClass items)))"

text \<open>The node check is made once for the whole process, as in the queries through the service.\<close>

definition GetGreenplumManifestYaml ::
  "'s shell \<Rightarrow> sprig \<Rightarrow> (string \<Rightarrow> storage_class list option) \<Rightarrow> int \<Rightarrow> GpYamlOptions \<Rightarrow> int \<Rightarrow> 's world \<Rightarrow> string outcome \<times> int \<times> 's world"
where
  "GetGreenplumManifestYaml sh S unmarshal primarySegmentCount opts once w =
     (let opts = (if APIVersion opts = [] then opts\<lparr>APIVersion := ''v1''\<rparr> else opts);
          opts = opts\<lparr>yo_PrimarySegmentCount := primarySegmentCount, DefaultStorageClass := ''standard''\<rparr>
      in case GetDefaultStorageClass sh unmarshal w of
           (Done sc, w1) \<Rightarrow>
             (let opts = (case sc of None \<Rightarrow> opts | Some c \<Rightarrow> opts\<lparr>DefaultStorageClass := sc_Name c\<rparr>)
              in case IsSingleNodeOnce sh once w1 of
                   (None, n, w2) \<Rightarrow> (Panics, n, w2)
                 | (Some b, n, w2) \<Rightarrow> (Done (greenplumClusterManifest S (opts\<lparr>yo_IsSingleNode := b\<rparr>)), n, w2))
         | (TestFails, w1) \<Rightarrow> (TestFails, once, w1)
         | (Panics, w1) \<Rightarrow> (Panics, once, w1))"

subsection \<open>The manifest of a PXF service\<close>

record PXFYamlOptions =
  UseConfBucket :: bool
  AccessKeyID :: string
  SecretAccessKey :: string
  NumReplicas :: int
  ConfBucketName :: string
  ConfBucketFolder :: string
  Base64AccessKeyID :: string
  Base64SecretAccessKey :: string

definition pxfTestBucketName :: string where "pxfTestBucketName = ''pxf-test-data''"
definition pxfConfFolder :: string where "pxfConfFolder = ''integration-test-conf''"

definition pxfManifest :: "PXFYamlOptions \<Rightarrow> string" where
  "pxfManifest opts =
     (let q = [CHR 0x22]
      in ''---'' @ nl @ ''apiVersion: '' @ q @ ''greenplum.pivotal.io/v1beta1'' @ q @ nl @ ''kind: GreenplumPXFService'' @ nl @
         ''metadata:'' @ nl @ ''  name: my-greenplum-pxf'' @ nl @ ''spec:'' @ nl @
         ''  replicas: '' @ Itoa (NumReplicas opts) @ nl @ ''  cpu: '' @ q @ ''0.5'' @ q @ nl @ ''  memory: '' @ q @ ''1Gi'' @ q @ nl @
         ''  workerSelector: {}'' @
         ifPart (UseConfBucket opts)
           (nl @ ''  pxfConf:'' @ nl @ ''    s3Source:'' @ nl @ ''      secret: '' @ q @ ''my-greenplum-pxf-configs'' @ q @ nl @
            ''      endpoint: '' @ q @ ''storage.googleapis.com'' @ q @ nl @ ''      bucket: '' @ ConfBucketName opts @ nl @
            ''      folder: '' @ ConfBucketFolder opts @ nl @ ''---'' @ nl @ ''apiVersion: v1'' @ nl @ ''kind: Secret'' @ nl @
            ''metadata:'' @ nl @ ''  name: '' @ q @ ''my-greenplum-pxf-configs'' @ q @ nl @ ''type: Opaque'' @ nl @ ''data:'' @ nl @
            ''  access_key_id: '' @ Base64AccessKeyID opts @ nl @ ''  secret_access_key: '' @ Base64SecretAccessKey opts) @
         nl)"

definition GetPXFManifestYaml :: "int \<Rightarrow> PXFYamlOptions \<Rightarrow> string" where
  "GetPXFManifestYaml numReplicas opts =
     pxfManifest (opts\<lparr>NumReplicas := numReplicas, ConfBucketName := pxfTestBucketName, ConfBucketFolder := pxfConfFolder,
       Base64AccessKeyID := EncodeToString (AccessKeyID opts), Base64SecretAccessKey := EncodeToString (SecretAccessKey opts)\<rparr>)"

definition generateGSSiteContents :: "string \<Rightarrow> string \<Rightarrow> string" where
  "generateGSSiteContents accessKeyID secretAccessKey =
     (let t = [CHR 0x09];
          property = (\<lambda>n v. t @ ''<property>'' @ nl @ t @ t @ ''<name>'' @ n @ ''</name>'' @ nl @ t @ t @ ''<value>'' @ v @ ''</value>'' @ nl @
            t @ ''</property>'' @ nl)
      in nl @ ''<configuration>'' @ nl @
         property ''fs.s3a.endpoint'' ''https://storage.googleapis.com'' @
         property ''fs.s3a.access.key'' accessKeyID @
         property ''fs.s3a.secret.key'' secretAccessKey @
         ''</configuration>'' @ nl)"

section \<open>Lemmas\<close>

subsection \<open>Base64 can be read back\<close>

text \<open>The reader of the Kubernetes API for the \<open>data\<close> of a secret, as a reference.\<close>

definition b64_index :: "char \<Rightarrow> nat" where
  "b64_index c = length (takeWhile (\<lambda>d. d \<noteq> c) b64_alphabet)"

definition byte :: "nat \<Rightarrow> char" where
  "byte n = char_of (n mod 256)"

fun DecodeString :: "string \<Rightarrow> string" where
  "DecodeString (p # q # r # s # rest) =
     (let v = b64_index p * 262144 + b64_index q * 4096
      in if r = CHR ''='' then [byte (v div 65536)]
         else let v = v + b64_index r * 64
              in if s = CHR ''='' then [byte (v div 65536), byte (v div 256)]
                 else let v = v + b64_index s
                      in [byte (v div 65536), byte (v div 256), byte v] @ DecodeString rest)"
| "DecodeString s = []"

lemma b64_all: "list_all (\<lambda>n. b64_index (b64_char n) = n \<and> b64_char n \<noteq> CHR ''='') [0..<64]"
  by code_simp

lemma b64_index_char [simp]: "b64_index (b64_char n) = n mod 64"
proof -
  have "b64_char n = b64_char (n mod 64)" by (simp add: b64_char_def)
  then show ?thesis using b64_all by (simp add: list_all_iff)
qed

lemma b64_char_pad [simp]: "b64_char n \<noteq> CHR ''=''"
proof -
  have "b64_char n = b64_char (n mod 64)" by (simp add: b64_char_def)
  then show ?thesis using b64_all by (simp add: list_all_iff)
qed

lemma code_less [simp]: "code c < 256"
  by (simp add: code_def of_char_def)

lemma byte_code [simp]: "byte (code c) = c"
  by (simp add: byte_def code_def)

lemma sextets:
  fixes v :: nat
  assumes "v < 16777216"
  shows "v div 262144 mod 64 * 262144 + v div 4096 mod 64 * 4096 + v div 64 mod 64 * 64 + v mod 64 = v"
proof -
  have "v div 64 div 64 = v div 4096" "v div 4096 div 64 = v div 262144" by (simp_all add: div_mult2_eq [symmetric])
  moreover have "v div 262144 mod 64 = v div 262144" using assms by simp
  moreover have "v = v div 64 * 64 + v mod 64" by simp
  moreover have "v div 64 = v div 64 div 64 * 64 + v div 64 mod 64" by simp
  moreover have "v div 4096 = v div 4096 div 64 * 64 + v div 4096 mod 64" by simp
  ultimately show ?thesis by linarith
qed

lemma byte_shift: "byte (a * 256 + code c) = c"
  by (simp add: byte_def code_def)

lemma three_bytes:
  fixes a b c :: nat
  assumes "a < 256" "b < 256" "c < 256"
  shows "(a * 65536 + b * 256 + c) div 65536 = a" "(a * 65536 + b * 256 + c) div 256 = a * 256 + b"
  using assms by (auto intro!: div_nat_eqI)

lemma Decode_four:
  assumes "v < 16777216"
  shows "DecodeString (b64_char (v div 262144) # b64_char (v div 4096) # b64_char (v div 64) # b64_char v # rest) =
    [byte (v div 65536), byte (v div 256), byte v] @ DecodeString rest"
  unfolding DecodeString.simps Let_def b64_index_char sextets [OF assms] by simp

lemma Decode_three:
  assumes "v < 16777216" "v mod 64 = 0"
  shows "DecodeString [b64_char (v div 262144), b64_char (v div 4096), b64_char (v div 64), CHR ''=''] = [byte (v div 65536), byte (v div 256)]"
proof -
  have "v div 262144 mod 64 * 262144 + v div 4096 mod 64 * 4096 + v div 64 mod 64 * 64 = v" using sextets [OF assms(1)] assms(2) by linarith
  then show ?thesis unfolding DecodeString.simps Let_def b64_index_char by (simp only: b64_char_pad if_False if_True refl)
qed

lemma Decode_two:
  assumes "v < 16777216" "v mod 4096 = 0"
  shows "DecodeString [b64_char (v div 262144), b64_char (v div 4096), CHR ''='', CHR ''=''] = [byte (v div 65536)]"
proof -
  have "v mod 64 = 0" "v div 64 mod 64 = 0"
    using assms(2) by (auto simp: mod_mult2_eq [of v 64 64, simplified])
  then have "v div 262144 mod 64 * 262144 + v div 4096 mod 64 * 4096 = v" using sextets [OF assms(1)] by linarith
  then show ?thesis unfolding DecodeString.simps Let_def b64_index_char by (simp only: if_True refl)
qed

lemma Decode_Encode: "DecodeString (EncodeToString s) = s"
proof (induction s rule: EncodeToString.induct)
  case (2 a)
  have a: "code a < 256" by simp
  have "code a * 65536 = code a * 16 * 4096" by simp
  then have "code a * 65536 mod 4096 = 0" by (metis mod_mult_self2_is_0)
  then have "DecodeString (EncodeToString [a]) = [byte (code a * 65536 div 65536)]"
    unfolding EncodeToString.simps Let_def using a by (intro Decode_two) simp_all
  then show ?case by simp
next
  case (3 a b)
  let ?v = "code a * 65536 + code b * 256"
  have c: "code a < 256" "code b < 256" by simp_all
  have "?v = (code a * 1024 + code b * 4) * 64" by simp
  then have "?v mod 64 = 0" by (metis mod_mult_self2_is_0)
  moreover have "?v < 16777216" using c by linarith
  ultimately have "DecodeString (EncodeToString [a, b]) = [byte (?v div 65536), byte (?v div 256)]"
    unfolding EncodeToString.simps Let_def by (intro Decode_three)
  moreover have "?v div 65536 = code a" "?v div 256 = code a * 256 + code b" using three_bytes [OF c, of 0] by simp_all
  ultimately show ?case by (simp only: byte_code byte_shift)
next
  case (4 a b c rest)
  let ?v = "code a * 65536 + code b * 256 + code c"
  have c: "code a < 256" "code b < 256" "code c < 256" by simp_all
  have "?v = (code a * 256 + code b) * 256 + code c" by simp
  then have last: "byte ?v = c" by (simp only: byte_shift)
  have "?v < 16777216" using c by linarith
  then have "DecodeString (EncodeToString (a # b # c # rest)) = [byte (?v div 65536), byte (?v div 256), byte ?v] @ rest"
    unfolding EncodeToString.simps Let_def using Decode_four [of ?v] 4 by (simp only: append.simps)
  then show ?case unfolding last three_bytes [OF c] by (simp add: byte_shift)
qed simp

subsection \<open>The lines of a manifest\<close>

definition affine :: "GpYamlOptions \<Rightarrow> bool" where
  "affine opts \<longleftrightarrow> \<not> yo_IsSingleNode opts \<and> yo_Mirrors opts = ''yes'' \<and> yo_Standby opts = ''yes''"

definition quoted :: "string \<Rightarrow> string" where
  "quoted s = [CHR 0x22] @ s @ [CHR 0x22]"

definition podLines :: "sprig \<Rightarrow> GpYamlOptions \<Rightarrow> string \<Rightarrow> string list" where
  "podLines S opts storage =
     (if yo_IsSingleNode opts then [] else [''    memory: '' @ quoted ''800Mi'', ''    cpu: '' @ quoted ''0.5'']) @
     [''    storageClassName: '' @ sprig_quote S (sprig_default S (DefaultStorageClass opts) (yo_StorageClass opts)),
      ''    storage: '' @ sprig_quote S storage] @
     (if affine opts then [''    antiAffinity: '' @ quoted ''yes''] else [])"

definition manifestLines :: "sprig \<Rightarrow> GpYamlOptions \<Rightarrow> string list" where
  "manifestLines S opts =
     [''---'', ''apiVersion: '' @ quoted (''greenplum.pivotal.io/'' @ APIVersion opts), ''kind: '' @ quoted ''GreenplumCluster'',
      ''metadata:'', ''  name: my-greenplum'', ''spec:'', ''  masterAndStandby:'', ''    hostBasedAuthentication: '' @ quoted []] @
     podLines S opts (sprig_default S ''1G'' (MasterStorage opts)) @
     (if yo_Standby opts = [] then [] else [''    standby: '' @ sprig_quote S (yo_Standby opts)]) @
     [''  segments:'', ''    primarySegmentCount: '' @ Itoa (yo_PrimarySegmentCount opts)] @
     podLines S opts (sprig_default S ''2G'' (SegmentStorage opts)) @
     (if yo_Mirrors opts = [] then [] else [''    mirrors: '' @ sprig_quote S (yo_Mirrors opts)]) @
     (if PXFService opts = [] then [] else [''  pxf:'', ''    serviceName: '' @ sprig_quote S (PXFService opts)])"

definition unlines :: "string list \<Rightarrow> string" where
  "unlines ls = concat (map (\<lambda>l. l @ nl) ls)"

lemma greenplumClusterManifest_lines: "greenplumClusterManifest S opts = unlines (manifestLines S opts)"
  by (simp add: greenplumClusterManifest_def manifestLines_def podLines_def affine_def quoted_def unlines_def ifPart_def nl_def Let_def)

text \<open>The cluster such a manifest describes: what is not written has the default of the schema.\<close>

definition manifestSpec :: "GpYamlOptions \<Rightarrow> GreenplumClusterSpec \<Rightarrow> bool" where
  "manifestSpec opts spec \<longleftrightarrow>
     gp_AntiAffinity (MasterAndStandby spec) = (if affine opts then ''yes'' else ''no'') \<and>
     gp_AntiAffinity (Segments spec) = (if affine opts then ''yes'' else ''no'') \<and>
     Standby (MasterAndStandby spec) = (if yo_Standby opts = [] then ''no'' else yo_Standby opts) \<and>
     Mirrors (Segments spec) = (if yo_Mirrors opts = [] then ''no'' else yo_Mirrors opts)"

lemma manifest_affinity_ok: "manifestSpec opts spec \<Longrightarrow> affinity_ok spec"
  by (auto simp: manifestSpec_def affinity_ok_def affine_def split: if_splits)

text \<open>The options the template is executed with.\<close>

definition completed :: "int \<Rightarrow> storage_class list \<Rightarrow> bool \<Rightarrow> GpYamlOptions \<Rightarrow> GpYamlOptions" where
  "completed n classes single opts =
     opts\<lparr>APIVersion := (if APIVersion opts = [] then ''v1'' else APIVersion opts), yo_PrimarySegmentCount := n,
       DefaultStorageClass := (case find isDefaultClass classes of None \<Rightarrow> ''standard'' | Some c \<Rightarrow> sc_Name c),
       yo_IsSingleNode := single\<rparr>"

section \<open>Properties\<close>

text \<open>A manifest that is produced has exactly the expected lines, for the options of the test
  completed by the API version, the number of segments, the default storage class of the cluster and the
  number of its nodes; and the webhook's anti-affinity rule holds for the cluster it describes, whatever
  the options are.\<close>

theorem manifest_yaml_reference:
  assumes "GetGreenplumManifestYaml sh S unmarshal n opts once w = (Done yaml, m, w')"
  shows "\<exists>out classes single u. unmarshal out = Some classes \<and>
    kubectl sh [''get'', ''storageclasses'', ''-o'', ''json''] w = ((out, None), u) \<and>
    IsSingleNodeOnce sh once u = (Some single, m, w') \<and>
    yaml = unlines (manifestLines S (completed n classes single opts)) \<and>
    (\<forall>spec. manifestSpec (completed n classes single opts) spec \<longrightarrow> affinity_ok spec)"
proof -
  obtain sc u single where sc: "GetDefaultStorageClass sh unmarshal w = (Done sc, u)"
    and single: "IsSingleNodeOnce sh once u = (Some single, m, w')"
    and yaml: "yaml = greenplumClusterManifest S
      ((case sc of None \<Rightarrow> (if APIVersion opts = [] then opts\<lparr>APIVersion := ''v1''\<rparr> else opts)
            \<lparr>yo_PrimarySegmentCount := n, DefaultStorageClass := ''standard''\<rparr>
        | Some c \<Rightarrow> (if APIVersion opts = [] then opts\<lparr>APIVersion := ''v1''\<rparr> else opts)
            \<lparr>yo_PrimarySegmentCount := n, DefaultStorageClass := sc_Name c\<rparr>)\<lparr>yo_IsSingleNode := single\<rparr>)"
    using assms by (auto simp: GetGreenplumManifestYaml_def Let_def split: prod.splits outcome.splits option.splits)
  obtain out classes where out: "kubectl sh [''get'', ''storageclasses'', ''-o'', ''json''] w = ((out, None), u)"
    "unmarshal out = Some classes" "sc = find isDefaultClass classes"
    using sc by (auto simp: GetDefaultStorageClass_def step_Done split: option.splits)
  have "yaml = unlines (manifestLines S (completed n classes single opts))"
    unfolding yaml out(3) greenplumClusterManifest_lines completed_def by (cases opts) (auto split: option.splits)
  then show ?thesis using out(1,2) single manifest_affinity_ok by blast
qed

text \<open>The secret that goes with the manifest of a PXF service holds the keys of the test: what the API server
  decodes from it is what was encoded.\<close>

lemma pxf_secret_round_trip:
  assumes "UseConfBucket opts"
  shows "\<exists>pre k1 k2. GetPXFManifestYaml n opts =
      pre @ ''data:'' @ nl @ ''  access_key_id: '' @ k1 @ nl @ ''  secret_access_key: '' @ k2 @ nl \<and>
    DecodeString k1 = AccessKeyID opts \<and> DecodeString k2 = SecretAccessKey opts"
proof -
  let ?o = "opts\<lparr>NumReplicas := n, ConfBucketName := pxfTestBucketName, ConfBucketFolder := pxfConfFolder,
       Base64AccessKeyID := EncodeToString (AccessKeyID opts), Base64SecretAccessKey := EncodeToString (SecretAccessKey opts)\<rparr>"
  have o: "UseConfBucket ?o = True" "Base64AccessKeyID ?o = EncodeToString (AccessKeyID opts)"
    "Base64SecretAccessKey ?o = EncodeToString (SecretAccessKey opts)" using assms by simp_all
  have "\<exists>pre. GetPXFManifestYaml n opts = pre @ ''data:'' @ nl @ ''  access_key_id: '' @ EncodeToString (AccessKeyID opts) @ nl @
      ''  secret_access_key: '' @ EncodeToString (SecretAccessKey opts) @ nl"
    unfolding GetPXFManifestYaml_def pxfManifest_def Let_def ifPart_def o append_assoc [symmetric] append_same_eq if_True
    by blast
  then show ?thesis using Decode_Encode by blast
qed

end
