(* ===== verification/Integration.thy ===== *)
theory Integration
  imports Manifests Pxf_Start
begin

text \<open>
  The steps of the integration tests (\<open>pkg/integrationutils\<close>): installing and removing the operator and a
  cluster by helm and kubectl, labelling the nodes, checking data and versions, letting the service
  in by \<open>pg_hba.conf\<close>. Commands, files and decoders are parameters; log lines and printed output are
  left out. The lemmas say what a step that did not fail has done and seen, and in which order.
\<close>

section \<open>Definitions\<close>

subsection \<open>The environment of the tests\<close>

record test_flags =
  GreenplumImageRepository :: string
  GreenplumImageTag :: string
  OperatorImageRepository :: string
  OperatorImageTag :: string
  releaseDir :: string
  oldReleaseDir :: string
  basepath :: string

text \<open>What \<open>yaml.Unmarshal\<close> gives for a value of any type.\<close>

datatype yaml = YString string | YList "yaml list" | YMap "(string \<times> yaml) list" | YOther

text \<open>The minio client: \<open>BucketExists\<close>, \<open>MakeBucket\<close>, \<open>StatObject\<close>, \<open>PutObject\<close>.\<close>

record 's minio =
  mc_BucketExists :: "string \<Rightarrow> 's \<Rightarrow> bool result \<times> 's"
  mc_MakeBucket :: "string \<Rightarrow> string \<Rightarrow> 's \<Rightarrow> unit result \<times> 's"
  mc_StatObject :: "string \<Rightarrow> string \<Rightarrow> 's \<Rightarrow> unit result \<times> 's"
  mc_PutObject :: "string \<Rightarrow> string \<Rightarrow> string \<Rightarrow> 's \<Rightarrow> unit result \<times> 's"

record 's test_env =
  te_shell :: "'s shell"
  te_psql :: "'s psql_env"
  te_flags :: test_flags
  te_ReadFile :: "string \<Rightarrow> ('s, string result) io"
  te_Getenv :: "string \<Rightarrow> string"
  te_TempDir :: "string \<Rightarrow> ('s, string result) io"
  te_WriteFile :: "string \<Rightarrow> string \<Rightarrow> ('s, unit result) io"
  te_RemoveAll :: "string \<Rightarrow> ('s, unit result) io"
  te_Yaml :: "string \<Rightarrow> yaml option"
  te_isExitError :: "go_error \<Rightarrow> bool"
  te_PollImmediate :: "((string \<times> int) \<times> 's world) poll_fn"
  te_minio :: "'s minio"

abbreviation kube :: "'s test_env \<Rightarrow> string list \<Rightarrow> ('s, string \<times> go_error option) step" where
  "kube E args \<equiv> doing (kubectl (te_shell E) args)"

text \<open>A command that must not fail, with its output.\<close>

definition kubeOk :: "'s test_env \<Rightarrow> string list \<Rightarrow> ('s, string) step" where
  "kubeOk E args = andThenS (kube E args) (\<lambda>(out, err). andThenS (expect (err = None)) (\<lambda>u. pureS out))"

text \<open>\<open>cmd.Run()\<close> whose error is ignored.\<close>

definition kubeRun :: "'s test_env \<Rightarrow> string list \<Rightarrow> ('s, unit) step" where
  "kubeRun E args = andThenS (doing (shell_Run (te_shell E) args)) (\<lambda>err. pureS ())"

subsection \<open>Paths and versions\<close>

definition OldOperatorVersion :: string where "OldOperatorVersion = ''v2.2.0''"

text \<open>The optional second argument of \<open>ReleasePath\<close> is the path in the source, when it differs.\<close>

definition ReleasePath :: "test_flags \<Rightarrow> string \<Rightarrow> string list \<Rightarrow> string" where
  "ReleasePath F inRelease inSource =
     (let inSourceDir = (case inSource of [] \<Rightarrow> inRelease | d # ds \<Rightarrow> d)
      in if releaseDir F \<noteq> [] then path_Join [releaseDir F, inRelease] else path_Join [''../../..'', inSourceDir])"

record SetupOperatorOptions =
  o_OperatorImageRepository :: string
  o_OperatorImageTag :: string
  o_GreenplumImageRepository :: string
  o_GreenplumImageTag :: string
  o_OperatorPath :: string
  o_Upgrade :: bool

definition WithUpgrade :: "SetupOperatorOptions \<Rightarrow> SetupOperatorOptions" where
  "WithUpgrade opts = opts\<lparr>o_Upgrade := True\<rparr>"

definition CurrentOperatorOptions :: "test_flags \<Rightarrow> SetupOperatorOptions" where
  "CurrentOperatorOptions F =
     \<lparr>o_OperatorImageRepository = OperatorImageRepository F, o_OperatorImageTag = OperatorImageTag F,
      o_GreenplumImageRepository = GreenplumImageRepository F, o_GreenplumImageTag = GreenplumImageTag F,
      o_OperatorPath = ReleasePath F ''operator'' [''greenplum-operator/operator''], o_Upgrade = False\<rparr>"

definition OldOperatorOptions :: "test_flags \<Rightarrow> SetupOperatorOptions" where
  "OldOperatorOptions F =
     \<lparr>o_OperatorImageRepository = OperatorImageRepository F, o_OperatorImageTag = OldOperatorVersion,
      o_GreenplumImageRepository = GreenplumImageRepository F, o_GreenplumImageTag = OldOperatorVersion,
      o_OperatorPath = oldReleaseDir F @ ''/operator'', o_Upgrade = False\<rparr>"

subsection \<open>The operator\<close>

definition EnsureRegSecretIsCreated :: "'s test_env \<Rightarrow> ('s, unit) step" where
  "EnsureRegSecretIsCreated E =
     andThenS (doing (shell_Run (te_shell E) [''get'', ''secret'', ''regsecret''])) (\<lambda>err.
       if err = None then pureS ()
       else andThenS (doing (te_ReadFile E (basepath (te_flags E) @ ''/../../greenplum-operator/operator/key.json''))) (\<lambda>r.
            let keyJSON = (case r of Inl err \<Rightarrow> te_Getenv E ''GCP_SVC_ACCT_KEY'' | Inr bytes \<Rightarrow> bytes)
            in andThenS (expect (keyJSON \<noteq> [])) (\<lambda>u.
               kubeRun E [''create'', ''secret'', ''docker-registry'', ''regsecret'', ''--docker-server=https://gcr.io'',
                 ''--docker-username=_json_key'', ''--docker-password='' @ keyJSON])))"

definition helmArgs :: "SetupOperatorOptions \<Rightarrow> string list" where
  "helmArgs opts =
     [if o_Upgrade opts then ''upgrade'' else ''install''] @
     [''--wait'', ''greenplum-operator'', ''--timeout'', ''3m20s''] @ [o_OperatorPath opts] @
     [''--set'', ''operatorImageRepository='' @ o_OperatorImageRepository opts] @
     [''--set'', ''operatorImageTag='' @ o_OperatorImageTag opts] @
     [''--set'', ''greenplumImageRepository='' @ o_GreenplumImageRepository opts] @
     [''--set'', ''greenplumImageTag='' @ o_GreenplumImageTag opts] @ [''--set'', ''logLevel=debug'']"

definition SetupOperator :: "'s test_env \<Rightarrow> SetupOperatorOptions \<Rightarrow> ('s, unit) step" where
  "SetupOperator E opts =
     andThenS (doing (CombinedOutput (te_shell E) ''helm'' (helmArgs opts))) (\<lambda>(output, err).
     andThenS
       (if err \<noteq> None
        then andThenS (kubeRun E [''describe'', ''pod'', ''greenplum-operator-''])
               (\<lambda>u. kubeRun E [''logs'', ''-l'', ''name=greenplum-operator''])
        else pureS ()) (\<lambda>u.
     andThenS (expect (err = None)) (\<lambda>u.
     andThenS (expectSuccess (ForPodState (te_shell E) ''greenplum-operator'' ''Running'')) (\<lambda>u.
     andThenS (expectSuccess (ForResource (te_shell E) ''crd'' ''greenplumclusters.greenplum.pivotal.io'')) (\<lambda>u.
     expectSuccess (ForAPIResource (te_shell E) ''greenplum.pivotal.io'' ''greenplumclusters''))))))"

definition KubeDelete :: "'s test_env \<Rightarrow> string list \<Rightarrow> ('s, go_error option) step" where
  "KubeDelete E resources =
     doing (shell_Run (te_shell E) ([''delete'', ''--wait'', ''--grace-period=0'', ''--force''] @ resources))"

text \<open>The charts that \<open>helm list\<close> prints, one on each line.\<close>

definition uninstallChart :: "'s test_env \<Rightarrow> string \<Rightarrow> ('s, unit) step" where
  "uninstallChart E chart =
     (if chart = [] then pureS ()
      else andThenS (doing (CombinedOutput (te_shell E) ''helm'' [''uninstall'', chart])) (\<lambda>(out, err). expect (err = None)))"

definition DeleteAllCharts :: "'s test_env \<Rightarrow> ('s, unit) step" where
  "DeleteAllCharts E =
     andThenS (doing (CombinedOutput (te_shell E) ''helm'' [''list'', ''-aq''])) (\<lambda>(out, err).
     andThenS (expect (err = None)) (\<lambda>u.
     if out = [] then pureS () else forEach (Split out (CHR 0x0A)) (uninstallChart E)))"

definition ignoring :: "('s, 'a) step \<Rightarrow> ('s, unit) step" where
  "ignoring f = andThenS f (\<lambda>x. pureS ())"

definition CleanUpK8s :: "'s test_env \<Rightarrow> ('s, unit) step" where
  "CleanUpK8s E =
     andThenS (ignoring (KubeDelete E [''--all'', ''greenplumclusters''])) (\<lambda>u.
     andThenS (DeleteAllCharts E) (\<lambda>u.
     andThenS (ignoring (KubeDelete E
       [''configmaps/greenplum-config'', ''statefulsets/master'', ''statefulset/segment-a'', ''statefulset/segment-b'',
        ''secrets/ssh-secrets'', ''secrets/regsecret'', ''service/agent'', ''service/greenplum''])) (\<lambda>u.
     andThenS (forEach [''greenplum-operator'', ''master'', ''segment-a'', ''segment-b'']
       (\<lambda>pod. expectSuccess (ForPodDestroyed (te_shell E) pod))) (\<lambda>u.
     andThenS (ignoring (KubeDelete E [''--all'', ''pvc''])) (\<lambda>u.
     andThenS (ignoring (KubeDelete E [''--all'', ''events''])) (\<lambda>u.
     ignoring (KubeDelete E
       [''crd/greenplumclusters.greenplum.pivotal.io'', ''deployment.apps/greenplum-operator'',
        ''service/greenplum-validating-webhook'', ''validatingwebhookconfiguration/greenplum-validating-webhook'',
        ''certificatesigningrequest/greenplum-validating-webhook''])))))))"

subsection \<open>A cluster\<close>

definition VerifyPVCsAreDeleted :: "'s test_env \<Rightarrow> ('s, unit) step" where
  "VerifyPVCsAreDeleted E =
     andThenS (kubeOk E [''get'', ''pvc'', ''-l'', ''greenplum-cluster=my-greenplum'']) (\<lambda>out.
     expect (out = ''No resources found in default namespace.'' @ nl))"

definition CreateTempFile :: "'s test_env \<Rightarrow> string \<Rightarrow> ('s, string \<times> string) step" where
  "CreateTempFile E contents =
     andThenS (doing (te_TempDir E ''gpdb-integration'')) (\<lambda>r.
     case r of
       Inl err \<Rightarrow> andThenS (expect False) (\<lambda>u. pureS ([], []))
     | Inr tempDir \<Rightarrow>
         (let tempFile = path_Join [tempDir, ''gpdb-integration-temp.yaml'']
          in andThenS (expectSuccess (te_WriteFile E tempFile contents)) (\<lambda>u. pureS (tempDir, tempFile))))"

definition ApplyManifest :: "'s test_env \<Rightarrow> string \<Rightarrow> ('s, string \<times> go_error option) step" where
  "ApplyManifest E manifestYamlFileName = kube E [''apply'', ''-f'', manifestYamlFileName]"

definition SetupGreenplumCluster :: "'s test_env \<Rightarrow> string \<Rightarrow> ('s, unit) step" where
  "SetupGreenplumCluster E gpdbYamlFile =
     andThenS (ApplyManifest E gpdbYamlFile) (\<lambda>(out, err).
     andThenS
       (if err \<noteq> None
        then andThenS (kubeRun E [''describe'', ''greenplumcluster'', ''my-greenplum'']) (\<lambda>u. kubeRun E [''logs'', ''master-0''])
        else pureS ()) (\<lambda>u.
     andThenS (expect (err = None)) (\<lambda>u.
     expect (Contains out ''my-greenplum''))))"

definition DeleteGreenplumCluster :: "'s test_env \<Rightarrow> ('s, unit) step" where
  "DeleteGreenplumCluster E =
     andThenS (kubeOk E [''delete'', ''greenplumcluster/my-greenplum'']) (\<lambda>out.
     andThenS (expect (Contains out ''my-greenplum'')) (\<lambda>u.
     andThenS (expect (Contains out ''deleted'')) (\<lambda>u.
     andThenS (expectSuccess (ForPodDestroyed (te_shell E) ''master-0'')) (\<lambda>u.
     andThenS (expectSuccess (ForPodDestroyed (te_shell E) ''segment-a-0'')) (\<lambda>u.
     expectSuccess (ForPodDestroyed (te_shell E) ''segment-b-0''))))))"

definition CleanupGreenplumCluster :: "'s test_env \<Rightarrow> ('s, unit) step" where
  "CleanupGreenplumCluster E =
     andThenS (DeleteGreenplumCluster E) (\<lambda>u.
     andThenS (KubeDelete E [''--all'', ''pvc'']) (\<lambda>err.
     andThenS (expect (err = None)) (\<lambda>u. VerifyPVCsAreDeleted E)))"

text \<open>The service names of the tests need no escapes in \<open>%q\<close>.\<close>

definition CleanupComponentService :: "'s test_env \<Rightarrow> string \<Rightarrow> string \<Rightarrow> string \<Rightarrow> ('s, unit) step" where
  "CleanupComponentService E tempdir yamlFileName serviceName =
     andThenS (kubeOk E [''delete'', ''-f'', yamlFileName]) (\<lambda>out.
     andThenS (expect (Contains out (quoted serviceName @ '' deleted''))) (\<lambda>u.
     andThenS (expectSuccess (te_RemoveAll E tempdir)) (\<lambda>u.
     expectSuccess (ForPodDestroyed (te_shell E) serviceName))))"

definition DeleteGreenplumClusterIfExists :: "'s test_env \<Rightarrow> ('s, unit) step" where
  "DeleteGreenplumClusterIfExists E =
     andThenS (kube E [''get'', ''greenplumclusters'', ''my-greenplum'']) (\<lambda>(out, err).
       if err = None \<or> \<not> Contains out ''not found'' then DeleteGreenplumCluster E else pureS ())"

definition KubeExec :: "'s test_env \<Rightarrow> string \<Rightarrow> string \<Rightarrow> ('s, string \<times> go_error option) step" where
  "KubeExec E hostName command = kube E [''exec'', ''-i'', hostName, ''--'', ''bash'', ''-c'', command]"

definition CheckCleanClusterStartup :: "'s test_env \<Rightarrow> ('s, unit) step" where
  "CheckCleanClusterStartup E =
     andThenS (kubeOk E [''logs'', ''master-0'']) (\<lambda>out.
     expect (\<not> Contains out ''[WARNING]:-postmaster.pid file exists on Master, checking if recovery startup required''))"

subsection \<open>Data\<close>

definition VerifyDataThroughService :: "'s test_env \<Rightarrow> int \<Rightarrow> 's world \<Rightarrow> unit outcome \<times> int \<times> 's world" where
  "VerifyDataThroughService E once w =
     (case ForPsqlQueryThroughService (te_shell E) (te_psql E) ''select * from foo'' ''1'' once w of
        None \<Rightarrow> (Panics, once, w)
      | Some (Inl err, n, w1) \<Rightarrow> (TestFails, n, w1)
      | Some (Inr u, n, w1) \<Rightarrow> (Done (), n, w1))"

definition VerifyData :: "'s test_env \<Rightarrow> ('s, unit) step" where
  "VerifyData E = expectSuccess (ForPsqlQuery (te_shell E) ''select * from foo'' ''1'')"

definition queryOk :: "'s test_env \<Rightarrow> string \<Rightarrow> ('s, string) step" where
  "queryOk E command =
     andThenS (doing (QueryWithRetry (te_shell E) ''master-0'' command)) (\<lambda>(out, err).
     andThenS (expect (err = None)) (\<lambda>u. pureS out))"

definition LoadData :: "'s test_env \<Rightarrow> ('s, unit) step" where
  "LoadData E =
     andThenS (queryOk E ''CREATE TABLE foo(a int);'') (\<lambda>out.
     andThenS (queryOk E ''INSERT INTO foo VALUES (1)'') (\<lambda>out.
     andThenS (queryOk E ''SELECT * FROM foo'') (\<lambda>out.
     expect (TrimSpace out = ''1''))))"

subsection \<open>Versions\<close>

definition VerifyGreenplumForKubernetesVersion :: "'s test_env \<Rightarrow> string \<Rightarrow> string \<Rightarrow> ('s, unit) step" where
  "VerifyGreenplumForKubernetesVersion E pod version =
     andThenS (kubeOk E [''get'', ''pod'', pod, ''-o'', ''jsonpath={.spec.containers[0].image}'']) (\<lambda>out.
     expect (Contains out version))"

definition VerifyStatusInstanceImage :: "'s test_env \<Rightarrow> string \<Rightarrow> ('s, unit) step" where
  "VerifyStatusInstanceImage E version =
     andThenS (kubeOk E [''get'', ''greenplumCluster'', ''-o'', ''jsonpath={.items[0].status.instanceImage}'']) (\<lambda>out.
     expect (out = GreenplumImageRepository (te_flags E) @ '':'' @ version))"

definition VerifyStatusOperatorVersion :: "'s test_env \<Rightarrow> string \<Rightarrow> ('s, unit) step" where
  "VerifyStatusOperatorVersion E version =
     andThenS (kubeOk E [''get'', ''greenplumCluster'', ''-o'', ''jsonpath={.items[0].status.operatorVersion}'']) (\<lambda>out.
     expect (out = OperatorImageRepository (te_flags E) @ '':'' @ version))"

subsection \<open>Access through the service\<close>

text \<open>
  The regular expression: a sequence of character classes, each for one character or for one or more,
  matched at the first position where it matches, longer repetitions first; a dot is any character but
  a newline, also in \<open>pg_hba.conf\<close> and between the numbers of the address.
\<close>

type_synonym re_item = "(char \<Rightarrow> bool) \<times> bool"

fun matchItems :: "re_item list \<Rightarrow> string \<Rightarrow> string option" where
  "matchItems [] s = Some []"
| "matchItems ((p, rep) # items) [] = None"
| "matchItems ((p, rep) # items) (c # s) =
     (if \<not> p c then None
      else case (if rep then matchItems ((p, rep) # items) s else None) of
             Some m \<Rightarrow> Some (c # m)
           | None \<Rightarrow> map_option (Cons c) (matchItems items s))"

definition anyChar :: "char \<Rightarrow> bool" where
  "anyChar c = (c \<noteq> CHR 0x0A)"

definition literal :: "string \<Rightarrow> re_item list" where
  "literal s = map (\<lambda>c. (\<lambda>d. d = c, False)) s"

definition hbaPrefix :: "re_item list" where
  "hbaPrefix = literal ''psql: FATAL:  no pg_hba'' @ [(anyChar, False)] @ literal ''conf entry for host '' @ literal [CHR 0x22]"

definition hbaAddress :: "re_item list" where
  "hbaAddress =
     [(is_digit, True), (anyChar, False), (is_digit, True), (anyChar, False), (is_digit, True), (anyChar, False), (is_digit, True)]"

fun FindMatch :: "re_item list \<Rightarrow> string \<Rightarrow> string option" where
  "FindMatch items [] = matchItems items []"
| "FindMatch items (c # s) = (case matchItems items (c # s) of Some m \<Rightarrow> Some m | None \<Rightarrow> FindMatch items s)"

text \<open>The group: what is matched without the prefix, whose items are single characters, and the closing quote.\<close>

definition FindSubmatch :: "string \<Rightarrow> string option" where
  "FindSubmatch out =
     map_option (\<lambda>m. butlast (drop (length hbaPrefix) m)) (FindMatch (hbaPrefix @ hbaAddress @ literal [CHR 0x22]) out)"

definition hbaEntry :: "string \<Rightarrow> string" where
  "hbaEntry ip = ''host  all  gpadmin  '' @ ip @ ''/32  trust''"

text \<open>The condition of the poll; it sets the result of the function around it. The integer is that of \<open>IsSingleNode\<close>.\<close>

definition unexpectedOutput :: "string \<Rightarrow> go_error option \<Rightarrow> go_error" where
  "unexpectedOutput out err =
     (case err of
        None \<Rightarrow> Err (''psql query had unexpected output: '' @ out @ '', %!w(<nil>)'')
      | Some e \<Rightarrow> Err (''psql query had unexpected output: '' @ out @ '', '' @ Error e))"

definition hbaCondition :: "'s test_env \<Rightarrow> (string \<times> int) \<times> 's world \<Rightarrow> bool result \<times> (string \<times> int) \<times> 's world" where
  "hbaCondition E s =
     (case s of ((result, once), w) \<Rightarrow>
      case ExecutePsqlQueryThroughService (te_shell E) (te_psql E) (''select '' @ [CHR 0x27] @ ''connected'' @ [CHR 0x27]) once w of
        (None, n, w1) \<Rightarrow> (Inl (Err ''panic''), (result, -1), w1)
      | (Some (out, err), n, w1) \<Rightarrow>
          (let rest = (if Contains out ''connected'' then (Inr True, ([], n), w1)
                       else (Inl (unexpectedOutput out err), (result, n), w1))
           in if (case err of None \<Rightarrow> False | Some e \<Rightarrow> te_isExitError E e)
              then (case FindSubmatch out of
                      Some ip \<Rightarrow> (Inr True, (hbaEntry ip, n), w1)
                    | None \<Rightarrow>
                        (if HasPrefix out ''psql: could not connect to server: Connection timed out''
                         then (Inr False, (result, n), w1) else rest))
              else rest))"

definition GetAdditionalHBAEntryForService ::
  "'s test_env \<Rightarrow> int \<Rightarrow> 's world \<Rightarrow> string result outcome \<times> int \<times> 's world"
where
  "GetAdditionalHBAEntryForService E once w =
     (case te_PollImmediate E second (20 * second) (hbaCondition E) (([], once), w) of
        (r, (result, n), w1) \<Rightarrow>
          (if n = -1 then (Panics, n, w1)
           else (Done (case r of Inl err \<Rightarrow> Inl err | Inr u \<Rightarrow> Inr result), n, w1)))"

definition kubeExecOk :: "'s test_env \<Rightarrow> string \<Rightarrow> string \<Rightarrow> ('s, string) step" where
  "kubeExecOk E host command =
     andThenS (KubeExec E host command) (\<lambda>(out, err). andThenS (expect (err = None)) (\<lambda>u. pureS out))"

text \<open>The output of \<open>cat\<close> is checked before its error.\<close>

definition addHbaEntry :: "'s test_env \<Rightarrow> string \<Rightarrow> string \<Rightarrow> ('s, unit) step" where
  "addHbaEntry E masterPodName entry =
     (if entry = [] then pureS ()
      else andThenS (kubeExecOk E masterPodName (''echo '' @ [CHR 0x22] @ entry @ [CHR 0x22] @ '' >> /greenplum/data-1/pg_hba.conf'')) (\<lambda>out.
           andThenS (KubeExec E masterPodName ''cat /greenplum/data-1/pg_hba.conf'') (\<lambda>(pgHbaFile, err).
           andThenS (expect (Contains pgHbaFile entry)) (\<lambda>u.
           andThenS (expect (err = None)) (\<lambda>u.
           andThenS (kubeExecOk E masterPodName ''source /usr/local/greenplum-db/greenplum_path.sh && gpstop -u'') (\<lambda>out. pureS ()))))))"

definition AddHbaToAllowAccessToGreenplumThroughService ::
  "'s test_env \<Rightarrow> string \<Rightarrow> int \<Rightarrow> 's world \<Rightarrow> unit outcome \<times> int \<times> 's world"
where
  "AddHbaToAllowAccessToGreenplumThroughService E masterPodName once w =
     (case GetAdditionalHBAEntryForService E once w of
        (Done (Inr entry), n, w1) \<Rightarrow> (case addHbaEntry E masterPodName entry w1 of (r, w2) \<Rightarrow> (r, n, w2))
      | (Done (Inl err), n, w1) \<Rightarrow> (TestFails, n, w1)
      | (TestFails, n, w1) \<Rightarrow> (TestFails, n, w1)
      | (Panics, n, w1) \<Rightarrow> (Panics, n, w1))"

subsection \<open>Nodes and pods\<close>

text \<open>A type assertion \<open>v.(T)\<close> that does not hold panics; the value of a missing key is nil.\<close>

definition yget :: "string \<Rightarrow> yaml \<Rightarrow> yaml outcome" where
  "yget k y = (case y of YMap kvs \<Rightarrow> (case map_of kvs k of Some v \<Rightarrow> Done v | None \<Rightarrow> Done YOther) | _ \<Rightarrow> Panics)"

definition ystring :: "yaml outcome \<Rightarrow> string outcome" where
  "ystring r = (case r of Done (YString s) \<Rightarrow> Done s | TestFails \<Rightarrow> TestFails | _ \<Rightarrow> Panics)"

definition yin :: "string \<Rightarrow> yaml outcome \<Rightarrow> yaml outcome" where
  "yin k r = (case r of Done y \<Rightarrow> yget k y | TestFails \<Rightarrow> TestFails | Panics \<Rightarrow> Panics)"

text \<open>A text that is no YAML leaves the map nil, and the assertion on its \<open>items\<close> panics.\<close>

definition yamlItems :: "yaml option \<Rightarrow> yaml list outcome" where
  "yamlItems doc =
     (case doc of
        Some (YMap kvs) \<Rightarrow> (case map_of kvs ''items'' of Some (YList ys) \<Rightarrow> Done ys | _ \<Rightarrow> Panics)
      | _ \<Rightarrow> Panics)"

definition nameOf :: "yaml \<Rightarrow> string outcome" where
  "nameOf y = ystring (yin ''name'' (yget ''metadata'' y))"

definition nodeOf :: "yaml \<Rightarrow> string outcome" where
  "nodeOf y = ystring (yin ''nodeName'' (yget ''spec'' y))"

fun collect :: "('a \<Rightarrow> 'b outcome) \<Rightarrow> 'a list \<Rightarrow> 'b list outcome" where
  "collect f [] = Done []"
| "collect f (x # xs) =
     (case f x of
        Done y \<Rightarrow> (case collect f xs of Done ys \<Rightarrow> Done (y # ys) | TestFails \<Rightarrow> TestFails | Panics \<Rightarrow> Panics)
      | TestFails \<Rightarrow> TestFails
      | Panics \<Rightarrow> Panics)"

definition ofOutcome :: "'a outcome \<Rightarrow> ('s, 'a) step" where
  "ofOutcome r w = (r, w)"

definition GetNodeNames :: "'s test_env \<Rightarrow> ('s, string list) step" where
  "GetNodeNames E =
     andThenS (kubeOk E [''get'', ''nodes'', ''-o'', ''yaml'']) (\<lambda>out.
     andThenS (ofOutcome (yamlItems (te_Yaml E out))) (\<lambda>nodeList.
     andThenS (expect (length nodeList \<ge> 4)) (\<lambda>u.
     ofOutcome (collect nameOf nodeList))))"

definition labelNodeAs :: "'s test_env \<Rightarrow> string \<Rightarrow> string \<Rightarrow> ('s, unit) step" where
  "labelNodeAs E label node = ignoring (kubeOk E [''label'', ''nodes'', node, label])"

text \<open>The first loop is over the indices 0 and 1.\<close>

definition LabelNodes :: "'s test_env \<Rightarrow> ('s, unit) step" where
  "LabelNodes E =
     andThenS (GetNodeNames E) (\<lambda>nodeNames.
     andThenS (if length nodeNames < 2 then ofOutcome Panics
               else forEach (take 2 nodeNames) (labelNodeAs E ''worker=my-gp-masters'')) (\<lambda>u.
     forEach (drop 2 nodeNames) (labelNodeAs E ''worker=my-gp-segments'')))"

definition AnnotateObject :: "'s test_env \<Rightarrow> string \<Rightarrow> string \<Rightarrow> ('s, unit) step" where
  "AnnotateObject E objectIdentifier annotation = ignoring (kubeOk E [''annotate'', objectIdentifier, annotation])"

text \<open>An absent key of the map is an empty slice.\<close>

definition addPod :: "(string \<times> string list) list \<Rightarrow> string \<times> string \<Rightarrow> (string \<times> string list) list" where
  "addPod m p = (case p of (pod, node) \<Rightarrow>
     AList.update node ((case map_of m node of None \<Rightarrow> [] | Some ps \<Rightarrow> ps) @ [pod]) m)"

definition podAndNode :: "yaml \<Rightarrow> (string \<times> string) outcome" where
  "podAndNode y =
     (case nameOf y of
        Done pod \<Rightarrow> (case nodeOf y of Done node \<Rightarrow> Done (pod, node) | TestFails \<Rightarrow> TestFails | Panics \<Rightarrow> Panics)
      | TestFails \<Rightarrow> TestFails
      | Panics \<Rightarrow> Panics)"

definition GetPodsOnNodes :: "'s test_env \<Rightarrow> ('s, (string \<times> string list) list) step" where
  "GetPodsOnNodes E =
     andThenS (GetNodeNames E) (\<lambda>nodeNames.
     andThenS (kubeOk E [''get'', ''pods'', ''-o'', ''yaml'']) (\<lambda>out.
     andThenS (ofOutcome (yamlItems (te_Yaml E out))) (\<lambda>podList.
     andThenS (ofOutcome (collect podAndNode podList)) (\<lambda>pods.
     pureS (foldl addPod (foldl (\<lambda>m n. AList.update n [] m) [] nodeNames) pods)))))"

definition GetVWHSvcName :: "'s test_env \<Rightarrow> ('s, string) step" where
  "GetVWHSvcName E =
     andThenS (kube E [''get'', ''svc'', ''-o'', ''jsonpath={.items[*].metadata.name}'', ''-l'', ''app=greenplum-operator''])
       (\<lambda>(out, err). pureS out)"

subsection \<open>Checks before a test\<close>

text \<open>A failure prints the output first; it is the same expectation.\<close>

definition EnsureOperatorIsDeployed :: "'s test_env \<Rightarrow> SetupOperatorOptions \<Rightarrow> ('s, unit) step" where
  "EnsureOperatorIsDeployed E operatorOptions =
     andThenS (kubeOk E [''get'', ''pods'', ''-l'', ''app=greenplum-operator'']) (\<lambda>output.
       if \<not> Contains output ''greenplum-operator'' then SetupOperator E operatorOptions else pureS ())"

definition EnsureNodesAreLabeled :: "'s test_env \<Rightarrow> ('s, unit) step" where
  "EnsureNodesAreLabeled E =
     andThenS (kubeOk E [''get'', ''nodes'', ''-l'', ''worker=my-gp-segments'']) (\<lambda>output.
       if Contains output ''No resources found.'' then LabelNodes E else pureS ())"

definition EnsureGPDBIsDeployed :: "'s test_env \<Rightarrow> string \<Rightarrow> ('s, unit) step" where
  "EnsureGPDBIsDeployed E gpdbYamlFile =
     andThenS (kube E [''get'', ''greenplumclusters/my-greenplum'']) (\<lambda>(out, err).
       if err \<noteq> None \<or> \<not> Contains out ''my-greenplum'' then SetupGreenplumCluster E gpdbYamlFile else pureS ())"

definition EnsureDataIsLoaded :: "'s test_env \<Rightarrow> ('s, unit) step" where
  "EnsureDataIsLoaded E =
     andThenS (doing (Query (te_shell E) ''master-0'' ''SELECT * FROM foo'')) (\<lambda>(out, err).
       if err = None \<and> TrimSpace out = ''1'' then pureS ()
       else if err \<noteq> None \<and> Contains out (''relation '' @ quoted ''foo'' @ '' does not exist'') then LoadData E
       else expect False)"

subsection \<open>PXF\<close>

definition gsSitePath :: string where "gsSitePath = ''integration-test-conf/servers/gs/gs-site.xml''"
definition pxfDataPath :: string where "pxfDataPath = ''1/lineitem.tbl''"

definition minioCall :: "('s \<Rightarrow> 'a result \<times> 's) \<Rightarrow> ('s, 'a result) io" where
  "minioCall f w = (case f (server w) of (r, s) \<Rightarrow> (r, w\<lparr>server := s\<rparr>))"

definition EnsurePXFTestFilesArePresent :: "'s test_env \<Rightarrow> string \<Rightarrow> string \<Rightarrow> ('s, unit) step" where
  "EnsurePXFTestFilesArePresent E keyID secretKey =
     andThenS (doing (minioCall (mc_BucketExists (te_minio E) pxfTestBucketName))) (\<lambda>found.
     andThenS
       (case found of
          Inl err \<Rightarrow> expect False
        | Inr True \<Rightarrow> pureS ()
        | Inr False \<Rightarrow> expectSuccess (minioCall (mc_MakeBucket (te_minio E) pxfTestBucketName ''us-central1''))) (\<lambda>u.
     andThenS (expectSuccess (minioCall (mc_StatObject (te_minio E) pxfTestBucketName pxfDataPath))) (\<lambda>u.
     expectSuccess (minioCall (mc_PutObject (te_minio E) pxfTestBucketName gsSitePath
       (generateGSSiteContents keyID secretKey))))))"

definition DropPXFExternalTable :: "'s test_env \<Rightarrow> string \<Rightarrow> ('s, unit) step" where
  "DropPXFExternalTable E table =
     andThenS (doing (Query (te_shell E) ''master-0'' (''DROP EXTERNAL TABLE IF EXISTS '' @ table @ '';''))) (\<lambda>(out, err).
     expect (err = None))"

definition createTableQuery :: string where
  "createTableQuery =
     (let q = [CHR 0x27]
      in ''CREATE EXTERNAL TABLE lineitem_s3_1 ('' @ nl @
         Join [''   l_orderkey    BIGINT'', ''   l_partkey     BIGINT'', ''   l_suppkey     BIGINT'', ''   l_linenumber  BIGINT'',
           ''   l_quantity    DECIMAL(15,2)'', ''   l_extendedprice  DECIMAL(15,2)'', ''   l_discount    DECIMAL(15,2)'',
           ''   l_tax         DECIMAL(15,2)'', ''   l_returnflag  CHAR(1)'', ''   l_linestatus  CHAR(1)'', ''   l_shipdate    DATE'',
           ''   l_commitdate  DATE'', ''   l_receiptdate DATE'', ''   l_shipinstruct CHAR(25)'', ''   l_shipmode     CHAR(10)'',
           ''   l_comment VARCHAR(44)''] ('','' @ nl) @ nl @
         '')'' @ nl @ ''LOCATION ('' @ q @ ''pxf://pxf-test-data/1/?PROFILE=s3:text&SERVER=gs'' @ q @ '')'' @ nl @
         ''FORMAT '' @ q @ ''CSV'' @ q @ '' (DELIMITER '' @ q @ ''|'' @ q @ '');'')"

definition CreatePXFExternalTable :: "'s test_env \<Rightarrow> ('s, unit) step" where
  "CreatePXFExternalTable E =
     andThenS (DropPXFExternalTable E ''lineitem_s3_1'') (\<lambda>u.
     andThenS (doing (Query (te_shell E) ''master-0'' createTableQuery)) (\<lambda>(out, err). expect (err = None)))"

text \<open>The statement is quoted by the shell: a quote in it is written as a quote, a backslashed quote and a quote.\<close>

definition pxfCreateTableCmd :: string where
  "pxfCreateTableCmd =
     (let sq = [CHR 0x27, CHR 0x5C, CHR 0x27, CHR 0x27]
      in ''CREATE EXTERNAL TABLE pxf_read_test (a TEXT, b TEXT, c TEXT)'' @
         '' LOCATION ('' @ sq @ ''pxf://tmp/dummy1?'' @
         ''FRAGMENTER=org.greenplum.pxf.api.examples.DemoFragmenter'' @
         ''&ACCESSOR=org.greenplum.pxf.api.examples.DemoAccessor'' @
         ''&RESOLVER=org.greenplum.pxf.api.examples.DemoTextResolver'' @ sq @ '')'' @
         '' FORMAT '' @ sq @ ''TEXT'' @ sq @ '' (DELIMITER '' @ sq @ '','' @ sq @ '');'')"

definition CreatePXFExternalTableNoS3 :: "'s test_env \<Rightarrow> ('s, unit) step" where
  "CreatePXFExternalTableNoS3 E =
     andThenS (DropPXFExternalTable E ''pxf_read_test'') (\<lambda>u.
     andThenS (doing (QueryWithRetry (te_shell E) ''master-0'' pxfCreateTableCmd)) (\<lambda>(out, err). expect (err = None)))"

section \<open>Lemmas\<close>

text \<open>A step that ends well only adds to the log.\<close>

definition progresses :: "('s, 'a) step \<Rightarrow> bool" where
  "progresses f \<longleftrightarrow> (\<forall>w x w'. f w = (Done x, w') \<longrightarrow> since w w')"

lemma progressesD: "progresses f \<Longrightarrow> f w = (Done x, w') \<Longrightarrow> since w w'"
  by (auto simp: progresses_def)

lemma progresses_andThenS [intro]: "progresses f \<Longrightarrow> (\<And>x. progresses (k x)) \<Longrightarrow> progresses (andThenS f k)"
  unfolding progresses_def step_Done by (meson since_trans)

lemma progresses_doing [intro]: "logs f \<Longrightarrow> progresses (doing f)"
  by (auto simp: progresses_def dest: logsD)

lemma progresses_pure [simp, intro]: "progresses (pureS x)" "progresses (expect b)" "progresses (ofOutcome r)"
  by (auto simp: progresses_def ofOutcome_def)

lemma progresses_if [intro]: "progresses f \<Longrightarrow> progresses g \<Longrightarrow> progresses (if b then f else g)"
  by simp

lemma progresses_case_prod: "(\<And>a b. progresses (f a b)) \<Longrightarrow> progresses (case p of (a, b) \<Rightarrow> f a b)"
  by (cases p) simp

lemma progresses_forEach [intro]: "(\<And>x. progresses (f x)) \<Longrightarrow> progresses (forEach xs f)"
  by (induction xs) (auto intro: progresses_andThenS)

lemmas progresses_rules =
  progresses_andThenS progresses_doing progresses_pure progresses_if progresses_case_prod progresses_forEach

lemma logs_CombinedOutput [simp]: "logs (CombinedOutput sh path args)"
  by (simp add: CombinedOutput_def)

lemma progresses_KubeDelete: "progresses (KubeDelete E rs)" "progresses (ignoring (KubeDelete E rs))"
  unfolding KubeDelete_def ignoring_def by (intro progresses_rules logs_commands)+

lemma progresses_DeleteAllCharts: "progresses (DeleteAllCharts E)"
  unfolding DeleteAllCharts_def uninstallChart_def by (intro progresses_rules logs_CombinedOutput)

lemma ForPodDestroyed_saw:
  assumes "poll_laws sh" "ForPodDestroyed sh pod w = (Inr (), w')"
  shows "saw sh [''get'', ''pods''] (\<lambda>out. \<not> Contains out pod) w w' \<and> since w w'"
  using waitUntil_saw [OF assms(1) assms(2) [unfolded ForPodDestroyed_def]] .

lemma pods_destroyed:
  assumes "poll_laws (te_shell E)"
    and "forEach pods (\<lambda>pod. expectSuccess (ForPodDestroyed (te_shell E) pod)) w = (Done (), w')"
  shows "(\<forall>pod\<in>set pods. saw (te_shell E) [''get'', ''pods''] (\<lambda>out. \<not> Contains out pod) w w') \<and> since w w'"
  using assms(2)
proof (induction pods arbitrary: w)
  case (Cons pod pods)
  then obtain w1 where 1: "ForPodDestroyed (te_shell E) pod w = (Inr (), w1)"
    "forEach pods (\<lambda>pod. expectSuccess (ForPodDestroyed (te_shell E) pod)) w1 = (Done (), w')"
    by (auto simp: step_Done)
  note a = ForPodDestroyed_saw [OF assms(1) 1(1)] and b = Cons.IH [OF 1(2)]
  show ?case using a b by (auto intro: since_trans saw_mono)
qed simp

text \<open>The calls of the steps whose order matters.\<close>

lemma kubectl_calls: "kubectl sh args w = (r, w') \<Longrightarrow> calls w' = calls w @ [CommandCall ''kubectl'' args]"
  unfolding kubectl_def CombinedOutput_def by (rule calls_perform)

lemma kubeOk_calls: "kubeOk E args w = (Done out, w') \<Longrightarrow> calls w' = calls w @ [CommandCall ''kubectl'' args]"
  by (auto simp: kubeOk_def step_Done dest: kubectl_calls)

lemma labelNodes_calls:
  "forEach ns (labelNodeAs E label) w = (Done (), w') \<Longrightarrow>
   calls w' = calls w @ map (\<lambda>n. CommandCall ''kubectl'' [''label'', ''nodes'', n, label]) ns"
  by (induction ns arbitrary: w) (auto simp: step_Done labelNodeAs_def ignoring_def dest: kubeOk_calls)

lemma collect_length: "collect f xs = Done ys \<Longrightarrow> length ys = length xs"
  by (induction xs arbitrary: ys) (auto split: outcome.splits)

lemma GetNodeNames_calls:
  "GetNodeNames E w = (Done names, w') \<Longrightarrow>
   4 \<le> length names \<and> calls w' = calls w @ [CommandCall ''kubectl'' [''get'', ''nodes'', ''-o'', ''yaml'']]"
  by (auto simp: GetNodeNames_def step_Done ofOutcome_def dest!: kubeOk_calls collect_length)

text \<open>The pods of a node, in the order of the list.\<close>

lemma addPods_lookup:
  "map_of (foldl addPod m pods) node =
     (if map_of m node = None \<and> node \<notin> snd ` set pods then None
      else Some ((case map_of m node of None \<Rightarrow> [] | Some ps \<Rightarrow> ps) @ map fst (filter (\<lambda>p. snd p = node) pods)))"
  by (induction pods arbitrary: m) (auto simp: addPod_def split: prod.splits option.splits)

lemma initial_nodes: "map_of (foldl (\<lambda>m n. AList.update n [] m) m ns) node = (if node \<in> set ns then Some [] else map_of m node)"
  by (induction ns arbitrary: m) auto

subsection \<open>The address in the refusal of the database\<close>

lemma matchItems_literal: "matchItems (literal t @ items) (t @ s) = map_option (append t) (matchItems items s)"
  by (induction t) (auto simp: literal_def option.map_comp comp_def option.map_ident)

lemma matchItems_digits:
  assumes "matchItems items (c # s) = Some m" "\<not> is_digit c"
  shows "ds \<noteq> [] \<Longrightarrow> list_all is_digit ds \<Longrightarrow> matchItems ((is_digit, True) # items) (ds @ c # s) = Some (ds @ m)"
proof (induction ds)
  case (Cons d ds)
  show ?case
  proof (cases "ds = []")
    case True
    then show ?thesis using assms Cons.prems by simp
  next
    case False
    then show ?thesis using Cons by simp
  qed
qed simp

definition dotted :: "string list \<Rightarrow> string" where
  "dotted fs = Join fs ''.''"

lemma not_digit [simp]: "\<not> is_digit (CHR ''.'')" "\<not> is_digit (CHR 0x22)"
  by code_simp+

lemma hbaAddress_matches:
  assumes "list_all (\<lambda>f. f \<noteq> [] \<and> list_all is_digit f) [a, b, c, d]"
  shows "matchItems (hbaAddress @ literal [CHR 0x22]) (dotted [a, b, c, d] @ CHR 0x22 # rest) = Some (dotted [a, b, c, d] @ [CHR 0x22])"
proof -
  have any: "matchItems ((anyChar, False) # items) (CHR ''.'' # s) = map_option (Cons (CHR ''.'')) (matchItems items s)" for items s
    by (simp add: anyChar_def)
  have 0: "matchItems (literal [CHR 0x22]) (CHR 0x22 # rest) = Some [CHR 0x22]" by (simp add: literal_def)
  have 1: "matchItems ((is_digit, True) # literal [CHR 0x22]) (d @ CHR 0x22 # rest) = Some (d @ [CHR 0x22])"
    by (rule matchItems_digits [OF 0]) (use assms in auto)
  note step = matchItems_digits [OF _ not_digit(1)]
  let ?i1 = "(is_digit, True) # literal [CHR 0x22]"
  let ?i2 = "(is_digit, True) # (anyChar, False) # ?i1" and ?i3 = "(is_digit, True) # (anyChar, False) # (is_digit, True) # (anyChar, False) # ?i1"
  have 2: "matchItems ?i2 (c @ CHR ''.'' # d @ CHR 0x22 # rest) = Some (c @ CHR ''.'' # d @ [CHR 0x22])"
    by (rule step) (use assms 1 any in auto)
  have 3: "matchItems ?i3 (b @ CHR ''.'' # c @ CHR ''.'' # d @ CHR 0x22 # rest) = Some (b @ CHR ''.'' # c @ CHR ''.'' # d @ [CHR 0x22])"
    by (rule step) (use assms 2 any in auto)
  have "matchItems ((is_digit, True) # (anyChar, False) # ?i3) (a @ CHR ''.'' # b @ CHR ''.'' # c @ CHR ''.'' # d @ CHR 0x22 # rest) =
      Some (a @ CHR ''.'' # b @ CHR ''.'' # c @ CHR ''.'' # d @ [CHR 0x22])"
    by (rule step) (use assms 3 any in auto)
  then show ?thesis by (simp add: hbaAddress_def dotted_def)
qed

definition hbaRefusal :: string where
  "hbaRefusal = ''psql: FATAL:  no pg_hba'' @ CHR ''.'' # ''conf entry for host '' @ [CHR 0x22]"

lemma matchItems_dot:
  "matchItems (literal t @ [(anyChar, False)] @ literal u @ literal v @ items) (t @ CHR ''.'' # u @ v @ s) =
   map_option (append (t @ CHR ''.'' # u @ v)) (matchItems items s)"
  by (simp add: matchItems_literal option.map_comp comp_def anyChar_def) (rule option.map_cong; simp)

lemma hbaPrefix_matches: "matchItems (hbaPrefix @ items) (hbaRefusal @ s) = map_option (append hbaRefusal) (matchItems items s)"
  using matchItems_dot [of "''psql: FATAL:  no pg_hba''" "''conf entry for host ''" "[CHR 0x22]" items s]
  unfolding hbaPrefix_def hbaRefusal_def append_assoc append_Cons .

text \<open>The address of a refusal is found, whatever follows it.\<close>

lemma FindSubmatch_address:
  assumes "list_all (\<lambda>f. f \<noteq> [] \<and> list_all is_digit f) [a, b, c, d]"
  shows "FindSubmatch (hbaRefusal @ dotted [a, b, c, d] @ CHR 0x22 # rest) = Some (dotted [a, b, c, d])"
proof -
  have "matchItems (hbaPrefix @ hbaAddress @ literal [CHR 0x22]) (hbaRefusal @ dotted [a, b, c, d] @ CHR 0x22 # rest) =
      Some (hbaRefusal @ dotted [a, b, c, d] @ [CHR 0x22])"
    by (simp add: hbaPrefix_matches hbaAddress_matches [OF assms])
  then have "FindMatch (hbaPrefix @ hbaAddress @ literal [CHR 0x22]) (hbaRefusal @ dotted [a, b, c, d] @ CHR 0x22 # rest) =
      Some (hbaRefusal @ dotted [a, b, c, d] @ [CHR 0x22])"
    by (simp add: hbaRefusal_def)
  moreover have "length hbaPrefix = length hbaRefusal" by (simp add: hbaPrefix_def hbaRefusal_def literal_def)
  ultimately show ?thesis by (simp add: FindSubmatch_def butlast_append)
qed

text \<open>The dots of the expression are not escaped.\<close>

lemma dots_match_anything: "FindSubmatch (hbaRefusal @ ''1020304'' @ [CHR 0x22]) = Some ''1020304''"
  by code_simp

section \<open>Properties\<close>


text \<open>The witness: nothing is installed, every command succeeds.\<close>

definition demo_env :: "unit test_env" where
  "demo_env =
     \<lparr>te_shell = demo_shell\<lparr>sh_CombinedOutput := (\<lambda>cmd s. (([], None), s))\<rparr>,
      te_psql = \<lparr>ps_Unmarshal = (\<lambda>t. None), ps_Dial = (\<lambda>a w. (False, w))\<rparr>,
      te_flags = \<lparr>GreenplumImageRepository = ''greenplum-for-kubernetes'', GreenplumImageTag = ''latest'',
        OperatorImageRepository = ''greenplum-operator'', OperatorImageTag = ''latest'', releaseDir = [], oldReleaseDir = [], basepath = []\<rparr>,
      te_ReadFile = (\<lambda>p w. (Inl (Err ''none''), w)), te_Getenv = (\<lambda>k. []), te_TempDir = (\<lambda>p w. (Inr p, w)),
      te_WriteFile = (\<lambda>p t w. (Inr (), w)), te_RemoveAll = (\<lambda>p w. (Inr (), w)), te_Yaml = (\<lambda>t. None), te_isExitError = (\<lambda>e. True),
      te_PollImmediate = poll_once,
      te_minio = \<lparr>mc_BucketExists = (\<lambda>b s. (Inr True, s)), mc_MakeBucket = (\<lambda>b r s. (Inr (), s)),
        mc_StatObject = (\<lambda>b p s. (Inr (), s)), mc_PutObject = (\<lambda>b p t s. (Inr (), s))\<rparr>\<rparr>"

lemma demo_cleanup: "fst (CleanUpK8s demo_env \<lparr>server = (), calls = []\<rparr>) = Done ()"
  by code_simp

lemma demo_env_laws: "poll_laws (te_shell demo_env)"
  using poll_laws_demo by (simp add: demo_env_def poll_laws_def)


text \<open>Labelling the nodes for a test gives the first two nodes of the cluster to the masters and all others, at
  least two, to the segments, each node exactly one label.\<close>

lemma LabelNodes_calls:
  assumes "LabelNodes E w = (Done (), w')"
  shows "\<exists>names. 4 \<le> length names \<and>
    calls w' = calls w @ CommandCall ''kubectl'' [''get'', ''nodes'', ''-o'', ''yaml''] #
      map (\<lambda>n. CommandCall ''kubectl'' [''label'', ''nodes'', n, ''worker=my-gp-masters'']) (take 2 names) @
      map (\<lambda>n. CommandCall ''kubectl'' [''label'', ''nodes'', n, ''worker=my-gp-segments'']) (drop 2 names)"
proof -
  obtain names w1 w2 where 1: "GetNodeNames E w = (Done names, w1)"
    and 2: "(if length names < 2 then ofOutcome Panics else forEach (take 2 names) (labelNodeAs E ''worker=my-gp-masters'')) w1 = (Done (), w2)"
    and 3: "forEach (drop 2 names) (labelNodeAs E ''worker=my-gp-segments'') w2 = (Done (), w')"
    using assms unfolding LabelNodes_def andThenS_Done by auto
  note n = GetNodeNames_calls [OF 1]
  then have "forEach (take 2 names) (labelNodeAs E ''worker=my-gp-masters'') w1 = (Done (), w2)" using 2 by auto
  from labelNodes_calls [OF this] labelNodes_calls [OF 3] n show ?thesis by (intro exI [of _ names]) simp
qed

text \<open>The pods on the nodes: every node of the cluster is listed, and every pod, in the order of the list, is in the
  list of its own node only.\<close>

lemma GetPodsOnNodes_result:
  assumes "GetPodsOnNodes E w = (Done m, w')"
  shows "\<exists>names pods. 4 \<le> length names \<and>
    (\<forall>node. map_of m node =
       (if node \<in> set names \<or> node \<in> snd ` set pods then Some (map fst (filter (\<lambda>p. snd p = node) pods)) else None))"
proof -
  obtain names w1 pods where "GetNodeNames E w = (Done names, w1)"
    and m: "m = foldl addPod (foldl (\<lambda>m n. AList.update n [] m) [] names) pods"
    using assms by (auto simp: GetPodsOnNodes_def step_Done)
  then have "4 \<le> length names" using GetNodeNames_calls by blast
  then show ?thesis unfolding m addPods_lookup initial_nodes by (intro exI [of _ names] exI [of _ pods]) auto
qed

text \<open>After the check of the test data the table answers with its one row.\<close>

lemma EnsureDataIsLoaded_answers:
  assumes "EnsureDataIsLoaded E w = (Done (), w')"
  shows "\<exists>u out args. kubectl (te_shell E) args u = ((out, None), w') \<and> TrimSpace out = ''1''"
proof -
  obtain out err w1 where q: "Query (te_shell E) ''master-0'' ''SELECT * FROM foo'' w = ((out, err), w1)" by (metis prod.collapse)
  show ?thesis
  proof (cases "err = None \<and> TrimSpace out = ''1''")
    case True
    then show ?thesis using assms q by (auto simp: EnsureDataIsLoaded_def step_Done Query_def Let_def)
  next
    case False
    then have "LoadData E w1 = (Done (), w')"
      using assms q by (auto simp: EnsureDataIsLoaded_def step_Done split: if_splits)
    then obtain u out where "QueryWithRetry (te_shell E) ''master-0'' ''SELECT * FROM foo'' u = ((out, None), w')" "TrimSpace out = ''1''"
      by (auto simp: LoadData_def queryOk_def step_Done)
    then show ?thesis using QueryWithRetry_attempts by blast
  qed
qed

text \<open>The text that \<open>EnsureNodesAreLabeled\<close> looks for is not the one that \<open>VerifyPVCsAreDeleted\<close> expects of kubectl.\<close>

lemma no_resources_texts_differ: "\<not> Contains (''No resources found in default namespace.'' @ nl) ''No resources found.''"
  by code_simp

end
