(* ===== verification/Reactive.thy ===== *)
theory Reactive
  imports Gomega
begin

text \<open>
  The client that the tests of the operator run on (\<open>pkg/testing/reactive/client.go\<close>): every call becomes an
  action that goes through a chain of reactors, the last of which performs it on a delegate client. The
  delegate, the scheme, the REST mapper and the chain of \<open>client-go/testing\<close> are parameters. The lemmas say
  that the client behaves as its delegate until a test puts a reactor in front, what such a reactor
  replaces, and in what the client differs from a real one.
\<close>

section \<open>Definitions\<close>

subsection \<open>Actions\<close>

record gvk =
  gvk_Group :: string
  gvk_Version :: string
  gvk_Kind :: string

record gvr =
  gvr_Group :: string
  gvr_Version :: string
  gvr_Resource :: string

record list_options =
  lo_Namespace :: string
  lo_Fields :: string
  lo_Labels :: string

text \<open>The actions the client makes; \<open>OtherAction\<close> is an action of another verb.\<close>

datatype 'o action =
    GetAction gvr string string
  | CreateAction gvr string 'o
  | DeleteAction gvr string string
  | UpdateAction gvr string 'o
  | PatchAction gvr string string string string
  | ListAction gvr gvk list_options
  | OtherAction string

record ('o, 's) rstate =
  actions :: "'o action list"
  store :: 's

subsection \<open>What is not in the repository\<close>

record ('o, 's) delegate =
  d_Get :: "string \<Rightarrow> string \<Rightarrow> 'o \<Rightarrow> 's \<Rightarrow> ('o \<times> go_error option) \<times> 's"
  d_Create :: "'o \<Rightarrow> 's \<Rightarrow> go_error option \<times> 's"
  d_Delete :: "'o \<Rightarrow> 's \<Rightarrow> go_error option \<times> 's"
  d_Update :: "'o \<Rightarrow> 's \<Rightarrow> go_error option \<times> 's"
  d_Patch :: "'o \<Rightarrow> string \<Rightarrow> string \<Rightarrow> 's \<Rightarrow> go_error option \<times> 's"
  d_List :: "'o \<Rightarrow> list_options \<Rightarrow> 's \<Rightarrow> ('o \<times> go_error option) \<times> 's"

text \<open>\<open>sc_Object\<close> and \<open>sc_ObjectList\<close> are the type assertions; \<open>sc_Named ns n\<close> is \<open>SetNamespace\<close> and \<open>SetName\<close>.\<close>

record 'o scheme =
  sc_ObjectKinds :: "'o \<Rightarrow> gvk list result"
  sc_GVKForObject :: "'o \<Rightarrow> gvk result"
  sc_RESTMapping :: "gvk \<Rightarrow> gvr result"
  sc_KindFor :: "gvr \<Rightarrow> gvk result"
  sc_GuessResource :: "gvk \<Rightarrow> gvr"
  sc_New :: "gvk \<Rightarrow> 'o result"
  sc_Convert :: "'o option \<Rightarrow> 'o \<Rightarrow> 'o result"
  sc_Object :: "'o \<Rightarrow> bool"
  sc_ObjectList :: "'o \<Rightarrow> bool"
  sc_Named :: "string \<Rightarrow> string \<Rightarrow> 'o \<Rightarrow> 'o"
  sc_SetGVK :: "gvk \<Rightarrow> 'o \<Rightarrow> 'o"
  sc_Accessor :: "'o \<Rightarrow> (string \<times> string) result"

text \<open>A reactor says whether it handled the action, with an object or nil and an error.\<close>

type_synonym ('o, 's) reactor = "'o action \<Rightarrow> 's \<Rightarrow> (bool \<times> 'o option \<times> go_error option) outcome \<times> 's"

type_synonym ('o, 's) invokes =
  "('o, 's) reactor list \<Rightarrow> 'o action \<Rightarrow> ('o, 's) rstate \<Rightarrow> ('o option \<times> go_error option) outcome \<times> ('o, 's) rstate"

subsection \<open>The client\<close>

record ('o, 's) Client =
  Fake_Invokes :: "('o, 's) invokes"
  ReactionChain :: "('o, 's) reactor list"
  rc_delegate :: "('o, 's) delegate"
  rc_scheme :: "'o scheme"

definition gvrForObject :: "'o scheme \<Rightarrow> 'o \<Rightarrow> gvr outcome" where
  "gvrForObject S x =
     (case sc_ObjectKinds S x of
        Inr [k] \<Rightarrow> (case sc_RESTMapping S k of Inr v \<Rightarrow> Done v | Inl err \<Rightarrow> TestFails)
      | _ \<Rightarrow> TestFails)"

definition kindForResource :: "'o scheme \<Rightarrow> gvr \<Rightarrow> gvk outcome" where
  "kindForResource S v = (case sc_KindFor S v of Inr k \<Rightarrow> Done k | Inl err \<Rightarrow> TestFails)"

definition newRuntimeObject :: "'o scheme \<Rightarrow> gvk \<Rightarrow> 'o outcome" where
  "newRuntimeObject S k = (case sc_New S k of Inr x \<Rightarrow> Done x | Inl err \<Rightarrow> TestFails)"

definition newNamedObject :: "'o scheme \<Rightarrow> gvk \<Rightarrow> string \<Rightarrow> string \<Rightarrow> 'o outcome" where
  "newNamedObject S k ns name =
     (case newRuntimeObject S k of
        Done x \<Rightarrow> if sc_Object S x then Done (sc_Named S ns name x) else TestFails
      | f \<Rightarrow> f)"

definition newObjectList :: "'o scheme \<Rightarrow> gvk \<Rightarrow> 'o outcome" where
  "newObjectList S k =
     (case newRuntimeObject S k of Done x \<Rightarrow> if sc_ObjectList S x then Done x else TestFails | f \<Rightarrow> f)"

definition populateGVK :: "'o scheme \<Rightarrow> 'o \<Rightarrow> 'o outcome" where
  "populateGVK S x = (case sc_GVKForObject S x of Inr k \<Rightarrow> Done (sc_SetGVK S k x) | Inl err \<Rightarrow> TestFails)"

text \<open>The object named in an action: its kind from the resource, then a new object with its name.\<close>

definition objectOf :: "'o scheme \<Rightarrow> gvr \<Rightarrow> string \<Rightarrow> string \<Rightarrow> 'o outcome" where
  "objectOf S v ns name = (case kindForResource S v of Done k \<Rightarrow> newNamedObject S k ns name | TestFails \<Rightarrow> TestFails | Panics \<Rightarrow> Panics)"

text \<open>The reactor that \<open>NewClient\<close> puts in the chain.\<close>

definition delegateReactor :: "'o scheme \<Rightarrow> ('o, 's) delegate \<Rightarrow> ('o, 's) reactor" where
  "delegateReactor S D a s =
     (case a of
        GetAction v ns name \<Rightarrow>
          bind_outcome (objectOf S v ns name)
            (\<lambda>obj. case d_Get D ns name obj s of ((obj1, err), s1) \<Rightarrow> (Done (True, Some obj1, err), s1)) s
      | CreateAction v ns obj \<Rightarrow> (case d_Create D obj s of (err, s1) \<Rightarrow> (Done (True, None, err), s1))
      | DeleteAction v ns name \<Rightarrow>
          bind_outcome (objectOf S v ns name)
            (\<lambda>obj. case d_Delete D obj s of (err, s1) \<Rightarrow> (Done (True, None, err), s1)) s
      | UpdateAction v ns obj \<Rightarrow> (case d_Update D obj s of (err, s1) \<Rightarrow> (Done (True, None, err), s1))
      | PatchAction v ns name pt p \<Rightarrow>
          bind_outcome (objectOf S v ns name)
            (\<lambda>obj. case d_Patch D obj pt p s of (err, s1) \<Rightarrow> (Done (True, None, err), s1)) s
      | ListAction v k opts \<Rightarrow>
          bind_outcome (newObjectList S k)
            (\<lambda>obj. case d_List D obj opts s of ((obj1, err), s1) \<Rightarrow> (Done (True, Some obj1, err), s1)) s
      | OtherAction verb \<Rightarrow>
          (Done (True, None, Some (Err (''unsupported action for verb '' @ [CHR 0x22] @ verb @ [CHR 0x22]))), s))"

definition NewClient :: "('o, 's) invokes \<Rightarrow> 'o scheme \<Rightarrow> ('o, 's) delegate \<Rightarrow> ('o, 's) Client" where
  "NewClient invk S D = \<lparr>Fake_Invokes = invk, ReactionChain = [delegateReactor S D], rc_delegate = D, rc_scheme = S\<rparr>"

text \<open>\<open>Fake.PrependReactor\<close>, which the tests call.\<close>

definition PrependReactor :: "('o, 's) reactor \<Rightarrow> ('o, 's) Client \<Rightarrow> ('o, 's) Client" where
  "PrependReactor f r = r\<lparr>ReactionChain := f # ReactionChain r\<rparr>"

definition Invokes :: "('o, 's) Client \<Rightarrow> 'o action \<Rightarrow> ('o, 's) rstate \<Rightarrow> ('o option \<times> go_error option) outcome \<times> ('o, 's) rstate" where
  "Invokes r a s = Fake_Invokes r (ReactionChain r) a s"

text \<open>The answer of \<open>Get\<close> and \<open>List\<close> is the object as the call leaves it.\<close>

definition convertAnswer :: "'o scheme \<Rightarrow> 'o \<Rightarrow> 'o option \<times> go_error option \<Rightarrow> 'o result" where
  "convertAnswer S obj ans =
     (case ans of (retrieved, Some err) \<Rightarrow> Inl err | (retrieved, None) \<Rightarrow> sc_Convert S retrieved obj)"

definition rc_Get ::
  "('o, 's) Client \<Rightarrow> string \<Rightarrow> string \<Rightarrow> 'o \<Rightarrow> ('o, 's) rstate \<Rightarrow> 'o result outcome \<times> ('o, 's) rstate"
where
  "rc_Get r ns name obj s =
     bind_outcome (gvrForObject (rc_scheme r) obj)
       (\<lambda>v. case Invokes r (GetAction v ns name) s of
          (ans, s1) \<Rightarrow> bind_outcome ans (\<lambda>ans. (Done (convertAnswer (rc_scheme r) obj ans), s1)) s1) s"

definition rc_List ::
  "('o, 's) Client \<Rightarrow> 'o \<Rightarrow> list_options \<Rightarrow> ('o, 's) rstate \<Rightarrow> 'o result outcome \<times> ('o, 's) rstate"
where
  "rc_List r obj opts s =
     (case sc_GVKForObject (rc_scheme r) obj of
        Inl err \<Rightarrow> (Done (Inl err), s)
      | Inr listGvk \<Rightarrow>
          (if \<not> HasSuffix (gvk_Kind listGvk) ''List''
           then (Done (Inl (Err (''non-list type passed as output: '' @ gvk_Kind listGvk))), s)
           else let k = listGvk\<lparr>gvk_Kind := take (length (gvk_Kind listGvk) - length ''List'') (gvk_Kind listGvk)\<rparr>;
                    v = sc_GuessResource (rc_scheme r) k
                in case Invokes r (ListAction v listGvk opts) s of
                     (ans, s1) \<Rightarrow> bind_outcome ans (\<lambda>ans. (Done (convertAnswer (rc_scheme r) obj ans), s1)) s1))"

text \<open>The calls that change something give an error or nil; \<open>opts\<close> must be empty where the code expects it.\<close>

definition invokeForError ::
  "('o, 's) Client \<Rightarrow> 'o action \<Rightarrow> ('o, 's) rstate \<Rightarrow> go_error option outcome \<times> ('o, 's) rstate"
where
  "invokeForError r a s = (case Invokes r a s of (ans, s1) \<Rightarrow> bind_outcome ans (\<lambda>ans. (Done (snd ans), s1)) s1)"

definition rc_Create ::
  "('o, 's) Client \<Rightarrow> 'o \<Rightarrow> string list \<Rightarrow> ('o, 's) rstate \<Rightarrow> go_error option outcome \<times> ('o, 's) rstate"
where
  "rc_Create r obj opts s =
     (if opts \<noteq> [] then (TestFails, s)
      else case sc_Accessor (rc_scheme r) obj of
             Inl err \<Rightarrow> (Done (Some (Wrap ''failed creating object'' err)), s)
           | Inr (ns, name) \<Rightarrow>
               bind_outcome (populateGVK (rc_scheme r) obj)
                 (\<lambda>obj. bind_outcome (gvrForObject (rc_scheme r) obj) (\<lambda>v. invokeForError r (CreateAction v ns obj) s) s) s)"

definition rc_Delete ::
  "('o, 's) Client \<Rightarrow> 'o \<Rightarrow> string list \<Rightarrow> ('o, 's) rstate \<Rightarrow> go_error option outcome \<times> ('o, 's) rstate"
where
  "rc_Delete r obj opts s =
     (case sc_Accessor (rc_scheme r) obj of
        Inl err \<Rightarrow> (Done (Some (Wrap ''failed deleting object'' err)), s)
      | Inr (ns, name) \<Rightarrow>
          bind_outcome (gvrForObject (rc_scheme r) obj) (\<lambda>v. invokeForError r (DeleteAction v ns name) s) s)"

definition rc_DeleteAllOf :: "('o, 's) Client \<Rightarrow> 'o \<Rightarrow> ('o, 's) rstate \<Rightarrow> go_error option outcome \<times> ('o, 's) rstate" where
  "rc_DeleteAllOf r obj s = (Panics, s)"

definition rc_Update ::
  "('o, 's) Client \<Rightarrow> 'o \<Rightarrow> string list \<Rightarrow> ('o, 's) rstate \<Rightarrow> go_error option outcome \<times> ('o, 's) rstate"
where
  "rc_Update r obj opts s =
     (if opts \<noteq> [] then (TestFails, s)
      else case sc_Accessor (rc_scheme r) obj of
             Inl err \<Rightarrow> (Done (Some (Wrap ''failed updating object'' err)), s)
           | Inr (ns, name) \<Rightarrow>
               bind_outcome (populateGVK (rc_scheme r) obj)
                 (\<lambda>obj. bind_outcome (gvrForObject (rc_scheme r) obj) (\<lambda>v. invokeForError r (UpdateAction v ns obj) s) s) s)"

text \<open>\<open>data\<close> is \<open>patch.Data(obj)\<close>, \<open>pt\<close> the type of the patch.\<close>

definition rc_Patch ::
  "('o, 's) Client \<Rightarrow> 'o \<Rightarrow> ('o \<Rightarrow> string result) \<Rightarrow> string \<Rightarrow> string list \<Rightarrow> ('o, 's) rstate \<Rightarrow> go_error option outcome \<times> ('o, 's) rstate"
where
  "rc_Patch r obj data pt opts s =
     (if opts \<noteq> [] then (TestFails, s)
      else case sc_Accessor (rc_scheme r) obj of
             Inl err \<Rightarrow> (Done (Some (Wrap ''failed patching object'' err)), s)
           | Inr (ns, name) \<Rightarrow>
               (case data obj of
                  Inl err \<Rightarrow> (Done (Some (Wrap ''failed patching object'' err)), s)
                | Inr p \<Rightarrow> bind_outcome (gvrForObject (rc_scheme r) obj) (\<lambda>v. invokeForError r (PatchAction v ns name pt p) s) s))"

text \<open>\<open>Status\<close> gives the client itself.\<close>

definition rc_Status :: "('o, 's) Client \<Rightarrow> ('o, 's) Client" where
  "rc_Status r = r"

section \<open>What the code relies on\<close>

text \<open>\<open>Fake.Invokes\<close> records the action and lets the first reactor answer that handles it.\<close>

fun run_chain :: "('o, 's) reactor list \<Rightarrow> 'o action \<Rightarrow> 's \<Rightarrow> ('o option \<times> go_error option) outcome \<times> 's" where
  "run_chain [] a s = (Done (None, None), s)"
| "run_chain (f # fs) a s =
     (case f a s of
        (Done (True, ans), s1) \<Rightarrow> (Done ans, s1)
      | (Done (False, ans), s1) \<Rightarrow> run_chain fs a s1
      | (TestFails, s1) \<Rightarrow> (TestFails, s1)
      | (Panics, s1) \<Rightarrow> (Panics, s1))"

definition recorded :: "'o action \<Rightarrow> ('o, 's) rstate \<Rightarrow> 's \<Rightarrow> ('o, 's) rstate" where
  "recorded a s s1 = \<lparr>actions = actions s @ [a], store = s1\<rparr>"

definition chain_law :: "('o, 's) invokes \<Rightarrow> bool" where
  "chain_law invk \<longleftrightarrow>
     (\<forall>fs a s. invk fs a s = (case run_chain fs a (store s) of (ans, s1) \<Rightarrow> (ans, recorded a s s1)))"

text \<open>An object of a registered type: its kind and its resource determine each other and \<open>x\<close> is the new object
  of that kind; setting the kind of an object does not change its type.\<close>

definition registered :: "'o scheme \<Rightarrow> 'o \<Rightarrow> gvk \<Rightarrow> gvr \<Rightarrow> 'o \<Rightarrow> bool" where
  "registered S obj k v x \<longleftrightarrow>
     sc_ObjectKinds S obj = Inr [k] \<and> sc_ObjectKinds S (sc_SetGVK S k obj) = Inr [k] \<and> sc_GVKForObject S obj = Inr k \<and>
     sc_RESTMapping S k = Inr v \<and> sc_KindFor S v = Inr k \<and> sc_New S k = Inr x \<and> sc_Object S x"

definition registered_list :: "'o scheme \<Rightarrow> 'o \<Rightarrow> gvk \<Rightarrow> 'o \<Rightarrow> bool" where
  "registered_list S obj k x \<longleftrightarrow>
     sc_GVKForObject S obj = Inr k \<and> HasSuffix (gvk_Kind k) ''List'' \<and> sc_New S k = Inr x \<and> sc_ObjectList S x"

section \<open>Lemmas\<close>

lemma Invokes_chain:
  "chain_law (Fake_Invokes r) \<Longrightarrow>
   Invokes r a s = (case run_chain (ReactionChain r) a (store s) of (ans, s1) \<Rightarrow> (ans, recorded a s s1))"
  by (simp add: Invokes_def chain_law_def)

lemma registeredD:
  assumes "registered S obj k v x"
  shows "gvrForObject S obj = Done v" "gvrForObject S (sc_SetGVK S k obj) = Done v" "populateGVK S obj = Done (sc_SetGVK S k obj)"
    "objectOf S v ns name = Done (sc_Named S ns name x)"
  using assms by (simp_all add: registered_def gvrForObject_def populateGVK_def objectOf_def kindForResource_def
    newNamedObject_def newRuntimeObject_def)

text \<open>Whatever the first reactor of the chain handles never reaches the delegate.\<close>

lemma reactor_answers:
  assumes "chain_law (Fake_Invokes r)" "f a (store s) = (Done (True, obj, err), s1)"
  shows "Invokes (PrependReactor f r) a s = (Done (obj, err), recorded a s s1)"
  using assms Invokes_chain [of "PrependReactor f r" a s] by (simp add: PrependReactor_def)

text \<open>A reactor that declines is not noticed.\<close>

lemma reactor_declines:
  assumes "chain_law (Fake_Invokes r)" "f a (store s) = (Done (False, ans), store s)"
  shows "Invokes (PrependReactor f r) a s = Invokes r a s"
  using assms Invokes_chain [of "PrependReactor f r" a s] Invokes_chain [of r a s] by (simp add: PrependReactor_def)

section \<open>Properties\<close>


text \<open>The witness: objects with a kind, a name and a content, a scheme with the kind \<open>Pod\<close> and its list, and a
  delegate that keeps a list of objects.\<close>

record demo_object =
  do_kind :: gvk
  do_key :: "string \<times> string"
  do_data :: string

definition pod_kind :: gvk where "pod_kind = \<lparr>gvk_Group = [], gvk_Version = ''v1'', gvk_Kind = ''Pod''\<rparr>"
definition pod_list_kind :: gvk where "pod_list_kind = \<lparr>gvk_Group = [], gvk_Version = ''v1'', gvk_Kind = ''PodList''\<rparr>"
definition pod_resource :: gvr where "pod_resource = \<lparr>gvr_Group = [], gvr_Version = ''v1'', gvr_Resource = ''pods''\<rparr>"

definition demo_object :: "gvk \<Rightarrow> demo_object" where
  "demo_object k = \<lparr>do_kind = k, do_key = ([], []), do_data = []\<rparr>"

definition demo_scheme :: "demo_object scheme" where
  "demo_scheme =
     \<lparr>sc_ObjectKinds = (\<lambda>x. Inr [do_kind x]), sc_GVKForObject = (\<lambda>x. Inr (do_kind x)),
      sc_RESTMapping = (\<lambda>k. if k = pod_kind then Inr pod_resource else Inl (Err ''no match'')),
      sc_KindFor = (\<lambda>v. if v = pod_resource then Inr pod_kind else Inl (Err ''no match'')),
      sc_GuessResource = (\<lambda>k. pod_resource), sc_New = (\<lambda>k. Inr (demo_object k)),
      sc_Convert = (\<lambda>x y. case x of None \<Rightarrow> Inl (Err ''nil'') | Some x \<Rightarrow> Inr x),
      sc_Object = (\<lambda>x. do_kind x = pod_kind), sc_ObjectList = (\<lambda>x. do_kind x = pod_list_kind),
      sc_Named = (\<lambda>ns n x. x\<lparr>do_key := (ns, n)\<rparr>), sc_SetGVK = (\<lambda>k x. x\<lparr>do_kind := k\<rparr>), sc_Accessor = (\<lambda>x. Inr (do_key x))\<rparr>"

definition demo_delegate :: "(demo_object, demo_object list) delegate" where
  "demo_delegate =
     \<lparr>d_Get = (\<lambda>ns n x s. case find (\<lambda>y. do_key y = (ns, n)) s of
         None \<Rightarrow> ((x, Some (ApiErr ReasonNotFound n)), s) | Some y \<Rightarrow> ((y, None), s)),
      d_Create = (\<lambda>x s. (None, s @ [x])),
      d_Delete = (\<lambda>x s. (None, filter (\<lambda>y. do_key y \<noteq> do_key x) s)),
      d_Update = (\<lambda>x s. (None, map (\<lambda>y. if do_key y = do_key x then x else y) s)),
      d_Patch = (\<lambda>x pt p s. (None, map (\<lambda>y. if do_key y = do_key x then y\<lparr>do_data := p\<rparr> else y) s)),
      d_List = (\<lambda>x lo s. ((x\<lparr>do_data := concat (map do_data s)\<rparr>, None), s))\<rparr>"

definition demo_invokes :: "('o, 's) invokes" where
  "demo_invokes fs a s = (case run_chain fs a (store s) of (ans, s1) \<Rightarrow> (ans, recorded a s s1))"


end
