(* ===== verification/Test_Doubles.thy ===== *)
theory Test_Doubles
  imports Reactive Ssh Resource_Properties Instance_Config
begin

text \<open>
  The test doubles that stand for modelled components: the fake pod executor
  (\<open>pkg/executor/fake\<close>), the fakes of the ssh packages (\<open>pkg/net/ssh/fake\<close>), of commands and directories
  (\<open>pkg/fake\<close>), the hookable file system (\<open>pkg/fileutil\<close>) and the mock of the configuration reader. They are composed
  with the code that uses them, and compared with the contract of what they replace.
\<close>

section \<open>The fake pod executor\<close>

record fake_PodExec =
  ErrorMsgOnMaster0 :: string
  ErrorMsgOnMaster1 :: string
  fp_SegmentCount :: string
  SegmentCountErr :: "go_error option"
  ErrorMsgOnCommand :: string
  CalledPodName :: string
  RecordedCommands :: "string list"
  StdoutResult :: string

definition DefaultSegmentCount :: int where "DefaultSegmentCount = 1"

fun HasSubstring :: "string \<Rightarrow> string \<Rightarrow> bool" where
  "HasSubstring [] sub = (sub = [])"
| "HasSubstring (c # cs) sub = (HasPrefix (c # cs) sub \<or> HasSubstring cs sub)"

definition isSegmentCountQuery :: "string \<Rightarrow> bool" where
  "isSegmentCountQuery cmdStr = HasSubstring cmdStr ''SELECT COUNT(*) FROM gp_segment_configuration''"

definition isActiveMasterQuery :: "string \<Rightarrow> bool" where
  "isActiveMasterQuery cmdStr =
     HasSubstring cmdStr (''psql -U gpadmin -c '' @ [CHR 0x27] @ ''select * from gp_segment_configuration'' @ [CHR 0x27])"

definition handleActiveMasterQuery :: "fake_PodExec \<Rightarrow> string \<Rightarrow> go_error option" where
  "handleActiveMasterQuery f podName =
     (if ErrorMsgOnMaster0 f \<noteq> [] \<and> podName = ''master-0'' then Some (Err (ErrorMsgOnMaster0 f))
      else if ErrorMsgOnMaster1 f \<noteq> [] \<and> podName = ''master-1'' then Some (Err (ErrorMsgOnMaster1 f))
      else None)"

text \<open>
  The writers are buffers, whose writes do not fail. The message for standard error is used as a format
  string without arguments; \<open>fmt0\<close> is what \<open>Fprintf\<close> makes of it.
\<close>

definition fake_Execute :: "(string \<Rightarrow> string) \<Rightarrow> fake_PodExec pod_exec" where
  "fake_Execute fmt0 command namespace podName f =
     (let cmdStr = Join command '' '';
          answer = (\<lambda>err out errout. \<lparr>ex_err = err, ex_stdout = out, ex_stderr = errout\<rparr>)
      in if isActiveMasterQuery cmdStr then (answer (handleActiveMasterQuery f podName) [] [], f)
         else if isSegmentCountQuery cmdStr
         then (case SegmentCountErr f of
                 Some err \<Rightarrow> (answer (Some err) [] [], f)
               | None \<Rightarrow>
                   (answer None (if fp_SegmentCount f \<noteq> [] then fp_SegmentCount f else Itoa DefaultSegmentCount @ [CHR 0x0A]) [], f))
         else if ErrorMsgOnCommand f \<noteq> []
         then (answer (Some (Err (ErrorMsgOnCommand f))) [] (fmt0 (ErrorMsgOnCommand f)), f\<lparr>CalledPodName := podName\<rparr>)
         else (answer None (StdoutResult f) [],
               f\<lparr>CalledPodName := podName, RecordedCommands := RecordedCommands f @ [cmdStr]\<rparr>))"

text \<open>The queries of the operator are the ones that the fake recognises.\<close>

lemma operator_queries:
  "isActiveMasterQuery (Join testIfPrimaryMasterCommand '' '')"
  "\<not> isActiveMasterQuery (Join getSegmentCountCommand '' '')" "isSegmentCountQuery (Join getSegmentCountCommand '' '')"
  by code_simp+

lemma fake_active_master_query:
  "fake_Execute fmt0 testIfPrimaryMasterCommand ns pod f = (\<lparr>ex_err = handleActiveMasterQuery f pod, ex_stdout = [], ex_stderr = []\<rparr>, f)"
  by (simp add: fake_Execute_def operator_queries Let_def)

text \<open>The operator finds on the fake the active master that the test has set up.\<close>

lemma fake_active_master:
  "\<exists>w'. GetCurrentActiveMaster (fake_Execute fmt0) ns w =
      (if ErrorMsgOnMaster0 (server w) = [] then ''master-0''
       else if ErrorMsgOnMaster1 (server w) = [] then ''master-1'' else [], w') \<and> server w' = server w"
  by (auto simp: GetCurrentActiveMaster_def Execute_def perform_def fake_active_master_query handleActiveMasterQuery_def)

lemma fake_segment_count:
  assumes "PodExec r = fake_Execute fmt0" "SegmentCountErr (server w) = None"
  shows "\<exists>w'. getCurrentSegmentCount r ns pod w =
      (case ParseInt ''ParseInt'' 32 (TrimSpace (if fp_SegmentCount (server w) \<noteq> [] then fp_SegmentCount (server w) else Itoa 1 @ [CHR 0x0A])) of
         Inl err \<Rightarrow> Inl err | Inr n \<Rightarrow> Inr (word_of_int n), w')"
  using assms
  by (auto simp: getCurrentSegmentCount_def Execute_def perform_def fake_Execute_def operator_queries DefaultSegmentCount_def Let_def
      split: sum.splits)

section \<open>The ssh fakes\<close>

text \<open>A dialer with its client and its session: \<open>GenerateSSHFake\<close>, changed by the \<open>With...\<close> methods.\<close>

record FakeSSHSession =
  fs_fakeError :: "go_error option"
  fs_fakeOutput :: string

record FakeSSHClient =
  fc_fakeSSHSession :: "FakeSSHSession option"
  fc_fakeError :: "go_error option"
  WasClosed :: bool

record 'k FakeDialer =
  fd_fakeErr :: "go_error option"
  hostPublicKey :: "'k option"
  fakeClient :: "FakeSSHClient option"
  CallCount :: int
  Addr :: string

definition NewFakeSSHSession :: FakeSSHSession where
  "NewFakeSSHSession = \<lparr>fs_fakeError = None, fs_fakeOutput = []\<rparr>"

definition NewFakeSSHClient :: FakeSSHClient where
  "NewFakeSSHClient = \<lparr>fc_fakeSSHSession = None, fc_fakeError = None, WasClosed = False\<rparr>"

definition NewFakeDialer :: "'k FakeDialer" where
  "NewFakeDialer = \<lparr>fd_fakeErr = None, hostPublicKey = None, fakeClient = None, CallCount = 0, Addr = []\<rparr>"

definition Session_WithError where "Session_WithError err s = s\<lparr>fs_fakeError := err\<rparr>"
definition Session_WithOutput where "Session_WithOutput out s = s\<lparr>fs_fakeOutput := out\<rparr>"
definition Client_WithSession where "Client_WithSession session c = c\<lparr>fc_fakeSSHSession := Some session\<rparr>"
definition Client_WithError where "Client_WithError err c = c\<lparr>fc_fakeError := err\<rparr>"
definition Dialer_WithError where "Dialer_WithError err f = f\<lparr>fd_fakeErr := err\<rparr>"
definition Dialer_WithClient where "Dialer_WithClient c f = f\<lparr>fakeClient := Some c\<rparr>"

text \<open>\<open>parse\<close> is \<open>ssh.ParseAuthorizedKey\<close>.\<close>

definition Dialer_WithHostPublicKey :: "(string \<Rightarrow> 'k result) \<Rightarrow> string \<Rightarrow> 'k FakeDialer \<Rightarrow> 'k FakeDialer outcome" where
  "Dialer_WithHostPublicKey parse publicKey f =
     (case parse publicKey of Inr k \<Rightarrow> Done (f\<lparr>hostPublicKey := Some k\<rparr>) | Inl err \<Rightarrow> TestFails)"

definition GenerateSSHFake :: "'k FakeDialer" where
  "GenerateSSHFake = Dialer_WithClient (Client_WithSession NewFakeSSHSession NewFakeSSHClient) NewFakeDialer"

text \<open>
  \<open>Dial\<close> with the host key callback of the configuration, which sees the key, nil when none is set. A
  client that was not set up fails the test.
\<close>

definition FakeDialer_Dial ::
  "string \<Rightarrow> string \<Rightarrow> (string \<Rightarrow> 'k option \<Rightarrow> go_error option) \<Rightarrow> 'k FakeDialer \<Rightarrow> (FakeSSHClient option \<times> go_error option) outcome \<times> 'k FakeDialer"
where
  "FakeDialer_Dial network hostAddr callback f =
     (if network \<noteq> ''tcp'' \<or> fakeClient f = None then (TestFails, f)
      else let f1 = f\<lparr>CallCount := CallCount f + 1, Addr := hostAddr\<rparr>
           in if fd_fakeErr f \<noteq> None then (Done (None, fd_fakeErr f), f1)
              else (Done (fakeClient f, callback hostAddr (hostPublicKey f)), f1))"

definition FakeSSHClient_NewSession :: "FakeSSHClient \<Rightarrow> (FakeSSHSession option \<times> go_error option) outcome" where
  "FakeSSHClient_NewSession c = (if fc_fakeSSHSession c = None then TestFails else Done (fc_fakeSSHSession c, fc_fakeError c))"

definition FakeSSHClient_Close :: "FakeSSHClient \<Rightarrow> FakeSSHClient" where
  "FakeSSHClient_Close c = c\<lparr>WasClosed := True\<rparr>"

definition FakeSSHSession_CombinedOutput :: "FakeSSHSession \<Rightarrow> string \<Rightarrow> string \<times> go_error option" where
  "FakeSSHSession_CombinedOutput s cmd = (fs_fakeOutput s, fs_fakeError s)"

text \<open>
  The fakes in the place of the network, for a dialer with a client and a session: the scan's callback takes
  every key, that of a remote command (\<open>ssh.FixedHostKey\<close>) only the known one; the connection has the handle 0.
\<close>

definition set_up :: "'k FakeDialer \<Rightarrow> bool" where
  "set_up f \<longleftrightarrow> (\<exists>c session. fakeClient f = Some c \<and> fc_fakeSSHSession c = Some session)"

definition fake_dialer :: "(string \<Rightarrow> 'p result) \<Rightarrow> ('k FakeDialer, 'k, 'p) dialer" where
  "fake_dialer parse =
     \<lparr>d_Dial = (\<lambda>addr signer f.
        case FakeDialer_Dial ''tcp'' addr (\<lambda>a k. None) f of
          (Done (c, err), f1) \<Rightarrow> ((err, if err = None then (case hostPublicKey f of None \<Rightarrow> [] | Some k \<Rightarrow> [k]) else []), f1)
        | (r, f1) \<Rightarrow> ((Some (Err ''test failed''), []), f1)),
      d_ParsePrivateKey = parse\<rparr>"

definition fixedHostKey :: "'k \<Rightarrow> string \<Rightarrow> 'k option \<Rightarrow> go_error option" where
  "fixedHostKey known host k = (if k = Some known then None else Some (Err ''ssh: host key mismatch''))"

definition fake_remote :: "('k FakeDialer, 'k, 'p) remote" where
  "fake_remote =
     \<lparr>r_Dial = (\<lambda>addr known signer f.
        case FakeDialer_Dial ''tcp'' addr (fixedHostKey known) f of
          (Done (c, None), f1) \<Rightarrow> (Inr 0, f1)
        | (Done (c, Some err), f1) \<Rightarrow> (Inl err, f1)
        | (r, f1) \<Rightarrow> (Inl (Err ''test failed''), f1)),
      r_NewSession = (\<lambda>h f.
        case FakeSSHClient_NewSession (the (fakeClient f)) of
          Done (session, None) \<Rightarrow> (Inr 0, f)
        | Done (session, Some err) \<Rightarrow> (Inl err, f)
        | r \<Rightarrow> (Inl (Err ''test failed''), f)),
      r_CombinedOutput = (\<lambda>h cmd f. (FakeSSHSession_CombinedOutput (the (fc_fakeSSHSession (the (fakeClient f)))) cmd, f)),
      r_Close = (\<lambda>h f. f\<lparr>fakeClient := map_option FakeSSHClient_Close (fakeClient f)\<rparr>)\<rparr>"

text \<open>A poll that evaluates its condition first ends at once when it holds.\<close>

definition polls_at_once :: "'s poll_fn \<Rightarrow> bool" where
  "polls_at_once P \<longleftrightarrow> (\<forall>i t cond s s'. cond s = (Inr True, s') \<longrightarrow> P i t cond s = (Inr (), s'))"

text \<open>A scan through the fake takes the key of the fake, in one attempt.\<close>

lemma fake_key_scan:
  assumes "polls_at_once P" "set_up f" "fd_fakeErr f = None"
  shows "SSHKeyScan P (fake_dialer parse) M host timeout f =
    (\<lparr>hk_Hostname = host, hk_Err = None, hk_PublicKey = hostPublicKey f\<rparr>,
     f\<lparr>CallCount := CallCount f + 1, Addr := host @ '':22''\<rparr>)"
proof -
  obtain c session where "fakeClient f = Some c" using assms(2) by (auto simp: set_up_def)
  then have "scanRound (fake_dialer parse) M (host @ '':22'') (None, f) =
      (Inr True, hostPublicKey f, f\<lparr>CallCount := CallCount f + 1, Addr := host @ '':22''\<rparr>)"
    using assms(3) by (auto simp: scanRound_def fake_dialer_def FakeDialer_Dial_def Let_def split: option.splits)
  with assms(1) have "P 1 timeout (scanRound (fake_dialer parse) M (host @ '':22'')) (None, f) =
      (Inr (), hostPublicKey f, f\<lparr>CallCount := CallCount f + 1, Addr := host @ '':22''\<rparr>)"
    by (simp only: polls_at_once_def)
  then show ?thesis by (simp add: SSHKeyScan_def Let_def)
qed

text \<open>
  A remote command through the fakes: it runs only when the key that the host shows is the known one, then
  the caller gets what the session was set up with, and the connection is closed at the end.
\<close>

lemma fake_remote_command:
  assumes "fakeClient f = Some c" "fc_fakeSSHSession c = Some session" "fc_fakeError c = None" "fd_fakeErr f = None"
    and "known host = Some k"
  shows "RunSSHCommand fake_remote (Inr known) host cmd signer f =
    (if hostPublicKey f = Some k
     then ((fs_fakeOutput session, fs_fakeError session),
           f\<lparr>CallCount := CallCount f + 1, Addr := host @ '':22'', fakeClient := Some (c\<lparr>WasClosed := True\<rparr>)\<rparr>)
     else (([], Some (Err ''ssh: host key mismatch'')), f\<lparr>CallCount := CallCount f + 1, Addr := host @ '':22''\<rparr>))"
  using assms
  by (simp add: RunSSHCommand_def GetHostPublicKey_def fake_remote_def FakeDialer_Dial_def fixedHostKey_def Let_def
    FakeSSHClient_NewSession_def FakeSSHClient_Close_def FakeSSHSession_CombinedOutput_def)

lemma fake_session_error_closes:
  assumes "fakeClient f = Some c" "fc_fakeSSHSession c \<noteq> None" "fc_fakeError c = Some err" "fd_fakeErr f = None"
    and "known host = Some k" "hostPublicKey f = Some k" "RunSSHCommand fake_remote (Inr known) host cmd signer f = (r, f')"
  shows "r = ([], Some (Wrap ''could not create ssh session'' err)) \<and> (\<exists>c'. fakeClient f' = Some c' \<and> WasClosed c')"
  using assms
  by (auto simp: RunSSHCommand_def GetHostPublicKey_def fake_remote_def FakeDialer_Dial_def fixedHostKey_def Let_def
    FakeSSHClient_NewSession_def FakeSSHClient_Close_def)

subsection \<open>Scanner, reader and executor\<close>

text \<open>The fake key of a host: its format and its blob. The locks make each call one step.\<close>

type_synonym agent_key = "string \<times> string"

definition KeyForHost :: "string \<Rightarrow> agent_key" where
  "KeyForHost host = (''FakeKey'', host)"

record KeyScanner =
  ks_WasCalled :: bool
  ks_Hostnames :: "string list"
  ks_Err :: "go_error option"

definition KeyScanner_SSHKeyScan :: "string \<Rightarrow> int \<Rightarrow> KeyScanner \<Rightarrow> agent_key HostKey \<times> KeyScanner" where
  "KeyScanner_SSHKeyScan hostname timeout k =
     (\<lparr>hk_Hostname = hostname, hk_Err = ks_Err k, hk_PublicKey = Some (KeyForHost hostname)\<rparr>,
      k\<lparr>ks_WasCalled := True, ks_Hostnames := ks_Hostnames k @ [hostname]\<rparr>)"

record 'k KnownHostsReader =
  kr_WasCalled :: bool
  kr_KnownHosts :: "string \<rightharpoonup> 'k"
  kr_Err :: "go_error option"

definition KnownHostsReader_GetKnownHosts :: "'k KnownHostsReader \<Rightarrow> (string \<rightharpoonup> 'k) result \<times> 'k KnownHostsReader" where
  "KnownHostsReader_GetKnownHosts r =
     (case kr_Err r of None \<Rightarrow> Inr (kr_KnownHosts r) | Some err \<Rightarrow> Inl err, r\<lparr>kr_WasCalled := True\<rparr>)"

record 'p FakeExec =
  CalledHostnames :: "string list"
  CalledCommands :: "string list"
  CalledPrivateKeys :: "'p list"
  FakeError :: "go_error option"
  FakeOutput :: string

definition NewExec :: "'p FakeExec" where
  "NewExec = \<lparr>CalledHostnames = [], CalledCommands = [], CalledPrivateKeys = [], FakeError = None, FakeOutput = []\<rparr>"

definition Exec_WithError where "Exec_WithError err f = f\<lparr>FakeError := err\<rparr>"
definition Exec_WithOutput where "Exec_WithOutput output f = f\<lparr>FakeOutput := output\<rparr>"

definition FakeExec_RunSSHCommand :: "string \<Rightarrow> string \<Rightarrow> 'p \<Rightarrow> 'p FakeExec \<Rightarrow> (string \<times> go_error option) \<times> 'p FakeExec" where
  "FakeExec_RunSSHCommand hostname command privateKey f =
     ((FakeOutput f, FakeError f),
      f\<lparr>CalledHostnames := CalledHostnames f @ [hostname], CalledCommands := CalledCommands f @ [command],
        CalledPrivateKeys := CalledPrivateKeys f @ [privateKey]\<rparr>)"

lemma FakeExec_records:
  "foldl (\<lambda>f (h, c, p). snd (FakeExec_RunSSHCommand h c p f)) (Exec_WithError err (Exec_WithOutput out NewExec)) runs =
    \<lparr>CalledHostnames = map fst runs, CalledCommands = map (fst \<circ> snd) runs, CalledPrivateKeys = map (snd \<circ> snd) runs,
     FakeError = err, FakeOutput = out\<rparr>"
  by (induction runs rule: rev_induct)
    (auto simp: FakeExec_RunSSHCommand_def Exec_WithError_def Exec_WithOutput_def NewExec_def)

text \<open>
  Scanning hosts with the fakes gives one line per host that is not yet known, in the order in which the
  results arrive; a known host must have its fake key.
\<close>

definition scan_line :: "agent_key ssh_lib \<Rightarrow> string \<Rightarrow> string" where
  "scan_line L host = host @ '' '' @ MarshalAuthorizedKey L (KeyForHost host)"

lemma fake_scan_collect:
  assumes "ks_Err k = None"
    and "\<forall>h\<in>set hosts. \<forall>key. known h = Some key \<longrightarrow> Marshal L key = Marshal L (KeyForHost h)"
  shows "collectHostKeys L known (map (\<lambda>h. fst (KeyScanner_SSHKeyScan h t k)) hosts) acc err =
    Some (acc @ concat (map (scan_line L) (filter (\<lambda>h. known h = None) hosts)), err)"
  using assms(2)
  by (induction hosts arbitrary: acc err)
    (auto simp: KeyScanner_SSHKeyScan_def assms(1) scan_line_def split: option.splits)

lemma fake_scan_hosts:
  assumes "ks_Err k = None" "kr_Err r = None"
    and "\<forall>h\<in>set hosts. \<forall>key. kr_KnownHosts r h = Some key \<longrightarrow> Marshal L key = Marshal L (KeyForHost h)"
  shows "ScanHostKeys L (\<lambda>h. fst (KeyScanner_SSHKeyScan h t k)) (\<lambda>xs. xs) (fst (KnownHostsReader_GetKnownHosts r)) hosts =
    Some (Inr (concat (map (scan_line L) (filter (\<lambda>h. kr_KnownHosts r h = None) hosts))))"
  using assms by (simp add: ScanHostKeys_def KnownHostsReader_GetKnownHosts_def fake_scan_collect)

lemma fake_scan_records:
  "foldl (\<lambda>k h. snd (KeyScanner_SSHKeyScan h t k)) k hosts =
    k\<lparr>ks_WasCalled := ks_WasCalled k \<or> hosts \<noteq> [], ks_Hostnames := ks_Hostnames k @ hosts\<rparr>"
  by (induction hosts arbitrary: k) (simp_all add: KeyScanner_SSHKeyScan_def)

section \<open>The file system with hooks\<close>

text \<open>
  A hook that is set takes the place of one operation; the others are those of the embedded file system,
  whose \<open>Mkdir\<close> is not an operation of a machine of its own. \<open>hooked_machine\<close> is for file systems without a
  hook on \<open>Mkdir\<close>, which would also show in \<open>vfs.MkdirAll\<close>.
\<close>

record 's HookableFilesystem =
  hf_Filesystem :: "'s machine"
  hf_Mkdir :: "string \<Rightarrow> nat \<Rightarrow> 's \<Rightarrow> unit result \<times> 's"
  OpenFileHook :: "(string \<Rightarrow> open_flag list \<Rightarrow> nat \<Rightarrow> 's \<Rightarrow> nat result \<times> 's) option"
  SymlinkHook :: "(string \<Rightarrow> string \<Rightarrow> 's \<Rightarrow> unit result \<times> 's) option"
  MkdirHook :: "(string \<Rightarrow> nat \<Rightarrow> 's \<Rightarrow> unit result \<times> 's) option"
  StatHook :: "(string \<Rightarrow> 's \<Rightarrow> FileInfo result) option"

definition Hookable_OpenFile :: "'s HookableFilesystem \<Rightarrow> string \<Rightarrow> open_flag list \<Rightarrow> nat \<Rightarrow> 's \<Rightarrow> nat result \<times> 's" where
  "Hookable_OpenFile fs name flags perm =
     (case OpenFileHook fs of Some hook \<Rightarrow> hook name flags perm | None \<Rightarrow> m_OpenFile (hf_Filesystem fs) name flags perm)"

definition Hookable_Symlink :: "'s HookableFilesystem \<Rightarrow> string \<Rightarrow> string \<Rightarrow> 's \<Rightarrow> unit result \<times> 's" where
  "Hookable_Symlink fs oldname newname =
     (case SymlinkHook fs of Some hook \<Rightarrow> hook oldname newname | None \<Rightarrow> m_Symlink (hf_Filesystem fs) oldname newname)"

definition Hookable_Mkdir :: "'s HookableFilesystem \<Rightarrow> string \<Rightarrow> nat \<Rightarrow> 's \<Rightarrow> unit result \<times> 's" where
  "Hookable_Mkdir fs name perm = (case MkdirHook fs of Some hook \<Rightarrow> hook name perm | None \<Rightarrow> hf_Mkdir fs name perm)"

definition Hookable_Stat :: "'s HookableFilesystem \<Rightarrow> string \<Rightarrow> 's \<Rightarrow> FileInfo result" where
  "Hookable_Stat fs name = (case StatHook fs of Some hook \<Rightarrow> hook name | None \<Rightarrow> m_Stat (hf_Filesystem fs) name)"

definition hooked_machine :: "'s HookableFilesystem \<Rightarrow> 's machine" where
  "hooked_machine fs = (hf_Filesystem fs)\<lparr>m_OpenFile := Hookable_OpenFile fs, m_Symlink := Hookable_Symlink fs, m_Stat := Hookable_Stat fs\<rparr>"

lemma unhooked_machine:
  "OpenFileHook fs = None \<Longrightarrow> SymlinkHook fs = None \<Longrightarrow> StatHook fs = None \<Longrightarrow> hooked_machine fs = hf_Filesystem fs"
  by (simp add: hooked_machine_def Hookable_OpenFile_def [abs_def] Hookable_Symlink_def [abs_def] Hookable_Stat_def [abs_def])

text \<open>A hook that refuses to open is what an appending writer reports; no file is written.\<close>

lemma refused_open_fails_append:
  assumes "OpenFileHook fs = Some (\<lambda>name flags perm s. (Inl err, s))"
  shows "\<exists>w'. FileWriter_Append (hooked_machine fs) name bytes w = (Inl err, w') \<and>
    server w' = snd (m_MkdirAll (hf_Filesystem fs) (path_Dir name) 457 (server w))"
  using assms
  by (auto simp: FileWriter_Append_def hooked_machine_def Hookable_OpenFile_def OpenFile_def MkdirAll_def perform_def split: prod.splits)

section \<open>The mock of the configuration reader\<close>

record MockReader =
  mr_NamespaceName :: string
  mr_NamespaceNameErr :: "go_error option"
  mr_GreenplumClusterName :: string
  mr_GreenplumClusterNameErr :: "go_error option"
  mr_SegmentCount :: int
  mr_SegmentCountErr :: "go_error option"
  mr_Mirrors :: bool
  mr_MirrorsErr :: "go_error option"
  mr_PXFServiceName :: string
  mr_PXFServiceNameErr :: "go_error option"
  mr_Standby :: bool
  mr_StandbyErr :: "go_error option"
  mr_ConfigMapValuesErr :: "go_error option"

definition withErr :: "'a \<Rightarrow> go_error option \<Rightarrow> 'a result" where
  "withErr x err = (case err of None \<Rightarrow> Inr x | Some e \<Rightarrow> Inl e)"

definition mock_GetNamespace where "mock_GetNamespace cr = withErr (mr_NamespaceName cr) (mr_NamespaceNameErr cr)"
definition mock_GetGreenplumClusterName where
  "mock_GetGreenplumClusterName cr = withErr (mr_GreenplumClusterName cr) (mr_GreenplumClusterNameErr cr)"
definition mock_GetSegmentCount where "mock_GetSegmentCount cr = withErr (mr_SegmentCount cr) (mr_SegmentCountErr cr)"
definition mock_GetMirrors where "mock_GetMirrors cr = withErr (mr_Mirrors cr) (mr_MirrorsErr cr)"
definition mock_GetPXFServiceName where "mock_GetPXFServiceName cr = withErr (mr_PXFServiceName cr) (mr_PXFServiceNameErr cr)"
definition mock_GetStandby where "mock_GetStandby cr = withErr (mr_Standby cr) (mr_StandbyErr cr)"

definition mock_GetConfigValues :: "MockReader \<Rightarrow> ConfigValues result" where
  "mock_GetConfigValues cr =
     withErr \<lparr>cv_Namespace = mr_NamespaceName cr, cv_GreenplumClusterName = mr_GreenplumClusterName cr,
       cv_SegmentCount = mr_SegmentCount cr, cv_Mirrors = mr_Mirrors cr, cv_Standby = mr_Standby cr,
       cv_PXFServiceName = mr_PXFServiceName cr\<rparr> (mr_ConfigMapValuesErr cr)"

lemma withErr_Inr [simp]: "withErr x err = Inr y \<longleftrightarrow> err = None \<and> x = y"
  by (auto simp: withErr_def split: option.splits)

text \<open>
  The mock keeps the contract of the reader only when the test sets a positive count and gives the three
  values no error of their own: the real reader reports such an error from \<open>GetConfigValues\<close> too.
\<close>

definition faithful_mock :: "MockReader \<Rightarrow> bool" where
  "faithful_mock cr \<longleftrightarrow> 0 < mr_SegmentCount cr \<and> mr_SegmentCount cr < 2 ^ 63 \<and>
     mr_SegmentCountErr cr = None \<and> mr_MirrorsErr cr = None \<and> mr_StandbyErr cr = None"

lemma faithful_mock_reader:
  "faithful_mock cr \<Longrightarrow> config_reader (\<lambda>u. mock_GetSegmentCount cr) (\<lambda>u. mock_GetMirrors cr) (\<lambda>u. mock_GetStandby cr) (\<lambda>u. mock_GetConfigValues cr)"
  by unfold_locales (auto simp: faithful_mock_def mock_GetSegmentCount_def mock_GetMirrors_def mock_GetStandby_def mock_GetConfigValues_def)

lemma zero_mock_is_no_reader:
  assumes "mr_SegmentCountErr cr = None" "mr_SegmentCount cr = 0"
  shows "\<not> config_reader (\<lambda>u. mock_GetSegmentCount cr) (\<lambda>u. mock_GetMirrors cr) (\<lambda>u. mock_GetStandby cr) (\<lambda>u. mock_GetConfigValues cr)"
  using assms by (auto simp: config_reader_def mock_GetSegmentCount_def)

lemma partial_mock_is_no_reader:
  assumes "mr_MirrorsErr cr = Some err" "mr_ConfigMapValuesErr cr = None"
  shows "\<not> config_reader (\<lambda>u. mock_GetSegmentCount cr) (\<lambda>u. mock_GetMirrors cr) (\<lambda>u. mock_GetStandby cr) (\<lambda>u. mock_GetConfigValues cr)"
  using assms by (auto simp: config_reader_def mock_GetConfigValues_def mock_GetMirrors_def)

section \<open>Recorders\<close>

record FakeCommand =
  fcm_Name :: string
  fcm_Arg :: "string list"
  fcm_Error :: "go_error option"

definition FakeCommand_Run :: "string \<Rightarrow> string list \<Rightarrow> FakeCommand \<Rightarrow> go_error option \<times> FakeCommand" where
  "FakeCommand_Run command args f = (fcm_Error f, f\<lparr>fcm_Name := command, fcm_Arg := args\<rparr>)"

text \<open>The writer given as standard output is a function on the state; its error is not looked at.\<close>

record 's FakeCommandWithOutput = FakeCommand +
  StdOut :: "string \<Rightarrow> 's \<Rightarrow> unit result \<times> 's"

definition FakeCommandWithOutput_Run ::
  "string \<Rightarrow> string list \<Rightarrow> 's FakeCommandWithOutput \<Rightarrow> 's \<Rightarrow> go_error option \<times> 's FakeCommandWithOutput \<times> 's"
where
  "FakeCommandWithOutput_Run command args f s =
     (fcm_Error f, f\<lparr>fcm_Name := command, fcm_Arg := args\<rparr>, snd (StdOut f ''command ran'' s))"

record FakeOsSuccess =
  fo_Path :: string
  fo_Perm :: nat

definition FakeOsSuccess_FakeMkDirAll :: "string \<Rightarrow> nat \<Rightarrow> FakeOsSuccess \<Rightarrow> go_error option \<times> FakeOsSuccess" where
  "FakeOsSuccess_FakeMkDirAll path perm f = (None, f\<lparr>fo_Path := path, fo_Perm := perm\<rparr>)"

definition FakeOsFails_FakeMkDirAll :: "string \<Rightarrow> nat \<Rightarrow> go_error option" where
  "FakeOsFails_FakeMkDirAll path perm = Some (Err ''This is an error'')"

record MockUbuntu =
  mu_DirName :: string
  mu_UserName :: string
  mu_ChownErr :: "go_error option"
  mu_Hostname :: string
  mu_HostnameErr :: "go_error option"

definition MockUbuntu_ChangeDirectoryOwner :: "string \<Rightarrow> string \<Rightarrow> MockUbuntu \<Rightarrow> go_error option \<times> MockUbuntu" where
  "MockUbuntu_ChangeDirectoryOwner dirName userName f = (mu_ChownErr f, f\<lparr>mu_DirName := dirName, mu_UserName := userName\<rparr>)"

definition MockUbuntu_Hostname :: "MockUbuntu \<Rightarrow> string result" where
  "MockUbuntu_Hostname f = withErr (mu_Hostname f) (mu_HostnameErr f)"

text \<open>The operation of the multi-host tests: an entry of the map with the value nil is no error.\<close>

record FakeOperation =
  FakeErrors :: "string \<rightharpoonup> go_error option"
  HostRecords :: "string list"

definition FakeOperation_Execute :: "string \<Rightarrow> FakeOperation \<Rightarrow> go_error option \<times> FakeOperation" where
  "FakeOperation_Execute addr r =
     (case FakeErrors r addr of Some (Some fakeError) \<Rightarrow> Some fakeError | _ \<Rightarrow> None, r\<lparr>HostRecords := HostRecords r @ [addr]\<rparr>)"

text \<open>
  In whatever order the goroutines take the lock, the recorded hosts are the hosts, and the errors that
  \<open>ParallelForeach\<close> reports are those of the map.
\<close>

lemma FakeOperation_records:
  "HostRecords (foldl (\<lambda>r h. snd (FakeOperation_Execute h r)) r hosts) = HostRecords r @ hosts \<and>
   FakeErrors (foldl (\<lambda>r h. snd (FakeOperation_Execute h r)) r hosts) = FakeErrors r"
  by (induction hosts arbitrary: r) (simp_all add: FakeOperation_Execute_def)

lemma FakeOperation_errors:
  assumes "ParallelForeach (\<lambda>h. fst (FakeOperation_Execute h r)) hosts errs"
  shows "errs = [] \<longleftrightarrow> (\<forall>h\<in>set hosts. FakeErrors r h \<in> {None, Some None})"
  using ParallelForeach_Nil_iff [OF assms] by (fastforce simp: FakeOperation_Execute_def split: option.splits)

section \<open>What the reactive client hides\<close>

text \<open>
  The patch of the reactive client leaves the caller's object as it is. A reconciler on such a client keeps
  the lower-cased fields after the patch of the finalizer, and creates the mirrors that the same
  reconciler does not create when the patch answers with the stored object.
\<close>

definition patched_in_place :: "demo GreenplumClusterReconciler" where
  "patched_in_place = demo_stored\<lparr>clusters := (clusters demo_stored)\<lparr>api_Patch := (\<lambda>x base s.
     case api_Patch (clusters demo_stored) x base s of (Inr y, s1) \<Rightarrow> (Inr x, s1) | (Inl err, s1) \<Rightarrow> (Inl err, s1))\<rparr>\<rparr>"

lemma reactive_patch_hides_lost_mirrors:
  "CreateOrUpdateCall KStatefulSet ''ns'' ''segment-b'' \<in>
     set (calls (snd (Reconcile patched_in_place ''ns'' ''gp'' (demo_world (demo_empty\<lparr>t_clusters := [demo_capital]\<rparr>)))))"
  "CreateOrUpdateCall KStatefulSet ''ns'' ''segment-b'' \<notin>
     set (calls (snd (Reconcile demo_stored ''ns'' ''gp'' (demo_world (demo_empty\<lparr>t_clusters := [demo_capital]\<rparr>)))))"
  by code_simp+

end
