(* ===== verification/Spec2Isabelle.thy ===== *)
theory Spec2Isabelle
  imports Cluster_Properties Convergence Placement Resource_Properties Pxf_Convergence Admission_Properties
    Gpexpand Cluster_Init Container_Start
    Webhook Pxf_Start Known_Hosts Instance_Daemons Security_Check Psql_Service Commandable Source_Urls
    Deep_Copy Integration Test_Doubles
begin

text \<open>
  \<^bold>\<open>Greenplum for Kubernetes, modelled and verified.\<close>

  \<^bold>\<open>The program.\<close> The repository holds two programs written in Go and what they share. The \<^emph>\<open>operator\<close>
  (\<open>src/greenplum-operator\<close>) watches the custom resources \<open>GreenplumCluster\<close> and \<open>GreenplumPXFService\<close>; its
  reconcilers create the stateful sets, services, config map, keys, roles and jobs of a cluster and the
  deployment of a PXF server, and an admission webhook refuses objects the reconcilers could not handle.
  The \<^emph>\<open>instance\<close> programs (\<open>src/greenplum-instance\<close>) run inside the pods the operator creates: the start of a
  container, the ssh set-up, the initialisation of the database, the known-hosts controller, the expansion
  of a running cluster (in the job the operator creates), and the start of a PXF server. The packages
  under \<open>src/pkg\<close> are shared by both. The operator and the instances meet in the API objects: what the
  operator writes into the config map, the environment, the host names and the labels is what the
  instances read, and several properties are about this meeting.

  \<^bold>\<open>Conventions.\<close> A Go function that can fail returns \<open>go_error + 'a\<close>; code with effects takes and returns the
  state: the client calls of the operator go through a record \<open>resource_api\<close> per kind of object (\<open>Kube\<close>), over a
  server state of any type \<open>'s\<close>, and the file and process calls of the instances through the record \<open>machine\<close> (\<open>Machine\<close>). Both
  states carry the log of the calls made, newest last, in which the order of effects is stated. The
  Kubernetes API server, the file system, the commands, the ssh, TLS, S3 and X.509 libraries are not in
  the repository: they are these parameters, and what the code relies on is a named predicate
  (\<open>unchanged_laws\<close>, \<open>file_laws\<close>, \<open>rbac_laws\<close>, \<open>x509_laws\<close> and so on) that \<open>Demo_Server\<close>, \<open>Demo_Machine\<close> and the witnesses
  show to be satisfiable. 32-bit counts are \<open>32 word\<close> read with \<open>sint\<close>; Go maps are association lists where
  the code ranges over them (the order of an iteration is then a parameter that gives some permutation)
  and lookups elsewhere.

  \<^bold>\<open>Shared theories.\<close>
  \<^item> \<open>Prelude\<close>: Go's errors, maps, and the functions of \<open>strings\<close>, \<open>strconv\<close> and \<open>fmt\<close> the code calls, with the
    collections \<open>go_string\<close> and \<open>go_map\<close>.
  \<^item> \<open>Kube\<close>: the API objects, the client and its call log (\<open>client_defs\<close>, \<open>call_log\<close>). \<open>Modifier\<close>: the contract of
    \<open>ctrl.CreateOrUpdate\<close> callbacks as the locale \<open>resource_modifier\<close> (idempotent, keeps the name, keeps foreign
    metadata), interpreted on every \<open>Modify...\<close> function of the operator; the settled-cluster properties rest
    on its facts.
  \<^item> \<open>Machine\<close>, \<open>Command_Log\<close>: files, processes, \<open>pkg/fileutil\<close>, and what each operation adds to the commands.
  \<^item> \<open>Demo_Server\<close>, \<open>Demo_Machine\<close>: a concrete server and machine for the witnesses.

  \<^bold>\<open>The operator.\<close>
  \<^item> \<open>Greenplum_API\<close> (\<open>api/v1\<close>, \<open>api/v1beta1\<close>): the two custom resources. \<open>Deep_Copy\<close> (\<open>zz_generated.deepcopy.go\<close> of both):
    the generated copies, over the explicit store of \<open>Go_Memory\<close> because they are about sharing: pointers,
    slices and maps are addresses, and the locale \<open>deep_copier\<close> (same value, new addresses, nothing else changed)
    is shown of every copy from those of its parts, so a copy and its original can be changed independently.
    \<open>Go_Memory\<close> also has \<open>pkg/heapvalue\<close>.
  \<^item> \<open>Sset\<close>, \<open>Resources\<close>, \<open>Rbac\<close> (\<open>pkg/sset\<close>, \<open>configmap\<close>, \<open>sshkeygen\<close>, \<open>service\<close>, \<open>serviceaccount\<close>, \<open>gpexpandjob\<close>): the objects a
    cluster owns. \<open>Resource_Properties\<close>: stateful sets are well formed, keys are generated once, the role
    grants what it should, and a defect with yes/no values in capital letters.
  \<^item> \<open>Executor\<close> (\<open>pkg/executor\<close>): commands in pods and the active master.
  \<^item> \<open>Cluster_Controller\<close> (\<open>controllers/greenplumcluster\<close>): \<open>Reconcile\<close> with its finalizer, defaults, anti-affinity,
    expansion and status. \<open>Cluster_Behaviour\<close> has the lemmas on the calls of each part; \<open>Cluster_Properties\<close> shows
    the order of the resources, that a settled cluster is left alone, the order of deletion, when an
    expansion job is created. \<open>Role_Settles\<close>, \<open>Stored_Resources\<close> and \<open>Convergence\<close> lead to \<open>Reconcile_converges\<close>: on a server
    that stores what it is sent (\<open>store_laws\<close>, shown of the tables in \<open>Demo_Store\<close>) one pass that does not ask to
    run again leaves a settled cluster, and later passes change nothing. \<open>Placement\<close> shows that anti-affinity puts a primary and its mirror on different nodes.
  \<^item> \<open>Pxf\<close>, \<open>Pxf_Properties\<close>, \<open>Pxf_Convergence\<close> (\<open>pkg/pxf\<close>, \<open>greenplumpxfservice_controller.go\<close>):
    both objects, the phases, and convergence in one pass; \<open>change_relation\<close> is the contract that the two
    convergence proofs share.
  \<^item> \<open>Admission\<close>, \<open>Admission_Properties\<close> (\<open>pkg/admission\<close>): the validators refine an abstract specification of the
    clusters that may be created; what no sequence of admitted updates (\<open>evolves\<close>) changes; failing closed.
  \<^item> \<open>Webhook\<close> (\<open>webhook.go\<close>, \<open>certificate.go\<close>, \<open>server.go\<close>, \<open>cmd/greenplumOperator\<close>): certificates, registration and the
    TLS server as a step relation; the locale \<open>cert_generator\<close> is what the webhook relies on, \<open>x509\<close> what the
    library promises, and the code's \<open>certGenerator\<close> turns the second into the first (\<open>sublocale\<close>).

  \<^bold>\<open>The instances.\<close>
  \<^item> \<open>Instance_Config\<close> (\<open>pkg/instanceconfig\<close>): the reader, behind the locale \<open>config_reader\<close>; it reads back what the
    operator wrote.
  \<^item> \<open>Hosts\<close> (\<open>pkg/net\<close>): the host list is the list of pods the operator creates; \<open>ParallelForeach\<close> as a step
    relation over goroutines and a channel, complete under every schedule, and its contract to the code
    that calls it as the locale \<open>multihost\<close>; the DNS poller.
  \<^item> \<open>Ssh\<close> (\<open>pkg/net/ssh\<close>): known hosts, key scan, remote commands. \<open>Known_Hosts\<close>: the controller that follows the
    endpoints.
  \<^item> \<open>Gpinit\<close>, \<open>Cluster_Init\<close> (\<open>startContainerUtils/cluster\<close>, \<open>cluster_init_daemon.go\<close>): the gpinitsystem
    configuration against a reference text, the order of an initialisation, and that an existing database
    is restarted and never created again.
  \<^item> \<open>Gpexpand\<close> (\<open>cmd/runGpexpand\<close>): the configuration is about the missing hosts, and the order of the program.
  \<^item> \<open>Containers\<close>, \<open>Container_Start\<close> (\<open>startContainerUtils\<close>): the root and gpadmin steps, the version label of a claim,
    the daemons of a container as a step relation that ends for all of them once one fails;
    \<open>Instance_Daemons\<close> puts the three daemons of \<open>main\<close> together: unless it is told to stop, a container ends
    only with an error.
  \<^item> \<open>Pxf_Start\<close> (\<open>cmd/startPXF\<close>): the location from the environment the operator sets, the download, the start.

  \<^bold>\<open>From outside.\<close> \<open>Kubewait\<close> (\<open>pkg/integrationutils/kubewait\<close>, \<open>cmd/greenplumReady\<close>): the waits that poll kubectl; a wait
  for a cluster that succeeds has seen every part of it ready. \<open>Psql_Service\<close> (\<open>kubeexecpsql\<close>): the queries through the service.
  \<open>Gomega\<close>: test steps, whose outcome is a value, a failed assertion or a panic. \<open>Manifests\<close>
  (\<open>integration_utils.go\<close>, \<open>pxf.go\<close>): the texts of the manifests against a line-by-line reference, that a manifest
  asks for anti-affinity only where admission accepts it, and base64 with its inverse for the secrets. \<open>Integration\<close>
  (the other functions of \<open>integration_utils.go\<close>, \<open>pxf.go\<close>, \<open>integration_ensure_utils.go\<close>, \<open>delete_all_charts.go\<close>, \<open>paths.go\<close>):
  set-up, checks and clean-up of a cluster by kubectl and helm; claims are deleted only after every pod was
  seen gone, nodes are labelled each once.

  \<^bold>\<open>The release.\<close> \<open>Security_Check\<close> (\<open>release/security_check.go\<close>): a release note exactly when no notice is open. \<open>Source_Urls\<close>
  (\<open>scripts/build/get-url-source-code.go\<close>): the list of published sources has a line for each package, with the first file that answers.

  \<^bold>\<open>The tests.\<close> \<open>Commandable\<close> (\<open>pkg/commandable\<close>): the fake that stands for \<open>exec.Command\<close>, over a store of cells because it
  hands out pointers into a slice; the last matching expectation answers, and two defects of the aliasing.
  \<open>Reactive\<close> (\<open>pkg/testing/reactive\<close>): the client of the operator's tests behaves as its delegate until a test puts
  a reactor in front. \<open>Test_Doubles\<close> (\<open>pkg/executor/fake\<close>, \<open>pkg/net/ssh/fake\<close>, \<open>pkg/fake\<close>, the hookable file system, the
  mocks of the instance packages): the doubles composed with the code that uses them, where they keep the contract
  of what they replace, and where they do not.

  \<^bold>\<open>Loops and bounds.\<close> Every recursion but two is structural. \<open>pollLoop\<close> (the DNS poller, which waits for a
  deadline) runs on fuel: 301 rounds are enough, because each round sleeps a second or more of the 300 it may take,
  and that it returns then is a property and not an assumption.
  \<open>knownHostsLoop\<close> (the ssh library's parser decides how much it consumes) is a partial function, and its
  result is proved for every file the parser accepts. Goroutines are step relations, and the properties
  hold for every schedule.

  \<^bold>\<open>Not modelled.\<close> The registration of types with a scheme (\<open>pkg/scheme\<close>, \<open>groupversion_info.go\<close>) and the construction of
  loggers (\<open>pkg/gplog\<close>), which only call libraries; \<open>tools.go\<close>, which has no code; the matchers and the kustomize
  helper of the tests, which only call gomega and kubectl.
  Fields of API objects that no code of the repository reads or writes, log messages and standard output
  are left out of the states.
\<close>

end
